(* ===== verification/Prelude.thy ===== *)
theory Prelude
  imports
    Main
    "HOL-Library.Finite_Map"
    "HOL-Library.List_Lexorder"
    "HOL-Library.Char_ord"
    "HOL-Library.Product_Lexorder"
begin

text \<open>
  The prelude of the development: how the Go program's basic values are written in HOL and the
  lemmas every component uses.

  \<^item> A call that can fail returns \<open>'e + 'a\<close>, \<open>Inl\<close> the error; \<open>bindR\<close> is the Go idiom
    \<^verbatim>\<open>x, err := f(); if err != nil { return err }\<close> and \<open>foldR\<close> a \<^verbatim>\<open>for\<close> loop whose
    body may return an error.
  \<^item> A Go map is a finite map \<open>fmap\<close>. A Go \<^verbatim>\<open>range\<close> over a map visits the keys in an
    unspecified order; the loops of the model visit them in the sorted order \<open>gkeys\<close>, one of
    the orders Go allows, and the lemmas about a loop's result do not depend on the order.
  \<^item> A Go \<^verbatim>\<open>int64\<close> is an \<open>int\<close>, with the wrap-around of its arithmetic written out by
    \<open>i64\<close>; Go division truncates towards zero (\<open>go_div\<close>, \<open>go_mod\<close>).
  \<^item> \<open>fmt_d\<close> is \<^verbatim>\<open>fmt.Sprintf("%d")\<close> and \<^verbatim>\<open>strconv.FormatInt\<close>, \<open>ParseInt\<close> is
    \<^verbatim>\<open>strconv.ParseInt(s, 10, 64)\<close>.
\<close>

named_theorems result_simps \<open>inversion of a successful or failed call\<close>
named_theorems gomap_simps \<open>lookup in a map built by a loop\<close>
named_theorems int64_simps \<open>arithmetic that stays within int64\<close>

type_synonym uuid = string


section \<open>Results\<close>

definition bindR :: "'e + 'a \<Rightarrow> ('a \<Rightarrow> 'e + 'b) \<Rightarrow> 'e + 'b" where
  "bindR m f = (case m of Inl e \<Rightarrow> Inl e | Inr x \<Rightarrow> f x)"

definition guardR :: "'e \<Rightarrow> bool \<Rightarrow> 'e + unit" where
  "guardR e b = (if b then Inr () else Inl e)"

fun foldR :: "('x \<Rightarrow> 's \<Rightarrow> 'e + 's) \<Rightarrow> 'x list \<Rightarrow> 's \<Rightarrow> 'e + 's" where
  "foldR f [] s = Inr s"
| "foldR f (x # xs) s = bindR (f x s) (foldR f xs)"

lemma bindR_simps [simp]: "bindR (Inl e) f = Inl e" "bindR (Inr x) f = f x"
  by (simp_all add: bindR_def)

lemma bindR_eq_Inr [result_simps]: "bindR m f = Inr y \<longleftrightarrow> (\<exists>x. m = Inr x \<and> f x = Inr y)"
  by (cases m) auto

lemma bindR_eq_Inl [result_simps]:
  "bindR m f = Inl e \<longleftrightarrow> m = Inl e \<or> (\<exists>x. m = Inr x \<and> f x = Inl e)"
  by (cases m) auto

lemma guardR_eq_Inr [result_simps]: "guardR e b = Inr u \<longleftrightarrow> b"
  by (simp add: guardR_def)

lemma guardR_eq_Inl [result_simps]: "guardR e b = Inl e' \<longleftrightarrow> \<not> b \<and> e' = e"
  by (auto simp: guardR_def)

lemma foldR_append: "foldR f (xs @ ys) s = bindR (foldR f xs s) (foldR f ys)"
proof (induction xs arbitrary: s)
  case (Cons x xs)
  then show ?case by (cases "f x s") simp_all
qed simp

lemma foldR_invariant:
  assumes "foldR f xs s = Inr t" and "P s"
    and "\<And>x u v. x \<in> set xs \<Longrightarrow> P u \<Longrightarrow> f x u = Inr v \<Longrightarrow> P v"
  shows "P t"
  using assms
proof (induction xs arbitrary: s)
  case (Cons x xs)
  from Cons.prems(1) obtain u where u: "f x s = Inr u" "foldR f xs u = Inr t"
    by (auto simp: result_simps)
  with Cons.prems show ?case by (intro Cons.IH [of u]) auto
qed simp

lemma foldR_Inr: "(\<And>x s. x \<in> set xs \<Longrightarrow> f x s = Inr (g x s)) \<Longrightarrow> foldR f xs s = Inr (fold g xs s)"
  by (induction xs arbitrary: s) auto


section \<open>Go maps\<close>

definition gkeys :: "('k::linorder, 'v) fmap \<Rightarrow> 'k list" where
  "gkeys m = sorted_list_of_fset (fmdom m)"

definition gentries :: "('k::linorder, 'v) fmap \<Rightarrow> ('k \<times> 'v) list" where
  "gentries m = map (\<lambda>k. (k, the (fmlookup m k))) (gkeys m)"

text \<open>Reading a missing key of a map of numbers gives Go's zero value.\<close>

definition qget :: "('k, int) fmap \<Rightarrow> 'k \<Rightarrow> int" where
  "qget m k = (case fmlookup m k of None \<Rightarrow> 0 | Some v \<Rightarrow> v)"

lemma set_gkeys [simp]: "set (gkeys m) = fset (fmdom m)"
  by (simp add: gkeys_def)

lemma distinct_gkeys [simp]: "distinct (gkeys m)"
  by (simp add: gkeys_def sorted_list_of_fset.rep_eq)

lemma sorted_gkeys [simp]: "sorted (gkeys m)"
  by (simp add: gkeys_def sorted_list_of_fset.rep_eq)

lemma gkeys_empty [simp]: "gkeys fmempty = []"
  by (simp add: gkeys_def sorted_list_of_fset.rep_eq)

lemma gentries_empty [simp]: "gentries fmempty = []"
  by (simp add: gentries_def)

lemma map_fst_gentries [simp]: "map fst (gentries m) = gkeys m"
  by (simp add: gentries_def comp_def)

lemma in_fmdom_iff: "k |\<in>| fmdom m \<longleftrightarrow> fmlookup m k \<noteq> None"
  by (simp add: fmlookup_dom_iff)

lemma set_gentries: "(k, v) \<in> set (gentries m) \<longleftrightarrow> fmlookup m k = Some v"
  by (auto simp: gentries_def fmlookup_dom_iff)

lemma ball_gentries:
  "(\<forall>e\<in>set (gentries m). P (fst e) (snd e)) \<longleftrightarrow> (\<forall>k v. fmlookup m k = Some v \<longrightarrow> P k v)"
  by (auto simp flip: set_gentries)

lemma distinct_gentries [simp]: "distinct (gentries m)"
  by (metis distinct_gkeys distinct_map map_fst_gentries)

lemma fmempty_iff: "m = fmempty \<longleftrightarrow> (\<forall>k. fmlookup m k = None)"
  by (auto intro: fmap_ext)

lemma qget_None [simp]: "fmlookup m k = None \<Longrightarrow> qget m k = 0"
  by (simp add: qget_def)

lemma qget_Some [simp]: "fmlookup m k = Some v \<Longrightarrow> qget m k = v"
  by (simp add: qget_def)

lemma qget_empty [simp]: "qget fmempty k = 0"
  by simp

lemma qget_fmupd [simp]: "qget (fmupd k v m) j = (if j = k then v else qget m j)"
  by (simp add: qget_def)

lemma qget_fmmap_keys:
  "qget (fmmap_keys f m) k = (case fmlookup m k of None \<Rightarrow> 0 | Some v \<Rightarrow> f k v)"
  by (simp add: qget_def split: option.splits)

text \<open>
  A loop over the entries of a map whose body touches, in the map it builds, the visited key only:
  the entry of a key depends on what was stored for that key.
\<close>

lemma fold_entries_lookup:
  assumes step: "\<And>k v r j. fmlookup (F k v r) j = (if j = k then G k v (fmlookup r k) else fmlookup r j)"
    and "distinct (map fst xs)"
  shows "fmlookup (fold (\<lambda>(k, v). F k v) xs r) j =
    (case map_of xs j of None \<Rightarrow> fmlookup r j | Some v \<Rightarrow> G j v (fmlookup r j))"
  using assms(2)
proof (induction xs arbitrary: r)
  case (Cons x xs)
  obtain k v where x: "x = (k, v)" by (cases x)
  from Cons.prems x have "map_of xs k = None" by (simp add: map_of_eq_None_iff)
  with Cons x show ?case by (auto simp: step split: option.splits)
qed simp

lemma map_of_gentries [simp]: "map_of (gentries m) k = fmlookup m k"
proof (cases "fmlookup m k")
  case None
  then have "k \<notin> fst ` set (gentries m)"
    by (metis list.set_map map_fst_gentries set_gkeys in_fmdom_iff)
  with None show ?thesis by (simp add: map_of_eq_None_iff)
next
  case (Some v)
  then show ?thesis by (simp add: map_of_eq_Some_iff set_gentries)
qed


lemma fold_gentries_lookup:
  assumes "\<And>k v r j. fmlookup (F k v r) j = (if j = k then G k v (fmlookup r k) else fmlookup r j)"
  shows "fmlookup (fold (\<lambda>(k, v). F k v) (gentries m) r) j =
    (case fmlookup m j of None \<Rightarrow> fmlookup r j | Some v \<Rightarrow> G j v (fmlookup r j))"
  using fold_entries_lookup [of F G "gentries m" r j, OF assms] by simp


section \<open>Machine integers\<close>

definition MaxInt64 :: int where
  "MaxInt64 = 9223372036854775807"

definition i64 :: "int \<Rightarrow> int" where
  "i64 x = (x + 9223372036854775808) mod 18446744073709551616 - 9223372036854775808"

definition go_div :: "int \<Rightarrow> int \<Rightarrow> int" where
  "go_div a b = sgn a * sgn b * (\<bar>a\<bar> div \<bar>b\<bar>)"

definition go_mod :: "int \<Rightarrow> int \<Rightarrow> int" where
  "go_mod a b = a - b * go_div a b"

definition ceil_div :: "int \<Rightarrow> int \<Rightarrow> int" where
  "ceil_div a b = - ((- a) div b)"

lemma i64_id [int64_simps]: "- MaxInt64 - 1 \<le> x \<Longrightarrow> x \<le> MaxInt64 \<Longrightarrow> i64 x = x"
  by (simp add: i64_def MaxInt64_def)

lemma i64_range: "- MaxInt64 - 1 \<le> i64 x \<and> i64 x \<le> MaxInt64"
proof -
  have "0 \<le> (x + 9223372036854775808) mod 18446744073709551616"
    and "(x + 9223372036854775808) mod 18446744073709551616 < 18446744073709551616"
    by (rule pos_mod_sign, simp, rule pos_mod_bound, simp)
  then show ?thesis by (simp add: i64_def MaxInt64_def)
qed

lemma go_div_nonneg [int64_simps]: "0 \<le> a \<Longrightarrow> 0 < b \<Longrightarrow> go_div a b = a div b"
  by (cases "a = 0") (auto simp: go_div_def sgn_if)

lemma go_mod_nonneg [int64_simps]: "0 \<le> a \<Longrightarrow> 0 < b \<Longrightarrow> go_mod a b = a mod b"
  by (simp add: go_mod_def go_div_nonneg minus_mult_div_eq_mod)

lemma MaxInt64_pos [simp]: "0 < MaxInt64" "0 \<le> MaxInt64"
  by (simp_all add: MaxInt64_def)

lemma ceil_div_mult [simp]: "0 < b \<Longrightarrow> ceil_div (v * b) b = v"
  by (simp add: ceil_div_def flip: mult_minus_left)

lemma ceil_div_nonneg: "0 \<le> a \<Longrightarrow> 0 < b \<Longrightarrow> 0 \<le> ceil_div a b"
  unfolding ceil_div_def by (simp add: div_nonpos_pos_le0)

lemma ceil_div_le:
  assumes "a \<le> c * b" and "0 < b"
  shows "ceil_div a b \<le> c"
proof -
  have "(- c) * b div b \<le> (- a) div b"
    using assms by (intro zdiv_mono1) simp_all
  moreover have "(- c) * b div b = - c"
    using assms by (intro nonzero_mult_div_cancel_right) simp
  ultimately show ?thesis by (simp add: ceil_div_def)
qed


section \<open>Decimal numbers\<close>

definition digit_char :: "nat \<Rightarrow> char" where
  "digit_char d = char_of (48 + d)"

definition is_digit :: "char \<Rightarrow> bool" where
  "is_digit c \<longleftrightarrow> 48 \<le> (of_char c :: nat) \<and> (of_char c :: nat) \<le> 57"

definition digit_val :: "char \<Rightarrow> nat" where
  "digit_val c = of_char c - 48"

function fmt_nat :: "int \<Rightarrow> string" where
  "fmt_nat n = (if n < 10 then [digit_char (nat n)] else fmt_nat (n div 10) @ [digit_char (nat (n mod 10))])"
  by auto

termination by (relation "measure nat") auto

declare fmt_nat.simps [simp del]

definition fmt_d :: "int \<Rightarrow> string" where
  "fmt_d x = (if x < 0 then CHR ''-'' # fmt_nat (- x) else fmt_nat x)"

definition dec_val :: "string \<Rightarrow> int" where
  "dec_val s = foldl (\<lambda>a c. a * 10 + int (digit_val c)) 0 s"

definition read_nat :: "string \<Rightarrow> int option" where
  "read_nat s = (if s \<noteq> [] \<and> list_all is_digit s then Some (dec_val s) else None)"

definition ParseInt :: "string \<Rightarrow> int option" where
  "ParseInt s =
     (let (neg, body) = (case s of
            c # cs \<Rightarrow> (if c = CHR ''-'' then (True, cs) else if c = CHR ''+'' then (False, cs) else (False, s))
          | [] \<Rightarrow> (False, s))
      in case read_nat body of
           None \<Rightarrow> None
         | Some n \<Rightarrow> (let v = (if neg then - n else n)
                      in if - MaxInt64 - 1 \<le> v \<and> v \<le> MaxInt64 then Some v else None))"

lemma digit_char_props:
  "d < 10 \<Longrightarrow> is_digit (digit_char d)" "d < 10 \<Longrightarrow> digit_val (digit_char d) = d"
  by (simp_all add: is_digit_def digit_val_def digit_char_def)

lemma digit_char_int:
  "0 \<le> n \<Longrightarrow> n < 10 \<Longrightarrow> is_digit (digit_char (nat n)) \<and> int (digit_val (digit_char (nat n))) = n"
  using digit_char_props [of "nat n"] by simp

lemma fmt_nat_digits: "0 \<le> n \<Longrightarrow> list_all is_digit (fmt_nat n)"
proof (induction n rule: fmt_nat.induct)
  case (1 n)
  then show ?case
    using digit_char_int [of n] digit_char_int [of "n mod 10"]
    by (subst fmt_nat.simps) (simp add: pos_imp_zdiv_nonneg_iff)
qed

lemma fmt_nat_nonempty: "fmt_nat n \<noteq> []"
  by (subst fmt_nat.simps) simp

lemma dec_val_fmt_nat: "0 \<le> n \<Longrightarrow> dec_val (fmt_nat n) = n"
proof (induction n rule: fmt_nat.induct)
  case (1 n)
  then show ?case
    using digit_char_int [of n] digit_char_int [of "n mod 10"]
    by (subst fmt_nat.simps) (simp add: dec_val_def pos_imp_zdiv_nonneg_iff)
qed

lemma read_nat_fmt_nat [simp]: "0 \<le> n \<Longrightarrow> read_nat (fmt_nat n) = Some n"
  by (simp add: read_nat_def fmt_nat_digits fmt_nat_nonempty dec_val_fmt_nat)

lemma fmt_nat_hd: "0 \<le> n \<Longrightarrow> fmt_nat n = c # cs \<Longrightarrow> is_digit c"
  using fmt_nat_digits [of n] by simp

lemma ParseInt_fmt_d:
  assumes "- MaxInt64 - 1 \<le> x" and "x \<le> MaxInt64"
  shows "ParseInt (fmt_d x) = Some x"
proof (cases "x < 0")
  case True
  with assms show ?thesis by (simp add: ParseInt_def fmt_d_def)
next
  case False
  obtain c cs where c: "fmt_nat x = c # cs"
    using fmt_nat_nonempty by (cases "fmt_nat x") auto
  then have "is_digit c" using False fmt_nat_hd [of x] by simp
  then have "c \<noteq> CHR ''-''" and "c \<noteq> CHR ''+''" by (auto simp: is_digit_def)
  with False c assms read_nat_fmt_nat [of x] show ?thesis
    by (simp add: ParseInt_def fmt_d_def)
qed

end
