(* ===== verification/Quota_Resources.thy ===== *)
theory Quota_Resources
  imports Prelude
begin

text \<open>
  The quota resource model of the API, package \<^verbatim>\<open>pkg/quota\<close>
  (\<^verbatim>\<open>internal/superphenix-api/pkg/quota/resources.go\<close>): quotas as written by a user
  (\<open>resources\<close>, resource name to quantity text), their numeric form (\<open>quantities\<close>) with the
  arithmetic the hierarchical quotas use, and the translation to the Kubernetes keys.

  \<^verbatim>\<open>k8s.io/apimachinery/pkg/api/resource\<close> is a library outside the repository. A
  \<^verbatim>\<open>resource.Quantity\<close> is represented by its exact value in nano units, the precision of that
  type; the parser and the printers of the library (\<^verbatim>\<open>NewQuantity(v, BinarySI).String()\<close> and
  \<^verbatim>\<open>String()\<close> of any quantity) are the parameter \<open>quantity_lib\<close>, and \<open>quantity_laws\<close> is the documented behaviour the code relies on: a printed quantity is parsed back
  to the value that was printed.

  Error values are kept (\<open>quota_error\<close>), the texts wrapped around them are not.
\<close>

section \<open>Errors\<close>

datatype quota_error =
    ErrInvalidResources
  | ErrOrgQuotaExceeded
  | ErrProjectQuotaExceeded
  | ErrOrganizationNotFound
  | ErrProjectNotFound
  | ErrAZNotFound
  | ErrProjectQuotaEnforced
  | ErrBelowAllocated
  | ErrBelowUsage
  | ErrUsageUnavailable
  | ErrAZUnavailable
  | ErrNotApplied
  | ErrRecordNotFound
  | ErrInternal


section \<open>Resources and quantities\<close>

type_synonym resources = "(string, string) fmap"
type_synonym quantities = "(string, int) fmap"

record quantity_lib =
  ParseQuantity :: "string \<Rightarrow> int option"
  BinarySI :: "int \<Rightarrow> string"
  QuantityString :: "int \<Rightarrow> string"

definition CPU :: string where "CPU = ''cpu''"
definition Memory :: string where "Memory = ''memory''"
definition Disk :: string where "Disk = ''disk''"

definition translations_map :: "(string, string list) fmap" where
  "translations_map = fmap_of_list
     [(CPU, [''requests.cpu'', ''limits.cpu'']),
      (Memory, [''requests.memory'', ''limits.memory'']),
      (Disk, [''requests.storage''])]"

definition validateName :: "string \<Rightarrow> quota_error + unit" where
  "validateName name = guardR ErrInvalidResources (fmlookup translations_map name \<noteq> None)"

definition parseQuantity :: "quantity_lib \<Rightarrow> string \<Rightarrow> string \<Rightarrow> quota_error + int" where
  "parseQuantity L name value =
     (case ParseQuantity L value of
        None \<Rightarrow> Inl ErrInvalidResources
      | Some q \<Rightarrow>
          if q < 0 then Inl ErrInvalidResources
          else let limit = (if name = CPU then MaxInt64 * 10 ^ 6 else MaxInt64 * 10 ^ 9)
               in if limit \<le> q then Inl ErrInvalidResources
                  else if name = CPU then Inr (ceil_div q (10 ^ 6))
                  else Inr (ceil_div q (10 ^ 9)))"

definition Resources_Parse :: "quantity_lib \<Rightarrow> resources \<Rightarrow> quota_error + quantities" where
  "Resources_Parse L r =
     foldR (\<lambda>(name, value) q.
        bindR (validateName name) (\<lambda>_.
        bindR (parseQuantity L name value) (\<lambda>v.
        Inr (fmupd name v q)))) (gentries r) fmempty"

definition ToKubernetesQuota :: "resources \<Rightarrow> (string, string) fmap" where
  "ToKubernetesQuota r =
     fold (\<lambda>(name, value) hard.
        fold (\<lambda>k. fmupd k value)
          (case fmlookup translations_map name of None \<Rightarrow> [] | Some ks \<Rightarrow> ks) hard)
       (gentries r) fmempty"

definition FromKubernetesUsage :: "quantity_lib \<Rightarrow> (string, string) fmap \<Rightarrow> quantities" where
  "FromKubernetesUsage L used =
     fold (\<lambda>(name, keys) res0.
        fold (\<lambda>k res.
          case fmlookup used k of
            None \<Rightarrow> res
          | Some value \<Rightarrow>
              (case parseQuantity L name value of
                 Inl _ \<Rightarrow> res
               | Inr v \<Rightarrow>
                   (case fmlookup res name of
                      None \<Rightarrow> fmupd name v res
                    | Some current \<Rightarrow> if current < v then fmupd name v res else res)))
          keys res0)
       (gentries translations_map) fmempty"

definition Quantities_Resources :: "quantity_lib \<Rightarrow> quantities \<Rightarrow> resources" where
  "Quantities_Resources L q =
     fmmap_keys (\<lambda>name v.
        if name = CPU then
          (if go_mod v 1000 = 0 then fmt_d (go_div v 1000) else fmt_d v @ ''m'')
        else BinarySI L v) q"

definition saturatingAdd :: "int \<Rightarrow> int \<Rightarrow> int" where
  "saturatingAdd a b = (if 0 < b \<and> i64 (MaxInt64 - b) < a then MaxInt64 else i64 (a + b))"

definition Quantities_Add :: "quantities \<Rightarrow> quantities \<Rightarrow> quantities" where
  "Quantities_Add q other =
     fold (\<lambda>(name, v) res. fmupd name (saturatingAdd (qget res name) v) res) (gentries other) q"

definition Quantities_Max :: "quantities \<Rightarrow> quantities \<Rightarrow> quantities" where
  "Quantities_Max q other =
     fold (\<lambda>(name, v) res.
        case fmlookup res name of
          None \<Rightarrow> fmupd name v res
        | Some current \<Rightarrow> if current < v then fmupd name v res else res) (gentries other) q"

definition Quantities_WithZeros :: "quantities \<Rightarrow> quantities \<Rightarrow> quantities" where
  "Quantities_WithZeros q names =
     fold (\<lambda>(name, v) res. fmupd name v res) (gentries q)
       (fold (\<lambda>(name, _) res. fmupd name 0 res) (gentries names) fmempty)"

definition Quantities_Only :: "quantities \<Rightarrow> quantities \<Rightarrow> quantities" where
  "Quantities_Only q keep = fmfilter (\<lambda>name. fmlookup keep name \<noteq> None) q"

definition Quantities_Sub :: "quantities \<Rightarrow> quantities \<Rightarrow> quantities" where
  "Quantities_Sub q other = fmmap_keys (\<lambda>name v. max (i64 (v - qget other name)) 0) q"

definition SplitEqually :: "quantities \<Rightarrow> int \<Rightarrow> quantities" where
  "SplitEqually q count = (if count \<le> 0 then fmempty else fmmap_keys (\<lambda>_ v. go_div v count) q)"

text \<open>The first resource, by name, of which \<open>q\<close> holds more than \<open>limit\<close> allows.\<close>

definition Exceeds :: "quantities \<Rightarrow> quantities \<Rightarrow> string option" where
  "Exceeds q limit = find (\<lambda>name. qget limit name < qget q name) (gkeys limit)"

definition Effective :: "resources \<Rightarrow> resources list \<Rightarrow> resources" where
  "Effective own ancestors =
     fold (\<lambda>(name, v) res. fmupd name v res) (gentries own)
       (fold (\<lambda>parent res0. fold (\<lambda>name res. fmupd name ''0'' res) (gkeys parent) res0)
          ancestors fmempty)"

definition EffectiveAZQuota :: "resources \<Rightarrow> resources \<Rightarrow> resources \<Rightarrow> resources" where
  "EffectiveAZQuota org project az = Effective az [org, project]"


section \<open>What the code relies on of the quantity library\<close>

definition quantity_laws :: "quantity_lib \<Rightarrow> bool" where
  "quantity_laws L \<longleftrightarrow>
     (\<forall>v. 0 \<le> v \<and> v \<le> MaxInt64 \<longrightarrow>
        ParseQuantity L (fmt_d v) = Some (v * 10 ^ 9) \<and>
        ParseQuantity L (fmt_d v @ ''m'') = Some (v * 10 ^ 6) \<and>
        ParseQuantity L (BinarySI L v) = Some (v * 10 ^ 9)) \<and>
     (\<forall>q. 0 \<le> q \<and> q \<le> MaxInt64 * 10 ^ 9 \<longrightarrow> ParseQuantity L (QuantityString L q) = Some q)"

text \<open>Numeric quotas as the code stores them: no negative value, and none at the int64 limit.\<close>

definition qty_ok :: "quantities \<Rightarrow> bool" where
  "qty_ok q \<longleftrightarrow> fmpred (\<lambda>_ v. 0 \<le> v \<and> v \<le> MaxInt64) q"

definition qty_strict :: "quantities \<Rightarrow> bool" where
  "qty_strict q \<longleftrightarrow> fmpred (\<lambda>_ v. 0 \<le> v \<and> v < MaxInt64) q"


section \<open>Arithmetic of quantities\<close>

lemma qty_okD: "qty_ok q \<Longrightarrow> fmlookup q n = Some v \<Longrightarrow> 0 \<le> v \<and> v \<le> MaxInt64"
  by (auto simp: qty_ok_def)

lemma qty_strictD: "qty_strict q \<Longrightarrow> fmlookup q n = Some v \<Longrightarrow> 0 \<le> v \<and> v < MaxInt64"
  by (auto simp: qty_strict_def)

lemma qty_strict_ok [simp, intro]: "qty_strict q \<Longrightarrow> qty_ok q"
  by (force simp: qty_ok_def qty_strict_def fmpred_iff)

lemma qty_empty [simp, intro]: "qty_ok fmempty" "qty_strict fmempty"
  by (simp_all add: qty_ok_def qty_strict_def)

lemma qget_ok: "qty_ok q \<Longrightarrow> 0 \<le> qget q n \<and> qget q n \<le> MaxInt64"
  by (cases "fmlookup q n") (auto dest: qty_okD)

lemma qget_strict: "qty_strict q \<Longrightarrow> 0 \<le> qget q n \<and> qget q n < MaxInt64"
  by (cases "fmlookup q n") (auto dest: qty_strictD)

lemma saturatingAdd_min:
  assumes "0 \<le> a" "a \<le> MaxInt64" "0 \<le> b" "b \<le> MaxInt64"
  shows "saturatingAdd a b = min MaxInt64 (a + b)"
proof -
  have "i64 (MaxInt64 - b) = MaxInt64 - b"
    using assms by (intro i64_id) (auto simp: MaxInt64_def)
  moreover have "a + b \<le> MaxInt64 \<Longrightarrow> i64 (a + b) = a + b"
    using assms by (intro i64_id) (auto simp: MaxInt64_def)
  ultimately show ?thesis using assms by (auto simp: saturatingAdd_def)
qed

lemma Add_lookup [gomap_simps]:
  "fmlookup (Quantities_Add q r) n =
     (case fmlookup r n of None \<Rightarrow> fmlookup q n | Some v \<Rightarrow> Some (saturatingAdd (qget q n) v))"
  unfolding Quantities_Add_def
  by (subst fold_gentries_lookup [where G = "\<lambda>k v s. Some (saturatingAdd (case s of None \<Rightarrow> 0 | Some x \<Rightarrow> x) v)"])
     (auto simp: qget_def split: option.splits)

lemma Max_lookup [gomap_simps]:
  "fmlookup (Quantities_Max q r) n =
     (case fmlookup r n of
        None \<Rightarrow> fmlookup q n
      | Some v \<Rightarrow> Some (case fmlookup q n of None \<Rightarrow> v | Some c \<Rightarrow> max c v))"
  unfolding Quantities_Max_def
  by (subst fold_gentries_lookup [where G = "\<lambda>k v s. Some (case s of None \<Rightarrow> v | Some c \<Rightarrow> max c v)"])
     (auto split: option.splits)

lemma WithZeros_lookup [gomap_simps]:
  "fmlookup (Quantities_WithZeros q r) n =
     (case fmlookup q n of Some v \<Rightarrow> Some v | None \<Rightarrow> if fmlookup r n = None then None else Some 0)"
  unfolding Quantities_WithZeros_def
  by (subst fold_gentries_lookup [where G = "\<lambda>k v s. Some v"],
      simp, subst fold_gentries_lookup [where G = "\<lambda>k v s. Some 0"])
     (auto split: option.splits)

lemma Only_lookup [gomap_simps]:
  "fmlookup (Quantities_Only q r) n = (if fmlookup r n = None then None else fmlookup q n)"
  by (simp add: Quantities_Only_def)

lemma Sub_lookup [gomap_simps]:
  "fmlookup (Quantities_Sub q r) n = map_option (\<lambda>v. max (i64 (v - qget r n)) 0) (fmlookup q n)"
  by (simp add: Quantities_Sub_def)

lemma SplitEqually_lookup [gomap_simps]:
  "fmlookup (SplitEqually q c) n = (if c \<le> 0 then None else map_option (\<lambda>v. go_div v c) (fmlookup q n))"
  by (simp add: SplitEqually_def)

lemma qget_Add:
  assumes "qty_ok q" and "qty_ok r"
  shows "qget (Quantities_Add q r) n = min MaxInt64 (qget q n + qget r n)"
proof (cases "fmlookup r n")
  case None
  then show ?thesis using qget_ok [OF assms(1), of n] by (simp add: Add_lookup qget_def)
next
  case (Some v)
  then show ?thesis
    using qget_ok [OF assms(1), of n] qget_ok [OF assms(2), of n]
    by (simp add: Add_lookup saturatingAdd_min qget_def [of "Quantities_Add q r"])
qed

lemma qty_ok_iff: "qty_ok q \<longleftrightarrow> (\<forall>n v. fmlookup q n = Some v \<longrightarrow> 0 \<le> v \<and> v \<le> MaxInt64)"
  by (simp add: qty_ok_def fmpred_iff)

lemma qty_strict_iff: "qty_strict q \<longleftrightarrow> (\<forall>n v. fmlookup q n = Some v \<longrightarrow> 0 \<le> v \<and> v < MaxInt64)"
  by (simp add: qty_strict_def fmpred_iff)

lemma qty_ok_Add [intro]:
  assumes "qty_ok q" and "qty_ok r"
  shows "qty_ok (Quantities_Add q r)"
  unfolding qty_ok_iff
proof (intro allI impI)
  fix n v
  assume "fmlookup (Quantities_Add q r) n = Some v"
  then have "v = qget (Quantities_Add q r) n" by simp
  then show "0 \<le> v \<and> v \<le> MaxInt64"
    using qget_Add [OF assms, of n] qget_ok [OF assms(1), of n] qget_ok [OF assms(2), of n] by simp
qed

lemma qget_Max: "qty_ok q \<Longrightarrow> qty_ok r \<Longrightarrow> qget (Quantities_Max q r) n = max (qget q n) (qget r n)"
  using qget_ok [of q n] qget_ok [of r n]
  by (auto simp: qget_def Max_lookup split: option.splits)

lemma qty_ok_Max [intro]: "qty_ok q \<Longrightarrow> qty_ok r \<Longrightarrow> qty_ok (Quantities_Max q r)"
  by (fastforce simp: qty_ok_iff Max_lookup max_def split: option.splits if_splits)

lemma qget_Only: "qget (Quantities_Only q r) n = (if fmlookup r n = None then 0 else qget q n)"
  by (simp add: qget_def Only_lookup)

lemma qty_ok_Only [intro]: "qty_ok q \<Longrightarrow> qty_ok (Quantities_Only q r)"
  by (auto simp: qty_ok_iff Only_lookup split: if_splits)

lemma Sub_bounds:
  assumes "qty_ok q" and "qty_ok r" and "fmlookup q n = Some v"
  shows "fmlookup (Quantities_Sub q r) n = Some (max (v - qget r n) 0)"
proof -
  from assms have "0 \<le> v" "v \<le> MaxInt64" by (auto dest: qty_okD)
  then have "i64 (v - qget r n) = v - qget r n"
    using qget_ok [OF assms(2), of n] by (intro i64_id) (auto simp: MaxInt64_def)
  with assms(3) show ?thesis by (simp add: Sub_lookup)
qed

lemma qget_Sub:
  assumes "qty_ok q" and "qty_ok r"
  shows "qget (Quantities_Sub q r) n = max (qget q n - qget r n) 0"
proof (cases "fmlookup q n")
  case None
  then show ?thesis using qget_ok [OF assms(2), of n] by (simp add: qget_def [of "Quantities_Sub q r"] Sub_lookup)
next
  case (Some v)
  then show ?thesis using Sub_bounds [OF assms Some] by simp
qed

lemma qty_ok_Sub [intro]:
  assumes "qty_ok q" and "qty_ok r"
  shows "qty_ok (Quantities_Sub q r)"
  unfolding qty_ok_iff
proof (intro allI impI)
  fix n v
  assume "fmlookup (Quantities_Sub q r) n = Some v"
  then have "v = qget (Quantities_Sub q r) n" by simp
  then show "0 \<le> v \<and> v \<le> MaxInt64"
    using qget_Sub [OF assms, of n] qget_ok [OF assms(1), of n] qget_ok [OF assms(2), of n] by simp
qed

lemma SplitEqually_Some:
  assumes "qty_ok q" and "fmlookup (SplitEqually q c) n = Some w"
  shows "0 < c" and "\<exists>v. fmlookup q n = Some v \<and> w = v div c \<and> 0 \<le> w \<and> w \<le> v"
proof -
  from assms(2) obtain v where v: "0 < c" "fmlookup q n = Some v" "w = go_div v c"
    by (auto simp: SplitEqually_lookup split: if_splits)
  then have "0 \<le> v" using assms(1) by (auto dest: qty_okD)
  then have "v div c \<le> v div 1" using v(1) by (intro zdiv_mono2) auto
  with v \<open>0 \<le> v\<close> show "0 < c" "\<exists>v. fmlookup q n = Some v \<and> w = v div c \<and> 0 \<le> w \<and> w \<le> v"
    by (auto simp: go_div_nonneg pos_imp_zdiv_nonneg_iff)
qed

lemma qget_SplitEqually:
  "qty_ok q \<Longrightarrow> qget (SplitEqually q c) n = (if c \<le> 0 then 0 else qget q n div c)"
  by (cases "fmlookup q n")
     (auto simp: qget_def [of "SplitEqually q c"] SplitEqually_lookup go_div_nonneg dest: qty_okD)

lemma SplitEqually_sum_le:
  assumes "qty_ok q"
  shows "c * qget (SplitEqually q c) n \<le> qget q n"
proof (cases "c \<le> 0")
  case True
  then show ?thesis using qget_ok [OF assms, of n] by (simp add: qget_SplitEqually [OF assms])
next
  case False
  then have "c * (qget q n div c) \<le> qget q n"
    using mult_div_mod_eq [of c "qget q n"] pos_mod_sign [of c "qget q n"] by linarith
  with False show ?thesis by (simp add: qget_SplitEqually [OF assms])
qed

lemma qty_strict_mono:
  assumes "qty_strict q" and "\<And>n v. fmlookup r n = Some v \<Longrightarrow> 0 \<le> v \<and> v \<le> qget q n"
  shows "qty_strict r"
  unfolding qty_strict_iff using assms(2) qget_strict [OF assms(1)] by (meson order_le_less_trans)

lemma qty_strict_SplitEqually [intro]: "qty_strict q \<Longrightarrow> qty_strict (SplitEqually q c)"
  by (rule qty_strict_mono [of q]) (auto dest!: SplitEqually_Some(2) [rotated])

lemma Exceeds_None: "Exceeds q limit = None \<longleftrightarrow> (\<forall>n v. fmlookup limit n = Some v \<longrightarrow> qget q n \<le> v)"
  by (auto simp: Exceeds_def find_None_iff fmlookup_dom_iff qget_def [of limit] not_less split: option.splits)

lemma Exceeds_Some:
  "Exceeds q limit = Some n \<Longrightarrow> \<exists>v. fmlookup limit n = Some v \<and> v < qget q n"
  by (force simp: Exceeds_def find_Some_iff fmlookup_dom_iff dest: nth_mem [of _ "gkeys limit"])

text \<open>A saturating sum of several maps is the exact sum, cut at the int64 limit.\<close>

lemma fold_Add:
  assumes "qty_ok z" and "\<forall>q\<in>set qs. qty_ok q"
  shows "qty_ok (fold (\<lambda>q t. Quantities_Add t q) qs z) \<and>
    qget (fold (\<lambda>q t. Quantities_Add t q) qs z) n = min MaxInt64 (qget z n + (\<Sum>q\<leftarrow>qs. qget q n))"
  using assms
proof (induction qs arbitrary: z)
  case Nil
  then show ?case using qget_ok [of z n] by simp
next
  case (Cons q qs)
  then have *: "qty_ok (Quantities_Add z q)" "\<forall>q\<in>set qs. qty_ok q" "qty_ok q" by auto
  have "0 \<le> (\<Sum>q\<leftarrow>qs. qget q n)"
    using *(2) by (intro sum_list_nonneg) (auto dest: qget_ok)
  then show ?case
    using Cons.IH [OF *(1,2)] qget_Add [OF Cons.prems(1) *(3), of n] by (auto simp: min_def)
qed


section \<open>Effective limits\<close>

lemma fold_keys_zero_lookup:
  "fmlookup (fold (\<lambda>name res. fmupd name z res) ks r) n = (if n \<in> set ks then Some z else fmlookup r n)"
  by (induction ks arbitrary: r) auto

lemma fold_parents_lookup:
  "fmlookup (fold (\<lambda>parent res0. fold (\<lambda>name res. fmupd name z res) (gkeys parent) res0) ps r) n =
     (if \<exists>p\<in>set ps. fmlookup p n \<noteq> None then Some z else fmlookup r n)"
  by (induction ps arbitrary: r) (auto simp: fold_keys_zero_lookup in_fmdom_iff)

lemma Effective_lookup [gomap_simps]:
  "fmlookup (Effective own ps) n =
     (case fmlookup own n of
        Some v \<Rightarrow> Some v
      | None \<Rightarrow> if \<exists>p\<in>set ps. fmlookup p n \<noteq> None then Some ''0'' else None)"
  unfolding Effective_def
  by (subst fold_gentries_lookup [where G = "\<lambda>k v s. Some v"])
     (auto simp: fold_parents_lookup split: option.splits)


section \<open>Parsing\<close>

lemma translations_map_lookup:
  "fmlookup translations_map n =
     (if n = CPU then Some [''requests.cpu'', ''limits.cpu'']
      else if n = Memory then Some [''requests.memory'', ''limits.memory'']
      else if n = Disk then Some [''requests.storage''] else None)"
  by (simp add: translations_map_def)

lemma parseQuantity_ok: "parseQuantity L n s = Inr v \<Longrightarrow> 0 \<le> v \<and> v \<le> MaxInt64"
proof -
  assume *: "parseQuantity L n s = Inr v"
  then obtain q where q: "ParseQuantity L s = Some q" "0 \<le> q"
    by (auto simp: parseQuantity_def split: option.splits if_splits)
  define b :: int where "b = (if n = CPU then 10 ^ 6 else 10 ^ 9)"
  have "v = ceil_div q b" and "q < MaxInt64 * b" and "0 < b"
    using * q by (auto simp: parseQuantity_def b_def Let_def split: if_splits)
  with q(2) show ?thesis using ceil_div_nonneg ceil_div_le [of q MaxInt64 b] by auto
qed

lemma parse_entries:
  "distinct (map fst es) \<Longrightarrow>
   foldR (\<lambda>(name, value) q. bindR (validateName name) (\<lambda>_. bindR (parseQuantity L name value)
       (\<lambda>v. Inr (fmupd name v q)))) es q0 = Inr q \<longleftrightarrow>
     (\<forall>e\<in>set es. fmlookup translations_map (fst e) \<noteq> None \<and> (\<exists>v. parseQuantity L (fst e) (snd e) = Inr v)) \<and>
     q = fold (\<lambda>(n, s) q. fmupd n (projr (parseQuantity L n s)) q) es q0"
proof (induction es arbitrary: q0)
  case (Cons e es)
  obtain n s where e: "e = (n, s)" by (cases e)
  from Cons.prems e have d: "distinct (map fst es)" by simp
  show ?case
  proof (cases "fmlookup translations_map n = None \<or> (\<exists>x. parseQuantity L n s = Inl x)")
    case True
    then show ?thesis by (auto simp: e result_simps validateName_def)
  next
    case False
    then obtain v where "parseQuantity L n s = Inr v" by (cases "parseQuantity L n s") auto
    moreover have "validateName n = Inr ()" using False by (simp add: validateName_def guardR_def)
    ultimately show ?thesis using False by (auto simp: e Cons.IH [OF d])
  qed
qed auto

lemma Parse_iff:
  "Resources_Parse L r = Inr q \<longleftrightarrow>
     (\<forall>n. case fmlookup r n of
            None \<Rightarrow> fmlookup q n = None
          | Some s \<Rightarrow> fmlookup translations_map n \<noteq> None \<and>
              (\<exists>v. parseQuantity L n s = Inr v \<and> fmlookup q n = Some v))" (is "?l \<longleftrightarrow> ?r")
proof -
  let ?q = "fold (\<lambda>(n, s) q. fmupd n (projr (parseQuantity L n s)) q) (gentries r) fmempty"
  have look: "fmlookup ?q n = map_option (\<lambda>s. projr (parseQuantity L n s)) (fmlookup r n)" for n
    by (subst fold_gentries_lookup [where G = "\<lambda>k s _. Some (projr (parseQuantity L k s))"])
       (auto split: option.splits)
  have "?l \<longleftrightarrow> (\<forall>n s. fmlookup r n = Some s \<longrightarrow> fmlookup translations_map n \<noteq> None \<and>
       (\<exists>v. parseQuantity L n s = Inr v)) \<and> q = ?q"
    unfolding Resources_Parse_def
    using ball_gentries [of r "\<lambda>n s. fmlookup translations_map n \<noteq> None \<and> (\<exists>v. parseQuantity L n s = Inr v)"]
    by (simp add: parse_entries)
  also have "\<dots> \<longleftrightarrow> ?r"
  proof
    assume L: "(\<forall>n s. fmlookup r n = Some s \<longrightarrow> fmlookup translations_map n \<noteq> None \<and>
       (\<exists>v. parseQuantity L n s = Inr v)) \<and> q = ?q"
    then have "q = ?q" by simp
    with L look show ?r by (force split: option.splits)
  next
    assume R: ?r
    have "fmlookup q n = fmlookup ?q n" for n
      using R [rule_format, of n] by (auto simp: look split: option.splits)
    then have "q = ?q" by (rule fmap_ext)
    with R show "(\<forall>n s. fmlookup r n = Some s \<longrightarrow> fmlookup translations_map n \<noteq> None \<and>
       (\<exists>v. parseQuantity L n s = Inr v)) \<and> q = ?q"
      by (force split: option.splits)
  qed
  finally show ?thesis .
qed

lemma Parse_lookup:
  assumes "Resources_Parse L r = Inr q"
  shows "fmlookup r n = None \<longleftrightarrow> fmlookup q n = None"
    and "fmlookup r n = Some s \<Longrightarrow> fmlookup q n = Some (projr (parseQuantity L n s)) \<and> parseQuantity L n s \<in> range Inr"
  using assms [unfolded Parse_iff, rule_format, of n] by (auto split: option.splits)

lemma Parse_ok: "Resources_Parse L r = Inr q \<Longrightarrow> qty_ok q"
  unfolding qty_ok_iff
proof (intro allI impI)
  fix n v
  assume P: "Resources_Parse L r = Inr q" and q: "fmlookup q n = Some v"
  then obtain s where "fmlookup r n = Some s" using Parse_lookup(1) [OF P, of n] by auto
  then have "parseQuantity L n s = Inr v"
    using P [unfolded Parse_iff, rule_format, of n] q by auto
  then show "0 \<le> v \<and> v \<le> MaxInt64" by (rule parseQuantity_ok)
qed

lemma Parse_empty [simp]: "Resources_Parse L fmempty = Inr fmempty"
  by (simp add: Parse_iff)

lemma Parse_error: "Resources_Parse L r = Inl e \<Longrightarrow> e = ErrInvalidResources"
proof -
  have "foldR (\<lambda>(name, value) q. bindR (validateName name) (\<lambda>_. bindR (parseQuantity L name value)
       (\<lambda>v. Inr (fmupd name v q)))) es q0 = Inl e \<Longrightarrow> e = ErrInvalidResources" for es q0
    by (induction es arbitrary: q0)
       (auto simp: result_simps validateName_def parseQuantity_def Let_def split: option.splits if_splits)
  then show "Resources_Parse L r = Inl e \<Longrightarrow> e = ErrInvalidResources"
    by (simp add: Resources_Parse_def)
qed

lemma parseQuantity_zero: "quantity_laws L \<Longrightarrow> parseQuantity L n ''0'' = Inr 0"
proof -
  assume "quantity_laws L"
  then have "ParseQuantity L (fmt_d 0) = Some (0 * 10 ^ 9)" unfolding quantity_laws_def by (metis MaxInt64_pos(2) order_refl)
  moreover have "fmt_d 0 = ''0''" by code_simp
  ultimately show ?thesis by (simp add: parseQuantity_def ceil_div_def MaxInt64_def)
qed

lemma parseQuantity_format:
  assumes L: "quantity_laws L" and q: "fmlookup q n = Some v" and v: "0 \<le> v" "v < MaxInt64"
    and s: "fmlookup (Quantities_Resources L q) n = Some s"
  shows "parseQuantity L n s = Inr v"
proof (cases "n = CPU")
  case False
  with q s have "s = BinarySI L v" by (simp add: Quantities_Resources_def)
  moreover have "ParseQuantity L (BinarySI L v) = Some (v * 10 ^ 9)"
    using L v unfolding quantity_laws_def by auto
  ultimately show ?thesis using False v by (simp add: parseQuantity_def)
next
  case True
  show ?thesis
  proof (cases "v mod 1000 = 0")
    case even: True
    with True q s v have s: "s = fmt_d (v div 1000)"
      by (simp add: Quantities_Resources_def go_mod_nonneg go_div_nonneg)
    have "0 \<le> v div 1000" "v div 1000 \<le> MaxInt64" using v by auto
    then have "ParseQuantity L (fmt_d (v div 1000)) = Some (v div 1000 * 10 ^ 9)"
      using L unfolding quantity_laws_def by auto
    moreover have "v div 1000 * 10 ^ 9 = v * 10 ^ 6" using even by auto
    ultimately have "ParseQuantity L s = Some (v * 10 ^ 6)" using s by metis
    then show ?thesis using True v by (simp add: parseQuantity_def)
  next
    case odd: False
    with True q s v have s: "s = fmt_d v @ ''m''"
      by (simp add: Quantities_Resources_def go_mod_nonneg)
    have "ParseQuantity L (fmt_d v @ ''m'') = Some (v * 10 ^ 6)"
      using L v unfolding quantity_laws_def by auto
    then show ?thesis using True v s by (simp add: parseQuantity_def)
  qed
qed

lemma Resources_dom: "fmlookup (Quantities_Resources L q) n = None \<longleftrightarrow> fmlookup q n = None"
  by (simp add: Quantities_Resources_def)

lemma Parse_Resources:
  assumes "quantity_laws L" and "qty_strict q"
    and "\<And>n. fmlookup q n \<noteq> None \<Longrightarrow> fmlookup translations_map n \<noteq> None"
  shows "Resources_Parse L (Quantities_Resources L q) = Inr q"
  unfolding Parse_iff
proof
  fix n
  show "case fmlookup (Quantities_Resources L q) n of None \<Rightarrow> fmlookup q n = None
    | Some s \<Rightarrow> fmlookup translations_map n \<noteq> None \<and> (\<exists>v. parseQuantity L n s = Inr v \<and> fmlookup q n = Some v)"
  proof (cases "fmlookup q n")
    case None
    then show ?thesis using Resources_dom [of L q n] by simp
  next
    case (Some v)
    then obtain s where s: "fmlookup (Quantities_Resources L q) n = Some s"
      using Resources_dom [of L q n] by auto
    with Some assms show ?thesis using parseQuantity_format [of L q n v s] by (auto dest: qty_strictD)
  qed
qed

lemma Parse_names: "Resources_Parse L r = Inr q \<Longrightarrow> fmlookup q n \<noteq> None \<Longrightarrow> fmlookup translations_map n \<noteq> None"
  using Parse_lookup(1) [of L r q n] unfolding Parse_iff
  by (auto split: option.splits dest: spec [of _ n])

text \<open>Parsing the effective limit of a level: its own value, 0 for what only an ancestor limits.\<close>

lemma Parse_Effective:
  assumes L: "quantity_laws L" and own: "Resources_Parse L own = Inr q"
    and ps: "\<forall>p\<in>set ps. \<exists>pq. Resources_Parse L p = Inr pq"
  obtains e where "Resources_Parse L (Effective own ps) = Inr e"
    and "\<And>n. fmlookup e n = (case fmlookup q n of Some v \<Rightarrow> Some v
             | None \<Rightarrow> if \<exists>p\<in>set ps. fmlookup p n \<noteq> None then Some 0 else None)"
proof
  define e where "e = (fmmap_keys (\<lambda>n s. projr (parseQuantity L n s)) (Effective own ps))"
  show "Resources_Parse L (Effective own ps) = Inr e"
    unfolding Parse_iff
  proof
    fix n
    have z: "fmlookup translations_map n \<noteq> None" if "p \<in> set ps" "fmlookup p n \<noteq> None" for p
      using ps that Parse_lookup(1) [of L p _ n] Parse_names by metis
    show "case fmlookup (Effective own ps) n of None \<Rightarrow> fmlookup e n = None
      | Some s \<Rightarrow> fmlookup translations_map n \<noteq> None \<and> (\<exists>v. parseQuantity L n s = Inr v \<and> fmlookup e n = Some v)"
      using own [unfolded Parse_iff, rule_format, of n] z
      by (auto simp: e_def Effective_lookup parseQuantity_zero [OF L] split: option.splits if_splits)
  qed
  show "fmlookup e n = (case fmlookup q n of Some v \<Rightarrow> Some v
         | None \<Rightarrow> if \<exists>p\<in>set ps. fmlookup p n \<noteq> None then Some 0 else None)" for n
    using own [unfolded Parse_iff, rule_format, of n]
    by (auto simp: e_def Effective_lookup parseQuantity_zero [OF L] split: option.splits)
qed


section \<open>Kubernetes keys\<close>

text \<open>Every Kubernetes key stands for one resource.\<close>

definition k8s_owner :: "string \<Rightarrow> string option" where
  "k8s_owner k =
     (if k = ''requests.cpu'' \<or> k = ''limits.cpu'' then Some CPU
      else if k = ''requests.memory'' \<or> k = ''limits.memory'' then Some Memory
      else if k = ''requests.storage'' then Some Disk else None)"

definition k8s_keys :: "string \<Rightarrow> string list" where
  "k8s_keys name = (case fmlookup translations_map name of None \<Rightarrow> [] | Some ks \<Rightarrow> ks)"

lemma k8s_keys_owner: "k \<in> set (k8s_keys name) \<longleftrightarrow> k8s_owner k = Some name"
  by (auto simp: k8s_keys_def k8s_owner_def translations_map_lookup CPU_def Memory_def Disk_def)

lemma fold_upd_keys: "fmlookup (fold (\<lambda>k. fmupd k v) ks m) k = (if k \<in> set ks then Some v else fmlookup m k)"
  by (induction ks arbitrary: m) auto

lemma ToKubernetes_fold:
  assumes "distinct (map fst es)"
  shows "fmlookup (fold (\<lambda>(name, value) hard. fold (\<lambda>k. fmupd k value) (k8s_keys name) hard) es m) k =
    (case k8s_owner k of
       None \<Rightarrow> fmlookup m k
     | Some name \<Rightarrow> (case map_of es name of None \<Rightarrow> fmlookup m k | Some v \<Rightarrow> Some v))"
  using assms
proof (induction es arbitrary: m)
  case (Cons e es)
  obtain n v where e: "e = (n, v)" by (cases e)
  then have "map_of es n = None" using Cons.prems by (simp add: map_of_eq_None_iff)
  with Cons e show ?case by (auto simp: fold_upd_keys k8s_keys_owner split: option.splits)
qed (simp split: option.splits)

lemma ToKubernetes_lookup [gomap_simps]:
  "fmlookup (ToKubernetesQuota r) k = (case k8s_owner k of None \<Rightarrow> None | Some name \<Rightarrow> fmlookup r name)"
  using ToKubernetes_fold [of "gentries r" fmempty k]
  by (simp add: ToKubernetesQuota_def k8s_keys_def split: option.splits)

lemma gentries_translations:
  "gentries translations_map =
     [(CPU, [''requests.cpu'', ''limits.cpu'']), (Disk, [''requests.storage'']),
      (Memory, [''requests.memory'', ''limits.memory''])]"
  by code_simp

lemma FromKubernetes_ToKubernetes:
  assumes "Resources_Parse L r = Inr q"
  shows "FromKubernetesUsage L (ToKubernetesQuota r) = q"
proof (rule fmap_ext)
  fix n
  have v: "fmlookup r m = Some s \<Longrightarrow> parseQuantity L m s = Inr (the (fmlookup q m)) \<and> fmlookup q m \<noteq> None"
    and w: "fmlookup r m = None \<Longrightarrow> fmlookup q m = None" for m s
    using assms [unfolded Parse_iff, rule_format, of m] by auto
  have none: "fmlookup q n = None" if "n \<noteq> CPU" "n \<noteq> Memory" "n \<noteq> Disk"
    using that Parse_names [OF assms, of n] by (cases "fmlookup q n") (auto simp: translations_map_lookup)
  have names: "CPU \<noteq> Memory" "CPU \<noteq> Disk" "Memory \<noteq> Disk" by (simp_all add: CPU_def Memory_def Disk_def)
  have T: "fmlookup (ToKubernetesQuota r) ''requests.cpu'' = fmlookup r CPU"
    "fmlookup (ToKubernetesQuota r) ''limits.cpu'' = fmlookup r CPU"
    "fmlookup (ToKubernetesQuota r) ''requests.memory'' = fmlookup r Memory"
    "fmlookup (ToKubernetesQuota r) ''limits.memory'' = fmlookup r Memory"
    "fmlookup (ToKubernetesQuota r) ''requests.storage'' = fmlookup r Disk"
    by (simp_all add: ToKubernetes_lookup k8s_owner_def)
  show "fmlookup (FromKubernetesUsage L (ToKubernetesQuota r)) n = fmlookup q n"
    unfolding FromKubernetesUsage_def gentries_translations
    using v [of CPU] v [of Memory] v [of Disk] w [of CPU] w [of Memory] w [of Disk] none names
    by (cases "fmlookup r CPU"; cases "fmlookup r Memory"; cases "fmlookup r Disk";
        cases "n = CPU"; cases "n = Memory"; cases "n = Disk") (auto simp: T)
qed

end
