(* ===== verification/Quota_Store.thy ===== *)
theory Quota_Store
  imports Quota_Resources
begin

text \<open>
  What the quota code keeps and reads: the availability zones of the configuration
  (\<^verbatim>\<open>internal/superphenix-api/internal/az/az.go\<close>, \<^verbatim>\<open>populateAZCodes\<close> of
  \<^verbatim>\<open>pkg/config/config.go\<close>) and the quota tables (\<^verbatim>\<open>internal/db/model/quota.go\<close> and the
  section Database access of \<^verbatim>\<open>internal/db/crud/quota/hierarchical.go\<close>).

  A table is a finite map from its primary key (or unique index) to its row, so that two rows never
  share a key, as the database enforces. A row with \<open>Deleted\<close> set is soft-deleted: GORM hides it from
  every query that is not \<^verbatim>\<open>Unscoped\<close>. \<open>quota_revisions_seq\<close> is the last value the sequence
  of that name has handed out. Timestamps are not modelled. A query that fails aborts its
  transaction and leaves the tables as they are, so the model describes the queries that succeed.
\<close>

section \<open>Availability zones\<close>

record az_config =
  Code :: string
  AuthSecret :: string
  ControllerUrl :: string
  Whitelist :: "uuid list"

type_synonym az_table = "(string, az_config) fmap"

definition populateAZCodes :: "az_table \<Rightarrow> az_table" where
  "populateAZCodes azs = fmmap_keys (\<lambda>code az. az\<lparr>Code := code\<rparr>) azs"

definition az_GetByCode :: "az_table \<Rightarrow> string \<Rightarrow> uuid \<Rightarrow> az_config option" where
  "az_GetByCode azs code orgaId =
     (case fmlookup azs code of
        None \<Rightarrow> None
      | Some az \<Rightarrow> if Whitelist az \<noteq> [] \<and> orgaId \<notin> set (Whitelist az) then None else Some az)"

definition az_FindAll :: "az_table \<Rightarrow> uuid \<Rightarrow> az_config list" where
  "az_FindAll azs orgaId =
     filter (\<lambda>az. Whitelist az = [] \<or> orgaId \<in> set (Whitelist az)) (map snd (gentries azs))"


section \<open>Tables\<close>

record project_row =
  OrgaId :: uuid
  p_Deleted :: bool

record quota_row =
  Revision :: int
  Resources :: resources
  Deleted :: bool

record project_quota_row = quota_row +
  OrganizationId :: uuid

record quota_db =
  organizations :: "(uuid, bool) fmap"
  projects :: "(uuid, project_row) fmap"
  organization_quotas :: "(uuid, quota_row) fmap"
  project_quotas :: "(uuid, project_quota_row) fmap"
  project_az_quotas :: "(uuid \<times> string, quota_row) fmap"
  quota_revisions_seq :: int
  project_deactivations :: "(uuid \<times> string, string) fmap"

text \<open>The subquery \<^verbatim>\<open>liveProjectIds\<close>: the project exists, is not soft-deleted and is of the
  organization.\<close>

definition liveProject :: "quota_db \<Rightarrow> uuid \<Rightarrow> uuid \<Rightarrow> bool" where
  "liveProject db org p =
     (case fmlookup (projects db) p of None \<Rightarrow> False | Some row \<Rightarrow> OrgaId row = org \<and> \<not> p_Deleted row)"

definition lockOrganization :: "quota_db \<Rightarrow> uuid \<Rightarrow> quota_error + unit" where
  "lockOrganization db org = guardR ErrOrganizationNotFound (fmlookup (organizations db) org = Some False)"

definition checkProject :: "quota_db \<Rightarrow> uuid \<Rightarrow> uuid \<Rightarrow> quota_error + unit" where
  "checkProject db org p = guardR ErrProjectNotFound (liveProject db org p)"

definition nilWhenNotFound :: "('k, ('a) quota_row_scheme) fmap \<Rightarrow> 'k \<Rightarrow> ('a) quota_row_scheme option" where
  "nilWhenNotFound tab k =
     (case fmlookup tab k of None \<Rightarrow> None | Some row \<Rightarrow> if Deleted row then None else Some row)"

definition findOrganizationQuota :: "quota_db \<Rightarrow> uuid \<Rightarrow> quota_row option" where
  "findOrganizationQuota db org = nilWhenNotFound (organization_quotas db) org"

definition findProjectQuota :: "quota_db \<Rightarrow> uuid \<Rightarrow> project_quota_row option" where
  "findProjectQuota db p = nilWhenNotFound (project_quotas db) p"

definition listAZQuotas :: "quota_db \<Rightarrow> uuid \<Rightarrow> (string \<times> quota_row) list" where
  "listAZQuotas db p =
     map (\<lambda>((_, c), row). (c, row))
       (filter (\<lambda>((p', _), row). p' = p \<and> \<not> Deleted row) (gentries (project_az_quotas db)))"

definition listOrganizationAZQuotas :: "quota_db \<Rightarrow> uuid \<Rightarrow> ((uuid \<times> string) \<times> quota_row) list" where
  "listOrganizationAZQuotas db org =
     filter (\<lambda>((p, _), row). liveProject db org p \<and> \<not> Deleted row) (gentries (project_az_quotas db))"

definition listProjectQuotas :: "quota_db \<Rightarrow> uuid \<Rightarrow> (uuid \<times> project_quota_row) list" where
  "listProjectQuotas db org =
     filter (\<lambda>(p, row). OrganizationId row = org \<and> liveProject db org p \<and> \<not> Deleted row)
       (gentries (project_quotas db))"

definition listProjectIds :: "quota_db \<Rightarrow> uuid \<Rightarrow> uuid list" where
  "listProjectIds db org = filter (liveProject db org) (gkeys (projects db))"

definition ListAllProjects :: "quota_db \<Rightarrow> (uuid \<times> uuid) list" where
  "ListAllProjects db =
     sort (map (\<lambda>(p, row). (OrgaId row, p)) (filter (\<lambda>(_, row). \<not> p_Deleted row) (gentries (projects db))))"

text \<open>Every inserted row takes the next value of the revision sequence.\<close>

definition nextval :: "quota_db \<Rightarrow> int \<times> quota_db" where
  "nextval db = (let r = quota_revisions_seq db + 1 in (r, db\<lparr>quota_revisions_seq := r\<rparr>))"

definition upsertOrganizationQuota :: "quota_db \<Rightarrow> uuid \<Rightarrow> resources \<Rightarrow> quota_db \<times> quota_row" where
  "upsertOrganizationQuota db org res =
     (let (rev, db1) = nextval db;
          row = \<lparr>Revision = rev, Resources = res, Deleted = False\<rparr>
      in (db1\<lparr>organization_quotas := fmupd org row (organization_quotas db1)\<rparr>, row))"

definition upsertProjectQuota ::
  "quota_db \<Rightarrow> uuid \<Rightarrow> uuid \<Rightarrow> resources \<Rightarrow> quota_db \<times> project_quota_row" where
  "upsertProjectQuota db org p res =
     (let (rev, db1) = nextval db;
          row = \<lparr>Revision = rev, Resources = res, Deleted = False, OrganizationId = org\<rparr>
      in (db1\<lparr>project_quotas := fmupd p row (project_quotas db1)\<rparr>, row))"

definition upsertAZQuota :: "quota_db \<Rightarrow> uuid \<Rightarrow> string \<Rightarrow> resources \<Rightarrow> quota_db \<times> quota_row" where
  "upsertAZQuota db p code res =
     (let (rev, db1) = nextval db;
          row = \<lparr>Revision = rev, Resources = res, Deleted = False\<rparr>
      in (db1\<lparr>project_az_quotas := fmupd (p, code) row (project_az_quotas db1)\<rparr>, row))"

text \<open>The hard deletions (\<^verbatim>\<open>Unscoped\<close>) of one project, of one organization quota and of every
  quota of an organization.\<close>

definition deleteProjectRows :: "quota_db \<Rightarrow> uuid \<Rightarrow> quota_db" where
  "deleteProjectRows db p =
     db\<lparr>project_az_quotas := fmfilter (\<lambda>(p', _). p' \<noteq> p) (project_az_quotas db),
        project_quotas := fmdrop p (project_quotas db)\<rparr>"

definition deleteOrganizationRow :: "quota_db \<Rightarrow> uuid \<Rightarrow> quota_db" where
  "deleteOrganizationRow db org = db\<lparr>organization_quotas := fmdrop org (organization_quotas db)\<rparr>"

definition projectOf :: "quota_db \<Rightarrow> uuid \<Rightarrow> uuid \<Rightarrow> bool" where
  "projectOf db org p = (case fmlookup (projects db) p of None \<Rightarrow> False | Some row \<Rightarrow> OrgaId row = org)"

definition deleteOrganizationRows :: "quota_db \<Rightarrow> uuid \<Rightarrow> quota_db" where
  "deleteOrganizationRows db org =
     db\<lparr>project_az_quotas := fmfilter (\<lambda>(p, _). \<not> projectOf db org p) (project_az_quotas db),
        project_quotas := fmfilter
          (\<lambda>p. case fmlookup (project_quotas db) p of None \<Rightarrow> False | Some row \<Rightarrow> OrganizationId row \<noteq> org)
          (project_quotas db),
        organization_quotas := fmdrop org (organization_quotas db)\<rparr>"

text \<open>
  \<^verbatim>\<open>UPDATE ... SET revision = nextval(...)\<close>: the sequence is read once per updated row. The
  rows are updated in key order; which row takes which of the new values is not specified by the
  database and no lemma depends on it.
\<close>

definition bumpRows ::
  "(('k::linorder) \<Rightarrow> ('a) quota_row_scheme \<Rightarrow> bool) \<Rightarrow> ('k, ('a) quota_row_scheme) fmap \<Rightarrow> int
     \<Rightarrow> ('k, ('a) quota_row_scheme) fmap \<times> int" where
  "bumpRows sel tab seq =
     fold (\<lambda>(k, row) (t, s). if sel k row then (fmupd k (row\<lparr>Revision := s + 1\<rparr>) t, s + 1) else (t, s))
       (gentries tab) (tab, seq)"

definition bumpOrganizationRevisions :: "quota_db \<Rightarrow> uuid \<Rightarrow> quota_db" where
  "bumpOrganizationRevisions db org =
     (let (azt, s1) = bumpRows (\<lambda>(p, _) row. liveProject db org p \<and> \<not> Deleted row)
                        (project_az_quotas db) (quota_revisions_seq db);
          (pt, s2) = bumpRows (\<lambda>_ row. OrganizationId row = org \<and> \<not> Deleted row) (project_quotas db) s1
      in db\<lparr>project_az_quotas := azt, project_quotas := pt, quota_revisions_seq := s2\<rparr>)"


section \<open>What the tables hold\<close>

text \<open>The quota of each level as a user sees it: the resources of the row, unless there is none or it
  is soft-deleted.\<close>

definition orgQ :: "quota_db \<Rightarrow> uuid \<Rightarrow> resources option" where
  "orgQ db org = map_option Resources (findOrganizationQuota db org)"

definition projQ :: "quota_db \<Rightarrow> uuid \<Rightarrow> resources option" where
  "projQ db p = map_option Resources (findProjectQuota db p)"

definition azQ :: "quota_db \<Rightarrow> uuid \<Rightarrow> string \<Rightarrow> resources option" where
  "azQ db p c = map_option Resources (nilWhenNotFound (project_az_quotas db) (p, c))"

lemmas level_defs = orgQ_def projQ_def azQ_def findOrganizationQuota_def findProjectQuota_def nilWhenNotFound_def

text \<open>
  The store as an interface: what the three levels hold after each write. The quota operations of
  \<^verbatim>\<open>hierarchical.go\<close> reach the tables through these calls only.
\<close>

locale quota_store =
  fixes org_quota :: "'db \<Rightarrow> uuid \<Rightarrow> resources option"
    and proj_quota :: "'db \<Rightarrow> uuid \<Rightarrow> resources option"
    and az_quota :: "'db \<Rightarrow> uuid \<Rightarrow> string \<Rightarrow> resources option"
    and live :: "'db \<Rightarrow> uuid \<Rightarrow> uuid \<Rightarrow> bool"
    and set_org :: "'db \<Rightarrow> uuid \<Rightarrow> resources \<Rightarrow> 'db"
    and set_proj :: "'db \<Rightarrow> uuid \<Rightarrow> uuid \<Rightarrow> resources \<Rightarrow> 'db"
    and set_az :: "'db \<Rightarrow> uuid \<Rightarrow> string \<Rightarrow> resources \<Rightarrow> 'db"
  assumes set_org: "org_quota (set_org db o1 r) = (org_quota db)(o1 := Some r)"
      "proj_quota (set_org db o1 r) = proj_quota db" "az_quota (set_org db o1 r) = az_quota db"
      "live (set_org db o1 r) = live db"
    and set_proj: "org_quota (set_proj db o1 p r) = org_quota db"
      "proj_quota (set_proj db o1 p r) = (proj_quota db)(p := Some r)"
      "az_quota (set_proj db o1 p r) = az_quota db" "live (set_proj db o1 p r) = live db"
    and set_az: "org_quota (set_az db p c r) = org_quota db" "proj_quota (set_az db p c r) = proj_quota db"
      "az_quota (set_az db p c r) = (az_quota db)(p := (az_quota db p)(c := Some r))"
      "live (set_az db p c r) = live db"
begin

lemmas writes = set_org set_proj set_az

text \<open>Giving the same quota to a list of zones of one project.\<close>

lemma set_az_list:
  "org_quota (fold (\<lambda>c d. set_az d p c r) cs db) = org_quota db"
  "proj_quota (fold (\<lambda>c d. set_az d p c r) cs db) = proj_quota db"
  "az_quota (fold (\<lambda>c d. set_az d p c r) cs db) p' c' =
     (if p' = p \<and> c' \<in> set cs then Some r else az_quota db p' c')"
  "live (fold (\<lambda>c d. set_az d p c r) cs db) = live db"
  by (induction cs arbitrary: db) (auto simp: writes)

text \<open>A project quota given to one project leaves every other project as it is.\<close>

lemma set_proj_frame: "p' \<noteq> p \<Longrightarrow> proj_quota (set_proj db o1 p r) p' = proj_quota db p'"
  by (simp add: writes)

end

interpretation qs: quota_store orgQ projQ azQ liveProject
  "\<lambda>db org r. fst (upsertOrganizationQuota db org r)"
  "\<lambda>db org p r. fst (upsertProjectQuota db org p r)"
  "\<lambda>db p c r. fst (upsertAZQuota db p c r)"
  by unfold_locales
     (auto simp: upsertOrganizationQuota_def upsertProjectQuota_def upsertAZQuota_def nextval_def Let_def
        level_defs liveProject_def fun_eq_iff split: option.splits)


section \<open>Lists of rows\<close>

lemma listAZQuotas_iff:
  "(c, row) \<in> set (listAZQuotas db p) \<longleftrightarrow> nilWhenNotFound (project_az_quotas db) (p, c) = Some row"
  by (force simp: listAZQuotas_def set_gentries nilWhenNotFound_def split: option.splits if_splits)

lemma listAZQuotas_distinct: "distinct (map fst (listAZQuotas db p))"
proof -
  have "inj_on (\<lambda>e. snd (fst e)) (set (filter (\<lambda>((p', _), row). p' = p \<and> \<not> Deleted row) (gentries (project_az_quotas db))))"
    by (auto simp: inj_on_def set_gentries)
  then show ?thesis
    by (auto simp: listAZQuotas_def distinct_map comp_def case_prod_unfold split_def)
qed

lemma listOrganizationAZQuotas_iff:
  "((p, c), row) \<in> set (listOrganizationAZQuotas db org) \<longleftrightarrow>
     liveProject db org p \<and> nilWhenNotFound (project_az_quotas db) (p, c) = Some row"
  by (force simp: listOrganizationAZQuotas_def set_gentries nilWhenNotFound_def split: option.splits if_splits)

lemma listOrganizationAZQuotas_member:
  "e \<in> set (listOrganizationAZQuotas db org) \<Longrightarrow>
     liveProject db org (fst (fst e)) \<and> nilWhenNotFound (project_az_quotas db) (fst e) = Some (snd e)"
  using listOrganizationAZQuotas_iff [of "fst (fst e)" "snd (fst e)" "snd e" db org] by simp

lemma listProjectQuotas_iff:
  "(p, row) \<in> set (listProjectQuotas db org) \<longleftrightarrow>
     liveProject db org p \<and> OrganizationId row = org \<and> findProjectQuota db p = Some row"
  by (force simp: listProjectQuotas_def set_gentries findProjectQuota_def nilWhenNotFound_def
        split: option.splits if_splits)

lemma listProjectQuotas_distinct: "distinct (map fst (listProjectQuotas db org))"
  unfolding listProjectQuotas_def
  by (metis (no_types, lifting) distinct_gkeys distinct_map_filter map_fst_gentries)

lemma set_listProjectIds: "set (listProjectIds db org) = {p. liveProject db org p}"
  by (auto simp: listProjectIds_def liveProject_def fmlookup_dom_iff split: option.splits)

lemma distinct_listProjectIds [simp]: "distinct (listProjectIds db org)"
  by (simp add: listProjectIds_def)

lemma finite_liveProject [simp]: "finite {p. liveProject db org p}"
  by (metis List.finite_set set_listProjectIds)

lemma liveProject_unique: "liveProject db o1 p \<Longrightarrow> liveProject db o2 p \<Longrightarrow> o1 = o2"
  by (auto simp: liveProject_def split: option.splits)

text \<open>The zones of an organization, and that a code leads to the zone that carries it.\<close>

lemma populateAZCodes_Code: "fmlookup (populateAZCodes azs) k = Some az \<Longrightarrow> Code az = k"
  by (auto simp: populateAZCodes_def)

lemma az_FindAll_iff:
  "az \<in> set (az_FindAll azs org) \<longleftrightarrow>
     (\<exists>k. fmlookup azs k = Some az) \<and> (Whitelist az = [] \<or> org \<in> set (Whitelist az))"
  by (auto simp: az_FindAll_def image_iff set_gentries) (metis set_gentries snd_conv)+

lemma az_FindAll_populate:
  "az \<in> set (az_FindAll (populateAZCodes azs) org) \<longleftrightarrow> az_GetByCode (populateAZCodes azs) (Code az) org = Some az"
proof -
  have "(\<exists>k. fmlookup (populateAZCodes azs) k = Some az) \<longleftrightarrow>
      fmlookup (populateAZCodes azs) (Code az) = Some az"
    by (metis populateAZCodes_Code)
  then show ?thesis
    by (auto simp: az_FindAll_iff az_GetByCode_def split: option.splits if_splits)
qed

lemma az_FindAll_codes_distinct: "distinct (map Code (az_FindAll (populateAZCodes azs) org))"
proof -
  have "map (\<lambda>e. Code (snd e)) (gentries (populateAZCodes azs)) = map fst (gentries (populateAZCodes azs))"
    by (rule map_cong) (auto simp: populateAZCodes_def set_gentries)
  then have "distinct (map (\<lambda>e. Code (snd e)) (gentries (populateAZCodes azs)))" by simp
  then show ?thesis unfolding az_FindAll_def filter_map
    by (simp add: comp_def distinct_map_filter)
qed

end
