(* ===== verification/Quota_Hierarchy.thy ===== *)
theory Quota_Hierarchy
  imports Quota_Store
begin

text \<open>
  The hierarchical quotas, \<^verbatim>\<open>internal/superphenix-api/internal/db/crud/quota/hierarchical.go\<close>: an
  organization quota is split into project quotas, a project quota into one quota per availability
  zone. This theory holds the definitions, in the order of the Go file: the hierarchy of a project,
  the distribution of a parent quota to its children, the allocations, the rules every write checks,
  the writes and the overviews.

  A write runs in a transaction that holds the row lock of the organization, so it is one step on the
  tables: \<open>inOrganizationTransaction\<close> gives the new tables when the body succeeds and the old ones
  when it fails (the revisions a failed body drew from the sequence are lost, which the step relation of
  \<open>Quota_Lifecycle\<close> adds). The function variables \<^verbatim>\<open>ReadUsage\<close> and \<^verbatim>\<open>PushAZ\<close>, which the quotasync package
  sets, are the fields of \<open>hooks\<close> (\<open>None\<close> for nil); they act on a world \<open>'w\<close>, the
  clusters. A rollback does not undo what a hook did to the world.
\<close>

section \<open>Hierarchy of a project\<close>

record hierarchy =
  h_Organization :: resources
  h_Project :: resources
  h_AZs :: "(string, resources) fmap"
  OrganizationRevision :: int
  ProjectRevision :: int
  AZRevisions :: "(string, int) fmap"

definition h_AZ_quota :: "hierarchy \<Rightarrow> string \<Rightarrow> resources" where
  "h_AZ_quota h code = (case fmlookup (h_AZs h) code of None \<Rightarrow> fmempty | Some r \<Rightarrow> r)"

definition Hierarchy_AZ :: "hierarchy \<Rightarrow> string \<Rightarrow> resources" where
  "Hierarchy_AZ h code = EffectiveAZQuota (h_Organization h) (h_Project h) (h_AZ_quota h code)"

definition Hierarchy_Revision :: "hierarchy \<Rightarrow> string \<Rightarrow> int" where
  "Hierarchy_Revision h code =
     (let rev = OrganizationRevision h;
          rev = (if rev < ProjectRevision h then ProjectRevision h else rev);
          azRev = qget (AZRevisions h) code
      in if rev < azRev then azRev else rev)"

definition loadHierarchy :: "quota_db \<Rightarrow> uuid \<Rightarrow> uuid \<Rightarrow> hierarchy" where
  "loadHierarchy db org p =
     (let h0 = \<lparr>h_Organization = fmempty, h_Project = fmempty, h_AZs = fmempty,
                OrganizationRevision = 0, ProjectRevision = 0, AZRevisions = fmempty\<rparr>;
          h1 = (case findOrganizationQuota db org of
                  None \<Rightarrow> h0
                | Some q \<Rightarrow> h0\<lparr>h_Organization := Resources q, OrganizationRevision := Revision q\<rparr>);
          h2 = (case findProjectQuota db p of
                  None \<Rightarrow> h1
                | Some q \<Rightarrow> h1\<lparr>h_Project := Resources q, ProjectRevision := Revision q\<rparr>)
      in fold (\<lambda>(c, q) h. h\<lparr>h_AZs := fmupd c (Resources q) (h_AZs h),
                           AZRevisions := fmupd c (Revision q) (AZRevisions h)\<rparr>)
           (listAZQuotas db p) h2)"

definition projectLimit :: "resources \<Rightarrow> resources \<Rightarrow> resources" where
  "projectLimit organizationResources projectResources = Effective projectResources [organizationResources]"


section \<open>Allocations\<close>

definition alloc_get :: "(uuid, quantities) fmap \<Rightarrow> uuid \<Rightarrow> quantities" where
  "alloc_get m p = (case fmlookup m p of None \<Rightarrow> fmempty | Some q \<Rightarrow> q)"

definition projectAllocations ::
  "quantity_lib \<Rightarrow> quota_db \<Rightarrow> uuid
     \<Rightarrow> quota_error + ((uuid \<times> project_quota_row) list \<times> (uuid, quantities) fmap)" where
  "projectAllocations L db org =
     (let projectQuotas = listProjectQuotas db org in
      bindR (foldR (\<lambda>(p, row) allocations.
               bindR (Resources_Parse L (Resources row)) (\<lambda>parsed.
               Inr (fmupd p parsed allocations))) projectQuotas fmempty) (\<lambda>allocations.
      bindR (foldR (\<lambda>((p, _), row) held.
               bindR (Resources_Parse L (Resources row)) (\<lambda>parsed.
               Inr (fmupd p (Quantities_Add (alloc_get held p) parsed) held)))
               (listOrganizationAZQuotas db org) fmempty) (\<lambda>heldByAZs.
      Inr (projectQuotas,
           fold (\<lambda>(p, held) a. fmupd p (Quantities_Max (alloc_get a p) held) a)
             (gentries heldByAZs) allocations))))"

definition sumAllocations :: "(uuid, quantities) fmap \<Rightarrow> quantities" where
  "sumAllocations allocations =
     fold (\<lambda>allocation total. Quantities_Add total allocation) (map snd (gentries allocations)) fmempty"

definition sumAZQuotas ::
  "quantity_lib \<Rightarrow> (string, resources) fmap \<Rightarrow> string \<Rightarrow> quota_error + quantities" where
  "sumAZQuotas L azQuotas excludedAZ =
     foldR (\<lambda>(code, res) total.
        if code = excludedAZ then Inr total
        else bindR (Resources_Parse L res) (\<lambda>parsed. Inr (Quantities_Add total parsed)))
       (gentries azQuotas) fmempty"

definition quotasByProject :: "(uuid \<times> project_quota_row) list \<Rightarrow> (uuid, resources) fmap" where
  "quotasByProject projectQuotas = fold (\<lambda>(p, row). fmupd p (Resources row)) projectQuotas fmempty"

definition defined_get :: "(uuid, resources) fmap \<Rightarrow> uuid \<Rightarrow> resources" where
  "defined_get m p = (case fmlookup m p of None \<Rightarrow> fmempty | Some r \<Rightarrow> r)"


section \<open>Rules\<close>

definition checkNotBelow :: "quantities \<Rightarrow> quantities \<Rightarrow> quota_error + unit" where
  "checkNotBelow limit allocated = guardR ErrBelowAllocated (Exceeds allocated limit = None)"

definition checkCapacity ::
  "quantities \<Rightarrow> quantities \<Rightarrow> quantities \<Rightarrow> quantities \<Rightarrow> quota_error \<Rightarrow> quota_error + unit" where
  "checkCapacity requested current allocatedToOthers limit errExceeded =
     (let increased = fmfilter (\<lambda>name. fmlookup limit name \<noteq> None \<and> qget current name < qget requested name) requested;
          limitOfIncreased = fmfilter (\<lambda>name. fmlookup increased name \<noteq> None) limit
      in guardR errExceeded (Exceeds (Quantities_Add allocatedToOthers increased) limitOfIncreased = None))"

definition checkProjectCoversAZs :: "quantity_lib \<Rightarrow> hierarchy \<Rightarrow> resources \<Rightarrow> quota_error + unit" where
  "checkProjectCoversAZs L h requested =
     bindR (Resources_Parse L (projectLimit (h_Organization h) requested)) (\<lambda>effectiveLimit.
     bindR (sumAZQuotas L (h_AZs h) []) (\<lambda>allocatedToAZs.
     checkNotBelow effectiveLimit allocatedToAZs))"

definition checkProjectFitsInOrganization ::
  "quantity_lib \<Rightarrow> quota_db \<Rightarrow> uuid \<Rightarrow> uuid \<Rightarrow> quantities \<Rightarrow> resources \<Rightarrow> quota_error + unit" where
  "checkProjectFitsInOrganization L db org p requested organizationResources =
     (if organizationResources = fmempty then Inr ()
      else bindR (Resources_Parse L organizationResources) (\<lambda>organizationLimit.
           bindR (projectAllocations L db org) (\<lambda>(_, allocations).
           checkCapacity requested (alloc_get allocations p) (sumAllocations (fmdrop p allocations))
             organizationLimit ErrOrgQuotaExceeded)))"

definition checkAZFitsInProject ::
  "quantity_lib \<Rightarrow> hierarchy \<Rightarrow> string \<Rightarrow> quantities \<Rightarrow> quota_error + unit" where
  "checkAZFitsInProject L h code requested =
     bindR (Resources_Parse L (projectLimit (h_Organization h) (h_Project h))) (\<lambda>effectiveLimit.
     bindR (Resources_Parse L (h_AZ_quota h code)) (\<lambda>current.
     bindR (sumAZQuotas L (h_AZs h) code) (\<lambda>allocatedToOtherAZs.
     checkCapacity requested current allocatedToOtherAZs effectiveLimit ErrProjectQuotaExceeded)))"

definition loweredLimits :: "quantity_lib \<Rightarrow> resources \<Rightarrow> resources \<Rightarrow> quota_error + quantities" where
  "loweredLimits L before after =
     bindR (Resources_Parse L before) (\<lambda>parsedBefore.
     bindR (Resources_Parse L after) (\<lambda>parsedAfter.
     Inr (fmfilter (\<lambda>name. case fmlookup parsedBefore name of
                       None \<Rightarrow> False
                     | Some oldValue \<Rightarrow> qget parsedAfter name < oldValue) parsedAfter)))"

record azusage =
  Hard :: quantities
  Used :: quantities

record 'w hooks =
  ReadUsage :: "('w \<Rightarrow> uuid \<Rightarrow> uuid \<Rightarrow> string \<Rightarrow> quota_error + azusage) option"
  PushAZ :: "('w \<Rightarrow> uuid \<Rightarrow> uuid \<Rightarrow> string \<Rightarrow> (string, string) fmap \<Rightarrow> quota_error option \<times> 'w) option"

definition checkUsage ::
  "'w hooks \<Rightarrow> 'w \<Rightarrow> uuid \<Rightarrow> uuid \<Rightarrow> string \<Rightarrow> quantities \<Rightarrow> quota_error + unit" where
  "checkUsage H w org p code lowered =
     (if lowered = fmempty then Inr ()
      else case ReadUsage H of
        None \<Rightarrow> Inl ErrInternal
      | Some readUsage \<Rightarrow>
          (case readUsage w org p code of
             Inl _ \<Rightarrow> Inl ErrUsageUnavailable
           | Inr usage \<Rightarrow>
               foldR (\<lambda>name _.
                  if fmlookup (Hard usage) name = None \<or> fmlookup (Used usage) name = None
                  then Inl ErrUsageUnavailable
                  else if qget lowered name < qget (Used usage) name then Inl ErrBelowUsage
                  else Inr ()) (gkeys lowered) ()))"

definition pushLowered ::
  "'w hooks \<Rightarrow> 'w \<Rightarrow> uuid \<Rightarrow> uuid \<Rightarrow> string \<Rightarrow> resources \<Rightarrow> quota_error option \<times> 'w" where
  "pushLowered H w org p code effective =
     (case PushAZ H of
        None \<Rightarrow> (Some ErrInternal, w)
      | Some push \<Rightarrow>
          (case push w org p code (ToKubernetesQuota effective) of
             (None, w') \<Rightarrow> (None, w')
           | (Some e, w') \<Rightarrow> (Some (if e = ErrBelowUsage then ErrBelowUsage else ErrAZUnavailable), w')))"


section \<open>Distribution of a parent quota to its children\<close>

definition splitAmongAZs ::
  "quantity_lib \<Rightarrow> az_table \<Rightarrow> quota_db \<Rightarrow> uuid \<Rightarrow> uuid \<Rightarrow> resources \<Rightarrow> quota_error + quota_db" where
  "splitAmongAZs L azs db org p projectResources =
     bindR (Resources_Parse L projectResources) (\<lambda>parsed.
       let codes = sort (map Code (az_FindAll azs org));
           equalShare = Quantities_Resources L (SplitEqually parsed (int (length codes)))
       in Inr (fold (\<lambda>code d. fst (upsertAZQuota d p code equalShare)) codes db))"

definition saveProjectQuota ::
  "quantity_lib \<Rightarrow> az_table \<Rightarrow> quota_db \<Rightarrow> uuid \<Rightarrow> uuid \<Rightarrow> resources \<Rightarrow> bool
     \<Rightarrow> quota_error + (quota_db \<times> project_quota_row)" where
  "saveProjectQuota L azs db org p res hasAZQuotas =
     (let (db1, row) = upsertProjectQuota db org p res
      in if hasAZQuotas then Inr (db1, row)
         else bindR (splitAmongAZs L azs db1 org p res) (\<lambda>db2. Inr (db2, row)))"

definition distributeAmongProjects ::
  "quantity_lib \<Rightarrow> az_table \<Rightarrow> quota_db \<Rightarrow> uuid \<Rightarrow> quantities \<Rightarrow> (uuid, quantities) fmap
     \<Rightarrow> quota_error + quota_db" where
  "distributeAmongProjects L azs db org organizationLimit allocations =
     (let projectIds = listProjectIds db org;
          equalShare = SplitEqually (Quantities_Sub organizationLimit (sumAllocations allocations))
                         (int (length projectIds))
      in foldR (\<lambda>p d.
           let projectQuota = Quantities_Add equalShare (Quantities_Only (alloc_get allocations p) organizationLimit)
           in bindR (saveProjectQuota L azs d org p (Quantities_Resources L projectQuota)
                       (fmlookup allocations p \<noteq> None)) (\<lambda>(d', _). Inr d'))
           projectIds db)"

definition missingQuantities :: "quantities \<Rightarrow> quantities \<Rightarrow> resources \<Rightarrow> quantities" where
  "missingQuantities allocation organizationLimit defined =
     (let held = Quantities_Only allocation organizationLimit
      in fmfilter (\<lambda>name. fmlookup defined name = None \<and> 0 < qget held name) held)"

definition coverAZQuotas ::
  "quantity_lib \<Rightarrow> quota_db \<Rightarrow> uuid \<Rightarrow> quantities \<Rightarrow> (uuid \<times> project_quota_row) list
     \<Rightarrow> (uuid, quantities) fmap \<Rightarrow> quota_db" where
  "coverAZQuotas L db org organizationLimit projectQuotas allocations =
     (let defined = quotasByProject projectQuotas
      in fold (\<lambda>p d.
           let missing = missingQuantities (alloc_get allocations p) organizationLimit (defined_get defined p)
           in if missing = fmempty then d
              else fst (upsertProjectQuota d org p
                     (defined_get defined p ++\<^sub>f Quantities_Resources L missing)))
           (gkeys allocations) db)"


section \<open>Writes\<close>

definition inOrganizationTransaction ::
  "quota_db \<Rightarrow> uuid \<Rightarrow> (quota_db \<Rightarrow> quota_error + (quota_db \<times> 'a)) \<Rightarrow> quota_db \<times> (quota_error + 'a)" where
  "inOrganizationTransaction db org fn =
     (case bindR (lockOrganization db org) (\<lambda>_. fn db) of
        Inl e \<Rightarrow> (db, Inl e)
      | Inr (db', a) \<Rightarrow> (db', Inr a))"

definition inProjectTransaction ::
  "quota_db \<Rightarrow> uuid \<Rightarrow> uuid \<Rightarrow> (quota_db \<Rightarrow> quota_error + (quota_db \<times> 'a)) \<Rightarrow> quota_db \<times> (quota_error + 'a)" where
  "inProjectTransaction db org p fn =
     inOrganizationTransaction db org (\<lambda>tx. bindR (checkProject tx org p) (\<lambda>_. fn tx))"

definition SetOrganizationQuota ::
  "quantity_lib \<Rightarrow> az_table \<Rightarrow> quota_db \<Rightarrow> uuid \<Rightarrow> resources \<Rightarrow> quota_db \<times> (quota_error + quota_row)" where
  "SetOrganizationQuota L azs db org res =
     (case Resources_Parse L res of
        Inl e \<Rightarrow> (db, Inl e)
      | Inr organizationLimit \<Rightarrow>
          inOrganizationTransaction db org (\<lambda>tx.
            bindR (projectAllocations L tx org) (\<lambda>(projectQuotas, allocations).
            bindR (checkNotBelow organizationLimit (sumAllocations allocations)) (\<lambda>_.
            bindR (if projectQuotas = []
                   then distributeAmongProjects L azs tx org organizationLimit allocations
                   else Inr (coverAZQuotas L tx org organizationLimit projectQuotas allocations)) (\<lambda>tx'.
            Inr (upsertOrganizationQuota tx' org res))))))"

definition SetProjectQuota ::
  "quantity_lib \<Rightarrow> az_table \<Rightarrow> quota_db \<Rightarrow> uuid \<Rightarrow> uuid \<Rightarrow> resources
     \<Rightarrow> quota_db \<times> (quota_error + project_quota_row)" where
  "SetProjectQuota L azs db org p res =
     (case Resources_Parse L res of
        Inl e \<Rightarrow> (db, Inl e)
      | Inr requested \<Rightarrow>
          inProjectTransaction db org p (\<lambda>tx.
            let h = loadHierarchy tx org p in
            bindR (checkProjectCoversAZs L h res) (\<lambda>_.
            bindR (checkProjectFitsInOrganization L tx org p requested (h_Organization h)) (\<lambda>_.
            saveProjectQuota L azs tx org p res (h_AZs h \<noteq> fmempty)))))"

text \<open>The body of the transaction of \<^verbatim>\<open>SetProjectAZQuota\<close>, up to the push of a lowered quota.\<close>

definition setProjectAZQuota_tx ::
  "quantity_lib \<Rightarrow> 'w hooks \<Rightarrow> quota_db \<Rightarrow> 'w \<Rightarrow> uuid \<Rightarrow> uuid \<Rightarrow> string \<Rightarrow> resources \<Rightarrow> quantities
     \<Rightarrow> quota_error + (quota_db \<times> quota_row \<times> quantities \<times> resources)" where
  "setProjectAZQuota_tx L H tx w org p code res requested =
     bindR (lockOrganization tx org) (\<lambda>_.
     bindR (checkProject tx org p) (\<lambda>_.
       let h = loadHierarchy tx org p in
       bindR (checkAZFitsInProject L h code requested) (\<lambda>_.
         let enforcedBefore = Hierarchy_AZ h code;
             enforcedAfter = EffectiveAZQuota (h_Organization h) (h_Project h) res
         in bindR (loweredLimits L enforcedBefore enforcedAfter) (\<lambda>lowered.
            bindR (checkUsage H w org p code lowered) (\<lambda>_.
              let (tx', saved) = upsertAZQuota tx p code res
              in Inr (tx', saved, lowered, enforcedAfter))))))"

definition SetProjectAZQuota ::
  "quantity_lib \<Rightarrow> az_table \<Rightarrow> 'w hooks \<Rightarrow> quota_db \<Rightarrow> 'w \<Rightarrow> uuid \<Rightarrow> uuid \<Rightarrow> string \<Rightarrow> resources
     \<Rightarrow> quota_db \<times> 'w \<times> (quota_error + quota_row)" where
  "SetProjectAZQuota L azs H db w org p code res =
     (case Resources_Parse L res of
        Inl e \<Rightarrow> (db, w, Inl e)
      | Inr requested \<Rightarrow>
          (case az_GetByCode azs code org of
             None \<Rightarrow> (db, w, Inl ErrAZNotFound)
           | Some _ \<Rightarrow>
               (case setProjectAZQuota_tx L H db w org p code res requested of
                  Inl e \<Rightarrow> (db, w, Inl e)
                | Inr (db', saved, lowered, enforcedAfter) \<Rightarrow>
                    if lowered = fmempty then (db', w, Inr saved)
                    else case pushLowered H w org p code enforcedAfter of
                           (None, w') \<Rightarrow> (db', w', Inr saved)
                         | (Some e, w') \<Rightarrow> (db, w', Inl e))))"

definition DeleteOrganizationQuota :: "quota_db \<Rightarrow> uuid \<Rightarrow> quota_db \<times> (quota_error + unit)" where
  "DeleteOrganizationQuota db org =
     inOrganizationTransaction db org (\<lambda>tx.
       Inr (bumpOrganizationRevisions (deleteOrganizationRow tx org) org, ()))"

definition DeleteProjectQuota :: "quota_db \<Rightarrow> uuid \<Rightarrow> uuid \<Rightarrow> quota_db \<times> (quota_error + unit)" where
  "DeleteProjectQuota db org p =
     inProjectTransaction db org p (\<lambda>tx.
       bindR (guardR ErrProjectQuotaEnforced (findOrganizationQuota tx org = None)) (\<lambda>_.
       Inr (deleteProjectRows tx p, ())))"

text \<open>\<^verbatim>\<open>DeleteForProject\<close> and \<^verbatim>\<open>DeleteForOrganization\<close> run within the transaction of their caller.\<close>

definition DeleteForProject :: "quota_db \<Rightarrow> uuid \<Rightarrow> uuid \<Rightarrow> quota_error + quota_db" where
  "DeleteForProject tx org p = bindR (lockOrganization tx org) (\<lambda>_. Inr (deleteProjectRows tx p))"

definition DeleteForOrganization :: "quota_db \<Rightarrow> uuid \<Rightarrow> quota_error + quota_db" where
  "DeleteForOrganization tx org = bindR (lockOrganization tx org) (\<lambda>_. Inr (deleteOrganizationRows tx org))"


section \<open>Overviews\<close>

record organization_overview =
  oo_Unlimited :: bool
  oo_Limit :: "resources option"
  oo_Allocated :: resources
  oo_Remaining :: "resources option"
  oo_ProjectQuotas :: "(uuid \<times> resources) list"

record az_overview =
  ao_CodeAZ :: string
  ao_Limit :: "resources option"
  ao_Available :: bool
  ao_Used :: resources

record project_overview =
  po_Unlimited :: bool
  po_Limit :: "resources option"
  po_Allocated :: resources
  po_Remaining :: "resources option"
  po_AZQuotas :: "az_overview list"

definition effectiveProjectQuotas ::
  "quota_db \<Rightarrow> uuid \<Rightarrow> resources \<Rightarrow> (uuid \<times> project_quota_row) list \<Rightarrow> (uuid \<times> resources) list" where
  "effectiveProjectQuotas db org organizationResources projectQuotas =
     (let defined = quotasByProject projectQuotas
      in map (\<lambda>p. (p, projectLimit organizationResources (defined_get defined p))) (listProjectIds db org))"

definition GetOrganizationQuotaOverview ::
  "quantity_lib \<Rightarrow> quota_db \<Rightarrow> uuid \<Rightarrow> quota_error + organization_overview" where
  "GetOrganizationQuotaOverview L db org =
     bindR (projectAllocations L db org) (\<lambda>(projectQuotas, allocations).
       let allocated = sumAllocations allocations;
           unlimited = \<lparr>oo_Unlimited = True, oo_Limit = None, oo_Allocated = Quantities_Resources L allocated,
                        oo_Remaining = None,
                        oo_ProjectQuotas = map (\<lambda>(p, row). (p, Resources row)) projectQuotas\<rparr>
       in case findOrganizationQuota db org of
            None \<Rightarrow> Inr unlimited
          | Some q \<Rightarrow>
              if Resources q = fmempty then Inr unlimited
              else bindR (Resources_Parse L (Resources q)) (\<lambda>organizationLimit.
                Inr \<lparr>oo_Unlimited = False, oo_Limit = Some (Resources q),
                     oo_Allocated = Quantities_Resources L (Quantities_WithZeros allocated organizationLimit),
                     oo_Remaining = Some (Quantities_Resources L (Quantities_Sub organizationLimit allocated)),
                     oo_ProjectQuotas = effectiveProjectQuotas db org (Resources q) projectQuotas\<rparr>))"

definition azQuotaOverviews :: "az_table \<Rightarrow> uuid \<Rightarrow> hierarchy \<Rightarrow> az_overview list" where
  "azQuotaOverviews azs org h =
     (let codes = sort (gkeys (h_AZs h) @
                    filter (\<lambda>code. fmlookup (h_AZs h) code = None) (map Code (az_FindAll azs org)))
      in map (\<lambda>code.
           let effectiveLimit = Hierarchy_AZ h code
           in \<lparr>ao_CodeAZ = code,
               ao_Limit = (if effectiveLimit = fmempty then None else Some effectiveLimit),
               ao_Available = False, ao_Used = fmempty\<rparr>) codes)"

definition GetProjectQuotaOverview ::
  "quantity_lib \<Rightarrow> az_table \<Rightarrow> quota_db \<Rightarrow> uuid \<Rightarrow> uuid \<Rightarrow> quota_error + project_overview" where
  "GetProjectQuotaOverview L azs db org p =
     bindR (checkProject db org p) (\<lambda>_.
       let h = loadHierarchy db org p in
       bindR (sumAZQuotas L (h_AZs h) []) (\<lambda>allocatedToAZs.
         let effectiveLimit = projectLimit (h_Organization h) (h_Project h);
             overviews = azQuotaOverviews azs org h
         in if effectiveLimit = fmempty
            then Inr \<lparr>po_Unlimited = True, po_Limit = None,
                      po_Allocated = Quantities_Resources L allocatedToAZs, po_Remaining = None,
                      po_AZQuotas = overviews\<rparr>
            else bindR (Resources_Parse L effectiveLimit) (\<lambda>parsedLimit.
              Inr \<lparr>po_Unlimited = False, po_Limit = Some effectiveLimit,
                   po_Allocated = Quantities_Resources L (Quantities_WithZeros allocatedToAZs parsedLimit),
                   po_Remaining = Some (Quantities_Resources L (Quantities_Sub parsedLimit allocatedToAZs)),
                   po_AZQuotas = overviews\<rparr>)))"

end
