(* ===== verification/Quota_Invariant.thy ===== *)
theory Quota_Invariant
  imports Quota_Hierarchy
begin

text \<open>
  What the hierarchical quotas promise, and that every write keeps it. The specification is over the
  exact integer values of what the tables hold (\<open>lv\<close>), not over the saturating arithmetic of the
  code: \<open>azSum\<close> is what the zones of a project hold of a resource, \<open>alloc\<close> what a project takes
  from its organization, \<open>proj_limit\<close> the effective limit of a project. \<open>quota_inv\<close> says that
  children never hold more than their parent: the projects of an organization fit in its quota
  (\<open>org_fits\<close>) and the zones of a project in its effective limit (\<open>proj_fits\<close>).

  The first half relates the loops of the code to these sums; the second half has one lemma per
  write.
\<close>

section \<open>The specification\<close>

definition parsed :: "quantity_lib \<Rightarrow> resources \<Rightarrow> quantities" where
  "parsed L r = (case Resources_Parse L r of Inl _ \<Rightarrow> fmempty | Inr q \<Rightarrow> q)"

definition lv :: "quantity_lib \<Rightarrow> resources option \<Rightarrow> quantities" where
  "lv L ro = (case ro of None \<Rightarrow> fmempty | Some r \<Rightarrow> parsed L r)"

definition azCodes :: "quota_db \<Rightarrow> uuid \<Rightarrow> string set" where
  "azCodes db p = {c. azQ db p c \<noteq> None}"

definition azSum :: "quantity_lib \<Rightarrow> quota_db \<Rightarrow> uuid \<Rightarrow> string \<Rightarrow> int" where
  "azSum L db p n = (\<Sum>c\<in>azCodes db p. qget (lv L (azQ db p c)) n)"

definition alloc :: "quantity_lib \<Rightarrow> quota_db \<Rightarrow> uuid \<Rightarrow> string \<Rightarrow> int" where
  "alloc L db p n = max (qget (lv L (projQ db p)) n) (azSum L db p n)"

definition proj_limit :: "quantity_lib \<Rightarrow> quota_db \<Rightarrow> uuid \<Rightarrow> uuid \<Rightarrow> string \<Rightarrow> int option" where
  "proj_limit L db org p n =
     (case fmlookup (lv L (projQ db p)) n of
        Some v \<Rightarrow> Some v
      | None \<Rightarrow> if fmlookup (lv L (orgQ db org)) n = None then None else Some 0)"

definition org_fits :: "quantity_lib \<Rightarrow> quota_db \<Rightarrow> uuid \<Rightarrow> bool" where
  "org_fits L db org \<longleftrightarrow>
     (\<forall>n l. fmlookup (lv L (orgQ db org)) n = Some l \<longrightarrow> (\<Sum>p | liveProject db org p. alloc L db p n) \<le> l)"

definition proj_fits :: "quantity_lib \<Rightarrow> quota_db \<Rightarrow> uuid \<Rightarrow> uuid \<Rightarrow> bool" where
  "proj_fits L db org p \<longleftrightarrow> (\<forall>n l. proj_limit L db org p n = Some l \<longrightarrow> azSum L db p n \<le> l)"

definition row_ok :: "quantity_lib \<Rightarrow> resources option \<Rightarrow> bool" where
  "row_ok L ro \<longleftrightarrow> (case ro of None \<Rightarrow> True | Some r \<Rightarrow> \<exists>q. Resources_Parse L r = Inr q \<and> qty_strict q)"

definition stored_ok :: "quantity_lib \<Rightarrow> quota_db \<Rightarrow> bool" where
  "stored_ok L db \<longleftrightarrow>
     (\<forall>org. row_ok L (orgQ db org)) \<and> (\<forall>p. row_ok L (projQ db p)) \<and> (\<forall>p c. row_ok L (azQ db p c)) \<and>
     (\<forall>p. azQ db p [] = None)"

text \<open>The zones of the configuration, as \<^verbatim>\<open>populateAZCodes\<close> leaves them: each carries its key, and
  no key is empty (\<^verbatim>\<open>sumAZQuotas\<close> takes an empty code for \<open>leave no zone out\<close>).\<close>

definition azs_ok :: "az_table \<Rightarrow> bool" where
  "azs_ok azs \<longleftrightarrow> fmpred (\<lambda>k az. k \<noteq> [] \<and> Code az = k) azs"

definition owner_ok :: "quota_db \<Rightarrow> bool" where
  "owner_ok db \<longleftrightarrow>
     (\<forall>p row org. findProjectQuota db p = Some row \<longrightarrow> liveProject db org p \<longrightarrow> OrganizationId row = org)"

definition quota_inv :: "quantity_lib \<Rightarrow> quota_db \<Rightarrow> bool" where
  "quota_inv L db \<longleftrightarrow> stored_ok L db \<and> owner_ok db \<and>
     (\<forall>org. org_fits L db org \<and> (\<forall>p. liveProject db org p \<longrightarrow> proj_fits L db org p))"


section \<open>Sums\<close>

lemma min_sum_min:
  fixes M :: int
  assumes "finite A" and "0 \<le> M" and "\<And>a. a \<in> A \<Longrightarrow> 0 \<le> f a"
  shows "min M (\<Sum>a\<in>A. min M (f a)) = min M (\<Sum>a\<in>A. f a)"
  using assms(1,3)
proof (induction A rule: finite_induct)
  case (insert a A)
  define S T where "S = (\<Sum>a\<in>A. min M (f a))" and "T = (\<Sum>a\<in>A. f a)"
  have "0 \<le> S" "0 \<le> T" using insert.prems assms(2) by (auto simp: S_def T_def intro!: sum_nonneg)
  moreover have "0 \<le> f a" using insert.prems by auto
  moreover have "min M S = min M T" using insert by (simp add: S_def T_def)
  ultimately have "min M (min M (f a) + S) = min M (f a + T)" by linarith
  then show ?case using insert.hyps by (simp add: S_def T_def)
qed simp

lemma sum_if_diff: "finite A \<Longrightarrow> (\<Sum>c\<in>A. if c = x then 0 else g c) = (\<Sum>c\<in>A - {x}. g c)"
  by (rule sum.mono_neutral_cong_right) auto

lemma sum_list_gentries:
  "(\<Sum>e\<leftarrow>gentries m. f (fst e) (snd e)) = (\<Sum>k\<in>fset (fmdom m). f k (the (fmlookup m k)))"
  by (simp add: gentries_def comp_def sum_list_distinct_conv_sum_set)

lemma row_okD: "row_ok L (Some r) \<Longrightarrow> Resources_Parse L r = Inr (parsed L r) \<and> qty_strict (parsed L r)"
  by (auto simp: row_ok_def parsed_def)

lemma qty_strict_lv [simp, intro]: "row_ok L ro \<Longrightarrow> qty_strict (lv L ro)"
  by (cases ro) (auto simp: lv_def dest: row_okD)

lemma lv_simps [simp]: "lv L None = fmempty" "lv L (Some r) = parsed L r"
  by (simp_all add: lv_def)

lemma lv_dom: "row_ok L (Some r) \<Longrightarrow> fmlookup (lv L (Some r)) n = None \<longleftrightarrow> fmlookup r n = None"
  using Parse_lookup(1) [of L r] row_okD by fastforce

lemma lv_names: "row_ok L ro \<Longrightarrow> fmlookup (lv L ro) n \<noteq> None \<Longrightarrow> fmlookup translations_map n \<noteq> None"
  by (cases ro) (auto dest: row_okD Parse_names)

lemma stored_okD:
  "stored_ok L db \<Longrightarrow> row_ok L (orgQ db org)"
  "stored_ok L db \<Longrightarrow> row_ok L (projQ db p)"
  "stored_ok L db \<Longrightarrow> row_ok L (azQ db p c)"
  "stored_ok L db \<Longrightarrow> azQ db p [] = None"
  by (auto simp: stored_ok_def)

lemma azs_ok_codes: "azs_ok azs \<Longrightarrow> [] \<notin> set (map Code (az_FindAll azs org))"
  by (fastforce simp: azs_ok_def fmpred_iff az_FindAll_iff)

lemma azs_ok_GetByCode: "azs_ok azs \<Longrightarrow> az_GetByCode azs code org = Some az \<Longrightarrow> code \<noteq> [] \<and> Code az = code"
  by (auto simp: azs_ok_def az_GetByCode_def split: option.splits if_splits)

lemma azs_ok_populate: "fmlookup azs [] = None \<Longrightarrow> azs_ok (populateAZCodes azs)"
  by (auto simp: azs_ok_def populateAZCodes_def)

lemma finite_azCodes [simp]: "finite (azCodes db p)"
proof -
  have "azCodes db p \<subseteq> snd ` fset (fmdom (project_az_quotas db))"
    by (force simp: azCodes_def azQ_def nilWhenNotFound_def fmlookup_dom_iff image_iff
          split: option.splits if_splits)
  then show ?thesis by (rule finite_subset) simp
qed

lemma azSum_nonneg: "stored_ok L db \<Longrightarrow> 0 \<le> azSum L db p n"
  unfolding azSum_def by (intro sum_nonneg) (auto dest!: stored_okD(3) qty_strict_lv qget_strict)

lemma alloc_nonneg: "stored_ok L db \<Longrightarrow> 0 \<le> alloc L db p n"
  using azSum_nonneg [of L db p n] by (auto simp: alloc_def)

lemma azSum_ge: "stored_ok L db \<Longrightarrow> c \<in> azCodes db p \<Longrightarrow> qget (lv L (azQ db p c)) n \<le> azSum L db p n"
  unfolding azSum_def
  by (rule member_le_sum) (auto dest!: stored_okD(3) qty_strict_lv qget_strict)

text \<open>One zone taken apart from the others.\<close>

lemma azSum_remove:
  "azSum L db p n = qget (lv L (azQ db p c)) n + (\<Sum>c'\<in>azCodes db p - {c}. qget (lv L (azQ db p c')) n)"
proof (cases "c \<in> azCodes db p")
  case True
  then show ?thesis unfolding azSum_def by (simp add: sum.remove)
next
  case False
  then show ?thesis unfolding azSum_def by (simp add: azCodes_def)
qed


section \<open>The loops of the code\<close>

lemma loadHierarchy_fold:
  "fold (\<lambda>(c, q) h. h\<lparr>h_AZs := fmupd c (Resources q) (h_AZs h),
                     AZRevisions := fmupd c (Revision q) (AZRevisions h)\<rparr>) xs h =
   h\<lparr>h_AZs := fold (\<lambda>(c, q). fmupd c (Resources q)) xs (h_AZs h),
     AZRevisions := fold (\<lambda>(c, q). fmupd c (Revision q)) xs (AZRevisions h)\<rparr>"
  by (induction xs arbitrary: h) auto

lemma map_of_listAZQuotas: "map_of (listAZQuotas db p) c = nilWhenNotFound (project_az_quotas db) (p, c)"
proof (cases "nilWhenNotFound (project_az_quotas db) (p, c)")
  case None
  then have "c \<notin> fst ` set (listAZQuotas db p)" by (auto simp: listAZQuotas_iff)
  then show ?thesis using None by (simp add: map_of_eq_None_iff)
next
  case (Some row)
  then have "(c, row) \<in> set (listAZQuotas db p)" by (simp add: listAZQuotas_iff)
  then show ?thesis using Some by (simp add: listAZQuotas_distinct)
qed

lemma fold_fmupd_list:
  "distinct (map fst xs) \<Longrightarrow>
   fmlookup (fold (\<lambda>(c, q). fmupd c (f q)) xs m) k = (case map_of xs k of None \<Rightarrow> fmlookup m k | Some q \<Rightarrow> Some (f q))"
  by (rule fold_entries_lookup) auto

lemma loadHierarchy_levels:
  "h_Organization (loadHierarchy db org p) = (case orgQ db org of None \<Rightarrow> fmempty | Some r \<Rightarrow> r)"
  "h_Project (loadHierarchy db org p) = (case projQ db p of None \<Rightarrow> fmempty | Some r \<Rightarrow> r)"
  "fmlookup (h_AZs (loadHierarchy db org p)) c = azQ db p c"
  by (auto simp: loadHierarchy_def loadHierarchy_fold Let_def orgQ_def projQ_def azQ_def
        fold_fmupd_list listAZQuotas_distinct map_of_listAZQuotas split: option.splits)

lemma loadHierarchy_AZ_quota:
  "h_AZ_quota (loadHierarchy db org p) c = (case azQ db p c of None \<Rightarrow> fmempty | Some r \<Rightarrow> r)"
  by (simp add: h_AZ_quota_def loadHierarchy_levels)

lemma Parse_level:
  "row_ok L ro \<Longrightarrow> Resources_Parse L (case ro of None \<Rightarrow> fmempty | Some r \<Rightarrow> r) = Inr (lv L ro)"
  by (cases ro) (auto dest: row_okD)

lemma sumAZQuotas_fold:
  assumes "\<forall>e\<in>set es. Resources_Parse L (snd e) = Inr (f e) \<and> qty_ok (f e)" and "qty_ok z"
  shows "\<exists>t. foldR (\<lambda>(code, res) total.
        if code = x then Inr total
        else bindR (Resources_Parse L res) (\<lambda>parsed. Inr (Quantities_Add total parsed))) es z = Inr t \<and>
      qty_ok t \<and> (\<forall>n. qget t n = min MaxInt64 (qget z n + (\<Sum>e\<leftarrow>es. if fst e = x then 0 else qget (f e) n)))"
  using assms
proof (induction es arbitrary: z)
  case Nil
  then show ?case using qget_ok [of z] by auto
next
  case (Cons e es)
  obtain code res where e: "e = (code, res)" by (cases e)
  have fe: "Resources_Parse L res = Inr (f e)" "qty_ok (f e)" using Cons.prems(1) e by auto
  have es: "\<forall>e\<in>set es. Resources_Parse L (snd e) = Inr (f e) \<and> qty_ok (f e)" using Cons.prems(1) by auto
  show ?case
  proof (cases "code = x")
    case True
    with Cons.IH [OF es Cons.prems(2)] e show ?thesis by auto
  next
    case False
    have pos: "0 \<le> (\<Sum>e\<leftarrow>es. if fst e = x then 0 else qget (f e) n)" for n
      using es by (intro sum_list_nonneg) (auto dest: qget_ok)
    have "qty_ok (Quantities_Add z (f e))" using Cons.prems(2) fe(2) by auto
    from Cons.IH [OF es this] obtain t where t: "foldR (\<lambda>(code, res) total.
        if code = x then Inr total
        else bindR (Resources_Parse L res) (\<lambda>parsed. Inr (Quantities_Add total parsed))) es (Quantities_Add z (f e)) = Inr t"
      "qty_ok t" "\<forall>n. qget t n = min MaxInt64 (qget (Quantities_Add z (f e)) n +
          (\<Sum>e\<leftarrow>es. if fst e = x then 0 else qget (f e) n))" by auto
    have "qget t n = min MaxInt64 (qget z n + (\<Sum>e\<leftarrow>e # es. if fst e = x then 0 else qget (f e) n))" for n
      using t(3) pos [of n] qget_Add [OF Cons.prems(2) fe(2), of n] False e by (auto simp: min_def)
    with t(1,2) e False fe(1) show ?thesis by auto
  qed
qed

lemma sumAZQuotas_load:
  assumes "stored_ok L db"
  shows "\<exists>t. sumAZQuotas L (h_AZs (loadHierarchy db org p)) x = Inr t \<and> qty_ok t \<and>
     (\<forall>n. qget t n = min MaxInt64 (\<Sum>c\<in>azCodes db p - {x}. qget (lv L (azQ db p c)) n))"
proof -
  let ?m = "h_AZs (loadHierarchy db org p)"
  have dom: "fset (fmdom ?m) = azCodes db p"
    by (auto simp: azCodes_def fmlookup_dom_iff loadHierarchy_levels)
  have ok: "\<forall>e\<in>set (gentries ?m). Resources_Parse L (snd e) = Inr (parsed L (snd e)) \<and> qty_ok (parsed L (snd e))"
  proof
    fix e assume "e \<in> set (gentries ?m)"
    then have "azQ db p (fst e) = Some (snd e)"
      by (metis loadHierarchy_levels(3) prod.collapse set_gentries)
    then show "Resources_Parse L (snd e) = Inr (parsed L (snd e)) \<and> qty_ok (parsed L (snd e))"
      using stored_okD(3) [OF assms, of p "fst e"] by (auto dest: row_okD)
  qed
  obtain t where t: "sumAZQuotas L ?m x = Inr t" "qty_ok t"
    "\<forall>n. qget t n = min MaxInt64 (\<Sum>e\<leftarrow>gentries ?m. if fst e = x then 0 else qget (parsed L (snd e)) n)"
    using sumAZQuotas_fold [OF ok qty_empty(1), of x] unfolding sumAZQuotas_def by auto
  have "(\<Sum>e\<leftarrow>gentries ?m. if fst e = x then 0 else qget (parsed L (snd e)) n) =
      (\<Sum>c\<in>azCodes db p - {x}. qget (lv L (azQ db p c)) n)" for n
    unfolding sum_list_gentries [of "\<lambda>c r. if c = x then 0 else qget (parsed L r) n" ?m] dom
      sum_if_diff [OF finite_azCodes, symmetric]
    by (rule sum.cong) (auto simp: loadHierarchy_levels azCodes_def)
  with t show ?thesis by auto
qed


text \<open>The allocations of the projects of an organization.\<close>

lemma alloc_get_upd [simp]: "alloc_get (fmupd p q m) p' = (if p' = p then q else alloc_get m p')"
  by (simp add: alloc_get_def)

lemma held_fold:
  assumes "\<forall>e\<in>set xs. Resources_Parse L (Resources (snd e)) = Inr (f e) \<and> qty_ok (f e)"
    and "\<forall>p. qty_ok (alloc_get H0 p)"
  shows "\<exists>H. foldR (\<lambda>((p, _), row) held. bindR (Resources_Parse L (Resources row)) (\<lambda>parsed.
             Inr (fmupd p (Quantities_Add (alloc_get held p) parsed) held))) xs H0 = Inr H \<and>
      (\<forall>p. qty_ok (alloc_get H p)) \<and>
      (\<forall>p n. qget (alloc_get H p) n = min MaxInt64 (qget (alloc_get H0 p) n +
           (\<Sum>e\<leftarrow>xs. if fst (fst e) = p then qget (f e) n else 0))) \<and>
      (\<forall>p. fmlookup H p \<noteq> None \<longleftrightarrow> fmlookup H0 p \<noteq> None \<or> p \<in> (\<lambda>e. fst (fst e)) ` set xs)"
  using assms
proof (induction xs arbitrary: H0)
  case Nil
  then show ?case by (simp add: min_absorb2 qget_ok)
next
  case (Cons e es)
  obtain p0 c row where e: "e = ((p0, c), row)" by (metis prod.exhaust)
  have fe: "Resources_Parse L (Resources row) = Inr (f e)" "qty_ok (f e)" using Cons.prems(1) e by auto
  have es: "\<forall>e\<in>set es. Resources_Parse L (Resources (snd e)) = Inr (f e) \<and> qty_ok (f e)" using Cons.prems(1) by auto
  define H1 where "H1 = fmupd p0 (Quantities_Add (alloc_get H0 p0) (f e)) H0"
  have H1: "\<forall>p. qty_ok (alloc_get H1 p)" using Cons.prems(2) fe(2) by (auto simp: H1_def)
  have pos: "0 \<le> (\<Sum>e\<leftarrow>es. if fst (fst e) = p then qget (f e) n else 0)" for p n
    using es by (intro sum_list_nonneg) (auto dest: qget_ok)
  have q1: "qget (alloc_get H1 p) n =
      min MaxInt64 (qget (alloc_get H0 p) n + (if p0 = p then qget (f e) n else 0))" for p n
    using qget_Add [OF Cons.prems(2) [rule_format] fe(2), of p0 n] qget_ok [of "alloc_get H0 p" n] Cons.prems(2)
    by (auto simp: H1_def)
  from Cons.IH [OF es H1] obtain H where H:
    "foldR (\<lambda>((p, _), row) held. bindR (Resources_Parse L (Resources row)) (\<lambda>parsed.
             Inr (fmupd p (Quantities_Add (alloc_get held p) parsed) held))) es H1 = Inr H"
    "\<forall>p. qty_ok (alloc_get H p)"
    "\<forall>p n. qget (alloc_get H p) n = min MaxInt64 (qget (alloc_get H1 p) n +
           (\<Sum>e\<leftarrow>es. if fst (fst e) = p then qget (f e) n else 0))"
    "\<forall>p. fmlookup H p \<noteq> None \<longleftrightarrow> fmlookup H1 p \<noteq> None \<or> p \<in> (\<lambda>e. fst (fst e)) ` set es" by blast
  have sums: "qget (alloc_get H p) n = min MaxInt64 (qget (alloc_get H0 p) n +
           (\<Sum>e\<leftarrow>e # es. if fst (fst e) = p then qget (f e) n else 0))" for p n
    using H(3) q1 [of p n] pos [where p = p and n = n] e by (auto simp: min_def)
  have "fmlookup H1 p \<noteq> None \<longleftrightarrow> fmlookup H0 p \<noteq> None \<or> p = p0" for p
    by (auto simp: H1_def)
  then have "fmlookup H p \<noteq> None \<longleftrightarrow> fmlookup H0 p \<noteq> None \<or> p \<in> (\<lambda>e. fst (fst e)) ` set (e # es)" for p
    using H(4) e by auto
  moreover have "foldR (\<lambda>((p, _), row) held. bindR (Resources_Parse L (Resources row)) (\<lambda>parsed.
             Inr (fmupd p (Quantities_Add (alloc_get held p) parsed) held))) (e # es) H0 = Inr H"
    using H(1) fe(1) e by (simp add: H1_def)
  ultimately show ?case using H(2) sums by blast
qed

lemma sum_filter_org_az:
  assumes "liveProject db org p"
  shows "(\<Sum>e\<leftarrow>listOrganizationAZQuotas db org. if fst (fst e) = p then qget (parsed L (Resources (snd e))) n else 0) =
    azSum L db p n"
proof -
  let ?xs = "listOrganizationAZQuotas db org"
  have "distinct ?xs" by (simp add: listOrganizationAZQuotas_def)
  then have "(\<Sum>e\<leftarrow>?xs. if fst (fst e) = p then qget (parsed L (Resources (snd e))) n else 0) =
      (\<Sum>e\<in>set ?xs. if fst (fst e) = p then qget (parsed L (Resources (snd e))) n else 0)"
    by (simp add: sum_list_distinct_conv_sum_set)
  also have "\<dots> = (\<Sum>e\<in>{e \<in> set ?xs. fst (fst e) = p}. qget (parsed L (Resources (snd e))) n)"
    by (simp add: sum.If_cases Int_def)
  also have "\<dots> = azSum L db p n"
    unfolding azSum_def
  proof (rule sum.reindex_bij_witness [where i = "\<lambda>c. ((p, c), the (nilWhenNotFound (project_az_quotas db) (p, c)))"
        and j = "\<lambda>e. snd (fst e)"], goal_cases)
    case (1 e)
    then show ?case by (auto dest: listOrganizationAZQuotas_member)
  next
    case (2 e)
    then show ?case by (auto simp: azCodes_def azQ_def dest: listOrganizationAZQuotas_member)
  next
    case (3 c)
    then show ?case by simp
  next
    case (4 c)
    with assms show ?case by (auto simp: azCodes_def azQ_def listOrganizationAZQuotas_iff)
  next
    case (5 e)
    then show ?case by (auto simp: azQ_def dest: listOrganizationAZQuotas_member)
  qed
  finally show ?thesis .
qed

lemma map_of_listProjectQuotas:
  assumes "owner_ok db"
  shows "map_of (listProjectQuotas db org) p = (if liveProject db org p then findProjectQuota db p else None)"
proof (cases "map_of (listProjectQuotas db org) p")
  case None
  then have "\<forall>row. (p, row) \<notin> set (listProjectQuotas db org)"
    by (force simp: map_of_eq_None_iff)
  with assms None show ?thesis
    by (cases "findProjectQuota db p") (auto simp: listProjectQuotas_iff owner_ok_def)
next
  case (Some row)
  then have "(p, row) \<in> set (listProjectQuotas db org)" by (rule map_of_SomeD)
  with Some show ?thesis by (simp add: listProjectQuotas_iff)
qed

definition allocations_of :: "quantity_lib \<Rightarrow> quota_db \<Rightarrow> uuid \<Rightarrow> (uuid, quantities) fmap \<Rightarrow> bool" where
  "allocations_of L db org A \<longleftrightarrow>
     (\<forall>p. qty_ok (alloc_get A p)) \<and>
     (\<forall>p n. liveProject db org p \<longrightarrow> qget (alloc_get A p) n = min MaxInt64 (alloc L db p n)) \<and>
     (\<forall>p. fmlookup A p \<noteq> None \<longleftrightarrow> liveProject db org p \<and> (projQ db p \<noteq> None \<or> azCodes db p \<noteq> {}))"

lemma az_rows_parse:
  assumes "stored_ok L db"
  shows "\<forall>e\<in>set (listOrganizationAZQuotas db org).
    Resources_Parse L (Resources (snd e)) = Inr (parsed L (Resources (snd e))) \<and> qty_ok (parsed L (Resources (snd e)))"
proof
  fix e assume "e \<in> set (listOrganizationAZQuotas db org)"
  then have "azQ db (fst (fst e)) (snd (fst e)) = Some (Resources (snd e))"
    by (auto simp: azQ_def dest: listOrganizationAZQuotas_member)
  then show "Resources_Parse L (Resources (snd e)) = Inr (parsed L (Resources (snd e))) \<and>
      qty_ok (parsed L (Resources (snd e)))"
    using stored_okD(3) [OF assms, of "fst (fst e)" "snd (fst e)"] by (auto dest: row_okD)
qed

lemma has_az_rows:
  "(\<exists>e\<in>set (listOrganizationAZQuotas db org). p = fst (fst e)) \<longleftrightarrow> liveProject db org p \<and> azCodes db p \<noteq> {}"
proof
  assume "\<exists>e\<in>set (listOrganizationAZQuotas db org). p = fst (fst e)"
  then obtain e where e: "e \<in> set (listOrganizationAZQuotas db org)" "p = fst (fst e)" by blast
  then show "liveProject db org p \<and> azCodes db p \<noteq> {}"
    using listOrganizationAZQuotas_member [OF e(1)] by (cases "fst e") (auto simp: azCodes_def azQ_def)
next
  assume "liveProject db org p \<and> azCodes db p \<noteq> {}"
  then obtain c row where "liveProject db org p" "nilWhenNotFound (project_az_quotas db) (p, c) = Some row"
    by (auto simp: azCodes_def azQ_def)
  then have "((p, c), row) \<in> set (listOrganizationAZQuotas db org)" by (simp add: listOrganizationAZQuotas_iff)
  then show "\<exists>e\<in>set (listOrganizationAZQuotas db org). p = fst (fst e)" by force
qed

lemma held_spec:
  assumes "stored_ok L db"
  obtains H where "foldR (\<lambda>((p, _), row) held. bindR (Resources_Parse L (Resources row)) (\<lambda>parsed.
        Inr (fmupd p (Quantities_Add (alloc_get held p) parsed) held))) (listOrganizationAZQuotas db org) fmempty = Inr H"
    and "\<And>p. qty_ok (alloc_get H p)"
    and "\<And>p n. liveProject db org p \<Longrightarrow> qget (alloc_get H p) n = min MaxInt64 (azSum L db p n)"
    and "\<And>p. fmlookup H p \<noteq> None \<longleftrightarrow> liveProject db org p \<and> azCodes db p \<noteq> {}"
proof -
  have "\<forall>p. qty_ok (alloc_get fmempty p)" by (simp add: alloc_get_def)
  from held_fold [OF az_rows_parse [OF assms, of org] this] obtain H where H:
    "foldR (\<lambda>((p, _), row) held. bindR (Resources_Parse L (Resources row)) (\<lambda>parsed.
        Inr (fmupd p (Quantities_Add (alloc_get held p) parsed) held))) (listOrganizationAZQuotas db org) fmempty = Inr H"
    "\<forall>p. qty_ok (alloc_get H p)"
    "\<forall>p n. qget (alloc_get H p) n = min MaxInt64 (qget (alloc_get fmempty p) n +
         (\<Sum>e\<leftarrow>listOrganizationAZQuotas db org. if fst (fst e) = p then qget (parsed L (Resources (snd e))) n else 0))"
    "\<forall>p. fmlookup H p \<noteq> None \<longleftrightarrow> fmlookup fmempty p \<noteq> (None :: quantities option) \<or>
         p \<in> (\<lambda>e. fst (fst e)) ` set (listOrganizationAZQuotas db org)"
    by blast
  show thesis
  proof (rule that [OF H(1)])
    show "qty_ok (alloc_get H p)" for p using H(2) by blast
    show "qget (alloc_get H p) n = min MaxInt64 (azSum L db p n)" if "liveProject db org p" for p n
      using H(3) that by (simp add: alloc_get_def sum_filter_org_az)
    show "fmlookup H p \<noteq> None \<longleftrightarrow> liveProject db org p \<and> azCodes db p \<noteq> {}" for p
      using H(4) has_az_rows [of db org p] by (simp add: image_iff)
  qed
qed

lemma project_pass:
  assumes st: "stored_ok L db" and ow: "owner_ok db"
  obtains A where "foldR (\<lambda>(p, row) allocations. bindR (Resources_Parse L (Resources row)) (\<lambda>parsed.
        Inr (fmupd p parsed allocations))) (listProjectQuotas db org) fmempty = Inr A"
    and "\<And>p. fmlookup A p = (if liveProject db org p then map_option (parsed L) (projQ db p) else None)"
proof
  let ?A = "fold (\<lambda>(p, row). fmupd p (parsed L (Resources row))) (listProjectQuotas db org) fmempty"
  have "Resources_Parse L (Resources row) = Inr (parsed L (Resources row))"
    if "(p, row) \<in> set (listProjectQuotas db org)" for p row
    using that stored_okD(2) [OF st, of p] by (auto simp: listProjectQuotas_iff projQ_def dest: row_okD)
  then show "foldR (\<lambda>(p, row) allocations. bindR (Resources_Parse L (Resources row)) (\<lambda>parsed.
        Inr (fmupd p parsed allocations))) (listProjectQuotas db org) fmempty = Inr ?A"
    by (intro foldR_Inr) auto
  show "fmlookup ?A p = (if liveProject db org p then map_option (parsed L) (projQ db p) else None)" for p
    unfolding fold_fmupd_list [OF listProjectQuotas_distinct] map_of_listProjectQuotas [OF ow]
    by (auto simp: projQ_def split: option.splits)
qed

lemma projectAllocations_spec:
  assumes st: "stored_ok L db" and ow: "owner_ok db"
  obtains A where "projectAllocations L db org = Inr (listProjectQuotas db org, A)"
    and "allocations_of L db org A"
proof -
  obtain A0 where A0: "foldR (\<lambda>(p, row) allocations. bindR (Resources_Parse L (Resources row)) (\<lambda>parsed.
        Inr (fmupd p parsed allocations))) (listProjectQuotas db org) fmempty = Inr A0"
      "\<And>p. fmlookup A0 p = (if liveProject db org p then map_option (parsed L) (projQ db p) else None)"
    using project_pass [OF st ow] by blast
  obtain H where H: "foldR (\<lambda>((p, _), row) held. bindR (Resources_Parse L (Resources row)) (\<lambda>parsed.
        Inr (fmupd p (Quantities_Add (alloc_get held p) parsed) held))) (listOrganizationAZQuotas db org) fmempty = Inr H"
      "\<And>p. qty_ok (alloc_get H p)"
      "\<And>p n. liveProject db org p \<Longrightarrow> qget (alloc_get H p) n = min MaxInt64 (azSum L db p n)"
      "\<And>p. fmlookup H p \<noteq> None \<longleftrightarrow> liveProject db org p \<and> azCodes db p \<noteq> {}"
    using held_spec [OF st] by blast
  define A where "A = fold (\<lambda>(p, held) a. fmupd p (Quantities_Max (alloc_get a p) held) a) (gentries H) A0"
  have A: "fmlookup A p = (case fmlookup H p of None \<Rightarrow> fmlookup A0 p
      | Some held \<Rightarrow> Some (Quantities_Max (alloc_get A0 p) held))" for p
    unfolding A_def
    by (subst fold_gentries_lookup [where G = "\<lambda>p held s. Some (Quantities_Max (case s of None \<Rightarrow> fmempty | Some q \<Rightarrow> q) held)"])
       (auto simp: alloc_get_def split: option.splits)
  have ok0: "qty_ok (alloc_get A0 p)" for p
    using stored_okD(2) [OF st, of p] by (auto simp: alloc_get_def A0 split: option.splits dest!: row_okD)
  have okA: "qty_ok (alloc_get A p)" for p
    using ok0 [of p] H(2) [of p] by (auto simp: alloc_get_def A split: option.splits)
  have getA: "qget (alloc_get A p) n = max (qget (alloc_get A0 p) n) (qget (alloc_get H p) n)" for p n
    using qget_ok [OF ok0, of p n] qget_Max [OF ok0 H(2), of p p n]
    by (cases "fmlookup H p") (auto simp: alloc_get_def A)
  have get0: "qget (alloc_get A0 p) n = qget (lv L (projQ db p)) n" if "liveProject db org p" for p n
    using that by (cases "projQ db p") (auto simp: alloc_get_def A0)
  have "qget (alloc_get A p) n = min MaxInt64 (alloc L db p n)" if "liveProject db org p" for p n
    using that qget_strict [OF qty_strict_lv [OF stored_okD(2) [OF st]], of p n]
    by (auto simp: getA get0 H(3) alloc_def min_def max_def)
  moreover have "fmlookup A p \<noteq> None \<longleftrightarrow> liveProject db org p \<and> (projQ db p \<noteq> None \<or> azCodes db p \<noteq> {})" for p
    using H(4) [of p] by (auto simp: A A0 split: option.splits if_splits)
  ultimately have "allocations_of L db org A" using okA by (simp add: allocations_of_def)
  moreover have "projectAllocations L db org = Inr (listProjectQuotas db org, A)"
    by (simp add: projectAllocations_def Let_def A0(1) H(1) A_def)
  ultimately show thesis using that by blast
qed

lemma sumAllocations_get:
  assumes "\<And>p. qty_ok (alloc_get A p)"
  shows "qty_ok (sumAllocations A) \<and> qget (sumAllocations A) n = min MaxInt64 (\<Sum>p\<in>fset (fmdom A). qget (alloc_get A p) n)"
proof -
  have ok: "\<forall>q\<in>set (map snd (gentries A)). qty_ok q"
  proof
    fix q assume "q \<in> set (map snd (gentries A))"
    then obtain p where "fmlookup A p = Some q" by (auto simp: set_gentries)
    then show "qty_ok q" using assms [of p] by (simp add: alloc_get_def)
  qed
  have "(\<Sum>q\<leftarrow>map snd (gentries A). qget q n) = (\<Sum>p\<in>fset (fmdom A). qget (alloc_get A p) n)"
    using sum_list_gentries [of "\<lambda>_ q. qget q n" A]
    by (auto simp: comp_def alloc_get_def fmlookup_dom_iff intro!: sum.cong)
  then show ?thesis using fold_Add [OF qty_empty(1) ok, of n] by (simp add: sumAllocations_def)
qed

text \<open>The total the code compares with the organization quota is the exact total, cut at the int64 limit.\<close>

lemma sumAllocations_spec:
  assumes st: "stored_ok L db" and A: "allocations_of L db org A"
  shows "qty_ok (sumAllocations A)"
    and "qget (sumAllocations A) n = min MaxInt64 (\<Sum>p | liveProject db org p. alloc L db p n)"
    and "qget (sumAllocations (fmdrop p0 A)) n =
           min MaxInt64 (\<Sum>p\<in>{p. liveProject db org p} - {p0}. alloc L db p n)"
    and "qty_ok (sumAllocations (fmdrop p0 A))"
proof -
  have ok: "qty_ok (alloc_get A p)" "qty_ok (alloc_get (fmdrop p0 A) p)" for p
    using A by (auto simp: allocations_of_def alloc_get_def)
  show "qty_ok (sumAllocations A)" "qty_ok (sumAllocations (fmdrop p0 A))"
    using sumAllocations_get [of A] sumAllocations_get [of "fmdrop p0 A"] ok by auto
  have zero: "alloc L db p n = 0" if "liveProject db org p" "fmlookup A p = None" for p
  proof -
    have "projQ db p = None" "azCodes db p = {}" using A that unfolding allocations_of_def by blast+
    then show ?thesis by (simp add: alloc_def azSum_def)
  qed
  have part: "min MaxInt64 (\<Sum>p\<in>S \<inter> fset (fmdom A). qget (alloc_get A p) n) = min MaxInt64 (\<Sum>p\<in>S. alloc L db p n)"
    if S: "S \<subseteq> {p. liveProject db org p}" for S
  proof -
    have "finite S" using S finite_subset finite_liveProject by blast
    then have "(\<Sum>p\<in>S \<inter> fset (fmdom A). qget (alloc_get A p) n) = (\<Sum>p\<in>S. min MaxInt64 (alloc L db p n))"
    proof (intro sum.mono_neutral_cong_left)
      show "\<forall>p\<in>S - S \<inter> fset (fmdom A). min MaxInt64 (alloc L db p n) = 0"
      proof
        fix p assume p: "p \<in> S - S \<inter> fset (fmdom A)"
        then have "fmlookup A p = None" by (auto simp: fmlookup_dom_iff)
        with p S show "min MaxInt64 (alloc L db p n) = 0" using zero [of p] by auto
      qed
      show "qget (alloc_get A p) n = min MaxInt64 (alloc L db p n)" if "p \<in> S \<inter> fset (fmdom A)" for p
        using S A that by (auto simp: allocations_of_def)
    qed auto
    then show ?thesis using min_sum_min [OF \<open>finite S\<close> MaxInt64_pos(2)] alloc_nonneg [OF st] by simp
  qed
  have dom: "fset (fmdom A) \<subseteq> {p. liveProject db org p}"
    using A by (auto simp: allocations_of_def fmlookup_dom_iff)
  show "qget (sumAllocations A) n = min MaxInt64 (\<Sum>p | liveProject db org p. alloc L db p n)"
    using sumAllocations_get [of A n] ok part [of "{p. liveProject db org p}"] dom by (simp add: Int_absorb1)
  have "(\<Sum>p\<in>fset (fmdom (fmdrop p0 A)). qget (alloc_get (fmdrop p0 A) p) n) =
      (\<Sum>p\<in>({p. liveProject db org p} - {p0}) \<inter> fset (fmdom A). qget (alloc_get A p) n)"
    using dom by (intro sum.cong) (auto simp: alloc_get_def)
  then show "qget (sumAllocations (fmdrop p0 A)) n =
      min MaxInt64 (\<Sum>p\<in>{p. liveProject db org p} - {p0}. alloc L db p n)"
    using sumAllocations_get [of "fmdrop p0 A" n] ok part [of "{p. liveProject db org p} - {p0}"] by simp
qed

end
