(* ===== verification/Quota_Writes.thy ===== *)
theory Quota_Writes
  imports Quota_Invariant
begin

text \<open>
  One lemma per write of \<^verbatim>\<open>hierarchical.go\<close>: from tables that satisfy \<open>quota_inv\<close>, the write leads
  to tables that satisfy it. A requested quota is asked to parse to values below the int64 limit
  (\<open>qty_strict\<close>), which the parser does not guarantee for a quantity with a fraction of its last unit.
\<close>

section \<open>Rules the writes share\<close>

lemma quota_invD:
  assumes "quota_inv L db"
  shows "stored_ok L db" and "owner_ok db" and "org_fits L db org"
    and "liveProject db org p \<Longrightarrow> proj_fits L db org p"
  using assms by (auto simp: quota_inv_def)

lemma azSum_cong: "(\<And>c. azQ db' p c = azQ db p c) \<Longrightarrow> azSum L db' p n = azSum L db p n"
  by (simp add: azSum_def azCodes_def)

lemma alloc_cong:
  "projQ db' p = projQ db p \<Longrightarrow> (\<And>c. azQ db' p c = azQ db p c) \<Longrightarrow> alloc L db' p n = alloc L db p n"
  using azSum_cong [of db' p db L n] by (simp add: alloc_def)

lemma proj_fits_cong:
  assumes "orgQ db' org = orgQ db org" "projQ db' p = projQ db p" "\<And>c. azQ db' p c = azQ db p c"
  shows "proj_fits L db' org p = proj_fits L db org p"
proof -
  have "azSum L db' p n = azSum L db p n" for n by (rule azSum_cong) (rule assms(3))
  then show ?thesis using assms by (simp add: proj_fits_def proj_limit_def)
qed

lemma org_fits_mono:
  assumes "org_fits L db org" and "orgQ db' org = orgQ db org" and "liveProject db' = liveProject db"
    and le: "\<And>p n l. liveProject db org p \<Longrightarrow> fmlookup (lv L (orgQ db org)) n = Some l \<Longrightarrow>
        alloc L db' p n \<le> alloc L db p n"
  shows "org_fits L db' org"
  unfolding org_fits_def
proof (intro allI impI)
  fix n l assume l: "fmlookup (lv L (orgQ db' org)) n = Some l"
  then have "(\<Sum>p | liveProject db org p. alloc L db' p n) \<le> (\<Sum>p | liveProject db org p. alloc L db p n)"
    using assms(2) by (intro sum_mono le) auto
  also have "\<dots> \<le> l" using l assms(1,2) by (simp add: org_fits_def)
  finally show "(\<Sum>p | liveProject db' org p. alloc L db' p n) \<le> l" using assms(3) by simp
qed

text \<open>A write on one organization: nothing changes for the projects of the others.\<close>

lemma quota_inv_write:
  assumes inv: "quota_inv L db"
    and st: "stored_ok L db'" and ow: "owner_ok db'" and live: "liveProject db' = liveProject db"
    and orgs: "\<And>o'. o' \<noteq> org \<Longrightarrow> orgQ db' o' = orgQ db o'"
    and frame: "\<And>p. \<not> liveProject db org p \<Longrightarrow> projQ db' p = projQ db p"
      "\<And>p c. \<not> liveProject db org p \<Longrightarrow> azQ db' p c = azQ db p c"
    and fits: "org_fits L db' org" "\<And>p. liveProject db org p \<Longrightarrow> proj_fits L db' org p"
  shows "quota_inv L db'"
  unfolding quota_inv_def
proof (intro conjI allI impI st ow)
  fix o'
  have other: "\<not> liveProject db org p" if "o' \<noteq> org" "liveProject db o' p" for p
    using that liveProject_unique by blast
  show "org_fits L db' o'"
  proof (cases "o' = org")
    case False
    have "alloc L db' p n = alloc L db p n" if "liveProject db o' p" for p n
      using other [OF False that] frame by (intro alloc_cong) auto
    then show ?thesis
      using quota_invD(3) [OF inv, of o'] orgs [OF False] live by (simp add: org_fits_def)
  qed (use fits in simp)
  show "proj_fits L db' o' p" if "liveProject db' o' p" for p
  proof (cases "o' = org")
    case False
    have p: "liveProject db o' p" using that live by simp
    have "proj_fits L db' o' p = proj_fits L db o' p"
      using orgs [OF False] frame other [OF False p] by (intro proj_fits_cong) auto
    then show ?thesis using quota_invD(4) [OF inv p] by simp
  qed (use fits that live in simp)
qed

text \<open>The capacity rule, on exact values: a growing child must fit beside the others.\<close>

lemma checkCapacity_iff:
  assumes "qty_ok requested" "qty_ok current" "qty_ok others" "qty_strict limit"
  shows "checkCapacity requested current others limit e = Inr u \<longleftrightarrow>
    (\<forall>n l. fmlookup limit n = Some l \<longrightarrow> qget current n < qget requested n \<longrightarrow>
       qget others n + qget requested n \<le> l)"
proof -
  define inc where "inc = fmfilter (\<lambda>name. fmlookup limit name \<noteq> None \<and> qget current name < qget requested name) requested"
  have ok: "qty_ok inc" using assms(1) by (auto simp: inc_def qty_ok_iff)
  have dom: "fmlookup inc n \<noteq> None \<longleftrightarrow> fmlookup limit n \<noteq> None \<and> qget current n < qget requested n" for n
    using qget_ok [OF assms(2), of n] by (auto simp: inc_def qget_def split: option.splits)
  have sum: "qget (Quantities_Add others inc) n \<le> l \<longleftrightarrow> qget others n + qget requested n \<le> l"
    if "fmlookup limit n = Some l" "qget current n < qget requested n" for n l
  proof -
    have "qget inc n = qget requested n" using that by (simp add: inc_def qget_def)
    moreover have "l < MaxInt64" using assms(4) that(1) by (auto dest: qty_strictD)
    ultimately show ?thesis using qget_Add [OF assms(3) ok, of n] by auto
  qed
  show ?thesis
    unfolding checkCapacity_def Let_def inc_def [symmetric] guardR_eq_Inr Exceeds_None fmlookup_filter
    using dom sum by (metis (no_types, lifting) option.simps(3))
qed

text \<open>The effective limit the code parses is \<open>proj_limit\<close>.\<close>

lemma projectLimit_parse:
  assumes L: "quantity_laws L" and o: "row_ok L oq" and p: "row_ok L pq"
  obtains e where "Resources_Parse L (projectLimit (case oq of None \<Rightarrow> fmempty | Some r \<Rightarrow> r)
        (case pq of None \<Rightarrow> fmempty | Some r \<Rightarrow> r)) = Inr e"
    and "\<And>n. fmlookup e n = (case fmlookup (lv L pq) n of Some v \<Rightarrow> Some v
           | None \<Rightarrow> if fmlookup (lv L oq) n = None then None else Some 0)"
    and "qty_strict e"
proof -
  let ?o = "case oq of None \<Rightarrow> fmempty | Some r \<Rightarrow> r" and ?p = "case pq of None \<Rightarrow> fmempty | Some r \<Rightarrow> r"
  have po: "Resources_Parse L ?p = Inr (lv L pq)" "Resources_Parse L ?o = Inr (lv L oq)"
    using Parse_level o p by auto
  obtain e where e: "Resources_Parse L (Effective ?p [?o]) = Inr e"
    "\<And>n. fmlookup e n = (case fmlookup (lv L pq) n of Some v \<Rightarrow> Some v
         | None \<Rightarrow> if \<exists>r\<in>set [?o]. fmlookup r n \<noteq> None then Some 0 else None)"
    using Parse_Effective [OF L po(1), of "[?o]"] po(2) by auto
  have "fmlookup ?o n = None \<longleftrightarrow> fmlookup (lv L oq) n = None" for n
    using Parse_lookup(1) [OF po(2), of n] .
  with e(2) have look: "fmlookup e n = (case fmlookup (lv L pq) n of Some v \<Rightarrow> Some v
         | None \<Rightarrow> if fmlookup (lv L oq) n = None then None else Some 0)" for n
    by (auto split: option.splits)
  moreover have "qty_strict e"
    using qty_strict_lv [OF p] by (auto simp: qty_strict_iff look split: option.splits if_splits)
  ultimately show thesis using that e(1) by (simp add: projectLimit_def)
qed

lemma upsert_find [simp]:
  "findProjectQuota (fst (upsertAZQuota db p c r)) = findProjectQuota db"
  "findProjectQuota (fst (upsertOrganizationQuota db org r)) = findProjectQuota db"
  "p' \<noteq> p \<Longrightarrow> findProjectQuota (fst (upsertProjectQuota db org p r)) p' = findProjectQuota db p'"
  "findProjectQuota (fst (upsertProjectQuota db org p r)) p =
     Some \<lparr>Revision = quota_revisions_seq db + 1, Resources = r, Deleted = False, OrganizationId = org\<rparr>"
  by (simp_all add: findProjectQuota_def nilWhenNotFound_def fun_eq_iff upsertAZQuota_def
      upsertOrganizationQuota_def upsertProjectQuota_def nextval_def Let_def)

lemma transaction_cases:
  "inOrganizationTransaction db org fn = (db', r) \<Longrightarrow>
     (\<exists>e. r = Inl e \<and> db' = db) \<or> (\<exists>a. r = Inr a \<and> fn db = Inr (db', a))"
  by (auto simp: inOrganizationTransaction_def bindR_eq_Inr split: sum.splits prod.splits)


section \<open>One zone of a project\<close>

lemma set_az_inv:
  assumes L: "quantity_laws L" and inv: "quota_inv L db" and live: "liveProject db org p"
    and req: "Resources_Parse L res = Inr requested" "qty_strict requested" and code: "code \<noteq> []"
    and chk: "checkAZFitsInProject L (loadHierarchy db org p) code requested = Inr u"
  shows "quota_inv L (fst (upsertAZQuota db p code res))"
proof -
  note st = quota_invD(1) [OF inv]
  let ?db' = "fst (upsertAZQuota db p code res)"
  let ?others = "\<lambda>n. \<Sum>c'\<in>azCodes db p - {code}. qget (lv L (azQ db p c')) n"
  have lvres: "lv L (Some res) = requested" "row_ok L (Some res)"
    using req by (simp_all add: parsed_def row_ok_def)
  have azs': "azCodes ?db' p - {code} = azCodes db p - {code}"
    by (auto simp: azCodes_def qs.writes)
  have sum': "azSum L ?db' p n = qget requested n + ?others n" for n
    unfolding azSum_remove [of L ?db' p n code] azs' using lvres by (auto simp: qs.writes intro!: sum.cong)
  have sum: "azSum L db p n = qget (lv L (azQ db p code)) n + ?others n" for n
    by (rule azSum_remove)
  obtain e where e: "Resources_Parse L (projectLimit (h_Organization (loadHierarchy db org p))
        (h_Project (loadHierarchy db org p))) = Inr e" "\<And>n. fmlookup e n = proj_limit L db org p n" "qty_strict e"
    using projectLimit_parse [OF L stored_okD(1) [OF st, of org] stored_okD(2) [OF st, of p]]
    unfolding loadHierarchy_levels proj_limit_def by (metis (no_types, lifting))
  obtain t where t: "sumAZQuotas L (h_AZs (loadHierarchy db org p)) code = Inr t" "qty_ok t"
    "\<And>n. qget t n = min MaxInt64 (?others n)"
    using sumAZQuotas_load [OF st] by blast
  have cur: "Resources_Parse L (h_AZ_quota (loadHierarchy db org p) code) = Inr (lv L (azQ db p code))"
    unfolding loadHierarchy_AZ_quota by (rule Parse_level [OF stored_okD(3) [OF st]])
  have fit: "qget t n + qget requested n \<le> l"
    if "proj_limit L db org p n = Some l" "qget (lv L (azQ db p code)) n < qget requested n" for n l
    using chk that e(2) checkCapacity_iff [of requested "lv L (azQ db p code)" t e] req(2) t(2) e(3)
      qty_strict_lv [OF stored_okD(3) [OF st]]
    by (simp add: checkAZFitsInProject_def e(1) t(1) cur)
  have le: "azSum L ?db' p n \<le> l" if "proj_limit L db org p n = Some l" for n l
  proof (cases "qget (lv L (azQ db p code)) n < qget requested n")
    case True
    have "l < MaxInt64" using that e(2,3) by (metis qty_strictD)
    with fit [OF that True] t(3) [of n] qget_strict [OF req(2), of n] sum' [of n] show ?thesis by auto
  next
    case False
    with sum sum' quota_invD(4) [OF inv live] that show ?thesis by (fastforce simp: proj_fits_def)
  qed
  have other: "azSum L ?db' p' n = azSum L db p' n" if "p' \<noteq> p" for p' n
    using that by (intro azSum_cong) (simp add: qs.writes)
  have lim: "proj_limit L ?db' org p' n = proj_limit L db org p' n" for p' n
    by (simp only: proj_limit_def qs.writes)
  show ?thesis
  proof (rule quota_inv_write [OF inv, where org = org])
    show "stored_ok L ?db'" using st lvres(2) code by (auto simp: stored_ok_def qs.writes)
    show "owner_ok ?db'" using quota_invD(2) [OF inv] by (simp add: owner_ok_def qs.writes)
    show "proj_fits L ?db' org p'" if "liveProject db org p'" for p'
      using le lim other quota_invD(4) [OF inv that] by (cases "p' = p") (auto simp: proj_fits_def)
    have shrink: "alloc L ?db' p' n \<le> alloc L db p' n" if orgl: "fmlookup (lv L (orgQ db org)) n = Some l" for p' n l
    proof (cases "p' = p")
      case True
      obtain l' where l': "proj_limit L db org p n = Some l'" "l' \<le> max (qget (lv L (projQ db p)) n) 0"
        using orgl by (cases "fmlookup (lv L (projQ db p)) n") (auto simp: proj_limit_def)
      with le [of n l'] azSum_nonneg [OF st, of p n] True show ?thesis by (auto simp: alloc_def qs.writes)
    qed (simp add: alloc_def other qs.writes)
    show "org_fits L ?db' org"
      by (rule org_fits_mono [OF quota_invD(3) [OF inv]]) (simp add: qs.writes, simp add: qs.writes, rule shrink)
  qed (use live in \<open>auto simp: qs.writes\<close>)
qed

lemma setProjectAZQuota_tx_Inr:
  assumes "setProjectAZQuota_tx L H db w org p code res requested = Inr (db', saved, lowered, after)"
  shows "lockOrganization db org = Inr ()" and "liveProject db org p"
    and "checkAZFitsInProject L (loadHierarchy db org p) code requested = Inr ()"
    and "loweredLimits L (Hierarchy_AZ (loadHierarchy db org p) code) after = Inr lowered"
    and "checkUsage H w org p code lowered = Inr ()"
    and "after = EffectiveAZQuota (h_Organization (loadHierarchy db org p)) (h_Project (loadHierarchy db org p)) res"
    and "(db', saved) = upsertAZQuota db p code res"
  using assms
  by (cases "upsertAZQuota db p code res";
      auto simp: setProjectAZQuota_tx_def Let_def bindR_eq_Inr checkProject_def guardR_eq_Inr)+

lemma SetProjectAZQuota_inv:
  assumes "quantity_laws L" "quota_inv L db" "\<And>q. Resources_Parse L res = Inr q \<Longrightarrow> qty_strict q" "azs_ok azs"
    and run: "SetProjectAZQuota L azs H db w org p code res = (db', w', r)"
  shows "quota_inv L db'"
proof (cases "db' = db")
  case False
  then obtain requested saved lowered after az where
    "Resources_Parse L res = Inr requested" "az_GetByCode azs code org = Some az"
    "setProjectAZQuota_tx L H db w org p code res requested = Inr (db', saved, lowered, after)"
    using run by (auto simp: SetProjectAZQuota_def split: sum.splits option.splits prod.splits if_splits)
  note tx = this
  have "quota_inv L (fst (upsertAZQuota db p code res))"
    using assms(1-3) azs_ok_GetByCode [OF assms(4) tx(2)] tx(1) setProjectAZQuota_tx_Inr(2,3) [OF tx(3)]
    by (intro set_az_inv) auto
  then show ?thesis using setProjectAZQuota_tx_Inr(7) [OF tx(3)] by (metis fst_conv)
qed (use assms in simp)


section \<open>One project\<close>

text \<open>What saving a project quota does to the levels, including the split among the zones.\<close>

definition saved_as :: "quantity_lib \<Rightarrow> quota_db \<Rightarrow> quota_db \<Rightarrow> uuid \<Rightarrow> uuid \<Rightarrow> resources \<Rightarrow> quantities \<Rightarrow> bool" where
  "saved_as L db db' org p res q \<longleftrightarrow>
     orgQ db' = orgQ db \<and> liveProject db' = liveProject db \<and>
     projQ db' = (projQ db)(p := Some res) \<and> (\<forall>p'. p' \<noteq> p \<longrightarrow> azQ db' p' = azQ db p') \<and>
     (\<forall>p'. p' \<noteq> p \<longrightarrow> findProjectQuota db' p' = findProjectQuota db p') \<and>
     (\<forall>row. findProjectQuota db' p = Some row \<longrightarrow> OrganizationId row = org) \<and>
     (\<forall>c. row_ok L (azQ db' p c)) \<and> azQ db' p [] = None \<and> (\<forall>n. azSum L db' p n \<le> max (azSum L db p n) (qget q n))"

lemma SplitEqually_parse:
  assumes "quantity_laws L" "Resources_Parse L res = Inr q" "qty_strict q"
  shows "Resources_Parse L (Quantities_Resources L (SplitEqually q k)) = Inr (SplitEqually q k)"
proof (rule Parse_Resources [OF assms(1)])
  show "fmlookup translations_map n \<noteq> None" if "fmlookup (SplitEqually q k) n \<noteq> None" for n
    using that Parse_names [OF assms(2), of n] by (auto simp: SplitEqually_lookup split: if_splits)
qed (use assms in auto)

lemma split_sum_le:
  assumes "azQ db' p = (\<lambda>c. if c \<in> set cs then Some r else None)"
    and "lv L (Some r) = SplitEqually q (int (length cs))" and "qty_ok q"
  shows "azSum L db' p n \<le> qget q n"
proof -
  let ?share = "qget (SplitEqually q (int (length cs))) n"
  have "azSum L db' p n = int (card (set cs)) * ?share"
    unfolding azSum_def azCodes_def assms(1) using assms(2) by simp
  also have "\<dots> \<le> int (length cs) * ?share"
    using card_length [of cs] qget_ok [OF assms(3), of n]
    by (intro mult_right_mono) (auto simp: qget_SplitEqually [OF assms(3)] pos_imp_zdiv_nonneg_iff)
  also have "\<dots> \<le> qget q n" by (rule SplitEqually_sum_le [OF assms(3)])
  finally show ?thesis .
qed

lemma saveProjectQuota_spec:
  assumes L: "quantity_laws L" and q: "Resources_Parse L res = Inr q" "qty_strict q"
    and st: "stored_ok L db" and azs: "azs_ok azs" and has: "has \<longleftrightarrow> azCodes db p \<noteq> {}"
  obtains db' row where "saveProjectQuota L azs db org p res has = Inr (db', row)" "saved_as L db db' org p res q"
proof -
  let ?db1 = "fst (upsertProjectQuota db org p res)" and ?row = "snd (upsertProjectQuota db org p res)"
  let ?cs = "sort (map Code (az_FindAll azs org))"
  let ?s = "SplitEqually q (int (length ?cs))"
  let ?db2 = "fold (\<lambda>code d. fst (upsertAZQuota d p code (Quantities_Resources L ?s))) ?cs ?db1"
  have same: "azSum L ?db1 p n = azSum L db p n" for n by (rule azSum_cong) (simp add: qs.writes)
  show thesis
  proof (cases has)
    case True
    then have "saveProjectQuota L azs db org p res has = Inr (?db1, ?row)"
      by (simp add: saveProjectQuota_def split: prod.splits)
    moreover have "saved_as L db ?db1 org p res q"
      using same stored_okD(3,4) [OF st] by (auto simp: saved_as_def qs.writes)
    ultimately show thesis by (rule that)
  next
    case False
    have find2: "findProjectQuota (fold (\<lambda>code d. fst (upsertAZQuota d p code r)) cs d) = findProjectQuota d" for cs r d
      by (induction cs arbitrary: d) simp_all
    note P = SplitEqually_parse [OF L q, of "int (length ?cs)"]
    have sv: "lv L (Some (Quantities_Resources L ?s)) = ?s" "row_ok L (Some (Quantities_Resources L ?s))"
      using P q(2) by (auto simp: parsed_def row_ok_def)
    have none: "azQ db p c = None" for c using has False by (auto simp: azCodes_def)
    have az2: "azQ ?db2 p = (\<lambda>c. if c \<in> set ?cs then Some (Quantities_Resources L ?s) else None)"
      by (rule ext) (simp add: qs.set_az_list qs.writes none)
    have "azSum L ?db2 p n \<le> qget q n" for n
      by (rule split_sum_le [OF az2 sv(1)]) (use q(2) in blast)
    moreover have "saveProjectQuota L azs db org p res has = Inr (?db2, ?row)"
      using False q(1) by (simp add: saveProjectQuota_def splitAmongAZs_def Let_def split: prod.splits)
    moreover have "orgQ ?db2 = orgQ db" "liveProject ?db2 = liveProject db" "projQ ?db2 = (projQ db)(p := Some res)"
      by (simp_all add: qs.set_az_list qs.writes)
    moreover have "azQ ?db2 p' = azQ db p'" if "p' \<noteq> p" for p'
      using that by (intro ext) (simp add: qs.set_az_list qs.writes)
    moreover have "findProjectQuota ?db2 p' = findProjectQuota ?db1 p'" for p' by (simp only: find2)
    moreover have "row_ok L (azQ ?db2 p c)" for c unfolding az2 using sv(2) by (simp add: row_ok_def)
    moreover have "azQ ?db2 p [] = None" unfolding az2 using azs_ok_codes [OF azs, of org] by simp
    ultimately show thesis
      by (intro that [of ?db2 ?row]) (simp_all add: saved_as_def le_max_iff_disj)
  qed
qed

text \<open>An organization keeps fitting when the project that was saved either fits beside the others or
  did not grow.\<close>

lemma saved_org_fits:
  assumes inv: "quota_inv L db" and live: "liveProject db org p" and sv: "saved_as L db db' org p res q"
    and ok: "row_ok L (Some res)" "lv L (Some res) = q"
    and fits: "\<And>n l. fmlookup (lv L (orgQ db org)) n = Some l \<Longrightarrow> alloc L db p n < qget q n \<Longrightarrow>
        (\<Sum>p'\<in>{p'. liveProject db org p'} - {p}. alloc L db p' n) + qget q n \<le> l"
  shows "org_fits L db' org"
  unfolding org_fits_def
proof (intro allI impI)
  fix n l assume "fmlookup (lv L (orgQ db' org)) n = Some l"
  then have l: "fmlookup (lv L (orgQ db org)) n = Some l" using sv by (simp add: saved_as_def)
  let ?S = "{p'. liveProject db org p'}"
  have others: "(\<Sum>p'\<in>?S - {p}. alloc L db' p' n) = (\<Sum>p'\<in>?S - {p}. alloc L db p' n)"
    using sv by (intro sum.cong alloc_cong) (auto simp: saved_as_def)
  have split: "(\<Sum>p'\<in>?S. f p') = f p + (\<Sum>p'\<in>?S - {p}. f p')" for f :: "uuid \<Rightarrow> int"
    using live by (simp add: sum.remove)
  have "alloc L db' p n \<le> max (qget q n) (azSum L db p n)"
  proof -
    have "azSum L db' p n \<le> max (azSum L db p n) (qget q n)" using sv by (simp add: saved_as_def)
    moreover have "lv L (projQ db' p) = q" using sv ok(2) by (simp add: saved_as_def)
    ultimately show ?thesis by (auto simp: alloc_def)
  qed
  moreover have "azSum L db p n \<le> alloc L db p n" by (simp add: alloc_def)
  moreover have "alloc L db p n + (\<Sum>p'\<in>?S - {p}. alloc L db p' n) \<le> l"
    using quota_invD(3) [OF inv, of org] l split [of "\<lambda>p. alloc L db p n"] by (fastforce simp: org_fits_def)
  ultimately have "alloc L db' p n + (\<Sum>p'\<in>?S - {p}. alloc L db' p' n) \<le> l"
    using fits [OF l] others by (cases "alloc L db p n < qget q n") auto
  then show "(\<Sum>p' | liveProject db' org p'. alloc L db' p' n) \<le> l"
    using sv split [of "\<lambda>p. alloc L db' p n"] by (simp add: saved_as_def)
qed

text \<open>A zone code is never empty: the codes are the keys of the configured zones.\<close>

lemma azSum_named:
  "stored_ok L db \<Longrightarrow> (\<Sum>c\<in>azCodes db p - {[]}. qget (lv L (azQ db p c)) n) = azSum L db p n"
  using stored_okD(4) [of L db p] by (simp add: azSum_def azCodes_def)

lemma project_covers:
  assumes L: "quantity_laws L" and st: "stored_ok L db" and ok: "row_ok L (Some res)"
    and chk: "checkProjectCoversAZs L (loadHierarchy db org p) res = Inr u"
    and l: "(case fmlookup (lv L (Some res)) n of Some v \<Rightarrow> Some v
        | None \<Rightarrow> if fmlookup (lv L (orgQ db org)) n = None then None else Some 0) = Some l"
  shows "azSum L db p n \<le> l"
proof -
  obtain e where e: "Resources_Parse L (projectLimit (h_Organization (loadHierarchy db org p)) res) = Inr e"
    "\<And>n. fmlookup e n = (case fmlookup (lv L (Some res)) n of Some v \<Rightarrow> Some v
        | None \<Rightarrow> if fmlookup (lv L (orgQ db org)) n = None then None else Some 0)" "qty_strict e"
    using projectLimit_parse [OF L stored_okD(1) [OF st, of org] ok] unfolding loadHierarchy_levels
    by (metis (no_types, lifting) option.simps(5))
  obtain t where t: "sumAZQuotas L (h_AZs (loadHierarchy db org p)) [] = Inr t"
    "\<And>n. qget t n = min MaxInt64 (\<Sum>c\<in>azCodes db p - {[]}. qget (lv L (azQ db p c)) n)"
    using sumAZQuotas_load [OF st] by blast
  have "qget t n \<le> l"
    using chk e(2) l by (simp add: checkProjectCoversAZs_def e(1) t(1) checkNotBelow_def guardR_eq_Inr Exceeds_None)
  moreover have "l < MaxInt64" using e(2,3) l by (metis qty_strictD)
  ultimately show ?thesis using t(2) [of n] azSum_named [OF st, of p n] by simp
qed

lemma project_fits_org:
  assumes st: "stored_ok L db" and ow: "owner_ok db" and live: "liveProject db org p" and q: "qty_ok q"
    and chk: "checkProjectFitsInOrganization L db org p q (h_Organization (loadHierarchy db org p)) = Inr u"
    and l: "fmlookup (lv L (orgQ db org)) n = Some l" and grow: "alloc L db p n < qget q n"
  shows "(\<Sum>p'\<in>{p'. liveProject db org p'} - {p}. alloc L db p' n) + qget q n \<le> l"
proof -
  let ?o = "h_Organization (loadHierarchy db org p)"
  have P: "Resources_Parse L ?o = Inr (lv L (orgQ db org))"
    unfolding loadHierarchy_levels by (rule Parse_level [OF stored_okD(1) [OF st]])
  have "?o \<noteq> fmempty" using P l by auto
  obtain A where A: "projectAllocations L db org = Inr (listProjectQuotas db org, A)" "allocations_of L db org A"
    using projectAllocations_spec [OF st ow] by blast
  have strict: "qty_strict (lv L (orgQ db org))" by (rule qty_strict_lv [OF stored_okD(1) [OF st]])
  have "checkCapacity q (alloc_get A p) (sumAllocations (fmdrop p A)) (lv L (orgQ db org)) ErrOrgQuotaExceeded = Inr u"
    using chk \<open>?o \<noteq> fmempty\<close> by (simp add: checkProjectFitsInOrganization_def P A(1))
  moreover have "qget (alloc_get A p) n < qget q n"
    using A(2) live grow by (simp add: allocations_of_def)
  ultimately have "qget (sumAllocations (fmdrop p A)) n + qget q n \<le> l"
    using checkCapacity_iff [OF q _ sumAllocations_spec(4) [OF st A(2)] strict] A(2) l
    unfolding allocations_of_def by blast
  moreover have "l < MaxInt64" using strict l by (auto dest: qty_strictD)
  ultimately show ?thesis
    using sumAllocations_spec(3) [OF st A(2), of p n] qget_ok [OF q, of n] by auto
qed

lemma SetProjectQuota_inv:
  assumes L: "quantity_laws L" and inv: "quota_inv L db"
    and strict: "\<And>q. Resources_Parse L res = Inr q \<Longrightarrow> qty_strict q" and azs: "azs_ok azs"
    and run: "SetProjectQuota L azs db org p res = (db', r)"
  shows "quota_inv L db'"
proof (cases "\<exists>e. r = Inl e")
  case True
  then have "db' = db"
    using run by (auto simp: SetProjectQuota_def inProjectTransaction_def dest!: transaction_cases split: sum.splits)
  with inv show ?thesis by simp
next
  case False
  note st = quota_invD(1) [OF inv]
  let ?h = "loadHierarchy db org p"
  obtain q row where q: "Resources_Parse L res = Inr q" and live: "liveProject db org p"
    and covers: "checkProjectCoversAZs L ?h res = Inr ()"
    and fits: "checkProjectFitsInOrganization L db org p q (h_Organization ?h) = Inr ()"
    and save: "saveProjectQuota L azs db org p res (h_AZs ?h \<noteq> fmempty) = Inr (db', row)"
    using run False
    by (auto simp: SetProjectQuota_def inProjectTransaction_def checkProject_def result_simps Let_def
          dest!: transaction_cases split: sum.splits)
  have "h_AZs ?h \<noteq> fmempty \<longleftrightarrow> azCodes db p \<noteq> {}"
    by (auto simp: fmempty_iff loadHierarchy_levels azCodes_def)
  with save saveProjectQuota_spec [OF L q strict [OF q] st azs, of "h_AZs ?h \<noteq> fmempty" p org]
  have sv: "saved_as L db db' org p res q" by auto
  have okres: "row_ok L (Some res)" "lv L (Some res) = q"
    using q strict by (auto simp: row_ok_def parsed_def)
  have lim': "proj_limit L db' org p n = (case fmlookup q n of Some v \<Rightarrow> Some v
      | None \<Rightarrow> if fmlookup (lv L (orgQ db org)) n = None then None else Some 0)" for n
    using sv okres by (auto simp: saved_as_def proj_limit_def split: option.splits)
  have azle: "azSum L db p n \<le> l" if "proj_limit L db' org p n = Some l" for n l
    using project_covers [OF L st okres(1) covers] that lim' okres(2) by simp
  show ?thesis
  proof (rule quota_inv_write [OF inv, where org = org])
    show "stored_ok L db'"
      using st sv okres(1) unfolding stored_ok_def saved_as_def by (metis fun_upd_apply)
    show "owner_ok db'"
      using quota_invD(2) [OF inv] sv live liveProject_unique unfolding owner_ok_def saved_as_def by metis
    show "proj_fits L db' org p'" if p': "liveProject db org p'" for p'
    proof (cases "p' = p")
      case True
      have "azSum L db' p n \<le> l" if l: "proj_limit L db' org p n = Some l" for n l
      proof -
        have "azSum L db' p n \<le> max (azSum L db p n) (qget q n)" using sv by (simp add: saved_as_def)
        moreover have "qget q n \<le> l" using l lim' [of n] by (cases "fmlookup q n") (auto split: if_splits)
        ultimately show ?thesis using azle [OF l] by linarith
      qed
      with True show ?thesis by (simp add: proj_fits_def)
    next
      case False
      then have "proj_fits L db' org p' = proj_fits L db org p'"
        using sv by (intro proj_fits_cong) (auto simp: saved_as_def)
      then show ?thesis using quota_invD(4) [OF inv p'] by simp
    qed
    show "org_fits L db' org"
      by (rule saved_org_fits [OF inv live sv okres]) (rule project_fits_org [OF st quota_invD(2) [OF inv] live _ fits], use q in \<open>auto intro: Parse_ok\<close>)
  qed (use sv live in \<open>auto simp: saved_as_def\<close>)
qed

end
