(* ===== verification/Quota_Organization.thy ===== *)
theory Quota_Organization
  imports Quota_Writes
begin

text \<open>
  The organization quota: that setting it keeps \<open>quota_inv\<close>, whether it is distributed among projects
  without quota (\<open>distributeAmongProjects\<close>) or the existing project quotas are completed
  (\<open>coverAZQuotas\<close>), and the deletions of quotas, of projects and of organizations
  (\<^verbatim>\<open>crud/project/project.go\<close>, \<^verbatim>\<open>crud/organization/organization.go\<close>).
\<close>

section \<open>Distributing the organization quota\<close>

text \<open>Several projects saved one after the other: each ends with its own quota, the others are left alone.\<close>

definition all_saved ::
  "quantity_lib \<Rightarrow> quota_db \<Rightarrow> quota_db \<Rightarrow> uuid \<Rightarrow> uuid set \<Rightarrow> (uuid \<Rightarrow> quantities) \<Rightarrow> bool" where
  "all_saved L db db' org S Q \<longleftrightarrow>
     orgQ db' = orgQ db \<and> liveProject db' = liveProject db \<and>
     (\<forall>p. p \<notin> S \<longrightarrow> projQ db' p = projQ db p \<and> azQ db' p = azQ db p \<and> findProjectQuota db' p = findProjectQuota db p) \<and>
     (\<forall>p\<in>S. projQ db' p = Some (Quantities_Resources L (Q p)) \<and>
        (\<forall>row. findProjectQuota db' p = Some row \<longrightarrow> OrganizationId row = org) \<and>
        (\<forall>c. row_ok L (azQ db' p c)) \<and> azQ db' p [] = None \<and>
        (\<forall>n. azSum L db' p n \<le> max (azSum L db p n) (qget (Q p) n)))"

lemma all_saved_step:
  assumes "saved_as L db db1 org p (Quantities_Resources L (Q p)) (Q p)"
    and "all_saved L db1 db' org S Q" and "p \<notin> S"
  shows "all_saved L db db' org (insert p S) Q"
proof -
  have same: "azSum L db' p n = azSum L db1 p n" for n
    using assms(2,3) by (intro azSum_cong) (auto simp: all_saved_def)
  have other: "azSum L db1 p' n = azSum L db p' n" if "p' \<noteq> p" for p' n
    using assms(1) that by (intro azSum_cong) (auto simp: saved_as_def)
  have "\<forall>n. azSum L db' p' n \<le> max (azSum L db p' n) (qget (Q p') n)" if "p' \<in> insert p S" for p'
    using assms that same other [of p'] by (cases "p' = p") (auto simp: saved_as_def all_saved_def)
  with assms show ?thesis
    unfolding all_saved_def saved_as_def by (simp add: fun_upd_def)
qed

lemma saved_as_stored:
  assumes "stored_ok L db" and "saved_as L db db' org p res q" and "row_ok L (Some res)"
  shows "stored_ok L db'"
  using assms unfolding stored_ok_def saved_as_def by (metis fun_upd_apply)

lemma save_projects:
  assumes L: "quantity_laws L" and azs: "azs_ok azs" and st: "stored_ok L db" and "distinct ps"
    and Q: "\<And>p. p \<in> set ps \<Longrightarrow> qty_strict (Q p) \<and> Resources_Parse L (Quantities_Resources L (Q p)) = Inr (Q p)"
    and has: "\<And>p. p \<in> set ps \<Longrightarrow> has p \<longleftrightarrow> azCodes db p \<noteq> {}"
  shows "\<exists>db'. foldR (\<lambda>p d. bindR (saveProjectQuota L azs d org p (Quantities_Resources L (Q p)) (has p))
             (\<lambda>(d', _). Inr d')) ps db = Inr db' \<and> all_saved L db db' org (set ps) Q"
  using assms(3-)
proof (induction ps arbitrary: db)
  case Nil
  then show ?case by (simp add: all_saved_def)
next
  case (Cons p ps)
  have Qp: "qty_strict (Q p)" "Resources_Parse L (Quantities_Resources L (Q p)) = Inr (Q p)"
    using Cons.prems(3) by auto
  obtain d row where d: "saveProjectQuota L azs db org p (Quantities_Resources L (Q p)) (has p) = Inr (d, row)"
    and sv: "saved_as L db d org p (Quantities_Resources L (Q p)) (Q p)"
    using saveProjectQuota_spec [OF L Qp(2,1) Cons.prems(1) azs] Cons.prems(4) by (metis list.set_intros(1))
  have "stored_ok L d"
    using saved_as_stored [OF Cons.prems(1) sv] Qp by (auto simp: row_ok_def)
  moreover have "has p' \<longleftrightarrow> azCodes d p' \<noteq> {}" if "p' \<in> set ps" for p'
  proof -
    have "azQ d p' = azQ db p'" using that Cons.prems(2) sv by (auto simp: saved_as_def)
    then show ?thesis using that Cons.prems(4) [of p'] by (simp add: azCodes_def)
  qed
  ultimately obtain db' where "foldR (\<lambda>p d. bindR (saveProjectQuota L azs d org p (Quantities_Resources L (Q p)) (has p))
        (\<lambda>(d', _). Inr d')) ps d = Inr db'" "all_saved L d db' org (set ps) Q"
    using Cons.IH [of d] Cons.prems(2,3) by auto
  then show ?case
    using d all_saved_step [of L db d org p Q db' "set ps"] sv Cons.prems(2) by auto
qed

text \<open>The share of one project: the capacity that is left split equally, plus what its zones hold.\<close>

definition project_share :: "quantities \<Rightarrow> (uuid, quantities) fmap \<Rightarrow> nat \<Rightarrow> uuid \<Rightarrow> quantities" where
  "project_share limit A k p =
     Quantities_Add (SplitEqually (Quantities_Sub limit (sumAllocations A)) (int k))
       (Quantities_Only (alloc_get A p) limit)"

lemma distributeAmongProjects_fold:
  "distributeAmongProjects L azs db org limit A =
     foldR (\<lambda>p d. bindR (saveProjectQuota L azs d org p
         (Quantities_Resources L (project_share limit A (length (listProjectIds db org)) p))
         (fmlookup A p \<noteq> None)) (\<lambda>(d', _). Inr d')) (listProjectIds db org) db"
  by (simp add: distributeAmongProjects_def project_share_def Let_def)

lemma project_share_get:
  assumes st: "stored_ok L db" and A: "allocations_of L db org A" and lim: "qty_strict limit"
    and below: "checkNotBelow limit (sumAllocations A) = Inr u"
    and k: "k = card {p. liveProject db org p}" and l: "fmlookup limit n = Some l"
  shows "(\<Sum>p | liveProject db org p. alloc L db p n) \<le> l"
    and "liveProject db org p \<Longrightarrow>
      qget (project_share limit A k p) n =
        (l - (\<Sum>p | liveProject db org p. alloc L db p n)) div int k + alloc L db p n"
    and "liveProject db org p \<Longrightarrow> qget (project_share limit A k p) n \<le> l"
proof -
  let ?T = "\<Sum>p | liveProject db org p. alloc L db p n"
  have lmax: "0 \<le> l" "l < MaxInt64" using lim l by (auto dest: qty_strictD)
  have "qget (sumAllocations A) n \<le> l"
    using below l by (simp add: checkNotBelow_def guardR_eq_Inr Exceeds_None)
  with lmax sumAllocations_spec(2) [OF st A, of n]
  have T: "?T \<le> l" "qget (sumAllocations A) n = ?T" by auto
  then show "?T \<le> l" by simp
  assume p: "liveProject db org p"
  have kpos: "0 < int k" using p k by (auto simp: card_gt_0_iff)
  have ap: "0 \<le> alloc L db p n" "alloc L db p n \<le> ?T"
    using alloc_nonneg [OF st] p by (auto intro: member_le_sum)
  have "0 \<le> (l - ?T) div int k" "(l - ?T) div int k \<le> l - ?T"
    using T(1) kpos zdiv_mono2 [of "l - ?T" 1 "int k"] by (auto simp: pos_imp_zdiv_nonneg_iff)
  moreover have sub: "qty_ok (Quantities_Sub limit (sumAllocations A))"
    using lim sumAllocations_spec(1) [OF st A] by auto
  moreover have "qget (Quantities_Sub limit (sumAllocations A)) n = l - ?T"
    using qget_Sub [of limit "sumAllocations A" n] lim sumAllocations_spec(1) [OF st A] T l by auto
  moreover have "qty_ok (SplitEqually (Quantities_Sub limit (sumAllocations A)) (int k))"
    unfolding qty_ok_iff using SplitEqually_Some(2) [OF sub] sub by (metis order_trans qty_okD)
  moreover have "qget (Quantities_Only (alloc_get A p) limit) n = alloc L db p n"
    using A p l ap T lmax by (auto simp: qget_Only allocations_of_def)
  moreover have "qty_ok (Quantities_Only (alloc_get A p) limit)"
    using A by (auto simp: allocations_of_def)
  ultimately show "qget (project_share limit A k p) n = (l - ?T) div int k + alloc L db p n"
    and "qget (project_share limit A k p) n \<le> l"
    using ap T lmax kpos qget_SplitEqually [OF sub, of "int k" n]
    by (auto simp: project_share_def qget_Add)
qed

lemma project_share_dom:
  "0 < k \<Longrightarrow> fmlookup (project_share limit A k p) n = None \<longleftrightarrow> fmlookup limit n = None"
  by (auto simp: project_share_def gomap_simps split: option.splits)

text \<open>The shares use up at most the organization quota.\<close>

lemma project_share_sum:
  assumes "stored_ok L db" "allocations_of L db org A" "qty_strict limit"
    "checkNotBelow limit (sumAllocations A) = Inr u" "k = card {p. liveProject db org p}" "fmlookup limit n = Some l"
  shows "(\<Sum>p | liveProject db org p. qget (project_share limit A k p) n) \<le> l"
proof -
  let ?T = "\<Sum>p | liveProject db org p. alloc L db p n"
  have "(\<Sum>p | liveProject db org p. qget (project_share limit A k p) n) =
      (\<Sum>p | liveProject db org p. (l - ?T) div int k + alloc L db p n)"
    using project_share_get(2) [OF assms] by (intro sum.cong) auto
  also have "\<dots> = int k * ((l - ?T) div int k) + ?T"
    using assms(5) by (simp add: sum.distrib)
  also have "\<dots> \<le> (l - ?T) + ?T"
  proof (cases "k = 0")
    case True
    then show ?thesis using project_share_get(1) [OF assms] by simp
  next
    case False
    then show ?thesis
      using mult_div_mod_eq [of "int k" "l - ?T"] pos_mod_sign [of "int k" "l - ?T"] by linarith
  qed
  finally show ?thesis by simp
qed

text \<open>
  What the projects look like just before the new organization quota is stored: they fit in it and
  each covers its zones, whichever way the code took to get there.
\<close>

definition org_spread :: "quantity_lib \<Rightarrow> quota_db \<Rightarrow> quota_db \<Rightarrow> uuid \<Rightarrow> quantities \<Rightarrow> bool" where
  "org_spread L db db' org limit \<longleftrightarrow>
     orgQ db' = orgQ db \<and> liveProject db' = liveProject db \<and> stored_ok L db' \<and> owner_ok db' \<and>
     (\<forall>p. \<not> liveProject db org p \<longrightarrow> projQ db' p = projQ db p \<and> azQ db' p = azQ db p) \<and>
     (\<forall>n l. fmlookup limit n = Some l \<longrightarrow> (\<Sum>p | liveProject db org p. alloc L db' p n) \<le> l) \<and>
     (\<forall>p n. liveProject db org p \<longrightarrow>
        (case fmlookup (lv L (projQ db' p)) n of
           Some v \<Rightarrow> azSum L db' p n \<le> v
         | None \<Rightarrow> fmlookup limit n \<noteq> None \<longrightarrow> azSum L db' p n \<le> 0))"

lemma set_org_inv:
  assumes inv: "quota_inv L db" and sp: "org_spread L db tx org limit"
    and req: "Resources_Parse L res = Inr limit" "qty_strict limit"
  shows "quota_inv L (fst (upsertOrganizationQuota tx org res))" (is "quota_inv L ?db'")
proof -
  have lvres: "lv L (Some res) = limit" "row_ok L (Some res)" using req by (auto simp: parsed_def row_ok_def)
  have az: "azSum L ?db' p n = azSum L tx p n" "alloc L ?db' p n = alloc L tx p n" for p n
    using azSum_cong [of ?db' p tx L n] alloc_cong [of ?db' p tx L n] by (simp_all add: qs.writes)
  show ?thesis
  proof (rule quota_inv_write [OF inv, where org = org])
    show "stored_ok L ?db'" using sp lvres(2) by (auto simp: stored_ok_def org_spread_def qs.writes)
    show "owner_ok ?db'" using sp by (simp add: owner_ok_def org_spread_def qs.writes)
    show "org_fits L ?db' org" using sp lvres(1) by (simp add: org_fits_def org_spread_def az qs.writes)
    show "proj_fits L ?db' org p" if "liveProject db org p" for p
      unfolding proj_fits_def
    proof (intro allI impI)
      fix n l assume l: "proj_limit L ?db' org p n = Some l"
      have "case fmlookup (lv L (projQ tx p)) n of Some v \<Rightarrow> azSum L tx p n \<le> v
          | None \<Rightarrow> fmlookup limit n \<noteq> None \<longrightarrow> azSum L tx p n \<le> 0"
        using sp that by (simp add: org_spread_def)
      with l lvres(1) show "azSum L ?db' p n \<le> l"
        by (auto simp: az proj_limit_def qs.writes split: option.splits if_splits)
    qed
  qed (use sp in \<open>auto simp: org_spread_def qs.writes\<close>)
qed

lemma owner_ok_saved:
  assumes "all_saved L db db' org S Q" "owner_ok db" "\<And>p. p \<in> S \<Longrightarrow> liveProject db org p"
  shows "owner_ok db'"
  using assms liveProject_unique unfolding owner_ok_def all_saved_def by metis

lemma all_saved_stored:
  assumes "all_saved L db db' org S Q" "stored_ok L db"
    "\<And>p. p \<in> S \<Longrightarrow> row_ok L (Some (Quantities_Resources L (Q p)))"
  shows "stored_ok L db'"
  using assms unfolding stored_ok_def all_saved_def by metis

lemma project_share_strict:
  assumes "stored_ok L db" "allocations_of L db org A" "qty_strict limit"
    "checkNotBelow limit (sumAllocations A) = Inr u" "k = card {p. liveProject db org p}" "liveProject db org p"
  shows "qty_strict (project_share limit A k p)"
  unfolding qty_strict_iff
proof (intro allI impI)
  fix n v assume v: "fmlookup (project_share limit A k p) n = Some v"
  have "0 < k" using assms(5,6) by (auto simp: card_gt_0_iff)
  with v obtain l where l: "fmlookup limit n = Some l"
    using project_share_dom [of k limit A p n] by (metis not_Some_eq option.distinct(1))
  have "0 \<le> (l - (\<Sum>p | liveProject db org p. alloc L db p n)) div int k"
    using project_share_get(1) [OF assms(1-5) l] by (simp add: pos_imp_zdiv_nonneg_iff \<open>0 < k\<close>)
  with v project_share_get(2,3) [OF assms(1-5) l assms(6)] alloc_nonneg [OF assms(1), of p n]
    qty_strictD [OF assms(3) l]
  show "0 \<le> v \<and> v < MaxInt64" by simp
qed

lemma distribute_saved:
  assumes L: "quantity_laws L" and azs: "azs_ok azs" and inv: "quota_inv L db"
    and A: "allocations_of L db org A" and empty: "listProjectQuotas db org = []"
    and lim: "Resources_Parse L res = Inr limit" "qty_strict limit"
    and below: "checkNotBelow limit (sumAllocations A) = Inr u"
    and run: "distributeAmongProjects L azs db org limit A = Inr db'"
    and Q: "Q = project_share limit A (card {p. liveProject db org p})"
  shows "all_saved L db db' org {p. liveProject db org p} Q"
    and "liveProject db org p \<Longrightarrow> lv L (projQ db' p) = Q p \<and> row_ok L (Some (Quantities_Resources L (Q p)))"
proof -
  note st = quota_invD(1) [OF inv] and ow = quota_invD(2) [OF inv]
  have k: "length (listProjectIds db org) = card {p. liveProject db org p}"
    by (metis distinct_card distinct_listProjectIds set_listProjectIds)
  have none: "projQ db p = None" if "liveProject db org p" for p
    using map_of_listProjectQuotas [OF ow, of org p] that empty by (simp add: projQ_def)
  have ok: "qty_strict (Q p) \<and> Resources_Parse L (Quantities_Resources L (Q p)) = Inr (Q p)"
    if p: "liveProject db org p" for p
  proof -
    have "0 < card {p. liveProject db org p}" using p by (auto simp: card_gt_0_iff)
    then have "fmlookup translations_map n \<noteq> None" if "fmlookup (Q p) n \<noteq> None" for n
      using that project_share_dom [of _ limit A p n] Parse_names [OF lim(1), of n] by (simp add: Q)
    moreover have "qty_strict (Q p)"
      unfolding Q by (rule project_share_strict [OF st A lim(2) below refl p])
    ultimately show ?thesis using Parse_Resources [OF L, of "Q p"] by blast
  qed
  obtain d where "distributeAmongProjects L azs db org limit A = Inr d"
    and "all_saved L db d org {p. liveProject db org p} Q"
    using save_projects [OF L azs st distinct_listProjectIds, of db org Q "\<lambda>p. fmlookup A p \<noteq> None" org] ok none A
    unfolding distributeAmongProjects_fold set_listProjectIds k Q by (auto simp: allocations_of_def)
  with run show sv: "all_saved L db db' org {p. liveProject db org p} Q" by simp
  show "lv L (projQ db' p) = Q p \<and> row_ok L (Some (Quantities_Resources L (Q p)))" if "liveProject db org p"
    using sv ok [OF that] that by (auto simp: all_saved_def parsed_def row_ok_def)
qed

lemma distribute_spread:
  assumes L: "quantity_laws L" and azs: "azs_ok azs" and inv: "quota_inv L db"
    and A: "allocations_of L db org A" and empty: "listProjectQuotas db org = []"
    and lim: "Resources_Parse L res = Inr limit" "qty_strict limit"
    and below: "checkNotBelow limit (sumAllocations A) = Inr u"
    and run: "distributeAmongProjects L azs db org limit A = Inr db'"
  shows "org_spread L db db' org limit"
proof -
  note st = quota_invD(1) [OF inv]
  define k where "k = card {p. liveProject db org p}"
  define Q where "Q = project_share limit A k"
  note saved = distribute_saved [OF L azs inv A empty lim below run Q_def [unfolded k_def]]
  note share = project_share_get [OF st A lim(2) below k_def]
  have kpos: "0 < k" if "liveProject db org p" for p using that by (auto simp: k_def card_gt_0_iff)
  have az: "azSum L db' p n \<le> qget (Q p) n" if p: "liveProject db org p" and l: "fmlookup limit n = Some l" for p n l
  proof -
    have "azSum L db p n \<le> alloc L db p n" by (simp add: alloc_def)
    moreover have "0 \<le> (l - (\<Sum>p | liveProject db org p. alloc L db p n)) div int k"
      using share(1) [OF l] kpos [OF p] by (simp add: pos_imp_zdiv_nonneg_iff)
    moreover have "azSum L db' p n \<le> max (azSum L db p n) (qget (Q p) n)"
      using saved(1) p by (simp add: all_saved_def)
    ultimately show ?thesis using share(2) [OF l p] by (simp add: Q_def)
  qed
  have "(\<Sum>p | liveProject db org p. alloc L db' p n) \<le> l" if l: "fmlookup limit n = Some l" for n l
  proof -
    have "(\<Sum>p | liveProject db org p. alloc L db' p n) = (\<Sum>p | liveProject db org p. qget (Q p) n)"
      using az [OF _ l] saved(2) by (intro sum.cong) (simp_all add: alloc_def max_absorb1)
    also have "\<dots> \<le> l" unfolding Q_def by (rule project_share_sum [OF st A lim(2) below k_def l])
    finally show ?thesis .
  qed
  moreover have "case fmlookup (lv L (projQ db' p)) n of Some v \<Rightarrow> azSum L db' p n \<le> v
      | None \<Rightarrow> fmlookup limit n \<noteq> None \<longrightarrow> azSum L db' p n \<le> 0" if p: "liveProject db org p" for p n
    using az [OF p, of n] saved(2) [OF p] project_share_dom [OF kpos [OF p], of limit A p n]
    by (auto simp: Q_def split: option.splits)
  ultimately show ?thesis
    using saved(1) owner_ok_saved [OF saved(1) quota_invD(2) [OF inv]] all_saved_stored [OF saved(1) st] saved(2)
    by (auto simp: org_spread_def all_saved_def)
qed


section \<open>Completing the existing project quotas\<close>

lemma Parse_fmadd:
  assumes "Resources_Parse L r = Inr q" and "Resources_Parse L s = Inr t"
  shows "Resources_Parse L (r ++\<^sub>f s) = Inr (q ++\<^sub>f t)"
  unfolding Parse_iff
proof
  fix n
  show "case fmlookup (r ++\<^sub>f s) n of None \<Rightarrow> fmlookup (q ++\<^sub>f t) n = None
    | Some w \<Rightarrow> fmlookup translations_map n \<noteq> None \<and> (\<exists>v. parseQuantity L n w = Inr v \<and> fmlookup (q ++\<^sub>f t) n = Some v)"
    using assms [unfolded Parse_iff, THEN spec [of _ n]]
    by (auto simp: fmlookup_dom_iff split: option.splits)
qed

lemma cover_fold:
  fixes c :: "uuid \<Rightarrow> bool" and r :: "uuid \<Rightarrow> resources" and org :: uuid
  defines "step \<equiv> \<lambda>p d. if c p then d else fst (upsertProjectQuota d org p (r p))"
  shows "orgQ (fold step ps db) = orgQ db" "liveProject (fold step ps db) = liveProject db"
    "azQ (fold step ps db) = azQ db"
    "projQ (fold step ps db) = (\<lambda>p. if p \<in> set ps \<and> \<not> c p then Some (r p) else projQ db p)"
    "\<And>p. \<forall>row. findProjectQuota (fold step ps db) p = Some row \<longrightarrow>
       OrganizationId row = org \<and> p \<in> set ps \<or> findProjectQuota db p = Some row"
proof (induction ps arbitrary: db)
  case (Cons p ps)
  { case 1 show ?case using Cons(1) by (simp add: step_def qs.writes) }
  { case 2 show ?case using Cons(2) by (simp add: step_def qs.writes) }
  { case 3 show ?case using Cons(3) by (simp add: step_def qs.writes) }
  { case 4 show ?case using Cons(4) by (auto simp: step_def qs.writes) }
  { case (5 p')
    show ?case using Cons(5) [of "step p db" p'] by (cases "p' = p") (auto simp: step_def split: if_splits) }
qed auto

text \<open>The resources a project quota lacks are those its zones hold without it, with what they hold.\<close>

lemma missing_lookup:
  assumes st: "stored_ok L db" and A: "allocations_of L db org A" and lim: "qty_strict limit"
    and below: "checkNotBelow limit (sumAllocations A) = Inr u"
    and p: "liveProject db org p" and d: "defined = (case projQ db p of None \<Rightarrow> fmempty | Some r \<Rightarrow> r)"
  shows "fmlookup (missingQuantities (alloc_get A p) limit defined) n =
    (if fmlookup limit n \<noteq> None \<and> fmlookup (lv L (projQ db p)) n = None \<and> 0 < azSum L db p n
     then Some (azSum L db p n) else None)"
proof (cases "fmlookup limit n")
  case None
  then show ?thesis by (simp add: missingQuantities_def Let_def Only_lookup)
next
  case (Some l)
  have dom: "fmlookup defined n = None \<longleftrightarrow> fmlookup (lv L (projQ db p)) n = None"
    using stored_okD(2) [OF st, of p] by (cases "projQ db p") (auto simp: d dest: row_okD Parse_lookup(1))
  have "alloc L db p n \<le> (\<Sum>p | liveProject db org p. alloc L db p n)"
    using alloc_nonneg [OF st] p by (auto intro: member_le_sum)
  also have "\<dots> \<le> l" by (rule project_share_get(1) [OF st A lim below refl Some])
  finally have "qget (alloc_get A p) n = alloc L db p n"
    using A p qty_strictD [OF lim Some] by (simp add: allocations_of_def)
  moreover have "alloc L db p n = azSum L db p n" if "fmlookup (lv L (projQ db p)) n = None"
    using that azSum_nonneg [OF st, of p n] by (simp add: alloc_def)
  ultimately show ?thesis
    using Some dom by (auto simp: missingQuantities_def Let_def Only_lookup qget_def split: option.splits)
qed

lemma defined_projQ:
  "owner_ok db \<Longrightarrow> liveProject db org p \<Longrightarrow>
     defined_get (quotasByProject (listProjectQuotas db org)) p = (case projQ db p of None \<Rightarrow> fmempty | Some r \<Rightarrow> r)"
  unfolding defined_get_def quotasByProject_def fold_fmupd_list [OF listProjectQuotas_distinct]
  by (simp add: map_of_listProjectQuotas projQ_def split: option.splits)

text \<open>A completed quota keeps its own values and takes over what the zones hold.\<close>

lemma cover_levels:
  assumes L: "quantity_laws L" and inv: "quota_inv L db" and A: "allocations_of L db org A"
    and lim: "Resources_Parse L res = Inr limit" "qty_strict limit"
    and below: "checkNotBelow limit (sumAllocations A) = Inr u"
    and db': "db' = coverAZQuotas L db org limit (listProjectQuotas db org) A"
    and p: "liveProject db org p"
  shows "row_ok L (projQ db' p)"
    and "fmlookup (lv L (projQ db' p)) n =
      (case fmlookup (lv L (projQ db p)) n of Some v \<Rightarrow> Some v
       | None \<Rightarrow> if fmlookup limit n \<noteq> None \<and> 0 < azSum L db p n then Some (azSum L db p n) else None)"
proof -
  note st = quota_invD(1) [OF inv]
  let ?d = "defined_get (quotasByProject (listProjectQuotas db org)) p"
  define m where "m = missingQuantities (alloc_get A p) limit ?d"
  note dd = defined_projQ [OF quota_invD(2) [OF inv] p]
  note m = missing_lookup [OF st A lim(2) below p dd, folded m_def]
  have "qty_strict m"
    unfolding qty_strict_iff
  proof (intro allI impI)
    fix n v assume v: "fmlookup m n = Some v"
    then obtain l where l: "fmlookup limit n = Some l" "v = azSum L db p n" by (auto simp: m split: if_splits)
    have "alloc L db p n \<le> (\<Sum>p | liveProject db org p. alloc L db p n)"
      using alloc_nonneg [OF st] p by (auto intro: member_le_sum)
    then show "0 \<le> v \<and> v < MaxInt64"
      using l(2) project_share_get(1) [OF st A lim(2) below refl l(1)] qty_strictD [OF lim(2) l(1)]
        azSum_nonneg [OF st, of p n] by (simp add: alloc_def)
  qed
  then have "Resources_Parse L (Quantities_Resources L m) = Inr m"
    using Parse_names [OF lim(1)] by (intro Parse_Resources [OF L]) (auto simp: m split: if_splits)
  then have P: "Resources_Parse L (?d ++\<^sub>f Quantities_Resources L m) = Inr (lv L (projQ db p) ++\<^sub>f m)"
    using Parse_level [OF stored_okD(2) [OF st, of p]] unfolding dd by (rule Parse_fmadd [rotated])
  have proj: "projQ db' p = (if m = fmempty then projQ db p else Some (?d ++\<^sub>f Quantities_Resources L m))"
  proof -
    have "m = fmempty" if "fmlookup A p = None"
      unfolding m_def missingQuantities_def using that by (simp add: alloc_get_def Quantities_Only_def Let_def)
    then show ?thesis
      unfolding db' coverAZQuotas_def Let_def cover_fold by (auto simp: m_def in_fmdom_iff)
  qed
  have lv': "lv L (projQ db' p) = lv L (projQ db p) ++\<^sub>f m"
    using P by (auto simp: proj parsed_def)
  show "row_ok L (projQ db' p)"
    using stored_okD(2) [OF st, of p] P \<open>qty_strict m\<close> qty_strict_lv [OF stored_okD(2) [OF st, of p]]
    by (auto simp: proj row_ok_def qty_strict_iff split: if_splits)
  show "fmlookup (lv L (projQ db' p)) n =
      (case fmlookup (lv L (projQ db p)) n of Some v \<Rightarrow> Some v
       | None \<Rightarrow> if fmlookup limit n \<noteq> None \<and> 0 < azSum L db p n then Some (azSum L db p n) else None)"
    unfolding lv' by (auto simp: m in_fmdom_iff split: option.splits)
qed

lemma cover_frame:
  assumes "db' = coverAZQuotas L db org limit pq A" and "\<And>p. fmlookup A p \<noteq> None \<Longrightarrow> liveProject db org p"
  shows "orgQ db' = orgQ db" "liveProject db' = liveProject db" "azQ db' = azQ db"
    "\<not> liveProject db org p \<Longrightarrow> projQ db' p = projQ db p"
    "owner_ok db \<Longrightarrow> owner_ok db'"
proof -
  have db': "db' = fold (\<lambda>p d. if missingQuantities (alloc_get A p) limit (defined_get (quotasByProject pq) p) = fmempty
      then d else fst (upsertProjectQuota d org p (defined_get (quotasByProject pq) p ++\<^sub>f
        Quantities_Resources L (missingQuantities (alloc_get A p) limit (defined_get (quotasByProject pq) p)))))
      (gkeys A) db"
    unfolding assms(1) coverAZQuotas_def Let_def ..
  show "orgQ db' = orgQ db" "liveProject db' = liveProject db" "azQ db' = azQ db"
    unfolding db' by (rule cover_fold)+
  have "OrganizationId row = o'"
    if "owner_ok db" "findProjectQuota db' p = Some row" "liveProject db o' p" for p row o'
    using cover_fold(5) [rule_format, OF that(2) [unfolded db']] that assms(2) [of p] liveProject_unique
    by (auto simp: in_fmdom_iff owner_ok_def)
  then show "owner_ok db'" if "owner_ok db"
    using that \<open>liveProject db' = liveProject db\<close> by (auto simp: owner_ok_def)
  show "\<not> liveProject db org p \<Longrightarrow> projQ db' p = projQ db p"
    unfolding db' cover_fold using assms(2) [of p] by (auto simp: in_fmdom_iff)
qed

lemma cover_spread:
  assumes L: "quantity_laws L" and inv: "quota_inv L db" and A: "allocations_of L db org A"
    and lim: "Resources_Parse L res = Inr limit" "qty_strict limit"
    and below: "checkNotBelow limit (sumAllocations A) = Inr u"
    and db': "db' = coverAZQuotas L db org limit (listProjectQuotas db org) A"
  shows "org_spread L db db' org limit"
proof -
  note st = quota_invD(1) [OF inv]
  have "liveProject db org p" if "fmlookup A p \<noteq> None" for p using A that by (auto simp: allocations_of_def)
  note frame = cover_frame [OF db' this]
  note lev = cover_levels [OF L inv A lim below db']
  have az: "azSum L db' p n = azSum L db p n" for p n by (rule azSum_cong) (simp add: frame)
  have "row_ok L (projQ db' p)" for p
    using lev(1) [of p] frame(4) [of p] stored_okD(2) [OF st, of p] by (cases "liveProject db org p") auto
  then have st': "stored_ok L db'" using st by (simp add: stored_ok_def frame)
  have "alloc L db' p n = alloc L db p n" if "liveProject db org p" for p n
  proof -
    have "qget (lv L (projQ db' p)) n = qget (lv L (projQ db p)) n \<or>
        fmlookup (lv L (projQ db p)) n = None \<and> qget (lv L (projQ db' p)) n = azSum L db p n"
      unfolding qget_def lev(2) [OF that] by (auto split: option.splits)
    then show ?thesis using azSum_nonneg [OF st, of p n] by (auto simp: alloc_def az)
  qed
  then have "(\<Sum>p | liveProject db org p. alloc L db' p n) \<le> l" if "fmlookup limit n = Some l" for n l
    using project_share_get(1) [OF st A lim(2) below refl that] by simp
  moreover have "case fmlookup (lv L (projQ db' p)) n of Some v \<Rightarrow> azSum L db' p n \<le> v
      | None \<Rightarrow> fmlookup limit n \<noteq> None \<longrightarrow> azSum L db' p n \<le> 0" if p: "liveProject db org p" for p n
    unfolding lev(2) [OF p] az using quota_invD(4) [OF inv p]
    by (auto simp: proj_fits_def proj_limit_def split: option.splits)
  ultimately show ?thesis
    using frame st' quota_invD(2) [OF inv] by (auto simp: org_spread_def)
qed

lemma SetOrganizationQuota_inv:
  assumes L: "quantity_laws L" and inv: "quota_inv L db"
    and strict: "\<And>q. Resources_Parse L res = Inr q \<Longrightarrow> qty_strict q" and azs: "azs_ok azs"
    and run: "SetOrganizationQuota L azs db org res = (db', r)"
  shows "quota_inv L db'"
proof (cases "\<exists>e. r = Inl e")
  case True
  then have "db' = db"
    using run by (auto simp: SetOrganizationQuota_def dest!: transaction_cases split: sum.splits)
  with inv show ?thesis by simp
next
  case False
  obtain A where A: "projectAllocations L db org = Inr (listProjectQuotas db org, A)" "allocations_of L db org A"
    using projectAllocations_spec [OF quota_invD(1,2) [OF inv]] by blast
  obtain limit tx row where limit: "Resources_Parse L res = Inr limit"
    and below: "checkNotBelow limit (sumAllocations A) = Inr ()"
    and tx: "(if listProjectQuotas db org = [] then distributeAmongProjects L azs db org limit A
             else Inr (coverAZQuotas L db org limit (listProjectQuotas db org) A)) = Inr tx"
    and db': "upsertOrganizationQuota tx org res = (db', row)"
    using run False A(1)
    by (auto simp: SetOrganizationQuota_def result_simps dest!: transaction_cases split: sum.splits)
  have "org_spread L db tx org limit"
    using tx distribute_spread [OF L azs inv A(2) _ limit strict [OF limit] below]
      cover_spread [OF L inv A(2) limit strict [OF limit] below] by (auto split: if_splits)
  from set_org_inv [OF inv this limit strict [OF limit]] db' show ?thesis by simp
qed

end
