(* ===== verification/Quota_Lifecycle.thy ===== *)
theory Quota_Lifecycle
  imports Quota_Organization
begin

text \<open>
  The life of the rows the quotas hang on: projects and organizations are created and deleted
  (\<^verbatim>\<open>internal/db/crud/project/project.go\<close>, \<^verbatim>\<open>internal/db/crud/organization/organization.go\<close>), a
  project is deactivated and reactivated (\<^verbatim>\<open>crud/project/deactivation.go\<close>). Together with the
  quota writes they are the steps of \<open>quota_step\<close>; every state they reach satisfies \<open>quota_inv\<close>.

  Identifiers are generated by the database (\<^verbatim>\<open>gen_random_uuid()\<close>): a new one is in no table
  (\<open>fresh_id\<close>).
\<close>

section \<open>Operations\<close>

definition fresh_id :: "quota_db \<Rightarrow> uuid \<Rightarrow> bool" where
  "fresh_id db i \<longleftrightarrow>
     fmlookup (organizations db) i = None \<and> fmlookup (projects db) i = None \<and>
     fmlookup (organization_quotas db) i = None \<and> fmlookup (project_quotas db) i = None \<and>
     fmfilter (\<lambda>(p, _). p = i) (project_az_quotas db) = fmempty"

definition organization_Create :: "quota_db \<Rightarrow> uuid \<Rightarrow> quota_db" where
  "organization_Create db i = db\<lparr>organizations := fmupd i False (organizations db)\<rparr>"

definition CreateProject :: "quota_db \<Rightarrow> uuid \<Rightarrow> uuid \<Rightarrow> quota_db" where
  "CreateProject db orgaId i = db\<lparr>projects := fmupd i \<lparr>OrgaId = orgaId, p_Deleted = False\<rparr> (projects db)\<rparr>"

text \<open>\<^verbatim>\<open>DeleteById\<close>: the quota rows, then the project itself (soft-deleted, and only as a live project
  of the organization), then its deactivations, all in one transaction.\<close>

definition DeleteById :: "quota_db \<Rightarrow> uuid \<Rightarrow> uuid \<Rightarrow> quota_db \<times> (quota_error + unit)" where
  "DeleteById db projectId orgaId =
     (case DeleteForProject db orgaId projectId of
        Inl e \<Rightarrow> (db, Inl (if e = ErrOrganizationNotFound then ErrRecordNotFound else e))
      | Inr tx \<Rightarrow>
          if \<not> liveProject tx orgaId projectId then (db, Inl ErrRecordNotFound)
          else (tx\<lparr>projects := fmupd projectId \<lparr>OrgaId = orgaId, p_Deleted = True\<rparr> (projects tx),
                   project_deactivations := fmfilter (\<lambda>(p, _). p \<noteq> projectId) (project_deactivations tx)\<rparr>,
                Inr ()))"

text \<open>\<^verbatim>\<open>Delete\<close> of an organization: an organization that is not found keeps its quota rows, the
  projects are soft-deleted all the same.\<close>

definition organization_Delete :: "quota_db \<Rightarrow> uuid \<Rightarrow> quota_db \<times> (quota_error + unit)" where
  "organization_Delete db org =
     (let deleted = DeleteForOrganization db org
      in case (case deleted of Inl e \<Rightarrow> if e = ErrOrganizationNotFound then Inr db else Inl e | Inr tx \<Rightarrow> Inr tx) of
           Inl e \<Rightarrow> (db, Inl e)
         | Inr tx \<Rightarrow>
             (tx\<lparr>project_deactivations := fmfilter (\<lambda>(p, _). \<not> projectOf tx org p) (project_deactivations tx),
                 projects := fmmap_keys (\<lambda>p row. if OrgaId row = org then row\<lparr>p_Deleted := True\<rparr> else row) (projects tx),
                 organizations := (case fmlookup (organizations tx) org of
                                     None \<Rightarrow> organizations tx
                                   | Some _ \<Rightarrow> fmupd org True (organizations tx))\<rparr>,
              Inr ()))"

definition DeactivationQuotaFailedToApply :: string where
  "DeactivationQuotaFailedToApply = ''quotaFailedToApply''"

definition Deactivate :: "quota_db \<Rightarrow> uuid \<Rightarrow> string \<Rightarrow> string \<Rightarrow> quota_db" where
  "Deactivate db projectId reason message =
     db\<lparr>project_deactivations := fmupd (projectId, reason) message (project_deactivations db)\<rparr>"

definition Reactivate :: "quota_db \<Rightarrow> uuid \<Rightarrow> string \<Rightarrow> quota_db" where
  "Reactivate db projectId reason =
     db\<lparr>project_deactivations := fmdrop (projectId, reason) (project_deactivations db)\<rparr>"

definition ListDeactivations :: "quota_db \<Rightarrow> uuid \<Rightarrow> uuid \<Rightarrow> (string \<times> string) list" where
  "ListDeactivations db orgaId projectId =
     (if liveProject db orgaId projectId
      then map (\<lambda>((_, reason), message). (reason, message))
             (filter (\<lambda>((p, _), _). p = projectId) (gentries (project_deactivations db)))
      else [])"

text \<open>\<^verbatim>\<open>CheckProjectActive\<close> on a request whose identifiers are valid: \<open>None\<close> when the next handler
  is called, otherwise the status it answers.\<close>

definition CheckProjectActive :: "quota_db \<Rightarrow> uuid \<Rightarrow> uuid \<Rightarrow> int option" where
  "CheckProjectActive db orgaId projectId =
     (if ListDeactivations db orgaId projectId \<noteq> [] then Some 423 else None)"


section \<open>Deletions keep the invariant\<close>

text \<open>Every level is left as it was or emptied, and a project that is new has no quota.\<close>

lemma quota_inv_shrink:
  assumes inv: "quota_inv L db"
    and orgs: "\<And>org. orgQ db' org = orgQ db org \<or> orgQ db' org = None"
    and projs: "\<And>p row'. findProjectQuota db' p = Some row' \<Longrightarrow>
       \<exists>row. findProjectQuota db p = Some row \<and> Resources row = Resources row' \<and> OrganizationId row = OrganizationId row'"
    and azs: "\<And>p c. azQ db' p c = azQ db p c \<or> azQ db' p c = None"
    and live: "\<And>org p. liveProject db' org p \<Longrightarrow>
       liveProject db org p \<and> projQ db' p = projQ db p \<and> azQ db' p = azQ db p \<or>
       projQ db' p = None \<and> azQ db' p = (\<lambda>_. None)"
  shows "quota_inv L db'"
proof -
  note st = quota_invD(1) [OF inv]
  have pr: "projQ db' p = projQ db p \<or> projQ db' p = None" for p
    using projs [of p] by (cases "findProjectQuota db' p") (auto simp: projQ_def)
  have st': "stored_ok L db'"
    unfolding stored_ok_def
  proof (intro conjI allI)
    show "row_ok L (orgQ db' org)" for org using orgs [of org] stored_okD(1) [OF st, of org] by (auto simp: row_ok_def)
    show "row_ok L (projQ db' p)" for p using pr [of p] stored_okD(2) [OF st, of p] by (auto simp: row_ok_def)
    show "row_ok L (azQ db' p c)" for p c using azs [of p c] stored_okD(3) [OF st, of p c] by (auto simp: row_ok_def)
    show "azQ db' p [] = None" for p using azs [of p "[]"] stored_okD(4) [OF st, of p] by auto
  qed
  have "owner_ok db'"
    unfolding owner_ok_def
  proof (intro allI impI)
    fix p row' org assume *: "findProjectQuota db' p = Some row'" "liveProject db' org p"
    then have "liveProject db org p" using live [OF *(2)] by (auto simp: projQ_def)
    then show "OrganizationId row' = org" using projs [OF *(1)] quota_invD(2) [OF inv] by (auto simp: owner_ok_def)
  qed
  moreover have zero: "azSum L db' p n = 0" "alloc L db' p n = 0" if "projQ db' p = None" "azQ db' p = (\<lambda>_. None)" for p n
    using that by (simp_all add: alloc_def azSum_def azCodes_def)
  have fits: "proj_fits L db' org p" if p: "liveProject db' org p" for org p
    using live [OF p]
  proof
    assume same: "liveProject db org p \<and> projQ db' p = projQ db p \<and> azQ db' p = azQ db p"
    then have "azSum L db' p n = azSum L db p n" for n by (intro azSum_cong) simp
    moreover have "proj_limit L db' org p n = Some l \<Longrightarrow> proj_limit L db org p n = Some l" for n l
      using same orgs [of org] by (auto simp: proj_limit_def split: option.splits if_splits)
    ultimately show ?thesis using quota_invD(4) [OF inv, of org p] same by (simp add: proj_fits_def)
  qed (auto simp: proj_fits_def zero proj_limit_def split: if_splits)
  have "org_fits L db' org" for org
    unfolding org_fits_def
  proof (intro allI impI)
    fix n l assume l: "fmlookup (lv L (orgQ db' org)) n = Some l"
    then have l0: "fmlookup (lv L (orgQ db org)) n = Some l" using orgs [of org] by auto
    let ?S = "{p. liveProject db' org p \<and> liveProject db org p \<and> projQ db' p = projQ db p \<and> azQ db' p = azQ db p}"
    have "(\<Sum>p | liveProject db' org p. alloc L db' p n) = (\<Sum>p\<in>?S. alloc L db' p n)"
      using live zero(2) by (intro sum.mono_neutral_right) auto
    also have "\<dots> = (\<Sum>p\<in>?S. alloc L db p n)" by (intro sum.cong alloc_cong) auto
    also have "\<dots> \<le> (\<Sum>p | liveProject db org p. alloc L db p n)"
      using alloc_nonneg [OF st] by (intro sum_mono2) auto
    also have "\<dots> \<le> l" using quota_invD(3) [OF inv, of org] l0 by (simp add: org_fits_def)
    finally show "(\<Sum>p | liveProject db' org p. alloc L db' p n) \<le> l" .
  qed
  ultimately show ?thesis using st' fits by (simp add: quota_inv_def)
qed

text \<open>Writing new revisions touches nothing else.\<close>

lemma bumpRows_fold:
  assumes "distinct (map fst xs)" "\<And>k row. (k, row) \<in> set xs \<Longrightarrow> fmlookup tab k = Some row"
    and "fold (\<lambda>(k, row) (t, s). if sel k row then (fmupd k (row\<lparr>Revision := s + 1\<rparr>) t, s + 1) else (t, s)) xs (tab, s) = (t', s')"
  shows "s \<le> s' \<and> (\<forall>k. case map_of xs k of
        None \<Rightarrow> fmlookup t' k = fmlookup tab k
      | Some row \<Rightarrow> if sel k row then \<exists>r. s < r \<and> r \<le> s' \<and> fmlookup t' k = Some (row\<lparr>Revision := r\<rparr>)
                    else fmlookup t' k = Some row)"
  using assms
proof (induction xs arbitrary: tab s)
  case (Cons x xs)
  obtain k0 row0 where x: "x = (k0, row0)" by (cases x)
  define tab1 where "tab1 = (if sel k0 row0 then fmupd k0 (row0\<lparr>Revision := s + 1\<rparr>) tab else tab)"
  define s1 where "s1 = (if sel k0 row0 then s + 1 else s)"
  have notin: "map_of xs k0 = None" using Cons.prems(1) x by (simp add: map_of_eq_None_iff)
  have k0: "fmlookup tab k0 = Some row0" using Cons.prems(2) x by simp
  have "fmlookup tab1 k = Some row" if "(k, row) \<in> set xs" for k row
    using that Cons.prems(1,2) x by (force simp: tab1_def)
  moreover have "fold (\<lambda>(k, row) (t, s). if sel k row then (fmupd k (row\<lparr>Revision := s + 1\<rparr>) t, s + 1) else (t, s))
      xs (tab1, s1) = (t', s')"
    using Cons.prems(3) x by (simp add: tab1_def s1_def split: if_splits)
  ultimately have IH: "s1 \<le> s'" "\<And>k. case map_of xs k of
        None \<Rightarrow> fmlookup t' k = fmlookup tab1 k
      | Some row \<Rightarrow> if sel k row then \<exists>r. s1 < r \<and> r \<le> s' \<and> fmlookup t' k = Some (row\<lparr>Revision := r\<rparr>)
                    else fmlookup t' k = Some row"
    using Cons.IH [of tab1 s1] Cons.prems(1) x by auto
  have ss: "s \<le> s1" by (simp add: s1_def)
  have "case map_of (x # xs) k of
        None \<Rightarrow> fmlookup t' k = fmlookup tab k
      | Some row \<Rightarrow> if sel k row then \<exists>r. s < r \<and> r \<le> s' \<and> fmlookup t' k = Some (row\<lparr>Revision := r\<rparr>)
                    else fmlookup t' k = Some row" for k
  proof (cases "k = k0")
    case True
    then have "fmlookup t' k = fmlookup tab1 k0" using IH(2) [of k0] notin by simp
    with True x k0 IH(1) show ?thesis by (auto simp: tab1_def s1_def intro!: exI [of _ "s + 1"])
  next
    case False
    then have "fmlookup tab1 k = fmlookup tab k" by (simp add: tab1_def)
    with False x IH(2) [of k] ss show ?thesis
      by (cases "map_of xs k") (auto intro: order_le_less_trans split: if_splits)
  qed
  with IH(1) ss show ?case by simp
qed auto

lemma bumpRows_spec:
  assumes "bumpRows sel tab s = (t', s')"
  shows "s \<le> s'" and "fmlookup tab k = None \<Longrightarrow> fmlookup t' k = None"
    and "fmlookup tab k = Some row \<Longrightarrow> \<not> sel k row \<Longrightarrow> fmlookup t' k = Some row"
    and "fmlookup tab k = Some row \<Longrightarrow> sel k row \<Longrightarrow>
      \<exists>r. s < r \<and> r \<le> s' \<and> fmlookup t' k = Some (row\<lparr>Revision := r\<rparr>)"
proof -
  have "s \<le> s' \<and> (\<forall>k. case map_of (gentries tab) k of
        None \<Rightarrow> fmlookup t' k = fmlookup tab k
      | Some row \<Rightarrow> if sel k row then \<exists>r. s < r \<and> r \<le> s' \<and> fmlookup t' k = Some (row\<lparr>Revision := r\<rparr>)
                    else fmlookup t' k = Some row)"
    by (rule bumpRows_fold [OF _ _ assms [unfolded bumpRows_def]]) (auto simp: set_gentries)
  then have "s \<le> s'" and k: "case fmlookup tab k of
        None \<Rightarrow> fmlookup t' k = None
      | Some row \<Rightarrow> if sel k row then \<exists>r. s < r \<and> r \<le> s' \<and> fmlookup t' k = Some (row\<lparr>Revision := r\<rparr>)
                    else fmlookup t' k = Some row"
    by (auto split: option.splits dest: spec [of _ k])
  then show "s \<le> s'" by simp
  show "fmlookup t' k = None" if "fmlookup tab k = None" using k that by simp
  show "fmlookup t' k = Some row" if "fmlookup tab k = Some row" "\<not> sel k row" using k that by simp
  show "\<exists>r. s < r \<and> r \<le> s' \<and> fmlookup t' k = Some (row\<lparr>Revision := r\<rparr>)"
    if "fmlookup tab k = Some row" "sel k row" using k that by simp
qed

lemma bumpRows_nilWhenNotFound:
  assumes "bumpRows sel tab s = (t', s')"
  shows "nilWhenNotFound tab k = None \<Longrightarrow> nilWhenNotFound t' k = None"
    and "nilWhenNotFound tab k = Some row \<Longrightarrow>
      \<exists>r. nilWhenNotFound t' k = Some (row\<lparr>Revision := r\<rparr>) \<and> (if sel k row then s < r \<and> r \<le> s' else r = Revision row)"
proof -
  show "nilWhenNotFound t' k = None" if *: "nilWhenNotFound tab k = None"
  proof (cases "fmlookup tab k")
    case None
    then show ?thesis using bumpRows_spec(2) [OF assms, of k] by (simp add: nilWhenNotFound_def)
  next
    case (Some row)
    then show ?thesis
      using * bumpRows_spec(3,4) [OF assms, of k row]
      by (cases "sel k row") (auto simp: nilWhenNotFound_def split: if_splits)
  qed
  show "\<exists>r. nilWhenNotFound t' k = Some (row\<lparr>Revision := r\<rparr>) \<and> (if sel k row then s < r \<and> r \<le> s' else r = Revision row)"
    if *: "nilWhenNotFound tab k = Some row"
  proof -
    have row: "fmlookup tab k = Some row" "\<not> Deleted row"
      using * by (auto simp: nilWhenNotFound_def split: option.splits if_splits)
    show ?thesis
      using row bumpRows_spec(3,4) [OF assms row(1)]
      by (cases "sel k row") (auto simp: nilWhenNotFound_def intro: exI [of _ "Revision row"])
  qed
qed

lemma bump_tables:
  obtains azt s1 pt s2 where "bumpRows (\<lambda>(p, _) row. liveProject db org p \<and> \<not> Deleted row)
        (project_az_quotas db) (quota_revisions_seq db) = (azt, s1)"
      "bumpRows (\<lambda>_ row. OrganizationId row = org \<and> \<not> Deleted row) (project_quotas db) s1 = (pt, s2)"
      "bumpOrganizationRevisions db org =
         db\<lparr>project_az_quotas := azt, project_quotas := pt, quota_revisions_seq := s2\<rparr>"
proof -
  obtain azt s1 where b1: "bumpRows (\<lambda>(p, _) row. liveProject db org p \<and> \<not> Deleted row)
        (project_az_quotas db) (quota_revisions_seq db) = (azt, s1)"
    by (rule prod.exhaust)
  obtain pt s2 where b2: "bumpRows (\<lambda>_ row. OrganizationId row = org \<and> \<not> Deleted row) (project_quotas db) s1 = (pt, s2)"
    by (rule prod.exhaust)
  show thesis by (rule that [OF b1 b2]) (simp add: bumpOrganizationRevisions_def b1 b2)
qed

lemma bump_levels:
  assumes "db' = bumpOrganizationRevisions db org"
  shows "orgQ db' = orgQ db" "projQ db' = projQ db" "azQ db' = azQ db" "liveProject db' = liveProject db"
    "findProjectQuota db' p = Some row' \<Longrightarrow>
       \<exists>row. findProjectQuota db p = Some row \<and> Resources row = Resources row' \<and> OrganizationId row = OrganizationId row'"
proof -
  obtain azt s1 pt s2 where b: "bumpRows (\<lambda>(p, _) row. liveProject db org p \<and> \<not> Deleted row)
        (project_az_quotas db) (quota_revisions_seq db) = (azt, s1)"
      "bumpRows (\<lambda>_ row. OrganizationId row = org \<and> \<not> Deleted row) (project_quotas db) s1 = (pt, s2)"
    and db': "db' = db\<lparr>project_az_quotas := azt, project_quotas := pt, quota_revisions_seq := s2\<rparr>"
    using bump_tables [of db org] assms by blast
  show "orgQ db' = orgQ db" "liveProject db' = liveProject db"
    by (simp_all add: db' fun_eq_iff level_defs liveProject_def)
  show "azQ db' = azQ db"
  proof (intro ext)
    fix p c show "azQ db' p c = azQ db p c"
      using bumpRows_nilWhenNotFound [OF b(1), of "(p, c)"]
      by (cases "nilWhenNotFound (project_az_quotas db) (p, c)") (auto simp: azQ_def db')
  qed
  show "projQ db' = projQ db"
  proof (intro ext)
    fix p show "projQ db' p = projQ db p"
      using bumpRows_nilWhenNotFound [OF b(2), of p]
      by (cases "nilWhenNotFound (project_quotas db) p") (auto simp: projQ_def findProjectQuota_def db')
  qed
  show "\<exists>row. findProjectQuota db p = Some row \<and> Resources row = Resources row' \<and> OrganizationId row = OrganizationId row'"
    if "findProjectQuota db' p = Some row'"
    using that bumpRows_nilWhenNotFound [OF b(2), of p]
    by (cases "nilWhenNotFound (project_quotas db) p") (auto simp: findProjectQuota_def db')
qed

lemma deleteOrganizationRow_levels:
  "orgQ (deleteOrganizationRow db org) = (orgQ db)(org := None)" "projQ (deleteOrganizationRow db org) = projQ db"
  "azQ (deleteOrganizationRow db org) = azQ db" "liveProject (deleteOrganizationRow db org) = liveProject db"
  "findProjectQuota (deleteOrganizationRow db org) = findProjectQuota db"
  by (auto simp: deleteOrganizationRow_def fun_eq_iff level_defs liveProject_def)

lemma deleteProjectRows_levels:
  "orgQ (deleteProjectRows db p) = orgQ db" "projQ (deleteProjectRows db p) = (projQ db)(p := None)"
  "azQ (deleteProjectRows db p) = (azQ db)(p := (\<lambda>_. None))" "liveProject (deleteProjectRows db p) = liveProject db"
  "findProjectQuota (deleteProjectRows db p) = (findProjectQuota db)(p := None)"
  by (auto simp: deleteProjectRows_def fun_eq_iff level_defs liveProject_def)

lemma DeleteOrganizationQuota_inv:
  assumes inv: "quota_inv L db" and run: "DeleteOrganizationQuota db org = (db', r)"
  shows "quota_inv L db'"
  using run unfolding DeleteOrganizationQuota_def
proof (elim transaction_cases [elim_format] disjE exE conjE)
  fix a assume "Inr (bumpOrganizationRevisions (deleteOrganizationRow db org) org, ()) = (Inr (db', a) :: quota_error + _)"
  then have db': "db' = bumpOrganizationRevisions (deleteOrganizationRow db org) org" by simp
  note lev = bump_levels(1-4) [OF db'] deleteOrganizationRow_levels
  show ?thesis
    by (rule quota_inv_shrink [OF inv])
       (use bump_levels(5) [OF db'] in \<open>auto simp: lev\<close>)
qed (use inv in simp)

lemma DeleteProjectQuota_inv:
  assumes inv: "quota_inv L db" and run: "DeleteProjectQuota db org p = (db', r)"
  shows "quota_inv L db'"
  using run unfolding DeleteProjectQuota_def inProjectTransaction_def
proof (elim transaction_cases [elim_format] disjE exE conjE)
  fix a assume "bindR (checkProject db org p) (\<lambda>_. bindR (guardR ErrProjectQuotaEnforced (findOrganizationQuota db org = None))
      (\<lambda>_. Inr (deleteProjectRows db p, ()))) = Inr (db', a)"
  then have "db' = deleteProjectRows db p" by (auto simp: result_simps)
  then show ?thesis
    by (intro quota_inv_shrink [OF inv]) (auto simp: deleteProjectRows_levels split: if_splits)
qed (use inv in simp)

lemma liveProject_upd:
  "liveProject (db\<lparr>projects := fmupd p row (projects db), project_deactivations := x\<rparr>) o' p' =
     (if p' = p then OrgaId row = o' \<and> \<not> p_Deleted row else liveProject db o' p')"
  "liveProject (db\<lparr>projects := fmupd p row (projects db)\<rparr>) o' p' =
     (if p' = p then OrgaId row = o' \<and> \<not> p_Deleted row else liveProject db o' p')"
  by (simp_all add: liveProject_def)

lemma project_DeleteById_inv:
  assumes inv: "quota_inv L db" and run: "DeleteById db p org = (db', r)"
  shows "quota_inv L db'"
proof (cases "db' = db")
  case False
  let ?tx = "deleteProjectRows db p"
  have "db' = ?tx\<lparr>projects := fmupd p \<lparr>OrgaId = org, p_Deleted = True\<rparr> (projects ?tx),
      project_deactivations := fmfilter (\<lambda>(p', _). p' \<noteq> p) (project_deactivations ?tx)\<rparr>"
    using False run by (auto simp: DeleteById_def DeleteForProject_def result_simps split: sum.splits if_splits)
  moreover from this have "orgQ db' = orgQ ?tx" "projQ db' = projQ ?tx" "azQ db' = azQ ?tx"
    "findProjectQuota db' = findProjectQuota ?tx"
    by (simp_all add: fun_eq_iff level_defs)
  ultimately show ?thesis
    by (intro quota_inv_shrink [OF inv])
       (auto simp: deleteProjectRows_levels liveProject_upd split: if_splits)
qed (use inv in simp)

lemma CreateProject_inv:
  assumes inv: "quota_inv L db" and "fresh_id db p"
  shows "quota_inv L (CreateProject db org p)"
proof -
  let ?db' = "CreateProject db org p"
  have "orgQ ?db' = orgQ db" "projQ ?db' = projQ db" "azQ ?db' = azQ db" "findProjectQuota ?db' = findProjectQuota db"
    by (simp_all add: CreateProject_def fun_eq_iff level_defs)
  moreover have "fmlookup (project_az_quotas db) (p, c) = None" for c
    using assms(2) by (auto simp: fresh_id_def fmempty_iff split: if_splits dest: spec [of _ "(p, c)"])
  then have "projQ db p = None" "azQ db p = (\<lambda>_. None)"
    using assms(2) by (auto simp: fresh_id_def level_defs)
  ultimately show ?thesis
    by (intro quota_inv_shrink [OF inv]) (auto simp: CreateProject_def liveProject_upd split: if_splits)
qed

lemma organization_Delete_inv:
  assumes inv: "quota_inv L db" and run: "organization_Delete db org = (db', r)"
  shows "quota_inv L db'"
proof -
  obtain tx where tx: "tx = db \<or> tx = deleteOrganizationRows db org"
    and db': "projects db' = fmmap_keys (\<lambda>p row. if OrgaId row = org then row\<lparr>p_Deleted := True\<rparr> else row) (projects tx)"
      "organization_quotas db' = organization_quotas tx" "project_quotas db' = project_quotas tx"
      "project_az_quotas db' = project_az_quotas tx"
  proof (cases "fmlookup (organizations db) org = Some False")
    case True
    then show thesis
      using run by (intro that [of "deleteOrganizationRows db org"])
        (auto simp: organization_Delete_def DeleteForOrganization_def lockOrganization_def guardR_def)
  next
    case False
    then show thesis
      using run by (intro that [of db])
        (auto simp: organization_Delete_def DeleteForOrganization_def lockOrganization_def guardR_def)
  qed
  have live: "liveProject db' o' p \<longleftrightarrow> o' \<noteq> org \<and> liveProject db o' p" for o' p
    using tx by (auto simp: liveProject_def db' deleteOrganizationRows_def split: option.splits if_splits)
  have lev: "orgQ db' = orgQ tx" "projQ db' = projQ tx" "azQ db' = azQ tx" "findProjectQuota db' = findProjectQuota tx"
    by (simp_all add: fun_eq_iff level_defs db')
  have kept: "projQ tx p = projQ db p" "azQ tx p = azQ db p" if p: "o' \<noteq> org" "liveProject db o' p" for o' p
  proof -
    have "OrganizationId row \<noteq> org" if "fmlookup (project_quotas db) p = Some row" "\<not> Deleted row" for row
    proof -
      have "findProjectQuota db p = Some row" using that by (simp add: findProjectQuota_def nilWhenNotFound_def)
      then show ?thesis using quota_invD(2) [OF inv] p by (auto simp: owner_ok_def)
    qed
    then show "projQ tx p = projQ db p"
      using tx by (auto simp: deleteOrganizationRows_def level_defs split: option.splits)
    have "\<not> projectOf db org p"
      using p by (auto simp: projectOf_def liveProject_def split: option.splits)
    then show "azQ tx p = azQ db p"
      using tx by (auto simp: deleteOrganizationRows_def level_defs fun_eq_iff)
  qed
  show ?thesis
  proof (rule quota_inv_shrink [OF inv])
    show "orgQ db' o' = orgQ db o' \<or> orgQ db' o' = None" for o'
      using tx by (cases "o' = org") (auto simp: lev deleteOrganizationRows_def level_defs)
    show "azQ db' p c = azQ db p c \<or> azQ db' p c = None" for p c
      using tx by (cases "projectOf db org p") (auto simp: lev deleteOrganizationRows_def level_defs)
    show "\<exists>row. findProjectQuota db p = Some row \<and> Resources row = Resources row' \<and> OrganizationId row = OrganizationId row'"
      if "findProjectQuota db' p = Some row'" for p row'
      using that tx by (auto simp: lev deleteOrganizationRows_def level_defs split: option.splits if_splits)
  qed (use live lev kept in auto)
qed


section \<open>Reachable states\<close>

text \<open>
  A requested quota whose values, rounded up, stay below the largest int64. \<^verbatim>\<open>parseQuantity\<close>
  compares a quantity with the limit before it rounds, so a quantity less than one unit below the limit (with a
  fraction of its last unit) is accepted and its value is the limit itself. Such a value is
  outside of what the exact sums describe: the saturating sums cannot tell it from a larger one, and a value that is
  the limit is formatted to a text that no longer parses. The reachable states below are those of
  requests without such a value.
\<close>

definition strict_request :: "quantity_lib \<Rightarrow> resources \<Rightarrow> bool" where
  "strict_request L res \<longleftrightarrow> (case Resources_Parse L res of Inl _ \<Rightarrow> True | Inr q \<Rightarrow> qty_strict q)"

text \<open>
  One request, successful or not, on the tables and on the world of the clusters; the world also
  changes on its own (workloads start and stop, other writers act on the clusters). The revisions a
  transaction drew before it failed are lost: the sequence of the database is not rolled back, so it may move
  forward at any time (\<open>lost_revisions\<close>).
\<close>

inductive quota_step :: "quantity_lib \<Rightarrow> az_table \<Rightarrow> 'w hooks \<Rightarrow> quota_db \<times> 'w \<Rightarrow> quota_db \<times> 'w \<Rightarrow> bool"
  for L azs H where
  set_org: "SetOrganizationQuota L azs db org res = (db', r) \<Longrightarrow> strict_request L res \<Longrightarrow>
     quota_step L azs H (db, w) (db', w)"
| set_proj: "SetProjectQuota L azs db org p res = (db', r') \<Longrightarrow> strict_request L res \<Longrightarrow>
     quota_step L azs H (db, w) (db', w)"
| set_az: "SetProjectAZQuota L azs H db w org p code res = (db', w', r'') \<Longrightarrow> strict_request L res \<Longrightarrow>
     quota_step L azs H (db, w) (db', w')"
| del_org_quota: "DeleteOrganizationQuota db org = (db', u) \<Longrightarrow> quota_step L azs H (db, w) (db', w)"
| del_proj_quota: "DeleteProjectQuota db org p = (db', u) \<Longrightarrow> quota_step L azs H (db, w) (db', w)"
| new_org: "fresh_id db i \<Longrightarrow> quota_step L azs H (db, w) (organization_Create db i, w)"
| new_project: "fresh_id db i \<Longrightarrow> quota_step L azs H (db, w) (CreateProject db org i, w)"
| del_project: "DeleteById db p org = (db', u) \<Longrightarrow> quota_step L azs H (db, w) (db', w)"
| del_org: "organization_Delete db org = (db', u) \<Longrightarrow> quota_step L azs H (db, w) (db', w)"
| deactivate: "quota_step L azs H (db, w) (Deactivate db p reason msg, w)"
| reactivate: "quota_step L azs H (db, w) (Reactivate db p reason, w)"
| lost_revisions: "quota_revisions_seq db \<le> n \<Longrightarrow> quota_step L azs H (db, w) (db\<lparr>quota_revisions_seq := n\<rparr>, w)"
| world: "quota_step L azs H (db, w) (db, w')"

definition empty_db :: quota_db where
  "empty_db = \<lparr>organizations = fmempty, projects = fmempty, organization_quotas = fmempty,
     project_quotas = fmempty, project_az_quotas = fmempty, quota_revisions_seq = 0,
     project_deactivations = fmempty\<rparr>"

inductive quota_reachable :: "quantity_lib \<Rightarrow> az_table \<Rightarrow> 'w hooks \<Rightarrow> quota_db \<times> 'w \<Rightarrow> bool"
  for L azs H where
  init: "quota_reachable L azs H (empty_db, w)"
| step: "quota_reachable L azs H s \<Longrightarrow> quota_step L azs H s s' \<Longrightarrow> quota_reachable L azs H s'"

inductive_cases quota_stepE: "quota_step L azs H s s'"

lemma strict_requestD: "strict_request L res \<Longrightarrow> Resources_Parse L res = Inr q \<Longrightarrow> qty_strict q"
  by (simp add: strict_request_def)

lemma quota_inv_frame:
  assumes "quota_inv L db" "organization_quotas db' = organization_quotas db" "project_quotas db' = project_quotas db"
    "project_az_quotas db' = project_az_quotas db" "projects db' = projects db"
  shows "quota_inv L db'"
proof -
  have "orgQ db' = orgQ db" "projQ db' = projQ db" "azQ db' = azQ db" "liveProject db' = liveProject db"
    "findProjectQuota db' = findProjectQuota db"
    using assms by (simp_all add: fun_eq_iff level_defs liveProject_def)
  then show ?thesis by (intro quota_inv_shrink [OF assms(1)]) simp_all
qed

lemma quota_step_inv:
  assumes "quantity_laws L" "azs_ok azs" and step: "quota_step L azs H s s'" and inv: "quota_inv L (fst s)"
  shows "quota_inv L (fst s')"
  using step inv
proof (induction rule: quota_step.induct)
  case (set_org db org res db' r w)
  then show ?case using SetOrganizationQuota_inv [OF assms(1) _ strict_requestD [OF set_org(2)] assms(2)] by simp
next
  case (set_proj db org p res db' r' w)
  then show ?case using SetProjectQuota_inv [OF assms(1) _ strict_requestD [OF set_proj(2)] assms(2)] by simp
next
  case (set_az db w org p code res db' w' r'')
  then show ?case using SetProjectAZQuota_inv [OF assms(1) _ strict_requestD [OF set_az(2)] assms(2)] by simp
next
  case (new_org db i w)
  then show ?case using quota_inv_frame [of L db "organization_Create db i"] by (simp add: organization_Create_def)
next
  case (deactivate db w p reason msg)
  then show ?case using quota_inv_frame [of L db "Deactivate db p reason msg"] by (simp add: Deactivate_def)
next
  case (reactivate db w p reason)
  then show ?case using quota_inv_frame [of L db "Reactivate db p reason"] by (simp add: Reactivate_def)
next
  case (lost_revisions db n w)
  then show ?case using quota_inv_frame [of L db "db\<lparr>quota_revisions_seq := n\<rparr>"] by simp
qed (auto intro: DeleteOrganizationQuota_inv DeleteProjectQuota_inv CreateProject_inv project_DeleteById_inv
    organization_Delete_inv)

lemma quota_inv_empty: "quota_inv L empty_db"
  by (simp add: quota_inv_def stored_ok_def owner_ok_def org_fits_def proj_fits_def empty_db_def level_defs
      liveProject_def row_ok_def)

lemma quota_reachable_inv:
  assumes "quantity_laws L" "azs_ok azs" "quota_reachable L azs H s"
  shows "quota_inv L (fst s)"
  using assms(3)
proof (induction rule: quota_reachable.induct)
  case (init w)
  show ?case by (simp add: quota_inv_empty)
next
  case (step s s')
  then show ?case using quota_step_inv [OF assms(1,2)] by blast
qed

end
