(* ===== verification/Quota_Revision.thy ===== *)
theory Quota_Revision
  imports Quota_Lifecycle
begin

text \<open>
  The revisions of the quota rows. A push to a controller carries \<open>Hierarchy_Revision\<close>, the newest
  revision of the three levels, and the controller drops a push older than what it enforces. That is
  right only if a change of the effective quota always comes with a newer revision: this theory shows
  it for every step. The exception is a quota that is removed altogether, which is pushed with
  revision 0.
\<close>

section \<open>Specification\<close>

definition tab_revs :: "int \<Rightarrow> ('k, 'a quota_row_scheme) fmap \<Rightarrow> bool" where
  "tab_revs s t \<longleftrightarrow> (\<forall>k row. fmlookup t k = Some row \<longrightarrow> 0 < Revision row \<and> Revision row \<le> s)"

definition rev_ok :: "quota_db \<Rightarrow> bool" where
  "rev_ok db \<longleftrightarrow> 0 \<le> quota_revisions_seq db \<and>
     tab_revs (quota_revisions_seq db) (organization_quotas db) \<and>
     tab_revs (quota_revisions_seq db) (project_quotas db) \<and>
     tab_revs (quota_revisions_seq db) (project_az_quotas db)"

abbreviation arow :: "quota_db \<Rightarrow> uuid \<Rightarrow> string \<Rightarrow> quota_row option" where
  "arow db p c \<equiv> nilWhenNotFound (project_az_quotas db) (p, c)"

definition row_rev :: "'a quota_row_scheme option \<Rightarrow> int" where
  "row_rev r = (case r of None \<Rightarrow> 0 | Some row \<Rightarrow> Revision row)"

text \<open>The effective quota of a project in a zone, and the revision it is pushed with.\<close>

definition eff_quota :: "quota_db \<Rightarrow> uuid \<Rightarrow> uuid \<Rightarrow> string \<Rightarrow> resources" where
  "eff_quota db org p c = Hierarchy_AZ (loadHierarchy db org p) c"

definition eff_rev :: "quota_db \<Rightarrow> uuid \<Rightarrow> uuid \<Rightarrow> string \<Rightarrow> int" where
  "eff_rev db org p c = Hierarchy_Revision (loadHierarchy db org p) c"

lemma loadHierarchy_revisions:
  "OrganizationRevision (loadHierarchy db org p) = row_rev (findOrganizationQuota db org)"
  "ProjectRevision (loadHierarchy db org p) = row_rev (findProjectQuota db p)"
  "qget (AZRevisions (loadHierarchy db org p)) c = row_rev (arow db p c)"
  by (auto simp: loadHierarchy_def loadHierarchy_fold Let_def row_rev_def qget_def
        fold_fmupd_list listAZQuotas_distinct map_of_listAZQuotas split: option.splits)

lemma eff_rev_max:
  "eff_rev db org p c =
     max (max (row_rev (findOrganizationQuota db org)) (row_rev (findProjectQuota db p))) (row_rev (arow db p c))"
  by (simp add: eff_rev_def Hierarchy_Revision_def loadHierarchy_revisions Let_def max_def)

lemma eff_quota_rows:
  "eff_quota db org p c =
     EffectiveAZQuota (case findOrganizationQuota db org of None \<Rightarrow> fmempty | Some q \<Rightarrow> Resources q)
       (case findProjectQuota db p of None \<Rightarrow> fmempty | Some q \<Rightarrow> Resources q)
       (case arow db p c of None \<Rightarrow> fmempty | Some q \<Rightarrow> Resources q)"
  by (simp add: eff_quota_def Hierarchy_AZ_def loadHierarchy_levels loadHierarchy_AZ_quota orgQ_def projQ_def azQ_def
      split: option.splits)

lemma rev_okD:
  assumes "rev_ok db"
  shows "row_rev (findOrganizationQuota db org) \<le> quota_revisions_seq db"
    and "row_rev (findProjectQuota db p) \<le> quota_revisions_seq db"
    and "row_rev (arow db p c) \<le> quota_revisions_seq db"
    and "row_rev (findOrganizationQuota db org) = 0 \<longleftrightarrow> findOrganizationQuota db org = None"
    and "row_rev (findProjectQuota db p) = 0 \<longleftrightarrow> findProjectQuota db p = None"
    and "row_rev (arow db p c) = 0 \<longleftrightarrow> arow db p c = None"
    and "0 \<le> row_rev (findOrganizationQuota db org)" "0 \<le> row_rev (findProjectQuota db p)" "0 \<le> row_rev (arow db p c)"
  using assms unfolding rev_ok_def tab_revs_def
  by (fastforce simp: row_rev_def findOrganizationQuota_def findProjectQuota_def nilWhenNotFound_def
        split: option.splits if_splits)+

lemma eff_rev_le_seq: "rev_ok db \<Longrightarrow> eff_rev db org p c \<le> quota_revisions_seq db"
  unfolding eff_rev_max using rev_okD(1-3) by (metis max.bounded_iff)

text \<open>Revision 0 means that nothing is stored for the project in the zone.\<close>

lemma eff_rev_zero:
  assumes "rev_ok db" and "eff_rev db org p c = 0"
  shows "eff_quota db org p c = fmempty"
proof -
  have "findOrganizationQuota db org = None" "findProjectQuota db p = None" "arow db p c = None"
    using assms(2) rev_okD(4-9) [OF assms(1)] unfolding eff_rev_max by (metis max.cobounded1 max.cobounded2 order_antisym order_trans)+
  then show ?thesis
    by (simp add: eff_quota_rows EffectiveAZQuota_def fmempty_iff Effective_lookup)
qed


section \<open>What a step does to the rows\<close>

definition newer :: "quota_db \<Rightarrow> quota_db \<Rightarrow> uuid \<Rightarrow> uuid \<Rightarrow> string \<Rightarrow> bool" where
  "newer db db' org p c \<longleftrightarrow>
     findOrganizationQuota db' org = findOrganizationQuota db org \<and> findProjectQuota db' p = findProjectQuota db p \<and>
       arow db' p c = arow db p c \<or>
     findOrganizationQuota db' org = None \<and> findProjectQuota db' p = None \<and> arow db' p c = None \<or>
     quota_revisions_seq db < eff_rev db' org p c"

definition tab_newer :: "int \<Rightarrow> ('k, 'a quota_row_scheme) fmap \<Rightarrow> ('k, 'a quota_row_scheme) fmap \<Rightarrow> bool" where
  "tab_newer s t t' \<longleftrightarrow>
     (\<forall>k. fmlookup t' k = fmlookup t k \<or> (\<exists>row. fmlookup t' k = Some row \<and> s < Revision row \<and> \<not> Deleted row))"

text \<open>Tables written by insertions only: a row is the old one or newer than every old one.\<close>

definition rows_newer :: "quota_db \<Rightarrow> quota_db \<Rightarrow> bool" where
  "rows_newer db d \<longleftrightarrow> rev_ok d \<and> quota_revisions_seq db \<le> quota_revisions_seq d \<and>
     tab_newer (quota_revisions_seq db) (organization_quotas db) (organization_quotas d) \<and>
     tab_newer (quota_revisions_seq db) (project_quotas db) (project_quotas d) \<and>
     tab_newer (quota_revisions_seq db) (project_az_quotas db) (project_az_quotas d)"

lemma rows_newer_refl: "rev_ok db \<Longrightarrow> rows_newer db db"
  by (simp add: rows_newer_def tab_newer_def)

lemma tab_newer_find:
  assumes "tab_newer s t t'"
  shows "nilWhenNotFound t' k = nilWhenNotFound t k \<or> s < row_rev (nilWhenNotFound t' k)"
  using assms unfolding tab_newer_def nilWhenNotFound_def row_rev_def
  by (auto split: option.splits dest!: spec [of _ k])

lemma rows_newer_newer: "rows_newer db d \<Longrightarrow> newer db d org p c"
  using tab_newer_find [of _ "organization_quotas db" "organization_quotas d" org]
    tab_newer_find [of _ "project_quotas db" "project_quotas d" p]
    tab_newer_find [of _ "project_az_quotas db" "project_az_quotas d" "(p, c)"]
  unfolding rows_newer_def newer_def eff_rev_max findOrganizationQuota_def findProjectQuota_def by fastforce

lemma tab_newer_upd: "tab_newer s t t' \<Longrightarrow> s < Revision row \<Longrightarrow> \<not> Deleted row \<Longrightarrow> tab_newer s t (fmupd k row t')"
  by (auto simp: tab_newer_def)

lemma tab_revs_upd: "tab_revs s t \<Longrightarrow> 0 \<le> s \<Longrightarrow> Revision row = s + 1 \<Longrightarrow> tab_revs (s + 1) (fmupd k row t)"
  by (auto simp: tab_revs_def) force

lemma tab_revs_mono: "tab_revs s t \<Longrightarrow> s \<le> s' \<Longrightarrow> tab_revs s' t"
  by (force simp: tab_revs_def)

lemma upsert_newer:
  assumes "rows_newer db d"
  shows "rows_newer db (fst (upsertOrganizationQuota d org r))"
    and "rows_newer db (fst (upsertProjectQuota d org p r))"
    and "rows_newer db (fst (upsertAZQuota d p c r))"
  using assms unfolding rows_newer_def rev_ok_def
  by (auto simp: upsertOrganizationQuota_def upsertProjectQuota_def upsertAZQuota_def nextval_def Let_def
      intro: tab_newer_upd tab_revs_upd tab_revs_mono)

lemma saveProjectQuota_newer:
  assumes "saveProjectQuota L azs d org p res has = Inr (d', row)" and "rows_newer db d"
  shows "rows_newer db d'"
proof -
  have split: "rows_newer db (fold (\<lambda>code d. fst (upsertAZQuota d p code r)) cs x)" if "rows_newer db x" for cs r x
    using that by (induction cs arbitrary: x) (auto intro: upsert_newer)
  show ?thesis
    using assms upsert_newer(2) [of db d org p res]
    by (auto simp: saveProjectQuota_def splitAmongAZs_def Let_def result_simps split: if_splits prod.splits intro!: split)
qed

lemma distribute_newer:
  assumes "distributeAmongProjects L azs d org limit A = Inr d'" and "rows_newer db d"
  shows "rows_newer db d'"
  using assms(1) unfolding distributeAmongProjects_fold
proof (rule foldR_invariant [where P = "rows_newer db"])
  fix p u v
  assume "rows_newer db u" "bindR (saveProjectQuota L azs u org p
      (Quantities_Resources L (project_share limit A (length (listProjectIds d org)) p)) (fmlookup A p \<noteq> None))
      (\<lambda>(d', _). Inr d') = Inr v"
  then show "rows_newer db v" by (auto simp: result_simps dest: saveProjectQuota_newer)
qed (rule assms)

lemma cover_newer: "rows_newer db d \<Longrightarrow> rows_newer db (coverAZQuotas L d org limit pq A)"
  unfolding coverAZQuotas_def Let_def
  by (rule fold_invariant [where P = "rows_newer db" and Q = "\<lambda>_. True"]) (auto intro: upsert_newer)


section \<open>Steps\<close>

definition revisions_advance :: "quota_db \<Rightarrow> quota_db \<Rightarrow> bool" where
  "revisions_advance db db' \<longleftrightarrow> rev_ok db' \<and> quota_revisions_seq db \<le> quota_revisions_seq db' \<and>
     (\<forall>org p c. liveProject db' org p \<longrightarrow> newer db db' org p c)"

lemma advance_rows: "rows_newer db db' \<Longrightarrow> revisions_advance db db'"
  using rows_newer_newer by (auto simp: revisions_advance_def rows_newer_def)

lemma advance_refl: "rev_ok db \<Longrightarrow> revisions_advance db db"
  by (simp add: advance_rows rows_newer_refl)

lemma advance_same:
  assumes "rev_ok db" "organization_quotas db' = organization_quotas db" "project_quotas db' = project_quotas db"
    "project_az_quotas db' = project_az_quotas db" "quota_revisions_seq db \<le> quota_revisions_seq db'"
  shows "revisions_advance db db'"
  using assms
  by (auto simp: revisions_advance_def newer_def rev_ok_def findOrganizationQuota_def findProjectQuota_def
      intro: tab_revs_mono)

lemma SetOrganizationQuota_advance:
  assumes run: "SetOrganizationQuota L azs db org res = (db', r)" and ok: "rev_ok db"
  shows "revisions_advance db db'"
proof (cases "\<exists>e. r = Inl e")
  case True
  then have "db' = db"
    using run by (auto simp: SetOrganizationQuota_def dest!: transaction_cases split: sum.splits)
  with ok show ?thesis by (simp add: advance_refl)
next
  case False
  then obtain limit pq A tx row where
    "(if pq = [] then distributeAmongProjects L azs db org limit A else Inr (coverAZQuotas L db org limit pq A)) = Inr tx"
    "upsertOrganizationQuota tx org res = (db', row)"
    using run by (auto simp: SetOrganizationQuota_def result_simps dest!: transaction_cases split: sum.splits)
  moreover have "rows_newer db tx"
    using calculation(1) distribute_newer [OF _ rows_newer_refl [OF ok]] cover_newer [OF rows_newer_refl [OF ok]]
    by (auto split: if_splits)
  ultimately show ?thesis using upsert_newer(1) [of db tx org res] advance_rows by simp
qed

lemma SetProjectQuota_advance:
  assumes run: "SetProjectQuota L azs db org p res = (db', r)" and ok: "rev_ok db"
  shows "revisions_advance db db'"
proof (cases "\<exists>e. r = Inl e")
  case True
  then have "db' = db"
    using run by (auto simp: SetProjectQuota_def inProjectTransaction_def dest!: transaction_cases split: sum.splits)
  with ok show ?thesis by (simp add: advance_refl)
next
  case False
  then obtain has row where "saveProjectQuota L azs db org p res has = Inr (db', row)"
    using run by (auto simp: SetProjectQuota_def inProjectTransaction_def result_simps Let_def
        dest!: transaction_cases split: sum.splits)
  then show ?thesis using saveProjectQuota_newer rows_newer_refl [OF ok] advance_rows by blast
qed

lemma SetProjectAZQuota_advance:
  assumes run: "SetProjectAZQuota L azs H db w org p code res = (db', w', r)" and ok: "rev_ok db"
  shows "revisions_advance db db'"
proof (cases "db' = db")
  case False
  then obtain requested saved lowered after where
    "setProjectAZQuota_tx L H db w org p code res requested = Inr (db', saved, lowered, after)"
    using run by (auto simp: SetProjectAZQuota_def split: sum.splits option.splits prod.splits if_splits)
  from setProjectAZQuota_tx_Inr(7) [OF this] have "db' = fst (upsertAZQuota db p code res)" by (metis fst_conv)
  then show ?thesis using upsert_newer(3) [OF rows_newer_refl [OF ok]] advance_rows by simp
qed (use ok advance_refl in simp)

lemma tab_revs_bump:
  assumes "bumpRows sel t s = (t', s')" and "tab_revs s t" and "0 \<le> s"
  shows "tab_revs s' t'"
  unfolding tab_revs_def
proof (intro allI impI)
  fix k row' assume row': "fmlookup t' k = Some row'"
  then obtain row where row: "fmlookup t k = Some row"
    using bumpRows_spec(2) [OF assms(1), of k] by (cases "fmlookup t k") auto
  show "0 < Revision row' \<and> Revision row' \<le> s'"
    using row row' bumpRows_spec(1) [OF assms(1)] bumpRows_spec(3,4) [OF assms(1), of k row] assms(2,3)
    by (cases "sel k row") (force simp: tab_revs_def)+
qed

lemma tab_revs_drop:
  "tab_revs s t \<Longrightarrow> tab_revs s (fmdrop k t)" "tab_revs s t \<Longrightarrow> tab_revs s (fmfilter P t)"
  by (auto simp: tab_revs_def split: if_splits)

text \<open>Deleting the organization quota gives every remaining quota of its projects a new revision.\<close>

lemma bump_newer:
  assumes d: "findOrganizationQuota d = (findOrganizationQuota db)(org := None)" "findProjectQuota d = findProjectQuota db"
      "project_az_quotas d = project_az_quotas db" "quota_revisions_seq d = quota_revisions_seq db" "liveProject d = liveProject db"
    and db': "db' = bumpOrganizationRevisions d org" and ow: "owner_ok db" and live: "liveProject db o' p"
  shows "newer db db' o' p c"
proof -
  obtain azt s1 pt s2 where b: "bumpRows (\<lambda>(p, _) row. liveProject d org p \<and> \<not> Deleted row)
        (project_az_quotas d) (quota_revisions_seq d) = (azt, s1)"
      "bumpRows (\<lambda>_ row. OrganizationId row = org \<and> \<not> Deleted row) (project_quotas d) s1 = (pt, s2)"
    and e: "db' = d\<lparr>project_az_quotas := azt, project_quotas := pt, quota_revisions_seq := s2\<rparr>"
    using bump_tables [of d org] db' by blast
  note az = bumpRows_nilWhenNotFound [OF b(1), of "(p, c)"] and pr = bumpRows_nilWhenNotFound [OF b(2), of p]
  have o: "findOrganizationQuota db' o' = (if o' = org then None else findOrganizationQuota db o')"
    using d(1) by (simp add: e findOrganizationQuota_def fun_eq_iff)
  have nd: "\<not> Deleted row" if "nilWhenNotFound t k = Some row" for t k and row :: "'x quota_row_scheme"
    using that by (auto simp: nilWhenNotFound_def split: option.splits if_splits)
  have own: "OrganizationId row = o'" if "nilWhenNotFound (project_quotas d) p = Some row" for row
    using that ow live d(2) by (auto simp: owner_ok_def findProjectQuota_def fun_eq_iff)
  have seq: "quota_revisions_seq db \<le> s1" using bumpRows_spec(1) [OF b(1)] d(4) by simp
  show ?thesis
  proof (cases "o' = org")
    case True
    have P: "findProjectQuota db' p = None \<or> quota_revisions_seq db < row_rev (findProjectQuota db' p)"
    proof (cases "nilWhenNotFound (project_quotas d) p")
      case (Some row)
      then show ?thesis using pr(2) [OF Some] own [OF Some] nd [OF Some] seq True
        by (auto simp: findProjectQuota_def e row_rev_def)
    qed (use pr in \<open>simp add: findProjectQuota_def e\<close>)
    have A: "arow db' p c = None \<or> quota_revisions_seq db < row_rev (arow db' p c)"
    proof (cases "nilWhenNotFound (project_az_quotas d) (p, c)")
      case (Some row)
      then show ?thesis using az(2) [OF Some] nd [OF Some] live True d(4,5) by (auto simp: e row_rev_def)
    qed (use az in \<open>simp add: e\<close>)
    show ?thesis using P A o True by (auto simp: newer_def eff_rev_max)
  next
    case False
    then have "\<not> liveProject db org p" using live liveProject_unique by blast
    then have "arow db' p c = arow db p c"
      using az d(3,5) by (cases "nilWhenNotFound (project_az_quotas db) (p, c)") (auto simp: e)
    moreover have "findProjectQuota db' p = nilWhenNotFound (project_quotas d) p"
      using pr own False by (cases "nilWhenNotFound (project_quotas d) p") (auto simp: e findProjectQuota_def)
    then have "findProjectQuota db' p = findProjectQuota db p"
      using d(2) by (simp add: findProjectQuota_def fun_eq_iff)
    ultimately show ?thesis using o False by (simp add: newer_def)
  qed
qed

lemma DeleteOrganizationQuota_advance:
  assumes run: "DeleteOrganizationQuota db org = (db', r)" and ok: "rev_ok db" and ow: "owner_ok db"
  shows "revisions_advance db db'"
  using run unfolding DeleteOrganizationQuota_def
proof (elim transaction_cases [elim_format] disjE exE conjE)
  fix a assume "Inr (bumpOrganizationRevisions (deleteOrganizationRow db org) org, ()) = (Inr (db', a) :: quota_error + _)"
  then have db': "db' = bumpOrganizationRevisions (deleteOrganizationRow db org) org" by simp
  let ?d = "deleteOrganizationRow db org"
  have d: "findOrganizationQuota ?d = (findOrganizationQuota db)(org := None)" "findProjectQuota ?d = findProjectQuota db"
      "project_az_quotas ?d = project_az_quotas db" "quota_revisions_seq ?d = quota_revisions_seq db"
      "liveProject ?d = liveProject db" "project_quotas ?d = project_quotas db"
    by (auto simp: deleteOrganizationRow_def fun_eq_iff level_defs liveProject_def)
  obtain azt s1 pt s2 where b: "bumpRows (\<lambda>(p, _) row. liveProject ?d org p \<and> \<not> Deleted row)
        (project_az_quotas ?d) (quota_revisions_seq ?d) = (azt, s1)"
      "bumpRows (\<lambda>_ row. OrganizationId row = org \<and> \<not> Deleted row) (project_quotas ?d) s1 = (pt, s2)"
    and e: "db' = ?d\<lparr>project_az_quotas := azt, project_quotas := pt, quota_revisions_seq := s2\<rparr>"
    using bump_tables [of ?d org] db' by blast
  have s: "quota_revisions_seq db \<le> s1" "s1 \<le> s2"
    using bumpRows_spec(1) [OF b(1)] bumpRows_spec(1) [OF b(2)] d(4) by simp_all
  have "tab_revs s1 azt" using tab_revs_bump [OF b(1)] ok by (simp add: rev_ok_def d)
  moreover have "tab_revs s2 pt"
    using tab_revs_bump [OF b(2)] ok s(1) by (auto simp: rev_ok_def d intro: tab_revs_mono)
  moreover have "tab_revs (quota_revisions_seq db) (organization_quotas ?d)"
    using ok by (simp add: rev_ok_def deleteOrganizationRow_def tab_revs_drop)
  ultimately have "rev_ok db'" using s ok by (auto simp: rev_ok_def e intro: tab_revs_mono)
  moreover have "liveProject db' = liveProject db" using bump_levels(4) [OF db'] d(5) by simp
  ultimately show ?thesis
    using bump_newer [OF d(1-5) db' ow] s by (simp add: revisions_advance_def e)
qed (use ok advance_refl in simp)

lemma DeleteProjectQuota_advance:
  assumes run: "DeleteProjectQuota db org p = (db', r)" and ok: "rev_ok db"
  shows "revisions_advance db db'"
  using run unfolding DeleteProjectQuota_def inProjectTransaction_def
proof (elim transaction_cases [elim_format] disjE exE conjE)
  fix a assume "bindR (checkProject db org p) (\<lambda>_. bindR (guardR ErrProjectQuotaEnforced (findOrganizationQuota db org = None))
      (\<lambda>_. Inr (deleteProjectRows db p, ()))) = Inr (db', a)"
  then have db': "db' = deleteProjectRows db p" and o: "findOrganizationQuota db org = None" and live: "liveProject db org p"
    by (auto simp: result_simps checkProject_def)
  have "newer db db' o' p' c" if "liveProject db o' p'" for o' p' c
  proof (cases "p' = p")
    case True
    with that live have "o' = org" using liveProject_unique by blast
    with True o show ?thesis
      by (auto simp: newer_def db' deleteProjectRows_def findOrganizationQuota_def findProjectQuota_def nilWhenNotFound_def)
  next
    case False
    then show ?thesis
      by (auto simp: newer_def db' deleteProjectRows_def findOrganizationQuota_def findProjectQuota_def nilWhenNotFound_def)
  qed
  moreover have "rev_ok db'" using ok by (auto simp: rev_ok_def db' deleteProjectRows_def tab_revs_drop)
  ultimately show ?thesis
    using deleteProjectRows_levels(4) [of db p] by (simp add: revisions_advance_def db' deleteProjectRows_def)
qed (use ok advance_refl in simp)

lemma DeleteById_advance:
  assumes run: "DeleteById db p org = (db', r)" and ok: "rev_ok db"
  shows "revisions_advance db db'"
proof (cases "db' = db")
  case False
  let ?tx = "deleteProjectRows db p"
  have db': "db' = ?tx\<lparr>projects := fmupd p \<lparr>OrgaId = org, p_Deleted = True\<rparr> (projects ?tx),
      project_deactivations := fmfilter (\<lambda>(p', _). p' \<noteq> p) (project_deactivations ?tx)\<rparr>"
    using False run by (auto simp: DeleteById_def DeleteForProject_def result_simps split: sum.splits if_splits)
  have tabs: "organization_quotas db' = organization_quotas db" "project_quotas db' = fmdrop p (project_quotas db)"
    "project_az_quotas db' = fmfilter (\<lambda>(p', _). p' \<noteq> p) (project_az_quotas db)"
    "quota_revisions_seq db' = quota_revisions_seq db"
    by (simp_all add: db' deleteProjectRows_def)
  have "newer db db' o' p' c" if "liveProject db' o' p'" for o' p' c
  proof -
    have "p' \<noteq> p" using that by (auto simp: db' liveProject_upd split: if_splits)
    then show ?thesis
      by (simp add: newer_def tabs findOrganizationQuota_def findProjectQuota_def nilWhenNotFound_def)
  qed
  moreover have "rev_ok db'" using ok by (simp add: rev_ok_def tabs tab_revs_drop)
  ultimately show ?thesis by (simp add: revisions_advance_def tabs)
qed (use ok advance_refl in simp)

lemma organization_Delete_advance:
  assumes run: "organization_Delete db org = (db', r)" and ok: "rev_ok db" and ow: "owner_ok db"
  shows "revisions_advance db db'"
proof (cases "fmlookup (organizations db) org = Some False")
  case True
  let ?d = "deleteOrganizationRows db org"
  have db': "projects db' = fmmap_keys (\<lambda>p row. if OrgaId row = org then row\<lparr>p_Deleted := True\<rparr> else row) (projects db)"
      "organization_quotas db' = organization_quotas ?d" "project_quotas db' = project_quotas ?d"
      "project_az_quotas db' = project_az_quotas ?d" "quota_revisions_seq db' = quota_revisions_seq db"
    using run True
    by (auto simp: organization_Delete_def DeleteForOrganization_def lockOrganization_def guardR_def deleteOrganizationRows_def)
  have "newer db db' o' p c" if "liveProject db' o' p" for o' p c
  proof -
    have live: "o' \<noteq> org" "liveProject db o' p" "\<not> projectOf db org p"
      using that by (auto simp: liveProject_def projectOf_def db' split: option.splits if_splits)
    have "OrganizationId row \<noteq> org" if "findProjectQuota db p = Some row" for row
      using ow live that by (auto simp: owner_ok_def)
    then have "findProjectQuota db' p = findProjectQuota db p"
      by (auto simp: findProjectQuota_def nilWhenNotFound_def db' deleteOrganizationRows_def split: option.splits)
    with live show ?thesis
      by (auto simp: newer_def findOrganizationQuota_def nilWhenNotFound_def db' deleteOrganizationRows_def)
  qed
  moreover have "rev_ok db'"
    using ok by (auto simp: rev_ok_def db' deleteOrganizationRows_def tab_revs_drop)
  ultimately show ?thesis by (simp add: revisions_advance_def db')
next
  case False
  then show ?thesis
    using run by (intro advance_same [OF ok])
      (auto simp: organization_Delete_def DeleteForOrganization_def lockOrganization_def guardR_def)
qed

lemma quota_step_advance:
  assumes "quota_step L azs H s s'" "rev_ok (fst s)" "owner_ok (fst s)"
  shows "revisions_advance (fst s) (fst s')"
  using assms
proof (induction rule: quota_step.induct)
  case (new_org db i w)
  then show ?case by (simp add: advance_same organization_Create_def)
next
  case (new_project db i w org)
  then show ?case by (simp add: advance_same CreateProject_def)
next
  case (deactivate db w p reason msg)
  then show ?case by (simp add: advance_same Deactivate_def)
next
  case (reactivate db w p reason)
  then show ?case by (simp add: advance_same Reactivate_def)
next
  case (lost_revisions db n w)
  then show ?case by (simp add: advance_same)
qed (auto intro: SetOrganizationQuota_advance SetProjectQuota_advance SetProjectAZQuota_advance
    DeleteOrganizationQuota_advance DeleteProjectQuota_advance DeleteById_advance organization_Delete_advance advance_refl)

lemma quota_reachable_rev_ok:
  assumes "quantity_laws L" "azs_ok azs" "quota_reachable L azs H s"
  shows "rev_ok (fst s)"
  using assms(3)
proof (induction rule: quota_reachable.induct)
  case (init w)
  show ?case by (simp add: rev_ok_def empty_db_def tab_revs_def)
next
  case (step s s')
  have "owner_ok (fst s)" using quota_reachable_inv [OF assms(1,2) step(1)] by (rule quota_invD)
  then show ?case using quota_step_advance [OF step(2,3)] by (simp add: revisions_advance_def)
qed

text \<open>A changed effective quota carries a revision newer than any that was handed out before, unless
  nothing is left of it.\<close>

lemma advance_eff:
  assumes "revisions_advance db db'" "liveProject db' org p" "eff_quota db' org p c \<noteq> eff_quota db org p c"
  shows "eff_rev db' org p c = 0 \<and> eff_quota db' org p c = fmempty \<or> quota_revisions_seq db < eff_rev db' org p c"
proof -
  have "newer db db' org p c" using assms(1,2) by (simp add: revisions_advance_def)
  then show ?thesis
    unfolding newer_def
  proof (elim disjE)
    assume "findOrganizationQuota db' org = None \<and> findProjectQuota db' p = None \<and> arow db' p c = None"
    then have "eff_rev db' org p c = 0" by (simp add: eff_rev_max row_rev_def)
    moreover have "rev_ok db'" using assms(1) by (simp add: revisions_advance_def)
    ultimately show ?thesis using eff_rev_zero by blast
  qed (use assms(3) in \<open>simp_all add: eff_quota_rows\<close>)
qed

end
