(* ===== verification/Spx_Id.thy ===== *)
theory Spx_Id
  imports Prelude
begin

text \<open>
  The identifier framework, package \<^verbatim>\<open>pkg/superphenix-id\<close> (\<^verbatim>\<open>spxId.go\<close>, \<^verbatim>\<open>config.go\<close>,
  \<^verbatim>\<open>consts.go\<close>, \<^verbatim>\<open>errors.go\<close>): the metadata of an organization, a project or a resource, its
  checks, and the Kubernetes labels computed from it.

  \<^verbatim>\<open>github.com/google/uuid\<close> is outside the repository: \<open>uuid_lib\<close> holds its parser (the canonical
  text of the parsed value, \<open>None\<close> when it refuses) and its version 5 generator \<^verbatim>\<open>NewSHA1\<close>. The
  package variable \<^verbatim>\<open>frameworkPrefix\<close> is an argument. The methods have a pointer receiver: they
  return the metadata they leave behind, also when they fail.
\<close>

section \<open>Definitions\<close>

datatype spx_error =
    OrgIDEmpty
  | InvalidOrgID
  | ProjectIDEmpty
  | InvalidProjectID
  | InvalidResourceLocalID
  | InvalidProjectOrResourceLocalID

record uuid_lib =
  uuid_Parse :: "string \<Rightarrow> string option"
  NewSHA1 :: "string \<Rightarrow> string \<Rightarrow> string"

record spx_metadata =
  OrgId :: string
  ProjectId :: string
  ResourceEffectiveId :: string
  ResourceLocalId :: string

type_synonym labels = "(string, string) fmap"

definition SpxLabelOrganizationID :: string where
  "SpxLabelOrganizationID = ''superphenix.net/organizationID''"
definition SpxLabelProjectID :: string where
  "SpxLabelProjectID = ''superphenix.net/projectID''"
definition SpxLabelResourceLocalID :: string where
  "SpxLabelResourceLocalID = ''superphenix.net/resourceLocalID''"
definition SpxLabelResourceEffectiveID :: string where
  "SpxLabelResourceEffectiveID = ''superphenix.net/resourceEffectiveID''"
definition SpxLabelGitops :: string where
  "SpxLabelGitops = ''superphenix.net/gitops''"
definition SpxAnnotationQuotaRevision :: string where
  "SpxAnnotationQuotaRevision = ''superphenix.net/quotaRevision''"

definition nameMaxLength :: nat where "nameMaxLength = 63"

definition name_char :: "char \<Rightarrow> bool" where
  "name_char c \<longleftrightarrow> is_digit c \<or> 97 \<le> (of_char c :: nat) \<and> (of_char c :: nat) \<le> 122"

text \<open>The automaton of \<^verbatim>\<open>^[a-z0-9]+(-[a-z0-9]+)*$\<close>: \<open>False\<close> where a character of a segment has to
  come, \<open>True\<close> inside a segment.\<close>

fun nameEnforcer :: "bool \<Rightarrow> string \<Rightarrow> bool" where
  "nameEnforcer inside [] = inside"
| "nameEnforcer inside (c # cs) =
     (if name_char c then nameEnforcer True cs
      else if inside \<and> c = CHR ''-'' then nameEnforcer False cs
      else False)"

definition isValidName :: "string \<Rightarrow> bool" where
  "isValidName name \<longleftrightarrow> name \<noteq> [] \<and> length name \<le> nameMaxLength \<and> nameEnforcer False name"

definition isValidUUID :: "uuid_lib \<Rightarrow> string \<Rightarrow> bool" where
  "isValidUUID U s \<longleftrightarrow> uuid_Parse U s \<noteq> None"

definition ToSPXID :: "string \<Rightarrow> string \<Rightarrow> string" where
  "ToSPXID prefix i = (if i = [] then [] else prefix @ ''-'' @ i)"

definition checkUUIDs :: "uuid_lib \<Rightarrow> spx_metadata \<Rightarrow> spx_error option" where
  "checkUUIDs U m =
     (if \<not> isValidUUID U (OrgId m) then Some InvalidOrgID
      else if ProjectId m \<noteq> [] \<and> \<not> isValidUUID U (ProjectId m) then Some InvalidProjectID
      else if ResourceLocalId m \<noteq> [] \<and> \<not> isValidName (ResourceLocalId m) then Some InvalidResourceLocalID
      else None)"

definition metadata_check :: "uuid_lib \<Rightarrow> spx_metadata \<Rightarrow> spx_error option" where
  "metadata_check U m =
     (if OrgId m = [] then Some OrgIDEmpty
      else if ResourceLocalId m \<noteq> [] \<and> ProjectId m = [] then Some ProjectIDEmpty
      else checkUUIDs U m)"

definition computeEffectiveID :: "uuid_lib \<Rightarrow> spx_metadata \<Rightarrow> spx_metadata \<times> spx_error option" where
  "computeEffectiveID U m =
     (if ProjectId m = [] \<or> ResourceLocalId m = [] then (m, Some InvalidProjectOrResourceLocalID)
      else case uuid_Parse U (ProjectId m) of
             None \<Rightarrow> (m, Some InvalidProjectID)
           | Some ns \<Rightarrow> (m\<lparr>ResourceEffectiveId := NewSHA1 U ns (ResourceLocalId m)\<rparr>, None))"

definition checkAndCompute :: "uuid_lib \<Rightarrow> spx_metadata \<Rightarrow> spx_metadata \<times> spx_error option" where
  "checkAndCompute U m =
     (case metadata_check U m of
        Some e \<Rightarrow> (m, Some e)
      | None \<Rightarrow> computeEffectiveID U m)"

definition GenerateMetadata ::
  "uuid_lib \<Rightarrow> spx_metadata \<Rightarrow> string \<Rightarrow> string \<Rightarrow> string \<Rightarrow> spx_metadata \<times> spx_error option" where
  "GenerateMetadata U m projectId orgId localID =
     checkAndCompute U (m\<lparr>OrgId := orgId, ProjectId := projectId, ResourceLocalId := localID\<rparr>)"

definition GenerateFromProject ::
  "uuid_lib \<Rightarrow> spx_metadata \<Rightarrow> spx_metadata \<Rightarrow> string \<Rightarrow> spx_metadata \<times> spx_error option" where
  "GenerateFromProject U m project localID =
     checkAndCompute U (m\<lparr>OrgId := OrgId project, ProjectId := ProjectId project, ResourceLocalId := localID\<rparr>)"

definition ConvertToSpxMetadata ::
  "uuid_lib \<Rightarrow> spx_metadata \<Rightarrow> spx_metadata \<Rightarrow> spx_metadata \<times> spx_error option" where
  "ConvertToSpxMetadata U m info =
     checkAndCompute U (m\<lparr>OrgId := OrgId info, ProjectId := ProjectId info, ResourceLocalId := ResourceLocalId info\<rparr>)"

definition GetLabels :: "string \<Rightarrow> spx_metadata \<Rightarrow> labels" where
  "GetLabels prefix m =
     (let l0 = fmupd SpxLabelOrganizationID (ToSPXID prefix (OrgId m)) fmempty;
          l1 = (if ToSPXID prefix (ProjectId m) \<noteq> []
                then fmupd SpxLabelProjectID (ToSPXID prefix (ProjectId m)) l0 else l0)
      in if ResourceLocalId m \<noteq> []
         then fmupd SpxLabelResourceEffectiveID (ToSPXID prefix (ResourceEffectiveId m))
                (fmupd SpxLabelResourceLocalID (ResourceLocalId m) l1)
         else l1)"

lemmas label_names = SpxLabelOrganizationID_def SpxLabelProjectID_def SpxLabelResourceLocalID_def
  SpxLabelResourceEffectiveID_def SpxLabelGitops_def


section \<open>Names\<close>

definition join_dash :: "string list \<Rightarrow> string" where
  "join_dash segs = concat (map (\<lambda>s. CHR ''-'' # s) segs)"

lemma not_name_char_dash [simp]: "\<not> name_char (CHR ''-'')"
  by (simp add: name_char_def is_digit_def)

lemma nameEnforcer_segment: "list_all name_char s \<Longrightarrow> nameEnforcer b (s @ t) = nameEnforcer (b \<or> s \<noteq> []) t"
  by (induction s arbitrary: b) auto

text \<open>The automaton accepts exactly the words of the regular expression.\<close>

lemma nameEnforcer_join:
  assumes "\<forall>s\<in>set segs. s \<noteq> [] \<and> list_all name_char s"
  shows "nameEnforcer True (join_dash segs)"
  using assms
proof (induction segs)
  case (Cons s segs)
  then have s: "list_all name_char s" "s \<noteq> []" by auto
  have "nameEnforcer True (join_dash (s # segs)) = nameEnforcer False (s @ join_dash segs)"
    by (simp add: join_dash_def)
  also have "\<dots> = nameEnforcer True (join_dash segs)" using s by (simp add: nameEnforcer_segment)
  finally show ?case using Cons by simp
qed (simp add: join_dash_def)

lemma nameEnforcer_split:
  "nameEnforcer b s \<Longrightarrow>
     \<exists>s0 segs. s = s0 @ join_dash segs \<and> list_all name_char s0 \<and> (b \<or> s0 \<noteq> []) \<and>
       (\<forall>t\<in>set segs. t \<noteq> [] \<and> list_all name_char t)"
proof (induction b s rule: nameEnforcer.induct)
  case (1 b)
  then show ?case by (intro exI [of _ "[]"]) (auto simp: join_dash_def)
next
  case (2 b c cs)
  show ?case
  proof (cases "name_char c")
    case True
    with 2 obtain s0 segs where "cs = s0 @ join_dash segs" "list_all name_char s0"
        "\<forall>t\<in>set segs. t \<noteq> [] \<and> list_all name_char t" by auto
    with True show ?thesis by (intro exI [of _ "c # s0"] exI [of _ segs]) auto
  next
    case False
    with 2 obtain s0 segs where *: "b" "c = CHR ''-''" "cs = s0 @ join_dash segs" "list_all name_char s0" "s0 \<noteq> []"
        "\<forall>t\<in>set segs. t \<noteq> [] \<and> list_all name_char t" by (auto split: if_splits)
    then show ?thesis by (intro exI [of _ "[]"] exI [of _ "s0 # segs"]) (auto simp: join_dash_def)
  qed
qed

lemma nameEnforcer_iff:
  "nameEnforcer False s \<longleftrightarrow>
     (\<exists>s0 segs. s = s0 @ join_dash segs \<and> (\<forall>t\<in>set (s0 # segs). t \<noteq> [] \<and> list_all name_char t))"
  (is "_ \<longleftrightarrow> ?R")
proof
  assume "nameEnforcer False s"
  from nameEnforcer_split [OF this] show ?R by auto
next
  assume ?R
  then obtain s0 segs where *: "s = s0 @ join_dash segs" "\<forall>t\<in>set (s0 # segs). t \<noteq> [] \<and> list_all name_char t" by auto
  then have "nameEnforcer False s = nameEnforcer True (join_dash segs)" by (simp add: nameEnforcer_segment)
  also have "\<dots>" using * by (intro nameEnforcer_join) auto
  finally show "nameEnforcer False s" by simp
qed

lemma nameEnforcer_chars: "nameEnforcer b s \<Longrightarrow> c \<in> set s \<Longrightarrow> name_char c \<or> c = CHR ''-''"
  by (induction b s rule: nameEnforcer.induct) (auto split: if_splits)


section \<open>Metadata\<close>

lemma checkAndCompute_None:
  "snd (checkAndCompute U m) = None \<longleftrightarrow>
     OrgId m \<noteq> [] \<and> isValidUUID U (OrgId m) \<and> ProjectId m \<noteq> [] \<and> isValidUUID U (ProjectId m) \<and>
     isValidName (ResourceLocalId m)"
  by (auto simp: checkAndCompute_def metadata_check_def checkUUIDs_def computeEffectiveID_def isValidUUID_def
      isValidName_def split: option.splits if_splits)

lemma checkAndCompute_fields:
  "snd (checkAndCompute U m) = None \<Longrightarrow>
   fst (checkAndCompute U m) = m\<lparr>ResourceEffectiveId := NewSHA1 U (the (uuid_Parse U (ProjectId m))) (ResourceLocalId m)\<rparr>"
  by (auto simp: checkAndCompute_def computeEffectiveID_def split: option.splits if_splits)

lemma ToSPXID_inj: "i \<noteq> [] \<Longrightarrow> ToSPXID prefix i = ToSPXID prefix j \<Longrightarrow> i = j"
  by (auto simp: ToSPXID_def split: if_splits)

lemma GetLabels_lookup:
  "fmlookup (GetLabels prefix m) k =
     (if k = SpxLabelOrganizationID then Some (ToSPXID prefix (OrgId m))
      else if k = SpxLabelProjectID \<and> ProjectId m \<noteq> [] then Some (ToSPXID prefix (ProjectId m))
      else if k = SpxLabelResourceLocalID \<and> ResourceLocalId m \<noteq> [] then Some (ResourceLocalId m)
      else if k = SpxLabelResourceEffectiveID \<and> ResourceLocalId m \<noteq> [] then Some (ToSPXID prefix (ResourceEffectiveId m))
      else None)"
  by (simp add: GetLabels_def Let_def label_names ToSPXID_def)

end
