(* ===== verification/Controller_Quota.thy ===== *)
theory Controller_Quota
  imports Quota_Resources Spx_Id
begin

text \<open>
  The controller of an availability zone enforces the quota of a project through one Kubernetes
  ResourceQuota (\<^verbatim>\<open>internal/superphenix-controller/internal/k8s/quota/quota.go\<close>, the handlers of
  \<^verbatim>\<open>pkg/api/k8s/quota.go\<close> and \<^verbatim>\<open>internal/k8s/namespace.go\<close>).

  The cluster is the part of the Kubernetes store the code touches. The API server is not part of the
  repository: its calls fail when \<open>call_fails\<close> says so, and between a read and the write that follows
  it other clients act on the store (\<open>between\<close>); an update of an object that has changed since it was
  read is a conflict. \<^verbatim>\<open>retry.RetryOnConflict\<close> runs its body again on a conflict, at most
  \<open>c_steps\<close> times. Quantities are exact values in nano units, as in \<open>Quota_Resources\<close>.
\<close>

section \<open>State\<close>

type_synonym resource_list = "(string, int) fmap"

record resource_quota =
  rq_Labels :: labels
  rq_Annotations :: "(string, string) fmap"
  rq_Hard :: resource_list
  rq_Used :: resource_list

record cluster =
  namespaces :: "(string, labels) fmap"
  resource_quotas :: "(string \<times> string, resource_quota) fmap"

datatype k8s_call = GetQuota | CreateQuota | UpdateQuota | DeleteQuota | CreateNamespace

datatype ctrl_error = CtrlBelowUsage | CtrlConflict | CtrlAlreadyExists | CtrlNotFound | CtrlApi

record k8s_env =
  call_fails :: "k8s_call \<Rightarrow> nat \<Rightarrow> bool"
  between :: "nat \<Rightarrow> cluster \<Rightarrow> cluster"

record ctrl_cfg =
  c_SpxPrefix :: string
  c_frameworkPrefix :: string
  c_quantity :: quantity_lib
  c_uuid :: uuid_lib
  c_IsQualifiedName :: "string \<Rightarrow> bool"
  c_steps :: nat


section \<open>Operations\<close>

definition GetName :: "string \<Rightarrow> string" where
  "GetName projectId = ''quota-'' @ projectId"

definition GetNamespace :: "ctrl_cfg \<Rightarrow> string \<Rightarrow> string" where
  "GetNamespace C projectId = c_SpxPrefix C @ ''-'' @ projectId"

definition MaxResources :: nat where "MaxResources = 128"

text \<open>The body of the loop of \<^verbatim>\<open>Validate\<close>.\<close>

definition validateEntry :: "ctrl_cfg \<Rightarrow> string \<Rightarrow> string \<Rightarrow> resource_list \<Rightarrow> unit + resource_list" where
  "validateEntry C name value list =
     (if \<not> c_IsQualifiedName C name then Inl ()
      else case ParseQuantity (c_quantity C) value of
             None \<Rightarrow> Inl ()
           | Some q \<Rightarrow> if q < 0 then Inl () else Inr (fmupd name q list))"

definition quota_Validate :: "ctrl_cfg \<Rightarrow> (string, string) fmap \<Rightarrow> resource_list option" where
  "quota_Validate C hard =
     (if MaxResources < length (gkeys hard) then None
      else case foldR (\<lambda>(name, value). validateEntry C name value) (gentries hard) fmempty of
             Inl _ \<Rightarrow> None
           | Inr list \<Rightarrow> Some list)"

definition IsGitops :: "resource_quota \<Rightarrow> bool" where
  "IsGitops rq \<longleftrightarrow> fmlookup (rq_Labels rq) SpxLabelGitops = Some ''true''"

text \<open>The stored revision is newer than the one that comes in.\<close>

definition isStale :: "resource_quota \<Rightarrow> int \<Rightarrow> bool" where
  "isStale current revision \<longleftrightarrow> 0 < revision \<and>
     (case fmlookup (rq_Annotations current) SpxAnnotationQuotaRevision of
        None \<Rightarrow> False
      | Some s \<Rightarrow> (case ParseInt s of None \<Rightarrow> False | Some storedRev \<Rightarrow> revision < storedRev))"

text \<open>The body of the loop of \<^verbatim>\<open>CheckNotBelowUsage\<close>, which visits the names in order.\<close>

definition checkLimit :: "resource_quota \<Rightarrow> string \<Rightarrow> int \<Rightarrow> ctrl_error + unit" where
  "checkLimit current name limit =
     (case fmlookup (rq_Hard current) name of
        None \<Rightarrow> Inr ()
      | Some old \<Rightarrow>
          if old \<le> limit then Inr ()
          else case fmlookup (rq_Used current) name of
                 None \<Rightarrow> Inr ()
               | Some used \<Rightarrow> if limit < used then Inl CtrlBelowUsage else Inr ())"

definition CheckNotBelowUsage :: "resource_quota \<Rightarrow> resource_list \<Rightarrow> ctrl_error + unit" where
  "CheckNotBelowUsage current hard = foldR (\<lambda>(name, limit) _. checkLimit current name limit) (gentries hard) ()"

definition CreateNamespaceIfNotExists ::
  "ctrl_cfg \<Rightarrow> k8s_env \<Rightarrow> cluster \<Rightarrow> string \<Rightarrow> string \<Rightarrow> cluster \<times> ctrl_error option" where
  "CreateNamespaceIfNotExists C E st orgaId projectId =
     (let namespace = GetNamespace C projectId;
          m = \<lparr>OrgId = orgaId, ProjectId = projectId, ResourceEffectiveId = [], ResourceLocalId = []\<rparr>
      in if call_fails E CreateNamespace 0 then (st, Some CtrlApi)
         else if fmlookup (namespaces st) namespace \<noteq> None then (st, None)
         else (st\<lparr>namespaces := fmupd namespace (GetLabels (c_frameworkPrefix C) m) (namespaces st)\<rparr>, None))"

definition withRevision :: "int \<Rightarrow> (string, string) fmap \<Rightarrow> (string, string) fmap" where
  "withRevision revision annotations =
     (if 0 < revision then fmupd SpxAnnotationQuotaRevision (fmt_d revision) annotations else annotations)"

definition quota_apply ::
  "ctrl_cfg \<Rightarrow> k8s_env \<Rightarrow> string \<Rightarrow> string \<Rightarrow> resource_list \<Rightarrow> int \<Rightarrow> nat \<Rightarrow> cluster
     \<Rightarrow> cluster \<times> ctrl_error option" where
  "quota_apply C E orgId projectId hard revision i st =
     (let m = \<lparr>OrgId = orgId, ProjectId = projectId, ResourceEffectiveId = [], ResourceLocalId = []\<rparr>;
          key = (GetNamespace C projectId, GetName projectId);
          labels = GetLabels (c_frameworkPrefix C) m
      in if call_fails E GetQuota i then (st, Some CtrlApi)
         else case fmlookup (resource_quotas st) key of
           None \<Rightarrow>
             (let st1 = between E i st;
                  rq = \<lparr>rq_Labels = labels, rq_Annotations = withRevision revision fmempty,
                        rq_Hard = hard, rq_Used = fmempty\<rparr>
              in if call_fails E CreateQuota i then (st1, Some CtrlApi)
                 else if fmlookup (resource_quotas st1) key \<noteq> None then (st1, Some CtrlAlreadyExists)
                 else (st1\<lparr>resource_quotas := fmupd key rq (resource_quotas st1)\<rparr>, None))
         | Some current \<Rightarrow>
             if IsGitops current then (st, None)
             else if isStale current revision then (st, None)
             else case CheckNotBelowUsage current hard of
               Inl e \<Rightarrow> (st, Some e)
             | Inr _ \<Rightarrow>
                 (let st1 = between E i st;
                      rq = \<lparr>rq_Labels = rq_Labels current ++\<^sub>f labels,
                            rq_Annotations = withRevision revision (rq_Annotations current),
                            rq_Hard = hard, rq_Used = rq_Used current\<rparr>
                  in if call_fails E UpdateQuota i then (st1, Some CtrlApi)
                     else case fmlookup (resource_quotas st1) key of
                       None \<Rightarrow> (st1, Some CtrlNotFound)
                     | Some now \<Rightarrow>
                         if now \<noteq> current then (st1, Some CtrlConflict)
                         else (st1\<lparr>resource_quotas := fmupd key rq (resource_quotas st1)\<rparr>, None)))"

text \<open>\<^verbatim>\<open>retry.RetryOnConflict\<close>: attempt \<open>i\<close>, with \<open>n\<close> attempts left.\<close>

fun RetryOnConflict ::
  "nat \<Rightarrow> nat \<Rightarrow> (nat \<Rightarrow> cluster \<Rightarrow> cluster \<times> ctrl_error option) \<Rightarrow> cluster \<Rightarrow> cluster \<times> ctrl_error option" where
  "RetryOnConflict 0 i f st = (st, Some CtrlConflict)"
| "RetryOnConflict (Suc n) i f st =
     (case f i st of
        (st', Some CtrlConflict) \<Rightarrow> RetryOnConflict n (Suc i) f st'
      | r \<Rightarrow> r)"

definition quota_Apply ::
  "ctrl_cfg \<Rightarrow> k8s_env \<Rightarrow> cluster \<Rightarrow> string \<Rightarrow> string \<Rightarrow> resource_list \<Rightarrow> int \<Rightarrow> cluster \<times> ctrl_error option" where
  "quota_Apply C E st orgId projectId hard revision =
     (case CreateNamespaceIfNotExists C E st orgId projectId of
        (st1, Some e) \<Rightarrow> (st1, Some e)
      | (st1, None) \<Rightarrow> RetryOnConflict (c_steps C) 0 (quota_apply C E orgId projectId hard revision) st1)"

definition quota_Get :: "ctrl_cfg \<Rightarrow> k8s_env \<Rightarrow> cluster \<Rightarrow> string \<Rightarrow> ctrl_error + (resource_list \<times> resource_list)" where
  "quota_Get C E st projectId =
     (if call_fails E GetQuota 0 then Inl CtrlApi
      else case fmlookup (resource_quotas st) (GetNamespace C projectId, GetName projectId) of
             None \<Rightarrow> Inr (fmempty, fmempty)
           | Some current \<Rightarrow> Inr (rq_Hard current, rq_Used current))"

definition quota_Delete :: "ctrl_cfg \<Rightarrow> k8s_env \<Rightarrow> cluster \<Rightarrow> string \<Rightarrow> int \<Rightarrow> cluster \<times> ctrl_error option" where
  "quota_Delete C E st projectId revision =
     (let key = (GetNamespace C projectId, GetName projectId)
      in if call_fails E GetQuota 0 then (st, Some CtrlApi)
         else case fmlookup (resource_quotas st) key of
           None \<Rightarrow> (st, None)
         | Some current \<Rightarrow>
             if IsGitops current then (st, None)
             else if isStale current revision then (st, None)
             else let st1 = between E 0 st
                  in if call_fails E DeleteQuota 0 then (st1, Some CtrlApi)
                     else (st1\<lparr>resource_quotas := fmdrop key (resource_quotas st1)\<rparr>, None))"


section \<open>Handlers\<close>

record quota_body =
  qb_Hard :: "(string, string) fmap"
  qb_Revision :: int

record quota_status =
  qs_Hard :: "(string, string) fmap"
  qs_Used :: "(string, string) fmap"

definition parseQuotaParams :: "ctrl_cfg \<Rightarrow> string \<Rightarrow> string \<Rightarrow> bool" where
  "parseQuotaParams C orgId projectId \<longleftrightarrow>
     uuid_Parse (c_uuid C) orgId \<noteq> None \<and> uuid_Parse (c_uuid C) projectId \<noteq> None"

definition toStrings :: "ctrl_cfg \<Rightarrow> resource_list \<Rightarrow> (string, string) fmap" where
  "toStrings C list = fmmap (QuantityString (c_quantity C)) list"

text \<open>The handlers answer a status; a \<^verbatim>\<open>GET\<close> also a body. The JSON body of a \<^verbatim>\<open>PUT\<close> is decoded
  by \<^verbatim>\<open>decoder.HandleHTTPJSON\<close>, which answers the status of its own failure.\<close>

definition getQuota :: "ctrl_cfg \<Rightarrow> k8s_env \<Rightarrow> cluster \<Rightarrow> string \<Rightarrow> string \<Rightarrow> int \<times> quota_status option" where
  "getQuota C E st orgId projectId =
     (if \<not> parseQuotaParams C orgId projectId then (400, None)
      else case quota_Get C E st projectId of
             Inl _ \<Rightarrow> (500, None)
           | Inr (hard, used) \<Rightarrow> (200, Some \<lparr>qs_Hard = toStrings C hard, qs_Used = toStrings C used\<rparr>))"

definition setQuota :: "ctrl_cfg \<Rightarrow> k8s_env \<Rightarrow> cluster \<Rightarrow> string \<Rightarrow> string \<Rightarrow> int + quota_body \<Rightarrow> cluster \<times> int" where
  "setQuota C E st orgId projectId req =
     (if \<not> parseQuotaParams C orgId projectId then (st, 400)
      else case req of
        Inl status \<Rightarrow> (st, status)
      | Inr body \<Rightarrow>
          (case quota_Validate C (qb_Hard body) of
             None \<Rightarrow> (st, 400)
           | Some hard \<Rightarrow>
               (case (if hard = fmempty then quota_Delete C E st projectId (qb_Revision body)
                      else quota_Apply C E st orgId projectId hard (qb_Revision body)) of
                  (st', None) \<Rightarrow> (st', 204)
                | (st', Some e) \<Rightarrow> (st', if e = CtrlBelowUsage then 409 else 500))))"


section \<open>What the controller promises\<close>

abbreviation rq_of :: "ctrl_cfg \<Rightarrow> cluster \<Rightarrow> string \<Rightarrow> resource_quota option" where
  "rq_of C st p \<equiv> fmlookup (resource_quotas st) (GetNamespace C p, GetName p)"

lemma CheckNotBelowUsage_iff:
  "CheckNotBelowUsage current hard = Inr u \<longleftrightarrow>
     (\<forall>n l old used. fmlookup hard n = Some l \<longrightarrow> fmlookup (rq_Hard current) n = Some old \<longrightarrow> l < old \<longrightarrow>
        fmlookup (rq_Used current) n = Some used \<longrightarrow> used \<le> l)"
proof -
  have one: "checkLimit current n l = Inr () \<longleftrightarrow>
      (\<forall>old used. fmlookup (rq_Hard current) n = Some old \<longrightarrow> l < old \<longrightarrow>
         fmlookup (rq_Used current) n = Some used \<longrightarrow> used \<le> l)" for n l
    by (auto simp: checkLimit_def split: option.splits)
  have "foldR (\<lambda>(n, l) _. checkLimit current n l) es u0 = Inr u \<longleftrightarrow>
      (\<forall>e\<in>set es. checkLimit current (fst e) (snd e) = Inr ())" for es u0
    by (induction es arbitrary: u0) (auto simp: result_simps)
  then show ?thesis
    using ball_gentries [of hard "\<lambda>n l. checkLimit current n l = Inr ()"]
    by (simp add: CheckNotBelowUsage_def one)
qed

lemma CheckNotBelowUsage_Inl: "CheckNotBelowUsage current hard = Inl e \<Longrightarrow> e = CtrlBelowUsage"
proof -
  have "foldR (\<lambda>(n, l) _. checkLimit current n l) es u0 = Inl e \<Longrightarrow> e = CtrlBelowUsage" for es u0
    by (induction es arbitrary: u0)
       (auto simp: result_simps checkLimit_def split: option.splits if_splits)
  then show "CheckNotBelowUsage current hard = Inl e \<Longrightarrow> e = CtrlBelowUsage"
    by (simp add: CheckNotBelowUsage_def)
qed

lemma Validate_fold:
  assumes "foldR (\<lambda>(name, value). validateEntry C name value) es m = Inr l" and "distinct (map fst es)"
  shows "case map_of es k of
      None \<Rightarrow> fmlookup l k = fmlookup m k
    | Some v \<Rightarrow> c_IsQualifiedName C k \<and> (\<exists>q\<ge>0. ParseQuantity (c_quantity C) v = Some q \<and> fmlookup l k = Some q)"
  using assms
proof (induction es arbitrary: m)
  case (Cons e es)
  obtain n v where e: "e = (n, v)" by (cases e)
  then obtain m' where m': "validateEntry C n v m = Inr m'"
    and rest': "foldR (\<lambda>(name, value). validateEntry C name value) es m' = Inr l"
    using Cons.prems(1) by (auto simp: result_simps)
  then obtain q where q: "ParseQuantity (c_quantity C) v = Some q" "0 \<le> q" "c_IsQualifiedName C n"
    and rest: "foldR (\<lambda>(name, value). validateEntry C name value) es (fmupd n q m) = Inr l"
    by (auto simp: validateEntry_def split: if_splits option.splits)
  have "map_of es n = None" using Cons.prems(2) e by (simp add: map_of_eq_None_iff)
  then show ?case using Cons.IH [OF rest] Cons.prems(2) e q
    by (cases "k = n"; cases "map_of es k") auto
qed simp

lemma Validate_lookup:
  assumes "quota_Validate C hard = Some l"
  shows "case fmlookup hard k of
      None \<Rightarrow> fmlookup l k = None
    | Some v \<Rightarrow> c_IsQualifiedName C k \<and> (\<exists>q\<ge>0. ParseQuantity (c_quantity C) v = Some q \<and> fmlookup l k = Some q)"
proof -
  have "foldR (\<lambda>(name, value). validateEntry C name value) (gentries hard) fmempty = Inr l"
    using assms by (auto simp: quota_Validate_def split: if_splits sum.splits)
  from Validate_fold [OF this, of k] show ?thesis by (cases "fmlookup hard k") simp_all
qed

lemma Validate_empty:
  assumes "quota_Validate C hard = Some l"
  shows "l = fmempty \<longleftrightarrow> hard = fmempty"
  unfolding fmempty_iff
proof
  show "\<forall>k. fmlookup hard k = None" if "\<forall>k. fmlookup l k = None"
  proof
    fix k show "fmlookup hard k = None" using that Validate_lookup [OF assms, of k] by (cases "fmlookup hard k") auto
  qed
  show "\<forall>k. fmlookup l k = None" if "\<forall>k. fmlookup hard k = None"
  proof
    fix k show "fmlookup l k = None" using that Validate_lookup [OF assms, of k] by simp
  qed
qed

text \<open>The object an accepted push leaves behind.\<close>

definition applied :: "ctrl_cfg \<Rightarrow> string \<Rightarrow> string \<Rightarrow> resource_list \<Rightarrow> int \<Rightarrow> resource_quota option \<Rightarrow> resource_quota" where
  "applied C orgId projectId hard revision old =
     (let labels = GetLabels (c_frameworkPrefix C)
            \<lparr>OrgId = orgId, ProjectId = projectId, ResourceEffectiveId = [], ResourceLocalId = []\<rparr>
      in case old of
        None \<Rightarrow> \<lparr>rq_Labels = labels, rq_Annotations = withRevision revision fmempty, rq_Hard = hard, rq_Used = fmempty\<rparr>
      | Some current \<Rightarrow> \<lparr>rq_Labels = rq_Labels current ++\<^sub>f labels,
                         rq_Annotations = withRevision revision (rq_Annotations current),
                         rq_Hard = hard, rq_Used = rq_Used current\<rparr>)"

definition skips :: "int \<Rightarrow> resource_quota option \<Rightarrow> bool" where
  "skips revision old = (case old of None \<Rightarrow> False | Some cur \<Rightarrow> IsGitops cur \<or> isStale cur revision)"

definition accepts :: "resource_list \<Rightarrow> resource_quota option \<Rightarrow> bool" where
  "accepts hard old = (case old of None \<Rightarrow> True | Some cur \<Rightarrow> CheckNotBelowUsage cur hard = Inr ())"

lemma quota_apply_alt:
  "quota_apply C E orgId p hard revision i st =
     (let old = rq_of C st p; st1 = between E i st
      in if call_fails E GetQuota i then (st, Some CtrlApi)
         else if skips revision old then (st, None)
         else if \<not> accepts hard old then (st, Some CtrlBelowUsage)
         else if call_fails E (if old = None then CreateQuota else UpdateQuota) i then (st1, Some CtrlApi)
         else if rq_of C st1 p \<noteq> old
           then (st1, Some (if old = None then CtrlAlreadyExists
                            else if rq_of C st1 p = None then CtrlNotFound else CtrlConflict))
         else (st1\<lparr>resource_quotas := fmupd (GetNamespace C p, GetName p)
                 (applied C orgId p hard revision old) (resource_quotas st1)\<rparr>, None))"
proof (cases "rq_of C st p")
  case None
  then show ?thesis by (simp add: quota_apply_def Let_def skips_def accepts_def applied_def)
next
  case (Some cur)
  have chk: "CheckNotBelowUsage cur hard = (if accepts hard (Some cur) then Inr () else Inl CtrlBelowUsage)"
    by (cases "CheckNotBelowUsage cur hard") (auto simp: accepts_def dest: CheckNotBelowUsage_Inl)
  show ?thesis
    by (cases "rq_of C (between E i st) p")
       (simp_all add: quota_apply_def Let_def Some skips_def applied_def chk)
qed

lemma quota_apply_None:
  assumes "quota_apply C E orgId p hard revision i st = (st', None)"
  obtains (skipped) "st' = st" "skips revision (rq_of C st p)"
    | (written) "\<not> skips revision (rq_of C st p)" "accepts hard (rq_of C st p)"
        "rq_of C (between E i st) p = rq_of C st p"
        "st' = (between E i st)\<lparr>resource_quotas := fmupd (GetNamespace C p, GetName p)
           (applied C orgId p hard revision (rq_of C st p)) (resource_quotas (between E i st))\<rparr>"
  using assms by (auto simp: quota_apply_alt Let_def split: if_splits)

lemma RetryOnConflict_last:
  assumes "RetryOnConflict n i f st = (st', r)" and "r \<noteq> Some CtrlConflict"
  shows "\<exists>j st0. f j st0 = (st', r)"
  using assms
proof (induction n arbitrary: i st)
  case (Suc n)
  obtain st1 r1 where "f i st = (st1, r1)" by (rule prod.exhaust)
  with Suc show ?case by (cases "r1 = Some CtrlConflict") (auto split: option.splits ctrl_error.splits)
qed simp

text \<open>Whatever other clients do, an accepted push never takes a limit below what is used.\<close>

lemma quota_Apply_safe:
  assumes "quota_Apply C E st orgId p hard revision = (st', None)"
  obtains (kept) cur where "rq_of C st' p = Some cur" "skips revision (Some cur)"
    | (written) old where "rq_of C st' p = Some (applied C orgId p hard revision old)" "accepts hard old"
        "\<not> skips revision old"
proof -
  obtain st1 where "RetryOnConflict (c_steps C) 0 (quota_apply C E orgId p hard revision) st1 = (st', None)"
    using assms by (auto simp: quota_Apply_def split: prod.splits option.splits)
  then obtain j st0 where "quota_apply C E orgId p hard revision j st0 = (st', None)"
    using RetryOnConflict_last by blast
  then show thesis
  proof (cases rule: quota_apply_None)
    case skipped
    then show ?thesis using that(1) by (auto simp: skips_def split: option.splits)
  next
    case written
    then show ?thesis using that(2) by simp
  qed
qed

text \<open>
  The attempt that answered, and the cluster it met: \<open>met E i st\<close> is the cluster before attempt \<open>i\<close>, after
  what the other clients did during the attempts that ended in a conflict.
\<close>

definition met :: "k8s_env \<Rightarrow> nat \<Rightarrow> cluster \<Rightarrow> cluster" where
  "met E i st = fold (between E) [0..<i] st"

lemma met_simps [simp]: "met E 0 st = st" "met E (Suc i) st = between E i (met E i st)"
  by (simp_all add: met_def)

lemma quota_apply_conflict:
  "quota_apply C E orgId p hard revision i st = (st', Some CtrlConflict) \<Longrightarrow> st' = between E i st"
  by (auto simp: quota_apply_alt Let_def split: if_splits)

lemma RetryOnConflict_met:
  assumes "RetryOnConflict n i (quota_apply C E orgId p hard revision) (met E i st) = (st', None)"
  shows "\<exists>j. i \<le> j \<and> j < i + n \<and> quota_apply C E orgId p hard revision j (met E j st) = (st', None)"
  using assms
proof (induction n arbitrary: i)
  case (Suc n)
  let ?f = "quota_apply C E orgId p hard revision"
  obtain st1 r1 where f: "?f i (met E i st) = (st1, r1)" by (rule prod.exhaust)
  show ?case
  proof (cases "r1 = Some CtrlConflict")
    case True
    then have "RetryOnConflict n (Suc i) ?f (met E (Suc i) st) = (st', None)"
      using Suc.prems f quota_apply_conflict by fastforce
    from Suc.IH [OF this] show ?thesis by (metis Suc_leD add_Suc_right add_Suc)
  next
    case False
    then show ?thesis using Suc.prems f by (auto split: option.splits ctrl_error.splits)
  qed
qed simp

lemma quota_Apply_met:
  assumes "quota_Apply C E st orgId p hard revision = (st', None)"
  obtains i where "i < c_steps C"
    and "quota_apply C E orgId p hard revision i (met E i (fst (CreateNamespaceIfNotExists C E st orgId p))) = (st', None)"
proof -
  have "RetryOnConflict (c_steps C) 0 (quota_apply C E orgId p hard revision)
      (met E 0 (fst (CreateNamespaceIfNotExists C E st orgId p))) = (st', None)"
    using assms by (auto simp: quota_Apply_def split: prod.splits option.splits)
  from RetryOnConflict_met [OF this] that show thesis by auto
qed


section \<open>Without interference\<close>

definition quiet :: k8s_env where
  "quiet = \<lparr>call_fails = (\<lambda>_ _. False), between = (\<lambda>_ st. st)\<rparr>"

definition with_namespace :: "ctrl_cfg \<Rightarrow> cluster \<Rightarrow> string \<Rightarrow> string \<Rightarrow> cluster" where
  "with_namespace C st orgId projectId = fst (CreateNamespaceIfNotExists C quiet st orgId projectId)"

lemma with_namespace_rqs [simp]: "resource_quotas (with_namespace C st orgId p) = resource_quotas st"
  by (simp add: with_namespace_def CreateNamespaceIfNotExists_def Let_def quiet_def)

lemma quota_Apply_quiet:
  assumes "0 < c_steps C"
  shows "quota_Apply C quiet st orgId p hard revision =
    (let st1 = with_namespace C st orgId p
     in if skips revision (rq_of C st p) then (st1, None)
        else if accepts hard (rq_of C st p)
          then (st1\<lparr>resource_quotas := fmupd (GetNamespace C p, GetName p)
                 (applied C orgId p hard revision (rq_of C st p)) (resource_quotas st)\<rparr>, None)
          else (st1, Some CtrlBelowUsage))"
proof -
  obtain n where n: "c_steps C = Suc n" using assms by (cases "c_steps C") auto
  have ns: "CreateNamespaceIfNotExists C quiet st orgId p = (with_namespace C st orgId p, None)"
    by (simp add: with_namespace_def CreateNamespaceIfNotExists_def Let_def quiet_def)
  show ?thesis
    unfolding quota_Apply_def ns n by (simp add: quota_apply_alt Let_def quiet_def)
qed


section \<open>Pushes in any order\<close>

text \<open>
  The API pushes a quota from several places at once (requests, the periodic re-sync), so pushes may
  arrive in an order that is not the order of their revisions. The interface below is what the
  API relies on: an older push changes nothing, any other push it accepts replaces what is enforced.
\<close>

primrec accepted_run :: "('s \<Rightarrow> int \<Rightarrow> 'h \<Rightarrow> 's) \<Rightarrow> ('s \<Rightarrow> int) \<Rightarrow> ('s \<Rightarrow> 'h \<Rightarrow> bool) \<Rightarrow> 's \<Rightarrow> (int \<times> 'h) list \<Rightarrow> bool" where
  "accepted_run push stored ok s [] = True"
| "accepted_run push stored ok s (x # xs) =
     (0 < fst x \<and> fst x \<le> MaxInt64 \<and> (stored s \<le> fst x \<longrightarrow> ok s (snd x)) \<and>
      accepted_run push stored ok (push s (fst x) (snd x)) xs)"

locale revisioned_store =
  fixes push :: "'s \<Rightarrow> int \<Rightarrow> 'h \<Rightarrow> 's"
    and stored :: "'s \<Rightarrow> int"
    and enforced :: "'s \<Rightarrow> 'h option"
    and managed :: "'s \<Rightarrow> bool"
    and ok :: "'s \<Rightarrow> 'h \<Rightarrow> bool"
  assumes stale: "managed s \<Longrightarrow> 0 < r \<Longrightarrow> r < stored s \<Longrightarrow>
      managed (push s r h) \<and> stored (push s r h) = stored s \<and> enforced (push s r h) = enforced s"
    and current: "managed s \<Longrightarrow> 0 < r \<Longrightarrow> r \<le> MaxInt64 \<Longrightarrow> stored s \<le> r \<Longrightarrow> ok s h \<Longrightarrow>
      managed (push s r h) \<and> stored (push s r h) = r \<and> enforced (push s r h) = Some h"
begin

lemma push_stored:
  assumes "managed s" "accepted_run push stored ok s (x # xs)"
  shows "managed (push s (fst x) (snd x))" "stored (push s (fst x) (snd x)) = max (stored s) (fst x)"
    "enforced (push s (fst x) (snd x)) = (if stored s \<le> fst x then Some (snd x) else enforced s)"
  using stale [OF assms(1), of "fst x" "snd x"] current [OF assms(1), of "fst x" "snd x"] assms(2)
  by (cases "stored s \<le> fst x"; simp add: max_def)+

lemma deliver:
  assumes "managed s" and "accepted_run push stored ok s xs"
  shows "stored (fold (\<lambda>x s. push s (fst x) (snd x)) xs s) = fold (\<lambda>x. max (fst x)) xs (stored s) \<and>
    (enforced (fold (\<lambda>x s. push s (fst x) (snd x)) xs s) = enforced s \<and>
       fold (\<lambda>x. max (fst x)) xs (stored s) = stored s \<and> (\<forall>x\<in>set xs. fst x < stored s) \<or>
     (\<exists>h. (stored (fold (\<lambda>x s. push s (fst x) (snd x)) xs s), h) \<in> set xs \<and>
          enforced (fold (\<lambda>x s. push s (fst x) (snd x)) xs s) = Some h))"
  using assms
proof (induction xs arbitrary: s)
  case (Cons x xs)
  note p = push_stored [OF Cons.prems]
  have "accepted_run push stored ok (push s (fst x) (snd x)) xs" using Cons.prems(2) by simp
  note IH = Cons.IH [OF p(1) this]
  show ?case
  proof (cases "stored s \<le> fst x")
    case True
    then have "(stored (push s (fst x) (snd x)), snd x) \<in> set (x # xs)" using p(2) by (simp add: max_def)
    with IH True p(2,3) show ?thesis by (auto simp: max.commute)
  next
    case False
    with IH p(2,3) show ?thesis by (auto simp: max_def split: if_splits)
  qed
qed simp

text \<open>Whatever the order of arrival, the newest revision is the one that stays.\<close>

lemma newest_wins:
  assumes "managed s" "accepted_run push stored ok s xs" "(r, h) \<in> set xs" "stored s \<le> r"
    and "\<And>x. x \<in> set xs \<Longrightarrow> fst x \<le> r" and "\<And>h'. (r, h') \<in> set xs \<Longrightarrow> h' = h"
  shows "enforced (fold (\<lambda>x s. push s (fst x) (snd x)) xs s) = Some h"
    and "stored (fold (\<lambda>x s. push s (fst x) (snd x)) xs s) = r"
proof -
  have "fold (\<lambda>x. max (fst x)) ys a = r" if "a \<le> r" "\<And>x. x \<in> set ys \<Longrightarrow> fst x \<le> r" "a = r \<or> (\<exists>x\<in>set ys. fst x = r)"
    for ys :: "(int \<times> 'h) list" and a
    using that by (induction ys arbitrary: a) (auto simp: max_def)
  then have *: "fold (\<lambda>x. max (fst x)) xs (stored s) = r" using assms(3-5) by force
  with deliver [OF assms(1,2)] show "stored (fold (\<lambda>x s. push s (fst x) (snd x)) xs s) = r" by simp
  show "enforced (fold (\<lambda>x s. push s (fst x) (snd x)) xs s) = Some h"
    using deliver [OF assms(1,2)]
  proof (elim conjE disjE exE)
    assume "\<forall>x\<in>set xs. fst x < stored s"
    with assms(3,4) show ?thesis by fastforce
  next
    fix h' assume "stored (fold (\<lambda>x s. push s (fst x) (snd x)) xs s) = fold (\<lambda>x. max (fst x)) xs (stored s)"
      and "(stored (fold (\<lambda>x s. push s (fst x) (snd x)) xs s), h') \<in> set xs"
      and "enforced (fold (\<lambda>x s. push s (fst x) (snd x)) xs s) = Some h'"
    with * assms(6) show ?thesis by simp
  qed
qed

end

text \<open>\<^verbatim>\<open>retry.DefaultRetry\<close> makes five attempts.\<close>

definition default_retry :: "ctrl_cfg \<Rightarrow> ctrl_cfg" where
  "default_retry C = C\<lparr>c_steps := 5\<rparr>"

definition storedRevision :: "resource_quota option \<Rightarrow> int" where
  "storedRevision rq =
     (case rq of None \<Rightarrow> 0 | Some cur \<Rightarrow>
        (case fmlookup (rq_Annotations cur) SpxAnnotationQuotaRevision of
           None \<Rightarrow> 0
         | Some s \<Rightarrow> (case ParseInt s of None \<Rightarrow> 0 | Some v \<Rightarrow> v)))"

lemma isStale_stored: "0 < r \<Longrightarrow> isStale cur r \<longleftrightarrow> r < storedRevision (Some cur)"
  by (auto simp: isStale_def storedRevision_def split: option.splits)

lemma storedRevision_applied:
  "0 < r \<Longrightarrow> r \<le> MaxInt64 \<Longrightarrow> storedRevision (Some (applied C orgId p hard r old)) = r"
  using ParseInt_fmt_d [of r]
  by (auto simp: storedRevision_def applied_def Let_def withRevision_def split: option.splits)

lemma IsGitops_applied:
  "IsGitops (applied C orgId p hard r old) \<longleftrightarrow> (case old of None \<Rightarrow> False | Some cur \<Rightarrow> IsGitops cur)"
  by (auto simp: IsGitops_def applied_def Let_def GetLabels_lookup label_names fmlookup_dom_iff split: option.splits)

definition not_gitops :: "resource_quota option \<Rightarrow> bool" where
  "not_gitops rq = (case rq of None \<Rightarrow> True | Some cur \<Rightarrow> \<not> IsGitops cur)"

interpretation rs: revisioned_store
  "\<lambda>st r hard. fst (quota_Apply (default_retry C) quiet st orgId p hard r)"
  "\<lambda>st. storedRevision (rq_of (default_retry C) st p)"
  "\<lambda>st. map_option rq_Hard (rq_of (default_retry C) st p)"
  "\<lambda>st. not_gitops (rq_of (default_retry C) st p)"
  "\<lambda>st hard. accepts hard (rq_of (default_retry C) st p)"
  for C orgId p
proof
  have steps: "0 < c_steps (default_retry C)" by (simp add: default_retry_def)
  note q = quota_Apply_quiet [OF steps]
  fix s and r :: int and h
  assume m: "not_gitops (rq_of (default_retry C) s p)" and r: "0 < r"
  { assume "r < storedRevision (rq_of (default_retry C) s p)"
    then have "skips r (rq_of (default_retry C) s p)"
      using r isStale_stored by (cases "rq_of (default_retry C) s p") (auto simp: skips_def storedRevision_def [of None])
    then show "not_gitops (rq_of (default_retry C) (fst (quota_Apply (default_retry C) quiet s orgId p h r)) p) \<and>
        storedRevision (rq_of (default_retry C) (fst (quota_Apply (default_retry C) quiet s orgId p h r)) p) =
          storedRevision (rq_of (default_retry C) s p) \<and>
        map_option rq_Hard (rq_of (default_retry C) (fst (quota_Apply (default_retry C) quiet s orgId p h r)) p) =
          map_option rq_Hard (rq_of (default_retry C) s p)"
      using m by (simp add: q Let_def) }
  { assume "r \<le> MaxInt64" "storedRevision (rq_of (default_retry C) s p) \<le> r" "accepts h (rq_of (default_retry C) s p)"
    moreover from this have "\<not> skips r (rq_of (default_retry C) s p)"
      using m r isStale_stored by (auto simp: skips_def not_gitops_def split: option.splits)
    ultimately show "not_gitops (rq_of (default_retry C) (fst (quota_Apply (default_retry C) quiet s orgId p h r)) p) \<and>
        storedRevision (rq_of (default_retry C) (fst (quota_Apply (default_retry C) quiet s orgId p h r)) p) = r \<and>
        map_option rq_Hard (rq_of (default_retry C) (fst (quota_Apply (default_retry C) quiet s orgId p h r)) p) = Some h"
      using m r storedRevision_applied IsGitops_applied
      by (simp add: q Let_def not_gitops_def) (auto simp: applied_def Let_def split: option.splits) }
qed

end
