(* ===== verification/Quota_Sync.thy ===== *)
theory Quota_Sync
  imports Quota_Revision Controller_Quota
begin

text \<open>
  How the quotas of the API reach the zones: package \<^verbatim>\<open>internal/superphenix-api/internal/quotasync\<close>
  (\<^verbatim>\<open>quotasync.go\<close>, \<^verbatim>\<open>usage.go\<close>, \<^verbatim>\<open>resync.go\<close>) and the handlers of
  \<^verbatim>\<open>pkg/services/quota/quota.go\<close> and \<^verbatim>\<open>pkg/services/admin/quota/quota.go\<close>.

  The world of the hierarchical quotas is here the clusters, one per zone. The network is outside the
  repository: a call to the controller of a zone is delivered, is lost, or is delivered and its answer is
  lost (a timeout), as \<open>n_link\<close> says; before a call arrives the cluster may have moved (\<open>n_arrive\<close>).
  The pushes of one project go to different zones, so running them one after the other gives the result of the
  concurrent code. \<open>n_db_fails\<close> stands for a failing read of the tables, \<open>n_write_fails\<close> for a
  deactivation or a reactivation that the database refuses.
\<close>

section \<open>Calls to a controller\<close>

type_synonym world = "string \<Rightarrow> cluster"

datatype link = Up | Down | LostReply

record net =
  n_link :: "string \<Rightarrow> link"
  n_env :: "string \<Rightarrow> k8s_env"
  n_arrive :: "string \<Rightarrow> cluster \<Rightarrow> cluster"
  n_db_fails :: bool
  n_write_fails :: bool

definition push_status :: "int \<Rightarrow> quota_error option" where
  "push_status status =
     (if status \<noteq> 204 \<and> status \<noteq> 200
      then (if status = 409 then Some ErrBelowUsage else Some ErrInternal)
      else None)"

definition sync_push ::
  "ctrl_cfg \<Rightarrow> net \<Rightarrow> world \<Rightarrow> az_config \<Rightarrow> uuid \<Rightarrow> uuid \<Rightarrow> (string, string) fmap \<Rightarrow> int
     \<Rightarrow> quota_error option \<times> world" where
  "sync_push C N w azCfg orgId projectId hard revision =
     (let code = Code azCfg;
          st = n_arrive N code (w code);
          (st', status) = setQuota C (n_env N code) st orgId projectId (Inr \<lparr>qb_Hard = hard, qb_Revision = revision\<rparr>)
      in case n_link N code of
           Down \<Rightarrow> (Some ErrInternal, w)
         | LostReply \<Rightarrow> (Some ErrInternal, w(code := st'))
         | Up \<Rightarrow> (push_status status, w(code := st')))"

definition sync_fetch ::
  "ctrl_cfg \<Rightarrow> net \<Rightarrow> world \<Rightarrow> az_config \<Rightarrow> uuid \<Rightarrow> uuid \<Rightarrow> quota_error + quota_status" where
  "sync_fetch C N w azCfg orgId projectId =
     (case n_link N (Code azCfg) of
        Up \<Rightarrow> (case getQuota C (n_env N (Code azCfg)) (w (Code azCfg)) orgId projectId of
                 (status, Some body) \<Rightarrow> if status = 200 then Inr body else Inl ErrInternal
               | (_, None) \<Rightarrow> Inl ErrInternal)
      | _ \<Rightarrow> Inl ErrInternal)"

definition pushAZ ::
  "ctrl_cfg \<Rightarrow> net \<Rightarrow> az_table \<Rightarrow> world \<Rightarrow> uuid \<Rightarrow> uuid \<Rightarrow> string \<Rightarrow> (string, string) fmap
     \<Rightarrow> quota_error option \<times> world" where
  "pushAZ C N azs w orgId projectId codeAZ hard =
     (case az_GetByCode azs codeAZ orgId of
        None \<Rightarrow> (Some ErrInternal, w)
      | Some azCfg \<Rightarrow> sync_push C N w azCfg orgId projectId hard 0)"

definition readAZUsage ::
  "ctrl_cfg \<Rightarrow> net \<Rightarrow> az_table \<Rightarrow> world \<Rightarrow> uuid \<Rightarrow> uuid \<Rightarrow> string \<Rightarrow> quota_error + azusage" where
  "readAZUsage C N azs w orgId projectId codeAZ =
     (case az_GetByCode azs codeAZ orgId of
        None \<Rightarrow> Inl ErrInternal
      | Some azCfg \<Rightarrow>
          bindR (sync_fetch C N w azCfg orgId projectId) (\<lambda>status.
          Inr \<lparr>Hard = FromKubernetesUsage (c_quantity C) (qs_Hard status),
               Used = FromKubernetesUsage (c_quantity C) (qs_Used status)\<rparr>))"

text \<open>What the \<^verbatim>\<open>init\<close> functions of the package give to the quota crud.\<close>

definition sync_hooks :: "ctrl_cfg \<Rightarrow> net \<Rightarrow> az_table \<Rightarrow> world hooks" where
  "sync_hooks C N azs = \<lparr>ReadUsage = Some (readAZUsage C N azs), PushAZ = Some (pushAZ C N azs)\<rparr>"


section \<open>Pushing the quota of a project\<close>

definition GetHierarchy :: "net \<Rightarrow> quota_db \<Rightarrow> uuid \<Rightarrow> uuid \<Rightarrow> quota_error + hierarchy" where
  "GetHierarchy N db orgId projectId = (if n_db_fails N then Inl ErrInternal else Inr (loadHierarchy db orgId projectId))"

definition sync_targets :: "az_table \<Rightarrow> uuid \<Rightarrow> string list \<Rightarrow> az_config list" where
  "sync_targets azs orgId codes =
     (let all = az_FindAll azs orgId;
          kept = (if codes \<noteq> [] then filter (\<lambda>a. Code a \<in> set codes) all else all)
      in sort_key Code kept)"

text \<open>The loop over the zones: the world, the zones whose push failed and among them those with a quota.\<close>

fun push_all ::
  "ctrl_cfg \<Rightarrow> net \<Rightarrow> hierarchy \<Rightarrow> uuid \<Rightarrow> uuid \<Rightarrow> az_config list \<Rightarrow> world \<Rightarrow> world \<times> string list \<times> string list" where
  "push_all C N h orgId projectId [] w = (w, [], [])"
| "push_all C N h orgId projectId (azCfg # azs) w =
     (let hard = ToKubernetesQuota (Hierarchy_AZ h (Code azCfg));
          (err, w1) = sync_push C N w azCfg orgId projectId hard (Hierarchy_Revision h (Code azCfg));
          (w2, failed, unenforced) = push_all C N h orgId projectId azs w1
      in case err of
           None \<Rightarrow> (w2, failed, unenforced)
         | Some _ \<Rightarrow> (w2, Code azCfg # failed, if hard \<noteq> fmempty then Code azCfg # unenforced else unenforced))"

definition sync_apply ::
  "ctrl_cfg \<Rightarrow> net \<Rightarrow> az_table \<Rightarrow> quota_db \<Rightarrow> world \<Rightarrow> uuid \<Rightarrow> uuid \<Rightarrow> string list
     \<Rightarrow> world \<times> (quota_error + (string list \<times> string list))" where
  "sync_apply C N azs db w orgId projectId codes =
     (case GetHierarchy N db orgId projectId of
        Inl e \<Rightarrow> (w, Inl e)
      | Inr h \<Rightarrow>
          (let (w', failed, unenforced) = push_all C N h orgId projectId (sync_targets azs orgId codes) w
           in (w', Inr (failed, unenforced))))"

definition quotasync_Project ::
  "ctrl_cfg \<Rightarrow> net \<Rightarrow> az_table \<Rightarrow> quota_db \<Rightarrow> world \<Rightarrow> uuid \<Rightarrow> uuid \<Rightarrow> string list
     \<Rightarrow> quota_db \<times> world \<times> quota_error option" where
  "quotasync_Project C N azs db w orgId projectId codes =
     (case sync_apply C N azs db w orgId projectId codes of
        (w', Inl e) \<Rightarrow> (db, w', Some e)
      | (w', Inr (failed, _)) \<Rightarrow>
          if failed \<noteq> [] then (db, w', Some ErrNotApplied)
          else if codes = [] then
            (if n_write_fails N then (db, w', Some ErrInternal)
             else (Reactivate db projectId DeactivationQuotaFailedToApply, w', None))
          else (db, w', None))"

fun join_comma :: "string list \<Rightarrow> string" where
  "join_comma [] = []"
| "join_comma [s] = s"
| "join_comma (s # t # ts) = s @ '', '' @ join_comma (t # ts)"

text \<open>When the deactivation fails too, the joined error is returned and the project stays active.\<close>

definition quotasync_Initialize ::
  "ctrl_cfg \<Rightarrow> net \<Rightarrow> az_table \<Rightarrow> quota_db \<Rightarrow> world \<Rightarrow> uuid \<Rightarrow> uuid \<Rightarrow> quota_db \<times> world \<times> quota_error option" where
  "quotasync_Initialize C N azs db w orgId projectId =
     (let (w', r) = sync_apply C N azs db w orgId projectId [];
          (failed, unenforced) = (case r of Inl _ \<Rightarrow> ([], []) | Inr fu \<Rightarrow> fu);
          err = (case r of Inl e \<Rightarrow> Some e | Inr _ \<Rightarrow> if failed \<noteq> [] then Some ErrNotApplied else None)
      in case err of
           None \<Rightarrow> (db, w', None)
         | Some e \<Rightarrow>
             if failed = [] \<or> unenforced \<noteq> []
             then (if n_write_fails N then db
                   else Deactivate db projectId DeactivationQuotaFailedToApply
                     (''quota not applied'' @ (if unenforced \<noteq> [] then '' on: '' @ join_comma unenforced else [])), w', Some e)
             else (db, w', Some e))"

text \<open>The pushes of several projects follow each other; the network may differ for each.\<close>

fun push_projects ::
  "ctrl_cfg \<Rightarrow> (uuid \<Rightarrow> net) \<Rightarrow> az_table \<Rightarrow> (uuid \<times> uuid) list \<Rightarrow> quota_db \<Rightarrow> world \<Rightarrow> quota_db \<times> world \<times> nat" where
  "push_projects C Ns azs [] db w = (db, w, 0)"
| "push_projects C Ns azs ((orgId, projectId) # ps) db w =
     (let (db1, w1, err) = quotasync_Project C (Ns projectId) azs db w orgId projectId [];
          (db2, w2, n) = push_projects C Ns azs ps db1 w1
      in (db2, w2, if err = None then n else Suc n))"

definition quotasync_Organization ::
  "ctrl_cfg \<Rightarrow> (uuid \<Rightarrow> net) \<Rightarrow> az_table \<Rightarrow> quota_db \<Rightarrow> world \<Rightarrow> uuid \<Rightarrow> quota_db \<times> world \<times> quota_error option" where
  "quotasync_Organization C Ns azs db w orgId =
     (let (db', w', errs) = push_projects C Ns azs (map (\<lambda>p. (orgId, p)) (listProjectIds db orgId)) db w
      in (db', w', if 0 < errs then Some ErrNotApplied else None))"

record resync_report =
  rr_Projects :: nat
  rr_Failed :: nat

text \<open>One re-sync. \<open>acquired\<close> is the answer of the advisory lock: an error, or whether this replica
  got it. The deadline of the context is not modelled: the loop runs to its end.\<close>

definition Resync ::
  "ctrl_cfg \<Rightarrow> (uuid \<Rightarrow> net) \<Rightarrow> az_table \<Rightarrow> quota_error + bool \<Rightarrow> quota_db \<Rightarrow> world
     \<Rightarrow> quota_db \<times> world \<times> resync_report \<times> quota_error option" where
  "Resync C Ns azs acquired db w =
     (case acquired of
        Inl e \<Rightarrow> (db, w, \<lparr>rr_Projects = 0, rr_Failed = 0\<rparr>, Some e)
      | Inr False \<Rightarrow> (db, w, \<lparr>rr_Projects = 0, rr_Failed = 0\<rparr>, None)
      | Inr True \<Rightarrow>
          (let ps = ListAllProjects db;
               (db', w', failed) = push_projects C Ns azs ps db w
           in (db', w', \<lparr>rr_Projects = length ps, rr_Failed = failed\<rparr>, None)))"

text \<open>The overview of a project with, in each zone, what it uses there.\<close>

definition quotasync_GetProjectQuotaOverview ::
  "ctrl_cfg \<Rightarrow> net \<Rightarrow> az_table \<Rightarrow> quota_db \<Rightarrow> world \<Rightarrow> uuid \<Rightarrow> uuid \<Rightarrow> quota_error + project_overview" where
  "quotasync_GetProjectQuotaOverview C N azs db w orgId projectId =
     bindR (GetProjectQuotaOverview (c_quantity C) azs db orgId projectId) (\<lambda>overview.
       Inr (overview\<lparr>po_AZQuotas := map (\<lambda>azq.
          case find (\<lambda>a. Code a = ao_CodeAZ azq) (sync_targets azs orgId []) of
            None \<Rightarrow> azq
          | Some azCfg \<Rightarrow>
              (case sync_fetch C N w azCfg orgId projectId of
                 Inl _ \<Rightarrow> azq
               | Inr status \<Rightarrow>
                   azq\<lparr>ao_Available := True,
                       ao_Used := Quantities_Resources (c_quantity C)
                         (FromKubernetesUsage (c_quantity C) (qs_Used status))\<rparr>)) (po_AZQuotas overview)\<rparr>))"


section \<open>Handlers of the API\<close>

definition WriteError_status :: "quota_error \<Rightarrow> int" where
  "WriteError_status err =
     (case err of
        ErrInvalidResources \<Rightarrow> 400 | ErrOrgQuotaExceeded \<Rightarrow> 400 | ErrProjectQuotaExceeded \<Rightarrow> 400
      | ErrBelowAllocated \<Rightarrow> 400 | ErrBelowUsage \<Rightarrow> 400
      | ErrUsageUnavailable \<Rightarrow> 503 | ErrAZUnavailable \<Rightarrow> 503
      | ErrOrganizationNotFound \<Rightarrow> 404 | ErrProjectNotFound \<Rightarrow> 404 | ErrAZNotFound \<Rightarrow> 404
      | ErrProjectQuotaEnforced \<Rightarrow> 409
      | ErrNotApplied \<Rightarrow> 502
      | ErrRecordNotFound \<Rightarrow> 500 | ErrInternal \<Rightarrow> 500)"

text \<open>A request: its path parameters and its decoded body, or the status \<^verbatim>\<open>DecodeResources\<close> answers
  (a JSON null is an empty quota).\<close>

record quota_request =
  q_orgaId :: string
  q_projectId :: string
  q_codeAZ :: string
  q_body :: "int + resources option"

definition ParseID :: "ctrl_cfg \<Rightarrow> string \<Rightarrow> uuid option" where
  "ParseID C s = uuid_Parse (c_uuid C) s"

definition parseOrgAndProject :: "ctrl_cfg \<Rightarrow> quota_request \<Rightarrow> (uuid \<times> uuid) option" where
  "parseOrgAndProject C r =
     (case ParseID C (q_orgaId r) of
        None \<Rightarrow> None
      | Some orgId \<Rightarrow> (case ParseID C (q_projectId r) of None \<Rightarrow> None | Some projId \<Rightarrow> Some (orgId, projId)))"

definition DecodeResources :: "quota_request \<Rightarrow> int + resources" where
  "DecodeResources r =
     (case q_body r of Inl status \<Rightarrow> Inl status | Inr None \<Rightarrow> Inr fmempty | Inr (Some req) \<Rightarrow> Inr req)"

definition handle_SetProjectQuota ::
  "ctrl_cfg \<Rightarrow> net \<Rightarrow> az_table \<Rightarrow> quota_db \<Rightarrow> world \<Rightarrow> quota_request \<Rightarrow> quota_db \<times> world \<times> int" where
  "handle_SetProjectQuota C N azs db w r =
     (case parseOrgAndProject C r of
        None \<Rightarrow> (db, w, 400)
      | Some (orgId, projId) \<Rightarrow>
          (case DecodeResources r of
             Inl status \<Rightarrow> (db, w, status)
           | Inr req \<Rightarrow>
               (case SetProjectQuota (c_quantity C) azs db orgId projId req of
                  (db1, Inl e) \<Rightarrow> (db1, w, WriteError_status e)
                | (db1, Inr _) \<Rightarrow>
                    (case quotasync_Project C N azs db1 w orgId projId [] of
                       (db2, w2, Some e) \<Rightarrow> (db2, w2, WriteError_status e)
                     | (db2, w2, None) \<Rightarrow> (db2, w2, 200)))))"

definition handle_SetProjectAZQuota ::
  "ctrl_cfg \<Rightarrow> net \<Rightarrow> az_table \<Rightarrow> quota_db \<Rightarrow> world \<Rightarrow> quota_request \<Rightarrow> quota_db \<times> world \<times> int" where
  "handle_SetProjectAZQuota C N azs db w r =
     (case parseOrgAndProject C r of
        None \<Rightarrow> (db, w, 400)
      | Some (orgId, projId) \<Rightarrow>
          (case DecodeResources r of
             Inl status \<Rightarrow> (db, w, status)
           | Inr req \<Rightarrow>
               (case SetProjectAZQuota (c_quantity C) azs (sync_hooks C N azs) db w orgId projId (q_codeAZ r) req of
                  (db1, w1, Inl e) \<Rightarrow> (db1, w1, WriteError_status e)
                | (db1, w1, Inr _) \<Rightarrow>
                    (case quotasync_Project C N azs db1 w1 orgId projId [q_codeAZ r] of
                       (db2, w2, Some e) \<Rightarrow> (db2, w2, WriteError_status e)
                     | (db2, w2, None) \<Rightarrow> (db2, w2, 200)))))"

definition handle_DeleteProjectQuota ::
  "ctrl_cfg \<Rightarrow> net \<Rightarrow> az_table \<Rightarrow> quota_db \<Rightarrow> world \<Rightarrow> quota_request \<Rightarrow> quota_db \<times> world \<times> int" where
  "handle_DeleteProjectQuota C N azs db w r =
     (case parseOrgAndProject C r of
        None \<Rightarrow> (db, w, 400)
      | Some (orgId, projId) \<Rightarrow>
          (case DeleteProjectQuota db orgId projId of
             (db1, Inl e) \<Rightarrow> (db1, w, WriteError_status e)
           | (db1, Inr _) \<Rightarrow>
               (case quotasync_Project C N azs db1 w orgId projId [] of
                  (db2, w2, Some e) \<Rightarrow> (db2, w2, WriteError_status e)
                | (db2, w2, None) \<Rightarrow> (db2, w2, 204))))"

definition handle_SetOrganizationQuota ::
  "ctrl_cfg \<Rightarrow> (uuid \<Rightarrow> net) \<Rightarrow> az_table \<Rightarrow> quota_db \<Rightarrow> world \<Rightarrow> quota_request \<Rightarrow> quota_db \<times> world \<times> int" where
  "handle_SetOrganizationQuota C Ns azs db w r =
     (case ParseID C (q_orgaId r) of
        None \<Rightarrow> (db, w, 400)
      | Some orgId \<Rightarrow>
          (case DecodeResources r of
             Inl status \<Rightarrow> (db, w, status)
           | Inr req \<Rightarrow>
               (case SetOrganizationQuota (c_quantity C) azs db orgId req of
                  (db1, Inl e) \<Rightarrow> (db1, w, WriteError_status e)
                | (db1, Inr _) \<Rightarrow>
                    (case quotasync_Organization C Ns azs db1 w orgId of
                       (db2, w2, Some e) \<Rightarrow> (db2, w2, WriteError_status e)
                     | (db2, w2, None) \<Rightarrow> (db2, w2, 200)))))"

definition handle_DeleteOrganizationQuota ::
  "ctrl_cfg \<Rightarrow> (uuid \<Rightarrow> net) \<Rightarrow> az_table \<Rightarrow> quota_db \<Rightarrow> world \<Rightarrow> quota_request \<Rightarrow> quota_db \<times> world \<times> int" where
  "handle_DeleteOrganizationQuota C Ns azs db w r =
     (case ParseID C (q_orgaId r) of
        None \<Rightarrow> (db, w, 400)
      | Some orgId \<Rightarrow>
          (case DeleteOrganizationQuota db orgId of
             (db1, Inl e) \<Rightarrow> (db1, w, WriteError_status e)
           | (db1, Inr _) \<Rightarrow>
               (case quotasync_Organization C Ns azs db1 w orgId of
                  (db2, w2, Some e) \<Rightarrow> (db2, w2, WriteError_status e)
                | (db2, w2, None) \<Rightarrow> (db2, w2, 204))))"

definition handle_GetProjectQuota ::
  "ctrl_cfg \<Rightarrow> net \<Rightarrow> az_table \<Rightarrow> quota_db \<Rightarrow> world \<Rightarrow> quota_request \<Rightarrow> int \<times> project_overview option" where
  "handle_GetProjectQuota C N azs db w r =
     (case parseOrgAndProject C r of
        None \<Rightarrow> (400, None)
      | Some (orgId, projId) \<Rightarrow>
          (case quotasync_GetProjectQuotaOverview C N azs db w orgId projId of
             Inl e \<Rightarrow> (WriteError_status e, None)
           | Inr overview \<Rightarrow> (200, Some overview)))"

definition handle_GetOrganizationQuota ::
  "ctrl_cfg \<Rightarrow> quota_db \<Rightarrow> quota_request \<Rightarrow> int \<times> organization_overview option" where
  "handle_GetOrganizationQuota C db r =
     (case ParseID C (q_orgaId r) of
        None \<Rightarrow> (400, None)
      | Some orgId \<Rightarrow>
          (case GetOrganizationQuotaOverview (c_quantity C) db orgId of
             Inl e \<Rightarrow> (WriteError_status e, None)
           | Inr overview \<Rightarrow> (200, Some overview)))"


section \<open>What a push leaves in a zone\<close>

text \<open>
  \<open>enforces C st p hard revision\<close>: the ResourceQuota of the project is managed by GitOps, or carries a
  revision newer than \<open>revision\<close>, or holds exactly the limits \<open>hard\<close> (and is absent when there are none).
\<close>

definition enforces :: "ctrl_cfg \<Rightarrow> cluster \<Rightarrow> uuid \<Rightarrow> (string, string) fmap \<Rightarrow> int \<Rightarrow> bool" where
  "enforces C st p hard revision \<longleftrightarrow>
     (case rq_of C st p of
        None \<Rightarrow> hard = fmempty
      | Some rq \<Rightarrow> IsGitops rq \<or> isStale rq revision \<or> quota_Validate C hard = Some (rq_Hard rq) \<and> rq_Hard rq \<noteq> fmempty)"

lemma setQuota_enforces:
  assumes "setQuota C E st orgId p (Inr \<lparr>qb_Hard = hard, qb_Revision = revision\<rparr>) = (st', status)"
    and ok: "push_status status = None"
  shows "enforces C st' p hard revision"
proof -
  obtain l where l: "quota_Validate C hard = Some l"
    and run: "(if l = fmempty then quota_Delete C E st p revision else quota_Apply C E st orgId p l revision) = (st', None)"
    using assms by (auto simp: setQuota_def push_status_def split: if_splits option.splits prod.splits)
  show ?thesis
  proof (cases "l = fmempty")
    case True
    with run have "quota_Delete C E st p revision = (st', None)" by simp
    then have "rq_of C st' p = None \<or> (\<exists>rq. rq_of C st' p = Some rq \<and> (IsGitops rq \<or> isStale rq revision))"
      by (auto simp: quota_Delete_def Let_def split: if_splits option.splits)
    with Validate_empty [OF l] True show ?thesis by (auto simp: enforces_def split: option.splits)
  next
    case False
    with run have "quota_Apply C E st orgId p l revision = (st', None)" by simp
    then show ?thesis
    proof (cases rule: quota_Apply_safe)
      case (kept cur)
      then show ?thesis by (auto simp: enforces_def skips_def)
    next
      case (written old)
      then show ?thesis using l False
        by (auto simp: enforces_def applied_def Let_def split: option.splits)
    qed
  qed
qed

lemma sync_push_enforces:
  assumes "sync_push C N w az orgId p hard revision = (None, w')"
  shows "enforces C (w' (Code az)) p hard revision" and "code \<noteq> Code az \<Longrightarrow> w' code = w code"
  using assms setQuota_enforces
  by (auto simp: sync_push_def Let_def split: prod.splits link.splits)

lemma push_all_enforces:
  assumes "push_all C N h orgId p azs w = (w', failed, unenforced)" and "distinct (map Code azs)"
  shows "(\<forall>az\<in>set azs. Code az \<notin> set failed \<longrightarrow>
      enforces C (w' (Code az)) p (ToKubernetesQuota (Hierarchy_AZ h (Code az))) (Hierarchy_Revision h (Code az))) \<and>
    (\<forall>code. code \<notin> Code ` set azs \<longrightarrow> w' code = w code) \<and>
    set failed \<subseteq> Code ` set azs \<and>
    set unenforced = {code \<in> set failed. ToKubernetesQuota (Hierarchy_AZ h code) \<noteq> fmempty}"
  using assms
proof (induction azs arbitrary: w w' failed unenforced)
  case (Cons az azs)
  let ?hard = "ToKubernetesQuota (Hierarchy_AZ h (Code az))"
  obtain err w1 where p1: "sync_push C N w az orgId p ?hard (Hierarchy_Revision h (Code az)) = (err, w1)"
    by (rule prod.exhaust)
  obtain w2 f u where p2: "push_all C N h orgId p azs w1 = (w2, f, u)" by (rule prod_cases3)
  have res: "w' = w2" "failed = (if err = None then f else Code az # f)"
    "unenforced = (if err \<noteq> None \<and> ?hard \<noteq> fmempty then Code az # u else u)"
    using Cons.prems(1) p1 p2 by (auto simp: Let_def split: option.splits)
  have w1: "w1 code = w code" if "code \<noteq> Code az" for code
    using p1 that by (auto simp: sync_push_def Let_def split: prod.splits link.splits)
  have new: "Code az \<notin> Code ` set azs" using Cons.prems(2) by auto
  note IH = Cons.IH [OF p2]
  have "enforces C (w' (Code az)) p ?hard (Hierarchy_Revision h (Code az))" if "Code az \<notin> set failed"
  proof -
    have "err = None" using that res(2) by (auto split: if_splits)
    then have "enforces C (w1 (Code az)) p ?hard (Hierarchy_Revision h (Code az))"
      using sync_push_enforces(1) p1 by blast
    moreover have "w2 (Code az) = w1 (Code az)" using IH Cons.prems(2) new by simp
    ultimately show ?thesis using res(1) by simp
  qed
  then show ?case using IH Cons.prems(2) res w1 new by (auto split: if_splits)
qed simp

lemma set_sync_targets:
  "az \<in> set (sync_targets azs orgId codes) \<longleftrightarrow> az \<in> set (az_FindAll azs orgId) \<and> (codes \<noteq> [] \<longrightarrow> Code az \<in> set codes)"
  by (auto simp: sync_targets_def Let_def)

lemma distinct_sync_targets: "distinct (map Code (sync_targets (populateAZCodes azs) orgId codes))"
  using az_FindAll_codes_distinct [of azs orgId]
  by (auto simp: sync_targets_def Let_def distinct_map inj_on_def)

text \<open>When the push of a project reports success, every targeted zone enforces the stored quota.\<close>

lemma Project_enforces:
  assumes run: "quotasync_Project C N (populateAZCodes azs) db w orgId p codes = (db', w', None)"
    and az: "az \<in> set (az_FindAll (populateAZCodes azs) orgId)" "codes \<noteq> [] \<longrightarrow> Code az \<in> set codes"
  shows "enforces C (w' (Code az)) p (ToKubernetesQuota (eff_quota db orgId p (Code az))) (eff_rev db orgId p (Code az))"
proof -
  obtain u where "push_all C N (loadHierarchy db orgId p) orgId p (sync_targets (populateAZCodes azs) orgId codes) w = (w', [], u)"
    using run by (auto simp: quotasync_Project_def sync_apply_def GetHierarchy_def split: if_splits prod.splits sum.splits)
  from push_all_enforces [OF this distinct_sync_targets] az show ?thesis
    by (auto simp: set_sync_targets eff_quota_def eff_rev_def)
qed

text \<open>A project whose quota a zone may not enforce after its creation is deactivated.\<close>

lemma Initialize_outcome:
  assumes run: "quotasync_Initialize C N (populateAZCodes azs) db w orgId p = (db', w', err)"
    and az: "az \<in> set (az_FindAll (populateAZCodes azs) orgId)"
  shows "enforces C (w' (Code az)) p (ToKubernetesQuota (eff_quota db orgId p (Code az))) (eff_rev db orgId p (Code az)) \<or>
    ToKubernetesQuota (eff_quota db orgId p (Code az)) = fmempty \<or>
    fmlookup (project_deactivations db') (p, DeactivationQuotaFailedToApply) \<noteq> None \<or>
    n_write_fails N \<and> err \<noteq> None"
proof (cases "n_db_fails N")
  case True
  then show ?thesis
    using run by (auto simp: quotasync_Initialize_def sync_apply_def GetHierarchy_def Deactivate_def)
next
  case False
  obtain w1 f u where p: "push_all C N (loadHierarchy db orgId p) orgId p (sync_targets (populateAZCodes azs) orgId []) w = (w1, f, u)"
    by (rule prod_cases3)
  note E = push_all_enforces [OF p distinct_sync_targets]
  have T: "az \<in> set (sync_targets (populateAZCodes azs) orgId [])" using az by (simp add: set_sync_targets)
  have res: "w' = w1" "db' = (if f \<noteq> [] \<and> u \<noteq> [] \<and> \<not> n_write_fails N then Deactivate db p DeactivationQuotaFailedToApply
        (''quota not applied'' @ '' on: '' @ join_comma u) else db)" "f \<noteq> [] \<Longrightarrow> err \<noteq> None"
    using run False by (auto simp: quotasync_Initialize_def sync_apply_def GetHierarchy_def p Let_def split: if_splits)
  show ?thesis
  proof (cases "Code az \<in> set f")
    case True
    show ?thesis
    proof (cases "ToKubernetesQuota (eff_quota db orgId p (Code az)) = fmempty")
      case False
      with True E have "u \<noteq> []" "f \<noteq> []" by (auto simp: eff_quota_def)
      with res show ?thesis by (simp add: Deactivate_def)
    qed simp
  next
    case False
    with E T res show ?thesis by (auto simp: eff_quota_def eff_rev_def)
  qed
qed


section \<open>Lowering the quota of a zone\<close>

lemma eff_quota_upsertAZ:
  "eff_quota (fst (upsertAZQuota db p code res)) org p code =
     EffectiveAZQuota (h_Organization (loadHierarchy db org p)) (h_Project (loadHierarchy db org p)) res"
  by (simp add: eff_quota_def Hierarchy_AZ_def loadHierarchy_levels loadHierarchy_AZ_quota qs.writes)

lemma SetProjectAZQuota_success:
  assumes "SetProjectAZQuota L azs H db w org p code res = (db', w', Inr saved)"
  obtains az lowered where "az_GetByCode azs code org = Some az"
    and "(db', saved) = upsertAZQuota db p code res"
    and "loweredLimits L (eff_quota db org p code) (eff_quota db' org p code) = Inr lowered"
    and "lowered = fmempty \<and> w' = w \<or>
         lowered \<noteq> fmempty \<and> checkUsage H w org p code lowered = Inr () \<and>
         pushLowered H w org p code (eff_quota db' org p code) = (None, w')"
proof -
  obtain requested lowered after az where az: "az_GetByCode azs code org = Some az"
    and tx: "setProjectAZQuota_tx L H db w org p code res requested = Inr (db', saved, lowered, after)"
    and push: "lowered = fmempty \<and> w' = w \<or> lowered \<noteq> fmempty \<and> pushLowered H w org p code after = (None, w')"
    using assms by (auto simp: SetProjectAZQuota_def split: sum.splits option.splits prod.splits if_splits)
  note T = setProjectAZQuota_tx_Inr [OF tx]
  have after: "after = eff_quota db' org p code"
    using T(6,7) eff_quota_upsertAZ by (metis fst_conv)
  show thesis
    using that [OF az T(7)] T(4,5) push unfolding after eff_quota_def by blast
qed

lemma loweredLimits_names:
  assumes "loweredLimits L before after = Inr lowered" and "fmlookup lowered n = Some v"
  shows "fmlookup after n \<noteq> None" and "fmlookup translations_map n \<noteq> None"
proof -
  obtain pa where pa: "Resources_Parse L after = Inr pa" "fmlookup pa n = Some v"
    using assms by (auto simp: loweredLimits_def result_simps split: if_splits option.splits)
  then show "fmlookup after n \<noteq> None" using Parse_lookup(1) [OF pa(1), of n] by simp
  show "fmlookup translations_map n \<noteq> None" using Parse_names [OF pa(1), of n] pa(2) by simp
qed

lemma ToKubernetes_nonempty:
  assumes "fmlookup r n \<noteq> None" and "fmlookup translations_map n \<noteq> None"
  shows "ToKubernetesQuota r \<noteq> fmempty"
proof -
  obtain k where "k8s_owner k = Some n"
  proof (cases "k8s_keys n")
    case Nil
    then show thesis using assms(2) by (auto simp: k8s_keys_def translations_map_lookup split: if_splits)
  next
    case (Cons k ks)
    then show thesis using that [of k] k8s_keys_owner [of k n] by simp
  qed
  then have "fmlookup (ToKubernetesQuota r) k \<noteq> None" using assms(1) by (simp add: ToKubernetes_lookup)
  then show ?thesis by auto
qed

lemma loweredLimits_refl: "loweredLimits L q q = Inr lowered \<Longrightarrow> lowered = fmempty"
  by (auto simp: loweredLimits_def result_simps fmempty_iff split: option.splits)

text \<open>A zone quota that lowers a limit is stored only once the zone enforces it, whatever is answered.\<close>

lemma lowered_enforced:
  assumes run: "SetProjectAZQuota L azs (sync_hooks C N azs) db w org p code res = (db', w', r)"
    and azs: "azs_ok azs"
    and low: "loweredLimits L (eff_quota db org p code) (eff_quota db' org p code) = Inr lowered" "lowered \<noteq> fmempty"
  shows "\<exists>rq. rq_of C (w' code) p = Some rq \<and>
    (IsGitops rq \<or> quota_Validate C (ToKubernetesQuota (eff_quota db' org p code)) = Some (rq_Hard rq))"
proof -
  let ?hard = "ToKubernetesQuota (eff_quota db' org p code)"
  have "db' \<noteq> db" using loweredLimits_refl [of L _ lowered] low by metis
  then obtain saved where saved: "r = Inr saved"
    using run by (auto simp: SetProjectAZQuota_def split: sum.splits option.splits prod.splits if_splits)
  obtain az where az: "az_GetByCode azs code org = Some az"
    and push: "pushLowered (sync_hooks C N azs) w org p code (eff_quota db' org p code) = (None, w')"
    using SetProjectAZQuota_success [OF run [unfolded saved]] low by (metis sum.inject(2))
  have code: "Code az = code" using azs_ok_GetByCode [OF azs az] by simp
  have "sync_push C N w az org p ?hard 0 = (None, w')"
    using push az by (auto simp: pushLowered_def sync_hooks_def pushAZ_def split: prod.splits option.splits)
  then have e: "enforces C (w' code) p ?hard 0" using sync_push_enforces(1) code by metis
  obtain n v where "fmlookup lowered n = Some v" using low(2) by (auto simp: fmempty_iff)
  then have "?hard \<noteq> fmempty"
    using ToKubernetes_nonempty loweredLimits_names [OF low(1)] by blast
  with e show ?thesis by (auto simp: enforces_def isStale_def split: option.splits)
qed

end
