(* ===== verification/Quota_Examples.thy ===== *)
theory Quota_Examples
  imports Quota_Sync
begin

text \<open>
  A concrete instance of the parameters: a quantity library with a decimal syntax (a number, with the
  suffix \<^verbatim>\<open>m\<close> for thousandths and \<^verbatim>\<open>n\<close> for nano units), a UUID library, a controller, a network
  without failure and a small organization. It shows that the hypotheses of the properties can hold and
  is what their witnesses evaluate.
\<close>

section \<open>Libraries\<close>

definition dec_int :: "string \<Rightarrow> int option" where
  "dec_int s = (case s of
      [] \<Rightarrow> None
    | c # cs \<Rightarrow> if c = CHR ''-'' then map_option uminus (read_nat cs) else read_nat s)"

definition decimal_Parse :: "string \<Rightarrow> int option" where
  "decimal_Parse s =
     (if s = [] then None
      else if last s = CHR ''m'' then map_option (\<lambda>v. v * 10 ^ 6) (dec_int (butlast s))
      else if last s = CHR ''n'' then dec_int (butlast s)
      else map_option (\<lambda>v. v * 10 ^ 9) (dec_int s))"

definition decimal_lib :: quantity_lib where
  "decimal_lib = \<lparr>ParseQuantity = decimal_Parse, BinarySI = fmt_d, QuantityString = (\<lambda>q. fmt_d q @ ''n'')\<rparr>"

lemma dec_int_fmt_d: "dec_int (fmt_d v) = Some v" if "0 \<le> v"
proof -
  obtain c cs where c: "fmt_nat v = c # cs"
    using fmt_nat_nonempty by (cases "fmt_nat v") auto
  then have "is_digit c" using that by (rule fmt_nat_hd [rotated])
  then have "c \<noteq> CHR ''-''" by (auto simp: is_digit_def)
  with c that read_nat_fmt_nat [of v] show ?thesis by (simp add: dec_int_def fmt_d_def)
qed

lemma last_fmt_d: "0 \<le> v \<Longrightarrow> fmt_d v \<noteq> [] \<and> last (fmt_d v) \<noteq> CHR ''m'' \<and> last (fmt_d v) \<noteq> CHR ''n''"
proof -
  assume v: "0 \<le> v"
  then have f: "fmt_d v = fmt_nat v" by (simp add: fmt_d_def)
  have "is_digit (last (fmt_nat v))"
    using fmt_nat_digits [OF v] fmt_nat_nonempty [of v] by (simp add: list_all_iff)
  then show ?thesis using f fmt_nat_nonempty [of v] by (auto simp: is_digit_def)
qed

lemma decimal_laws: "quantity_laws decimal_lib"
  unfolding quantity_laws_def
  by (auto simp: decimal_lib_def decimal_Parse_def dec_int_fmt_d last_fmt_d)

definition plain_uuid :: uuid_lib where
  "plain_uuid = \<lparr>uuid_Parse = (\<lambda>s. if s = [] then None else Some s), NewSHA1 = (\<lambda>ns name. ns @ ''/'' @ name)\<rparr>"

definition demo_ctrl :: ctrl_cfg where
  "demo_ctrl = \<lparr>c_SpxPrefix = ''spx'', c_frameworkPrefix = ''spx'', c_quantity = decimal_lib, c_uuid = plain_uuid,
     c_IsQualifiedName = (\<lambda>_. True), c_steps = 5\<rparr>"

definition demo_net :: net where
  "demo_net = \<lparr>n_link = (\<lambda>_. Up), n_env = (\<lambda>_. quiet), n_arrive = (\<lambda>_ st. st), n_db_fails = False,
     n_write_fails = False\<rparr>"


section \<open>An organization\<close>

definition demo_azs :: az_table where
  "demo_azs = populateAZCodes (fmap_of_list
     [(''az1'', \<lparr>Code = [], AuthSecret = [], ControllerUrl = [], Whitelist = []\<rparr>),
      (''az2'', \<lparr>Code = [], AuthSecret = [], ControllerUrl = [], Whitelist = []\<rparr>)])"

lemma demo_azs_ok: "azs_ok demo_azs"
  unfolding demo_azs_def by (rule azs_ok_populate) simp

definition demo_world :: world where
  "demo_world = (\<lambda>_. \<lparr>namespaces = fmempty, resource_quotas = fmempty\<rparr>)"

definition demo_hooks :: "world hooks" where
  "demo_hooks = sync_hooks demo_ctrl demo_net demo_azs"

text \<open>The organization \<open>o\<close> with its project \<open>p\<close>, then with 9 cpus, half of them in each zone.\<close>

definition demo_db0 :: quota_db where
  "demo_db0 = CreateProject (organization_Create empty_db ''o'') ''o'' ''p''"

definition demo_cpu :: "string \<Rightarrow> resources" where
  "demo_cpu v = fmap_of_list [(CPU, v)]"

definition demo_db :: quota_db where
  "demo_db = \<lparr>organizations = fmap_of_list [(''o'', False)],
     projects = fmap_of_list [(''p'', \<lparr>OrgaId = ''o'', p_Deleted = False\<rparr>)],
     organization_quotas = fmap_of_list [(''o'', \<lparr>Revision = 4, Resources = demo_cpu ''9'', Deleted = False\<rparr>)],
     project_quotas = fmap_of_list [(''p'', \<lparr>Revision = 1, Resources = demo_cpu ''9'', Deleted = False, OrganizationId = ''o''\<rparr>)],
     project_az_quotas = fmap_of_list [((''p'', ''az2''), \<lparr>Revision = 3, Resources = demo_cpu ''4500m'', Deleted = False\<rparr>),
       ((''p'', ''az1''), \<lparr>Revision = 2, Resources = demo_cpu ''4500m'', Deleted = False\<rparr>)],
     quota_revisions_seq = 4, project_deactivations = fmempty\<rparr>"

lemma strict_demo: "strict_request decimal_lib (demo_cpu ''9'')" "strict_request decimal_lib (demo_cpu ''4'')"
  "strict_request decimal_lib (demo_cpu ''3'')" "strict_request decimal_lib (demo_cpu ''10'')"
  by code_simp+

lemma demo_reachable0: "quota_reachable decimal_lib demo_azs demo_hooks (demo_db0, demo_world)"
proof -
  have "quota_reachable decimal_lib demo_azs demo_hooks (organization_Create empty_db ''o'', demo_world)"
    by (rule quota_reachable.step [OF quota_reachable.init quota_step.new_org]) code_simp
  then show ?thesis
    unfolding demo_db0_def by (rule quota_reachable.step [OF _ quota_step.new_project]) code_simp
qed

definition demo_lim :: quantities where
  "demo_lim = fmap_of_list [(CPU, 9000)]"

lemma demo_parse: "Resources_Parse decimal_lib (demo_cpu ''9'') = Inr demo_lim"
  by code_simp

lemma demo_split:
  "splitAmongAZs decimal_lib demo_azs db ''o'' ''p'' (demo_cpu ''9'') =
     Inr (fst (upsertAZQuota (fst (upsertAZQuota db ''p'' ''az1'' (demo_cpu ''4500m''))) ''p'' ''az2'' (demo_cpu ''4500m'')))"
proof -
  have "sort (map Code (az_FindAll demo_azs ''o'')) = [''az1'', ''az2'']" by code_simp
  moreover have "Quantities_Resources decimal_lib (SplitEqually demo_lim (int (length [''az1'', ''az2''])))
      = demo_cpu ''4500m''" by code_simp
  ultimately show ?thesis by (simp add: splitAmongAZs_def demo_parse)
qed

definition demo_tx :: quota_db where
  "demo_tx = fst (upsertAZQuota (fst (upsertAZQuota (fst (upsertProjectQuota demo_db0 ''o'' ''p'' (demo_cpu ''9'')))
     ''p'' ''az1'' (demo_cpu ''4500m''))) ''p'' ''az2'' (demo_cpu ''4500m''))"

lemma demo_distribute:
  "distributeAmongProjects decimal_lib demo_azs demo_db0 ''o'' demo_lim fmempty = Inr demo_tx"
proof -
  have ids: "listProjectIds demo_db0 ''o'' = [''p'']" by code_simp
  have share: "Quantities_Resources decimal_lib (project_share demo_lim fmempty (length [''p'']) ''p'') = demo_cpu ''9''"
    by code_simp
  show ?thesis
    unfolding distributeAmongProjects_fold ids foldR.simps share saveProjectQuota_def demo_split demo_tx_def
    by (simp add: demo_split split_beta)
qed

lemma demo_set_org:
  "SetOrganizationQuota decimal_lib demo_azs demo_db0 ''o'' (demo_cpu ''9'') =
     (demo_db, Inr \<lparr>Revision = 4, Resources = demo_cpu ''9'', Deleted = False\<rparr>)"
proof -
  have "projectAllocations decimal_lib demo_db0 ''o'' = Inr ([], fmempty)" "lockOrganization demo_db0 ''o'' = Inr ()"
    "checkNotBelow demo_lim (sumAllocations fmempty) = Inr ()" by code_simp+
  moreover have "upsertOrganizationQuota demo_tx ''o'' (demo_cpu ''9'') =
      (demo_db, \<lparr>Revision = 4, Resources = demo_cpu ''9'', Deleted = False\<rparr>)" by code_simp
  ultimately show ?thesis
    by (simp add: SetOrganizationQuota_def demo_parse inOrganizationTransaction_def demo_distribute)
qed

lemma demo_reachable: "quota_reachable decimal_lib demo_azs demo_hooks (demo_db, demo_world)"
  by (rule quota_reachable.step [OF demo_reachable0 quota_step.set_org [OF demo_set_org strict_demo(1)]])

lemma demo_inv: "quota_inv decimal_lib demo_db"
  using quota_reachable_inv [OF decimal_laws demo_azs_ok demo_reachable] by simp


section \<open>A zone that enforces the quota\<close>

definition demo_rq :: resource_quota where
  "demo_rq = \<lparr>rq_Labels = fmempty, rq_Annotations = fmap_of_list [(SpxAnnotationQuotaRevision, ''4'')],
     rq_Hard = fmap_of_list [(''requests.cpu'', 4500000000), (''limits.cpu'', 4500000000)],
     rq_Used = fmap_of_list [(''requests.cpu'', 2000000000), (''limits.cpu'', 2000000000)]\<rparr>"

definition demo_cluster :: cluster where
  "demo_cluster = \<lparr>namespaces = fmempty, resource_quotas = fmap_of_list [((''spx-p'', ''quota-p''), demo_rq)]\<rparr>"

definition demo_world1 :: world where
  "demo_world1 = (\<lambda>_. demo_cluster)"

definition demo_cpus :: "int \<Rightarrow> resource_list" where
  "demo_cpus n = fmap_of_list [(''requests.cpu'', n * 10 ^ 9), (''limits.cpu'', n * 10 ^ 9)]"

text \<open>Lowering the zone \<open>az1\<close> to 3 cpus.\<close>

definition demo_lim3 :: quantities where
  "demo_lim3 = fmap_of_list [(CPU, 3000)]"

lemma demo_lower_pieces:
  "lockOrganization demo_db ''o'' = Inr ()" "checkProject demo_db ''o'' ''p'' = Inr ()"
  "checkAZFitsInProject decimal_lib (loadHierarchy demo_db ''o'' ''p'') ''az1'' demo_lim3 = Inr ()"
  "Hierarchy_AZ (loadHierarchy demo_db ''o'' ''p'') ''az1'' = demo_cpu ''4500m''"
  "EffectiveAZQuota (h_Organization (loadHierarchy demo_db ''o'' ''p'')) (h_Project (loadHierarchy demo_db ''o'' ''p'')) (demo_cpu ''3'') =
     demo_cpu ''3''"
  "loweredLimits decimal_lib (demo_cpu ''4500m'') (demo_cpu ''3'') = Inr demo_lim3"
  "checkUsage demo_hooks demo_world1 ''o'' ''p'' ''az1'' demo_lim3 = Inr ()"
  "Resources_Parse decimal_lib (demo_cpu ''3'') = Inr demo_lim3"
  "az_GetByCode demo_azs ''az1'' ''o'' = Some \<lparr>Code = ''az1'', AuthSecret = [], ControllerUrl = [], Whitelist = []\<rparr>"
  "demo_lim3 \<noteq> fmempty"
  "fst (pushLowered demo_hooks demo_world1 ''o'' ''p'' ''az1'' (demo_cpu ''3'')) = None"
  by code_simp+

lemma demo_lower:
  "SetProjectAZQuota decimal_lib demo_azs demo_hooks demo_db demo_world1 ''o'' ''p'' ''az1'' (demo_cpu ''3'') =
     (fst (upsertAZQuota demo_db ''p'' ''az1'' (demo_cpu ''3'')),
      snd (pushLowered demo_hooks demo_world1 ''o'' ''p'' ''az1'' (demo_cpu ''3'')),
      Inr (snd (upsertAZQuota demo_db ''p'' ''az1'' (demo_cpu ''3''))))"
  using demo_lower_pieces(11)
  by (cases "pushLowered demo_hooks demo_world1 ''o'' ''p'' ''az1'' (demo_cpu ''3'')")
     (simp add: SetProjectAZQuota_def setProjectAZQuota_tx_def demo_lower_pieces Let_def split_beta)

end
