(* ===== verification/Quota_Exact.thy ===== *)
theory Quota_Exact
  imports Quota_Organization
begin

text \<open>
  The quota writes accept exactly what fits: from tables that satisfy \<open>quota_inv\<close>, a write succeeds if
  and only if the request is valid, the organization and the project exist, and the exact sums of
  the specification allow it. Neither the saturating arithmetic nor the order of the checks refuses a
  request that fits or lets one through that does not.
\<close>

lemma checkNotBelow_sum:
  assumes st: "stored_ok L db" and A: "allocations_of L db org A" and lim: "qty_strict limit"
  shows "checkNotBelow limit (sumAllocations A) = Inr u \<longleftrightarrow>
    (\<forall>n l. fmlookup limit n = Some l \<longrightarrow> (\<Sum>p | liveProject db org p. alloc L db p n) \<le> l)"
proof -
  have "qget (sumAllocations A) n \<le> l \<longleftrightarrow> (\<Sum>p | liveProject db org p. alloc L db p n) \<le> l"
    if "fmlookup limit n = Some l" for n l
    using sumAllocations_spec(2) [OF st A, of n] qty_strictD [OF lim that] by auto
  then show ?thesis by (simp add: checkNotBelow_def guardR_eq_Inr Exceeds_None)
qed

lemma distribute_succeeds:
  assumes L: "quantity_laws L" and azs: "azs_ok azs" and inv: "quota_inv L db"
    and A: "allocations_of L db org A" and empty: "listProjectQuotas db org = []"
    and lim: "Resources_Parse L res = Inr limit" "qty_strict limit"
    and below: "checkNotBelow limit (sumAllocations A) = Inr u"
  shows "\<exists>db'. distributeAmongProjects L azs db org limit A = Inr db'"
proof -
  note st = quota_invD(1) [OF inv]
  have k: "length (listProjectIds db org) = card {p. liveProject db org p}"
    by (metis distinct_card distinct_listProjectIds set_listProjectIds)
  define Q where "Q = project_share limit A (card {p. liveProject db org p})"
  have none: "projQ db p = None" if "liveProject db org p" for p
    using map_of_listProjectQuotas [OF quota_invD(2) [OF inv], of org p] that empty by (simp add: projQ_def)
  have ok: "qty_strict (Q p) \<and> Resources_Parse L (Quantities_Resources L (Q p)) = Inr (Q p)"
    if p: "liveProject db org p" for p
  proof -
    have "0 < card {p. liveProject db org p}" using p by (auto simp: card_gt_0_iff)
    then have "fmlookup translations_map n \<noteq> None" if "fmlookup (Q p) n \<noteq> None" for n
      using that project_share_dom [of _ limit A p n] Parse_names [OF lim(1), of n] by (simp add: Q_def)
    moreover have "qty_strict (Q p)"
      unfolding Q_def by (rule project_share_strict [OF st A lim(2) below refl p])
    ultimately show ?thesis using Parse_Resources [OF L, of "Q p"] by blast
  qed
  show ?thesis
    using save_projects [OF L azs st distinct_listProjectIds, of db org Q "\<lambda>p. fmlookup A p \<noteq> None" org] ok none A
    unfolding distributeAmongProjects_fold set_listProjectIds k Q_def by (auto simp: allocations_of_def)
qed

lemma SetOrganizationQuota_succeeds_iff:
  assumes L: "quantity_laws L" and inv: "quota_inv L db" and azs: "azs_ok azs"
    and strict: "\<And>q. Resources_Parse L res = Inr q \<Longrightarrow> qty_strict q"
  shows "(\<exists>row. snd (SetOrganizationQuota L azs db org res) = Inr row) \<longleftrightarrow>
    fmlookup (organizations db) org = Some False \<and>
    (\<exists>q. Resources_Parse L res = Inr q \<and>
      (\<forall>n l. fmlookup q n = Some l \<longrightarrow> (\<Sum>p | liveProject db org p. alloc L db p n) \<le> l))"
proof (cases "Resources_Parse L res")
  case (Inl e)
  then show ?thesis by (simp add: SetOrganizationQuota_def)
next
  case (Inr q)
  obtain A where A: "projectAllocations L db org = Inr (listProjectQuotas db org, A)" "allocations_of L db org A"
    using projectAllocations_spec [OF quota_invD(1,2) [OF inv]] by blast
  note chk = checkNotBelow_sum [OF quota_invD(1) [OF inv] A(2) strict [OF Inr]]
  show ?thesis
  proof (cases "fmlookup (organizations db) org = Some False \<and> checkNotBelow q (sumAllocations A) = Inr ()")
    case True
    then obtain tx where "(if listProjectQuotas db org = [] then distributeAmongProjects L azs db org q A
             else Inr (coverAZQuotas L db org q (listProjectQuotas db org) A)) = Inr tx"
      using distribute_succeeds [OF L azs inv A(2) _ Inr strict [OF Inr]] by (cases "listProjectQuotas db org = []") auto
    then have "\<exists>row. snd (SetOrganizationQuota L azs db org res) = Inr row"
      using True A(1) Inr
      by (cases "upsertOrganizationQuota tx org res")
         (simp add: SetOrganizationQuota_def inOrganizationTransaction_def lockOrganization_def guardR_def)
    then show ?thesis using True chk Inr by auto
  next
    case False
    then have "\<nexists>row. snd (SetOrganizationQuota L azs db org res) = Inr row"
      using A(1) Inr
      by (auto simp: SetOrganizationQuota_def inOrganizationTransaction_def lockOrganization_def guardR_def
          bindR_def [of "checkNotBelow q (sumAllocations A)"] split: sum.splits)
    then show ?thesis using False chk Inr by auto
  qed
qed

lemma project_covers_iff:
  assumes L: "quantity_laws L" and st: "stored_ok L db" and ok: "row_ok L (Some res)"
  shows "checkProjectCoversAZs L (loadHierarchy db org p) res = Inr u \<longleftrightarrow>
    (\<forall>n l. (case fmlookup (lv L (Some res)) n of Some v \<Rightarrow> Some v
        | None \<Rightarrow> if fmlookup (lv L (orgQ db org)) n = None then None else Some 0) = Some l \<longrightarrow> azSum L db p n \<le> l)"
proof -
  obtain e where e: "Resources_Parse L (projectLimit (h_Organization (loadHierarchy db org p)) res) = Inr e"
    "\<And>n. fmlookup e n = (case fmlookup (lv L (Some res)) n of Some v \<Rightarrow> Some v
        | None \<Rightarrow> if fmlookup (lv L (orgQ db org)) n = None then None else Some 0)" "qty_strict e"
    using projectLimit_parse [OF L stored_okD(1) [OF st, of org] ok] unfolding loadHierarchy_levels
    by (metis (no_types, lifting) option.simps(5))
  obtain t where t: "sumAZQuotas L (h_AZs (loadHierarchy db org p)) [] = Inr t"
    "\<And>n. qget t n = min MaxInt64 (\<Sum>c\<in>azCodes db p - {[]}. qget (lv L (azQ db p c)) n)"
    using sumAZQuotas_load [OF st] by blast
  have "qget t n \<le> l \<longleftrightarrow> azSum L db p n \<le> l" if "fmlookup e n = Some l" for n l
    using t(2) [of n] azSum_named [OF st, of p n] qty_strictD [OF e(3) that] by auto
  then show ?thesis
    unfolding e(2) [symmetric]
    by (simp add: checkProjectCoversAZs_def e(1) t(1) checkNotBelow_def guardR_eq_Inr Exceeds_None)
qed

lemma project_fits_org_iff:
  assumes st: "stored_ok L db" and ow: "owner_ok db" and live: "liveProject db org p" and q: "qty_ok q"
  shows "checkProjectFitsInOrganization L db org p q (h_Organization (loadHierarchy db org p)) = Inr u \<longleftrightarrow>
    (\<forall>n l. fmlookup (lv L (orgQ db org)) n = Some l \<longrightarrow> alloc L db p n < qget q n \<longrightarrow>
       (\<Sum>p'\<in>{p'. liveProject db org p'} - {p}. alloc L db p' n) + qget q n \<le> l)"
proof -
  let ?o = "h_Organization (loadHierarchy db org p)"
  have P: "Resources_Parse L ?o = Inr (lv L (orgQ db org))"
    unfolding loadHierarchy_levels by (rule Parse_level [OF stored_okD(1) [OF st]])
  have empty: "lv L (orgQ db org) = fmempty" if "?o = fmempty" using P that by simp
  obtain A where A: "projectAllocations L db org = Inr (listProjectQuotas db org, A)" "allocations_of L db org A"
    using projectAllocations_spec [OF st ow] by blast
  have strict: "qty_strict (lv L (orgQ db org))" by (rule qty_strict_lv [OF stored_okD(1) [OF st]])
  have ok: "qty_ok (alloc_get A p)" using A(2) by (auto simp: allocations_of_def)
  have eq: "(qget (alloc_get A p) n < qget q n \<longrightarrow> qget (sumAllocations (fmdrop p A)) n + qget q n \<le> l) \<longleftrightarrow>
      (alloc L db p n < qget q n \<longrightarrow> (\<Sum>p'\<in>{p'. liveProject db org p'} - {p}. alloc L db p' n) + qget q n \<le> l)"
    if "fmlookup (lv L (orgQ db org)) n = Some l" for n l
  proof -
    have "qget (alloc_get A p) n = min MaxInt64 (alloc L db p n)" using A(2) live by (simp add: allocations_of_def)
    moreover have "qget q n \<le> MaxInt64" using qget_ok [OF q] by simp
    ultimately have "qget (alloc_get A p) n < qget q n \<longleftrightarrow> alloc L db p n < qget q n" by auto
    then show ?thesis
      using sumAllocations_spec(3) [OF st A(2), of p n] qty_strictD [OF strict that] qget_ok [OF q, of n] by auto
  qed
  show ?thesis
  proof (cases "?o = fmempty")
    case True
    then show ?thesis using empty by (simp add: checkProjectFitsInOrganization_def)
  next
    case False
    then show ?thesis
      using checkCapacity_iff [OF q ok sumAllocations_spec(4) [OF st A(2)] strict, of p ErrOrgQuotaExceeded u] eq
      by (simp add: checkProjectFitsInOrganization_def P A(1))
  qed
qed

lemma SetProjectQuota_succeeds_iff:
  assumes L: "quantity_laws L" and inv: "quota_inv L db" and azs: "azs_ok azs"
    and req: "Resources_Parse L res = Inr q" "qty_strict q"
  shows "(\<exists>row. snd (SetProjectQuota L azs db org p res) = Inr row) \<longleftrightarrow>
    fmlookup (organizations db) org = Some False \<and> liveProject db org p \<and>
    (\<forall>n l. (case fmlookup q n of Some v \<Rightarrow> Some v
        | None \<Rightarrow> if fmlookup (lv L (orgQ db org)) n = None then None else Some 0) = Some l \<longrightarrow> azSum L db p n \<le> l) \<and>
    (\<forall>n l. fmlookup (lv L (orgQ db org)) n = Some l \<longrightarrow> alloc L db p n < qget q n \<longrightarrow>
       (\<Sum>p'\<in>{p'. liveProject db org p'} - {p}. alloc L db p' n) + qget q n \<le> l)"
proof (cases "fmlookup (organizations db) org = Some False \<and> liveProject db org p")
  case False
  then show ?thesis
    by (auto simp: SetProjectQuota_def req inProjectTransaction_def inOrganizationTransaction_def lockOrganization_def
        checkProject_def guardR_def split: if_splits)
next
  case True
  note st = quota_invD(1) [OF inv]
  let ?h = "loadHierarchy db org p"
  have okres: "row_ok L (Some res)" "lv L (Some res) = q" using req by (auto simp: row_ok_def parsed_def)
  have "h_AZs ?h \<noteq> fmempty \<longleftrightarrow> azCodes db p \<noteq> {}"
    by (auto simp: fmempty_iff loadHierarchy_levels azCodes_def)
  then obtain db' row where save: "saveProjectQuota L azs db org p res (h_AZs ?h \<noteq> fmempty) = Inr (db', row)"
    using saveProjectQuota_spec [OF L req st azs, of "h_AZs ?h \<noteq> fmempty" p org] by blast
  have "(\<exists>row. snd (SetProjectQuota L azs db org p res) = Inr row) \<longleftrightarrow>
      checkProjectCoversAZs L ?h res = Inr () \<and> checkProjectFitsInOrganization L db org p q (h_Organization ?h) = Inr ()"
    using True save
    by (cases "checkProjectCoversAZs L ?h res"; cases "checkProjectFitsInOrganization L db org p q (h_Organization ?h)")
       (auto simp: SetProjectQuota_def req inProjectTransaction_def inOrganizationTransaction_def lockOrganization_def
        checkProject_def guardR_def Let_def)
  then show ?thesis
    using True project_covers_iff [OF L st okres(1), of org p "()"]
      project_fits_org_iff [OF st quota_invD(2) [OF inv] _ qty_strict_ok [OF req(2)], of org p "()"] okres(2)
    by simp
qed

end
