(* ===== verification/Quota_Properties.thy ===== *)
theory Quota_Properties
  imports Quota_Examples Quota_Exact
begin

text \<open>
  The properties of the quota system, from the tables of the API to the ResourceQuota of a zone. Each
  rests on the lemmas of the component theories; a witness applies it to the organization of
  \<open>Quota_Examples\<close>.
\<close>

section \<open>The hierarchy\<close>

text \<open>
  C1. In every state that the quota writes, the creations and the deletions reach, whatever they answer, children
  never hold more than their parent, as long as no requested value rounds up to the largest int64
  (\<open>strict_request\<close>; the sums of the code saturate there): the projects of an organization take no more of a resource than its
  quota (a project takes the larger of its own quota and what its zones hold), and the zones of a live project
  hold no more than its effective limit (its own value, or 0 where only the organization limits the
  resource). The sums are exact integers.
\<close>

theorem children_fit_in_parent:
  assumes "quantity_laws L" and "azs_ok azs" and "quota_reachable L azs H (db, w)"
  shows "(fmlookup (lv L (orgQ db org)) n = Some l \<longrightarrow> (\<Sum>p | liveProject db org p. alloc L db p n) \<le> l) \<and>
    (liveProject db org p \<and> proj_limit L db org p n = Some l \<longrightarrow> azSum L db p n \<le> l)"
  using quota_reachable_inv [OF assms] by (auto simp: quota_inv_def org_fits_def proj_fits_def)

theorem children_fit_in_parent_witness:
  "(\<Sum>p | liveProject demo_db ''o'' p. alloc decimal_lib demo_db p CPU) \<le> 9000 \<and>
   azSum decimal_lib demo_db ''p'' CPU \<le> 9000"
proof -
  have "fmlookup (lv decimal_lib (orgQ demo_db ''o'')) CPU = Some 9000"
    "liveProject demo_db ''o'' ''p''" "proj_limit decimal_lib demo_db ''o'' ''p'' CPU = Some 9000" by code_simp+
  with children_fit_in_parent [OF decimal_laws demo_azs_ok demo_reachable, of "''o''" CPU 9000 "''p''"]
  show ?thesis by blast
qed

text \<open>
  C2. In a reachable state, and for a request none of whose values rounds up to the largest int64, setting an
  organization quota succeeds exactly when the organization exists, the request is valid and no limit is below
  what the projects already take.
\<close>

theorem SetOrganizationQuota_accepts_what_fits:
  assumes "quantity_laws L" and "azs_ok azs" and "quota_reachable L azs H (db, w)" and "strict_request L res"
  shows "(\<exists>row. snd (SetOrganizationQuota L azs db org res) = Inr row) \<longleftrightarrow>
    fmlookup (organizations db) org = Some False \<and>
    (\<exists>q. Resources_Parse L res = Inr q \<and>
      (\<forall>n l. fmlookup q n = Some l \<longrightarrow> (\<Sum>p | liveProject db org p. alloc L db p n) \<le> l))"
  using SetOrganizationQuota_succeeds_iff [OF assms(1) _ assms(2) strict_requestD [OF assms(4)]]
    quota_reachable_inv [OF assms(1-3)] by simp

lemma demo0_levels: "projQ demo_db0 p = None" "azQ demo_db0 p c = None" "orgQ demo_db0 org = None"
  by (simp_all add: demo_db0_def CreateProject_def organization_Create_def empty_db_def level_defs)

lemma demo0_sums: "azSum L demo_db0 p n = 0" "alloc L demo_db0 p n = 0"
  by (simp_all add: alloc_def azSum_def azCodes_def demo0_levels)

theorem SetOrganizationQuota_accepts_what_fits_witness:
  "\<exists>row. snd (SetOrganizationQuota decimal_lib demo_azs demo_db0 ''o'' (demo_cpu ''9'')) = Inr row"
proof -
  have "fmlookup (organizations demo_db0) ''o'' = Some False" by code_simp
  moreover have "\<forall>n l. fmlookup demo_lim n = Some l \<longrightarrow> (\<Sum>p | liveProject demo_db0 ''o'' p. alloc decimal_lib demo_db0 p n) \<le> l"
    by (auto simp: demo0_sums demo_lim_def split: if_splits)
  ultimately show ?thesis
    using SetOrganizationQuota_accepts_what_fits [OF decimal_laws demo_azs_ok demo_reachable0 strict_demo(1)] demo_parse by blast
qed

text \<open>
  C3. In a reachable state, and for a valid request none of whose values rounds up to the largest int64, setting a
  project quota succeeds exactly when the organization and the project exist, the request covers what the zones of the project hold, and, for every resource the project takes more of than before,
  it fits beside the other projects in the organization quota.
\<close>

theorem SetProjectQuota_accepts_what_fits:
  assumes "quantity_laws L" and "azs_ok azs" and "quota_reachable L azs H (db, w)"
    and "Resources_Parse L res = Inr q" and "strict_request L res"
  shows "(\<exists>row. snd (SetProjectQuota L azs db org p res) = Inr row) \<longleftrightarrow>
    fmlookup (organizations db) org = Some False \<and> liveProject db org p \<and>
    (\<forall>n l. (case fmlookup q n of Some v \<Rightarrow> Some v
        | None \<Rightarrow> if fmlookup (lv L (orgQ db org)) n = None then None else Some 0) = Some l \<longrightarrow> azSum L db p n \<le> l) \<and>
    (\<forall>n l. fmlookup (lv L (orgQ db org)) n = Some l \<longrightarrow> alloc L db p n < qget q n \<longrightarrow>
       (\<Sum>p'\<in>{p'. liveProject db org p'} - {p}. alloc L db p' n) + qget q n \<le> l)"
  using SetProjectQuota_succeeds_iff [OF assms(1) _ assms(2,4) strict_requestD [OF assms(5,4)]]
    quota_reachable_inv [OF assms(1-3)] by simp

theorem SetProjectQuota_accepts_what_fits_witness:
  "\<exists>row. snd (SetProjectQuota decimal_lib demo_azs demo_db0 ''o'' ''p'' (demo_cpu ''9'')) = Inr row"
proof -
  have "fmlookup (organizations demo_db0) ''o'' = Some False" "liveProject demo_db0 ''o'' ''p''" by code_simp+
  moreover have "0 \<le> l" if "fmlookup demo_lim n = Some l" for n l
    using that by (simp add: demo_lim_def split: if_splits)
  ultimately show ?thesis
    using SetProjectQuota_accepts_what_fits [OF decimal_laws demo_azs_ok demo_reachable0 demo_parse strict_demo(1)]
    by (auto simp: demo0_levels demo0_sums split: option.splits)
qed

text \<open>
  C5. A revision is a faithful version of the effective quota: whenever a step changes the quota of a live
  project in a zone, the new quota carries a revision above every revision handed out before, or nothing is left
  of it and it is pushed with revision 0.
\<close>

theorem changed_quota_has_newer_revision:
  assumes "quantity_laws L" and "azs_ok azs" and "quota_reachable L azs H s" and "quota_step L azs H s s'"
    and "liveProject (fst s') org p" and "eff_quota (fst s') org p c \<noteq> eff_quota (fst s) org p c"
  shows "eff_rev (fst s') org p c = 0 \<and> eff_quota (fst s') org p c = fmempty \<or>
    eff_rev (fst s) org p c \<le> quota_revisions_seq (fst s) \<and> quota_revisions_seq (fst s) < eff_rev (fst s') org p c"
proof -
  note ok = quota_reachable_rev_ok [OF assms(1-3)]
  have "revisions_advance (fst s) (fst s')"
    by (rule quota_step_advance [OF assms(4) ok quota_invD(2) [OF quota_reachable_inv [OF assms(1-3)]]])
  from advance_eff [OF this assms(5,6)] eff_rev_le_seq [OF ok, of org p c] show ?thesis by blast
qed

theorem changed_quota_has_newer_revision_witness:
  "eff_rev demo_db ''o'' ''p'' ''az1'' = 0 \<and> eff_quota demo_db ''o'' ''p'' ''az1'' = fmempty \<or>
   eff_rev demo_db0 ''o'' ''p'' ''az1'' \<le> quota_revisions_seq demo_db0 \<and>
   quota_revisions_seq demo_db0 < eff_rev demo_db ''o'' ''p'' ''az1''"
proof -
  have "liveProject (fst (demo_db, demo_world)) ''o'' ''p''"
    "eff_quota (fst (demo_db, demo_world)) ''o'' ''p'' ''az1'' \<noteq> eff_quota (fst (demo_db0, demo_world)) ''o'' ''p'' ''az1''"
    by code_simp+
  from changed_quota_has_newer_revision [OF decimal_laws demo_azs_ok demo_reachable0
      quota_step.set_org [OF demo_set_org strict_demo(1)] this]
  show ?thesis by simp
qed


section \<open>The zones\<close>

text \<open>
  C6. Pushes of non-empty quotas that carry a revision may reach the controller of a zone in any order: once all
  of them have arrived, the zone enforces the limits of the newest revision. This is for a ResourceQuota that is
  not managed by GitOps (the controller skips every push to such a one), with no failing API call and no other
  writer meanwhile, when the controller refused none of the pushes it did not skip as older, and when the
  newest revision pushed is not older than the one the zone had before. (Empty quotas are deleted, and a quota
  that is lowered is first pushed with revision 0, which is never skipped: neither is one of these pushes.)
\<close>

theorem newest_push_wins:
  assumes "not_gitops (rq_of (default_retry C) st p)"
    and "accepted_run (\<lambda>st r hard. fst (quota_Apply (default_retry C) quiet st orgId p hard r))
      (\<lambda>st. storedRevision (rq_of (default_retry C) st p)) (\<lambda>st hard. accepts hard (rq_of (default_retry C) st p)) st pushes"
    and "(r, hard) \<in> set pushes" and "storedRevision (rq_of (default_retry C) st p) \<le> r"
    and "\<And>x. x \<in> set pushes \<Longrightarrow> fst x \<le> r" and "\<And>hard'. (r, hard') \<in> set pushes \<Longrightarrow> hard' = hard"
  shows "map_option rq_Hard (rq_of (default_retry C)
      (fold (\<lambda>x st. fst (quota_Apply (default_retry C) quiet st orgId p (snd x) (fst x))) pushes st) p) = Some hard"
  by (rule rs.newest_wins(1) [OF assms])

theorem newest_push_wins_witness:
  "map_option rq_Hard (rq_of (default_retry demo_ctrl)
      (fold (\<lambda>x st. fst (quota_Apply (default_retry demo_ctrl) quiet st ''o'' ''p'' (snd x) (fst x)))
        [(7, demo_cpus 3), (5, demo_cpus 8)] demo_cluster) ''p'') = Some (demo_cpus 3)"
proof -
  have g: "not_gitops (rq_of (default_retry demo_ctrl) demo_cluster ''p'')" by code_simp
  have run: "accepted_run (\<lambda>st r hard. fst (quota_Apply (default_retry demo_ctrl) quiet st ''o'' ''p'' hard r))
      (\<lambda>st. storedRevision (rq_of (default_retry demo_ctrl) st ''p''))
      (\<lambda>st hard. accepts hard (rq_of (default_retry demo_ctrl) st ''p'')) demo_cluster [(7, demo_cpus 3), (5, demo_cpus 8)]"
    by code_simp
  have le: "storedRevision (rq_of (default_retry demo_ctrl) demo_cluster ''p'') \<le> 7" by code_simp
  show ?thesis by (rule newest_push_wins [OF g run _ le]) auto
qed

text \<open>
  C7. Whatever other clients do to the cluster meanwhile, a push that the controller answers with success did one of
  two things at some attempt \<open>i\<close>. It left the cluster as it met it, where the ResourceQuota is managed by
  GitOps or carries a newer revision. Or it wrote the pushed limits over the cluster as it was at the write, and
  no limit that was lowered there is below what the ResourceQuota then says is used. (\<open>met E i\<close> is the
  cluster after the changes of the other clients up to attempt \<open>i\<close>.)
\<close>

theorem push_never_below_usage:
  assumes "quota_Apply C E st orgId p hard revision = (st', None)"
  shows "\<exists>i<c_steps C. let before = met E i (fst (CreateNamespaceIfNotExists C E st orgId p)); now = between E i before in
    (\<exists>rq. st' = before \<and> rq_of C before p = Some rq \<and> (IsGitops rq \<or> isStale rq revision)) \<or>
    (\<exists>rq. st' = now\<lparr>resource_quotas := fmupd (GetNamespace C p, GetName p) rq (resource_quotas now)\<rparr> \<and> rq_Hard rq = hard \<and>
      (\<forall>cur n l old used. rq_of C now p = Some cur \<longrightarrow> fmlookup hard n = Some l \<longrightarrow> fmlookup (rq_Hard cur) n = Some old \<longrightarrow>
         l < old \<longrightarrow> fmlookup (rq_Used cur) n = Some used \<longrightarrow> used \<le> l))"
proof -
  let ?m = "\<lambda>i. met E i (fst (CreateNamespaceIfNotExists C E st orgId p))"
  obtain i where i: "i < c_steps C" "quota_apply C E orgId p hard revision i (?m i) = (st', None)"
    by (rule quota_Apply_met [OF assms])
  from i(2) show ?thesis
  proof (cases rule: quota_apply_None)
    case skipped
    then have "\<exists>rq. st' = ?m i \<and> rq_of C (?m i) p = Some rq \<and> (IsGitops rq \<or> isStale rq revision)"
      by (auto simp: skips_def split: option.splits)
    with i(1) show ?thesis unfolding Let_def by blast
  next
    case written
    have "rq_Hard (applied C orgId p hard revision (rq_of C (?m i) p)) = hard"
      by (simp add: applied_def Let_def split: option.splits)
    moreover have "used \<le> l" if "rq_of C (between E i (?m i)) p = Some cur" "fmlookup hard n = Some l"
        "fmlookup (rq_Hard cur) n = Some old" "l < old" "fmlookup (rq_Used cur) n = Some used" for cur n l old used
    proof -
      have "rq_of C (?m i) p = Some cur" using written(3) that(1) by simp
      then have "CheckNotBelowUsage cur hard = Inr ()" using written(2) by (simp add: accepts_def)
      with that(2-5) show ?thesis unfolding CheckNotBelowUsage_iff by blast
    qed
    ultimately show ?thesis using i(1) written(4) unfolding Let_def by blast
  qed
qed

theorem push_never_below_usage_witness:
  "let st' = fst (quota_Apply demo_ctrl quiet demo_cluster ''o'' ''p'' (demo_cpus 3) 5) in
   \<exists>i<c_steps demo_ctrl. let before = met quiet i (fst (CreateNamespaceIfNotExists demo_ctrl quiet demo_cluster ''o'' ''p''));
        now = between quiet i before in
    (\<exists>rq. st' = before \<and> rq_of demo_ctrl before ''p'' = Some rq \<and> (IsGitops rq \<or> isStale rq 5)) \<or>
    (\<exists>rq. st' = now\<lparr>resource_quotas := fmupd (GetNamespace demo_ctrl ''p'', GetName ''p'') rq (resource_quotas now)\<rparr> \<and>
      rq_Hard rq = demo_cpus 3 \<and>
      (\<forall>cur n l old used. rq_of demo_ctrl now ''p'' = Some cur \<longrightarrow> fmlookup (demo_cpus 3) n = Some l \<longrightarrow>
         fmlookup (rq_Hard cur) n = Some old \<longrightarrow> l < old \<longrightarrow> fmlookup (rq_Used cur) n = Some used \<longrightarrow> used \<le> l))"
proof -
  have "snd (quota_Apply demo_ctrl quiet demo_cluster ''o'' ''p'' (demo_cpus 3) 5) = None" by code_simp
  then have "quota_Apply demo_ctrl quiet demo_cluster ''o'' ''p'' (demo_cpus 3) 5 =
      (fst (quota_Apply demo_ctrl quiet demo_cluster ''o'' ''p'' (demo_cpus 3) 5), None)"
    by (metis prod.collapse)
  from push_never_below_usage [OF this] show ?thesis unfolding Let_def .
qed

text \<open>
  C8. When the push of a project reports success, every zone it targets enforces the quota that is stored: its
  ResourceQuota holds exactly the limits of the effective quota (there is none when there is nothing to
  enforce), unless it is managed by GitOps or carries a newer revision.
\<close>

theorem successful_push_enforces:
  assumes "snd (snd (quotasync_Project C N (populateAZCodes azs) db w orgId p codes)) = None"
    and "az_GetByCode (populateAZCodes azs) code orgId = Some az" and "codes = [] \<or> code \<in> set codes"
  shows "enforces C (fst (snd (quotasync_Project C N (populateAZCodes azs) db w orgId p codes)) code) p
    (ToKubernetesQuota (eff_quota db orgId p code)) (eff_rev db orgId p code)"
proof -
  have "Code az = code"
    using assms(2) populateAZCodes_Code by (auto simp: az_GetByCode_def split: option.splits if_splits)
  moreover from this have "az \<in> set (az_FindAll (populateAZCodes azs) orgId)" using assms(2) az_FindAll_populate by simp
  ultimately show ?thesis
    using Project_enforces [of C N azs db w orgId p codes] assms(1,3) by (metis prod.collapse)
qed

theorem successful_push_enforces_witness:
  "enforces demo_ctrl (fst (snd (quotasync_Project demo_ctrl demo_net demo_azs demo_db demo_world ''o'' ''p'' [''az1''])) ''az1'') ''p''
    (ToKubernetesQuota (eff_quota demo_db ''o'' ''p'' ''az1'')) (eff_rev demo_db ''o'' ''p'' ''az1'')"
proof -
  have "snd (snd (quotasync_Project demo_ctrl demo_net demo_azs demo_db demo_world ''o'' ''p'' [''az1''])) = None" by code_simp
  moreover obtain az where "az_GetByCode demo_azs ''az1'' ''o'' = Some az"
  proof -
    have "az_GetByCode demo_azs ''az1'' ''o'' \<noteq> None" by code_simp
    then show thesis using that by blast
  qed
  ultimately show ?thesis
    unfolding demo_azs_def by (intro successful_push_enforces) simp_all
qed

text \<open>
  C9. After the initialisation of a new project, in every zone of the organization its quota is enforced, or there is
  nothing to enforce there, or the project is deactivated and every request on it is refused with 423; the one
  exception is a database that also refuses the deactivation, and then the initialisation reports an error.
\<close>

theorem new_project_limited_or_locked:
  assumes "az \<in> set (az_FindAll (populateAZCodes azs) orgId)" and "liveProject db orgId p"
  shows "let (db', w', err) = quotasync_Initialize C N (populateAZCodes azs) db w orgId p
    in enforces C (w' (Code az)) p (ToKubernetesQuota (eff_quota db orgId p (Code az))) (eff_rev db orgId p (Code az)) \<or>
       ToKubernetesQuota (eff_quota db orgId p (Code az)) = fmempty \<or>
       CheckProjectActive db' orgId p = Some 423 \<or>
       n_write_fails N \<and> err \<noteq> None"
proof -
  obtain db' w' err where run: "quotasync_Initialize C N (populateAZCodes azs) db w orgId p = (db', w', err)"
    by (rule prod_cases3)
  have live: "liveProject db' orgId p"
    using run assms(2)
    by (auto simp: quotasync_Initialize_def Let_def Deactivate_def liveProject_def split: prod.splits sum.splits option.splits if_splits)
  have "CheckProjectActive db' orgId p = Some 423"
    if *: "fmlookup (project_deactivations db') (p, DeactivationQuotaFailedToApply) \<noteq> None"
  proof -
    obtain msg where "((p, DeactivationQuotaFailedToApply), msg) \<in> set (gentries (project_deactivations db'))"
      using * by (auto simp: set_gentries)
    then have "filter (\<lambda>((p', _), _). p' = p) (gentries (project_deactivations db')) \<noteq> []"
      by (force simp: filter_empty_conv)
    then show ?thesis using live by (simp add: CheckProjectActive_def ListDeactivations_def)
  qed
  with Initialize_outcome [OF run assms(1)] run show ?thesis by auto
qed

theorem new_project_limited_or_locked_witness:
  "let (db', w', err) = quotasync_Initialize demo_ctrl (demo_net\<lparr>n_link := (\<lambda>_. Down)\<rparr>) demo_azs demo_db demo_world ''o'' ''p''
   in enforces demo_ctrl (w' ''az1'') ''p'' (ToKubernetesQuota (eff_quota demo_db ''o'' ''p'' ''az1'')) (eff_rev demo_db ''o'' ''p'' ''az1'') \<or>
      ToKubernetesQuota (eff_quota demo_db ''o'' ''p'' ''az1'') = fmempty \<or>
      CheckProjectActive db' ''o'' ''p'' = Some 423 \<or> False \<and> err \<noteq> None"
proof -
  have "\<lparr>Code = ''az1'', AuthSecret = [], ControllerUrl = [], Whitelist = []\<rparr> \<in> set (az_FindAll demo_azs ''o'')"
    "liveProject demo_db ''o'' ''p''" by code_simp+
  from new_project_limited_or_locked [OF this [unfolded demo_azs_def], of demo_ctrl "demo_net\<lparr>n_link := (\<lambda>_. Down)\<rparr>"]
  show ?thesis unfolding demo_azs_def by (simp add: demo_net_def)
qed

text \<open>
  C10. Capacity still in use in a zone is never given away: whatever the request that sets the quota of a zone is
  answered, if the tables afterwards lower a limit of the zone, then the zone already enforces the new quota (or
  its ResourceQuota is managed by GitOps).
\<close>

theorem lowered_quota_is_enforced_first:
  assumes "SetProjectAZQuota L azs (sync_hooks C N azs) db w org p code res = (db', w', answer)" and "azs_ok azs"
    and "loweredLimits L (eff_quota db org p code) (eff_quota db' org p code) = Inr lowered" and "lowered \<noteq> fmempty"
  shows "\<exists>rq. rq_of C (w' code) p = Some rq \<and>
    (IsGitops rq \<or> quota_Validate C (ToKubernetesQuota (eff_quota db' org p code)) = Some (rq_Hard rq))"
  by (rule lowered_enforced [OF assms])

theorem lowered_quota_is_enforced_first_witness:
  "\<exists>rq. rq_of demo_ctrl (fst (snd (SetProjectAZQuota decimal_lib demo_azs (sync_hooks demo_ctrl demo_net demo_azs) demo_db demo_world1
      ''o'' ''p'' ''az1'' (demo_cpu ''3''))) ''az1'') ''p'' = Some rq"
proof -
  note run = demo_lower [unfolded demo_hooks_def]
  have "loweredLimits decimal_lib (eff_quota demo_db ''o'' ''p'' ''az1'')
      (eff_quota (fst (upsertAZQuota demo_db ''p'' ''az1'' (demo_cpu ''3''))) ''o'' ''p'' ''az1'') = Inr demo_lim3"
    unfolding eff_quota_upsertAZ demo_lower_pieces unfolding eff_quota_def demo_lower_pieces ..
  from lowered_quota_is_enforced_first [OF run demo_azs_ok this demo_lower_pieces(10)]
  show ?thesis unfolding run by auto
qed

end
