(* ===== verification/Quota_Rules.thy ===== *)
theory Quota_Rules
  imports Quota_Properties
begin

text \<open>
  Further properties of the quota system: its arithmetic and its text forms, the names of resources,
  the overview of an organization, and what the handlers of the API answer.
\<close>

section \<open>Quantities\<close>

text \<open>
  Writing quantities and reading them back is the identity: for known resources whose values are
  below the int64 limit, the text form parses to the same values.
\<close>

theorem quantities_print_parse:
  "quantity_laws L \<and> qty_strict q \<and> (\<forall>n. fmlookup q n \<noteq> None \<longrightarrow> n \<in> {CPU, Memory, Disk}) \<longrightarrow>
     Resources_Parse L (Quantities_Resources L q) = Inr q"
proof (intro impI, elim conjE)
  assume "quantity_laws L" "qty_strict q" and n: "\<forall>n. fmlookup q n \<noteq> None \<longrightarrow> n \<in> {CPU, Memory, Disk}"
  moreover have "fmlookup translations_map n \<noteq> None" if "fmlookup q n \<noteq> None" for n
    using n that unfolding translations_map_lookup by auto
  ultimately show "Resources_Parse L (Quantities_Resources L q) = Inr q"
    using Parse_Resources by blast
qed

definition demo_quantities :: quantities where
  "demo_quantities = fmap_of_list [(CPU, 4500), (Disk, 10)]"

theorem quantities_print_parse_witness:
  "Resources_Parse decimal_lib (Quantities_Resources decimal_lib demo_quantities) = Inr demo_quantities"
proof -
  have "qty_strict demo_quantities" by code_simp
  moreover have "\<forall>n. fmlookup demo_quantities n \<noteq> None \<longrightarrow> n \<in> {CPU, Memory, Disk}"
    by (simp add: demo_quantities_def)
  ultimately show ?thesis using quantities_print_parse decimal_laws by blast
qed

text \<open>
  C4. The translation to the names of Kubernetes loses nothing: for every valid quota, reading back the limits of the
  ResourceQuota it is translated to (two keys for cpu and for memory, of which the higher counts, one for disk)
  gives exactly the quantities the quota stands for.
\<close>

theorem kubernetes_quota_roundtrip:
  "Resources_Parse L r = Inr q \<longrightarrow> FromKubernetesUsage L (ToKubernetesQuota r) = q"
  using FromKubernetes_ToKubernetes by blast

theorem kubernetes_quota_roundtrip_witness:
  "FromKubernetesUsage decimal_lib (ToKubernetesQuota (demo_cpu ''9'')) = demo_lim"
  using kubernetes_quota_roundtrip demo_parse by blast

text \<open>
  C27. Sums of quotas never wrap: adding any number of quotas whose values are in the int64 range gives,
  for every resource, the exact sum, or the largest int64 when the sum does not fit.
\<close>

theorem quota_sums_saturate:
  "(\<forall>q\<in>set qs. \<forall>n v. fmlookup q n = Some v \<longrightarrow> 0 \<le> v \<and> v \<le> MaxInt64) \<longrightarrow>
     qget (fold (\<lambda>q t. Quantities_Add t q) qs fmempty) n = min MaxInt64 (\<Sum>q\<leftarrow>qs. qget q n)"
  using fold_Add [OF qty_empty(1), of qs n] by (simp add: qty_ok_iff)

text \<open>
  The largest value is reached: a quantity less than one unit below the limit passes the comparison of
  \<^verbatim>\<open>parseQuantity\<close> and is then rounded up to the limit. The quota invariants exclude such requests.
\<close>

lemma rounded_value_is_the_limit:
  "parseQuantity decimal_lib CPU ''9223372036854775806500000n'' = Inr MaxInt64"
  by code_simp

definition demo_huge :: quantities where
  "demo_huge = fmap_of_list [(Disk, MaxInt64 - 1)]"

theorem quota_sums_saturate_witness:
  "qget (fold (\<lambda>q t. Quantities_Add t q) [demo_huge, demo_huge] fmempty) Disk = MaxInt64"
proof -
  have "\<forall>q\<in>set [demo_huge, demo_huge]. \<forall>n v. fmlookup q n = Some v \<longrightarrow> 0 \<le> v \<and> v \<le> MaxInt64"
    by (simp add: demo_huge_def MaxInt64_def)
  with quota_sums_saturate [of "[demo_huge, demo_huge]" Disk] show ?thesis
    by (simp add: demo_huge_def MaxInt64_def)
qed

text \<open>
  Splitting a quota among zones or projects hands out no more than there is, and leaves less than
  one unit per share: with \<open>c\<close> shares, \<open>c\<close> times the share is at most the quota and more than the
  quota less \<open>c\<close>.
\<close>

theorem split_hands_out_almost_all:
  "qty_ok q \<and> 0 < c \<longrightarrow>
     c * qget (SplitEqually q c) n \<le> qget q n \<and> qget q n < c * qget (SplitEqually q c) n + c"
proof (intro impI)
  assume a: "qty_ok q \<and> 0 < c"
  then have s: "qget (SplitEqually q c) n = qget q n div c" using qget_SplitEqually [of q c n] by simp
  have "qget q n = c * (qget q n div c) + qget q n mod c" "qget q n mod c < c" "0 \<le> qget q n mod c"
    using a by simp_all
  then show "c * qget (SplitEqually q c) n \<le> qget q n \<and> qget q n < c * qget (SplitEqually q c) n + c"
    unfolding s by linarith
qed

theorem split_hands_out_almost_all_witness:
  "2 * qget (SplitEqually demo_lim 2) CPU \<le> 9000 \<and> 9000 < 2 * qget (SplitEqually demo_lim 2) CPU + 2"
proof -
  have "qty_ok demo_lim" by code_simp
  with split_hands_out_almost_all [of demo_lim 2 CPU] show ?thesis by (simp add: demo_lim_def)
qed


section \<open>Names\<close>


text \<open>
  Metadata of a resource is generated exactly for an organization and a project that are UUIDs and
  a valid name, and then carries the given identifiers and the SHA-1 UUID of the name in the namespace
  of the project.
\<close>

theorem metadata_generated_iff_valid:
  "(snd (GenerateMetadata U m projectId orgId localID) = None \<longleftrightarrow>
      orgId \<noteq> [] \<and> isValidUUID U orgId \<and> projectId \<noteq> [] \<and> isValidUUID U projectId \<and> isValidName localID) \<and>
   (snd (GenerateMetadata U m projectId orgId localID) = None \<longrightarrow>
      fst (GenerateMetadata U m projectId orgId localID) =
        m\<lparr>OrgId := orgId, ProjectId := projectId, ResourceLocalId := localID,
          ResourceEffectiveId := NewSHA1 U (the (uuid_Parse U projectId)) localID\<rparr>)"
  using checkAndCompute_None [of U "m\<lparr>OrgId := orgId, ProjectId := projectId, ResourceLocalId := localID\<rparr>"]
    checkAndCompute_fields [of U "m\<lparr>OrgId := orgId, ProjectId := projectId, ResourceLocalId := localID\<rparr>"]
  by (simp add: GenerateMetadata_def)

definition blank_metadata :: spx_metadata where
  "blank_metadata = \<lparr>OrgId = [], ProjectId = [], ResourceEffectiveId = [], ResourceLocalId = []\<rparr>"

theorem metadata_generated_iff_valid_witness:
  "ResourceEffectiveId (fst (GenerateMetadata plain_uuid blank_metadata ''p'' ''o'' ''my-vm'')) = ''p/my-vm''"
proof -
  have "isValidName ''my-vm''" by code_simp
  moreover have "isValidUUID plain_uuid ''o''" "isValidUUID plain_uuid ''p''"
    "NewSHA1 plain_uuid (the (uuid_Parse plain_uuid ''p'')) ''my-vm'' = ''p/my-vm''"
    by (simp_all add: isValidUUID_def plain_uuid_def)
  ultimately show ?thesis
    using metadata_generated_iff_valid [of plain_uuid blank_metadata "''p''" "''o''" "''my-vm''"] by simp
qed


section \<open>Overviews\<close>

lemma overview_remaining:
  assumes L: "quantity_laws L" and inv: "quota_inv L db" and q: "orgQ db org = Some res" "res \<noteq> fmempty"
    and l: "fmlookup (lv L (Some res)) n = Some l"
  shows "\<exists>ov rem left. GetOrganizationQuotaOverview L db org = Inr ov \<and> oo_Remaining ov = Some rem \<and>
    Resources_Parse L rem = Inr left \<and> fmlookup left n = Some (l - (\<Sum>p | liveProject db org p. alloc L db p n))"
proof -
  note st = quota_invD(1) [OF inv]
  obtain A where A: "projectAllocations L db org = Inr (listProjectQuotas db org, A)" "allocations_of L db org A"
    using projectAllocations_spec [OF st quota_invD(2) [OF inv]] by blast
  from stored_okD(1) [OF st, of org] q(1) obtain lim where lim: "Resources_Parse L res = Inr lim" "qty_strict lim"
    by (auto simp: row_ok_def)
  with l have ln: "fmlookup lim n = Some l" by (simp add: lv_def parsed_def)
  note sum = sumAllocations_spec [OF st A(2)]
  have le: "(\<Sum>p | liveProject db org p. alloc L db p n) \<le> l"
    using quota_invD(3) [OF inv, of org] q(1) l by (simp add: org_fits_def)
  have sub: "fmlookup (Quantities_Sub lim (sumAllocations A)) n = Some (l - (\<Sum>p | liveProject db org p. alloc L db p n))"
    using Sub_bounds [OF qty_strict_ok [OF lim(2)] sum(1) ln] sum(2) [of n] le qty_strictD [OF lim(2) ln] by simp
  have "Resources_Parse L (Quantities_Resources L (Quantities_Sub lim (sumAllocations A))) =
      Inr (Quantities_Sub lim (sumAllocations A))"
  proof (rule Parse_Resources [OF L])
    show "qty_strict (Quantities_Sub lim (sumAllocations A))"
    proof (rule qty_strict_mono [OF lim(2)])
      fix m v assume v: "fmlookup (Quantities_Sub lim (sumAllocations A)) m = Some v"
      then obtain x where x: "fmlookup lim m = Some x" by (auto simp: Sub_lookup)
      from Sub_bounds [OF qty_strict_ok [OF lim(2)] sum(1) x] v qget_ok [OF sum(1), of m] x qty_strictD [OF lim(2) x]
      show "0 \<le> v \<and> v \<le> qget lim m" by auto
    qed
    fix m assume "fmlookup (Quantities_Sub lim (sumAllocations A)) m \<noteq> None"
    then show "fmlookup translations_map m \<noteq> None" using Parse_names [OF lim(1), of m] by (auto simp: Sub_lookup)
  qed
  moreover obtain row where "findOrganizationQuota db org = Some row" "Resources row = res"
    using q(1) by (auto simp: orgQ_def)
  ultimately show ?thesis
    using q(2) lim(1) sub by (simp add: GetOrganizationQuotaOverview_def A(1) Let_def)
qed

text \<open>
  The overview of an organization with a quota reports what is left of it: the remaining quantity
  of a limited resource is the limit less the exact sum of what the projects take.
\<close>

theorem overview_reports_what_is_left:
  "quantity_laws L \<and> quota_inv L db \<and> orgQ db org = Some res \<and> res \<noteq> fmempty \<and>
   fmlookup (lv L (Some res)) n = Some l \<longrightarrow>
     (\<exists>ov rem left. GetOrganizationQuotaOverview L db org = Inr ov \<and> oo_Remaining ov = Some rem \<and>
        Resources_Parse L rem = Inr left \<and> fmlookup left n = Some (l - (\<Sum>p | liveProject db org p. alloc L db p n)))"
  using overview_remaining by blast

theorem overview_reports_what_is_left_witness:
  "\<exists>ov rem left. GetOrganizationQuotaOverview decimal_lib demo_db ''o'' = Inr ov \<and> oo_Remaining ov = Some rem \<and>
     Resources_Parse decimal_lib rem = Inr left \<and>
     fmlookup left CPU = Some (9000 - (\<Sum>p | liveProject demo_db ''o'' p. alloc decimal_lib demo_db p CPU))"
proof -
  have "orgQ demo_db ''o'' = Some (demo_cpu ''9'')" "demo_cpu ''9'' \<noteq> fmempty"
    "fmlookup (lv decimal_lib (Some (demo_cpu ''9''))) CPU = Some 9000" by code_simp+
  with overview_reports_what_is_left [of decimal_lib demo_db "''o''" "demo_cpu ''9''" CPU 9000] decimal_laws demo_inv
  show ?thesis by blast
qed


section \<open>Handlers\<close>

text \<open>
  While the organization has a quota, the quota of one of its projects cannot be deleted: the request
  fails with a conflict and changes nothing.
\<close>

theorem project_quota_kept_while_organization_limited:
  "orgQ db org \<noteq> None \<and> fmlookup (organizations db) org = Some False \<and> liveProject db org p \<longrightarrow>
     DeleteProjectQuota db org p = (db, Inl ErrProjectQuotaEnforced) \<and> WriteError_status ErrProjectQuotaEnforced = 409"
  by (auto simp: DeleteProjectQuota_def inProjectTransaction_def inOrganizationTransaction_def orgQ_def
      checkProject_def lockOrganization_def guardR_def WriteError_status_def split: option.splits)

theorem project_quota_kept_while_organization_limited_witness:
  "DeleteProjectQuota demo_db ''o'' ''p'' = (demo_db, Inl ErrProjectQuotaEnforced)"
proof -
  have "orgQ demo_db ''o'' \<noteq> None" "fmlookup (organizations demo_db) ''o'' = Some False" "liveProject demo_db ''o'' ''p''"
    by code_simp+
  with project_quota_kept_while_organization_limited show ?thesis by blast
qed

lemma eff_Reactivate [simp]:
  "eff_quota (Reactivate db p r) = eff_quota db" "eff_rev (Reactivate db p r) = eff_rev db"
  by (simp_all add: fun_eq_iff eff_quota_def eff_rev_def loadHierarchy_def Reactivate_def findOrganizationQuota_def
      findProjectQuota_def nilWhenNotFound_def listAZQuotas_def)

lemma SetProjectQuota_failed: "SetProjectQuota L azs db org p res = (db', Inl e) \<Longrightarrow> db' = db"
  by (auto simp: SetProjectQuota_def inProjectTransaction_def inOrganizationTransaction_def
      split: sum.splits option.splits prod.splits if_splits)

lemma quotasync_Project_result:
  assumes "quotasync_Project C N azs db w org p codes = (db', w', r)"
  shows "r \<in> {None, Some ErrInternal, Some ErrNotApplied}"
    and "eff_quota db' = eff_quota db" "eff_rev db' = eff_rev db"
  using assms
  by (auto simp: quotasync_Project_def sync_apply_def GetHierarchy_def split: if_splits sum.splits prod.splits)

text \<open>
  The answer of the handler that sets a project's quota tells what has happened: after 200 every
  zone of the organization enforces the quota that is now stored, and after any other answer below 500
  neither the tables nor a zone has changed.
\<close>

theorem set_project_quota_answer:
  "DecodeResources r = Inr req \<and> handle_SetProjectQuota C N (populateAZCodes azs) db w r = (db', w', status) \<longrightarrow>
     (status = 200 \<longrightarrow> (\<exists>org p. parseOrgAndProject C r = Some (org, p) \<and>
        (\<forall>az\<in>set (az_FindAll (populateAZCodes azs) org).
           enforces C (w' (Code az)) p (ToKubernetesQuota (eff_quota db' org p (Code az))) (eff_rev db' org p (Code az))))) \<and>
     (status \<noteq> 200 \<and> status < 500 \<longrightarrow> db' = db \<and> w' = w)"
proof (intro impI)
  assume a: "DecodeResources r = Inr req \<and> handle_SetProjectQuota C N (populateAZCodes azs) db w r = (db', w', status)"
  show "(status = 200 \<longrightarrow> (\<exists>org p. parseOrgAndProject C r = Some (org, p) \<and>
        (\<forall>az\<in>set (az_FindAll (populateAZCodes azs) org).
           enforces C (w' (Code az)) p (ToKubernetesQuota (eff_quota db' org p (Code az))) (eff_rev db' org p (Code az))))) \<and>
     (status \<noteq> 200 \<and> status < 500 \<longrightarrow> db' = db \<and> w' = w)"
  proof (cases "parseOrgAndProject C r")
    case None
    with a show ?thesis by (simp add: handle_SetProjectQuota_def)
  next
    case (Some ids)
    obtain org p where ids: "ids = (org, p)" by (rule prod.exhaust)
    obtain db1 r1 where s: "SetProjectQuota (c_quantity C) (populateAZCodes azs) db org p req = (db1, r1)" by (rule prod.exhaust)
    show ?thesis
    proof (cases r1)
      case (Inl e)
      with a Some ids s SetProjectQuota_failed [of "c_quantity C" "populateAZCodes azs" db org p req db1 e] show ?thesis
        by (auto simp: handle_SetProjectQuota_def WriteError_status_def split: quota_error.splits)
    next
      case (Inr row)
      obtain db2 w2 e where q: "quotasync_Project C N (populateAZCodes azs) db1 w org p [] = (db2, w2, e)"
        by (metis prod.exhaust)
      from quotasync_Project_result [OF q] Project_enforces [of C N azs db1 w org p "[]" db2 w2] q a Some ids s Inr
      show ?thesis
        by (cases e) (auto simp: handle_SetProjectQuota_def WriteError_status_def)
    qed
  qed
qed

definition demo_request :: "string \<Rightarrow> quota_request" where
  "demo_request v = \<lparr>q_orgaId = ''o'', q_projectId = ''p'', q_codeAZ = [], q_body = Inr (Some (demo_cpu v))\<rparr>"

theorem set_project_quota_answer_witness:
  "fst (handle_SetProjectQuota demo_ctrl demo_net demo_azs demo_db demo_world (demo_request ''x'')) = demo_db"
proof -
  obtain db' w' status where run: "handle_SetProjectQuota demo_ctrl demo_net demo_azs demo_db demo_world (demo_request ''x'') = (db', w', status)"
    by (metis prod.exhaust)
  have "Resources_Parse decimal_lib (demo_cpu ''x'') = Inl ErrInvalidResources" by code_simp
  then have "status = 400"
    using run
    by (auto simp: handle_SetProjectQuota_def demo_request_def parseOrgAndProject_def ParseID_def demo_ctrl_def plain_uuid_def
        DecodeResources_def SetProjectQuota_def WriteError_status_def)
  moreover have "DecodeResources (demo_request ''x'') = Inr (demo_cpu ''x'')"
    by (simp add: DecodeResources_def demo_request_def)
  ultimately show ?thesis
    using set_project_quota_answer [of "demo_request ''x''" "demo_cpu ''x''" demo_ctrl demo_net _ demo_db demo_world db' w' status] run
    unfolding demo_azs_def by simp
qed

end
