(* ===== verification/Op_Types.thy ===== *)
theory Op_Types
  imports Prelude
begin

text \<open>
  The data of the operator that manages the Superphenix clusters
  (\<^verbatim>\<open>api/operator/v1alpha1/cluster_types.go\<close> and the parts of the ArgoCD objects that
  \<^verbatim>\<open>internal/superphenix-operator\<close> reads and writes), and what its code uses of the Go library on
  strings and errors.

  \<^item> A Go error is its text and what \<^verbatim>\<open>errors.Is\<close> and \<^verbatim>\<open>errors.As\<close> find in its chain.
    Wrapping an error with \<^verbatim>\<open>%w\<close> changes the text and keeps the chain. The text matters: the
    operator classifies errors by it. A Go panic is an error of kind \<open>KPanic\<close>, which no code of the
    operator handles: the controller runtime makes it the error of the reconciliation.
  \<^item> An ArgoCD Application is an unstructured object. The model keeps the fields the code reads or
    writes; a field is \<open>None\<close> when it is missing or of another type, the cases in which
    \<^verbatim>\<open>unstructured.NestedString\<close> gives the empty string. A time field is \<open>None\<close> also when its
    text is no RFC 3339 time.
  \<^item> A time is a number of nanoseconds since the zero time of Go, so \<^verbatim>\<open>IsZero\<close> is \<open>t = 0\<close>.
\<close>

section \<open>Strings\<close>

fun has_prefix :: "string \<Rightarrow> string \<Rightarrow> bool" where
  "has_prefix [] s = True"
| "has_prefix (p # ps) [] = False"
| "has_prefix (p # ps) (c # cs) = (p = c \<and> has_prefix ps cs)"

fun str_contains :: "string \<Rightarrow> string \<Rightarrow> bool" where
  "str_contains [] p = has_prefix p []"
| "str_contains (c # cs) p = (has_prefix p (c # cs) \<or> str_contains cs p)"

definition is_space :: "char \<Rightarrow> bool" where
  "is_space c \<longleftrightarrow> c \<in> {CHR '' '', CHR 0x09, CHR 0x0A, CHR 0x0B, CHR 0x0C, CHR 0x0D}"

definition TrimSpace :: "string \<Rightarrow> string" where
  "TrimSpace s = rev (dropWhile is_space (rev (dropWhile is_space s)))"

text \<open>
  \<^verbatim>\<open>%q\<close> of a text: the text in quotes. The escapes of \<^verbatim>\<open>%q\<close> for control characters are
  those of the Go library for ASCII.
\<close>

definition hex_char :: "nat \<Rightarrow> char" where
  "hex_char n = (if n < 10 then char_of (48 + n) else char_of (87 + n))"

definition quote_char :: "char \<Rightarrow> string" where
  "quote_char c =
     (let n = of_char c :: nat
      in if n = 34 \<or> n = 92 then [char_of (92::nat), c]
         else if n = 7 then [char_of (92::nat), CHR ''a''] else if n = 8 then [char_of (92::nat), CHR ''b'']
         else if n = 9 then [char_of (92::nat), CHR ''t''] else if n = 10 then [char_of (92::nat), CHR ''n'']
         else if n = 11 then [char_of (92::nat), CHR ''v''] else if n = 12 then [char_of (92::nat), CHR ''f'']
         else if n = 13 then [char_of (92::nat), CHR ''r'']
         else if n < 32 \<or> n = 127 then [char_of (92::nat), CHR ''x'', hex_char (n div 16), hex_char (n mod 16)]
         else [c])"

definition fmt_q :: "string \<Rightarrow> string" where
  "fmt_q s = [char_of (34::nat)] @ concat (map quote_char s) @ [char_of (34::nat)]"

lemma has_prefix_iff: "has_prefix p s \<longleftrightarrow> (\<exists>t. s = p @ t)"
  by (induction p s rule: has_prefix.induct) auto

lemma str_contains_iff: "str_contains s p \<longleftrightarrow> (\<exists>a b. s = a @ p @ b)"
proof (induction s)
  case Nil
  then show ?case by (auto simp: has_prefix_iff)
next
  case (Cons c cs)
  show ?case
  proof
    assume "str_contains (c # cs) p"
    then show "\<exists>a b. c # cs = a @ p @ b"
      using Cons.IH by (auto simp: has_prefix_iff) (metis append_Cons append_Nil)+
  next
    assume "\<exists>a b. c # cs = a @ p @ b"
    then obtain a b where ab: "c # cs = a @ p @ b" by blast
    show "str_contains (c # cs) p"
    proof (cases a)
      case Nil
      with ab have "has_prefix p (c # cs)" by (auto simp: has_prefix_iff)
      then show ?thesis by simp
    next
      case (Cons d a')
      with ab show ?thesis using Cons.IH by auto
    qed
  qed
qed

lemma str_contains_appendI [simp]:
  "str_contains s p \<Longrightarrow> str_contains (t @ s) p"
  "str_contains s p \<Longrightarrow> str_contains (s @ t) p"
  by (metis append_assoc str_contains_iff)+

lemma str_contains_refl [simp]: "str_contains p p"
  by (metis append_Nil append_Nil2 str_contains_iff)


section \<open>Errors\<close>

datatype err_kind = KNone | KNotFound | KNoMatch | KConfig | KInvalidSecret | KPanic
  | KBadRequest | KExists | KUnknownSubnet | KTooManySubnets

record go_error =
  err_msg :: string
  err_kind :: err_kind

definition Errorf :: "string \<Rightarrow> go_error" where
  "Errorf s = \<lparr>err_msg = s, err_kind = KNone\<rparr>"

definition ErrorfW :: "string \<Rightarrow> go_error \<Rightarrow> go_error" where
  "ErrorfW s e = e\<lparr>err_msg := s @ err_msg e\<rparr>"

definition IsNotFound :: "go_error \<Rightarrow> bool" where
  "IsNotFound e \<longleftrightarrow> err_kind e = KNotFound"

definition IsNoMatchError :: "go_error \<Rightarrow> bool" where
  "IsNoMatchError e \<longleftrightarrow> err_kind e = KNoMatch"

definition errConfig :: "string \<Rightarrow> go_error" where
  "errConfig s = \<lparr>err_msg = ''configuration error: '' @ s, err_kind = KConfig\<rparr>"

definition errInvalidSecret :: "string \<Rightarrow> go_error" where
  "errInvalidSecret s = \<lparr>err_msg = ''invalid secret: '' @ s, err_kind = KInvalidSecret\<rparr>"

definition panic :: "string \<Rightarrow> go_error" where
  "panic s = \<lparr>err_msg = s, err_kind = KPanic\<rparr>"

lemma ErrorfW_simps [simp]:
  "err_msg (ErrorfW s e) = s @ err_msg e" "err_kind (ErrorfW s e) = err_kind e"
  "IsNotFound (ErrorfW s e) = IsNotFound e"
  by (simp_all add: ErrorfW_def IsNotFound_def)

lemma Errorf_simps [simp]:
  "err_msg (Errorf s) = s" "err_kind (Errorf s) = KNone" "\<not> IsNotFound (Errorf s)"
  by (simp_all add: Errorf_def IsNotFound_def)


section \<open>ArgoCD Applications\<close>

type_synonym time = int
type_synonym labels = "(string, string) fmap"

datatype json = JString string | JInt int | JBool bool | JNull | JList "json list" | JObject "(string, json) fmap"

record app_spec =
  as_project :: string
  as_repoURL :: string
  as_chart :: string
  as_targetRevision :: "string option"
  as_values :: "(string, json) fmap"
  as_destination :: "string \<times> string"
  as_autoEnabled :: "bool option"
  as_prune :: bool
  as_selfHeal :: bool
  as_syncOptions :: "string list"
  as_retry :: "(int \<times> string \<times> int \<times> string) option"

record argo_app =
  app_name :: string
  app_labels :: labels
  app_owner :: "string option"
  app_finalizers :: "string list"
  app_spec :: "app_spec option"
  app_sources :: "string option option list"
  app_health :: "string option"
  app_sync :: "string option"
  app_phase :: "string option"
  app_startedAt :: "time option"
  app_finishedAt :: "time option"
  app_reconciledAt :: "time option"
  app_operation :: bool

definition str_of :: "string option \<Rightarrow> string" where
  "str_of s = (case s of None \<Rightarrow> [] | Some t \<Rightarrow> t)"

lemma str_of_simps [simp]: "str_of None = []" "str_of (Some t) = t"
  by (simp_all add: str_of_def)

text \<open>
  What a reconciler reads through its client during one call: the Application of a name and the
  Applications that carry a cluster's label, or the error of the call.
\<close>

record app_reader =
  rd_get :: "string \<Rightarrow> go_error + argo_app"
  rd_list :: "string \<Rightarrow> go_error + argo_app list"


section \<open>Clusters\<close>

datatype connection_mode = ConnectionModeRemote | ConnectionModeLocal

datatype topology = TopologyEmpty | DeploymentTopologyHyperconverged | DeploymentTopologyDecoupled

datatype cluster_type = ClusterTypeStorage | ClusterTypeWorkload | ClusterTypeManagement

datatype talos_mode = TalosManagementUnmanaged | TalosManagementImport | TalosManagementFull

record secret_ref =
  sr_name :: string
  sr_namespace :: string

record connection_spec =
  cs_mode :: connection_mode
  cs_url :: string
  cs_secretRef :: "secret_ref option"

record lifecycle_spec =
  lc_pause :: bool
  lc_manual :: bool
  lc_cleanupOnDeletion :: bool

record system_location =
  sl_repoURL :: string
  sl_chartName :: string

record cluster_spec =
  sp_topology :: topology
  sp_type :: "cluster_type option"
  sp_talosMode :: talos_mode
  sp_talosConfig :: "string option"
  sp_region :: string
  sp_availabilityZone :: string
  sp_systemConfiguration :: "string option"
  sp_systemLocation :: "system_location option"
  sp_version :: string
  sp_connection :: "connection_spec option"
  sp_lifecycle :: "lifecycle_spec option"

record condition =
  c_type :: string
  c_status :: string
  c_reason :: string
  c_message :: string
  c_generation :: int
  c_transition :: time

record cluster_app =
  ca_name :: string
  ca_status :: string
  ca_version :: string
  ca_lastRefresh :: "time option"
  ca_lastSync :: "time option"

record cluster_status =
  st_phase :: string
  st_superphenixVersion :: string
  st_kubernetesVersion :: string
  st_nodeCount :: int
  st_apps :: "(string, cluster_app) fmap"
  st_cephClusters :: "(string, string) fmap option"
  st_conditions :: "condition list"
  st_observedGeneration :: int
  st_lastSync :: "time option"
  st_pxeSetupDone :: "string list option"

record spx_cluster =
  cl_name :: string
  cl_namespace :: string
  cl_generation :: int
  cl_deleting :: bool
  cl_finalizers :: "string list"
  cl_spec :: cluster_spec
  cl_status :: cluster_status

definition paused :: "spx_cluster \<Rightarrow> bool" where
  "paused cl \<longleftrightarrow> (case sp_lifecycle (cl_spec cl) of None \<Rightarrow> False | Some l \<Rightarrow> lc_pause l)"

definition manual :: "spx_cluster \<Rightarrow> bool" where
  "manual cl \<longleftrightarrow> (case sp_lifecycle (cl_spec cl) of None \<Rightarrow> False | Some l \<Rightarrow> lc_manual l)"

definition cleanupOnDeletion :: "spx_cluster \<Rightarrow> bool" where
  "cleanupOnDeletion cl \<longleftrightarrow>
     (case sp_lifecycle (cl_spec cl) of None \<Rightarrow> False | Some l \<Rightarrow> lc_cleanupOnDeletion l)"

end
