(* ===== verification/Op_Version.thy ===== *)
theory Op_Version
  imports Op_Types
begin

text \<open>
  Versions and upgrades (\<^verbatim>\<open>internal/superphenix-operator/version/compatibility.go\<close>) and the
  validation of a cluster that rests on them (\<^verbatim>\<open>internal/superphenix-operator/cluster/validation.go\<close>).
  The semantic-version library is a parameter; the supported range is a value the build sets.
\<close>

record ('v, 'c) semver_lib =
  NewVersion :: "string \<Rightarrow> go_error + 'v"
  NewConstraint :: "string \<Rightarrow> go_error + 'c"
  Check :: "'c \<Rightarrow> 'v \<Rightarrow> bool"

record version_cfg =
  MinOperatorVersion :: string
  MinClusterVersion :: string
  MaxClusterVersion :: string

definition version_defaults :: version_cfg where
  "version_defaults = \<lparr>MinOperatorVersion = ''0.0.0'', MinClusterVersion = ''0.0.0'',
     MaxClusterVersion = ''999.999.999''\<rparr>"

definition ManagementAppName :: string where
  "ManagementAppName = ''management''"


section \<open>Supported versions\<close>

definition checkConstraint :: "('v, 'c) semver_lib \<Rightarrow> string \<Rightarrow> string \<Rightarrow> go_error + bool" where
  "checkConstraint L versionString constraintString =
     (case NewVersion L versionString of
        Inl err \<Rightarrow> Inl (ErrorfW (''invalid version '' @ fmt_q versionString @ '': '') err)
      | Inr v \<Rightarrow>
          (case NewConstraint L constraintString of
             Inl err \<Rightarrow> Inl (ErrorfW (''invalid constraint '' @ fmt_q constraintString @ '': '') err)
           | Inr constraint \<Rightarrow> Inr (Check L constraint v)))"

definition IsOperatorUpgradeSupported ::
  "('v, 'c) semver_lib \<Rightarrow> version_cfg \<Rightarrow> string \<Rightarrow> string \<Rightarrow> go_error option" where
  "IsOperatorUpgradeSupported L V current target =
     (if current = [] \<or> current = ''0.0.0'' \<or> target = ''0.0.0'' then None
      else let constraint = ''>= '' @ MinOperatorVersion V;
               pre = ''management upgrade from '' @ current @ '' to '' @ target @ '' is not supported''
           in case checkConstraint L current constraint of
                Inl err \<Rightarrow> Some (ErrorfW (pre @ '': '') err)
              | Inr ok \<Rightarrow> if \<not> ok then Some (Errorf (pre @ '' (must satisfy: '' @ constraint @ '')'')) else None)"

definition clusterRange :: "version_cfg \<Rightarrow> string" where
  "clusterRange V = ''>= '' @ MinClusterVersion V @ '', < '' @ MaxClusterVersion V"

definition IsClusterUpgradeSupported ::
  "('v, 'c) semver_lib \<Rightarrow> version_cfg \<Rightarrow> string \<Rightarrow> string \<Rightarrow> go_error option" where
  "IsClusterUpgradeSupported L V current target =
     (if current = [] \<or> target = [] \<or> current = target then None
      else if current = ''0.0.0'' \<or> target = ''0.0.0'' then None
      else let constraint = clusterRange V;
               pre = ''cluster upgrade from '' @ current @ '' to '' @ target @ '' is not supported: ''
           in case checkConstraint L current constraint of
                Inl err \<Rightarrow> Some (ErrorfW pre err)
              | Inr ok \<Rightarrow>
                  if \<not> ok then Some (Errorf (pre @ ''current version '' @ current @
                                  '' is outside supported range ('' @ constraint @ '')''))
                  else case checkConstraint L target constraint of
                         Inl err \<Rightarrow> Some (ErrorfW pre err)
                       | Inr ok \<Rightarrow>
                           if \<not> ok then Some (Errorf (pre @ ''target version '' @ target @
                                  '' is outside supported range ('' @ constraint @ '')''))
                           else None)"

definition IsClusterCompatibleWithOperator ::
  "('v, 'c) semver_lib \<Rightarrow> version_cfg \<Rightarrow> string \<Rightarrow> string \<Rightarrow> go_error option" where
  "IsClusterCompatibleWithOperator L V clusterVersion managementVersion =
     (if managementVersion = [] \<or> managementVersion = ''0.0.0'' \<or> clusterVersion = [] \<or> clusterVersion = ''0.0.0''
      then None
      else let constraint = clusterRange V
           in case checkConstraint L clusterVersion constraint of
                Inl err \<Rightarrow> Some (ErrorfW ''cluster compatibility check failed: '' err)
              | Inr ok \<Rightarrow>
                  if \<not> ok then Some (Errorf (''cluster version '' @ clusterVersion @
                       '' is not supported by management version '' @ managementVersion @
                       '' (required: '' @ constraint @ '')''))
                  else None)"

definition GetApplicationVersion :: "app_reader \<Rightarrow> string \<Rightarrow> go_error + string" where
  "GetApplicationVersion rd name =
     (case rd_get rd name of
        Inl err \<Rightarrow> if IsNotFound err \<or> IsNoMatchError err then Inr [] else Inl err
      | Inr app \<Rightarrow>
          (case app_spec app of
             None \<Rightarrow> Inr []
           | Some spec \<Rightarrow> (case as_targetRevision spec of None \<Rightarrow> Inr [] | Some v \<Rightarrow> Inr v)))"

definition GetCurrentManagementVersion :: "app_reader \<Rightarrow> go_error + string" where
  "GetCurrentManagementVersion rd = GetApplicationVersion rd ManagementAppName"

definition GetCurrentClusterVersion :: "app_reader \<Rightarrow> string \<Rightarrow> go_error + string" where
  "GetCurrentClusterVersion rd clusterName = GetApplicationVersion rd clusterName"


section \<open>Validation of a cluster\<close>

definition validateTopology :: "spx_cluster \<Rightarrow> go_error option" where
  "validateTopology cl =
     (case sp_topology (cl_spec cl) of
        TopologyEmpty \<Rightarrow>
          if sp_type (cl_spec cl) \<noteq> Some ClusterTypeManagement
          then Some (Errorf ''cluster type must be Management when topology is empty'') else None
      | DeploymentTopologyDecoupled \<Rightarrow>
          if sp_type (cl_spec cl) \<noteq> Some ClusterTypeStorage \<and> sp_type (cl_spec cl) \<noteq> Some ClusterTypeWorkload
          then Some (Errorf ''cluster type must be Storage or Workload when topology is Decoupled'') else None
      | DeploymentTopologyHyperconverged \<Rightarrow> None)"

definition validateManagementCompatibility ::
  "('v, 'c) semver_lib \<Rightarrow> version_cfg \<Rightarrow> app_reader \<Rightarrow> spx_cluster \<Rightarrow> go_error option" where
  "validateManagementCompatibility L V rd cl =
     (if sp_type (cl_spec cl) = Some ClusterTypeManagement then None
      else case GetCurrentManagementVersion rd of
             Inl err \<Rightarrow> Some (ErrorfW ''failed to get management version: '' err)
           | Inr mgmtVersion \<Rightarrow>
               if mgmtVersion = [] then None
               else IsClusterCompatibleWithOperator L V (sp_version (cl_spec cl)) mgmtVersion)"

definition validateUpgradePath ::
  "('v, 'c) semver_lib \<Rightarrow> version_cfg \<Rightarrow> app_reader \<Rightarrow> spx_cluster \<Rightarrow> go_error option" where
  "validateUpgradePath L V rd cl =
     (case GetCurrentClusterVersion rd (cl_name cl) of
        Inl err \<Rightarrow> Some (ErrorfW ''failed to get current cluster version: '' err)
      | Inr currentVersion \<Rightarrow>
          if sp_type (cl_spec cl) = Some ClusterTypeManagement
          then IsOperatorUpgradeSupported L V currentVersion (sp_version (cl_spec cl))
          else IsClusterUpgradeSupported L V currentVersion (sp_version (cl_spec cl)))"

definition validate ::
  "('v, 'c) semver_lib \<Rightarrow> version_cfg \<Rightarrow> bool \<Rightarrow> app_reader \<Rightarrow> spx_cluster \<Rightarrow> go_error option" where
  "validate L V DisableVersionValidation rd cl =
     (case validateTopology cl of
        Some err \<Rightarrow> Some err
      | None \<Rightarrow>
          if DisableVersionValidation then None
          else case validateManagementCompatibility L V rd cl of
                 Some err \<Rightarrow> Some err
               | None \<Rightarrow> validateUpgradePath L V rd cl)"


section \<open>What validation accepts\<close>

text \<open>
  What the operator relies on of the semantic-version library: the two constraints it writes parse,
  and a version satisfies them when it is not a pre-release (the library refuses a pre-release where the bound
  of the constraint is not one itself), lies at or above the first bound, and below the second one. The
  bounds of the operator are releases.
\<close>

definition semver_laws ::
  "('v, 'c) semver_lib \<Rightarrow> version_cfg \<Rightarrow> ('v \<Rightarrow> bool) \<Rightarrow> ('v \<Rightarrow> 'v \<Rightarrow> bool) \<Rightarrow> bool" where
  "semver_laws L V pre before \<longleftrightarrow>
     (\<exists>c lo hi. NewConstraint L (clusterRange V) = Inr c \<and> NewVersion L (MinClusterVersion V) = Inr lo \<and>
        NewVersion L (MaxClusterVersion V) = Inr hi \<and> (\<forall>v. Check L c v \<longleftrightarrow> \<not> pre v \<and> \<not> before v lo \<and> before v hi)) \<and>
     (\<exists>c lo. NewConstraint L (''>= '' @ MinOperatorVersion V) = Inr c \<and>
        NewVersion L (MinOperatorVersion V) = Inr lo \<and> (\<forall>v. Check L c v \<longleftrightarrow> \<not> pre v \<and> \<not> before v lo))"

definition version_at_least ::
  "('v, 'c) semver_lib \<Rightarrow> ('v \<Rightarrow> bool) \<Rightarrow> ('v \<Rightarrow> 'v \<Rightarrow> bool) \<Rightarrow> string \<Rightarrow> string \<Rightarrow> bool" where
  "version_at_least L pre before lo s =
     (case (NewVersion L s, NewVersion L lo) of (Inr v, Inr l) \<Rightarrow> \<not> pre v \<and> \<not> before v l | _ \<Rightarrow> False)"

definition version_below :: "('v, 'c) semver_lib \<Rightarrow> ('v \<Rightarrow> 'v \<Rightarrow> bool) \<Rightarrow> string \<Rightarrow> string \<Rightarrow> bool" where
  "version_below L before hi s =
     (case (NewVersion L s, NewVersion L hi) of (Inr v, Inr h) \<Rightarrow> before v h | _ \<Rightarrow> False)"

definition in_range ::
  "('v, 'c) semver_lib \<Rightarrow> version_cfg \<Rightarrow> ('v \<Rightarrow> bool) \<Rightarrow> ('v \<Rightarrow> 'v \<Rightarrow> bool) \<Rightarrow> string \<Rightarrow> bool" where
  "in_range L V pre before s \<longleftrightarrow> version_at_least L pre before (MinClusterVersion V) s \<and> version_below L before (MaxClusterVersion V) s"

lemma checkConstraint_range:
  "semver_laws L V pre before \<Longrightarrow> checkConstraint L s (clusterRange V) = Inr True \<longleftrightarrow> in_range L V pre before s"
  by (auto simp: semver_laws_def checkConstraint_def in_range_def version_at_least_def version_below_def
      split: sum.splits)

lemma checkConstraint_floor:
  "semver_laws L V pre before \<Longrightarrow> checkConstraint L s (''>= '' @ MinOperatorVersion V) = Inr True
     \<longleftrightarrow> version_at_least L pre before (MinOperatorVersion V) s"
  by (auto simp: semver_laws_def checkConstraint_def version_at_least_def split: sum.splits)

lemma IsClusterUpgradeSupported_iff:
  assumes "semver_laws L V pre before"
  shows "IsClusterUpgradeSupported L V current target = None \<longleftrightarrow>
     current = [] \<or> target = [] \<or> current = target \<or> current = ''0.0.0'' \<or> target = ''0.0.0'' \<or>
     (in_range L V pre before current \<and> in_range L V pre before target)"
  by (auto simp: IsClusterUpgradeSupported_def Let_def simp flip: checkConstraint_range [OF assms]
      split: sum.splits)

lemma IsClusterCompatibleWithOperator_iff:
  assumes "semver_laws L V pre before"
  shows "IsClusterCompatibleWithOperator L V cv mv = None \<longleftrightarrow>
     mv = [] \<or> mv = ''0.0.0'' \<or> cv = [] \<or> cv = ''0.0.0'' \<or> in_range L V pre before cv"
  by (auto simp: IsClusterCompatibleWithOperator_def Let_def simp flip: checkConstraint_range [OF assms]
      split: sum.splits)

lemma IsOperatorUpgradeSupported_iff:
  assumes "semver_laws L V pre before"
  shows "IsOperatorUpgradeSupported L V current target = None \<longleftrightarrow>
     current = [] \<or> current = ''0.0.0'' \<or> target = ''0.0.0'' \<or>
     version_at_least L pre before (MinOperatorVersion V) current"
  by (auto simp: IsOperatorUpgradeSupported_def Let_def simp flip: checkConstraint_floor [OF assms]
      split: sum.splits)

text \<open>What a change of version has to satisfy, for a workload or storage cluster.\<close>

lemma validate_cluster_iff:
  assumes laws: "semver_laws (L :: ('v, 'c) semver_lib) V pre before"
    and type: "sp_type (cl_spec cl) \<noteq> Some ClusterTypeManagement"
    and mgmt: "GetCurrentManagementVersion rd = Inr mv" and cur: "GetCurrentClusterVersion rd (cl_name cl) = Inr current"
  shows "validate L V False rd cl = None \<longleftrightarrow>
    validateTopology cl = None \<and>
    (mv = [] \<or> mv = ''0.0.0'' \<or> sp_version (cl_spec cl) = [] \<or> sp_version (cl_spec cl) = ''0.0.0'' \<or>
       in_range L V pre before (sp_version (cl_spec cl))) \<and>
    (current = [] \<or> sp_version (cl_spec cl) = [] \<or> current = sp_version (cl_spec cl) \<or> current = ''0.0.0'' \<or>
       sp_version (cl_spec cl) = ''0.0.0'' \<or>
       (in_range L V pre before current \<and> in_range L V pre before (sp_version (cl_spec cl))))"
proof -
  have "validateManagementCompatibility L V rd cl = None \<longleftrightarrow>
      mv = [] \<or> mv = ''0.0.0'' \<or> sp_version (cl_spec cl) = [] \<or> sp_version (cl_spec cl) = ''0.0.0'' \<or>
      in_range L V pre before (sp_version (cl_spec cl))"
    using type by (auto simp: validateManagementCompatibility_def mgmt IsClusterCompatibleWithOperator_iff [OF laws])
  moreover have "validateUpgradePath L V rd cl = IsClusterUpgradeSupported L V current (sp_version (cl_spec cl))"
    using type by (simp add: validateUpgradePath_def cur)
  ultimately show ?thesis
    by (auto simp: validate_def IsClusterUpgradeSupported_iff [OF laws] split: option.splits)
qed

lemma validateTopology_iff:
  "validateTopology cl = None \<longleftrightarrow>
     (case sp_topology (cl_spec cl) of
        TopologyEmpty \<Rightarrow> sp_type (cl_spec cl) = Some ClusterTypeManagement
      | DeploymentTopologyHyperconverged \<Rightarrow> True
      | DeploymentTopologyDecoupled \<Rightarrow>
          sp_type (cl_spec cl) \<in> {Some ClusterTypeStorage, Some ClusterTypeWorkload})"
  by (simp add: validateTopology_def split: topology.splits)

end
