(* ===== verification/Op_Status.thy ===== *)
theory Op_Status
  imports Op_Version
begin

text \<open>
  The status of a cluster (\<^verbatim>\<open>internal/superphenix-operator/cluster/status.go\<close>): the conditions, the
  phase and how a reconciliation derives them from its own error, the ArgoCD Application of the
  cluster and the versions. The conditions are a list in which the code keeps one entry per type;
  \<open>cond_of\<close> reads the list as a map and \<open>setCondition\<close> is an update of that map.
\<close>

record ('v, 'c) reconciler =
  OperatorNamespace :: string
  ClustersConfigMapName :: string
  SystemChartURL :: string
  SystemChartName :: string
  SystemChartVersion :: string
  SyncPeriod :: int
  SyncTimeout :: int
  TalosManagerChartURL :: string
  TalosManagerChartVersion :: string
  DisableVersionValidation :: bool
  ToolboxEnabled :: bool
  r_semver :: "('v, 'c) semver_lib"
  r_versions :: version_cfg

type_synonym ctrl_result = "int option"

definition Minute :: int where
  "Minute = 60000000000"


section \<open>Conditions\<close>

definition new_condition :: "string \<Rightarrow> string \<Rightarrow> string \<Rightarrow> string \<Rightarrow> condition" where
  "new_condition ty status reason message = \<lparr>c_type = ty, c_status = status, c_reason = reason,
     c_message = message, c_generation = 0, c_transition = 0\<rparr>"

definition same_content :: "condition \<Rightarrow> condition \<Rightarrow> bool" where
  "same_content c d \<longleftrightarrow> c_status c = c_status d \<and> c_reason c = c_reason d \<and> c_message c = c_message d"

fun setCondition :: "condition list \<Rightarrow> condition \<Rightarrow> condition list" where
  "setCondition [] new = [new]"
| "setCondition (c # cs) new =
     (if c_type c = c_type new then (if same_content c new then c # cs else new # cs)
      else c # setCondition cs new)"

definition find_condition :: "string \<Rightarrow> condition list \<Rightarrow> condition option" where
  "find_condition ty cs = List.find (\<lambda>c. c_type c = ty) cs"

definition setStatusCondition :: "spx_cluster \<Rightarrow> condition \<Rightarrow> spx_cluster" where
  "setStatusCondition cl c =
     cl\<lparr>cl_status := (cl_status cl)\<lparr>st_conditions := setCondition (st_conditions (cl_status cl)) c\<rparr>\<rparr>"

definition isSynced :: "spx_cluster \<Rightarrow> bool" where
  "isSynced cl \<longleftrightarrow> list_ex (\<lambda>c. c_type c = ''ArgoCDSynced'' \<and> c_status c = ''True'')
     (st_conditions (cl_status cl))"


section \<open>The status of the Application\<close>

text \<open>Status, reason, message and phase for the sync status of the Application.\<close>

definition syncOutcome :: "string \<Rightarrow> string \<Rightarrow> string \<times> string \<times> string \<times> string" where
  "syncOutcome oldPhase sync =
     (if sync = ''Synced''
        then (''True'', ''ArgoCDSynced'', ''ArgoCD Application is synced'', ''Deployed'')
      else if sync = ''OutOfSync''
        then (''False'', ''ArgoCDOutOfSync'', ''ArgoCD Application is out of sync'', ''OutOfSync'')
      else if sync = ''Unknown''
        then (''Unknown'', ''ArgoCDUnknown'', ''ArgoCD Application status is unknown'', ''Unknown'')
      else if sync = ''Syncing''
        then (''False'', ''ArgoCDSyncing'', ''ArgoCD Application is syncing'', ''Deploying'')
      else if sync = []
        then (''Unknown'', ''ArgoCDUnknown'', ''ArgoCD Application sync status is not yet available'',
              if oldPhase = [] then ''Unknown'' else oldPhase)
      else (''False'', ''ArgoCDSyncFailed'', ''ArgoCD Application sync status: '' @ sync, ''Error''))"

text \<open>How the health of the Application overrides it.\<close>

definition healthOutcome ::
  "string \<Rightarrow> string \<times> string \<times> string \<times> string \<Rightarrow> string \<times> string \<times> string \<times> string" where
  "healthOutcome health out =
     (case out of (status, reason, message, phase) \<Rightarrow>
        if health = ''Degraded''
          then (''False'', ''HealthCheckFailed'', message @ '' (Health: '' @ health @ '')'', ''Error'')
        else if health = ''Suspended'' \<or> health = ''Missing''
          then (''Unknown'', reason, message @ '' (Health: '' @ health @ '')'', ''Unknown'')
        else (status, reason, message, phase))"

definition applyApplicationStatus :: "spx_cluster \<Rightarrow> argo_app \<Rightarrow> spx_cluster" where
  "applyApplicationStatus cl app =
     (case healthOutcome (str_of (app_health app))
             (syncOutcome (st_phase (cl_status cl)) (str_of (app_sync app))) of
        (status, reason, message, phase) \<Rightarrow>
          let cl1 = setStatusCondition cl (new_condition ''ArgoCDSynced'' status reason message)
          in cl1\<lparr>cl_status := (cl_status cl1)\<lparr>st_phase := phase\<rparr>\<rparr>)"


section \<open>The Ready condition\<close>

definition updateReadyCondition :: "spx_cluster \<Rightarrow> go_error option \<Rightarrow> spx_cluster" where
  "updateReadyCondition cl reconcileErr =
     (let cs = st_conditions (cl_status cl);
          reachableCond = find_condition ''Reachable'' cs;
          reachable = (case reachableCond of None \<Rightarrow> False | Some c \<Rightarrow> c_status c = ''True'');
          argoSyncedCond = find_condition ''ArgoCDSynced'' cs;
          compatibleCond = find_condition ''CompatibleVersion'' cs;
          readyCond = find_condition ''Ready'' cs;
          ready0 = (case readyCond of
                      Some c \<Rightarrow> if reconcileErr \<noteq> None \<and> c_status c = ''False''
                                then (c_status c, c_reason c, c_message c)
                                else (''True'', ''ReconcileSuccess'', ''Cluster is ready'')
                    | None \<Rightarrow> (''True'', ''ReconcileSuccess'', ''Cluster is ready''));
          ready = (if \<not> reachable
                   then (''False'', ''ConnectionFailed'',
                         case reachableCond of
                           None \<Rightarrow> ''Cluster is unreachable''
                         | Some c \<Rightarrow> if c_message c \<noteq> [] then ''Cluster is unreachable: '' @ c_message c
                                     else ''Cluster is unreachable'')
                   else case compatibleCond of
                     Some c \<Rightarrow>
                       if c_status c = ''False'' then (''False'', c_reason c, c_message c)
                       else (case argoSyncedCond of
                               Some a \<Rightarrow> if c_status a \<noteq> ''True'' \<and> fst ready0 \<noteq> ''False''
                                         then (c_status a, c_reason a, c_message a) else ready0
                             | None \<Rightarrow> ready0)
                   | None \<Rightarrow>
                       (case argoSyncedCond of
                          Some a \<Rightarrow> if c_status a \<noteq> ''True'' \<and> fst ready0 \<noteq> ''False''
                                    then (c_status a, c_reason a, c_message a) else ready0
                        | None \<Rightarrow> ready0))
      in setStatusCondition cl (new_condition ''Ready'' (fst ready) (fst (snd ready)) (snd (snd ready))))"


section \<open>Compatibility and sub-applications\<close>

definition updateCompatibilityCondition ::
  "('v, 'c) reconciler \<Rightarrow> app_reader \<Rightarrow> spx_cluster \<Rightarrow> spx_cluster" where
  "updateCompatibilityCondition R rd cl =
     (case GetCurrentManagementVersion rd of
        Inl err \<Rightarrow> setStatusCondition cl (new_condition ''CompatibleVersion'' ''Unknown'' ''ManagementVersionUnknown''
                     (''Failed to get management version: '' @ err_msg err))
      | Inr mgmtVersion \<Rightarrow>
          if mgmtVersion = []
          then setStatusCondition cl (new_condition ''CompatibleVersion'' ''True'' ''CompatibleVersion''
                 ''Management version could not be determined, assuming compatible'')
          else case IsClusterCompatibleWithOperator (r_semver R) (r_versions R) (sp_version (cl_spec cl)) mgmtVersion of
                 Some err \<Rightarrow> setStatusCondition cl (new_condition ''CompatibleVersion'' ''False'' ''IncompatibleVersion''
                               (err_msg err))
               | None \<Rightarrow> setStatusCondition cl (new_condition ''CompatibleVersion'' ''True'' ''CompatibleVersion''
                           ''Cluster version is compatible with management version''))"

definition applicationTargetRevision :: "argo_app \<Rightarrow> string" where
  "applicationTargetRevision app =
     (let rev = (case app_spec app of None \<Rightarrow> [] | Some s \<Rightarrow> str_of (as_targetRevision s))
      in if rev \<noteq> [] then rev
         else case app_sources app of
                [] \<Rightarrow> []
              | None # _ \<Rightarrow> []
              | Some r # _ \<Rightarrow> str_of r)"

definition buildClusterApp :: "argo_app \<Rightarrow> cluster_app" where
  "buildClusterApp app = \<lparr>ca_name = app_name app, ca_status = str_of (app_health app),
     ca_version = applicationTargetRevision app, ca_lastRefresh = app_reconciledAt app,
     ca_lastSync = app_finishedAt app\<rparr>"

definition listSubApplications :: "app_reader \<Rightarrow> string \<Rightarrow> go_error + argo_app list" where
  "listSubApplications rd clusterName =
     (case rd_list rd clusterName of
        Inl err \<Rightarrow> Inl (ErrorfW (''failed to list sub-applications for cluster '' @ clusterName @ '': '') err)
      | Inr apps \<Rightarrow> Inr apps)"

definition fetchApplication :: "app_reader \<Rightarrow> string \<Rightarrow> go_error + argo_app" where
  "fetchApplication rd name =
     (case rd_get rd name of
        Inl err \<Rightarrow> Inl (ErrorfW (''failed to get Application '' @ name @ '': '') err)
      | Inr app \<Rightarrow> Inr app)"

definition updateAppsStatus :: "app_reader \<Rightarrow> spx_cluster \<Rightarrow> spx_cluster" where
  "updateAppsStatus rd cl =
     (case listSubApplications rd (cl_name cl) of
        Inl err \<Rightarrow> cl
      | Inr subApps \<Rightarrow>
          let apps = fold (\<lambda>app m. if app_name app = [] \<or> app_name app = cl_name cl then m
                                   else fmupd (app_name app) (buildClusterApp app) m) subApps fmempty
          in cl\<lparr>cl_status := (cl_status cl)\<lparr>st_apps := apps\<rparr>\<rparr>)"


section \<open>Synchronising the status\<close>

definition updateVersions ::
  "app_reader \<Rightarrow> string \<Rightarrow> int \<Rightarrow> (string, string) fmap option \<Rightarrow> go_error option \<Rightarrow> spx_cluster \<Rightarrow> spx_cluster" where
  "updateVersions rd k8sVersion nodeCount cephClusters reconcileErr cl =
     (let s0 = cl_status cl;
          s1 = (if k8sVersion \<noteq> [] then s0\<lparr>st_kubernetesVersion := k8sVersion\<rparr> else s0);
          s2 = (if 0 < nodeCount then s1\<lparr>st_nodeCount := nodeCount\<rparr> else s1);
          s3 = (if cephClusters \<noteq> None then s2\<lparr>st_cephClusters := cephClusters\<rparr> else s2);
          s4 = (if reconcileErr \<noteq> None then s3
                else case GetCurrentClusterVersion rd (cl_name cl) of
                       Inl err \<Rightarrow> s3
                     | Inr currentVersion \<Rightarrow>
                         if currentVersion \<noteq> [] then s3\<lparr>st_superphenixVersion := currentVersion\<rparr> else s3)
      in cl\<lparr>cl_status := s4\<rparr>)"

text \<open>The condition type and the reason an error is reported with, from its text.\<close>

definition errorReason :: "go_error \<Rightarrow> string \<times> string" where
  "errorReason e =
     (if str_contains (err_msg e) ''not supported'' then (''Ready'', ''InvalidVersion'')
      else if str_contains (err_msg e) ''connection.secretRef is required''
        then (''Reachable'', ''ConnectionConfigError'')
      else if str_contains (err_msg e) ''invalid secret'' then (''Reachable'', ''InvalidSecret'')
      else if IsNotFound e \<or> str_contains (err_msg e) ''not found'' then (''Reachable'', ''SecretNotFound'')
      else if str_contains (err_msg e) ''failed to reconcile clusters ConfigMap''
        then (''Ready'', ''ConfigMapReconcileFailed'')
      else if str_contains (err_msg e) ''failed to remove cluster from configmap''
        then (''Ready'', ''ConfigMapCleanupFailed'')
      else (''Ready'', ''HealthCheckFailed''))"

definition reportError :: "go_error option \<Rightarrow> spx_cluster \<Rightarrow> spx_cluster" where
  "reportError reconcileErr cl =
     (case reconcileErr of
        None \<Rightarrow> cl
      | Some e \<Rightarrow>
          (let (condType, reason) = errorReason e;
               cl1 = setStatusCondition cl (new_condition condType ''False'' reason (err_msg e))
           in if condType = ''Reachable''
              then setStatusCondition cl1 (new_condition ''Ready'' ''False'' reason (err_msg e))
              else cl1))"

definition nextPhase :: "go_error option \<Rightarrow> spx_cluster \<Rightarrow> string" where
  "nextPhase reconcileErr cl =
     (let s = cl_status cl;
          phase0 = (if st_phase s = [] \<or> st_phase s = ''Unknown'' then ''Deploying'' else st_phase s);
          phase1 = (if reconcileErr \<noteq> None then ''Error''
                    else if paused cl then ''Paused''
                    else if isSynced cl then ''Deployed''
                    else if st_phase s \<noteq> [] then st_phase s else phase0)
      in if phase1 = ''Deployed'' \<and> st_superphenixVersion s \<noteq> sp_version (cl_spec cl) \<and>
            st_superphenixVersion s \<noteq> []
         then ''Deploying'' else phase1)"

definition stampCondition :: "int \<Rightarrow> time \<Rightarrow> condition list \<Rightarrow> condition \<Rightarrow> condition" where
  "stampCondition generation now old c =
     (let t = (case find_condition (c_type c) old of
                 None \<Rightarrow> now
               | Some oldC \<Rightarrow> if same_content oldC c \<and> c_transition oldC \<noteq> 0 then c_transition oldC else now)
      in c\<lparr>c_generation := generation, c_transition := (if t = 0 then now else t)\<rparr>)"

text \<open>Steps 1 and 2: the versions, the sub-applications and the conditions but for \<^verbatim>\<open>Ready\<close>.\<close>

definition determineConditions ::
  "('v, 'c) reconciler \<Rightarrow> app_reader \<Rightarrow> spx_cluster \<Rightarrow> argo_app option \<Rightarrow> string
     \<Rightarrow> int \<Rightarrow> (string, string) fmap option \<Rightarrow> go_error option \<Rightarrow> spx_cluster" where
  "determineConditions R rd cl app k8sVersion nodeCount cephClusters reconcileErr =
     (let cl1 = updateVersions rd k8sVersion nodeCount cephClusters reconcileErr cl;
          cl2 = updateAppsStatus rd cl1;
          cl3 = updateCompatibilityCondition R rd cl2;
          cl4 = reportError reconcileErr cl3;
          cl5 = (case app of
                   None \<Rightarrow> cl4
                 | Some a \<Rightarrow> if paused cl4 then cl4 else applyApplicationStatus cl4 a)
      in if paused cl5
         then setStatusCondition cl5 (new_condition ''Paused'' ''True'' ''Paused'' ''Synchronization is paused'')
         else cl5)"

text \<open>Steps 5 and 6: the observed generation, the time of the last sync and the transition times.\<close>

definition stampStatus :: "time \<Rightarrow> time option \<Rightarrow> cluster_status \<Rightarrow> spx_cluster \<Rightarrow> spx_cluster" where
  "stampStatus now lastSync oldStatus cl =
     cl\<lparr>cl_status := (cl_status cl)
       \<lparr>st_observedGeneration := cl_generation cl,
        st_lastSync := (case lastSync of Some t \<Rightarrow> Some t | None \<Rightarrow> st_lastSync oldStatus),
        st_conditions := map (stampCondition (cl_generation cl) now (st_conditions oldStatus))
                             (st_conditions (cl_status cl))\<rparr>\<rparr>"

definition syncStatus ::
  "('v, 'c) reconciler \<Rightarrow> app_reader \<Rightarrow> time \<Rightarrow> go_error option \<Rightarrow> spx_cluster \<Rightarrow> argo_app option \<Rightarrow> string
     \<Rightarrow> int \<Rightarrow> (string, string) fmap option \<Rightarrow> go_error option \<Rightarrow> time option
     \<Rightarrow> spx_cluster \<times> ctrl_result \<times> go_error option" where
  "syncStatus R rd now patchErr cl app k8sVersion nodeCount cephClusters reconcileErr lastSync =
     (let oldStatus = cl_status cl;
          cl1 = determineConditions R rd cl app k8sVersion nodeCount cephClusters reconcileErr;
          cl2 = cl1\<lparr>cl_status := (cl_status cl1)\<lparr>st_phase := nextPhase reconcileErr cl1\<rparr>\<rparr>;
          cl3 = updateReadyCondition cl2 reconcileErr;
          cl4 = stampStatus now lastSync oldStatus cl3
      in case patchErr of
           Some err \<Rightarrow> (cl4, Some Minute, Some err)
         | None \<Rightarrow> (cl4, None, None))"


section \<open>Conditions as a map\<close>

type_synonym content = "string \<times> string \<times> string"

definition content_of :: "condition \<Rightarrow> content" where
  "content_of c = (c_status c, c_reason c, c_message c)"

definition cond_of :: "condition list \<Rightarrow> string \<Rightarrow> content option" where
  "cond_of cs ty = map_option content_of (find_condition ty cs)"

definition conditions_wf :: "condition list \<Rightarrow> bool" where
  "conditions_wf cs \<longleftrightarrow> distinct (map c_type cs)"

abbreviation status_cond :: "spx_cluster \<Rightarrow> string \<Rightarrow> content option" where
  "status_cond cl \<equiv> cond_of (st_conditions (cl_status cl))"

lemma same_content_iff: "same_content c d \<longleftrightarrow> content_of c = content_of d"
  by (simp add: same_content_def content_of_def)

lemma find_condition_simps [simp]:
  "find_condition ty [] = None"
  "find_condition ty (c # cs) = (if c_type c = ty then Some c else find_condition ty cs)"
  by (simp_all add: find_condition_def)

lemma cond_of_simps [simp]:
  "cond_of [] ty = None"
  "cond_of (c # cs) ty = (if c_type c = ty then Some (content_of c) else cond_of cs ty)"
  by (simp_all add: cond_of_def)

lemma content_of_new [simp]:
  "content_of (new_condition ty s r m) = (s, r, m)" "c_type (new_condition ty s r m) = ty"
  by (simp_all add: content_of_def new_condition_def)

text \<open>\<open>setCondition\<close> implements an update of the map, and keeps one entry per type.\<close>

lemma cond_of_setCondition: "cond_of (setCondition cs c) = (cond_of cs)(c_type c \<mapsto> content_of c)"
  by (induction cs) (auto simp: fun_eq_iff same_content_iff)

lemma types_setCondition: "set (map c_type (setCondition cs c)) = insert (c_type c) (set (map c_type cs))"
  by (induction cs) auto

lemma setCondition_wf [simp]: "conditions_wf cs \<Longrightarrow> conditions_wf (setCondition cs c)"
  unfolding conditions_wf_def
proof (induction cs)
  case (Cons d cs)
  then show ?case using types_setCondition [of cs c] by auto
qed simp

lemma find_condition_type: "find_condition ty cs = Some c \<Longrightarrow> c_type c = ty"
  by (induction cs) (auto split: if_splits)

lemma find_condition_in: "find_condition ty cs = Some c \<Longrightarrow> c \<in> set cs"
  by (induction cs) (auto split: if_splits)

lemma find_condition_unique:
  "conditions_wf cs \<Longrightarrow> c \<in> set cs \<Longrightarrow> find_condition (c_type c) cs = Some c"
  unfolding conditions_wf_def by (induction cs) auto

lemma cond_of_None: "cond_of cs ty = None \<longleftrightarrow> find_condition ty cs = None"
  by (simp add: cond_of_def)

lemma status_cond_set [simp]:
  "status_cond (setStatusCondition cl c) = (status_cond cl)(c_type c \<mapsto> content_of c)"
  by (simp add: setStatusCondition_def cond_of_setCondition)

lemma setStatusCondition_simps [simp]:
  "cl_spec (setStatusCondition cl c) = cl_spec cl"
  "cl_name (setStatusCondition cl c) = cl_name cl"
  "cl_generation (setStatusCondition cl c) = cl_generation cl"
  "st_phase (cl_status (setStatusCondition cl c)) = st_phase (cl_status cl)"
  "st_superphenixVersion (cl_status (setStatusCondition cl c)) = st_superphenixVersion (cl_status cl)"
  "paused (setStatusCondition cl c) = paused cl"
  "conditions_wf (st_conditions (cl_status cl)) \<Longrightarrow>
     conditions_wf (st_conditions (cl_status (setStatusCondition cl c)))"
  by (simp_all add: setStatusCondition_def paused_def)

lemma list_ex_condition:
  assumes "conditions_wf cs"
  shows "list_ex (\<lambda>c. c_type c = ty \<and> c_status c = s) cs \<longleftrightarrow> (\<exists>r m. cond_of cs ty = Some (s, r, m))"
  using assms unfolding conditions_wf_def
proof (induction cs)
  case (Cons c cs)
  show ?case
  proof (cases "c_type c = ty")
    case True
    with Cons.prems have "\<not> list_ex (\<lambda>c. c_type c = ty \<and> c_status c = s) cs"
      by (fastforce simp: list_ex_iff image_iff)
    with True show ?thesis by (simp add: content_of_def)
  next
    case False
    with Cons show ?thesis by simp
  qed
qed simp

lemma isSynced_iff:
  "conditions_wf (st_conditions (cl_status cl)) \<Longrightarrow>
     isSynced cl \<longleftrightarrow> (\<exists>r m. status_cond cl ''ArgoCDSynced'' = Some (''True'', r, m))"
  by (simp add: isSynced_def list_ex_condition)


section \<open>What each step of the status leaves alone\<close>

lemma updateVersions_frame [simp]:
  "cl_spec (updateVersions rd k n c e cl) = cl_spec cl"
  "cl_name (updateVersions rd k n c e cl) = cl_name cl"
  "cl_generation (updateVersions rd k n c e cl) = cl_generation cl"
  "st_conditions (cl_status (updateVersions rd k n c e cl)) = st_conditions (cl_status cl)"
  "st_phase (cl_status (updateVersions rd k n c e cl)) = st_phase (cl_status cl)"
  "paused (updateVersions rd k n c e cl) = paused cl"
  by (simp_all add: updateVersions_def Let_def paused_def split: sum.splits)

lemma updateAppsStatus_frame [simp]:
  "cl_spec (updateAppsStatus rd cl) = cl_spec cl"
  "cl_name (updateAppsStatus rd cl) = cl_name cl"
  "cl_generation (updateAppsStatus rd cl) = cl_generation cl"
  "st_conditions (cl_status (updateAppsStatus rd cl)) = st_conditions (cl_status cl)"
  "st_phase (cl_status (updateAppsStatus rd cl)) = st_phase (cl_status cl)"
  "st_superphenixVersion (cl_status (updateAppsStatus rd cl)) = st_superphenixVersion (cl_status cl)"
  "paused (updateAppsStatus rd cl) = paused cl"
  by (simp_all add: updateAppsStatus_def Let_def paused_def split: sum.splits)

lemma updateCompatibilityCondition_frame [simp]:
  "cl_spec (updateCompatibilityCondition R rd cl) = cl_spec cl"
  "cl_name (updateCompatibilityCondition R rd cl) = cl_name cl"
  "cl_generation (updateCompatibilityCondition R rd cl) = cl_generation cl"
  "st_phase (cl_status (updateCompatibilityCondition R rd cl)) = st_phase (cl_status cl)"
  "st_superphenixVersion (cl_status (updateCompatibilityCondition R rd cl)) = st_superphenixVersion (cl_status cl)"
  "paused (updateCompatibilityCondition R rd cl) = paused cl"
  "conditions_wf (st_conditions (cl_status cl)) \<Longrightarrow>
     conditions_wf (st_conditions (cl_status (updateCompatibilityCondition R rd cl)))"
  "ty \<noteq> ''CompatibleVersion'' \<Longrightarrow> status_cond (updateCompatibilityCondition R rd cl) ty = status_cond cl ty"
  by (simp_all add: updateCompatibilityCondition_def split: sum.splits option.splits)

lemma reportError_frame [simp]:
  "cl_spec (reportError e cl) = cl_spec cl"
  "cl_name (reportError e cl) = cl_name cl"
  "cl_generation (reportError e cl) = cl_generation cl"
  "st_phase (cl_status (reportError e cl)) = st_phase (cl_status cl)"
  "st_superphenixVersion (cl_status (reportError e cl)) = st_superphenixVersion (cl_status cl)"
  "paused (reportError e cl) = paused cl"
  "conditions_wf (st_conditions (cl_status cl)) \<Longrightarrow> conditions_wf (st_conditions (cl_status (reportError e cl)))"
  "ty \<noteq> ''Ready'' \<Longrightarrow> ty \<noteq> ''Reachable'' \<Longrightarrow> status_cond (reportError e cl) ty = status_cond cl ty"
  by (simp_all add: reportError_def errorReason_def split: option.splits)

lemma reportError_None [simp]: "reportError None cl = cl"
  by (simp add: reportError_def)

lemma errorReason_type: "fst (errorReason e) = ''Ready'' \<or> fst (errorReason e) = ''Reachable''"
  by (simp add: errorReason_def)

lemma reportError_Some:
  "status_cond (reportError (Some e) cl) ''Ready'' = Some (''False'', snd (errorReason e), err_msg e)"
  "status_cond (reportError (Some e) cl) ''Reachable'' =
     (if fst (errorReason e) = ''Reachable'' then Some (''False'', snd (errorReason e), err_msg e)
      else status_cond cl ''Reachable'')"
  using errorReason_type [of e] by (auto simp: reportError_def split: prod.splits)

definition appOutcome :: "string \<Rightarrow> argo_app \<Rightarrow> string \<times> string \<times> string \<times> string" where
  "appOutcome oldPhase app = healthOutcome (str_of (app_health app)) (syncOutcome oldPhase (str_of (app_sync app)))"

lemma applyApplicationStatus_frame [simp]:
  "cl_spec (applyApplicationStatus cl a) = cl_spec cl"
  "cl_name (applyApplicationStatus cl a) = cl_name cl"
  "cl_generation (applyApplicationStatus cl a) = cl_generation cl"
  "st_superphenixVersion (cl_status (applyApplicationStatus cl a)) = st_superphenixVersion (cl_status cl)"
  "paused (applyApplicationStatus cl a) = paused cl"
  "conditions_wf (st_conditions (cl_status cl)) \<Longrightarrow>
     conditions_wf (st_conditions (cl_status (applyApplicationStatus cl a)))"
  "ty \<noteq> ''ArgoCDSynced'' \<Longrightarrow> status_cond (applyApplicationStatus cl a) ty = status_cond cl ty"
  by (simp_all add: applyApplicationStatus_def Let_def paused_def setStatusCondition_def
      cond_of_setCondition split: prod.splits)

lemma applyApplicationStatus_outcome:
  "appOutcome (st_phase (cl_status cl)) a = (s, r, m, ph) \<Longrightarrow>
     st_phase (cl_status (applyApplicationStatus cl a)) = ph \<and>
     status_cond (applyApplicationStatus cl a) ''ArgoCDSynced'' = Some (s, r, m)"
  by (simp add: applyApplicationStatus_def appOutcome_def setStatusCondition_def cond_of_setCondition)

lemma updateReadyCondition_frame [simp]:
  "cl_spec (updateReadyCondition cl e) = cl_spec cl"
  "cl_name (updateReadyCondition cl e) = cl_name cl"
  "cl_generation (updateReadyCondition cl e) = cl_generation cl"
  "st_phase (cl_status (updateReadyCondition cl e)) = st_phase (cl_status cl)"
  "st_superphenixVersion (cl_status (updateReadyCondition cl e)) = st_superphenixVersion (cl_status cl)"
  "conditions_wf (st_conditions (cl_status cl)) \<Longrightarrow>
     conditions_wf (st_conditions (cl_status (updateReadyCondition cl e)))"
  "ty \<noteq> ''Ready'' \<Longrightarrow> status_cond (updateReadyCondition cl e) ty = status_cond cl ty"
  by (simp_all add: updateReadyCondition_def Let_def)

lemma stampCondition_simps [simp]:
  "c_type (stampCondition g t old c) = c_type c" "content_of (stampCondition g t old c) = content_of c"
  by (simp_all add: stampCondition_def content_of_def Let_def)

lemma cond_of_stamp [simp]: "cond_of (map (stampCondition g t old) cs) = cond_of cs"
  by (induction cs) (auto simp: fun_eq_iff)

lemma stampStatus_frame [simp]:
  "cl_spec (stampStatus now ls old cl) = cl_spec cl"
  "cl_name (stampStatus now ls old cl) = cl_name cl"
  "cl_generation (stampStatus now ls old cl) = cl_generation cl"
  "st_phase (cl_status (stampStatus now ls old cl)) = st_phase (cl_status cl)"
  "st_superphenixVersion (cl_status (stampStatus now ls old cl)) = st_superphenixVersion (cl_status cl)"
  "status_cond (stampStatus now ls old cl) = status_cond cl"
  "conditions_wf (st_conditions (cl_status (stampStatus now ls old cl))) =
     conditions_wf (st_conditions (cl_status cl))"
  by (simp_all add: stampStatus_def conditions_wf_def comp_def)


section \<open>The status after a reconciliation\<close>

lemma determineConditions_frame [simp]:
  "cl_spec (determineConditions R rd cl app k n c e) = cl_spec cl"
  "cl_name (determineConditions R rd cl app k n c e) = cl_name cl"
  "cl_generation (determineConditions R rd cl app k n c e) = cl_generation cl"
  "paused (determineConditions R rd cl app k n c e) = paused cl"
  "st_superphenixVersion (cl_status (determineConditions R rd cl app k n c e)) =
     st_superphenixVersion (cl_status (updateVersions rd k n c e cl))"
  "conditions_wf (st_conditions (cl_status cl)) \<Longrightarrow>
     conditions_wf (st_conditions (cl_status (determineConditions R rd cl app k n c e)))"
  by (simp_all add: determineConditions_def Let_def split: option.splits)

lemma determineConditions_app:
  assumes "\<not> paused cl" and "appOutcome (st_phase (cl_status cl)) a = (s, r, m, ph)"
  shows "st_phase (cl_status (determineConditions R rd cl (Some a) k n c e)) = ph \<and>
    status_cond (determineConditions R rd cl (Some a) k n c e) ''ArgoCDSynced'' = Some (s, r, m)"
  using assms applyApplicationStatus_outcome
  by (simp add: determineConditions_def Let_def)

lemma determineConditions_ready:
  "status_cond (determineConditions R rd cl app k n c (Some e)) ''Ready'' =
     Some (''False'', snd (errorReason e), err_msg e)"
  by (simp add: determineConditions_def Let_def reportError_Some split: option.splits)

lemma content_status: "content_of c = (s, r, m) \<longleftrightarrow> c_status c = s \<and> c_reason c = r \<and> c_message c = m"
  by (auto simp: content_of_def)

text \<open>The aggregate condition is true exactly when nothing stands against it.\<close>

lemma updateReadyCondition_iff:
  assumes "e \<noteq> None \<Longrightarrow> \<exists>r m. status_cond cl ''Ready'' = Some (''False'', r, m)"
  shows "(\<exists>r m. status_cond (updateReadyCondition cl e) ''Ready'' = Some (''True'', r, m)) \<longleftrightarrow>
    e = None \<and> (\<exists>r m. status_cond cl ''Reachable'' = Some (''True'', r, m)) \<and>
    (\<nexists>r m. status_cond cl ''CompatibleVersion'' = Some (''False'', r, m)) \<and>
    (\<forall>s r m. status_cond cl ''ArgoCDSynced'' = Some (s, r, m) \<longrightarrow> s = ''True'')"
proof (cases e)
  case None
  then show ?thesis
    by (auto simp: updateReadyCondition_def Let_def cond_of_def content_status
        split: option.splits if_splits)
next
  case (Some x)
  then obtain d where "find_condition ''Ready'' (st_conditions (cl_status cl)) = Some d" "c_status d = ''False''"
    using assms by (auto simp: cond_of_def content_status)
  with Some show ?thesis
    by (simp add: updateReadyCondition_def Let_def cond_of_def split: option.splits)
qed

lemma syncStatus_frame:
  assumes "syncStatus R rd now pe cl app k n c e ls = (cl', res, err)"
  shows "cl_spec cl' = cl_spec cl" "cl_name cl' = cl_name cl" "cl_generation cl' = cl_generation cl"
    "conditions_wf (st_conditions (cl_status cl)) \<Longrightarrow> conditions_wf (st_conditions (cl_status cl'))"
    "err = pe"
  using assms by (auto simp: syncStatus_def Let_def split: option.splits)

lemma syncStatus_cluster:
  assumes "syncStatus R rd now pe cl app k n c e ls = (cl', res, err)"
  defines "cl1 \<equiv> determineConditions R rd cl app k n c e"
  shows "cl' = stampStatus now ls (cl_status cl)
    (updateReadyCondition (cl1\<lparr>cl_status := (cl_status cl1)\<lparr>st_phase := nextPhase e cl1\<rparr>\<rparr>) e)"
  using assms by (auto simp: syncStatus_def Let_def split: option.splits)

lemma syncStatus_phase_version:
  assumes "syncStatus R rd now pe cl app k n c e ls = (cl', res, err)"
  shows "st_phase (cl_status cl') = nextPhase e (determineConditions R rd cl app k n c e)"
    "st_superphenixVersion (cl_status cl') = st_superphenixVersion (cl_status (updateVersions rd k n c e cl))"
  by (simp_all add: syncStatus_cluster [OF assms])

lemma syncStatus_ready_iff:
  assumes "syncStatus R rd now pe cl app k n c e ls = (cl', res, err)"
  shows "(\<exists>r m. status_cond cl' ''Ready'' = Some (''True'', r, m)) \<longleftrightarrow>
    e = None \<and> (\<exists>r m. status_cond cl' ''Reachable'' = Some (''True'', r, m)) \<and>
    (\<nexists>r m. status_cond cl' ''CompatibleVersion'' = Some (''False'', r, m)) \<and>
    (\<forall>s r m. status_cond cl' ''ArgoCDSynced'' = Some (s, r, m) \<longrightarrow> s = ''True'')"
proof -
  define cl1 where "cl1 = determineConditions R rd cl app k n c e"
  define cl2 where "cl2 = cl1\<lparr>cl_status := (cl_status cl1)\<lparr>st_phase := nextPhase e cl1\<rparr>\<rparr>"
  have cl': "cl' = stampStatus now ls (cl_status cl) (updateReadyCondition cl2 e)"
    using syncStatus_cluster [OF assms] by (simp add: cl1_def cl2_def)
  have "status_cond cl2 = status_cond cl1" by (simp add: cl2_def)
  then have "e \<noteq> None \<Longrightarrow> \<exists>r m. status_cond cl2 ''Ready'' = Some (''False'', r, m)"
    by (auto simp: cl1_def determineConditions_ready)
  from updateReadyCondition_iff [OF this] show ?thesis by (simp add: cl')
qed

lemma appOutcome_phase:
  assumes "appOutcome old a = (s, r, m, ph)"
  shows "ph \<noteq> []" and "s = ''True'' \<Longrightarrow> ph = ''Deployed''"
  using assms
  by (auto simp: appOutcome_def healthOutcome_def syncOutcome_def split: if_splits)

text \<open>The phase: the error first, then the pause, then what the Application says.\<close>

lemma syncStatus_phase:
  assumes run: "syncStatus R rd now pe cl (Some a) k n c e ls = (cl', res, err)"
    and wf: "conditions_wf (st_conditions (cl_status cl))"
    and out: "appOutcome (st_phase (cl_status cl)) a = (s, r, m, ph)"
  shows "st_phase (cl_status cl') =
    (if e \<noteq> None then ''Error'' else if paused cl then ''Paused''
     else if ph = ''Deployed'' \<and> st_superphenixVersion (cl_status cl') \<noteq> sp_version (cl_spec cl) \<and>
             st_superphenixVersion (cl_status cl') \<noteq> []
     then ''Deploying'' else ph)"
proof -
  let ?d = "determineConditions R rd cl (Some a) k n c e"
  have "conditions_wf (st_conditions (cl_status ?d))" using wf by simp
  note synced = isSynced_iff [OF this]
  show ?thesis
  proof (cases "e = None \<and> \<not> paused cl")
    case True
    then have "st_phase (cl_status ?d) = ph" "status_cond ?d ''ArgoCDSynced'' = Some (s, r, m)"
      by (simp_all add: determineConditions_app [OF _ out])
    with True synced appOutcome_phase [OF out] syncStatus_phase_version [OF run] show ?thesis
      by (auto simp: nextPhase_def Let_def)
  next
    case False
    with syncStatus_phase_version [OF run] show ?thesis by (auto simp: nextPhase_def Let_def)
  qed
qed

lemma appOutcome_deployed:
  assumes "appOutcome old a = (s, r, m, ph)"
  shows "ph = ''Deployed'' \<longleftrightarrow> str_of (app_health a) \<notin> {''Degraded'', ''Suspended'', ''Missing''} \<and>
    (str_of (app_sync a) = ''Synced'' \<or> str_of (app_sync a) = [] \<and> old = ''Deployed'')"
  using assms
  by (auto simp: appOutcome_def healthOutcome_def syncOutcome_def split: if_splits)

text \<open>A condition keeps its transition time as long as it says the same.\<close>

lemma syncStatus_transition:
  assumes "syncStatus R rd now pe cl app k n c e ls = (cl', res, err)" "now \<noteq> 0"
    and "conditions_wf (st_conditions (cl_status cl))"
    and "find_condition ty (st_conditions (cl_status cl)) = Some old" "c_transition old \<noteq> 0"
    and "find_condition ty (st_conditions (cl_status cl')) = Some new"
  shows "c_transition new = (if content_of new = content_of old then c_transition old else now)"
proof -
  obtain cs g where "st_conditions (cl_status cl') = map (stampCondition g now (st_conditions (cl_status cl))) cs"
    using syncStatus_cluster [OF assms(1)] by (auto simp: stampStatus_def)
  then obtain d where d: "new = stampCondition g now (st_conditions (cl_status cl)) d"
    using find_condition_in [OF assms(6)] by auto
  then have "c_type d = ty" using find_condition_type [OF assms(6)] by simp
  with d assms(2,4,5) show ?thesis
    by (auto simp: stampCondition_def Let_def same_content_iff content_of_def)
qed

lemma syncStatus_lastSync:
  assumes "syncStatus R rd now pe cl app k n c e ls = (cl', res, err)"
  shows "st_lastSync (cl_status cl') = (case ls of Some t \<Rightarrow> Some t | None \<Rightarrow> st_lastSync (cl_status cl))"
  by (simp add: syncStatus_cluster [OF assms] stampStatus_def)

end
