(* ===== verification/Op_Sync.thy ===== *)
theory Op_Sync
  imports Op_Status
begin

text \<open>
  The periodic sync of the ArgoCD Applications of a cluster
  (\<^verbatim>\<open>internal/superphenix-operator/cluster/sub_applications.go\<close>).

  The store holds the Applications of the operator's namespace by name. A call to the API server
  fails when \<open>ae_fails\<close> says so; a read goes through the cache of the client, which may lag behind
  the store: \<open>ae_view\<close> is what the cache shows of the store at each of the places that read it.
  Calls are told apart by the place of the call (0: the check for a sync in progress, 1: the abort,
  2: the trigger) and the name of the object.
\<close>

type_synonym argo_store = "(string, argo_app) fmap"

datatype app_call =
    CallList nat
  | CallGet nat string
  | CallTerminate nat string
  | CallClear nat string
  | CallTrigger nat string

record argo_env =
  ae_fails :: "app_call \<Rightarrow> go_error option"
  ae_view :: "nat \<Rightarrow> argo_store \<Rightarrow> argo_store"

definition ClusterLabel :: string where "ClusterLabel = ''operator.superphenix.net/clusterName''"
definition ManagedLabel :: string where "ManagedLabel = ''operator.superphenix.net/managed''"
definition RootApplicationLabel :: string where "RootApplicationLabel = ''operator.superphenix.net/root''"
definition operationPhaseRunning :: string where "operationPhaseRunning = ''Running''"
definition operationPhaseTerminating :: string where "operationPhaseTerminating = ''Terminating''"

definition app_not_found :: "string \<Rightarrow> go_error" where
  "app_not_found name = \<lparr>err_msg = ''applications.argoproj.io '' @ fmt_q name @ '' not found'', err_kind = KNotFound\<rparr>"

definition labelled :: "string \<Rightarrow> argo_app \<Rightarrow> bool" where
  "labelled clusterName app \<longleftrightarrow> fmlookup (app_labels app) ClusterLabel = Some clusterName"

definition reader_at :: "argo_env \<Rightarrow> nat \<Rightarrow> argo_store \<Rightarrow> app_reader" where
  "reader_at E site st =
     \<lparr>rd_get = (\<lambda>name. case ae_fails E (CallGet site name) of
                  Some e \<Rightarrow> Inl e
                | None \<Rightarrow> (case fmlookup (ae_view E site st) name of
                             None \<Rightarrow> Inl (app_not_found name) | Some app \<Rightarrow> Inr app)),
      rd_list = (\<lambda>clusterName. case ae_fails E (CallList site) of
                  Some e \<Rightarrow> Inl e
                | None \<Rightarrow> Inr (filter (labelled clusterName) (map snd (gentries (ae_view E site st)))))\<rparr>"

text \<open>
  A patch of one field. The code computes a merge patch against the object it has read; when that is the
  object in the store, sending the patch sets the field.
\<close>

definition patch_app ::
  "argo_env \<Rightarrow> app_call \<Rightarrow> string \<Rightarrow> (argo_app \<Rightarrow> argo_app) \<Rightarrow> argo_store \<Rightarrow> argo_store \<times> go_error option" where
  "patch_app E call name f st =
     (case ae_fails E call of
        Some e \<Rightarrow> (st, Some e)
      | None \<Rightarrow> (case fmlookup st name of
                   None \<Rightarrow> (st, Some (app_not_found name))
                 | Some app \<Rightarrow> (fmupd name (f app) st, None)))"


section \<open>Operations\<close>

definition listAllApplications :: "app_reader \<Rightarrow> string \<Rightarrow> go_error + argo_app list" where
  "listAllApplications rd clusterName =
     (case listSubApplications rd clusterName of
        Inl err \<Rightarrow> Inl err
      | Inr apps \<Rightarrow> (case fetchApplication rd clusterName of
                       Inl _ \<Rightarrow> Inr apps
                     | Inr rootApp \<Rightarrow> Inr (apps @ [rootApp])))"

definition is_running :: "argo_app \<Rightarrow> bool" where
  "is_running app \<longleftrightarrow> str_of (app_phase app) = operationPhaseRunning"

text \<open>The loop of \<^verbatim>\<open>syncInProgress\<close>; \<open>oldest = 0\<close> is Go's zero time.\<close>

definition syncInProgress_step :: "time \<Rightarrow> argo_app \<Rightarrow> bool \<times> time \<Rightarrow> bool \<times> time" where
  "syncInProgress_step now app acc =
     (if \<not> is_running app then acc
      else let startedAt = (case app_startedAt app of Some t \<Rightarrow> t | None \<Rightarrow> now);
               oldest = snd acc
           in (True, if oldest = 0 \<or> startedAt < oldest then startedAt else oldest))"

definition syncInProgress :: "app_reader \<Rightarrow> time \<Rightarrow> string \<Rightarrow> go_error + (bool \<times> time)" where
  "syncInProgress rd now clusterName =
     (case listAllApplications rd clusterName of
        Inl err \<Rightarrow> Inl err
      | Inr apps \<Rightarrow> Inr (fold (syncInProgress_step now) apps (False, 0)))"

definition abort_app :: "argo_env \<Rightarrow> argo_app \<Rightarrow> argo_store \<Rightarrow> argo_store" where
  "abort_app E app st =
     (if \<not> is_running app then st
      else case patch_app E (CallTerminate 1 (app_name app)) (app_name app)
                  (\<lambda>a. a\<lparr>app_phase := Some operationPhaseTerminating\<rparr>) st of
             (st1, Some err) \<Rightarrow> st1
           | (st1, None) \<Rightarrow> fst (patch_app E (CallClear 1 (app_name app)) (app_name app)
                                  (\<lambda>a. a\<lparr>app_operation := False\<rparr>) st1))"

definition abortInProgressSyncs :: "argo_env \<Rightarrow> string \<Rightarrow> argo_store \<Rightarrow> argo_store \<times> go_error option" where
  "abortInProgressSyncs E clusterName st =
     (case listAllApplications (reader_at E 1 st) clusterName of
        Inl err \<Rightarrow> (st, Some err)
      | Inr apps \<Rightarrow> (fold (abort_app E) apps st, None))"

definition triggerApplicationSync ::
  "argo_env \<Rightarrow> nat \<Rightarrow> argo_app \<Rightarrow> bool \<Rightarrow> argo_store \<Rightarrow> argo_store \<times> go_error option" where
  "triggerApplicationSync E site app force st =
     (if \<not> force \<and> is_running app then (st, None)
      else case patch_app E (CallTrigger site (app_name app)) (app_name app)
                  (\<lambda>a. a\<lparr>app_operation := True\<rparr>) st of
             (st1, Some err) \<Rightarrow>
               (st1, Some (ErrorfW (''failed to trigger sync on Application '' @ app_name app @ '': '') err))
           | (st1, None) \<Rightarrow> (st1, None))"

definition syncSubApplications :: "argo_env \<Rightarrow> string \<Rightarrow> bool \<Rightarrow> argo_store \<Rightarrow> argo_store" where
  "syncSubApplications E clusterName force st =
     (let st1 = (case fetchApplication (reader_at E 2 st) clusterName of
                   Inl err \<Rightarrow> st
                 | Inr rootApp \<Rightarrow> fst (triggerApplicationSync E 2 rootApp force st))
      in case listSubApplications (reader_at E 2 st1) clusterName of
           Inl err \<Rightarrow> st1
         | Inr subApps \<Rightarrow> fold (\<lambda>app st. fst (triggerApplicationSync E 3 app force st)) subApps st1)"

definition runPeriodicSync ::
  "('v, 'c) reconciler \<Rightarrow> argo_env \<Rightarrow> time \<Rightarrow> spx_cluster \<Rightarrow> argo_store \<Rightarrow> argo_store \<times> bool" where
  "runPeriodicSync R E now cl st =
     (if (case st_lastSync (cl_status cl) of None \<Rightarrow> False | Some t \<Rightarrow> now - t < SyncPeriod R) then (st, False)
      else case syncInProgress (reader_at E 0 st) now (cl_name cl) of
             Inl err \<Rightarrow> (st, False)
           | Inr (inProgress, oldestStart) \<Rightarrow>
               if inProgress
               then (if now - oldestStart < SyncTimeout R then (st, False)
                     else case abortInProgressSyncs E (cl_name cl) st of
                            (st1, Some err) \<Rightarrow> (st1, False)
                          | (st1, None) \<Rightarrow> (syncSubApplications E (cl_name cl) True st1, True))
               else (syncSubApplications E (cl_name cl) False st, True))"


section \<open>The store\<close>

text \<open>
  The store files an Application under its name, and the cache shows the Applications of the store,
  possibly with an older status.
\<close>

definition store_wf :: "argo_store \<Rightarrow> bool" where
  "store_wf st \<longleftrightarrow> (\<forall>name app. fmlookup st name = Some app \<longrightarrow> app_name app = name)"

definition same_object :: "argo_app option \<Rightarrow> argo_app option \<Rightarrow> bool" where
  "same_object x y = rel_option (\<lambda>a b. app_name a = app_name b \<and> app_labels a = app_labels b) x y"

definition cache_ok :: "argo_env \<Rightarrow> bool" where
  "cache_ok E \<longleftrightarrow> (\<forall>site st name. same_object (fmlookup (ae_view E site st) name) (fmlookup st name))"

text \<open>The Applications a run for a cluster may touch: its root and those that carry its label.\<close>

definition belongs :: "string \<Rightarrow> argo_store \<Rightarrow> string \<Rightarrow> bool" where
  "belongs clusterName st name \<longleftrightarrow> name = clusterName \<or>
     (case fmlookup st name of None \<Rightarrow> False | Some app \<Rightarrow> labelled clusterName app)"

definition same_objects :: "argo_store \<Rightarrow> argo_store \<Rightarrow> bool" where
  "same_objects st st' \<longleftrightarrow> (\<forall>name. same_object (fmlookup st' name) (fmlookup st name))"

lemma same_object_refl [simp]: "same_object x x"
  by (simp add: same_object_def option.rel_refl)

lemma same_object_trans: "same_object x y \<Longrightarrow> same_object y z \<Longrightarrow> same_object x z"
  by (cases x; cases y; cases z) (auto simp: same_object_def)

lemma same_objects_refl [simp]: "same_objects st st"
  by (simp add: same_objects_def)

lemma same_objects_trans: "same_objects a b \<Longrightarrow> same_objects b c \<Longrightarrow> same_objects a c"
  unfolding same_objects_def using same_object_trans by blast

lemma same_objects_wf:
  assumes "same_objects st st'" "store_wf st"
  shows "store_wf st'"
  unfolding store_wf_def
proof (intro allI impI)
  fix name app assume "fmlookup st' name = Some app"
  moreover have "same_object (fmlookup st' name) (fmlookup st name)"
    using assms(1) by (simp add: same_objects_def)
  ultimately show "app_name app = name"
    using assms(2) by (cases "fmlookup st name") (auto simp: same_object_def store_wf_def)
qed

lemma same_object_labelled:
  "same_object x y \<Longrightarrow> (case x of None \<Rightarrow> False | Some a \<Rightarrow> labelled cn a) =
     (case y of None \<Rightarrow> False | Some a \<Rightarrow> labelled cn a)"
  by (cases x; cases y) (auto simp: same_object_def labelled_def)

lemma same_objects_belongs: "same_objects st st' \<Longrightarrow> belongs cn st' name = belongs cn st name"
  using same_object_labelled [of "fmlookup st' name" "fmlookup st name" cn]
  by (simp add: belongs_def same_objects_def)

text \<open>A run for a cluster keeps every object in place and the objects of the others as they are.\<close>

definition confined :: "string \<Rightarrow> argo_store \<Rightarrow> argo_store \<Rightarrow> bool" where
  "confined cn st st' \<longleftrightarrow> same_objects st st' \<and>
     (\<forall>name. \<not> belongs cn st name \<longrightarrow> fmlookup st' name = fmlookup st name)"

lemma confined_refl [simp]: "confined cn st st"
  by (simp add: confined_def)

lemma confined_trans: "confined cn a b \<Longrightarrow> confined cn b c \<Longrightarrow> confined cn a c"
  unfolding confined_def by (metis same_objects_belongs same_objects_trans)

lemma confined_fold:
  assumes "\<And>x s. x \<in> set xs \<Longrightarrow> confined cn st s \<Longrightarrow> confined cn s (f x s)" "confined cn st s"
  shows "confined cn st (fold f xs s)"
  using assms
proof (induction xs arbitrary: s)
  case (Cons x xs)
  then have "confined cn st (f x s)" by (meson confined_trans list.set_intros(1))
  with Cons show ?case by simp
qed simp

lemma confined_belongs: "confined cn st s \<Longrightarrow> belongs cn s name = belongs cn st name"
  by (simp add: confined_def same_objects_belongs)

lemma belongs_root [simp]: "belongs cn st cn"
  by (simp add: belongs_def)

lemma patch_app_confined:
  assumes "\<And>a. app_name (f a) = app_name a \<and> app_labels (f a) = app_labels a" "belongs cn st name"
  shows "confined cn st (fst (patch_app E call name f st))"
  using assms
  by (auto simp: patch_app_def confined_def same_objects_def same_object_def option.rel_refl
      split: option.splits)

lemma trigger_confined:
  "belongs cn st (app_name app) \<Longrightarrow> confined cn st (fst (triggerApplicationSync E site app force st))"
  using patch_app_confined [of "\<lambda>a. a\<lparr>app_operation := True\<rparr>" cn st "app_name app" E]
  by (auto simp: triggerApplicationSync_def split: prod.splits option.splits) (metis fst_conv)+

lemma abort_confined:
  assumes "belongs cn st (app_name app)"
  shows "confined cn st (abort_app E app st)"
proof -
  let ?p = "patch_app E (CallTerminate 1 (app_name app)) (app_name app)
    (\<lambda>a. a\<lparr>app_phase := Some operationPhaseTerminating\<rparr>) st"
  have 1: "confined cn st (fst ?p)" using assms by (intro patch_app_confined) simp_all
  then have "belongs cn (fst ?p) (app_name app)"
    using assms same_objects_belongs by (auto simp: confined_def)
  then have "confined cn (fst ?p) (fst (patch_app E (CallClear 1 (app_name app)) (app_name app)
      (\<lambda>a. a\<lparr>app_operation := False\<rparr>) (fst ?p)))"
    by (intro patch_app_confined) simp_all
  from confined_trans [OF 1 this] 1 show ?thesis
    by (auto simp: abort_app_def split: prod.splits option.splits)
qed

text \<open>The Applications a read returns belong to the cluster.\<close>

lemma view_lookup:
  assumes "cache_ok E" "store_wf st" "fmlookup (ae_view E site st) name = Some app"
  shows "app_name app = name" "labelled cn app \<Longrightarrow> belongs cn st name"
proof -
  have "same_object (fmlookup (ae_view E site st) name) (fmlookup st name)"
    using assms(1) by (simp add: cache_ok_def)
  with assms(3) obtain a where a: "fmlookup st name = Some a" "app_name app = app_name a" "app_labels app = app_labels a"
    by (cases "fmlookup st name") (auto simp: same_object_def)
  from a assms(2) show "app_name app = name" by (auto simp: store_wf_def)
  from a show "labelled cn app \<Longrightarrow> belongs cn st name" by (auto simp: belongs_def labelled_def)
qed

lemma rd_list_belongs:
  assumes "cache_ok E" "store_wf st" "listSubApplications (reader_at E site st) cn = Inr apps" "app \<in> set apps"
  shows "belongs cn st (app_name app)"
proof -
  from assms(3,4) obtain name where n: "fmlookup (ae_view E site st) name = Some app" "labelled cn app"
    by (auto simp: listSubApplications_def reader_at_def set_gentries split: option.splits)
  from view_lookup [OF assms(1,2) n(1)] n(2) show ?thesis by simp
qed

lemma rd_get_belongs:
  assumes "cache_ok E" "store_wf st" "fetchApplication (reader_at E site st) cn = Inr app"
  shows "app_name app = cn"
proof -
  from assms(3) have "fmlookup (ae_view E site st) cn = Some app"
    by (auto simp: fetchApplication_def reader_at_def split: option.splits)
  from view_lookup(1) [OF assms(1,2) this] show ?thesis .
qed

lemma listAll_belongs:
  assumes "cache_ok E" "store_wf st" "listAllApplications (reader_at E site st) cn = Inr apps" "app \<in> set apps"
  shows "belongs cn st (app_name app)"
  using assms(3,4) rd_get_belongs [OF assms(1,2)]
  by (auto simp: listAllApplications_def split: sum.splits
      intro: rd_list_belongs [OF assms(1,2)])

lemma abortInProgressSyncs_confined:
  assumes "cache_ok E" "store_wf st"
  shows "confined cn st (fst (abortInProgressSyncs E cn st))"
proof (cases "listAllApplications (reader_at E 1 st) cn")
  case (Inr apps)
  have "confined cn st (fold (abort_app E) apps st)"
  proof (rule confined_fold)
    fix x s assume "x \<in> set apps" "confined cn st s"
    then show "confined cn s (abort_app E x s)"
      using listAll_belongs [OF assms Inr] by (intro abort_confined) (simp add: confined_belongs)
  qed simp
  with Inr show ?thesis by (simp add: abortInProgressSyncs_def)
qed (simp add: abortInProgressSyncs_def)

lemma syncSubApplications_confined:
  assumes "cache_ok E" "store_wf st"
  shows "confined cn st (syncSubApplications E cn force st)"
proof -
  define st1 where "st1 = (case fetchApplication (reader_at E 2 st) cn of
    Inl err \<Rightarrow> st | Inr rootApp \<Rightarrow> fst (triggerApplicationSync E 2 rootApp force st))"
  have 1: "confined cn st st1"
    using rd_get_belongs [OF assms] by (auto simp: st1_def belongs_def intro!: trigger_confined split: sum.splits)
  then have wf1: "store_wf st1" using assms(2) same_objects_wf by (auto simp: confined_def)
  show ?thesis
  proof (cases "listSubApplications (reader_at E 2 st1) cn")
    case (Inl e)
    with 1 show ?thesis by (simp add: syncSubApplications_def Let_def flip: st1_def)
  next
    case (Inr apps)
    have "confined cn st1 (fold (\<lambda>app st. fst (triggerApplicationSync E 3 app force st)) apps st1)"
    proof (rule confined_fold)
      fix x s assume "x \<in> set apps" "confined cn st1 s"
      then show "confined cn s (fst (triggerApplicationSync E 3 x force s))"
        using rd_list_belongs [OF assms(1) wf1 Inr]
        by (intro trigger_confined) (simp add: confined_belongs)
    qed simp
    with Inr 1 show ?thesis
      by (auto simp: syncSubApplications_def Let_def simp flip: st1_def intro: confined_trans)
  qed
qed

lemma runPeriodicSync_confined:
  assumes "cache_ok E" "store_wf st" "runPeriodicSync R E now cl st = (st', b)"
  shows "confined (cl_name cl) st st'"
proof -
  have 1: "confined (cl_name cl) st (fst (abortInProgressSyncs E (cl_name cl) st))"
    using assms(1,2) by (rule abortInProgressSyncs_confined)
  then have "store_wf (fst (abortInProgressSyncs E (cl_name cl) st))"
    using assms(2) same_objects_wf by (auto simp: confined_def)
  from syncSubApplications_confined [OF assms(1) this]
  have 2: "confined (cl_name cl) st (syncSubApplications E (cl_name cl) True (fst (abortInProgressSyncs E (cl_name cl) st)))"
    using 1 confined_trans by blast
  show ?thesis
    using assms(3) 1 2 syncSubApplications_confined [OF assms(1,2)]
    by (auto simp: runPeriodicSync_def split: if_splits sum.splits prod.splits option.splits)
qed


section \<open>When a run waits\<close>

text \<open>The oldest start among the running operations, for clocks past Go's zero time.\<close>

definition started :: "time \<Rightarrow> argo_app \<Rightarrow> time" where
  "started now app = (case app_startedAt app of Some t \<Rightarrow> t | None \<Rightarrow> now)"

lemma syncInProgress_step_running:
  assumes "is_running a"
  shows "snd acc = 0 \<Longrightarrow> syncInProgress_step now a acc = (True, started now a)"
    "0 < snd acc \<Longrightarrow> syncInProgress_step now a acc = (True, min (started now a) (snd acc))"
  using assms by (auto simp: syncInProgress_step_def started_def Let_def)

lemma syncInProgress_fold:
  assumes "\<And>a. a \<in> set apps \<Longrightarrow> is_running a \<Longrightarrow> 0 < started now a"
    and "fst acc \<longleftrightarrow> S \<noteq> {}" "snd acc = (if S = {} then 0 else Min S)" "finite S" "\<forall>t\<in>S. 0 < t"
  shows "fold (syncInProgress_step now) apps acc =
    (let T = S \<union> started now ` {a \<in> set apps. is_running a} in (T \<noteq> {}, if T = {} then 0 else Min T))"
  using assms
proof (induction apps arbitrary: acc S)
  case Nil
  then show ?case by (cases acc) (simp add: Let_def)
next
  case (Cons a apps)
  show ?case
  proof (cases "is_running a")
    case False
    then have "syncInProgress_step now a acc = acc" by (simp add: syncInProgress_step_def)
    moreover have "{x \<in> set (a # apps). is_running x} = {x \<in> set apps. is_running x}" using False by auto
    ultimately show ?thesis using Cons.IH [of acc S] Cons.prems by simp
  next
    case True
    let ?S = "insert (started now a) S" and ?acc = "syncInProgress_step now a acc"
    have pos: "0 < started now a" using Cons.prems(1) True by simp
    have acc: "?acc = (True, Min ?S)"
    proof (cases "S = {}")
      case False
      then have "snd acc = Min S" "0 < Min S" using Cons.prems(3-5) by auto
      with syncInProgress_step_running [OF True] False Cons.prems(4) show ?thesis
        by (simp add: Min_insert)
    qed (simp add: syncInProgress_step_running [OF True] Cons.prems(3))
    have "fold (syncInProgress_step now) apps ?acc =
      (let T = ?S \<union> started now ` {x \<in> set apps. is_running x} in (T \<noteq> {}, if T = {} then 0 else Min T))"
      using acc Cons.prems(1,4,5) pos by (intro Cons.IH) auto
    moreover have "?S \<union> started now ` {x \<in> set apps. is_running x} =
      S \<union> started now ` {x \<in> set (a # apps). is_running x}" using True by auto
    ultimately show ?thesis by (simp only: fold_simps)
  qed
qed

lemma syncInProgress_oldest:
  assumes "listAllApplications rd cn = Inr apps" "\<And>a. a \<in> set apps \<Longrightarrow> is_running a \<Longrightarrow> 0 < started now a"
  shows "syncInProgress rd now cn =
    (let T = started now ` {a \<in> set apps. is_running a} in Inr (T \<noteq> {}, if T = {} then 0 else Min T))"
  using syncInProgress_fold [of apps now "(False, 0)" "{}"] assms
  by (simp add: syncInProgress_def Let_def)

text \<open>As long as one operation runs and none is older than the timeout, the run does nothing.\<close>

lemma runPeriodicSync_waits:
  assumes "listAllApplications (reader_at E 0 st) (cl_name cl) = Inr apps"
    and "\<And>a. a \<in> set apps \<Longrightarrow> is_running a \<Longrightarrow> 0 < started now a \<and> now - started now a < SyncTimeout R"
    and "\<exists>a\<in>set apps. is_running a"
  shows "runPeriodicSync R E now cl st = (st, False)"
proof -
  let ?T = "started now ` {a \<in> set apps. is_running a}"
  have T: "?T \<noteq> {}" "finite ?T" using assms(3) by auto
  from Min_in [OF T(2,1)] obtain a where "Min ?T = started now a" "a \<in> set apps" "is_running a"
    by (elim imageE) simp
  with assms(2) have "now - Min ?T < SyncTimeout R" by simp
  moreover have "syncInProgress (reader_at E 0 st) now (cl_name cl) = Inr (True, Min ?T)"
    using T(1) syncInProgress_oldest [OF assms(1), of now] assms(2) by (simp only: Let_def if_False simp_thms)
  ultimately show ?thesis by (simp add: runPeriodicSync_def)
qed

text \<open>Once an operation is older than the timeout, the run aborts and starts afresh.\<close>

lemma syncInProgress_stuck:
  assumes "listAllApplications (reader_at E 0 st) (cl_name cl) = Inr apps"
    and "\<And>a. a \<in> set apps \<Longrightarrow> is_running a \<Longrightarrow> 0 < started now a"
    and "a \<in> set apps" "is_running a" "SyncTimeout R \<le> now - started now a"
  shows "\<exists>t. syncInProgress (reader_at E 0 st) now (cl_name cl) = Inr (True, t) \<and> SyncTimeout R \<le> now - t"
proof -
  let ?T = "started now ` {a \<in> set apps. is_running a}"
  have "started now a \<in> ?T" using assms(3,4) by blast
  then have "?T \<noteq> {}" "Min ?T \<le> started now a" by auto
  with assms(5) syncInProgress_oldest [OF assms(1,2)] show ?thesis
    by (intro exI [of _ "Min ?T"]) (auto simp: Let_def)
qed


section \<open>What a run triggers\<close>

definition op_set :: "argo_store \<Rightarrow> string \<Rightarrow> bool" where
  "op_set st name \<longleftrightarrow> (case fmlookup st name of None \<Rightarrow> False | Some app \<Rightarrow> app_operation app)"

lemma trigger_sets:
  assumes "\<And>c. ae_fails E c = None" "fmlookup st (app_name app) \<noteq> None"
  shows "op_set (fst (triggerApplicationSync E site app True st)) (app_name app)"
  using assms by (auto simp: triggerApplicationSync_def patch_app_def op_set_def)

lemma trigger_keeps:
  "op_set st name \<Longrightarrow> op_set (fst (triggerApplicationSync E site app force st)) name"
  by (auto simp: triggerApplicationSync_def patch_app_def op_set_def split: option.splits)

lemma trigger_dom:
  "fmlookup (fst (triggerApplicationSync E site app force st)) name = None \<longleftrightarrow> fmlookup st name = None"
  by (auto simp: triggerApplicationSync_def patch_app_def split: option.splits)

lemma trigger_fold_keeps:
  "op_set st name \<Longrightarrow> op_set (fold (\<lambda>app st. fst (triggerApplicationSync E k app force st)) apps st) name"
  by (induction apps arbitrary: st) (simp_all add: trigger_keeps)

lemma trigger_fold_sets:
  assumes "\<And>c. ae_fails E c = None" "app \<in> set apps" "fmlookup st (app_name app) \<noteq> None"
  shows "op_set (fold (\<lambda>app st. fst (triggerApplicationSync E k app True st)) apps st) (app_name app)"
  using assms(2,3)
proof (induction apps arbitrary: st)
  case (Cons a apps)
  show ?case
  proof (cases "app = a")
    case True
    with Cons.prems have "op_set (fst (triggerApplicationSync E k a True st)) (app_name app)"
      using trigger_sets [OF assms(1)] by simp
    then show ?thesis by (simp add: trigger_fold_keeps)
  next
    case False
    with Cons.prems have "app \<in> set apps" "fmlookup (fst (triggerApplicationSync E k a True st)) (app_name app) \<noteq> None"
      by (simp_all add: trigger_dom)
    from Cons.IH [OF this] show ?thesis by simp
  qed
qed simp

lemma cache_lookup:
  assumes "cache_ok E" "fmlookup st name = Some a"
  obtains v where "fmlookup (ae_view E site st) name = Some v" "app_name v = app_name a" "app_labels v = app_labels a"
proof -
  have "same_object (fmlookup (ae_view E site st) name) (fmlookup st name)"
    using assms(1) by (simp add: cache_ok_def)
  with assms(2) that show ?thesis
    by (cases "fmlookup (ae_view E site st) name") (auto simp: same_object_def)
qed

lemma syncSubApplications_sets:
  assumes fails: "\<And>c. ae_fails E c = None" and E: "cache_ok E" and wf: "store_wf st"
    and a: "fmlookup st name = Some a" and b: "belongs cn st name"
  shows "op_set (syncSubApplications E cn True st) name"
proof -
  define st1 where "st1 = (case fetchApplication (reader_at E 2 st) cn of
    Inl err \<Rightarrow> st | Inr rootApp \<Rightarrow> fst (triggerApplicationSync E 2 rootApp True st))"
  have conf: "confined cn st st1"
    using rd_get_belongs [OF E wf] by (auto simp: st1_def intro!: trigger_confined split: sum.splits)
  then have wf1: "store_wf st1" using wf same_objects_wf by (auto simp: confined_def)
  define subs where "subs = filter (labelled cn) (map snd (gentries (ae_view E 2 st1)))"
  have run: "syncSubApplications E cn True st =
      fold (\<lambda>app st. fst (triggerApplicationSync E 3 app True st)) subs st1"
    by (simp add: syncSubApplications_def Let_def listSubApplications_def reader_at_def fails subs_def
        flip: st1_def) (simp add: st1_def reader_at_def fails)
  show ?thesis
  proof (cases "name = cn")
    case True
    obtain v where v: "fmlookup (ae_view E 2 st) name = Some v" "app_name v = app_name a"
      using cache_lookup [OF E a] by metis
    moreover have "app_name a = name" using wf a by (simp add: store_wf_def)
    ultimately have "op_set st1 name"
      using True a trigger_sets [OF fails, of st v 2]
      by (simp add: st1_def fetchApplication_def reader_at_def fails)
    then show ?thesis unfolding run by (rule trigger_fold_keeps)
  next
    case False
    have "belongs cn st1 name" using b conf by (simp add: confined_belongs)
    with False obtain a1 where a1: "fmlookup st1 name = Some a1" "labelled cn a1"
      by (auto simp: belongs_def split: option.splits)
    then obtain v where v: "fmlookup (ae_view E 2 st1) name = Some v" "app_name v = app_name a1" "app_labels v = app_labels a1"
      using cache_lookup [OF E a1(1)] by metis
    have n: "app_name v = name" using v(2) wf1 a1(1) by (simp add: store_wf_def)
    have "labelled cn v" using a1(2) v(3) by (simp add: labelled_def)
    moreover have "v \<in> snd ` set (gentries (ae_view E 2 st1))"
      using v(1) by (metis image_eqI set_gentries snd_conv)
    ultimately have "v \<in> set subs" by (simp add: subs_def)
    from trigger_fold_sets [OF fails this, of st1 3] a1(1) n show ?thesis by (simp add: run)
  qed
qed

lemma runPeriodicSync_restarts:
  assumes fails: "\<And>c. ae_fails E c = None" and E: "cache_ok E" and wf: "store_wf st"
    and due: "\<And>t. st_lastSync (cl_status cl) = Some t \<Longrightarrow> SyncPeriod R \<le> now - t"
    and stuck: "syncInProgress (reader_at E 0 st) now (cl_name cl) = Inr (True, t0)" "SyncTimeout R \<le> now - t0"
    and run: "runPeriodicSync R E now cl st = (st', b)"
  shows "b \<and> (\<forall>name. fmlookup st name \<noteq> None \<and> belongs (cl_name cl) st name \<longrightarrow> op_set st' name)"
proof -
  let ?st1 = "fst (abortInProgressSyncs E (cl_name cl) st)"
  have ok: "snd (abortInProgressSyncs E (cl_name cl) st) = None"
    by (simp add: abortInProgressSyncs_def listAllApplications_def listSubApplications_def
        reader_at_def fails split: sum.splits)
  have conf: "confined (cl_name cl) st ?st1" using E wf by (rule abortInProgressSyncs_confined)
  then have wf1: "store_wf ?st1" using wf same_objects_wf by (auto simp: confined_def)
  have st': "st' = syncSubApplications E (cl_name cl) True ?st1" and b
    using run due stuck ok by (auto simp: runPeriodicSync_def split: if_splits prod.splits option.splits)
  have "op_set st' name" if "fmlookup st name \<noteq> None" "belongs (cl_name cl) st name" for name
  proof -
    have "same_object (fmlookup ?st1 name) (fmlookup st name)" using conf by (simp add: confined_def same_objects_def)
    with that(1) obtain a where "fmlookup ?st1 name = Some a"
      by (cases "fmlookup ?st1 name") (auto simp: same_object_def)
    then show ?thesis
      using syncSubApplications_sets [OF fails E wf1] that(2) conf by (simp add: st' confined_belongs)
  qed
  with \<open>b\<close> show ?thesis by blast
qed


section \<open>What a run aborts\<close>

text \<open>
  The Applications are read as unstructured objects, which the client reads from the API server and not from its
  cache, unless it is configured otherwise.
\<close>

definition live_reads :: "argo_env \<Rightarrow> bool" where
  "live_reads E \<longleftrightarrow> (\<forall>site st. ae_view E site st = st)"

lemma live_reads_cache: "live_reads E \<Longrightarrow> cache_ok E"
  by (simp add: live_reads_def cache_ok_def)

definition phase_at :: "argo_store \<Rightarrow> string \<Rightarrow> string option option" where
  "phase_at st name = map_option app_phase (fmlookup st name)"

lemma trigger_phase [simp]: "phase_at (fst (triggerApplicationSync E site app force st)) = phase_at st"
  by (auto simp: fun_eq_iff phase_at_def triggerApplicationSync_def patch_app_def split: option.splits)

lemma trigger_fold_phase [simp]:
  "phase_at (fold (\<lambda>app st. fst (triggerApplicationSync E k app force st)) apps st) = phase_at st"
  by (induction apps arbitrary: st) simp_all

lemma syncSubApplications_phase: "phase_at (syncSubApplications E cn force st) = phase_at st"
  by (simp add: syncSubApplications_def Let_def split: sum.splits)

lemma abort_app_phase:
  assumes "\<And>c. ae_fails E c = None"
  shows "phase_at (abort_app E app st) name =
    (if is_running app \<and> app_name app = name \<and> phase_at st name \<noteq> None then Some (Some operationPhaseTerminating)
     else phase_at st name)"
  using assms by (auto simp: phase_at_def abort_app_def patch_app_def split: option.splits)

lemma abort_fold_phase:
  assumes "\<And>c. ae_fails E c = None"
  shows "phase_at (fold (abort_app E) apps st) name =
    (if (\<exists>app\<in>set apps. is_running app \<and> app_name app = name) \<and> phase_at st name \<noteq> None
     then Some (Some operationPhaseTerminating) else phase_at st name)"
proof (induction apps arbitrary: st)
  case (Cons a apps)
  show ?case unfolding fold_simps Cons.IH abort_app_phase [OF assms] by auto
qed simp

lemma listAll_run:
  assumes "live_reads E" "\<And>c. ae_fails E c = None"
  shows "listAllApplications (reader_at E site st) cn =
    Inr (filter (labelled cn) (map snd (gentries st)) @ (case fmlookup st cn of None \<Rightarrow> [] | Some app \<Rightarrow> [app]))"
  using assms(1)
  by (simp add: live_reads_def listAllApplications_def listSubApplications_def fetchApplication_def reader_at_def assms(2)
      split: option.splits)

lemma snd_gentries: "x \<in> snd ` set (gentries m) \<longleftrightarrow> (\<exists>k. fmlookup m k = Some x)"
proof
  assume "x \<in> snd ` set (gentries m)"
  then show "\<exists>k. fmlookup m k = Some x" by (auto simp: set_gentries)
next
  assume "\<exists>k. fmlookup m k = Some x"
  then obtain k where "(k, x) \<in> set (gentries m)" by (auto simp: set_gentries)
  then show "x \<in> snd ` set (gentries m)" by (rule image_eqI [rotated]) simp
qed

lemma listAll_live:
  assumes "live_reads E" "\<And>c. ae_fails E c = None" "store_wf st" "listAllApplications (reader_at E site st) cn = Inr apps"
    and "fmlookup st name = Some app" "belongs cn st name"
  shows "a \<in> set apps \<and> app_name a = name \<longleftrightarrow> a = app"
proof -
  have named: "app_name x = n" if "fmlookup st n = Some x" for n x using assms(3) that by (simp add: store_wf_def)
  have apps: "x \<in> set apps \<longleftrightarrow> (\<exists>n. fmlookup st n = Some x \<and> (labelled cn x \<or> n = cn))" for x
    using assms(4) unfolding listAll_run [OF assms(1,2)]
    by (auto simp: snd_gentries split: option.splits)
  have "app \<in> set apps" using assms(5,6) by (auto simp: apps belongs_def)
  moreover have "a = app" if "a \<in> set apps" "app_name a = name"
    using that named assms(5) by (auto simp: apps)
  ultimately show ?thesis using named [OF assms(5)] by auto
qed

text \<open>A run that restarts a stuck sync ends every running operation of the cluster and no other one.\<close>

lemma runPeriodicSync_aborts:
  assumes fails: "\<And>c. ae_fails E c = None" and live: "live_reads E" and wf: "store_wf st"
    and due: "\<And>t. st_lastSync (cl_status cl) = Some t \<Longrightarrow> SyncPeriod R \<le> now - t"
    and stuck: "syncInProgress (reader_at E 0 st) now (cl_name cl) = Inr (True, t0)" "SyncTimeout R \<le> now - t0"
    and run: "runPeriodicSync R E now cl st = (st', b)"
    and app: "fmlookup st name = Some app" "belongs (cl_name cl) st name"
  shows "phase_at st' name = Some (if is_running app then Some operationPhaseTerminating else app_phase app)"
proof -
  let ?st1 = "fst (abortInProgressSyncs E (cl_name cl) st)"
  obtain apps where apps: "listAllApplications (reader_at E 1 st) (cl_name cl) = Inr apps"
    using listAll_run [OF live fails] by blast
  have st': "st' = syncSubApplications E (cl_name cl) True ?st1"
    using run due stuck apps by (auto simp: runPeriodicSync_def abortInProgressSyncs_def split: if_splits option.splits)
  have "(\<exists>a\<in>set apps. is_running a \<and> app_name a = name) \<longleftrightarrow> is_running app"
    using listAll_live [OF live fails wf apps app] by metis
  moreover have "phase_at st' name = phase_at (fold (abort_app E) apps st) name"
    unfolding st' syncSubApplications_phase abortInProgressSyncs_def apps by simp
  ultimately show ?thesis using app(1) by (simp add: abort_fold_phase [OF fails]) (simp add: phase_at_def)
qed

end
