(* ===== verification/Op_Connection.thy ===== *)
theory Op_Connection
  imports Op_Sync
begin

text \<open>
  How the operator connects to a cluster: the credentials in the connection secret, the secret ArgoCD
  uses (\<^verbatim>\<open>cluster/argocd.go\<close>), the health check (\<^verbatim>\<open>cluster/health.go\<close>, \<^verbatim>\<open>cluster/ceph.go\<close>) and the
  kubeconfig of the toolbox (\<^verbatim>\<open>cluster/kubeconfig.go\<close>).

  The world is the part of the management cluster's objects the operator touches. The API server, the
  clusters it connects to and the file system are not part of the repository: \<open>op_env\<close> says which
  calls fail and what the others return. \<^verbatim>\<open>controllerutil.CreateOrUpdate\<close> reads an object, runs a
  function on what it read or on an empty object, and writes the result.
\<close>

section \<open>State\<close>

record secret =
  se_labels :: labels
  se_owner :: "string option"
  se_data :: "(string, string) fmap"
  se_stringData :: "(string, string) fmap"

record sync_window =
  sw_kind :: string
  sw_schedule :: string
  sw_duration :: string
  sw_manualSync :: bool
  sw_applications :: "string list"
  sw_clusters :: "string list"
  sw_namespaces :: "string list"

record app_project =
  ap_owner :: "string option"
  ap_finalizers :: "string list"
  ap_description :: string
  ap_sourceRepos :: "string list"
  ap_destinations :: "(string \<times> string) list"
  ap_clusterResources :: "(string \<times> string) list"
  ap_namespaceResources :: "(string \<times> string) list"
  ap_syncWindows :: "sync_window list"

record op_world =
  w_clusters :: "(string \<times> string, spx_cluster) fmap"
  w_secrets :: "(string \<times> string, secret) fmap"
  w_configmap :: "(string, string) fmap option"
  w_projects :: "(string, app_project) fmap"
  w_apps :: argo_store

record rest_config =
  rc_host :: string
  rc_username :: string
  rc_password :: string
  rc_bearerToken :: string
  rc_bearerTokenFile :: string
  rc_certData :: string
  rc_certFile :: string
  rc_keyData :: string
  rc_keyFile :: string
  rc_caData :: string
  rc_caFile :: string
  rc_insecure :: bool
  rc_serverName :: string

text \<open>A call on an object: the step of the reconciliation it belongs to, the verb and the name.\<close>

datatype op_verb = VGet | VList | VCreate | VUpdate | VDelete | VPatch

type_synonym op_call = "string \<times> op_verb \<times> string"

record op_env =
  oe_fails :: "op_call \<Rightarrow> go_error option"
  oe_argo :: argo_env
  oe_localConfig :: "go_error + rest_config"
  oe_readFile :: "string \<Rightarrow> go_error + string"
  oe_serverVersion :: "rest_config \<Rightarrow> go_error + string"
  oe_nodes :: "rest_config \<Rightarrow> go_error + int"
  oe_cephClient :: "rest_config \<Rightarrow> go_error option"
  oe_cephList :: "rest_config \<Rightarrow> go_error + (string option \<times> string) option list"
  oe_writeKubeconfig :: "go_error option"
  oe_unmarshalObject :: "string \<Rightarrow> (string, json) fmap option"

definition object_not_found :: "string \<Rightarrow> go_error" where
  "object_not_found name = \<lparr>err_msg = fmt_q name @ '' not found'', err_kind = KNotFound\<rparr>"

definition get_object :: "op_env \<Rightarrow> string \<Rightarrow> string \<Rightarrow> 'k \<Rightarrow> ('k, 'v) fmap \<Rightarrow> go_error + 'v" where
  "get_object E step name k m =
     (case oe_fails E (step, VGet, name) of
        Some e \<Rightarrow> Inl e
      | None \<Rightarrow> (case fmlookup m k of None \<Rightarrow> Inl (object_not_found name) | Some v \<Rightarrow> Inr v))"

definition CreateOrUpdate ::
  "op_env \<Rightarrow> string \<Rightarrow> string \<Rightarrow> 'k \<Rightarrow> 'v \<Rightarrow> ('v \<Rightarrow> go_error + 'v) \<Rightarrow> ('k, 'v) fmap
     \<Rightarrow> ('k, 'v) fmap \<times> go_error option" where
  "CreateOrUpdate E step name k blank f m =
     (case get_object E step name k m of
        Inl e \<Rightarrow>
          if IsNotFound e
          then (case f blank of
                  Inl e' \<Rightarrow> (m, Some e')
                | Inr v \<Rightarrow> (case oe_fails E (step, VCreate, name) of
                             Some e' \<Rightarrow> (m, Some e') | None \<Rightarrow> (fmupd k v m, None)))
          else (m, Some e)
      | Inr old \<Rightarrow>
          (case f old of
             Inl e' \<Rightarrow> (m, Some e')
           | Inr v \<Rightarrow>
               if v = old then (m, None)
               else (case oe_fails E (step, VUpdate, name) of
                       Some e' \<Rightarrow> (m, Some e') | None \<Rightarrow> (fmupd k v m, None))))"

lemma CreateOrUpdate_other:
  "CreateOrUpdate E step name k blank f m = (m', err) \<Longrightarrow> j \<noteq> k \<Longrightarrow> fmlookup m' j = fmlookup m j"
  by (auto simp: CreateOrUpdate_def split: sum.splits option.splits if_splits)

lemma CreateOrUpdate_ok:
  assumes "CreateOrUpdate E step name k blank f m = (m', None)"
  shows "\<exists>v. fmlookup m' k = Some v \<and>
    (fmlookup m k = None \<and> f blank = Inr v \<or> (\<exists>old. fmlookup m k = Some old \<and> f old = Inr v) \<or>
     (\<exists>e. oe_fails E (step, VGet, name) = Some e \<and> IsNotFound e \<and> f blank = Inr v))"
  using assms
  by (auto simp: CreateOrUpdate_def get_object_def split: sum.splits option.splits if_splits)

lemma CreateOrUpdate_fail:
  "CreateOrUpdate E step name k blank f m = (m', Some e) \<Longrightarrow> m' = m"
  by (auto simp: CreateOrUpdate_def split: sum.splits option.splits if_splits)

text \<open>An object has at most one controller: taking one that another cluster owns is an error.\<close>

definition SetControllerReference :: "spx_cluster \<Rightarrow> string option \<Rightarrow> go_error + string option" where
  "SetControllerReference cl owner =
     (case owner of
        None \<Rightarrow> Inr (Some (cl_name cl))
      | Some other \<Rightarrow> if other = cl_name cl then Inr (Some (cl_name cl))
                      else Inl (Errorf (''Object is already owned by another Cluster controller '' @ other)))"

definition AddFinalizer :: "string \<Rightarrow> string list \<Rightarrow> string list" where
  "AddFinalizer f fs = (if f \<in> set fs then fs else fs @ [f])"

definition RemoveFinalizer :: "string \<Rightarrow> string list \<Rightarrow> string list" where
  "RemoveFinalizer f fs = filter (\<lambda>x. x \<noteq> f) fs"


section \<open>Text of secrets\<close>

definition b64_char :: "nat \<Rightarrow> char" where
  "b64_char n =
     (if n < 26 then char_of (65 + n) else if n < 52 then char_of (71 + n)
      else if n < 62 then char_of (n - 4) else if n = 62 then CHR ''+'' else CHR ''/'')"

fun base64 :: "string \<Rightarrow> string" where
  "base64 (a # b # c # s) =
     (let x = of_char a :: nat; y = of_char b; z = of_char c
      in [b64_char (x div 4), b64_char ((x mod 4) * 16 + y div 16), b64_char ((y mod 16) * 4 + z div 64),
          b64_char (z mod 64)] @ base64 s)"
| "base64 [a, b] =
     (let x = of_char a :: nat; y = of_char b
      in [b64_char (x div 4), b64_char ((x mod 4) * 16 + y div 16), b64_char ((y mod 16) * 4), CHR ''=''])"
| "base64 [a] =
     (let x = of_char a :: nat in [b64_char (x div 4), b64_char ((x mod 4) * 16), CHR ''='', CHR ''=''])"
| "base64 [] = []"

definition json_char :: "char \<Rightarrow> string" where
  "json_char c =
     (let n = of_char c :: nat; bs = char_of (92::nat)
      in if n = 34 \<or> n = 92 then [bs, c]
         else if n = 8 then [bs, CHR ''b''] else if n = 12 then [bs, CHR ''f'']
         else if n = 10 then [bs, CHR ''n''] else if n = 13 then [bs, CHR ''r'']
         else if n = 9 then [bs, CHR ''t'']
         else if n < 32 \<or> n = 60 \<or> n = 62 \<or> n = 38
              then [bs, CHR ''u'', CHR ''0'', CHR ''0'', hex_char (n div 16), hex_char (n mod 16)]
         else [c])"

definition json_string :: "string \<Rightarrow> string" where
  "json_string s = [char_of (34::nat)] @ concat (map json_char s) @ [char_of (34::nat)]"

fun join :: "string \<Rightarrow> string list \<Rightarrow> string" where
  "join sep [] = []"
| "join sep [s] = s"
| "join sep (s # t # ss) = s @ sep @ join sep (t # ss)"

text \<open>\<^verbatim>\<open>json.Marshal\<close>: the keys of an object are written in order.\<close>

primrec json_marshal :: "json \<Rightarrow> string" where
  "json_marshal (JString s) = json_string s"
| "json_marshal (JInt n) = fmt_d n"
| "json_marshal (JBool b) = (if b then ''true'' else ''false'')"
| "json_marshal JNull = ''null''"
| "json_marshal (JList xs) = ''['' @ join '','' (map json_marshal xs) @ '']''"
| "json_marshal (JObject m) =
     ''{'' @ join '','' (map (\<lambda>(k, v). json_string k @ '':'' @ v) (gentries (fmmap json_marshal m))) @ ''}''"


section \<open>Credentials\<close>

record connection_data =
  cd_bearerToken :: string
  cd_username :: string
  cd_password :: string
  cd_caData :: string
  cd_certData :: string
  cd_keyData :: string
  cd_insecure :: bool
  cd_serverName :: string
  cd_hasAuth :: bool
  cd_tls :: "(string, json) fmap"

definition getData :: "secret \<Rightarrow> string \<Rightarrow> string option" where
  "getData secret key =
     (case fmlookup (se_data secret) key of Some v \<Rightarrow> Some v | None \<Rightarrow> fmlookup (se_stringData secret) key)"

definition getString :: "secret \<Rightarrow> string \<Rightarrow> string" where
  "getString secret key = (case getData secret key of Some v \<Rightarrow> TrimSpace v | None \<Rightarrow> [])"

definition tls_entry :: "string \<Rightarrow> string \<Rightarrow> (string, json) fmap \<Rightarrow> (string, json) fmap" where
  "tls_entry key bytes tls = (if bytes \<noteq> [] then fmupd key (JString (base64 bytes)) tls else tls)"

definition extractConnectionData :: "secret \<Rightarrow> connection_data" where
  "extractConnectionData secret =
     (let token = getString secret ''bearerToken'';
          username = getString secret ''username'';
          password = getString secret ''password'';
          caData = str_of (getData secret ''caData'');
          certData = str_of (getData secret ''certData'');
          keyData = str_of (getData secret ''keyData'');
          insecure = getString secret ''insecure'';
          serverName = getString secret ''serverName'';
          tls1 = tls_entry ''keyData'' keyData (tls_entry ''certData'' certData (tls_entry ''caData'' caData fmempty));
          tls2 = (if insecure \<noteq> [] then fmupd ''insecure'' (JBool (insecure = ''true'')) tls1 else tls1);
          tls3 = (if serverName \<noteq> [] then fmupd ''serverName'' (JString serverName) tls2 else tls2)
      in \<lparr>cd_bearerToken = token, cd_username = username, cd_password = password,
          cd_caData = caData, cd_certData = certData, cd_keyData = keyData,
          cd_insecure = (insecure = ''true''), cd_serverName = serverName,
          cd_hasAuth = (token \<noteq> [] \<or> username \<noteq> [] \<or> password \<noteq> [] \<or> (certData \<noteq> [] \<and> keyData \<noteq> [])),
          cd_tls = tls3\<rparr>)"

definition secret_key :: "spx_cluster \<Rightarrow> secret_ref \<Rightarrow> string \<times> string" where
  "secret_key cl ref = (if sr_namespace ref = [] then cl_namespace cl else sr_namespace ref, sr_name ref)"

text \<open>The body of the update of ArgoCD's secret.\<close>

definition argoSecretData :: "op_env \<Rightarrow> op_world \<Rightarrow> spx_cluster \<Rightarrow> connection_spec \<Rightarrow> go_error + (string, string) fmap" where
  "argoSecretData E W cl conn =
     (case cs_secretRef conn of
        None \<Rightarrow> Inl (errConfig ''connection.secretRef is required when Mode is Remote'')
      | Some ref \<Rightarrow>
          (case get_object E ''argocd-conn'' (sr_name ref) (secret_key cl ref) (w_secrets W) of
             Inl err \<Rightarrow> Inl err
           | Inr connSecret \<Rightarrow>
               (let d = extractConnectionData connSecret;
                    c1 = (if cd_bearerToken d \<noteq> [] then fmupd ''bearerToken'' (JString (cd_bearerToken d)) fmempty else fmempty);
                    c2 = (if cd_username d \<noteq> [] then fmupd ''username'' (JString (cd_username d)) c1 else c1);
                    c3 = (if cd_password d \<noteq> [] then fmupd ''password'' (JString (cd_password d)) c2 else c2);
                    config = fmupd ''tlsClientConfig'' (JObject (cd_tls d)) c3
                in if cd_bearerToken d = [] \<and> cd_username d = [] \<and> cd_password d = [] \<and> (cd_certData d = [] \<or> cd_keyData d = [])
                   then Inl (errInvalidSecret ''secret must contain either a bearerToken, a username/password pair or certData/keyData'')
                   else Inr (fmap_of_list [(''name'', cl_name cl), (''server'', cs_url conn),
                                           (''config'', json_marshal (JObject config))]))))"

definition argoSecretName :: "spx_cluster \<Rightarrow> string" where
  "argoSecretName cl = ''argocd-secret-'' @ cl_name cl"

definition empty_secret :: secret where
  "empty_secret = \<lparr>se_labels = fmempty, se_owner = None, se_data = fmempty, se_stringData = fmempty\<rparr>"

definition reconcileArgoCDSecret ::
  "('v, 'c) reconciler \<Rightarrow> op_env \<Rightarrow> spx_cluster \<Rightarrow> op_world \<Rightarrow> op_world \<times> go_error option" where
  "reconcileArgoCDSecret R E cl W =
     (case sp_connection (cl_spec cl) of
        None \<Rightarrow> (W, Some (panic ''nil pointer dereference''))
      | Some conn \<Rightarrow>
          if cs_mode conn \<noteq> ConnectionModeRemote then (W, None)
          else case CreateOrUpdate E ''argocd-secret'' (argoSecretName cl)
                      (OperatorNamespace R, argoSecretName cl) empty_secret
                      (\<lambda>s. bindR (SetControllerReference cl (se_owner s)) (\<lambda>owner.
                           bindR (argoSecretData E W cl conn) (\<lambda>data.
                           Inr (s\<lparr>se_labels := fmupd ClusterLabel (cl_name cl)
                                     (fmupd ''argocd.argoproj.io/secret-type'' ''cluster'' (se_labels s)),
                                  se_owner := owner, se_data := data\<rparr>)))) (w_secrets W) of
                 (secrets, err) \<Rightarrow> (W\<lparr>w_secrets := secrets\<rparr>, err))"


section \<open>Health\<close>

definition setReachableCondition :: "spx_cluster \<Rightarrow> string \<Rightarrow> string \<Rightarrow> string \<Rightarrow> spx_cluster" where
  "setReachableCondition cl status reason message =
     setStatusCondition cl ((new_condition ''Reachable'' status reason message)\<lparr>c_generation := cl_generation cl\<rparr>)"

definition buildRESTConfig :: "string \<Rightarrow> secret \<Rightarrow> go_error + rest_config" where
  "buildRESTConfig url secret =
     (let d = extractConnectionData secret
      in if \<not> cd_hasAuth d
         then Inl (errInvalidSecret ''secret must contain authentication credentials (username/password, bearerToken or certData/keyData)'')
         else Inr \<lparr>rc_host = url, rc_username = cd_username d, rc_password = cd_password d,
                   rc_bearerToken = cd_bearerToken d, rc_bearerTokenFile = [],
                   rc_certData = cd_certData d, rc_certFile = [], rc_keyData = cd_keyData d, rc_keyFile = [],
                   rc_caData = (if cd_insecure d then [] else cd_caData d), rc_caFile = [],
                   rc_insecure = cd_insecure d, rc_serverName = cd_serverName d\<rparr>)"

definition getRESTConfigForCluster ::
  "op_env \<Rightarrow> op_world \<Rightarrow> spx_cluster \<Rightarrow> spx_cluster \<times> (go_error + rest_config)" where
  "getRESTConfigForCluster E W cl =
     (let failed = (\<lambda>reason err. (setReachableCondition cl ''False'' reason (err_msg err), Inl err))
      in case sp_connection (cl_spec cl) of
           None \<Rightarrow> failed ''ConnectionConfigError'' (errConfig ''connection configuration is missing'')
         | Some conn \<Rightarrow>
             if cs_mode conn = ConnectionModeLocal
             then (case oe_localConfig E of
                     Inl err \<Rightarrow> failed ''ConnectionFailed'' err
                   | Inr config \<Rightarrow> (cl, Inr config))
             else if cs_url conn = []
             then failed ''ConnectionConfigError'' (errConfig ''connection URL must be provided in Remote mode'')
             else case cs_secretRef conn of
                    None \<Rightarrow> failed ''ConnectionConfigError'' (errConfig ''secret reference must be provided in Remote mode'')
                  | Some ref \<Rightarrow>
                      (case get_object E ''health'' (sr_name ref) (secret_key cl ref) (w_secrets W) of
                         Inl err \<Rightarrow> failed (if IsNotFound err then ''SecretNotFound'' else ''ConnectionFailed'') err
                       | Inr secret \<Rightarrow>
                           (case buildRESTConfig (cs_url conn) secret of
                              Inl err \<Rightarrow> failed (if err_kind err = KInvalidSecret then ''InvalidSecret'' else ''ConnectionFailed'') err
                            | Inr config \<Rightarrow> (cl, Inr config))))"

text \<open>The status of each Ceph cluster by its identifier; a later entry of the same identifier wins.\<close>

definition reconcileCephClusters :: "op_env \<Rightarrow> rest_config \<Rightarrow> go_error + (string, string) fmap option" where
  "reconcileCephClusters E config =
     (case oe_cephClient E config of
        Some err \<Rightarrow> Inl (ErrorfW ''failed to create dynamic client: '' err)
      | None \<Rightarrow>
          (case oe_cephList E config of
             Inl err \<Rightarrow> Inr None
           | Inr items \<Rightarrow>
               Inr (Some (fold (\<lambda>item result.
                 case item of
                   None \<Rightarrow> result
                 | Some (fsid, bytes) \<Rightarrow>
                     if str_of fsid = [] then result else fmupd (str_of fsid) bytes result) items fmempty))))"

definition reconcileHealth ::
  "op_env \<Rightarrow> op_world \<Rightarrow> spx_cluster
     \<Rightarrow> spx_cluster \<times> (go_error + (string \<times> int \<times> (string, string) fmap option))" where
  "reconcileHealth E W cl =
     (case getRESTConfigForCluster E W cl of
        (cl1, Inl err) \<Rightarrow> (cl1, Inl err)
      | (cl1, Inr config) \<Rightarrow>
          (case oe_serverVersion E config of
             Inl err \<Rightarrow> (cl1, Inl err)
           | Inr version \<Rightarrow>
               (let nodeCount = (case oe_nodes E config of Inl err \<Rightarrow> 0 | Inr n \<Rightarrow> n);
                    cephClusters = (case reconcileCephClusters E config of Inl err \<Rightarrow> None | Inr m \<Rightarrow> m)
                in (setReachableCondition cl1 ''True'' ''ConnectionSuccess'' ''Successfully connected to cluster'',
                    Inr (version, nodeCount, cephClusters)))))"


section \<open>The kubeconfig of the toolbox\<close>

record auth_info =
  ai_token :: string
  ai_username :: string
  ai_password :: string
  ai_certData :: string
  ai_keyData :: string

record kube_cluster =
  kc_server :: string
  kc_caData :: string
  kc_insecure :: bool
  kc_serverName :: string

record kubeconfig =
  kf_clusters :: "(string, kube_cluster) fmap"
  kf_users :: "(string, auth_info) fmap"
  kf_contexts :: "(string, string \<times> string) fmap"
  kf_current :: string

definition empty_kubeconfig :: kubeconfig where
  "empty_kubeconfig = \<lparr>kf_clusters = fmempty, kf_users = fmempty, kf_contexts = fmempty, kf_current = []\<rparr>"

definition mergeClusterIntoConfig :: "string \<Rightarrow> string \<Rightarrow> connection_data \<Rightarrow> kubeconfig \<Rightarrow> kubeconfig" where
  "mergeClusterIntoConfig clusterName serverURL conn cfg =
     \<lparr>kf_clusters = fmupd clusterName \<lparr>kc_server = serverURL, kc_caData = cd_caData conn,
         kc_insecure = cd_insecure conn, kc_serverName = cd_serverName conn\<rparr> (kf_clusters cfg),
      kf_users = fmupd clusterName \<lparr>ai_token = cd_bearerToken conn, ai_username = cd_username conn,
         ai_password = cd_password conn, ai_certData = cd_certData conn, ai_keyData = cd_keyData conn\<rparr> (kf_users cfg),
      kf_contexts = fmupd clusterName (clusterName, clusterName) (kf_contexts cfg),
      kf_current = (if kf_current cfg = [] then clusterName else kf_current cfg)\<rparr>"

text \<open>Data given inline, else read from the file the configuration names.\<close>

definition inline_or_file :: "op_env \<Rightarrow> string \<Rightarrow> string \<Rightarrow> string \<Rightarrow> go_error + string" where
  "inline_or_file E what data file =
     (if data = [] \<and> file \<noteq> []
      then (case oe_readFile E file of
              Inl err \<Rightarrow> Inl (ErrorfW (''failed to read '' @ what @ '' file '' @ file @ '': '') err)
            | Inr bytes \<Rightarrow> Inr bytes)
      else Inr data)"

definition mergeLocalClusterIntoConfig :: "op_env \<Rightarrow> string \<Rightarrow> kubeconfig \<Rightarrow> go_error + kubeconfig" where
  "mergeLocalClusterIntoConfig E clusterName cfg =
     (case oe_localConfig E of
        Inl err \<Rightarrow> Inl (ErrorfW ''failed to get in-cluster REST config: '' err)
      | Inr rc \<Rightarrow>
          bindR (inline_or_file E ''CA'' (rc_caData rc) (rc_caFile rc)) (\<lambda>caData.
          bindR (inline_or_file E ''cert'' (rc_certData rc) (rc_certFile rc)) (\<lambda>certData.
          bindR (inline_or_file E ''key'' (rc_keyData rc) (rc_keyFile rc)) (\<lambda>keyData.
          bindR (if rc_bearerToken rc = [] \<and> rc_bearerTokenFile rc \<noteq> []
                 then (case inline_or_file E ''bearer token'' [] (rc_bearerTokenFile rc) of
                         Inl err \<Rightarrow> Inl err | Inr bytes \<Rightarrow> Inr (TrimSpace bytes))
                 else Inr (rc_bearerToken rc)) (\<lambda>token.
          Inr (mergeClusterIntoConfig clusterName (rc_host rc)
                 \<lparr>cd_bearerToken = token, cd_username = rc_username rc, cd_password = rc_password rc,
                  cd_caData = caData, cd_certData = certData, cd_keyData = keyData,
                  cd_insecure = rc_insecure rc, cd_serverName = rc_serverName rc,
                  cd_hasAuth = False, cd_tls = fmempty\<rparr> cfg))))))"

definition mergeToolboxCluster :: "op_env \<Rightarrow> op_world \<Rightarrow> spx_cluster \<Rightarrow> kubeconfig \<Rightarrow> kubeconfig" where
  "mergeToolboxCluster E W cl merged =
     (case sp_connection (cl_spec cl) of
        None \<Rightarrow> merged
      | Some conn \<Rightarrow>
          (case cs_mode conn of
             ConnectionModeLocal \<Rightarrow>
               (case mergeLocalClusterIntoConfig E (cl_name cl) merged of Inl err \<Rightarrow> merged | Inr cfg \<Rightarrow> cfg)
           | ConnectionModeRemote \<Rightarrow>
               (case cs_secretRef conn of
                  None \<Rightarrow> merged
                | Some ref \<Rightarrow>
                    (case get_object E ''toolbox-conn'' (cl_name cl) (secret_key cl ref) (w_secrets W) of
                       Inl err \<Rightarrow> merged
                     | Inr connSecret \<Rightarrow>
                         mergeClusterIntoConfig (cl_name cl) (cs_url conn) (extractConnectionData connSecret) merged))))"

definition ToolboxKubeconfigSecretName :: string where
  "ToolboxKubeconfigSecretName = ''superphenix-toolbox-kubeconfig''"

definition namespaceClusters :: "string \<Rightarrow> op_world \<Rightarrow> spx_cluster list" where
  "namespaceClusters ns W = map snd (filter (\<lambda>((n, _), _). n = ns) (gentries (w_clusters W)))"

definition toolboxConfig :: "('v, 'c) reconciler \<Rightarrow> op_env \<Rightarrow> op_world \<Rightarrow> kubeconfig" where
  "toolboxConfig R E W = fold (mergeToolboxCluster E W) (namespaceClusters (OperatorNamespace R) W) empty_kubeconfig"

text \<open>\<open>wr\<close> stands for \<^verbatim>\<open>clientcmd.Write\<close>, the serialisation of the client library.\<close>

definition reconcileToolboxKubeconfigSecret ::
  "('v, 'c) reconciler \<Rightarrow> op_env \<Rightarrow> (kubeconfig \<Rightarrow> string) \<Rightarrow> op_world \<Rightarrow> op_world \<times> go_error option" where
  "reconcileToolboxKubeconfigSecret R E wr W =
     (case oe_fails E (''toolbox'', VList, ''clusters'') of
        Some err \<Rightarrow> (W, Some (ErrorfW ''failed to list clusters: '' err))
      | None \<Rightarrow>
          (case oe_writeKubeconfig E of
             Some err \<Rightarrow> (W, Some (ErrorfW ''failed to serialize merged kubeconfig: '' err))
           | None \<Rightarrow>
               (case CreateOrUpdate E ''toolbox'' ToolboxKubeconfigSecretName
                       (OperatorNamespace R, ToolboxKubeconfigSecretName) empty_secret
                       (\<lambda>s. Inr (s\<lparr>se_data := fmupd ''kubeconfig'' (wr (toolboxConfig R E W)) fmempty\<rparr>)) (w_secrets W) of
                  (secrets, Some err) \<Rightarrow>
                    (W\<lparr>w_secrets := secrets\<rparr>, Some (ErrorfW ''failed to upsert toolbox kubeconfig secret: '' err))
                | (secrets, None) \<Rightarrow> (W\<lparr>w_secrets := secrets\<rparr>, None))))"


section \<open>Properties of connections\<close>

text \<open>The two checks for credentials, one for ArgoCD and one for the health check, agree.\<close>

lemma hasAuth_iff:
  "cd_hasAuth (extractConnectionData secret) \<longleftrightarrow>
     \<not> (cd_bearerToken (extractConnectionData secret) = [] \<and> cd_username (extractConnectionData secret) = [] \<and>
        cd_password (extractConnectionData secret) = [] \<and>
        (cd_certData (extractConnectionData secret) = [] \<or> cd_keyData (extractConnectionData secret) = []))"
  by (simp add: extractConnectionData_def Let_def)

lemma argoSecretData_iff_buildRESTConfig:
  assumes "cs_secretRef conn = Some ref"
    and "get_object E ''argocd-conn'' (sr_name ref) (secret_key cl ref) (w_secrets W) = Inr secret"
  shows "(\<exists>d. argoSecretData E W cl conn = Inr d) \<longleftrightarrow> (\<exists>c. buildRESTConfig (cs_url conn) secret = Inr c)"
  using assms hasAuth_iff [of secret] by (simp add: argoSecretData_def buildRESTConfig_def Let_def)

text \<open>A certificate authority is never used for a connection that skips the verification.\<close>

lemma buildRESTConfig_insecure:
  "buildRESTConfig url secret = Inr c \<Longrightarrow> rc_insecure c \<Longrightarrow> rc_caData c = []"
  by (auto simp: buildRESTConfig_def Let_def split: if_splits)

lemma reconcileHealth_frame:
  assumes "reconcileHealth E W cl = (cl', r)"
  shows "cl_spec cl' = cl_spec cl" "cl_name cl' = cl_name cl" "cl_generation cl' = cl_generation cl"
    "conditions_wf (st_conditions (cl_status cl)) \<Longrightarrow> conditions_wf (st_conditions (cl_status cl'))"
    "st_phase (cl_status cl') = st_phase (cl_status cl)"
  using assms
  by (auto simp: reconcileHealth_def getRESTConfigForCluster_def setReachableCondition_def Let_def
      split: sum.splits option.splits if_splits)

lemma reconcileHealth_reachable:
  assumes "reconcileHealth E W cl = (cl', Inr r)"
  shows "\<exists>re m. status_cond cl' ''Reachable'' = Some (''True'', re, m)"
  using assms
  by (auto simp: reconcileHealth_def setReachableCondition_def new_condition_def content_of_def Let_def
      split: sum.splits option.splits if_splits prod.splits)

end
