(* ===== verification/Op_Deploy.thy ===== *)
theory Op_Deploy
  imports Op_Connection
begin

text \<open>
  What the operator deploys for a cluster: the ArgoCD project (\<^verbatim>\<open>cluster/project.go\<close>), the root
  Application (\<^verbatim>\<open>cluster/application.go\<close>), the entry in the shared ConfigMap
  (\<^verbatim>\<open>cluster/configmap.go\<close>), and the cleanup before a cluster goes (\<^verbatim>\<open>cluster/cleanup.go\<close>).
\<close>

section \<open>The ArgoCD project\<close>

definition argocdFinalizer :: string where
  "argocdFinalizer = ''resources-finalizer.argocd.argoproj.io''"

definition empty_project :: app_project where
  "empty_project = \<lparr>ap_owner = None, ap_finalizers = [], ap_description = [], ap_sourceRepos = [],
     ap_destinations = [], ap_clusterResources = [], ap_namespaceResources = [], ap_syncWindows = []\<rparr>"

definition is_local :: "spx_cluster \<Rightarrow> bool" where
  "is_local cl \<longleftrightarrow> (case sp_connection (cl_spec cl) of None \<Rightarrow> False | Some conn \<Rightarrow> cs_mode conn = ConnectionModeLocal)"

definition destName :: "spx_cluster \<Rightarrow> string" where
  "destName cl = (if is_local cl then ''in-cluster'' else cl_name cl)"

definition buildAppProjectSpec :: "('v, 'c) reconciler \<Rightarrow> spx_cluster \<Rightarrow> app_project \<Rightarrow> app_project" where
  "buildAppProjectSpec R cl p =
     p\<lparr>ap_description := ''Project for cluster '' @ cl_name cl,
       ap_sourceRepos := [''*''],
       ap_destinations := [(destName cl, ''*'')] @
         (if destName cl \<noteq> ''in-cluster'' then [(''in-cluster'', OperatorNamespace R)] else []),
       ap_clusterResources := [(''*'', ''*'')],
       ap_namespaceResources := [(''*'', ''*'')],
       ap_syncWindows :=
         (if paused cl
          then [\<lparr>sw_kind = ''deny'', sw_schedule = ''0 0 * * *'', sw_duration = ''24h'', sw_manualSync = False,
                 sw_applications = [''*''], sw_clusters = [destName cl, ''in-cluster''], sw_namespaces = [''*'']\<rparr>]
          else [])\<rparr>"

definition reconcileAppProject ::
  "('v, 'c) reconciler \<Rightarrow> op_env \<Rightarrow> spx_cluster \<Rightarrow> op_world \<Rightarrow> op_world \<times> go_error option" where
  "reconcileAppProject R E cl W =
     (case CreateOrUpdate E ''project'' (cl_name cl) (cl_name cl) empty_project
             (\<lambda>p. bindR (SetControllerReference cl (ap_owner p)) (\<lambda>owner.
                  Inr (buildAppProjectSpec R cl
                    (p\<lparr>ap_finalizers := AddFinalizer argocdFinalizer (ap_finalizers p), ap_owner := owner\<rparr>))))
             (w_projects W) of
        (projects, err) \<Rightarrow> (W\<lparr>w_projects := projects\<rparr>, err))"


section \<open>The root Application\<close>

definition initApplication :: "spx_cluster \<Rightarrow> argo_app" where
  "initApplication cl = \<lparr>app_name = cl_name cl, app_labels = fmempty, app_owner = None, app_finalizers = [],
     app_spec = None, app_sources = [], app_health = None, app_sync = None, app_phase = None,
     app_startedAt = None, app_finishedAt = None, app_reconciledAt = None, app_operation = False\<rparr>"

definition setApplicationLabels :: "spx_cluster \<Rightarrow> argo_app \<Rightarrow> argo_app" where
  "setApplicationLabels cl app =
     app\<lparr>app_labels := fmupd RootApplicationLabel ''true'' (fmupd ManagedLabel ''true''
                        (fmupd ClusterLabel (cl_name cl) (app_labels app)))\<rparr>"

definition setApplicationOwnership :: "spx_cluster \<Rightarrow> argo_app \<Rightarrow> go_error + argo_app" where
  "setApplicationOwnership cl app =
     bindR (SetControllerReference cl (app_owner app)) (\<lambda>owner. Inr (app\<lparr>app_owner := owner\<rparr>))"

text \<open>Both the Application and its chart values name the version of the cluster, or the default one.\<close>

definition deployedVersion :: "('v, 'c) reconciler \<Rightarrow> spx_cluster \<Rightarrow> string" where
  "deployedVersion R cl = (if sp_version (cl_spec cl) \<noteq> [] then sp_version (cl_spec cl) else SystemChartVersion R)"

definition topology_string :: "topology \<Rightarrow> string" where
  "topology_string t = (case t of TopologyEmpty \<Rightarrow> []
     | DeploymentTopologyHyperconverged \<Rightarrow> ''Hyperconverged'' | DeploymentTopologyDecoupled \<Rightarrow> ''Decoupled'')"

definition type_string :: "cluster_type \<Rightarrow> string" where
  "type_string t = (case t of ClusterTypeStorage \<Rightarrow> ''Storage'' | ClusterTypeWorkload \<Rightarrow> ''Workload''
     | ClusterTypeManagement \<Rightarrow> ''Management'')"

definition generateApplicationValues ::
  "('v, 'c) reconciler \<Rightarrow> op_env \<Rightarrow> spx_cluster \<Rightarrow> (string, json) fmap" where
  "generateApplicationValues R E cl =
     (let spec = cl_spec cl;
          cluster0 = fmap_of_list
            [(''name'', JString (cl_name cl)), (''local'', JBool (is_local cl)),
             (''region'', JString (sp_region spec)), (''availabilityZone'', JString (sp_availabilityZone spec)),
             (''deploymentTopology'', JString (topology_string (sp_topology spec)))];
          cluster1 = (case sp_type spec of None \<Rightarrow> cluster0 | Some t \<Rightarrow> fmupd ''type'' (JString (type_string t)) cluster0);
          cluster2 = fmupd ''version'' (JString (deployedVersion R cl)) cluster1;
          values = fmap_of_list
            [(''cluster'', JObject cluster2),
             (''argocd'', JObject (fmap_of_list [(''namespace'', JString (OperatorNamespace R)), (''project'', JString (cl_name cl))])),
             (''forceManual'', JBool (manual cl)),
             (''cleanupOnDeletion'', JBool (cleanupOnDeletion cl))]
      in case sp_systemConfiguration spec of
           None \<Rightarrow> values
         | Some raw \<Rightarrow> (case oe_unmarshalObject E raw of None \<Rightarrow> values | Some systemConfig \<Rightarrow> values ++\<^sub>f systemConfig))"

definition buildApplicationSpec :: "('v, 'c) reconciler \<Rightarrow> op_env \<Rightarrow> spx_cluster \<Rightarrow> app_spec" where
  "buildApplicationSpec R E cl =
     \<lparr>as_project = cl_name cl,
      as_repoURL = (case sp_systemLocation (cl_spec cl) of
                      None \<Rightarrow> SystemChartURL R
                    | Some l \<Rightarrow> if sl_repoURL l \<noteq> [] then sl_repoURL l else SystemChartURL R),
      as_chart = (case sp_systemLocation (cl_spec cl) of
                    None \<Rightarrow> SystemChartName R
                  | Some l \<Rightarrow> if sl_chartName l \<noteq> [] then sl_chartName l else SystemChartName R),
      as_targetRevision = Some (deployedVersion R cl),
      as_values = generateApplicationValues R E cl,
      as_destination = (''in-cluster'', OperatorNamespace R),
      as_autoEnabled = Some (\<not> paused cl \<and> \<not> manual cl),
      as_prune = True, as_selfHeal = True,
      as_syncOptions = [''CreateNamespace=true'', ''PrunePropagationPolicy=foreground'', ''PruneLast=true'',
                        ''SkipDryRunOnMissingResource=true''],
      as_retry = Some (5, ''30s'', 2, ''3m'')\<rparr>"

definition cleanupFinalizer :: "spx_cluster \<Rightarrow> argo_app \<Rightarrow> argo_app" where
  "cleanupFinalizer cl app =
     app\<lparr>app_finalizers := (if cleanupOnDeletion cl then AddFinalizer argocdFinalizer (app_finalizers app)
                            else RemoveFinalizer argocdFinalizer (app_finalizers app))\<rparr>"

definition reconcileApplication ::
  "('v, 'c) reconciler \<Rightarrow> op_env \<Rightarrow> spx_cluster \<Rightarrow> op_world \<Rightarrow> op_world \<times> go_error option" where
  "reconcileApplication R E cl W =
     (case CreateOrUpdate E ''application'' (cl_name cl) (cl_name cl) (initApplication cl)
             (\<lambda>app. bindR (setApplicationOwnership cl (setApplicationLabels cl app)) (\<lambda>app1.
                    Inr ((cleanupFinalizer cl app1)\<lparr>app_spec := Some (buildApplicationSpec R E cl), app_sources := []\<rparr>)))
             (w_apps W) of
        (apps, err) \<Rightarrow> (W\<lparr>w_apps := apps\<rparr>, err))"


section \<open>The shared ConfigMap\<close>

definition reconcileClustersConfigMap ::
  "('v, 'c) reconciler \<Rightarrow> op_env \<Rightarrow> spx_cluster \<Rightarrow> op_world \<Rightarrow> op_world \<times> go_error option" where
  "reconcileClustersConfigMap R E cl W =
     (let name = ClustersConfigMapName R
      in if name = [] then (W, None)
         else case oe_fails E (''configmap'', VGet, name) of
           Some err \<Rightarrow>
             if IsNotFound err
             then (case oe_fails E (''configmap'', VCreate, name) of
                     Some err' \<Rightarrow> (W, Some err')
                   | None \<Rightarrow> (case w_configmap W of
                                Some _ \<Rightarrow> (W, Some (Errorf (fmt_q name @ '' already exists'')))
                              | None \<Rightarrow> (W\<lparr>w_configmap := Some (fmupd (cl_name cl) [] fmempty)\<rparr>, None)))
             else (W, Some err)
         | None \<Rightarrow>
             (case w_configmap W of
                None \<Rightarrow> (case oe_fails E (''configmap'', VCreate, name) of
                           Some err' \<Rightarrow> (W, Some err')
                         | None \<Rightarrow> (W\<lparr>w_configmap := Some (fmupd (cl_name cl) [] fmempty)\<rparr>, None))
              | Some data \<Rightarrow>
                  if fmlookup data (cl_name cl) \<noteq> None then (W, None)
                  else case oe_fails E (''configmap'', VUpdate, name) of
                         Some err' \<Rightarrow> (W, Some err')
                       | None \<Rightarrow> (W\<lparr>w_configmap := Some (fmupd (cl_name cl) [] data)\<rparr>, None)))"

definition removeClusterFromConfigMap ::
  "('v, 'c) reconciler \<Rightarrow> op_env \<Rightarrow> spx_cluster \<Rightarrow> op_world \<Rightarrow> op_world \<times> go_error option" where
  "removeClusterFromConfigMap R E cl W =
     (let name = ClustersConfigMapName R
      in if name = [] then (W, None)
         else case oe_fails E (''configmap-cleanup'', VGet, name) of
           Some err \<Rightarrow> if IsNotFound err then (W, None) else (W, Some err)
         | None \<Rightarrow>
             (case w_configmap W of
                None \<Rightarrow> (W, None)
              | Some data \<Rightarrow>
                  if fmlookup data (cl_name cl) = None then (W, None)
                  else case oe_fails E (''configmap-cleanup'', VUpdate, name) of
                         Some err' \<Rightarrow> (W, Some err')
                       | None \<Rightarrow> (W\<lparr>w_configmap := Some (fmdrop (cl_name cl) data)\<rparr>, None)))"


section \<open>Cleanup\<close>

definition cleanupCluster ::
  "('v, 'c) reconciler \<Rightarrow> op_env \<Rightarrow> spx_cluster \<Rightarrow> op_world \<Rightarrow> op_world \<times> go_error option" where
  "cleanupCluster R E cl W =
     (let rd = reader_at (oe_argo E) 4 (w_apps W);
          root = fetchApplication rd (cl_name cl)
      in case (case root of Inl err \<Rightarrow> if IsNotFound err then None else Some err | Inr _ \<Rightarrow> None) of
           Some err \<Rightarrow> (W, Some (ErrorfW ''failed to check root application: '' err))
         | None \<Rightarrow>
             (case listSubApplications rd (cl_name cl) of
                Inl err \<Rightarrow> (W, Some (ErrorfW ''failed to list sub-applications: '' err))
              | Inr subApps \<Rightarrow>
                  let appNames = (case root of Inl _ \<Rightarrow> [] | Inr a \<Rightarrow> [app_name a]) @ map app_name subApps
                  in if appNames \<noteq> []
                     then (W, Some (Errorf (''waiting for '' @ fmt_d (int (length appNames)) @ '' ArgoCD applications to be deleted'')))
                     else case removeClusterFromConfigMap R E cl W of
                            (W1, Some err) \<Rightarrow> (W1, Some (ErrorfW ''failed to remove cluster from configmap: '' err))
                          | (W1, None) \<Rightarrow> (W1, None)))"


section \<open>Lemmas\<close>

lemma removeClusterFromConfigMap_frame:
  assumes "removeClusterFromConfigMap R E cl W = (W', err)"
  shows "w_apps W' = w_apps W \<and> w_projects W' = w_projects W \<and> w_secrets W' = w_secrets W \<and> w_clusters W' = w_clusters W"
  using assms by (auto simp: removeClusterFromConfigMap_def Let_def split: option.splits if_splits)

text \<open>Cleanup ends only when the reads show neither the root Application nor a sub-application.\<close>

lemma cleanupCluster_done:
  assumes "cleanupCluster R E cl W = (W', None)" and "cache_ok (oe_argo E)"
    and "\<And>c e. ae_fails (oe_argo E) c = Some e \<Longrightarrow> \<not> IsNotFound e"
  shows "fmlookup (w_apps W) (cl_name cl) = None \<and>
    (\<forall>name app. fmlookup (w_apps W) name = Some app \<longrightarrow> \<not> labelled (cl_name cl) app)"
proof -
  let ?v = "ae_view (oe_argo E) 4 (w_apps W)"
  have root: "fmlookup ?v (cl_name cl) = None"
    using assms(1,3)
    by (auto simp: cleanupCluster_def fetchApplication_def reader_at_def Let_def split: option.splits sum.splits if_splits)
  have subs: "filter (labelled (cl_name cl)) (map snd (gentries ?v)) = []"
    using assms(1)
    by (auto simp: cleanupCluster_def listSubApplications_def reader_at_def Let_def
        simp del: filter_empty_conv split: option.splits sum.splits if_splits)
  have same: "same_object (fmlookup ?v n) (fmlookup (w_apps W) n)" for n
    using assms(2) by (simp add: cache_ok_def)
  have "fmlookup (w_apps W) (cl_name cl) = None"
    using root same [of "cl_name cl"] by (cases "fmlookup (w_apps W) (cl_name cl)") (auto simp: same_object_def)
  moreover have "\<not> labelled (cl_name cl) app" if "fmlookup (w_apps W) name = Some app" for name app
  proof
    assume "labelled (cl_name cl) app"
    moreover from cache_lookup [OF assms(2) that]
    obtain v where v: "fmlookup ?v name = Some v" "app_labels v = app_labels app" by metis
    ultimately have "v \<in> set (filter (labelled (cl_name cl)) (map snd (gentries ?v)))"
      using set_gentries [of name v ?v] by (force simp: labelled_def)
    with subs show False by simp
  qed
  ultimately show ?thesis by blast
qed

lemma cleanupCluster_forgets:
  assumes "cleanupCluster R E cl W = (W', None)" "ClustersConfigMapName R \<noteq> []"
    and "\<And>e. oe_fails E (''configmap-cleanup'', VGet, ClustersConfigMapName R) = Some e \<Longrightarrow> \<not> IsNotFound e"
  shows "\<forall>data. w_configmap W' = Some data \<longrightarrow> fmlookup data (cl_name cl) = None"
  using assms
  by (auto simp: cleanupCluster_def removeClusterFromConfigMap_def Let_def
      split: option.splits sum.splits if_splits prod.splits)

text \<open>After a successful reconciliation of the Application it asks for the cluster's version.\<close>

lemma reconcileApplication_ok:
  assumes "reconcileApplication R E cl W = (W', None)"
  shows "\<exists>app. fmlookup (w_apps W') (cl_name cl) = Some app \<and> app_spec app = Some (buildApplicationSpec R E cl) \<and>
    labelled (cl_name cl) app \<and> app_owner app = Some (cl_name cl)"
proof -
  obtain apps where c: "CreateOrUpdate E ''application'' (cl_name cl) (cl_name cl) (initApplication cl)
      (\<lambda>app. bindR (setApplicationOwnership cl (setApplicationLabels cl app)) (\<lambda>app1.
         Inr ((cleanupFinalizer cl app1)\<lparr>app_spec := Some (buildApplicationSpec R E cl), app_sources := []\<rparr>)))
      (w_apps W) = (apps, None)" "W' = W\<lparr>w_apps := apps\<rparr>"
    using assms by (auto simp: reconcileApplication_def split: prod.splits)
  from CreateOrUpdate_ok [OF c(1)] obtain app old where
    "fmlookup apps (cl_name cl) = Some app"
    "bindR (setApplicationOwnership cl (setApplicationLabels cl old)) (\<lambda>app1.
         Inr ((cleanupFinalizer cl app1)\<lparr>app_spec := Some (buildApplicationSpec R E cl), app_sources := []\<rparr>)) = Inr app"
    by blast
  then show ?thesis
    by (auto simp: c(2) result_simps setApplicationOwnership_def SetControllerReference_def labelled_def
        setApplicationLabels_def cleanupFinalizer_def ClusterLabel_def ManagedLabel_def RootApplicationLabel_def
        split: option.splits if_splits)
qed

lemma reconcileApplication_frame:
  assumes "reconcileApplication R E cl W = (W', err)"
  shows "err \<noteq> None \<Longrightarrow> W' = W" "name \<noteq> cl_name cl \<Longrightarrow> fmlookup (w_apps W') name = fmlookup (w_apps W) name"
proof -
  from assms show "err \<noteq> None \<Longrightarrow> W' = W"
    by (auto simp: reconcileApplication_def dest: CreateOrUpdate_fail split: prod.splits)
  from assms show "name \<noteq> cl_name cl \<Longrightarrow> fmlookup (w_apps W') name = fmlookup (w_apps W) name"
    by (auto simp: reconcileApplication_def dest: CreateOrUpdate_other split: prod.splits)
qed

end
