(* ===== verification/Op_Talos.thy ===== *)
theory Op_Talos
  imports Op_Deploy
begin

text \<open>
  The nodes of a cluster that the operator installs itself
  (\<^verbatim>\<open>internal/superphenix-operator/cluster/talos_manager.go\<close>): the Application of the talos-manager
  chart, the network names handed to the nodes, the boot from the network through each node's
  management controller, and the connection secret made from Talos' kubeconfig.

  The JSON and YAML decoders, the compression, the Redfish client and the TalosMachine objects are
  parameters (\<open>talos_env\<close>). What the operator does to the nodes is the list of \<open>bmc_action\<close>s.
\<close>

section \<open>Configuration\<close>

record cluster_network =
  cn_ipv4 :: string
  cn_ipv6 :: string
  cn_cidrIpv4 :: int
  cn_cidrIpv6 :: int
  cn_vlanId :: int
  cn_gatewayIpv4 :: string
  cn_gatewayIpv6 :: string
  cn_linkMtu :: int

record network_spec =
  ns_ipv4 :: string
  ns_ipv6 :: string
  ns_cidrIpv4 :: int
  ns_cidrIpv6 :: int
  ns_vlanId :: int
  ns_linkMtu :: int

record subnet_spec =
  ss_ipv4 :: string
  ss_ipv6 :: string
  ss_cidrIpv4 :: int
  ss_cidrIpv6 :: int

record node_address =
  na_ipv4 :: string
  na_ipv6 :: string

record bond_interface =
  bi_name :: string
  bi_macAddress :: string

record lacp_bond =
  lb_enabled :: bool
  lb_lacpRate :: string
  lb_xmitHashPolicy :: string
  lb_miimon :: int
  lb_updelay :: int
  lb_downdelay :: int
  lb_linkMtu :: int
  lb_physicalInterfaces :: "bond_interface list"

record node_interface =
  nf_name :: string
  nf_clusterNetwork :: node_address
  nf_publicNetwork :: node_address
  nf_storageNetwork :: node_address
  nf_useVlan :: bool
  nf_lacpBond :: lacp_bond
  nf_physicalMacAddress :: string

record node_spec =
  no_hostname :: string
  no_type :: string
  no_cpuArchitecture :: string
  no_pxeMacAddress :: string
  no_kernelCmdlineArgs :: string
  no_pxeSetup :: bool
  no_ipmiIpv4 :: string
  no_ipmiUser :: string
  no_ipmiPassword :: string
  no_pxeInterfaceName :: string
  no_interface :: node_interface
  no_installDisk :: "bool \<times> string"
  no_machineOverrides :: "json list"

record talos_config =
  tc_pxeEnabled :: bool
  tc_dhcpInterface :: string
  tc_pxeIpAddr :: string
  tc_clusterName :: string
  tc_clusterType :: string
  tc_reconciliationMode :: string
  tc_clusterNetwork :: cluster_network
  tc_publicNetwork :: network_spec
  tc_storageNetwork :: network_spec
  tc_podSubnets :: subnet_spec
  tc_serviceSubnets :: subnet_spec
  tc_controlplaneIpv4 :: string
  tc_controlplaneIpv6 :: string
  tc_controlplanePort :: int
  tc_argocdToken :: string
  tc_talosVersion :: string
  tc_k8sVersion :: string
  tc_machineGlobalOverrides :: "json list"
  tc_machineOverridesControlPlane :: "json list"
  tc_machineOverridesWorker :: "json list"
  tc_nodes :: "node_spec list"
  tc_imagePullPolicy :: string

record talos_machine =
  tm_cluster :: string
  tm_state :: string
  tm_endpoint :: string

datatype bmc_action =
    BiosPatch string "(string \<times> json) list"
  | BootFromNetwork string
  | PowerOn string
  | ForceRestart string

record redfish =
  rf_connect :: "node_spec \<Rightarrow> go_error option"
  rf_systems :: "node_spec \<Rightarrow> go_error + (string \<times> bool) list"
  rf_bios :: "node_spec \<Rightarrow> go_error option"
  rf_updateBios :: "node_spec \<Rightarrow> go_error option"
  rf_setBoot :: "node_spec \<Rightarrow> go_error option"
  rf_reset :: "node_spec \<Rightarrow> go_error option"

record talos_env =
  te_decode :: "bool \<Rightarrow> string \<Rightarrow> go_error + talos_config"
  te_values :: "talos_config \<Rightarrow> go_error + (string, json) fmap"
  te_zstd :: "string \<Rightarrow> go_error + string"
  te_redfish :: redfish
  te_machines :: "go_error + talos_machine list"
  te_patchStatus :: "go_error option"
  te_kubeconfig :: "string \<Rightarrow> go_error + (string list \<times> (string \<times> string) list)"


section \<open>Names of the network interfaces\<close>

definition lower_char :: "char \<Rightarrow> char" where
  "lower_char c = (let n = of_char c :: nat in if 65 \<le> n \<and> n \<le> 90 then char_of (n + 32) else c)"

definition nl :: string where "nl = [char_of (10::nat)]"
definition dq :: string where "dq = [char_of (34::nat)]"

definition LinkAlias :: "string \<Rightarrow> string \<Rightarrow> string" where
  "LinkAlias name mac =
     ''apiVersion: v1alpha1'' @ nl @ ''kind: LinkAliasConfig'' @ nl @ ''name: '' @ name @ nl @ ''selector:'' @ nl @
     ''  match: mac(link.permanent_addr) == '' @ dq @ mac @ dq"

definition linkAliases :: "node_spec \<Rightarrow> string" where
  "linkAliases node =
     (let i = no_interface node
      in if lb_enabled (nf_lacpBond i)
         then foldl (\<lambda>acc iface. acc @ nl @ ''---'' @ nl @ LinkAlias (bi_name iface) (map lower_char (bi_macAddress iface)))
                    [] (lb_physicalInterfaces (nf_lacpBond i))
         else LinkAlias (nf_name i) (map lower_char (nf_physicalMacAddress i)))"

definition injectNode :: "talos_env \<Rightarrow> node_spec \<Rightarrow> go_error + node_spec" where
  "injectNode T node =
     (case te_zstd T (linkAliases node) of
        Inl err \<Rightarrow> Inl err
      | Inr bytes \<Rightarrow>
          let final = ''talos.config.inline='' @ base64 bytes
          in Inr (node\<lparr>no_kernelCmdlineArgs :=
                    (if no_kernelCmdlineArgs node \<noteq> [] then final @ '' '' @ no_kernelCmdlineArgs node else final)\<rparr>))"

fun injectNodes :: "talos_env \<Rightarrow> node_spec list \<Rightarrow> go_error + node_spec list" where
  "injectNodes T [] = Inr []"
| "injectNodes T (n # ns) = bindR (injectNode T n) (\<lambda>n'. bindR (injectNodes T ns) (\<lambda>ns'. Inr (n' # ns')))"

definition injectLinkAliases :: "talos_env \<Rightarrow> talos_config \<Rightarrow> go_error + talos_config" where
  "injectLinkAliases T config = bindR (injectNodes T (tc_nodes config)) (\<lambda>nodes. Inr (config\<lparr>tc_nodes := nodes\<rparr>))"


section \<open>Booting the nodes from the network\<close>

definition DELL :: string where "DELL = ''Dell Inc.''"
definition LENOVO :: string where "LENOVO = ''Lenovo''"

definition pxePatch :: "talos_config \<Rightarrow> node_spec \<Rightarrow> string \<Rightarrow> (string \<times> json) list" where
  "pxePatch config node manufacturer =
     (if manufacturer = DELL
      then [(''BootMode'', JString ''Uefi''), (''PxeDev1EnDis'', JString ''Enabled''),
            (''PxeDev1Protocol'', JString ''IPv4''), (''PxeDev1Interface'', JString (no_pxeInterfaceName node))] @
           (if nf_useVlan (no_interface node)
            then [(''PxeDev1VlanEnDis'', JString ''Enabled''),
                  (''PxeDev1VlanId'', JInt (cn_vlanId (tc_clusterNetwork config)))] else [])
      else [(''BootModes_SystemBootMode'', JString ''UEFIMode''),
            (''NetworkStackSettings_NetworkStack'', JString ''Enable''),
            (''NetworkStackSettings_IPv4PXESupport'', JString ''Enable'')])"

text \<open>What is done to one node, up to the first call that fails.\<close>

definition setupNode :: "talos_env \<Rightarrow> talos_config \<Rightarrow> node_spec \<Rightarrow> bmc_action list \<times> go_error option" where
  "setupNode T config node =
     (let rf = te_redfish T; host = no_hostname node
      in case rf_connect rf node of
           Some err \<Rightarrow> ([], Some err)
         | None \<Rightarrow>
           (case rf_systems rf node of
              Inl err \<Rightarrow> ([], Some err)
            | Inr [] \<Rightarrow> ([], Some (panic ''index out of range''))
            | Inr ((manufacturer, off) # _) \<Rightarrow>
              (case rf_bios rf node of
                 Some err \<Rightarrow> ([], Some err)
               | None \<Rightarrow>
                 (let supported = (manufacturer = DELL \<or> manufacturer = LENOVO);
                      patch = (if supported then [BiosPatch host (pxePatch config node manufacturer)] else [])
                  in case (if supported then rf_updateBios rf node else None) of
                       Some err \<Rightarrow> ([], Some err)
                     | None \<Rightarrow>
                       (case rf_setBoot rf node of
                          Some err \<Rightarrow> (patch, Some err)
                        | None \<Rightarrow>
                          (case rf_reset rf node of
                             Some err \<Rightarrow> (patch @ [BootFromNetwork host], Some err)
                           | None \<Rightarrow> (patch @ [BootFromNetwork host, if off then PowerOn host else ForceRestart host], None)))))))"

text \<open>The nodes already set up: from the status, or from the machines Talos handles.\<close>

definition machineHostname :: "talos_config \<Rightarrow> talos_machine \<Rightarrow> string" where
  "machineHostname config m =
     fold (\<lambda>node hostname. if na_ipv4 (nf_clusterNetwork (no_interface node)) = tm_endpoint m
                           then no_hostname node else hostname) (tc_nodes config) []"

definition initialDoneList ::
  "talos_env \<Rightarrow> talos_config \<Rightarrow> spx_cluster \<Rightarrow> go_error + (string list \<times> bool)" where
  "initialDoneList T config cl =
     (case st_pxeSetupDone (cl_status cl) of
        Some done0 \<Rightarrow>
          let kept = filter (\<lambda>d. d \<in> no_hostname ` set (tc_nodes config)) done0
          in Inr (kept, length kept \<noteq> length done0)
      | None \<Rightarrow>
          (case (case te_machines T of Inr ms \<Rightarrow> Inr ms | Inl err \<Rightarrow> if IsNoMatchError err then Inr [] else Inl err) of
             Inl err \<Rightarrow> Inl err
           | Inr ms \<Rightarrow>
               let hs = map (machineHostname config)
                          (filter (\<lambda>m. tm_cluster m = cl_name cl \<and> tm_state m \<noteq> ''Booting'') ms)
               in Inr (hs, hs \<noteq> [])))"

fun setupNodes ::
  "talos_env \<Rightarrow> talos_config \<Rightarrow> node_spec list \<Rightarrow> string list \<Rightarrow> bmc_action list \<times> (go_error + string list)" where
  "setupNodes T config [] doneList = ([], Inr doneList)"
| "setupNodes T config (node # nodes) doneList =
     (if no_pxeSetup node \<and> no_hostname node \<notin> set doneList
      then case setupNode T config node of
             (acts, Some err) \<Rightarrow> (acts, Inl err)
           | (acts, None) \<Rightarrow>
               (case setupNodes T config nodes (doneList @ [no_hostname node]) of
                  (acts', r) \<Rightarrow> (acts @ acts', r))
      else setupNodes T config nodes doneList)"

definition pxeSetup ::
  "talos_env \<Rightarrow> talos_config \<Rightarrow> spx_cluster \<Rightarrow> bmc_action list \<times> spx_cluster \<times> go_error option" where
  "pxeSetup T config cl =
     (case initialDoneList T config cl of
        Inl err \<Rightarrow> ([], cl, Some err)
      | Inr (done0, update) \<Rightarrow>
          (case setupNodes T config (tc_nodes config) done0 of
             (acts, Inl err) \<Rightarrow> (acts, cl, Some err)
           | (acts, Inr doneList) \<Rightarrow>
               if update \<or> doneList \<noteq> done0
               then let cl1 = cl\<lparr>cl_status := (cl_status cl)
                                  \<lparr>st_pxeSetupDone := (if doneList = [] then None else Some doneList)\<rparr>\<rparr>
                    in (acts, cl1, te_patchStatus T)
               else (acts, cl, None)))"


section \<open>The talos-manager Application\<close>

definition TalosManagerApp :: string where "TalosManagerApp = ''talos-manager''"

definition talosAppName :: "spx_cluster \<Rightarrow> string" where
  "talosAppName cl = TalosManagerApp @ ''-'' @ cl_name cl"

definition setTalosManagerAppLabels :: "argo_app \<Rightarrow> argo_app" where
  "setTalosManagerAppLabels app = app\<lparr>app_labels := fmupd ManagedLabel ''true'' (app_labels app)\<rparr>"

definition initTalosManagerApp :: "spx_cluster \<Rightarrow> argo_app" where
  "initTalosManagerApp cl = (initApplication cl)\<lparr>app_name := talosAppName cl\<rparr>"

definition buildTalosManagerAppSpec :: "('v, 'c) reconciler \<Rightarrow> (string, json) fmap \<Rightarrow> app_spec" where
  "buildTalosManagerAppSpec R vals =
     \<lparr>as_project = ''default'', as_repoURL = TalosManagerChartURL R, as_chart = ''talos-manager'',
      as_targetRevision = Some (TalosManagerChartVersion R), as_values = vals,
      as_destination = (''in-cluster'', OperatorNamespace R), as_autoEnabled = None,
      as_prune = True, as_selfHeal = True, as_syncOptions = [], as_retry = None\<rparr>"

definition upsertTalosApp ::
  "('v, 'c) reconciler \<Rightarrow> op_env \<Rightarrow> spx_cluster \<Rightarrow> (string, json) fmap \<Rightarrow> op_world \<Rightarrow> op_world \<times> go_error option" where
  "upsertTalosApp R E cl vals W =
     (case CreateOrUpdate E ''talos'' (talosAppName cl) (talosAppName cl) (initTalosManagerApp cl)
             (\<lambda>app. bindR (setApplicationOwnership cl (setTalosManagerAppLabels app)) (\<lambda>app1.
                    Inr ((cleanupFinalizer cl app1)\<lparr>app_spec := Some (buildTalosManagerAppSpec R vals), app_sources := []\<rparr>)))
             (w_apps W) of
        (apps, err) \<Rightarrow> (W\<lparr>w_apps := apps\<rparr>, err))"

definition reconcileTalosManager ::
  "('v, 'c) reconciler \<Rightarrow> op_env \<Rightarrow> talos_env \<Rightarrow> spx_cluster \<Rightarrow> op_world
     \<Rightarrow> op_world \<times> spx_cluster \<times> bmc_action list \<times> go_error option" where
  "reconcileTalosManager R E T cl W =
     (case sp_talosConfig (cl_spec cl) of
        None \<Rightarrow> (W, cl, [], Some (Errorf ''Failed to reconcile talos-manager Application: missing TalosManagerConfiguration''))
      | Some raw \<Rightarrow>
          (case te_decode T (sp_talosMode (cl_spec cl) \<noteq> TalosManagementImport) raw of
             Inl err \<Rightarrow> (W, cl, [], Some err)
           | Inr config0 \<Rightarrow>
               (case (if sp_talosMode (cl_spec cl) = TalosManagementFull
                      then (case injectLinkAliases T config0 of
                              Inl err \<Rightarrow> ([], cl, Inl err)
                            | Inr config \<Rightarrow>
                                (case pxeSetup T config cl of
                                   (acts, cl1, Some err) \<Rightarrow> (acts, cl1, Inl err)
                                 | (acts, cl1, None) \<Rightarrow> (acts, cl1, Inr config)))
                      else ([], cl, Inr config0)) of
                  (acts, cl1, Inl err) \<Rightarrow> (W, cl1, acts, Some err)
                | (acts, cl1, Inr config) \<Rightarrow>
                    (case te_values T config of
                       Inl err \<Rightarrow> (W, cl1, acts, Some err)
                     | Inr vals \<Rightarrow> (case upsertTalosApp R E cl vals W of (W1, err) \<Rightarrow> (W1, cl1, acts, err))))))"


section \<open>The connection secret\<close>

text \<open>On a write the API server merges \<^verbatim>\<open>stringData\<close> into \<^verbatim>\<open>data\<close>.\<close>

definition stored_secret :: "secret \<Rightarrow> secret" where
  "stored_secret s = s\<lparr>se_data := se_data s ++\<^sub>f se_stringData s, se_stringData := fmempty\<rparr>"

definition generateConnectionSecret ::
  "op_env \<Rightarrow> talos_env \<Rightarrow> spx_cluster \<Rightarrow> connection_spec \<Rightarrow> op_world \<Rightarrow> op_world \<times> go_error option" where
  "generateConnectionSecret E T cl conn W =
     (case get_object E ''kubeconfig'' (cl_name cl @ ''-kubeconfig'') (cl_namespace cl, cl_name cl @ ''-kubeconfig'') (w_secrets W) of
        Inl err \<Rightarrow> if IsNotFound err then (W, None) else (W, Some err)
      | Inr ks \<Rightarrow>
          (case te_kubeconfig T (str_of (fmlookup (se_data ks) ''kubeconfig'')) of
             Inl err \<Rightarrow> (W, Some err)
           | Inr (clusters, users) \<Rightarrow>
               (case cs_secretRef conn of
                  None \<Rightarrow> (W, Some (Errorf ''Missing connection secretRef''))
                | Some ref \<Rightarrow>
                    (case CreateOrUpdate E ''connection'' (sr_name ref) (secret_key cl ref) empty_secret
                            (\<lambda>s. case (clusters, users) of
                                   (ca # _, (cert, key) # _) \<Rightarrow>
                                     Inr (stored_secret (s\<lparr>se_stringData := fmap_of_list
                                       [(''caData'', ca), (''certData'', cert), (''keyData'', key), (''insecure'', ''true'')]\<rparr>))
                                 | _ \<Rightarrow> Inl (panic ''index out of range'')) (w_secrets W) of
                       (secrets, err) \<Rightarrow> (W\<lparr>w_secrets := secrets\<rparr>, err)))))"


section \<open>Each node is set up once\<close>

fun action_host :: "bmc_action \<Rightarrow> string" where
  "action_host (BiosPatch h _) = h"
| "action_host (BootFromNetwork h) = h"
| "action_host (PowerOn h) = h"
| "action_host (ForceRestart h) = h"

fun is_reset :: "bmc_action \<Rightarrow> bool" where
  "is_reset (PowerOn _) = True"
| "is_reset (ForceRestart _) = True"
| "is_reset _ = False"

definition requested :: "talos_config \<Rightarrow> string set" where
  "requested config = no_hostname ` {node \<in> set (tc_nodes config). no_pxeSetup node}"

lemma setupNode_host: "setupNode T config node = (acts, r) \<Longrightarrow> a \<in> set acts \<Longrightarrow> action_host a = no_hostname node"
  by (auto simp: setupNode_def Let_def split: option.splits sum.splits list.splits if_splits)

lemma setupNode_reset:
  "setupNode T config node = (acts, None) \<Longrightarrow> map action_host (filter is_reset acts) = [no_hostname node]"
  by (auto simp: setupNode_def Let_def split: option.splits sum.splits list.splits if_splits)

lemma setupNodes_ok:
  assumes "setupNodes T config nodes done0 = (acts, Inr doneList)"
  shows "doneList = done0 @ map action_host (filter is_reset acts) \<and>
    set doneList = set done0 \<union> no_hostname ` {node \<in> set nodes. no_pxeSetup node}"
  using assms
proof (induction nodes arbitrary: done0 acts)
  case (Cons node nodes)
  show ?case
  proof (cases "no_pxeSetup node \<and> no_hostname node \<notin> set done0")
    case True
    with Cons.prems obtain a1 a2 where *: "setupNode T config node = (a1, None)"
      "setupNodes T config nodes (done0 @ [no_hostname node]) = (a2, Inr doneList)" "acts = a1 @ a2"
      by (auto split: prod.splits option.splits)
    from Cons.IH [OF *(2)] setupNode_reset [OF *(1)] True show ?thesis
      by (auto simp: *(3))
  next
    case False
    with Cons.prems have "setupNodes T config nodes done0 = (acts, Inr doneList)" by auto
    from Cons.IH [OF this] False show ?thesis by auto
  qed
qed simp

lemma setupNodes_distinct:
  "setupNodes T config nodes done0 = (acts, Inr doneList) \<Longrightarrow> distinct done0 \<Longrightarrow> distinct doneList"
  by (induction nodes arbitrary: done0 acts) (auto split: if_splits prod.splits option.splits)

lemma setupNodes_hosts:
  assumes "setupNodes T config nodes done0 = (acts, r)" "a \<in> set acts"
  shows "action_host a \<notin> set done0 \<and> (\<exists>node\<in>set nodes. no_pxeSetup node \<and> no_hostname node = action_host a)"
  using assms
proof (induction nodes arbitrary: done0 acts)
  case (Cons node nodes)
  show ?case
  proof (cases "no_pxeSetup node \<and> no_hostname node \<notin> set done0")
    case True
    obtain a1 e where a1: "setupNode T config node = (a1, e)" by (rule prod.exhaust)
    show ?thesis
    proof (cases "a \<in> set a1")
      case in_a1: True
      from setupNode_host [OF a1 in_a1] True show ?thesis by auto
    next
      case False
      with Cons.prems True a1 obtain a2 where
        "setupNodes T config nodes (done0 @ [no_hostname node]) = (a2, r)" "a \<in> set a2"
        by (auto split: prod.splits option.splits)
      from Cons.IH [OF this] show ?thesis by auto
    qed
  next
    case False
    with Cons.prems have "setupNodes T config nodes done0 = (acts, r)" by auto
    from Cons.IH [OF this Cons.prems(2)] show ?thesis by auto
  qed
qed simp

lemma setupNodes_nothing:
  assumes "\<forall>node\<in>set nodes. no_pxeSetup node \<longrightarrow> no_hostname node \<in> set doneList"
  shows "setupNodes T config nodes doneList = ([], Inr doneList)"
  using assms by (induction nodes) auto

lemma pxeSetup_done:
  assumes "pxeSetup T config cl = (acts, cl', None)"
  shows "requested config = {} \<or> (\<exists>d. st_pxeSetupDone (cl_status cl') = Some d \<and> requested config \<subseteq> set d)"
proof -
  from assms obtain done0 up doneList where
    i: "initialDoneList T config cl = Inr (done0, up)"
    and s: "setupNodes T config (tc_nodes config) done0 = (acts, Inr doneList)"
    and cl': "cl' = (if up \<or> doneList \<noteq> done0
                     then cl\<lparr>cl_status := (cl_status cl)\<lparr>st_pxeSetupDone := (if doneList = [] then None else Some doneList)\<rparr>\<rparr>
                     else cl)"
    by (auto simp: pxeSetup_def Let_def split: sum.splits prod.splits if_splits)
  from setupNodes_ok [OF s] have sub: "requested config \<subseteq> set doneList" by (auto simp: requested_def)
  show ?thesis
  proof (cases "up \<or> doneList \<noteq> done0")
    case True
    then show ?thesis using sub cl' by (cases "doneList = []") auto
  next
    case False
    show ?thesis
    proof (cases "st_pxeSetupDone (cl_status cl)")
      case None
      with i False have "done0 = []" by (auto simp: initialDoneList_def Let_def split: sum.splits if_splits)
      with sub False show ?thesis by simp
    next
      case (Some d)
      with i have "set done0 \<subseteq> set d" by (auto simp: initialDoneList_def Let_def)
      with sub False Some cl' show ?thesis by auto
    qed
  qed
qed

text \<open>Once the set-up has succeeded, running it again does nothing to the nodes.\<close>

lemma pxeSetup_again:
  assumes "pxeSetup T config cl = (acts, cl', None)"
  shows "fst (pxeSetup T' config cl') = []"
proof (cases "initialDoneList T' config cl'")
  case (Inr p)
  obtain done0 up where p: "p = (done0, up)" by (rule prod.exhaust)
  have "\<forall>node\<in>set (tc_nodes config). no_pxeSetup node \<longrightarrow> no_hostname node \<in> set done0"
  proof (intro ballI impI)
    fix node assume node: "node \<in> set (tc_nodes config)" "no_pxeSetup node"
    then have r: "no_hostname node \<in> requested config" by (auto simp: requested_def)
    with pxeSetup_done [OF assms] obtain d where "st_pxeSetupDone (cl_status cl') = Some d" "no_hostname node \<in> set d"
      by auto
    with node Inr p show "no_hostname node \<in> set done0"
      by (auto simp: initialDoneList_def Let_def)
  qed
  from setupNodes_nothing [OF this] Inr p show ?thesis by (simp add: pxeSetup_def Let_def)
qed (simp add: pxeSetup_def)

lemma pxeSetup_hosts:
  assumes "pxeSetup T config cl = (acts, cl', err)" "a \<in> set acts"
  shows "action_host a \<in> requested config \<and>
    (\<forall>d. st_pxeSetupDone (cl_status cl) = Some d \<longrightarrow> action_host a \<notin> set d)"
proof -
  from assms obtain done0 up r where i: "initialDoneList T config cl = Inr (done0, up)"
    and s: "setupNodes T config (tc_nodes config) done0 = (acts, r)"
    by (auto simp: pxeSetup_def Let_def split: sum.splits prod.splits if_splits)
  from setupNodes_hosts [OF s assms(2)] obtain node where
    n: "action_host a \<notin> set done0" "node \<in> set (tc_nodes config)" "no_pxeSetup node" "no_hostname node = action_host a"
    by auto
  have "action_host a \<notin> set d" if "st_pxeSetupDone (cl_status cl) = Some d" for d
  proof -
    have "action_host a \<in> no_hostname ` set (tc_nodes config)" using n(2,4) by (metis imageI)
    with i n(1) that show ?thesis by (auto simp: initialDoneList_def Let_def)
  qed
  moreover have "action_host a \<in> requested config"
    unfolding requested_def using n(2-4) by (metis (mono_tags, lifting) imageI mem_Collect_eq)
  ultimately show ?thesis by blast
qed

text \<open>A run that fails leaves the status as it was, whatever it has done to the nodes before.\<close>

lemma pxeSetup_failure:
  "pxeSetup T config cl = (acts, cl', Some err) \<Longrightarrow> te_patchStatus T = None \<Longrightarrow> cl' = cl"
  by (auto simp: pxeSetup_def Let_def split: sum.splits prod.splits if_splits)

end
