(* ===== verification/Op_Reconcile.thy ===== *)
theory Op_Reconcile
  imports Op_Talos
begin

text \<open>
  The reconciliation of a cluster (\<^verbatim>\<open>internal/superphenix-operator/cluster/cluster_controller.go\<close>): the
  finalizer, the cleanup of a cluster that is being deleted, and the steps of the others in the order
  of the code. A step that fails does not stop the ones after it unless the code says so; the first
  error of the deployment is the one the status reports.
\<close>

section \<open>Operations\<close>

definition FinalizerName :: string where
  "FinalizerName = ''operator.superphenix.net/finalizer''"

definition findClustersForSecret ::
  "('v, 'c) reconciler \<Rightarrow> op_env \<Rightarrow> op_world \<Rightarrow> string \<times> string \<Rightarrow> (string \<times> string) list" where
  "findClustersForSecret R E W secret =
     (case oe_fails E (''secret-watch'', VList, ''clusters'') of
        Some err \<Rightarrow> []
      | None \<Rightarrow>
          let items = (if OperatorNamespace R \<noteq> [] then namespaceClusters (OperatorNamespace R) W
                       else map snd (gentries (w_clusters W)))
          in map (\<lambda>cl. (cl_namespace cl, cl_name cl))
               (filter (\<lambda>cl. case sp_connection (cl_spec cl) of
                               None \<Rightarrow> False
                             | Some conn \<Rightarrow> (case cs_secretRef conn of
                                              None \<Rightarrow> False | Some ref \<Rightarrow> secret_key cl ref = secret)) items))"

text \<open>The patch of the status: it needs the object, and replaces the status of the stored cluster.\<close>

definition cluster_key :: "spx_cluster \<Rightarrow> string \<times> string" where
  "cluster_key cl = (cl_namespace cl, cl_name cl)"

definition patchError :: "op_env \<Rightarrow> string \<Rightarrow> spx_cluster \<Rightarrow> op_world \<Rightarrow> go_error option" where
  "patchError E step cl W =
     (case oe_fails E (step, VPatch, cl_name cl) of
        Some e \<Rightarrow> Some e
      | None \<Rightarrow> (case fmlookup (w_clusters W) (cluster_key cl) of
                   None \<Rightarrow> Some (object_not_found (cl_name cl)) | Some _ \<Rightarrow> None))"

text \<open>
  Writing the status. The code sends a merge patch against the cluster it has read at the start of the pass; nobody
  else writes the status, so the patch leaves the stored status equal to the one of the pass.
\<close>

definition persistStatus :: "go_error option \<Rightarrow> spx_cluster \<Rightarrow> op_world \<Rightarrow> op_world" where
  "persistStatus err cl W =
     (case err of
        Some _ \<Rightarrow> W
      | None \<Rightarrow> (case fmlookup (w_clusters W) (cluster_key cl) of
                   None \<Rightarrow> W
                 | Some stored \<Rightarrow>
                     W\<lparr>w_clusters := fmupd (cluster_key cl) (stored\<lparr>cl_status := cl_status cl\<rparr>) (w_clusters W)\<rparr>))"

definition persistPxe :: "talos_env \<Rightarrow> spx_cluster \<Rightarrow> op_world \<Rightarrow> op_world" where
  "persistPxe T cl W =
     (case te_patchStatus T of
        Some _ \<Rightarrow> W
      | None \<Rightarrow> (case fmlookup (w_clusters W) (cluster_key cl) of
                   None \<Rightarrow> W
                 | Some stored \<Rightarrow>
                     W\<lparr>w_clusters := fmupd (cluster_key cl)
                        (stored\<lparr>cl_status := (cl_status stored)\<lparr>st_pxeSetupDone := st_pxeSetupDone (cl_status cl)\<rparr>\<rparr>)
                        (w_clusters W)\<rparr>))"

definition first_error :: "go_error option \<Rightarrow> go_error option \<Rightarrow> go_error option" where
  "first_error e e' = (case e of Some _ \<Rightarrow> e | None \<Rightarrow> e')"

text \<open>
  The steps up to the status: the two secrets, the health check, the project, the validation, the
  Application and the ConfigMap.
\<close>

definition deploySteps ::
  "('v, 'c) reconciler \<Rightarrow> op_env \<Rightarrow> (kubeconfig \<Rightarrow> string) \<Rightarrow> spx_cluster \<Rightarrow> op_world \<Rightarrow> op_world \<times> spx_cluster \<times>
     argo_app option \<times> (string \<times> int \<times> (string, string) fmap option) \<times> go_error option" where
  "deploySteps R E wr cl W =
     (let (W1, e1) = reconcileArgoCDSecret R E cl W;
          (W2, e2) = (if ToolboxEnabled R
                      then (case reconcileToolboxKubeconfigSecret R E wr W1 of (V, e) \<Rightarrow> (V, first_error e1 e))
                      else (W1, e1));
          (cl1, health, e3) = (case e2 of
                         Some e \<Rightarrow> (cl, ([], 0, None), Some e)
                       | None \<Rightarrow> (case reconcileHealth E W2 cl of
                                    (c, Inl e) \<Rightarrow> (c, ([], 0, None), Some e)
                                  | (c, Inr h) \<Rightarrow> (c, h, None)));
          (W4, e4) = (case reconcileAppProject R E cl1 W2 of (V, e) \<Rightarrow> (V, first_error e3 e));
          e5 = (case e4 of
                  Some e \<Rightarrow> Some e
                | None \<Rightarrow> validate (r_semver R) (r_versions R) (DisableVersionValidation R)
                            (reader_at (oe_argo E) 5 (w_apps W4)) cl1);
          (W6, app, e6) = (case e5 of
                     Some e \<Rightarrow> (W4, None, Some e)
                   | None \<Rightarrow> (case reconcileApplication R E cl1 W4 of
                                (V, Some e) \<Rightarrow> (V, None, Some e)
                              | (V, None) \<Rightarrow>
                                  (V, (case rd_get (reader_at (oe_argo E) 6 (w_apps V)) (cl_name cl) of
                                         Inr a \<Rightarrow> Some a | Inl _ \<Rightarrow> fmlookup (w_apps V) (cl_name cl)), None)));
          (W7, e7) = (case e6 of
                     Some e \<Rightarrow> (W6, Some e)
                   | None \<Rightarrow> (case reconcileClustersConfigMap R E cl1 W6 of
                                (V, Some e) \<Rightarrow> (V, Some (ErrorfW ''failed to reconcile clusters ConfigMap: '' e))
                              | (V, None) \<Rightarrow> (V, None)))
      in (W7, cl1, app, health, e7))"

definition isReady :: "spx_cluster \<Rightarrow> bool" where
  "isReady cl \<longleftrightarrow> list_ex (\<lambda>c. c_type c = ''Ready'' \<and> c_status c = ''True'') (st_conditions (cl_status cl))"

text \<open>The periodic sync, and the status that records when it ran.\<close>

definition periodicStep ::
  "('v, 'c) reconciler \<Rightarrow> op_env \<Rightarrow> time \<Rightarrow> argo_app option \<Rightarrow> (string \<times> int \<times> (string, string) fmap option)
     \<Rightarrow> go_error option \<Rightarrow> spx_cluster \<Rightarrow> op_world \<Rightarrow> op_world \<times> spx_cluster" where
  "periodicStep R E now app health reconcileErr cl W =
     (if paused cl \<or> manual cl then (W, cl)
      else if reconcileErr \<noteq> None \<and> isReady cl then (W, cl)
      else case runPeriodicSync R (oe_argo E) now cl (w_apps W) of
             (apps, False) \<Rightarrow> (W\<lparr>w_apps := apps\<rparr>, cl)
           | (apps, True) \<Rightarrow>
               let W1 = W\<lparr>w_apps := apps\<rparr>;
                   pe = patchError E ''status-sync'' cl W1;
                   (k, n, ceph) = health;
                   (cl1, _) = syncStatus R (reader_at (oe_argo E) 8 apps) now pe cl app k n ceph reconcileErr (Some now)
               in (persistStatus pe cl1 W1, cl1))"

definition talosStep ::
  "('v, 'c) reconciler \<Rightarrow> op_env \<Rightarrow> talos_env \<Rightarrow> go_error option \<Rightarrow> spx_cluster \<Rightarrow> op_world
     \<Rightarrow> op_world \<times> bmc_action list \<times> go_error option" where
  "talosStep R E T reconcileErr cl W =
     (case sp_connection (cl_spec cl) of
        None \<Rightarrow> (W, [], Some (panic ''nil pointer dereference''))
      | Some conn \<Rightarrow>
          if sp_talosMode (cl_spec cl) \<noteq> TalosManagementUnmanaged
          then (case reconcileTalosManager R E T cl W of
                  (W1, cl1, acts, e1) \<Rightarrow>
                    (let W2 = persistPxe T cl1 W1;
                         err = (case e1 of Some e \<Rightarrow> Some e | None \<Rightarrow> reconcileErr)
                     in if e1 \<noteq> None \<and> err_kind (the e1) = KPanic then (W2, acts, e1)
                        else if cs_mode conn = ConnectionModeRemote
                        then (case generateConnectionSecret E T cl1 conn W2 of
                                (W3, Some e) \<Rightarrow> (W3, acts, Some e)
                              | (W3, None) \<Rightarrow> (W3, acts, err))
                        else (W2, acts, err)))
          else (case get_object E ''talos-unmanaged'' (talosAppName cl) (talosAppName cl) (w_apps W) of
                  Inl e \<Rightarrow> if IsNotFound e then (W, [], reconcileErr) else (W, [], Some e)
                | Inr existing \<Rightarrow>
                    if reconcileErr \<noteq> None then (W, [], reconcileErr)
                    else (case oe_fails E (''talos-unmanaged'', VDelete, talosAppName cl) of
                            Some e \<Rightarrow> (W, [], Some e)
                          | None \<Rightarrow>
                              if app_finalizers existing = []
                              then (W\<lparr>w_apps := fmdrop (talosAppName cl) (w_apps W)\<rparr>, [], None)
                              else (W, [], None))))"

record outcome =
  oc_world :: op_world
  oc_actions :: "bmc_action list"
  oc_result :: ctrl_result
  oc_error :: "go_error option"

definition reconcileCluster ::
  "('v, 'c) reconciler \<Rightarrow> op_env \<Rightarrow> talos_env \<Rightarrow> (kubeconfig \<Rightarrow> string) \<Rightarrow> time \<Rightarrow> spx_cluster \<Rightarrow> op_world \<Rightarrow> outcome" where
  "reconcileCluster R E T wr now cl W =
     (if sp_connection (cl_spec cl) = None
      then \<lparr>oc_world = W, oc_actions = [], oc_result = None, oc_error = Some (panic ''nil pointer dereference'')\<rparr>
      else let (W1, cl1, app, health, reconcileErr) = deploySteps R E wr cl W;
               pe = patchError E ''status'' cl1 W1;
               (k, n, ceph) = health;
               (cl2, res, err) = syncStatus R (reader_at (oe_argo E) 7 (w_apps W1)) now pe cl1 app k n ceph reconcileErr None;
               W2 = persistStatus pe cl2 W1
           in if err \<noteq> None \<or> res \<noteq> None
              then \<lparr>oc_world = W2, oc_actions = [], oc_result = res, oc_error = err\<rparr>
              else let (W3, cl3) = periodicStep R E now app health reconcileErr cl2 W2;
                       (W4, acts, talosErr) = talosStep R E T reconcileErr cl3 W3
                   in case talosErr of
                        Some e \<Rightarrow>
                          if err_kind e = KPanic
                          then \<lparr>oc_world = W4, oc_actions = acts, oc_result = None, oc_error = Some e\<rparr>
                          else \<lparr>oc_world = W4, oc_actions = acts, oc_result = Some Minute, oc_error = None\<rparr>
                      | None \<Rightarrow> \<lparr>oc_world = W4, oc_actions = acts, oc_result = Some (SyncPeriod R), oc_error = None\<rparr>)"

text \<open>An update that leaves a deleted object without finalizers makes the API server remove it.\<close>

definition updateFinalizers :: "spx_cluster \<Rightarrow> string list \<Rightarrow> op_world \<Rightarrow> op_world" where
  "updateFinalizers cl fs W =
     (if fs = [] \<and> cl_deleting cl then W\<lparr>w_clusters := fmdrop (cluster_key cl) (w_clusters W)\<rparr>
      else W\<lparr>w_clusters := fmupd (cluster_key cl) (cl\<lparr>cl_finalizers := fs\<rparr>) (w_clusters W)\<rparr>)"

definition Reconcile ::
  "('v, 'c) reconciler \<Rightarrow> op_env \<Rightarrow> talos_env \<Rightarrow> (kubeconfig \<Rightarrow> string) \<Rightarrow> time \<Rightarrow> string \<times> string \<Rightarrow> op_world \<Rightarrow> outcome" where
  "Reconcile R E T wr now req W =
     (let stop = (\<lambda>V res err. \<lparr>oc_world = V, oc_actions = [], oc_result = res, oc_error = err\<rparr>)
      in if OperatorNamespace R \<noteq> [] \<and> fst req \<noteq> OperatorNamespace R then stop W None None
         else case get_object E ''cluster'' (snd req) req (w_clusters W) of
           Inl e \<Rightarrow> if IsNotFound e then stop W None None else stop W None (Some e)
         | Inr cl \<Rightarrow>
             if oe_fails E (''crds'', VGet, ''argocd'') \<noteq> None then stop W (Some Minute) None
             else if cl_deleting cl
             then (if FinalizerName \<notin> set (cl_finalizers cl) then stop W None None
                   else case cleanupCluster R E cl W of
                     (W1, Some e) \<Rightarrow>
                       (let pe = patchError E ''status-cleanup'' cl W1;
                            (cl1, _) = syncStatus R (reader_at (oe_argo E) 7 (w_apps W1)) now pe cl None [] 0 None (Some e) None
                        in stop (persistStatus pe cl1 W1) (Some Minute) (Some e))
                   | (W1, None) \<Rightarrow>
                       (case oe_fails E (''cluster'', VUpdate, cl_name cl) of
                          Some e \<Rightarrow> stop W1 (Some Minute) (Some e)
                        | None \<Rightarrow> stop (updateFinalizers cl (RemoveFinalizer FinalizerName (cl_finalizers cl)) W1) None None))
             else if FinalizerName \<in> set (cl_finalizers cl) then reconcileCluster R E T wr now cl W
             else case oe_fails E (''cluster'', VUpdate, cl_name cl) of
                    Some e \<Rightarrow> stop W (Some Minute) (Some e)
                  | None \<Rightarrow>
                      (let fs = AddFinalizer FinalizerName (cl_finalizers cl)
                       in reconcileCluster R E T wr now (cl\<lparr>cl_finalizers := fs\<rparr>) (updateFinalizers cl fs W)))"

end
