(* ===== verification/Op_Safety.thy ===== *)
theory Op_Safety
  imports Op_Reconcile
begin

text \<open>
  What a reconciliation of a cluster leaves alone: the Applications of other clusters, and the
  specification of the cluster's own Application as long as its version is not supported. What has to
  be gone before a deleted cluster is released.
\<close>

section \<open>Specifications of the Applications\<close>

definition spec_at :: "argo_store \<Rightarrow> string \<Rightarrow> app_spec option option" where
  "spec_at st name = map_option app_spec (fmlookup st name)"

lemma patch_app_spec:
  "(\<And>a. app_spec (f a) = app_spec a) \<Longrightarrow> spec_at (fst (patch_app E call nm f st)) = spec_at st"
  by (auto simp: spec_at_def patch_app_def fun_eq_iff split: option.splits)

lemma trigger_spec: "spec_at (fst (triggerApplicationSync E site app force st)) = spec_at st"
  by (auto simp: spec_at_def triggerApplicationSync_def patch_app_def fun_eq_iff split: option.splits)

lemma abort_spec: "spec_at (abort_app E app st) = spec_at st"
  by (auto simp: spec_at_def abort_app_def patch_app_def fun_eq_iff split: option.splits)

lemma fold_spec: "(\<And>x s. spec_at (f x s) = spec_at s) \<Longrightarrow> spec_at (fold f xs st) = spec_at st"
  by (induction xs arbitrary: st) simp_all

lemma syncSubApplications_spec: "spec_at (syncSubApplications E cn force st) = spec_at st"
  by (simp add: syncSubApplications_def Let_def fold_spec trigger_spec split: sum.splits)

lemma abortInProgressSyncs_spec: "spec_at (fst (abortInProgressSyncs E cn st)) = spec_at st"
  by (simp add: abortInProgressSyncs_def fold_spec abort_spec split: sum.splits)

lemma runPeriodicSync_spec:
  assumes "runPeriodicSync R E now cl st = (st', b)"
  shows "spec_at st' = spec_at st"
proof -
  obtain st1 e where a: "abortInProgressSyncs E (cl_name cl) st = (st1, e)" by (rule prod.exhaust)
  then have "spec_at st1 = spec_at st" using abortInProgressSyncs_spec [of E "cl_name cl" st] by simp
  with a assms show ?thesis
    by (auto simp: runPeriodicSync_def syncSubApplications_spec split: if_splits sum.splits option.splits)
qed


section \<open>Frames of the steps\<close>

lemma reconcileArgoCDSecret_apps:
  "reconcileArgoCDSecret R E cl W = (W', e) \<Longrightarrow> w_apps W' = w_apps W \<and> w_clusters W' = w_clusters W"
  by (auto simp: reconcileArgoCDSecret_def split: option.splits if_splits prod.splits)

lemma reconcileToolbox_apps:
  "reconcileToolboxKubeconfigSecret R E wr W = (W', e) \<Longrightarrow> w_apps W' = w_apps W \<and> w_clusters W' = w_clusters W"
  by (auto simp: reconcileToolboxKubeconfigSecret_def split: option.splits prod.splits)

lemma reconcileAppProject_apps:
  "reconcileAppProject R E cl W = (W', e) \<Longrightarrow> w_apps W' = w_apps W \<and> w_clusters W' = w_clusters W"
  by (auto simp: reconcileAppProject_def split: prod.splits)

lemma reconcileClustersConfigMap_apps:
  "reconcileClustersConfigMap R E cl W = (W', e) \<Longrightarrow> w_apps W' = w_apps W \<and> w_clusters W' = w_clusters W"
  by (auto simp: reconcileClustersConfigMap_def Let_def split: option.splits if_splits)

lemma reconcileApplication_clusters:
  "reconcileApplication R E cl W = (W', e) \<Longrightarrow> w_clusters W' = w_clusters W"
  by (auto simp: reconcileApplication_def split: prod.splits)

lemma generateConnectionSecret_apps:
  "generateConnectionSecret E T cl conn W = (W', e) \<Longrightarrow> w_apps W' = w_apps W \<and> w_clusters W' = w_clusters W"
  by (auto simp: generateConnectionSecret_def split: option.splits if_splits sum.splits prod.splits)

lemma persist_apps [simp]:
  "w_apps (persistStatus e cl W) = w_apps W" "w_apps (persistPxe T cl W) = w_apps W"
  by (simp_all add: persistStatus_def persistPxe_def split: option.splits)

lemma validate_cong:
  "cl_spec cl = cl_spec cl' \<Longrightarrow> cl_name cl = cl_name cl' \<Longrightarrow> validate L V d rd cl = validate L V d rd cl'"
  by (simp only: validate_def validateTopology_def validateManagementCompatibility_def validateUpgradePath_def)

lemmas step_frames = reconcileArgoCDSecret_apps reconcileToolbox_apps reconcileAppProject_apps
  reconcileClustersConfigMap_apps reconcileApplication_clusters

text \<open>
  The steps up to the status, one after the other: the Application is written only after every earlier
  step and the validation have succeeded.
\<close>

lemma deploySteps_split:
  assumes "deploySteps R E wr cl W = (W', cl', app, h, e)"
  obtains W1 e1 where "w_apps W1 = w_apps W" "w_clusters W1 = w_clusters W"
    "cl_spec cl' = cl_spec cl" "cl_name cl' = cl_name cl" "cl_generation cl' = cl_generation cl"
    "st_phase (cl_status cl') = st_phase (cl_status cl)"
    "conditions_wf (st_conditions (cl_status cl)) \<Longrightarrow> conditions_wf (st_conditions (cl_status cl'))"
    "e1 = None \<Longrightarrow> validate (r_semver R) (r_versions R) (DisableVersionValidation R)
        (reader_at (oe_argo E) 5 (w_apps W)) cl = None"
    "e1 \<noteq> None \<Longrightarrow> W' = W1 \<and> app = None \<and> e = e1"
    "e1 = None \<Longrightarrow> (\<exists>V e2. reconcileApplication R E cl' W1 = (V, e2) \<and>
        w_apps W' = w_apps V \<and> w_clusters W' = w_clusters V \<and>
        (if e2 = None then app \<noteq> None else app = None \<and> e = e2))"
proof -
  obtain A ea where A: "reconcileArgoCDSecret R E cl W = (A, ea)" by (rule prod.exhaust)
  obtain B eb0 where B0: "reconcileToolboxKubeconfigSecret R E wr A = (B, eb0)" by (rule prod.exhaust)
  define C where "C = (if ToolboxEnabled R then B else A)"
  define ec where "ec = (if ToolboxEnabled R then first_error ea eb0 else ea)"
  obtain c1 r where H: "reconcileHealth E C cl = (c1, r)" by (rule prod.exhaust)
  define ch where "ch = (case ec of Some e \<Rightarrow> (cl, ([], 0, None), Some e)
    | None \<Rightarrow> (case r of Inl e \<Rightarrow> (c1, ([], 0, None), Some e) | Inr h \<Rightarrow> (c1, h, None)))"
  obtain c2 h2 ed where ch2: "ch = (c2, h2, ed)" by (metis prod_cases3)
  obtain D ee0 where D: "reconcileAppProject R E c2 C = (D, ee0)" by (rule prod.exhaust)
  define ee where "ee = first_error ed ee0"
  define ef where "ef = (case ee of Some e \<Rightarrow> Some e | None \<Rightarrow>
    validate (r_semver R) (r_versions R) (DisableVersionValidation R) (reader_at (oe_argo E) 5 (w_apps D)) c2)"
  obtain F eg where F: "reconcileApplication R E c2 D = (F, eg)" by (rule prod.exhaust)
  obtain G eh where G: "reconcileClustersConfigMap R E c2 F = (G, eh)" by (rule prod.exhaust)
  have fr: "w_apps D = w_apps W" "w_clusters D = w_clusters W"
    using reconcileArgoCDSecret_apps [OF A] reconcileToolbox_apps [OF B0] reconcileAppProject_apps [OF D]
    by (auto simp: C_def)
  have c2: "cl_spec c2 = cl_spec cl" "cl_name c2 = cl_name cl" "cl_generation c2 = cl_generation cl"
    "st_phase (cl_status c2) = st_phase (cl_status cl)"
    "conditions_wf (st_conditions (cl_status cl)) \<Longrightarrow> conditions_wf (st_conditions (cl_status c2))"
    using ch2 reconcileHealth_frame [OF H] by (auto simp: ch_def split: option.splits sum.splits)
  have run: "deploySteps R E wr cl W =
    (let (W6, app, e6) = (case ef of Some e \<Rightarrow> (D, None, Some e)
        | None \<Rightarrow> (case (F, eg) of (V, Some e) \<Rightarrow> (V, None, Some e)
            | (V, None) \<Rightarrow> (V, (case rd_get (reader_at (oe_argo E) 6 (w_apps V)) (cl_name cl) of
                 Inr a \<Rightarrow> Some a | Inl _ \<Rightarrow> fmlookup (w_apps V) (cl_name cl)), None)));
       (W7, e7) = (case e6 of Some e \<Rightarrow> (W6, Some e)
         | None \<Rightarrow> (case reconcileClustersConfigMap R E c2 W6 of
              (V, Some e) \<Rightarrow> (V, Some (ErrorfW ''failed to reconcile clusters ConfigMap: '' e))
            | (V, None) \<Rightarrow> (V, None)))
     in (W7, c2, app, h2, e7))"
  proof -
    have 1: "(if ToolboxEnabled R then case reconcileToolboxKubeconfigSecret R E wr A of (V, e) \<Rightarrow> (V, first_error ea e) else (A, ea)) = (C, ec)"
      by (simp add: B0 C_def ec_def)
    have 2: "(case ec of None \<Rightarrow> case reconcileHealth E C cl of (c, Inl e) \<Rightarrow> (c, ([], 0, None), Some e) | (c, Inr h) \<Rightarrow> (c, h, None)
        | Some e \<Rightarrow> (cl, ([], 0, None), Some e)) = (c2, h2, ed)"
      using ch2 by (cases ec; cases r) (auto simp: H ch_def)
    show ?thesis unfolding deploySteps_def
      by (simp only: A 1 2 D F Let_def prod.case ee_def [symmetric] ef_def [symmetric])
  qed
  have val: "ef = None \<Longrightarrow> validate (r_semver R) (r_versions R) (DisableVersionValidation R)
      (reader_at (oe_argo E) 5 (w_apps W)) cl = None"
    by (auto simp: ef_def fr(1) validate_cong [OF c2(1,2)] split: option.splits)
  have stop: "ef \<noteq> None \<Longrightarrow> W' = D \<and> app = None \<and> e = ef" and cl': "cl' = c2"
    using assms run by (auto simp: Let_def split: option.splits prod.splits)
  have go: "ef = None \<Longrightarrow> \<exists>V e2. reconcileApplication R E cl' D = (V, e2) \<and>
        w_apps W' = w_apps V \<and> w_clusters W' = w_clusters V \<and>
        (if e2 = None then app \<noteq> None else app = None \<and> e = e2)"
  proof -
    assume ef: "ef = None"
    show ?thesis
    proof (cases eg)
      case None
      with reconcileApplication_ok F c2(2) have "fmlookup (w_apps F) (cl_name cl) \<noteq> None" by fastforce
      with assms run ef None G F cl' reconcileClustersConfigMap_apps [OF G] show ?thesis
        by (auto split: prod.splits option.splits sum.splits)
    next
      case (Some x)
      with assms run ef F cl' show ?thesis by (auto split: prod.splits)
    qed
  qed
  show thesis using that [of D ef] fr c2 cl' val stop go by blast
qed


section \<open>Unsupported versions are not deployed\<close>

lemma deploySteps_apps:
  assumes run: "deploySteps R E wr cl W = (W', cl', app, h, e)"
  shows "fmlookup (w_apps W') name = fmlookup (w_apps W) name \<or>
    name = cl_name cl \<and> validate (r_semver R) (r_versions R) (DisableVersionValidation R)
      (reader_at (oe_argo E) 5 (w_apps W)) cl = None"
  by (rule deploySteps_split [OF run]) (metis reconcileApplication_frame(2))

lemma deploySteps_frame:
  assumes run: "deploySteps R E wr cl W = (W', cl', app, h, e)"
  shows "w_clusters W' = w_clusters W" "cl_spec cl' = cl_spec cl" "cl_name cl' = cl_name cl"
    "st_phase (cl_status cl') = st_phase (cl_status cl)"
    "conditions_wf (st_conditions (cl_status cl)) \<Longrightarrow> conditions_wf (st_conditions (cl_status cl'))"
    "e = None \<Longrightarrow> app \<noteq> None"
  by (rule deploySteps_split [OF run]; metis reconcileApplication_clusters)+

lemma periodicStep_frame:
  assumes "periodicStep R E now app h e cl W = (W', cl')"
  shows "spec_at (w_apps W') = spec_at (w_apps W)" "cl_spec cl' = cl_spec cl" "cl_name cl' = cl_name cl"
  using assms
  by (auto simp: periodicStep_def Let_def split: if_splits prod.splits bool.splits
      dest: runPeriodicSync_spec syncStatus_frame)

lemma reconcileTalosManager_frame:
  assumes "reconcileTalosManager R E T cl W = (W', cl', acts, e)"
  shows "name \<noteq> talosAppName cl \<Longrightarrow> fmlookup (w_apps W') name = fmlookup (w_apps W) name"
    "w_clusters W' = w_clusters W"
  using assms
  by (auto simp: reconcileTalosManager_def upsertTalosApp_def dest: CreateOrUpdate_other
      split: option.splits sum.splits prod.splits if_splits)

lemma talosStep_apps:
  assumes "talosStep R E T e cl W = (W', acts, e')" "name \<noteq> talosAppName cl"
  shows "fmlookup (w_apps W') name = fmlookup (w_apps W) name"
  using assms reconcileTalosManager_frame(1) [of R E T cl W, OF _ assms(2)]
  by (auto simp: talosStep_def Let_def dest: generateConnectionSecret_apps
      split: option.splits sum.splits prod.splits if_splits)

lemma talosAppName_neq: "cl_name cl \<noteq> talosAppName cl"
proof
  assume "cl_name cl = talosAppName cl"
  then have "length (cl_name cl) = length (talosAppName cl)" by simp
  then show False by (simp add: talosAppName_def TalosManagerApp_def)
qed

lemma reconcileCluster_unsupported:
  assumes "validate (r_semver R) (r_versions R) (DisableVersionValidation R)
      (reader_at (oe_argo E) 5 (w_apps W)) cl \<noteq> None"
  shows "spec_at (w_apps (oc_world (reconcileCluster R E T wr now cl W))) (cl_name cl) = spec_at (w_apps W) (cl_name cl)"
proof (cases "sp_connection (cl_spec cl) = None")
  case True
  then show ?thesis by (simp add: reconcileCluster_def)
next
  case False
  then obtain conn where conn: "sp_connection (cl_spec cl) = Some conn" by blast
  obtain W1 cl1 app k n ceph e where d: "deploySteps R E wr cl W = (W1, cl1, app, (k, n, ceph), e)"
    by (metis prod.exhaust)
  define pe where "pe = patchError E ''status'' cl1 W1"
  obtain cl2 res err where s: "syncStatus R (reader_at (oe_argo E) 7 (w_apps W1)) now pe cl1 app k n ceph e None = (cl2, res, err)"
    by (metis prod.exhaust)
  obtain W3 cl3 where p: "periodicStep R E now app (k, n, ceph) e cl2 (persistStatus pe cl2 W1) = (W3, cl3)"
    by (rule prod.exhaust)
  obtain W4 acts te where t: "talosStep R E T e cl3 W3 = (W4, acts, te)" by (metis prod.exhaust)
  have world: "oc_world (reconcileCluster R E T wr now cl W) =
      (if err \<noteq> None \<or> res \<noteq> None then persistStatus pe cl2 W1 else W4)"
    by (simp add: reconcileCluster_def conn d s p t Let_def flip: pe_def split: option.splits)
  have names: "cl_name cl3 = cl_name cl"
    using deploySteps_frame(3) [OF d] syncStatus_frame(2) [OF s] periodicStep_frame(3) [OF p] by simp
  have 1: "spec_at (w_apps W1) (cl_name cl) = spec_at (w_apps W) (cl_name cl)"
    using deploySteps_apps [OF d, of "cl_name cl"] assms by (simp add: spec_at_def)
  have 3: "spec_at (w_apps W3) (cl_name cl) = spec_at (w_apps W) (cl_name cl)"
    using periodicStep_frame(1) [OF p] 1 by simp
  have "fmlookup (w_apps W4) (cl_name cl) = fmlookup (w_apps W3) (cl_name cl)"
    using talosStep_apps [OF t] talosAppName_neq [of cl3] names by simp
  with 1 3 world show ?thesis by (simp add: spec_at_def)
qed


section \<open>Deleting a cluster\<close>

text \<open>What a reconciliation does to a cluster that is being deleted.\<close>

lemma Reconcile_deleting:
  assumes "get_object E ''cluster'' (snd req) req (w_clusters W) = Inr cl" "cl_deleting cl"
    and "cleanupCluster R E cl W = (W1, Some e)"
  shows "w_apps (oc_world (Reconcile R E T wr now req W)) = w_apps W1 \<or>
    oc_world (Reconcile R E T wr now req W) = W"
  using assms by (auto simp: Reconcile_def Let_def split: prod.splits)

lemma persistStatus_dom [simp]:
  "fmlookup (w_clusters (persistStatus e cl W)) key = None \<longleftrightarrow> fmlookup (w_clusters W) key = None"
  by (auto simp: persistStatus_def split: option.splits)

lemma cleanupCluster_frame:
  assumes "cleanupCluster R E cl W = (W', e)"
  shows "w_apps W' = w_apps W" "w_clusters W' = w_clusters W"
  using assms removeClusterFromConfigMap_frame [of R E cl W]
  by (auto simp: cleanupCluster_def Let_def split: sum.splits option.splits if_splits prod.splits)

text \<open>
  The store loses the object of a cluster that is being deleted only after a cleanup that found
  nothing left.
\<close>

lemma Reconcile_released:
  assumes cl: "fmlookup (w_clusters W) req = Some cl" and del: "cl_deleting cl"
    and gone: "fmlookup (w_clusters (oc_world (Reconcile R E T wr now req W))) req = None"
  shows "\<exists>W1. cleanupCluster R E cl W = (W1, None) \<and> w_apps (oc_world (Reconcile R E T wr now req W)) = w_apps W \<and>
    w_configmap (oc_world (Reconcile R E T wr now req W)) = w_configmap W1"
proof -
  obtain W1 e where c: "cleanupCluster R E cl W = (W1, e)" by (rule prod.exhaust)
  show ?thesis
  proof (cases e)
    case None
    with assms c cleanupCluster_frame [OF c] show ?thesis
      by (auto simp: Reconcile_def Let_def get_object_def updateFinalizers_def
          split: option.splits if_splits)
  next
    case (Some x)
    with assms c cleanupCluster_frame [OF c] show ?thesis
      by (auto simp: Reconcile_def Let_def get_object_def split: option.splits if_splits prod.splits)
  qed
qed

end
