(* ===== verification/Op_Invariant.thy ===== *)
theory Op_Invariant
  imports Op_Safety
begin

text \<open>
  The invariant of the clusters in the store: one condition per type, a phase the resource definition
  allows, and a \<^verbatim>\<open>Ready\<close> condition that agrees with the others. It holds in every state that is
  reached by reconciliations of any outcome and by users who create, change and delete clusters.
\<close>

section \<open>The invariant\<close>

definition phases :: "string set" where
  "phases = {''Deploying'', ''Deployed'', ''OutOfSync'', ''Error'', ''Paused'', ''Unknown''}"

definition ready_agrees :: "spx_cluster \<Rightarrow> bool" where
  "ready_agrees cl \<longleftrightarrow> ((\<exists>r m. status_cond cl ''Ready'' = Some (''True'', r, m)) \<longrightarrow>
     (\<exists>r m. status_cond cl ''Reachable'' = Some (''True'', r, m)) \<and>
     (\<nexists>r m. status_cond cl ''CompatibleVersion'' = Some (''False'', r, m)) \<and>
     (\<forall>s r m. status_cond cl ''ArgoCDSynced'' = Some (s, r, m) \<longrightarrow> s = ''True'') \<and>
     st_phase (cl_status cl) \<noteq> ''Error'')"

definition status_ok :: "spx_cluster \<Rightarrow> bool" where
  "status_ok cl \<longleftrightarrow> conditions_wf (st_conditions (cl_status cl)) \<and>
     st_phase (cl_status cl) \<in> insert [] phases \<and> ready_agrees cl"

definition world_ok :: "op_world \<Rightarrow> bool" where
  "world_ok W \<longleftrightarrow> (\<forall>key cl. fmlookup (w_clusters W) key = Some cl \<longrightarrow> status_ok cl)"


section \<open>The status a reconciliation writes\<close>

lemma appOutcome_phases:
  assumes "appOutcome old a = (s, r, m, ph)" "old \<in> insert [] phases"
  shows "ph \<in> phases" and "s = ''True'' \<Longrightarrow> ph \<noteq> ''Error''"
  using assms
  by (auto simp: appOutcome_def healthOutcome_def syncOutcome_def phases_def split: if_splits)

lemma determineConditions_phase:
  assumes "st_phase (cl_status cl) \<in> insert [] phases"
  shows "st_phase (cl_status (determineConditions R rd cl app k n c e)) \<in> insert [] phases"
proof (cases "app = None \<or> paused cl")
  case True
  with assms show ?thesis by (auto simp: determineConditions_def Let_def split: option.splits)
next
  case False
  then obtain a where a: "app = Some a" "\<not> paused cl" by auto
  obtain s r m ph where o: "appOutcome (st_phase (cl_status cl)) a = (s, r, m, ph)" by (metis prod.exhaust)
  from appOutcome_phases(1) [OF o assms] show ?thesis
    by (simp add: a(1) determineConditions_app [OF a(2) o])
qed

lemma nextPhase_phases:
  "st_phase (cl_status cl) \<in> insert [] phases \<Longrightarrow> nextPhase e cl \<in> phases"
  by (auto simp: nextPhase_def Let_def phases_def)

text \<open>
  A status computed from a well-formed one satisfies the invariant, provided an error-free pass has
  read the Application.
\<close>

lemma syncStatus_ok:
  assumes run: "syncStatus R rd now pe cl app k n c e ls = (cl', res, err)"
    and wf: "conditions_wf (st_conditions (cl_status cl))"
    and ph: "st_phase (cl_status cl) \<in> insert [] phases"
    and app: "e = None \<Longrightarrow> app \<noteq> None"
  shows "status_ok cl'"
proof -
  have phase: "st_phase (cl_status cl') \<in> phases"
    using syncStatus_phase_version(1) [OF run] nextPhase_phases [OF determineConditions_phase [OF ph]]
    by metis
  have "st_phase (cl_status cl') \<noteq> ''Error''" if ready: "\<exists>r m. status_cond cl' ''Ready'' = Some (''True'', r, m)"
  proof -
    from ready syncStatus_ready_iff [OF run] have e: "e = None"
      and argo: "\<And>s r m. status_cond cl' ''ArgoCDSynced'' = Some (s, r, m) \<Longrightarrow> s = ''True''" by blast+
    from e app obtain a where a: "app = Some a" by blast
    obtain s r m p where o: "appOutcome (st_phase (cl_status cl)) a = (s, r, m, p)" by (metis prod.exhaust)
    note phase' = syncStatus_phase [OF run [unfolded a] wf o]
    show ?thesis
    proof (cases "paused cl")
      case True
      with phase' e show ?thesis by simp
    next
      case False
      have "status_cond cl' ''ArgoCDSynced'' = Some (s, r, m)"
        by (simp add: syncStatus_cluster [OF run] a determineConditions_app [OF False o])
      with argo have "s = ''True''" by blast
      with appOutcome_phase(2) [OF o] phase' e False show ?thesis by auto
    qed
  qed
  with syncStatus_ready_iff [OF run] have "ready_agrees cl'" by (auto simp: ready_agrees_def)
  with phase syncStatus_frame(4) [OF run wf] show ?thesis by (simp add: status_ok_def)
qed

lemma status_ok_cong:
  "st_conditions (cl_status a) = st_conditions (cl_status b) \<Longrightarrow> st_phase (cl_status a) = st_phase (cl_status b) \<Longrightarrow>
     status_ok a = status_ok b"
  by (simp add: status_ok_def ready_agrees_def)

lemma world_okD: "world_ok W \<Longrightarrow> fmlookup (w_clusters W) key = Some cl \<Longrightarrow> status_ok cl"
  unfolding world_ok_def by blast

lemma world_ok_update:
  "world_ok W \<Longrightarrow> status_ok cl \<Longrightarrow> world_ok (W\<lparr>w_clusters := fmupd key cl (w_clusters W)\<rparr>)"
  by (simp add: world_ok_def)

lemma persistStatus_ok:
  assumes "world_ok W" "e = None \<Longrightarrow> status_ok cl"
  shows "world_ok (persistStatus e cl W)"
proof -
  have "status_ok (stored\<lparr>cl_status := cl_status cl\<rparr>) = status_ok cl" for stored
    by (rule status_ok_cong) simp_all
  with assms show ?thesis by (simp add: persistStatus_def world_ok_update split: option.splits)
qed

lemma persistPxe_ok:
  assumes "world_ok W"
  shows "world_ok (persistPxe T cl W)"
proof -
  have "status_ok (stored\<lparr>cl_status := (cl_status stored)\<lparr>st_pxeSetupDone := d\<rparr>\<rparr>) = status_ok stored" for stored d
    by (rule status_ok_cong) simp_all
  with assms show ?thesis
    by (auto simp: persistPxe_def intro!: world_ok_update intro: world_okD split: option.splits)
qed

lemma world_ok_cong: "w_clusters W' = w_clusters W \<Longrightarrow> world_ok W' = world_ok W"
  by (simp add: world_ok_def)

lemma periodicStep_ok:
  assumes "periodicStep R E now app h e cl W = (W', cl')" "world_ok W" "status_ok cl" "e = None \<Longrightarrow> app \<noteq> None"
  shows "world_ok W'"
proof (cases "W' = W \<or> (\<exists>apps. W' = W\<lparr>w_apps := apps\<rparr>)")
  case True
  with assms(2) show ?thesis by (auto simp: world_ok_def)
next
  case False
  with assms(1) obtain apps pe k n c cl1 r where
    s: "syncStatus R (reader_at (oe_argo E) 8 apps) now pe cl app k n c e (Some now) = (cl1, r)"
    and W': "W' = persistStatus pe cl1 (W\<lparr>w_apps := apps\<rparr>)"
    by (auto simp: periodicStep_def Let_def split: if_splits prod.splits bool.splits)
  obtain res err where r: "r = (res, err)" by (rule prod.exhaust)
  have "status_ok cl1"
    using syncStatus_ok [OF s [unfolded r]] assms(3,4) by (auto simp: status_ok_def)
  with assms(2) show ?thesis unfolding W' by (intro persistStatus_ok) (auto simp: world_ok_def)
qed

lemma talosStep_ok:
  assumes "talosStep R E T e cl W = (W', acts, e')" "world_ok W"
  shows "world_ok W'"
proof -
  obtain W1 cl1 a e1 where t: "reconcileTalosManager R E T cl W = (W1, cl1, a, e1)" by (metis prod.exhaust)
  have 1: "world_ok (persistPxe T cl1 W1)"
    using reconcileTalosManager_frame(2) [OF t] assms(2) by (intro persistPxe_ok) (simp add: world_ok_def)
  show ?thesis
    using assms t 1
    by (auto simp: talosStep_def Let_def world_ok_def dest: generateConnectionSecret_apps
        split: option.splits sum.splits prod.splits if_splits)
qed

lemma reconcileCluster_ok:
  assumes "world_ok W" "status_ok cl"
  shows "world_ok (oc_world (reconcileCluster R E T wr now cl W))"
proof (cases "sp_connection (cl_spec cl)")
  case None
  with assms show ?thesis by (simp add: reconcileCluster_def)
next
  case conn: (Some conn)
  obtain W1 cl1 app k n ceph e where d: "deploySteps R E wr cl W = (W1, cl1, app, (k, n, ceph), e)"
    by (metis prod.exhaust)
  define pe where "pe = patchError E ''status'' cl1 W1"
  obtain cl2 res err where s: "syncStatus R (reader_at (oe_argo E) 7 (w_apps W1)) now pe cl1 app k n ceph e None = (cl2, res, err)"
    by (metis prod.exhaust)
  obtain W3 cl3 where p: "periodicStep R E now app (k, n, ceph) e cl2 (persistStatus pe cl2 W1) = (W3, cl3)"
    by (rule prod.exhaust)
  obtain W4 acts te where t: "talosStep R E T e cl3 W3 = (W4, acts, te)" by (metis prod.exhaust)
  have world: "oc_world (reconcileCluster R E T wr now cl W) =
      (if err \<noteq> None \<or> res \<noteq> None then persistStatus pe cl2 W1 else W4)"
    by (simp add: reconcileCluster_def conn d s p t Let_def flip: pe_def split: option.splits)
  note df = deploySteps_frame [OF d]
  have cl2: "status_ok cl2"
    using syncStatus_ok [OF s] df assms(2) by (simp add: status_ok_def)
  then have W2: "world_ok (persistStatus pe cl2 W1)"
    using assms(1) df(1) by (intro persistStatus_ok) (simp_all add: world_ok_def)
  with periodicStep_ok [OF p W2 cl2 df(6)] talosStep_ok [OF t] show ?thesis by (simp add: world)
qed

lemma status_ok_finalizers [simp]: "status_ok (cl\<lparr>cl_finalizers := fs\<rparr>) = status_ok cl"
  by (simp add: status_ok_def ready_agrees_def)

lemma updateFinalizers_ok: "world_ok W \<Longrightarrow> status_ok cl \<Longrightarrow> world_ok (updateFinalizers cl fs W)"
  by (auto simp: world_ok_def updateFinalizers_def split: if_splits)

lemma Reconcile_ok:
  assumes "world_ok W"
  shows "world_ok (oc_world (Reconcile R E T wr now req W))"
proof (cases "get_object E ''cluster'' (snd req) req (w_clusters W)")
  case (Inl e)
  with assms show ?thesis by (simp add: Reconcile_def Let_def)
next
  case (Inr cl)
  then have cl: "status_ok cl" using assms by (auto simp: get_object_def intro: world_okD split: option.splits)
  obtain W1 e where c: "cleanupCluster R E cl W = (W1, e)" by (rule prod.exhaust)
  have W1: "world_ok W1" using cleanupCluster_frame(2) [OF c] assms by (simp add: world_ok_def)
  have err: "world_ok (persistStatus pe cl1 W1)"
    if "syncStatus R rd now pe cl None [] 0 None (Some x) None = (cl1, r)" for rd pe x cl1 r
  proof -
    obtain res er where "r = (res, er)" by (rule prod.exhaust)
    with that syncStatus_ok [of R rd now pe cl None "[]" 0 None "Some x" None cl1 res er] cl
    show ?thesis using W1 by (intro persistStatus_ok) (auto simp: status_ok_def)
  qed
  show ?thesis
    using assms Inr cl c W1 err
    by (auto simp: Reconcile_def Let_def reconcileCluster_ok updateFinalizers_ok split: option.splits prod.splits)
qed


section \<open>Reachable states\<close>

definition new_status :: cluster_status where
  "new_status = \<lparr>st_phase = [], st_superphenixVersion = [], st_kubernetesVersion = [], st_nodeCount = 0,
     st_apps = fmempty, st_cephClusters = None, st_conditions = [], st_observedGeneration = 0,
     st_lastSync = None, st_pxeSetupDone = None\<rparr>"

inductive op_step :: "('v, 'c) reconciler \<Rightarrow> op_world \<Rightarrow> op_world \<Rightarrow> bool" for R where
  create: "fmlookup (w_clusters W) (cluster_key cl) = None \<Longrightarrow> cl_status cl = new_status \<Longrightarrow>
     op_step R W (W\<lparr>w_clusters := fmupd (cluster_key cl) cl (w_clusters W)\<rparr>)"
| edit: "fmlookup (w_clusters W) key = Some cl \<Longrightarrow>
     op_step R W (W\<lparr>w_clusters := fmupd key (cl\<lparr>cl_spec := spec, cl_generation := cl_generation cl + 1\<rparr>) (w_clusters W)\<rparr>)"
| delete: "fmlookup (w_clusters W) key = Some cl \<Longrightarrow>
     op_step R W (W\<lparr>w_clusters := fmupd key (cl\<lparr>cl_deleting := True\<rparr>) (w_clusters W)\<rparr>)"
| others: "w_clusters W' = w_clusters W \<Longrightarrow> op_step R W W'"
| reconcile: "op_step R W (oc_world (Reconcile R E T wr now req W))"

inductive op_reachable :: "('v, 'c) reconciler \<Rightarrow> op_world \<Rightarrow> bool" for R where
  init: "w_clusters W = fmempty \<Longrightarrow> op_reachable R W"
| step: "op_reachable R W \<Longrightarrow> op_step R W W' \<Longrightarrow> op_reachable R W'"

lemma new_status_ok: "cl_status cl = new_status \<Longrightarrow> status_ok cl"
  by (simp add: status_ok_def ready_agrees_def new_status_def conditions_wf_def)

lemma op_step_ok: "op_step R W W' \<Longrightarrow> world_ok W \<Longrightarrow> world_ok W'"
proof (induction rule: op_step.induct)
  case (create W cl)
  then show ?case using new_status_ok by (simp add: world_ok_def)
next
  case (edit W key cl spec)
  then have "status_ok cl" using world_okD by blast
  then have "status_ok (cl\<lparr>cl_spec := spec, cl_generation := cl_generation cl + 1\<rparr>)"
    using status_ok_cong [of cl "cl\<lparr>cl_spec := spec, cl_generation := cl_generation cl + 1\<rparr>"] by simp
  with edit show ?case by (simp add: world_ok_update)
next
  case (delete W key cl)
  then have "status_ok cl" using world_okD by blast
  then have "status_ok (cl\<lparr>cl_deleting := True\<rparr>)"
    using status_ok_cong [of cl "cl\<lparr>cl_deleting := True\<rparr>"] by simp
  with delete show ?case by (simp add: world_ok_update)
next
  case (others W' W)
  then show ?case by (simp add: world_ok_def)
next
  case (reconcile W E T wr now req)
  then show ?case by (rule Reconcile_ok)
qed

lemma op_reachable_ok: "op_reachable R W \<Longrightarrow> world_ok W"
proof (induction rule: op_reachable.induct)
  case (init W)
  then show ?case by (simp add: world_ok_def)
next
  case (step W W')
  then show ?case using op_step_ok by blast
qed

end
