(* ===== verification/Op_Examples.thy ===== *)
theory Op_Examples
  imports Op_Invariant
begin

text \<open>
  Concrete clusters, Applications and environments on which the properties of the operator are
  applied, and an instance of the semantic-version library: versions \<open>major.minor.patch\<close> in numerical
  order, and constraints that are lists of lower and upper bounds.
\<close>

section \<open>Versions\<close>

type_synonym triple = "int \<times> int \<times> int"

definition older :: "triple \<Rightarrow> triple \<Rightarrow> bool" where
  "older a b = (case (a, b) of ((a1, a2, a3), (b1, b2, b3)) \<Rightarrow>
     a1 < b1 \<or> a1 = b1 \<and> (a2 < b2 \<or> a2 = b2 \<and> a3 < b3))"

fun split_at :: "char \<Rightarrow> string \<Rightarrow> string list" where
  "split_at x [] = [[]]"
| "split_at x (c # cs) =
     (if c = x then [] # split_at x cs
      else case split_at x cs of [] \<Rightarrow> [[c]] | p # ps \<Rightarrow> (c # p) # ps)"

definition parse_triple :: "string \<Rightarrow> triple option" where
  "parse_triple s =
     (case map read_nat (split_at (CHR ''.'') s) of
        [Some a, Some b, Some c] \<Rightarrow> Some (a, b, c)
      | _ \<Rightarrow> None)"

datatype bound = AtLeast triple | Below triple

definition parse_bound :: "string \<Rightarrow> bound option" where
  "parse_bound s =
     (let t = dropWhile is_space s
      in if has_prefix ''>= '' t then map_option AtLeast (parse_triple (tl (tl (tl t))))
         else if has_prefix ''< '' t then map_option Below (parse_triple (tl (tl t))) else None)"

fun bound_ok :: "triple \<Rightarrow> bound \<Rightarrow> bool" where
  "bound_ok v (AtLeast l) = (\<not> older v l)"
| "bound_ok v (Below h) = older v h"

definition triple_lib :: "(triple, bound list) semver_lib" where
  "triple_lib = \<lparr>NewVersion = (\<lambda>s. case parse_triple s of Some v \<Rightarrow> Inr v | None \<Rightarrow> Inl (Errorf ''Invalid Semantic Version'')),
     NewConstraint = (\<lambda>s. let bs = map parse_bound (split_at (CHR '','') s)
        in if None \<in> set bs then Inl (Errorf ''improper constraint'') else Inr (map the bs)),
     Check = (\<lambda>c v. list_all (bound_ok v) c)\<rparr>"

definition blue_range :: version_cfg where
  "blue_range = \<lparr>MinOperatorVersion = ''1.0.0'', MinClusterVersion = ''1.2.0'', MaxClusterVersion = ''2.0.0''\<rparr>"

lemma blue_parse:
  "parse_triple ''1.2.0'' = Some (1, 2, 0)" "parse_triple ''2.0.0'' = Some (2, 0, 0)"
  "parse_triple ''1.0.0'' = Some (1, 0, 0)" "parse_triple ''1.4.2'' = Some (1, 4, 2)"
  "parse_triple ''2.1.0'' = Some (2, 1, 0)" "parse_triple ''1.3.0'' = Some (1, 3, 0)"
  by code_simp+

lemma blue_constraints:
  "map parse_bound (split_at (CHR '','') (clusterRange blue_range)) = [Some (AtLeast (1, 2, 0)), Some (Below (2, 0, 0))]"
  "map parse_bound (split_at (CHR '','') (''>= '' @ MinOperatorVersion blue_range)) = [Some (AtLeast (1, 0, 0))]"
  by code_simp+

lemma triple_version: "NewVersion triple_lib s = (case parse_triple s of Some v \<Rightarrow> Inr v | None \<Rightarrow> Inl (Errorf ''Invalid Semantic Version''))"
  by (simp add: triple_lib_def)

lemma triple_constraints:
  "NewConstraint triple_lib (clusterRange blue_range) = Inr [AtLeast (1, 2, 0), Below (2, 0, 0)]"
  "NewConstraint triple_lib (''>= '' @ MinOperatorVersion blue_range) = Inr [AtLeast (1, 0, 0)]"
  unfolding triple_lib_def semver_lib.simps Let_def blue_constraints by simp_all

lemma triple_check: "Check triple_lib c v = list_all (bound_ok v) c"
  by (simp add: triple_lib_def)

lemma blue_bounds:
  "MinOperatorVersion blue_range = ''1.0.0''" "MinClusterVersion blue_range = ''1.2.0''"
  "MaxClusterVersion blue_range = ''2.0.0''"
  by (simp_all add: blue_range_def)

lemma triple_laws: "semver_laws triple_lib blue_range (\<lambda>_. False) older"
  unfolding semver_laws_def triple_constraints
  by (simp add: triple_check blue_bounds triple_version blue_parse)


section \<open>A cluster\<close>

definition blue_reconciler :: "(triple, bound list) reconciler" where
  "blue_reconciler = \<lparr>OperatorNamespace = ''spx'', ClustersConfigMapName = ''clusters'', SystemChartURL = ''oci://charts'',
     SystemChartName = ''system'', SystemChartVersion = ''1.2.0'', SyncPeriod = 300, SyncTimeout = 600,
     TalosManagerChartURL = ''oci://charts'', TalosManagerChartVersion = ''1.0.0'',
     DisableVersionValidation = False, ToolboxEnabled = False, r_semver = triple_lib, r_versions = blue_range\<rparr>"

definition blue_spec :: "string \<Rightarrow> cluster_spec" where
  "blue_spec v = \<lparr>sp_topology = DeploymentTopologyHyperconverged, sp_type = None, sp_talosMode = TalosManagementUnmanaged,
     sp_talosConfig = None, sp_region = ''eu'', sp_availabilityZone = ''az1'', sp_systemConfiguration = None,
     sp_systemLocation = None, sp_version = v,
     sp_connection = Some \<lparr>cs_mode = ConnectionModeLocal, cs_url = [], cs_secretRef = None\<rparr>, sp_lifecycle = None\<rparr>"

definition blue_reachable_cond :: condition where
  "blue_reachable_cond = \<lparr>c_type = ''Reachable'', c_status = ''True'', c_reason = ''ConnectionSuccess'',
     c_message = ''Successfully connected to cluster'', c_generation = 1, c_transition = 50\<rparr>"

definition blue_cluster_v :: "string \<Rightarrow> spx_cluster" where
  "blue_cluster_v v = \<lparr>cl_name = ''blue'', cl_namespace = ''spx'', cl_generation = 1, cl_deleting = False,
     cl_finalizers = [FinalizerName], cl_spec = blue_spec v,
     cl_status = new_status\<lparr>st_conditions := [blue_reachable_cond]\<rparr>\<rparr>"

definition blue_app :: "string \<Rightarrow> string \<Rightarrow> argo_app" where
  "blue_app name cn = \<lparr>app_name = name, app_labels = fmap_of_list [(ClusterLabel, cn)], app_owner = Some cn, app_finalizers = [],
     app_spec = Some \<lparr>as_project = cn, as_repoURL = ''oci://charts'', as_chart = ''system'',
       as_targetRevision = Some ''1.4.2'', as_values = fmempty, as_destination = (''in-cluster'', ''spx''),
       as_autoEnabled = Some True, as_prune = True, as_selfHeal = True, as_syncOptions = [], as_retry = None\<rparr>,
     app_sources = [], app_health = Some ''Healthy'', app_sync = Some ''Synced'', app_phase = Some ''Succeeded'',
     app_startedAt = Some 100, app_finishedAt = Some 120, app_reconciledAt = Some 130, app_operation = False\<rparr>"

definition blue_store :: argo_store where
  "blue_store = fmap_of_list [(''blue'', blue_app ''blue'' ''blue''), (''blue-net'', blue_app ''blue-net'' ''blue''),
     (''red'', blue_app ''red'' ''red'')]"

definition blue_reader :: app_reader where
  "blue_reader = \<lparr>rd_get = (\<lambda>name. case fmlookup blue_store name of Some a \<Rightarrow> Inr a | None \<Rightarrow> Inl (app_not_found name)),
     rd_list = (\<lambda>cn. Inr (filter (labelled cn) (map snd (gentries blue_store))))\<rparr>"

text \<open>An API server that answers every call, and a cache that is up to date.\<close>

definition calm_argo :: argo_env where
  "calm_argo = \<lparr>ae_fails = (\<lambda>_. None), ae_view = (\<lambda>_ st. st)\<rparr>"

lemma calm_argo_simps [simp]: "ae_fails calm_argo c = None" "ae_view calm_argo k st = st"
  by (simp_all add: calm_argo_def)

lemma calm_cache: "cache_ok calm_argo"
  by (simp add: cache_ok_def)

lemma blue_store_lookup:
  "fmlookup blue_store name = (if name = ''blue'' then Some (blue_app ''blue'' ''blue'')
     else if name = ''blue-net'' then Some (blue_app ''blue-net'' ''blue'')
     else if name = ''red'' then Some (blue_app ''red'' ''red'') else None)"
  by (simp add: blue_store_def fmlookup_of_list)

lemma blue_store_wf: "store_wf blue_store"
  by (auto simp: store_wf_def blue_store_lookup blue_app_def split: if_splits)

end
