(* ===== verification/Op_Properties.thy ===== *)
theory Op_Properties
  imports Op_Examples
begin

text \<open>
  The properties of the operator, each with an application to a concrete cluster.
\<close>

section \<open>The status of a cluster\<close>

lemma blue_wf: "conditions_wf (st_conditions (cl_status (blue_cluster_v v)))"
  by (simp add: blue_cluster_v_def conditions_wf_def new_status_def)

lemma blue_version: "GetCurrentClusterVersion blue_reader ''blue'' = Inr ''1.4.2''"
  by (simp add: GetCurrentClusterVersion_def GetApplicationVersion_def blue_reader_def blue_store_lookup blue_app_def)

definition blue_sync :: "go_error option \<Rightarrow> spx_cluster \<times> ctrl_result \<times> go_error option" where
  "blue_sync e = syncStatus blue_reconciler blue_reader 1000 None (blue_cluster_v ''1.4.2'')
     (Some (blue_app ''blue'' ''blue'')) ''v1.31.0'' 3 None e None"

lemma blue_sync_run:
  "syncStatus blue_reconciler blue_reader 1000 None (blue_cluster_v ''1.4.2'') (Some (blue_app ''blue'' ''blue''))
     ''v1.31.0'' 3 None e None = (fst (blue_sync e), fst (snd (blue_sync e)), snd (snd (blue_sync e)))"
  by (simp add: blue_sync_def)

lemma blue_simps [simp]:
  "sp_version (cl_spec (blue_cluster_v v)) = v" "\<not> paused (blue_cluster_v v)" "cl_name (blue_cluster_v v) = ''blue''"
  "cl_generation (blue_cluster_v v) = 1" "st_conditions (cl_status (blue_cluster_v v)) = [blue_reachable_cond]"
  "app_health (blue_app n cn) = Some ''Healthy''" "app_sync (blue_app n cn) = Some ''Synced''" "app_name (blue_app n cn) = n"
  "c_type blue_reachable_cond = ''Reachable''"
  by (simp_all add: blue_cluster_v_def blue_spec_def paused_def blue_app_def blue_reachable_cond_def)

text \<open>
  C11. Whatever happens to the clusters - users creating, changing and deleting them, and any number of
  reconciliations in which any call may fail - every stored cluster has at most one condition of each
  type and one of the phases the resource definition allows (none before the first reconciliation), and
  when its Ready condition is true, the cluster is reachable, its version is not known to be
  incompatible, its Application is not reported as anything but synced, and its phase is not Error.
\<close>

theorem cluster_status_consistent:
  "op_reachable R W \<and> fmlookup (w_clusters W) key = Some cl \<longrightarrow>
     distinct (map c_type (st_conditions (cl_status cl))) \<and>
     st_phase (cl_status cl) \<in> {[], ''Deploying'', ''Deployed'', ''OutOfSync'', ''Error'', ''Paused'', ''Unknown''} \<and>
     ((\<exists>r m. status_cond cl ''Ready'' = Some (''True'', r, m)) \<longrightarrow>
        (\<exists>r m. status_cond cl ''Reachable'' = Some (''True'', r, m)) \<and>
        (\<nexists>r m. status_cond cl ''CompatibleVersion'' = Some (''False'', r, m)) \<and>
        (\<forall>s r m. status_cond cl ''ArgoCDSynced'' = Some (s, r, m) \<longrightarrow> s = ''True'') \<and>
        st_phase (cl_status cl) \<noteq> ''Error'')"
proof
  assume "op_reachable R W \<and> fmlookup (w_clusters W) key = Some cl"
  then have "status_ok cl" using op_reachable_ok world_okD by blast
  then show "distinct (map c_type (st_conditions (cl_status cl))) \<and>
     st_phase (cl_status cl) \<in> {[], ''Deploying'', ''Deployed'', ''OutOfSync'', ''Error'', ''Paused'', ''Unknown''} \<and>
     ((\<exists>r m. status_cond cl ''Ready'' = Some (''True'', r, m)) \<longrightarrow>
        (\<exists>r m. status_cond cl ''Reachable'' = Some (''True'', r, m)) \<and>
        (\<nexists>r m. status_cond cl ''CompatibleVersion'' = Some (''False'', r, m)) \<and>
        (\<forall>s r m. status_cond cl ''ArgoCDSynced'' = Some (s, r, m) \<longrightarrow> s = ''True'') \<and>
        st_phase (cl_status cl) \<noteq> ''Error'')"
    unfolding status_ok_def ready_agrees_def conditions_wf_def phases_def by blast
qed

definition blue_fresh :: spx_cluster where
  "blue_fresh = (blue_cluster_v ''1.4.2'')\<lparr>cl_status := new_status\<rparr>"

definition blue_world :: "spx_cluster \<Rightarrow> argo_store \<Rightarrow> op_world" where
  "blue_world cl st = \<lparr>w_clusters = fmupd (''spx'', ''blue'') cl fmempty, w_secrets = fmempty,
     w_configmap = Some (fmap_of_list [(''blue'', []), (''red'', [])]), w_projects = fmempty, w_apps = st\<rparr>"

lemma blue_world_reachable: "op_reachable blue_reconciler (blue_world blue_fresh blue_store)"
proof -
  let ?W = "(blue_world blue_fresh blue_store)\<lparr>w_clusters := fmempty\<rparr>"
  have key: "cluster_key blue_fresh = (''spx'', ''blue'')"
    by (simp add: cluster_key_def blue_fresh_def blue_cluster_v_def)
  have "op_step blue_reconciler ?W (?W\<lparr>w_clusters := fmupd (cluster_key blue_fresh) blue_fresh (w_clusters ?W)\<rparr>)"
    by (rule op_step.create) (simp_all add: blue_fresh_def)
  moreover have "?W\<lparr>w_clusters := fmupd (cluster_key blue_fresh) blue_fresh (w_clusters ?W)\<rparr> = blue_world blue_fresh blue_store"
    by (simp add: key blue_world_def)
  moreover have "op_reachable blue_reconciler ?W" by (rule op_reachable.init) simp
  ultimately show ?thesis using op_reachable.step by metis
qed

theorem cluster_status_consistent_witness:
  "op_reachable blue_reconciler (blue_world blue_fresh blue_store) \<and>
   fmlookup (w_clusters (blue_world blue_fresh blue_store)) (''spx'', ''blue'') = Some blue_fresh \<and>
   distinct (map c_type (st_conditions (cl_status blue_fresh)))"
  using cluster_status_consistent [of blue_reconciler "blue_world blue_fresh blue_store" "(''spx'', ''blue'')" blue_fresh]
    blue_world_reachable by (simp add: blue_world_def)

text \<open>
  After a reconciliation that has read the cluster's Application, the phase is Deployed exactly
  when the pass had no error, the cluster is not paused, the Application is neither degraded nor
  suspended nor missing, it is synced (or reports no sync status yet and the cluster was Deployed
  already), and the deployed version is the one the cluster asks for, or is not known.
\<close>

theorem cluster_deployed_iff:
  "conditions_wf (st_conditions (cl_status cl)) \<and>
   syncStatus R rd now pe cl (Some a) k n c e ls = (cl', res, err) \<longrightarrow>
     (st_phase (cl_status cl') = ''Deployed'' \<longleftrightarrow>
        e = None \<and> \<not> paused cl \<and>
        str_of (app_health a) \<notin> {''Degraded'', ''Suspended'', ''Missing''} \<and>
        (str_of (app_sync a) = ''Synced'' \<or> str_of (app_sync a) = [] \<and> st_phase (cl_status cl) = ''Deployed'') \<and>
        (st_superphenixVersion (cl_status cl') = sp_version (cl_spec cl) \<or> st_superphenixVersion (cl_status cl') = []))"
proof
  assume "conditions_wf (st_conditions (cl_status cl)) \<and>
    syncStatus R rd now pe cl (Some a) k n c e ls = (cl', res, err)"
  then have wf: "conditions_wf (st_conditions (cl_status cl))"
    and run: "syncStatus R rd now pe cl (Some a) k n c e ls = (cl', res, err)" by auto
  obtain s r m ph where o: "appOutcome (st_phase (cl_status cl)) a = (s, r, m, ph)" by (metis prod.exhaust)
  from syncStatus_phase [OF run wf o] appOutcome_deployed [OF o]
  show "st_phase (cl_status cl') = ''Deployed'' \<longleftrightarrow>
        e = None \<and> \<not> paused cl \<and>
        str_of (app_health a) \<notin> {''Degraded'', ''Suspended'', ''Missing''} \<and>
        (str_of (app_sync a) = ''Synced'' \<or> str_of (app_sync a) = [] \<and> st_phase (cl_status cl) = ''Deployed'') \<and>
        (st_superphenixVersion (cl_status cl') = sp_version (cl_spec cl) \<or> st_superphenixVersion (cl_status cl') = [])"
    by auto
qed

theorem cluster_deployed_iff_witness:
  "st_phase (cl_status (fst (blue_sync None))) = ''Deployed''"
proof -
  note run = blue_sync_run [of None]
  have "st_superphenixVersion (cl_status (fst (blue_sync None))) = ''1.4.2''"
    using syncStatus_phase_version(2) [OF run] blue_version by (simp add: updateVersions_def Let_def)
  with cluster_deployed_iff [rule_format, OF conjI [OF blue_wf run]] show ?thesis by simp
qed

text \<open>
  C13. The Ready condition a reconciliation writes is true exactly when the pass had no error, the
  cluster is reachable, its version is not incompatible with the management stack, and its
  Application, if it is reported, is synced.
\<close>

theorem cluster_ready_iff:
  "syncStatus R rd now pe cl app k n c e ls = (cl', res, err) \<longrightarrow>
     ((\<exists>r m. status_cond cl' ''Ready'' = Some (''True'', r, m)) \<longleftrightarrow>
        e = None \<and> (\<exists>r m. status_cond cl' ''Reachable'' = Some (''True'', r, m)) \<and>
        (\<nexists>r m. status_cond cl' ''CompatibleVersion'' = Some (''False'', r, m)) \<and>
        (\<forall>s r m. status_cond cl' ''ArgoCDSynced'' = Some (s, r, m) \<longrightarrow> s = ''True''))"
  by (intro impI) (rule syncStatus_ready_iff)

theorem cluster_ready_iff_witness:
  "\<not> (\<exists>r m. status_cond (fst (blue_sync (Some (Errorf ''no route to host'')))) ''Ready'' = Some (''True'', r, m))"
  using cluster_ready_iff [rule_format, OF blue_sync_run [of "Some (Errorf ''no route to host'')"]] by simp

text \<open>
  The time of a condition's last transition changes only with what the condition says: a condition
  that is reported again with the same status, reason and message keeps its time, any other gets the
  time of the pass.
\<close>

theorem transition_time_follows_content:
  "syncStatus R rd now pe cl app k n c e ls = (cl', res, err) \<and> now \<noteq> 0 \<and>
   conditions_wf (st_conditions (cl_status cl)) \<and>
   find_condition ty (st_conditions (cl_status cl)) = Some old \<and> c_transition old \<noteq> 0 \<and>
   find_condition ty (st_conditions (cl_status cl')) = Some new \<longrightarrow>
     c_transition new = (if content_of new = content_of old then c_transition old else now)"
  using syncStatus_transition by blast

lemma blue_new_reachable:
  "find_condition ''Reachable'' (st_conditions (cl_status (fst (blue_sync None)))) =
     Some (stampCondition 1 1000 [blue_reachable_cond] blue_reachable_cond)"
proof -
  have find_map: "find_condition ty (map (stampCondition g t old) cs) = map_option (stampCondition g t old) (find_condition ty cs)" for ty g t old cs
    by (induction cs) simp_all
  have find_set: "ty \<noteq> c_type c \<Longrightarrow> find_condition ty (setCondition cs c) = find_condition ty cs" for ty c cs
    by (induction cs) auto
  let ?d = "determineConditions blue_reconciler blue_reader (blue_cluster_v ''1.4.2'') (Some (blue_app ''blue'' ''blue'')) ''v1.31.0'' 3 None None"
  have "find_condition ''Reachable'' (st_conditions (cl_status ?d)) = Some blue_reachable_cond"
    by (simp add: determineConditions_def Let_def applyApplicationStatus_def setStatusCondition_def find_set
        updateCompatibilityCondition_def split: prod.splits sum.splits option.splits)
  then show ?thesis
    unfolding syncStatus_cluster [OF blue_sync_run [of None]]
    by (simp add: stampStatus_def find_map updateReadyCondition_def Let_def setStatusCondition_def find_set)
qed

theorem transition_time_follows_content_witness:
  "c_transition (stampCondition 1 1000 [blue_reachable_cond] blue_reachable_cond) = 50"
proof -
  have "c_transition blue_reachable_cond = 50" by (simp add: blue_reachable_cond_def)
  with transition_time_follows_content [rule_format, OF conjI [OF blue_sync_run [of None]],
      of "''Reachable''" blue_reachable_cond "stampCondition 1 1000 [blue_reachable_cond] blue_reachable_cond"]
    blue_new_reachable blue_wf
  show ?thesis by simp
qed

text \<open>
  The list of conditions behaves as a map from types to what they say: setting a condition updates
  the entry of its type and no other, and keeps the list free of duplicates exactly when it was so.
\<close>

theorem setCondition_refines_map_update:
  "cond_of (setCondition cs c) = (cond_of cs)(c_type c \<mapsto> (c_status c, c_reason c, c_message c)) \<and>
   (distinct (map c_type (setCondition cs c)) \<longleftrightarrow> distinct (map c_type cs))"
proof
  show "cond_of (setCondition cs c) = (cond_of cs)(c_type c \<mapsto> (c_status c, c_reason c, c_message c))"
    by (simp add: cond_of_setCondition content_of_def)
  have types: "set (map c_type (setCondition ds c)) = insert (c_type c) (set (map c_type ds))" for ds
    by (rule types_setCondition)
  show "distinct (map c_type (setCondition cs c)) \<longleftrightarrow> distinct (map c_type cs)"
  proof (induction cs)
    case (Cons d ds)
    then show ?case using types [of ds] by auto
  qed simp
qed


section \<open>Deploying and removing a cluster\<close>

text \<open>
  C16. A cluster whose topology, version or upgrade path the validation refuses is not deployed: the
  reconciliation leaves the specification of its Application, and with it the version that runs, as it
  was.
\<close>

theorem unsupported_version_not_deployed:
  "validate (r_semver R) (r_versions R) (DisableVersionValidation R) (reader_at (oe_argo E) 5 (w_apps W)) cl \<noteq> None \<longrightarrow>
     map_option app_spec (fmlookup (w_apps (oc_world (reconcileCluster R E T wr now cl W))) (cl_name cl)) =
     map_option app_spec (fmlookup (w_apps W) (cl_name cl))"
  using reconcileCluster_unsupported unfolding spec_at_def by blast

definition blue_rc :: rest_config where
  "blue_rc = \<lparr>rc_host = ''local'', rc_username = [], rc_password = [], rc_bearerToken = ''t'', rc_bearerTokenFile = [],
     rc_certData = [], rc_certFile = [], rc_keyData = [], rc_keyFile = [], rc_caData = [], rc_caFile = [],
     rc_insecure = False, rc_serverName = []\<rparr>"

definition calm_env :: op_env where
  "calm_env = \<lparr>oe_fails = (\<lambda>_. None), oe_argo = calm_argo, oe_localConfig = Inr blue_rc,
     oe_readFile = (\<lambda>_. Inr []), oe_serverVersion = (\<lambda>_. Inr ''v1.31.0''), oe_nodes = (\<lambda>_. Inr 3),
     oe_cephClient = (\<lambda>_. None), oe_cephList = (\<lambda>_. Inr []), oe_writeKubeconfig = None,
     oe_unmarshalObject = (\<lambda>_. None)\<rparr>"

definition blue_redfish :: redfish where
  "blue_redfish = \<lparr>rf_connect = (\<lambda>n. if no_hostname n = ''n2'' then Some (Errorf ''no route to host'') else None),
     rf_systems = (\<lambda>_. Inr [(LENOVO, False)]), rf_bios = (\<lambda>_. None),
     rf_updateBios = (\<lambda>_. None), rf_setBoot = (\<lambda>_. None), rf_reset = (\<lambda>_. None)\<rparr>"

definition blue_talos :: talos_env where
  "blue_talos = \<lparr>te_decode = (\<lambda>_ _. Inl (Errorf ''no configuration'')), te_values = (\<lambda>_. Inr fmempty),
     te_zstd = Inr, te_redfish = blue_redfish, te_machines = Inr [], te_patchStatus = None,
     te_kubeconfig = (\<lambda>_. Inl (Errorf ''no kubeconfig''))\<rparr>"

lemma blue_env_simps [simp]:
  "oe_argo calm_env = calm_argo" "oe_fails calm_env call = None" "r_semver blue_reconciler = triple_lib"
  "r_versions blue_reconciler = blue_range" "\<not> DisableVersionValidation blue_reconciler"
  "w_apps (blue_world cl st) = st" "w_clusters (blue_world cl st) = fmupd (''spx'', ''blue'') cl fmempty"
  by (simp_all add: calm_env_def blue_reconciler_def blue_world_def)

lemma blue_reads:
  "GetCurrentManagementVersion (reader_at calm_argo 5 blue_store) = Inr []"
  "GetCurrentClusterVersion (reader_at calm_argo 5 blue_store) ''blue'' = Inr ''1.4.2''"
  by (simp_all add: GetCurrentManagementVersion_def GetCurrentClusterVersion_def GetApplicationVersion_def
      reader_at_def blue_store_lookup ManagementAppName_def app_not_found_def IsNotFound_def blue_app_def)

lemma blue_in_range:
  "\<not> in_range triple_lib blue_range (\<lambda>_. False) older ''2.1.0''" "in_range triple_lib blue_range (\<lambda>_. False) older ''1.3.0''"
  "in_range triple_lib blue_range (\<lambda>_. False) older ''1.4.2''"
  by (simp_all add: in_range_def version_at_least_def version_below_def blue_bounds triple_version blue_parse older_def)

lemma blue_types [simp]: "sp_type (cl_spec (blue_cluster_v v)) = None" "validateTopology (blue_cluster_v v) = None"
  by (simp_all add: blue_cluster_v_def blue_spec_def validateTopology_def)

theorem unsupported_version_not_deployed_witness:
  "map_option app_spec (fmlookup (w_apps (oc_world (reconcileCluster blue_reconciler calm_env blue_talos (\<lambda>_. []) 1000
      (blue_cluster_v ''2.1.0'') (blue_world (blue_cluster_v ''2.1.0'') blue_store)))) ''blue'') =
   Some (app_spec (blue_app ''blue'' ''blue''))"
proof -
  have "validate triple_lib blue_range False (reader_at calm_argo 5 blue_store) (blue_cluster_v ''2.1.0'') \<noteq> None"
    using validate_cluster_iff [OF triple_laws, of "blue_cluster_v ''2.1.0''" "reader_at calm_argo 5 blue_store" "[]" "''1.4.2''"]
      blue_reads blue_in_range(1) by auto
  with unsupported_version_not_deployed [of blue_reconciler calm_env "blue_world (blue_cluster_v ''2.1.0'') blue_store"
      "blue_cluster_v ''2.1.0''" blue_talos "\<lambda>_. []" 1000]
  show ?thesis by (simp add: blue_store_lookup)
qed

text \<open>
  C18. A cluster that is being deleted is released last: when a reconciliation removes its object, the
  store holds neither its root Application nor an Application that carries its label, and the shared
  ConfigMap has no entry for it. (The API server does not answer ``not found'' for objects that exist.)
\<close>

theorem deleted_cluster_released_last:
  "fmlookup (w_clusters W) req = Some cl \<and> cl_deleting cl \<and>
   fmlookup (w_clusters (oc_world (Reconcile R E T wr now req W))) req = None \<and>
   cache_ok (oe_argo E) \<and> (\<forall>c e. ae_fails (oe_argo E) c = Some e \<longrightarrow> \<not> IsNotFound e) \<and>
   ClustersConfigMapName R \<noteq> [] \<and> (\<forall>c e. oe_fails E c = Some e \<longrightarrow> \<not> IsNotFound e) \<longrightarrow>
     fmlookup (w_apps (oc_world (Reconcile R E T wr now req W))) (cl_name cl) = None \<and>
     (\<forall>name app. fmlookup (w_apps (oc_world (Reconcile R E T wr now req W))) name = Some app \<longrightarrow>
        fmlookup (app_labels app) ClusterLabel \<noteq> Some (cl_name cl)) \<and>
     (\<forall>data. w_configmap (oc_world (Reconcile R E T wr now req W)) = Some data \<longrightarrow> fmlookup data (cl_name cl) = None)"
proof (intro impI)
  assume a: "fmlookup (w_clusters W) req = Some cl \<and> cl_deleting cl \<and>
   fmlookup (w_clusters (oc_world (Reconcile R E T wr now req W))) req = None \<and>
   cache_ok (oe_argo E) \<and> (\<forall>c e. ae_fails (oe_argo E) c = Some e \<longrightarrow> \<not> IsNotFound e) \<and>
   ClustersConfigMapName R \<noteq> [] \<and> (\<forall>c e. oe_fails E c = Some e \<longrightarrow> \<not> IsNotFound e)"
  then obtain W1 where c: "cleanupCluster R E cl W = (W1, None)"
    and w: "w_apps (oc_world (Reconcile R E T wr now req W)) = w_apps W"
      "w_configmap (oc_world (Reconcile R E T wr now req W)) = w_configmap W1"
    using Reconcile_released by metis
  have "\<forall>data. w_configmap W1 = Some data \<longrightarrow> fmlookup data (cl_name cl) = None"
    using cleanupCluster_forgets [OF c] a by simp
  with cleanupCluster_done [OF c] a w show "fmlookup (w_apps (oc_world (Reconcile R E T wr now req W))) (cl_name cl) = None \<and>
     (\<forall>name app. fmlookup (w_apps (oc_world (Reconcile R E T wr now req W))) name = Some app \<longrightarrow>
        fmlookup (app_labels app) ClusterLabel \<noteq> Some (cl_name cl)) \<and>
     (\<forall>data. w_configmap (oc_world (Reconcile R E T wr now req W)) = Some data \<longrightarrow> fmlookup data (cl_name cl) = None)"
    by (simp add: labelled_def)
qed

definition blue_deleting :: spx_cluster where
  "blue_deleting = (blue_cluster_v ''1.4.2'')\<lparr>cl_deleting := True\<rparr>"

definition red_store :: argo_store where
  "red_store = fmap_of_list [(''red'', blue_app ''red'' ''red'')]"

lemma red_store_lookup: "fmlookup red_store name = (if name = ''red'' then Some (blue_app ''red'' ''red'') else None)"
  by (simp add: red_store_def fmlookup_of_list)

lemma red_store_list: "filter (labelled ''blue'') (map snd (gentries red_store)) = []"
proof -
  have "\<not> labelled ''blue'' a" if "(n, a) \<in> set (gentries red_store)" for n a
    using that unfolding set_gentries
    by (auto simp: red_store_lookup labelled_def blue_app_def ClusterLabel_def split: if_splits)
  then show ?thesis by (auto simp: filter_empty_conv)
qed

lemma blue_released:
  "oc_world (Reconcile blue_reconciler calm_env blue_talos (\<lambda>_. []) 1000 (''spx'', ''blue'') (blue_world blue_deleting red_store)) =
     (blue_world blue_deleting red_store)\<lparr>w_clusters := fmempty, w_configmap := Some (fmap_of_list [(''red'', [])])\<rparr>"
proof -
  let ?W = "blue_world blue_deleting red_store"
  have cm: "w_configmap ?W = Some (fmap_of_list [(''blue'', []), (''red'', [])])" by (simp add: blue_world_def)
  have drop: "fmdrop ''blue'' (fmupd ''blue'' [] (fmupd ''red'' [] fmempty)) = fmupd ''red'' [] fmempty"
    by (rule fmap_ext) simp
  have drop2: "fmdrop k (fmupd k v fmempty) = fmempty" for k :: "string \<times> string" and v :: spx_cluster
    by (rule fmap_ext) simp
  have name: "cl_name blue_deleting = ''blue''" "cl_namespace blue_deleting = ''spx''" "cl_deleting blue_deleting"
    "cl_finalizers blue_deleting = [FinalizerName]" "OperatorNamespace blue_reconciler = ''spx''"
    "ClustersConfigMapName blue_reconciler = ''clusters''"
    by (simp_all add: blue_deleting_def blue_cluster_v_def blue_reconciler_def)
  have "cleanupCluster blue_reconciler calm_env blue_deleting ?W = (?W\<lparr>w_configmap := Some (fmap_of_list [(''red'', [])])\<rparr>, None)"
    by (simp add: cleanupCluster_def fetchApplication_def listSubApplications_def reader_at_def name red_store_lookup
        red_store_list removeClusterFromConfigMap_def cm drop fmlookup_of_list app_not_found_def IsNotFound_def)
  then show ?thesis
    by (simp add: Reconcile_def Let_def get_object_def name updateFinalizers_def RemoveFinalizer_def cluster_key_def
        drop2)
qed

theorem deleted_cluster_released_last_witness:
  "fmlookup (w_clusters (oc_world (Reconcile blue_reconciler calm_env blue_talos (\<lambda>_. []) 1000 (''spx'', ''blue'')
      (blue_world blue_deleting red_store)))) (''spx'', ''blue'') = None \<and>
   fmlookup (w_apps (oc_world (Reconcile blue_reconciler calm_env blue_talos (\<lambda>_. []) 1000 (''spx'', ''blue'')
      (blue_world blue_deleting red_store)))) ''blue'' = None"
proof -
  have "cl_name blue_deleting = ''blue''" "cl_deleting blue_deleting" "ClustersConfigMapName blue_reconciler \<noteq> []"
    by (simp_all add: blue_deleting_def blue_cluster_v_def blue_reconciler_def)
  with deleted_cluster_released_last [of "blue_world blue_deleting red_store" "(''spx'', ''blue'')" blue_deleting
      blue_reconciler calm_env blue_talos "\<lambda>_. []" 1000] calm_cache
  show ?thesis by (simp add: blue_released)
qed


section \<open>The periodic sync\<close>

text \<open>
  The periodic sync of a cluster stays within the cluster: every Application that is neither the
  cluster's root Application nor carries its label is left exactly as it is, and no Application
  appears, disappears, or changes its labels.
\<close>

theorem periodic_sync_stays_in_cluster:
  "cache_ok E \<and> store_wf st \<and> runPeriodicSync R E now cl st = (st', b) \<longrightarrow>
     (\<forall>name. map_option app_labels (fmlookup st' name) = map_option app_labels (fmlookup st name)) \<and>
     (\<forall>name. name \<noteq> cl_name cl \<and>
        (\<forall>app. fmlookup st name = Some app \<longrightarrow> fmlookup (app_labels app) ClusterLabel \<noteq> Some (cl_name cl)) \<longrightarrow>
        fmlookup st' name = fmlookup st name)"
proof (intro impI)
  assume "cache_ok E \<and> store_wf st \<and> runPeriodicSync R E now cl st = (st', b)"
  then have c: "confined (cl_name cl) st st'" using runPeriodicSync_confined by blast
  have "map_option app_labels (fmlookup st' name) = map_option app_labels (fmlookup st name)" for name
    using c by (cases "fmlookup st name"; cases "fmlookup st' name")
      (auto simp: confined_def same_objects_def same_object_def dest!: spec [of _ name])
  moreover have "fmlookup st' name = fmlookup st name"
    if "name \<noteq> cl_name cl \<and> (\<forall>app. fmlookup st name = Some app \<longrightarrow> fmlookup (app_labels app) ClusterLabel \<noteq> Some (cl_name cl))" for name
    using c that by (auto simp: confined_def belongs_def labelled_def split: option.splits)
  ultimately show "(\<forall>name. map_option app_labels (fmlookup st' name) = map_option app_labels (fmlookup st name)) \<and>
     (\<forall>name. name \<noteq> cl_name cl \<and>
        (\<forall>app. fmlookup st name = Some app \<longrightarrow> fmlookup (app_labels app) ClusterLabel \<noteq> Some (cl_name cl)) \<longrightarrow>
        fmlookup st' name = fmlookup st name)" by blast
qed

theorem periodic_sync_stays_in_cluster_witness:
  "fmlookup (fst (runPeriodicSync blue_reconciler calm_argo 1000 (blue_cluster_v ''1.4.2'') blue_store)) ''red'' =
     Some (blue_app ''red'' ''red'')"
proof -
  have "fmlookup (app_labels (blue_app ''red'' ''red'')) ClusterLabel \<noteq> Some ''blue''"
    by (simp add: blue_app_def)
  then show ?thesis
    using periodic_sync_stays_in_cluster [of calm_argo blue_store blue_reconciler 1000 "blue_cluster_v ''1.4.2''"
        "fst (runPeriodicSync blue_reconciler calm_argo 1000 (blue_cluster_v ''1.4.2'') blue_store)"
        "snd (runPeriodicSync blue_reconciler calm_argo 1000 (blue_cluster_v ''1.4.2'') blue_store)"]
      calm_cache blue_store_wf by (simp add: blue_store_lookup)
qed

text \<open>
  While an operation of one of the cluster's Applications is running and none of the running ones
  is older than the timeout, the periodic sync triggers nothing.
\<close>

theorem running_sync_left_alone:
  "listAllApplications (reader_at E 0 st) (cl_name cl) = Inr apps \<and>
   (\<forall>a\<in>set apps. is_running a \<longrightarrow> 0 < started now a \<and> now - started now a < SyncTimeout R) \<and>
   (\<exists>a\<in>set apps. is_running a) \<longrightarrow>
     runPeriodicSync R E now cl st = (st, False)"
  using runPeriodicSync_waits by blast

definition blue_busy :: argo_app where
  "blue_busy = (blue_app ''blue'' ''blue'')\<lparr>app_phase := Some ''Running'', app_startedAt := Some 200\<rparr>"

definition busy_store :: argo_store where
  "busy_store = fmupd ''blue'' blue_busy fmempty"

lemma busy_simps:
  "is_running blue_busy" "started now blue_busy = 200" "labelled ''blue'' blue_busy" "app_name blue_busy = ''blue''"
  by (simp_all add: blue_busy_def is_running_def operationPhaseRunning_def started_def labelled_def blue_app_def)

lemma busy_list: "listAllApplications (reader_at calm_argo 0 busy_store) ''blue'' = Inr [blue_busy, blue_busy]"
proof -
  have "gentries busy_store = [(''blue'', blue_busy)]"
    by (simp add: gentries_def gkeys_def busy_store_def sorted_list_of_fset.rep_eq)
  then show ?thesis
    by (simp add: listAllApplications_def listSubApplications_def fetchApplication_def reader_at_def busy_simps)
       (simp add: busy_store_def)
qed

lemma busy_wf: "store_wf busy_store"
  by (simp add: store_wf_def busy_store_def busy_simps)

theorem running_sync_left_alone_witness:
  "runPeriodicSync blue_reconciler calm_argo 700 (blue_cluster_v ''1.4.2'') busy_store = (busy_store, False)"
  using running_sync_left_alone [of calm_argo busy_store "blue_cluster_v ''1.4.2''" "[blue_busy, blue_busy]" 700 blue_reconciler]
    busy_list by (simp add: busy_simps) (simp add: blue_reconciler_def)

text \<open>
  C21. A stuck sync is aborted and started again: when a sync is due, an operation of the cluster has been running
  for longer than the timeout, no call fails and the reads are live, the run reports a sync; afterwards every
  Application of the cluster has a new sync operation, each one that was running is in the phase
  Terminating, and the others keep their phase.
\<close>

theorem stuck_sync_restarted:
  "(\<forall>c. ae_fails E c = None) \<and> live_reads E \<and> store_wf st \<and>
   (\<forall>t. st_lastSync (cl_status cl) = Some t \<longrightarrow> SyncPeriod R \<le> now - t) \<and>
   listAllApplications (reader_at E 0 st) (cl_name cl) = Inr apps \<and>
   (\<forall>a\<in>set apps. is_running a \<longrightarrow> 0 < started now a) \<and>
   a \<in> set apps \<and> is_running a \<and> SyncTimeout R \<le> now - started now a \<and>
   runPeriodicSync R E now cl st = (st', b) \<longrightarrow>
     b \<and> (\<forall>name app. fmlookup st name = Some app \<and> (name = cl_name cl \<or> labelled (cl_name cl) app) \<longrightarrow>
       (\<exists>app'. fmlookup st' name = Some app' \<and> app_operation app' \<and>
          app_phase app' = (if is_running app then Some operationPhaseTerminating else app_phase app)))"
proof (intro impI, elim conjE)
  assume fails: "\<forall>c. ae_fails E c = None" and live: "live_reads E" and wf: "store_wf st"
    and due: "\<forall>t. st_lastSync (cl_status cl) = Some t \<longrightarrow> SyncPeriod R \<le> now - t"
    and apps: "listAllApplications (reader_at E 0 st) (cl_name cl) = Inr apps"
    and stuck: "\<forall>a\<in>set apps. is_running a \<longrightarrow> 0 < started now a" "a \<in> set apps" "is_running a"
      "SyncTimeout R \<le> now - started now a"
    and run: "runPeriodicSync R E now cl st = (st', b)"
  obtain t where t: "syncInProgress (reader_at E 0 st) now (cl_name cl) = Inr (True, t)" "SyncTimeout R \<le> now - t"
    using syncInProgress_stuck [OF apps _ stuck(2-4)] stuck(1) by blast
  note sets = runPeriodicSync_restarts [OF _ live_reads_cache [OF live] wf _ t run]
  have "\<exists>app'. fmlookup st' name = Some app' \<and> app_operation app' \<and>
      app_phase app' = (if is_running app then Some operationPhaseTerminating else app_phase app)"
    if "fmlookup st name = Some app" "name = cl_name cl \<or> labelled (cl_name cl) app" for name app
  proof -
    have "belongs (cl_name cl) st name" using that by (auto simp: belongs_def)
    then have "op_set st' name"
        "phase_at st' name = Some (if is_running app then Some operationPhaseTerminating else app_phase app)"
      using sets runPeriodicSync_aborts [OF _ live wf _ t run that(1)] fails due that(1) by auto
    then show ?thesis by (auto simp: op_set_def phase_at_def split: option.splits)
  qed
  with sets fails due show "b \<and> (\<forall>name app. fmlookup st name = Some app \<and> (name = cl_name cl \<or> labelled (cl_name cl) app) \<longrightarrow>
       (\<exists>app'. fmlookup st' name = Some app' \<and> app_operation app' \<and>
          app_phase app' = (if is_running app then Some operationPhaseTerminating else app_phase app)))" by blast
qed

theorem stuck_sync_restarted_witness:
  "snd (runPeriodicSync blue_reconciler calm_argo 1000 (blue_cluster_v ''1.4.2'') busy_store) \<and>
   map_option (\<lambda>app. (app_operation app, app_phase app))
     (fmlookup (fst (runPeriodicSync blue_reconciler calm_argo 1000 (blue_cluster_v ''1.4.2'') busy_store)) ''blue'') =
   Some (True, Some operationPhaseTerminating)"
proof -
  obtain st' b where run: "runPeriodicSync blue_reconciler calm_argo 1000 (blue_cluster_v ''1.4.2'') busy_store = (st', b)"
    by (rule prod.exhaust)
  have "st_lastSync (cl_status (blue_cluster_v ''1.4.2'')) = None" by (simp add: blue_cluster_v_def new_status_def)
  moreover have "SyncTimeout blue_reconciler \<le> 1000 - started 1000 blue_busy"
    by (simp add: busy_simps blue_reconciler_def)
  ultimately have "b \<and> (\<forall>name app. fmlookup busy_store name = Some app \<and> (name = ''blue'' \<or> labelled ''blue'' app) \<longrightarrow>
       (\<exists>app'. fmlookup st' name = Some app' \<and> app_operation app' \<and>
          app_phase app' = (if is_running app then Some operationPhaseTerminating else app_phase app)))"
    using stuck_sync_restarted [of calm_argo busy_store "blue_cluster_v ''1.4.2''" blue_reconciler 1000
        "[blue_busy, blue_busy]" blue_busy st' b] run busy_list busy_wf
    by (simp add: busy_simps live_reads_def)
  moreover have "fmlookup busy_store ''blue'' = Some blue_busy" "is_running blue_busy" by (simp_all add: busy_store_def busy_simps)
  ultimately obtain app' where "b" "fmlookup st' ''blue'' = Some app'" "app_operation app'"
      "app_phase app' = Some operationPhaseTerminating" by (metis (full_types))
  then show ?thesis using run by simp
qed


section \<open>Setting up the nodes\<close>

text \<open>
  C22. A node that is recorded as set up is not touched again. Every run, successful or not, touches only nodes that
  ask for it and that the status does not record as done. A run that succeeds records its nodes: the next run with
  the same configuration does nothing to any node. A run that fails on a node records none of the nodes it
  has set up, so the next run sets those up again.
\<close>

theorem nodes_set_up_once:
  "pxeSetup T config cl = (acts, cl', err) \<longrightarrow>
     (\<forall>a\<in>set acts. (\<exists>node\<in>set (tc_nodes config). no_pxeSetup node \<and> no_hostname node = action_host a) \<and>
        (\<forall>d. st_pxeSetupDone (cl_status cl) = Some d \<longrightarrow> action_host a \<notin> set d)) \<and>
     (err = None \<longrightarrow> fst (pxeSetup T' config cl') = []) \<and>
     (err \<noteq> None \<and> te_patchStatus T = None \<longrightarrow> cl' = cl)"
proof (intro impI conjI ballI)
  fix a
  assume run: "pxeSetup T config cl = (acts, cl', err)" and "a \<in> set acts"
  from pxeSetup_hosts [OF this] show "\<exists>node\<in>set (tc_nodes config). no_pxeSetup node \<and> no_hostname node = action_host a"
    "\<forall>d. st_pxeSetupDone (cl_status cl) = Some d \<longrightarrow> action_host a \<notin> set d"
    by (auto simp: requested_def)
next
  assume "pxeSetup T config cl = (acts, cl', err)" "err = None"
  then show "fst (pxeSetup T' config cl') = []" using pxeSetup_again by simp
next
  assume "pxeSetup T config cl = (acts, cl', err)" "err \<noteq> None \<and> te_patchStatus T = None"
  then show "cl' = cl" by (auto simp: pxeSetup_def Let_def split: sum.splits prod.splits if_splits)
qed

definition blue_node :: "string \<Rightarrow> node_spec" where
  "blue_node host = \<lparr>no_hostname = host, no_type = ''worker'', no_cpuArchitecture = ''amd64'', no_pxeMacAddress = [],
     no_kernelCmdlineArgs = [], no_pxeSetup = True, no_ipmiIpv4 = ''10.0.0.1'', no_ipmiUser = ''root'',
     no_ipmiPassword = ''pw'', no_pxeInterfaceName = ''nic1'',
     no_interface = \<lparr>nf_name = ''eth0'', nf_clusterNetwork = \<lparr>na_ipv4 = ''10.1.0.1'', na_ipv6 = []\<rparr>,
       nf_publicNetwork = \<lparr>na_ipv4 = [], na_ipv6 = []\<rparr>, nf_storageNetwork = \<lparr>na_ipv4 = [], na_ipv6 = []\<rparr>,
       nf_useVlan = False,
       nf_lacpBond = \<lparr>lb_enabled = False, lb_lacpRate = [], lb_xmitHashPolicy = [], lb_miimon = 0, lb_updelay = 0,
         lb_downdelay = 0, lb_linkMtu = 0, lb_physicalInterfaces = []\<rparr>, nf_physicalMacAddress = ''AA:BB''\<rparr>,
     no_installDisk = (True, []), no_machineOverrides = []\<rparr>"

definition blue_config :: "string list \<Rightarrow> talos_config" where
  "blue_config hosts = \<lparr>tc_pxeEnabled = True, tc_dhcpInterface = [], tc_pxeIpAddr = [], tc_clusterName = ''blue'',
     tc_clusterType = [], tc_reconciliationMode = [],
     tc_clusterNetwork = \<lparr>cn_ipv4 = [], cn_ipv6 = [], cn_cidrIpv4 = 0, cn_cidrIpv6 = 0, cn_vlanId = 7, cn_gatewayIpv4 = [],
       cn_gatewayIpv6 = [], cn_linkMtu = 0\<rparr>,
     tc_publicNetwork = \<lparr>ns_ipv4 = [], ns_ipv6 = [], ns_cidrIpv4 = 0, ns_cidrIpv6 = 0, ns_vlanId = 0, ns_linkMtu = 0\<rparr>,
     tc_storageNetwork = \<lparr>ns_ipv4 = [], ns_ipv6 = [], ns_cidrIpv4 = 0, ns_cidrIpv6 = 0, ns_vlanId = 0, ns_linkMtu = 0\<rparr>,
     tc_podSubnets = \<lparr>ss_ipv4 = [], ss_ipv6 = [], ss_cidrIpv4 = 0, ss_cidrIpv6 = 0\<rparr>,
     tc_serviceSubnets = \<lparr>ss_ipv4 = [], ss_ipv6 = [], ss_cidrIpv4 = 0, ss_cidrIpv6 = 0\<rparr>,
     tc_controlplaneIpv4 = [], tc_controlplaneIpv6 = [], tc_controlplanePort = 6443, tc_argocdToken = [],
     tc_talosVersion = [], tc_k8sVersion = [], tc_machineGlobalOverrides = [], tc_machineOverridesControlPlane = [],
     tc_machineOverridesWorker = [], tc_nodes = map blue_node hosts, tc_imagePullPolicy = []\<rparr>"

definition blue_done :: "string list \<Rightarrow> spx_cluster" where
  "blue_done d = blue_fresh\<lparr>cl_status := new_status\<lparr>st_pxeSetupDone := (if d = [] then None else Some d)\<rparr>\<rparr>"

lemma blue_node_simps [simp]: "no_hostname (blue_node h) = h" "no_pxeSetup (blue_node h)" "tc_nodes (blue_config hs) = map blue_node hs"
  by (simp_all add: blue_node_def blue_config_def)

lemma blue_setup:
  "setupNode blue_talos (blue_config hs) (blue_node h) =
     (if h = ''n2'' then ([], Some (Errorf ''no route to host''))
      else ([BiosPatch h (pxePatch (blue_config hs) (blue_node h) LENOVO), BootFromNetwork h, ForceRestart h], None))"
  by (simp add: setupNode_def blue_talos_def blue_redfish_def)

lemma blue_initial: "initialDoneList blue_talos config (blue_done []) = Inr ([], False)"
  by (simp add: initialDoneList_def blue_done_def blue_talos_def new_status_def)

lemma blue_run_ok:
  "pxeSetup blue_talos (blue_config [''n1'']) (blue_done []) =
     ([BiosPatch ''n1'' (pxePatch (blue_config [''n1'']) (blue_node ''n1'') LENOVO), BootFromNetwork ''n1'', ForceRestart ''n1''],
      blue_done [''n1''], None)"
  by (simp add: pxeSetup_def blue_initial blue_setup) (simp add: blue_done_def blue_talos_def new_status_def)

theorem nodes_set_up_once_witness:
  "fst (pxeSetup blue_talos (blue_config [''n1'']) (blue_done [''n1''])) = []"
  using nodes_set_up_once [rule_format, OF blue_run_ok, of blue_talos] by simp

text \<open>
  A run that fails forgets what it has done: here the first of two nodes is restarted from the
  network, the second does not answer, the status records neither, and the next run restarts the first
  node again.
\<close>

theorem failed_setup_restarts_nodes_again:
  "pxeSetup blue_talos (blue_config [''n1'', ''n2'']) (blue_done []) =
     ([BiosPatch ''n1'' (pxePatch (blue_config [''n1'', ''n2'']) (blue_node ''n1'') LENOVO), BootFromNetwork ''n1'', ForceRestart ''n1''],
      blue_done [], Some (Errorf ''no route to host'')) \<and>
   ForceRestart ''n1'' \<in> set (fst (pxeSetup blue_talos (blue_config [''n1'', ''n2''])
      (fst (snd (pxeSetup blue_talos (blue_config [''n1'', ''n2'']) (blue_done []))))))"
  by (simp add: pxeSetup_def blue_initial blue_setup)


section \<open>Connecting to a cluster\<close>

text \<open>
  ArgoCD and the health check agree on the credentials: for the same connection secret, the secret
  for ArgoCD can be built exactly when the client of the health check can.
\<close>

theorem credential_checks_agree:
  "cs_secretRef conn = Some ref \<and>
   get_object E ''argocd-conn'' (sr_name ref) (secret_key cl ref) (w_secrets W) = Inr secret \<longrightarrow>
     ((\<exists>d. argoSecretData E W cl conn = Inr d) \<longleftrightarrow> (\<exists>c. buildRESTConfig (cs_url conn) secret = Inr c))"
  using argoSecretData_iff_buildRESTConfig by blast

definition blue_secret :: secret where
  "blue_secret = empty_secret\<lparr>se_data := fmap_of_list [(''certData'', ''cert''), (''keyData'', '' '')]\<rparr>"

definition blue_remote :: connection_spec where
  "blue_remote = \<lparr>cs_mode = ConnectionModeRemote, cs_url = ''https://blue'', cs_secretRef = Some \<lparr>sr_name = ''conn'', sr_namespace = []\<rparr>\<rparr>"

definition blue_remote_world :: op_world where
  "blue_remote_world = (blue_world blue_fresh blue_store)\<lparr>w_secrets := fmupd (''spx'', ''conn'') blue_secret fmempty\<rparr>"

theorem credential_checks_agree_witness:
  "\<exists>d. argoSecretData calm_env blue_remote_world blue_fresh blue_remote = Inr d"
proof -
  have "secret_key blue_fresh \<lparr>sr_name = ''conn'', sr_namespace = []\<rparr> = (''spx'', ''conn'')"
    by (simp add: secret_key_def blue_fresh_def blue_cluster_v_def)
  moreover have "\<exists>c. buildRESTConfig (cs_url blue_remote) blue_secret = Inr c"
    by (simp add: buildRESTConfig_def extractConnectionData_def getString_def getData_def blue_secret_def empty_secret_def
        fmlookup_of_list Let_def)
  ultimately show ?thesis
    using credential_checks_agree [of blue_remote "\<lparr>sr_name = ''conn'', sr_namespace = []\<rparr>" calm_env blue_fresh blue_remote_world blue_secret]
    by (simp add: blue_remote_def get_object_def blue_remote_world_def)
qed


section \<open>Conditions that are not taken back\<close>

lemma syncStatus_other_condition:
  assumes "syncStatus R rd now pe cl app k n c e ls = (cl', res, err)" "\<not> paused cl"
  shows "status_cond cl' ''Paused'' = status_cond cl ''Paused''"
    and "(\<forall>x. e = Some x \<longrightarrow> fst (errorReason x) = ''Ready'') \<Longrightarrow> status_cond cl' ''Reachable'' = status_cond cl ''Reachable''"
  using assms(2) unfolding syncStatus_cluster [OF assms(1)]
  by (cases e; simp add: determineConditions_def Let_def reportError_Some split: option.splits)+

text \<open>
  C34. A cluster that has been resumed stays marked as paused: no pass over a cluster that is not paused
  changes its Paused condition, so the one an earlier pause has set to true is still true.
\<close>

theorem paused_condition_never_taken_back:
  "syncStatus R rd now pe cl app k n c e ls = (cl', res, err) \<and> \<not> paused cl \<longrightarrow>
     status_cond cl' ''Paused'' = status_cond cl ''Paused''"
  using syncStatus_other_condition(1) by blast

definition blue_resumed :: spx_cluster where
  "blue_resumed = setStatusCondition (blue_cluster_v ''1.4.2'')
     (new_condition ''Paused'' ''True'' ''Paused'' ''Synchronization is paused'')"

theorem paused_condition_never_taken_back_witness:
  "\<not> paused blue_resumed \<and>
   status_cond (fst (syncStatus blue_reconciler blue_reader 1000 None blue_resumed (Some (blue_app ''blue'' ''blue''))
     ''v1.31.0'' 3 None None None)) ''Paused'' = Some (''True'', ''Paused'', ''Synchronization is paused'')"
proof -
  have "\<not> paused blue_resumed" by (simp add: blue_resumed_def)
  moreover have "status_cond blue_resumed ''Paused'' = Some (''True'', ''Paused'', ''Synchronization is paused'')"
    by (simp add: blue_resumed_def)
  ultimately show ?thesis
    using paused_condition_never_taken_back [of blue_reconciler blue_reader 1000 None blue_resumed
        "Some (blue_app ''blue'' ''blue'')" "''v1.31.0''" 3 None None None]
    by (metis prod.exhaust fst_conv)
qed

lemma getRESTConfig_ok: "getRESTConfigForCluster E W cl = (cl1, Inr config) \<Longrightarrow> cl1 = cl"
  by (auto simp: getRESTConfigForCluster_def Let_def split: option.splits sum.splits if_splits)

text \<open>
  A cluster that does not answer any more still counts as reachable: when the credentials are fine
  but the API server of the cluster cannot be reached, the health check changes no condition, and the
  pass does not report Ready but leaves the Reachable condition as it was.
\<close>

theorem unreachable_cluster_keeps_reachable:
  "getRESTConfigForCluster E W cl = (cl1, Inr config) \<and> oe_serverVersion E config = Inl x \<and>
   fst (errorReason x) = ''Ready'' \<and> \<not> paused cl \<and>
   syncStatus R rd now pe (fst (reconcileHealth E W cl)) app [] 0 None (Some x) ls = (cl', res, err) \<longrightarrow>
     reconcileHealth E W cl = (cl, Inl x) \<and>
     (\<nexists>r m. status_cond cl' ''Ready'' = Some (''True'', r, m)) \<and>
     status_cond cl' ''Reachable'' = status_cond cl ''Reachable''"
proof (intro impI, elim conjE)
  assume c: "getRESTConfigForCluster E W cl = (cl1, Inr config)" "oe_serverVersion E config = Inl x"
    and x: "fst (errorReason x) = ''Ready''" "\<not> paused cl"
    and run: "syncStatus R rd now pe (fst (reconcileHealth E W cl)) app [] 0 None (Some x) ls = (cl', res, err)"
  have h: "reconcileHealth E W cl = (cl, Inl x)"
    using c getRESTConfig_ok [OF c(1)] by (simp add: reconcileHealth_def)
  with run have run': "syncStatus R rd now pe cl app [] 0 None (Some x) ls = (cl', res, err)" by simp
  from syncStatus_other_condition(2) [OF run' x(2)] syncStatus_ready_iff [OF run'] x(1) h
  show "reconcileHealth E W cl = (cl, Inl x) \<and> (\<nexists>r m. status_cond cl' ''Ready'' = Some (''True'', r, m)) \<and>
     status_cond cl' ''Reachable'' = status_cond cl ''Reachable''" by simp
qed

definition cut_off_env :: op_env where
  "cut_off_env = calm_env\<lparr>oe_serverVersion := (\<lambda>_. Inl (Errorf ''no route to host''))\<rparr>"

theorem unreachable_cluster_keeps_reachable_witness:
  "status_cond (fst (syncStatus blue_reconciler blue_reader 1000 None
       (fst (reconcileHealth cut_off_env (blue_world blue_fresh blue_store) (blue_cluster_v ''1.4.2''))) None [] 0 None
       (Some (Errorf ''no route to host'')) None)) ''Reachable'' =
     Some (''True'', ''ConnectionSuccess'', ''Successfully connected to cluster'')"
proof -
  let ?W = "blue_world blue_fresh blue_store" and ?cl = "blue_cluster_v ''1.4.2''" and ?x = "Errorf ''no route to host''"
  have "getRESTConfigForCluster cut_off_env ?W ?cl = (?cl, Inr blue_rc)"
    by (simp add: getRESTConfigForCluster_def Let_def cut_off_env_def calm_env_def blue_cluster_v_def blue_spec_def)
  moreover have "oe_serverVersion cut_off_env blue_rc = Inl ?x" by (simp add: cut_off_env_def)
  moreover have "fst (errorReason ?x) = ''Ready''" by code_simp
  moreover have "status_cond ?cl ''Reachable'' = Some (''True'', ''ConnectionSuccess'', ''Successfully connected to cluster'')"
    by (simp add: blue_reachable_cond_def content_of_def)
  moreover obtain cl' res err where "syncStatus blue_reconciler blue_reader 1000 None (fst (reconcileHealth cut_off_env ?W ?cl))
     None [] 0 None (Some ?x) None = (cl', res, err)" by (metis prod.exhaust)
  ultimately show ?thesis
    using unreachable_cluster_keeps_reachable [of cut_off_env ?W ?cl ?cl blue_rc ?x blue_reconciler blue_reader 1000 None None None cl' res err]
    by simp
qed

end
