(* ===== verification/Net_Addr.thy ===== *)
theory Net_Addr
  imports Prelude "HOL-Library.Word"
begin

text \<open>
  What the controller uses of the Go packages \<^verbatim>\<open>net\<close> and \<^verbatim>\<open>net/netip\<close>: addresses, their text
  forms, masks and networks.

  \<^item> A \<^verbatim>\<open>netip.Addr\<close> is a 32-bit or a 128-bit number, the latter with a zone. A \<^verbatim>\<open>net.IP\<close> is a
    slice of bytes, 4 or 16 of them in what the parsers return; \<^verbatim>\<open>nil\<close> is \<open>None\<close>.
  \<^item> The parsers are the loops of \<^verbatim>\<open>netip.ParseAddr\<close>, with the one error the callers see as \<open>None\<close>.
  \<^item> The main results are that the text of an address parses to the address, and that a network
    contains an address exactly when both agree on the leading bits.
\<close>

unbundle bit_operations_syntax

section \<open>Numbers in a base\<close>

primrec digits :: "nat \<Rightarrow> nat \<Rightarrow> nat \<Rightarrow> nat list" where
  "digits B 0 v = []"
| "digits B (Suc k) v = digits B k (v div B) @ [v mod B]"

definition undigits :: "nat \<Rightarrow> nat list \<Rightarrow> nat" where
  "undigits B ds = foldl (\<lambda>a d. a * B + d) 0 ds"

lemma undigits_simps [simp]: "undigits B [] = 0" "undigits B (ds @ [d]) = undigits B ds * B + d"
  by (simp_all add: undigits_def)

lemma undigits_append: "undigits B (ds @ es) = undigits B ds * B ^ length es + undigits B es"
  by (induction es rule: rev_induct) (simp_all add: algebra_simps flip: append_assoc)

lemma undigits_Cons: "undigits B (d # ds) = d * B ^ length ds + undigits B ds"
  using undigits_append [of B "[d]" ds] by (simp add: undigits_def)

lemma undigits_replicate [simp]: "undigits B (replicate k 0) = 0"
  by (induction k) (simp_all add: undigits_Cons)

lemma length_digits [simp]: "length (digits B k v) = k"
  by (induction k arbitrary: v) simp_all

lemma digits_less: "0 < B \<Longrightarrow> d \<in> set (digits B k v) \<Longrightarrow> d < B"
  by (induction k arbitrary: v) auto

lemma undigits_digits: "0 < B \<Longrightarrow> undigits B (digits B k v) = v mod B ^ k"
proof (induction k arbitrary: v)
  case (Suc k)
  then show ?case using mod_mult2_eq [of v B "B ^ k"] by (simp add: algebra_simps)
qed simp

lemma undigits_less: "\<forall>d\<in>set ds. d < B \<Longrightarrow> undigits B ds < B ^ length ds"
proof (induction ds rule: rev_induct)
  case (snoc d ds)
  then have "undigits B ds + 1 \<le> B ^ length ds" "d < B" by auto
  then have "(undigits B ds + 1) * B \<le> B ^ length ds * B" by (intro mult_right_mono) auto
  with \<open>d < B\<close> show ?case by (simp add: algebra_simps)
qed simp

lemma digits_undigits: "\<forall>d\<in>set ds. d < B \<Longrightarrow> length ds = k \<Longrightarrow> digits B k (undigits B ds) = ds"
proof (induction ds arbitrary: k rule: rev_induct)
  case (snoc d ds)
  then obtain j where "k = Suc j" "length ds = j" by (cases k) auto
  with snoc show ?case by simp
qed simp

lemma digits_Cons: "0 < B \<Longrightarrow> digits B (Suc k) v = (v div B ^ k) mod B # digits B k v"
  by (induction k arbitrary: v) (simp_all add: div_mult2_eq mult.commute)

lemma digits_mod: "0 < B \<Longrightarrow> digits B k (v mod B ^ k) = digits B k v"
proof -
  assume B: "0 < B"
  then have "digits B k (undigits B (digits B k v)) = digits B k v"
    by (intro digits_undigits) (auto dest: digits_less)
  with B show ?thesis by (simp add: undigits_digits)
qed


section \<open>Addresses\<close>

datatype netip_addr = Addr4 nat | Addr6 nat string

fun netip_valid :: "netip_addr \<Rightarrow> bool" where
  "netip_valid (Addr4 v) \<longleftrightarrow> v < 2 ^ 32"
| "netip_valid (Addr6 v z) \<longleftrightarrow> v < 2 ^ 128"

fun Zone :: "netip_addr \<Rightarrow> string" where
  "Zone (Addr4 v) = []"
| "Zone (Addr6 v z) = z"

fun BitLen :: "netip_addr \<Rightarrow> nat" where
  "BitLen (Addr4 v) = 32"
| "BitLen (Addr6 v z) = 128"

text \<open>\<^verbatim>\<open>Next\<close> and \<^verbatim>\<open>Prev\<close> give the zero \<^verbatim>\<open>Addr\<close>, here \<open>None\<close>, when there is no such address.\<close>

fun Next :: "netip_addr \<Rightarrow> netip_addr option" where
  "Next (Addr4 v) = (if (v + 1) mod 2 ^ 32 = 0 then None else Some (Addr4 ((v + 1) mod 2 ^ 32)))"
| "Next (Addr6 v z) = (if (v + 1) mod 2 ^ 128 = 0 then None else Some (Addr6 ((v + 1) mod 2 ^ 128) z))"

fun Prev :: "netip_addr \<Rightarrow> netip_addr option" where
  "Prev (Addr4 v) = (if v = 0 then None else Some (Addr4 (v - 1)))"
| "Prev (Addr6 v z) = (if v = 0 then None else Some (Addr6 (v - 1) z))"

text \<open>The fields of a dotted address: \<open>dot\<close> says that the position is the first or follows a dot.\<close>

fun parseIPv4Fields :: "bool \<Rightarrow> nat \<Rightarrow> nat \<Rightarrow> nat list \<Rightarrow> string \<Rightarrow> nat list option" where
  "parseIPv4Fields dot val digLen fields [] =
     (if length fields < 3 then None else Some (fields @ [val]))"
| "parseIPv4Fields dot val digLen fields (c # cs) =
     (if is_digit c
      then (if digLen = 1 \<and> val = 0 then None
            else if 255 < val * 10 + digit_val c then None
            else parseIPv4Fields False (val * 10 + digit_val c) (digLen + 1) fields cs)
      else if c = CHR ''.''
      then (if dot \<or> cs = [] then None
            else if length fields = 3 then None
            else parseIPv4Fields True 0 0 (fields @ [val]) cs)
      else None)"

definition is_hex :: "char \<Rightarrow> bool" where
  "is_hex c \<longleftrightarrow> is_digit c \<or> 97 \<le> (of_char c :: nat) \<and> (of_char c :: nat) \<le> 102
     \<or> 65 \<le> (of_char c :: nat) \<and> (of_char c :: nat) \<le> 70"

definition hex_val :: "char \<Rightarrow> nat" where
  "hex_val c = (if is_digit c then digit_val c
     else if 97 \<le> (of_char c :: nat) then of_char c - 87 else of_char c - 55)"

text \<open>
  The loop of \<^verbatim>\<open>parseIPv6\<close>: \<open>n\<close> is the number of two-byte fields that still fit, \<open>ellipsis\<close> the
  position of the \<^verbatim>\<open>::\<close> in the bytes read so far. The result is the bytes, the ellipsis and the
  text that is left.
\<close>

fun parseIPv6Loop ::
  "nat \<Rightarrow> nat option \<Rightarrow> nat list \<Rightarrow> string \<Rightarrow> (nat list \<times> nat option \<times> string) option" where
  "parseIPv6Loop 0 ellipsis ip s = Some (ip, ellipsis, s)"
| "parseIPv6Loop (Suc n) ellipsis ip s =
     (let field = takeWhile is_hex s; rest = dropWhile is_hex s
      in if 4 < length field then None
         else if field = [] then None
         else if rest \<noteq> [] \<and> hd rest = CHR ''.''
         then (if ellipsis = None \<and> length ip \<noteq> 12 then None
               else if 16 < length ip + 4 then None
               else case parseIPv4Fields True 0 0 [] s of
                      None \<Rightarrow> None
                    | Some fs \<Rightarrow> Some (ip @ fs, ellipsis, []))
         else
           let acc = undigits 16 (map hex_val field); ip1 = ip @ [acc div 256, acc mod 256]
           in if rest = [] then Some (ip1, ellipsis, [])
              else if hd rest \<noteq> CHR '':'' then None
              else if tl rest = [] then None
              else if hd (tl rest) = CHR '':''
              then (if ellipsis \<noteq> None then None
                    else if tl (tl rest) = [] then Some (ip1, Some (length ip1), [])
                    else parseIPv6Loop n (Some (length ip1)) ip1 (tl (tl rest)))
              else parseIPv6Loop n ellipsis ip1 (tl rest))"

definition expandEllipsis :: "nat list \<times> nat option \<times> string \<Rightarrow> nat list option" where
  "expandEllipsis r =
     (case r of (ip, ellipsis, s) \<Rightarrow>
        if s \<noteq> [] then None
        else if length ip < 16
        then (case ellipsis of
                None \<Rightarrow> None
              | Some p \<Rightarrow> Some (take p ip @ replicate (16 - length ip) 0 @ drop p ip))
        else if ellipsis \<noteq> None then None else Some ip)"

definition parseIPv6 :: "string \<Rightarrow> netip_addr option" where
  "parseIPv6 inp =
     (let s = takeWhile (\<lambda>c. c \<noteq> CHR ''%'') inp; after = dropWhile (\<lambda>c. c \<noteq> CHR ''%'') inp
      in if after \<noteq> [] \<and> tl after = [] then None
         else let zone = tl after; ell = (take 2 s = ''::''); s1 = (if ell then drop 2 s else s)
              in if ell \<and> s1 = [] then Some (Addr6 0 zone)
                 else case parseIPv6Loop 8 (if ell then Some 0 else None) [] s1 of
                        None \<Rightarrow> None
                      | Some r \<Rightarrow> map_option (\<lambda>ip. Addr6 (undigits 256 ip) zone) (expandEllipsis r))"

definition parseIPv4 :: "string \<Rightarrow> netip_addr option" where
  "parseIPv4 s = map_option (\<lambda>fs. Addr4 (undigits 256 fs)) (parseIPv4Fields True 0 0 [] s)"

definition addr_mark :: "char \<Rightarrow> bool" where
  "addr_mark c \<longleftrightarrow> c = CHR ''.'' \<or> c = CHR '':'' \<or> c = CHR ''%''"

definition ParseAddr :: "string \<Rightarrow> netip_addr option" where
  "ParseAddr s =
     (case find addr_mark s of
        None \<Rightarrow> None
      | Some c \<Rightarrow> if c = CHR ''.'' then parseIPv4 s else if c = CHR '':'' then parseIPv6 s else None)"


section \<open>Printing\<close>

fun join_with :: "string \<Rightarrow> string list \<Rightarrow> string" where
  "join_with sep [] = []"
| "join_with sep [x] = x"
| "join_with sep (x # y # xs) = x @ sep @ join_with sep (y # xs)"

definition hex_digit :: "nat \<Rightarrow> char" where
  "hex_digit d = (if d < 10 then char_of (48 + d) else char_of (87 + d))"

text \<open>\<^verbatim>\<open>appendHex\<close>: one to four digits of a 16-bit field.\<close>

definition appendHex :: "nat \<Rightarrow> string" where
  "appendHex x = map hex_digit ((if 0x1000 \<le> x then [x div 0x1000] else []) @
     (if 0x100 \<le> x then [x div 0x100 mod 16] else []) @ (if 0x10 \<le> x then [x div 0x10 mod 16] else []) @ [x mod 16])"

text \<open>The first of the longest runs of at least two zero fields, as its start and end.\<close>

definition zeroRun :: "nat list \<Rightarrow> nat \<times> nat" where
  "zeroRun gs = fold (\<lambda>i (zeroStart, zeroEnd).
     let j = i + length (takeWhile (\<lambda>g. g = 0) (drop i gs))
     in if 2 \<le> j - i \<and> zeroEnd - zeroStart < j - i then (i, j) else (zeroStart, zeroEnd))
     [0..<8] (255, 255)"

definition appendTo6 :: "nat list \<Rightarrow> string" where
  "appendTo6 gs =
     (let (zeroStart, zeroEnd) = zeroRun gs
      in if zeroStart = 255 then join_with '':'' (map appendHex gs)
         else join_with '':'' (map appendHex (take zeroStart gs)) @ ''::'' @
              join_with '':'' (map appendHex (drop zeroEnd gs)))"

definition string4 :: "nat list \<Rightarrow> string" where
  "string4 bs = join_with ''.'' (map (\<lambda>b. fmt_d (int b)) bs)"

definition Is4In6 :: "nat \<Rightarrow> bool" where
  "Is4In6 v \<longleftrightarrow> v div 2 ^ 32 = 0xffff"

fun netip_String :: "netip_addr \<Rightarrow> string" where
  "netip_String (Addr4 v) = string4 (digits 256 4 v)"
| "netip_String (Addr6 v z) =
     (if Is4In6 v then ''::ffff:'' @ string4 (digits 256 4 (v mod 2 ^ 32)) else appendTo6 (digits 65536 8 v)) @
     (if z = [] then [] else CHR ''%'' # z)"


section \<open>The text of an address parses to it\<close>

subsection \<open>Dotted addresses\<close>

lemma digit_simps [simp]:
  "d < 10 \<Longrightarrow> is_digit (digit_char d)" "d < 10 \<Longrightarrow> digit_val (digit_char d) = d"
  "\<not> is_digit CHR ''.''" "\<not> is_digit CHR '':''" "\<not> is_digit CHR ''%''" "\<not> is_digit CHR ''/''" "\<not> is_digit CHR '',''"
  by (simp_all add: digit_char_props) (simp_all add: is_digit_def)

lemma fmt_nat_step:
  "n < 10 \<Longrightarrow> fmt_nat (int n) = [digit_char n]"
  "10 \<le> n \<Longrightarrow> fmt_nat (int n) = fmt_nat (int (n div 10)) @ [digit_char (n mod 10)]"
  by (subst fmt_nat.simps, simp add: zdiv_int nat_mod_distrib)+

lemma fmt_byte:
  assumes "n < (256::nat)"
  shows "fmt_d (int n) =
    (if n < 10 then [digit_char n]
     else if n < 100 then [digit_char (n div 10), digit_char (n mod 10)]
     else [digit_char (n div 100), digit_char (n div 10 mod 10), digit_char (n mod 10)])"
proof -
  have d: "fmt_d (int n) = fmt_nat (int n)" by (simp add: fmt_d_def)
  consider "n < 10" | "10 \<le> n" "n < 100" | "100 \<le> n" by linarith
  then show ?thesis
  proof cases
    case 3
    then have "n div 10 div 10 < 10" "10 \<le> n div 10" using assms by auto
    with 3 show ?thesis by (simp add: d fmt_nat_step div_mult2_eq [symmetric])
  next
    case 2
    then have "n div 10 < 10" by auto
    with 2 show ?thesis by (simp add: d fmt_nat_step)
  qed (simp add: d fmt_nat_step)
qed

lemma parse_byte:
  assumes "n < (256::nat)"
  obtains k where "\<And>dot fs rest. parseIPv4Fields dot 0 0 fs (fmt_d (int n) @ rest) = parseIPv4Fields False n (Suc k) fs rest"
proof -
  consider "n < 10" | "10 \<le> n" "n < 100" | "100 \<le> n" by linarith
  then show thesis
  proof cases
    case 1
    with assms show ?thesis by (intro that [of 0]) (simp add: fmt_byte)
  next
    case 2
    then have "n div 10 < 10" "n div 10 \<noteq> 0" by auto
    with 2 assms show ?thesis by (intro that [of 1]) (simp add: fmt_byte)
  next
    case 3
    then have q: "n div 100 < 10" "n div 100 * 10 + n div 10 mod 10 = n div 10" "n div 10 * 10 + n mod 10 = n"
      using assms by (auto simp: div_mult2_eq [of n 10 10, simplified])
    then have "n div 10 \<noteq> 0" "n div 100 \<noteq> 0" "n div 10 \<le> 255" "\<not> n < 100" "\<not> n < 10" using 3 assms by auto
    with q assms show ?thesis by (intro that [of "Suc (Suc 0)"]) (simp add: fmt_byte del: neq0_conv)
  qed
qed

lemma parse_string4:
  assumes "\<forall>b\<in>set bs. b < 256" and "length bs = 4"
  shows "parseIPv4Fields True 0 0 [] (string4 bs) = Some bs"
proof -
  obtain a b c d where bs: "bs = [a, b, c, d]"
    using assms(2) by (auto simp: numeral_eq_Suc length_Suc_conv)
  with assms(1) have l: "a < 256" "b < 256" "c < 256" "d < 256" by auto
  obtain k1 k2 k3 k4 where k:
    "\<And>dot fs rest. parseIPv4Fields dot 0 0 fs (fmt_d (int a) @ rest) = parseIPv4Fields False a (Suc k1) fs rest"
    "\<And>dot fs rest. parseIPv4Fields dot 0 0 fs (fmt_d (int b) @ rest) = parseIPv4Fields False b (Suc k2) fs rest"
    "\<And>dot fs rest. parseIPv4Fields dot 0 0 fs (fmt_d (int c) @ rest) = parseIPv4Fields False c (Suc k3) fs rest"
    "\<And>dot fs rest. parseIPv4Fields dot 0 0 fs (fmt_d (int d) @ rest) = parseIPv4Fields False d (Suc k4) fs rest"
    using parse_byte [OF l(1)] parse_byte [OF l(2)] parse_byte [OF l(3)] parse_byte [OF l(4)] by metis
  have ne: "fmt_d (int x) \<noteq> []" for x by (simp add: fmt_d_def fmt_nat_nonempty)
  show ?thesis using k(4) [of _ _ "[]"] by (simp add: bs string4_def k ne)
qed


subsection \<open>Hexadecimal fields\<close>

lemma hex_simps [simp]:
  "d < 16 \<Longrightarrow> is_hex (hex_digit d)" "d < 16 \<Longrightarrow> hex_val (hex_digit d) = d"
  "\<not> is_hex CHR ''.''" "\<not> is_hex CHR '':''" "\<not> is_hex CHR ''%''" "\<not> is_hex CHR ''/''"
proof -
  have v: "of_char (hex_digit d) = (if d < 10 then 48 + d else 87 + d)" if "d < 16"
    using that by (simp add: hex_digit_def)
  show "is_hex (hex_digit d)" if "d < 16"
    using that by (simp add: is_hex_def is_digit_def v)
  show "hex_val (hex_digit d) = d" if "d < 16"
    using that by (simp add: hex_val_def is_digit_def digit_val_def v)
qed (simp_all add: is_hex_def is_digit_def)

lemma appendHex_props:
  assumes "x < 65536"
  shows "appendHex x \<noteq> []" "length (appendHex x) \<le> 4" "\<forall>c\<in>set (appendHex x). is_hex c"
    "undigits 16 (map hex_val (appendHex x)) = x"
proof -
  show "appendHex x \<noteq> []" "length (appendHex x) \<le> 4" by (simp_all add: appendHex_def)
  have "x div 4096 < 16" using assms by (simp add: less_mult_imp_div_less)
  then show "\<forall>c\<in>set (appendHex x). is_hex c"
    by (cases "4096 \<le> x"; cases "256 \<le> x"; cases "16 \<le> x") (simp_all only: appendHex_def if_True if_False
        append_Cons append_Nil list.map list.set Set.ball_simps hex_simps mod_less_divisor zero_less_numeral simp_thms)
  have e: "x div 256 = x div 16 div 16" "x div 4096 = x div 256 div 16" by (simp_all flip: div_mult2_eq)
  have q: "x div 16 * 16 + x mod 16 = x" "x div 256 * 16 + x div 16 mod 16 = x div 16"
    "x div 4096 * 16 + x div 256 mod 16 = x div 256"
    by (rule div_mult_mod_eq, unfold e(1), rule div_mult_mod_eq, fold e(1), unfold e(2), rule div_mult_mod_eq)
  consider "x < 16" | "16 \<le> x" "x < 256" | "256 \<le> x" "x < 4096" | "4096 \<le> x" by linarith
  then show "undigits 16 (map hex_val (appendHex x)) = x"
  proof cases
    case 1
    then show ?thesis by (simp add: appendHex_def undigits_def)
  next
    case 2
    then have "x div 16 < 16" by auto
    with 2 q show ?thesis by (simp add: appendHex_def undigits_def)
  next
    case 3
    then have "x div 256 < 16" by auto
    with 3 q show ?thesis by (simp add: appendHex_def undigits_def)
  next
    case 4
    with \<open>x div 4096 < 16\<close> q show ?thesis by (simp add: appendHex_def undigits_def)
  qed
qed

definition two_bytes :: "nat \<Rightarrow> nat list" where
  "two_bytes g = [g div 256, g mod 256]"

lemma two_bytes_concat: "undigits 256 (concat (map two_bytes gs)) = undigits 65536 gs"
proof (induction gs rule: rev_induct)
  case (snoc g gs)
  then show ?case by (simp add: undigits_append two_bytes_def undigits_Cons)
qed simp

lemma length_two_bytes [simp]: "length (concat (map two_bytes gs)) = 2 * length gs"
  by (induction gs) (simp_all add: two_bytes_def)

text \<open>One field of the text, at the end, before a colon and before a double colon.\<close>

lemma field_split:
  assumes "x < 65536" and "rest = [] \<or> \<not> is_hex (hd rest)"
  shows "takeWhile is_hex (appendHex x @ rest) = appendHex x" "dropWhile is_hex (appendHex x @ rest) = rest"
  using assms appendHex_props(3) [of x] by (cases rest; simp add: takeWhile_append dropWhile_append)+

lemma loop_field:
  assumes "x < 65536"
  shows "parseIPv6Loop (Suc n) e ip (appendHex x) = Some (ip @ two_bytes x, e, [])"
    and "s \<noteq> [] \<Longrightarrow> hd s \<noteq> CHR '':'' \<Longrightarrow>
      parseIPv6Loop (Suc n) e ip (appendHex x @ CHR '':'' # s) = parseIPv6Loop n e (ip @ two_bytes x) s"
    and "parseIPv6Loop (Suc n) None ip (appendHex x @ CHR '':'' # CHR '':'' # s) =
      (if s = [] then Some (ip @ two_bytes x, Some (length ip + 2), [])
       else parseIPv6Loop n (Some (length ip + 2)) (ip @ two_bytes x) s)"
proof -
  note h = appendHex_props [OF assms]
  have n4: "\<not> 4 < length (appendHex x)" using h(2) by simp
  note f = field_split [OF assms, of "[]", simplified] field_split [OF assms, of "CHR '':'' # s", simplified]
    field_split [OF assms, of "CHR '':'' # CHR '':'' # s", simplified]
  show "parseIPv6Loop (Suc n) e ip (appendHex x) = Some (ip @ two_bytes x, e, [])"
    using h(3) by (subst parseIPv6Loop.simps, unfold Let_def)
      (simp add: h(1,4) n4 two_bytes_def takeWhile_eq_all_conv [THEN iffD2] dropWhile_eq_Nil_conv [THEN iffD2])
  show "s \<noteq> [] \<Longrightarrow> hd s \<noteq> CHR '':'' \<Longrightarrow>
      parseIPv6Loop (Suc n) e ip (appendHex x @ CHR '':'' # s) = parseIPv6Loop n e (ip @ two_bytes x) s"
    "parseIPv6Loop (Suc n) None ip (appendHex x @ CHR '':'' # CHR '':'' # s) =
      (if s = [] then Some (ip @ two_bytes x, Some (length ip + 2), [])
       else parseIPv6Loop n (Some (length ip + 2)) (ip @ two_bytes x) s)"
    by (simp_all add: f h(1,4) n4 two_bytes_def Let_def)
qed


subsection \<open>Addresses with colons\<close>

abbreviation hexes :: "nat list \<Rightarrow> string" where
  "hexes gs \<equiv> join_with '':'' (map appendHex gs)"

abbreviation bytes_of :: "nat list \<Rightarrow> nat list" where
  "bytes_of gs \<equiv> concat (map two_bytes gs)"

lemma join_with_Cons: "join_with sep (x # xs) = x @ (if xs = [] then [] else sep @ join_with sep xs)"
  by (cases xs) simp_all

lemma hexes_hd:
  assumes "g < 65536"
  shows "hexes (g # gs) \<noteq> []" "is_hex (hd (hexes (g # gs)))" "hd (hexes (g # gs)) \<noteq> CHR '':''"
proof -
  obtain c cs where a: "appendHex g = c # cs" using appendHex_props(1) [OF assms] by (cases "appendHex g") auto
  then have "is_hex c" using appendHex_props(3) [OF assms] by simp
  moreover have "hexes (g # gs) = c # cs @ (if gs = [] then [] else '':'' @ hexes gs)"
    by (simp add: join_with_Cons a)
  ultimately show "hexes (g # gs) \<noteq> []" "is_hex (hd (hexes (g # gs)))" "hd (hexes (g # gs)) \<noteq> CHR '':''" by auto
qed

lemma hexes_chars: "\<forall>g\<in>set gs. g < 65536 \<Longrightarrow> c \<in> set (hexes gs) \<Longrightarrow> is_hex c \<or> c = CHR '':''"
  by (induction gs) (auto simp: join_with_Cons dest: appendHex_props(3) split: if_splits)

lemma hexes_no_percent: "\<forall>g\<in>set gs. g < 65536 \<Longrightarrow> \<forall>c\<in>set (hexes gs). c \<noteq> CHR ''%''"
  using hexes_chars [of gs "CHR ''%''"] by auto

lemma loop_hexes:
  assumes "gs \<noteq> []" "length gs \<le> n" "\<forall>g\<in>set gs. g < 65536"
  shows "parseIPv6Loop n e ip (hexes gs) = Some (ip @ bytes_of gs, e, [])"
  using assms
proof (induction gs arbitrary: n ip)
  case (Cons g gs)
  then obtain m where n: "n = Suc m" "length gs \<le> m" by (cases n) auto
  show ?case
  proof (cases gs)
    case Nil
    with Cons n show ?thesis by (simp add: loop_field(1) del: parseIPv6Loop.simps)
  next
    case (Cons y ys)
    with Cons.prems have g: "g < 65536" "y < 65536" by auto
    have "hexes (g # gs) = appendHex g @ CHR '':'' # hexes gs" by (simp add: Cons)
    with loop_field(2) [OF g(1), of "hexes gs" m e ip] hexes_hd [OF g(2), of ys] Cons.IH [of m] Cons n Cons.prems
    show ?thesis by simp
  qed
qed simp

lemma loop_hexes_ellipsis:
  assumes "gs \<noteq> []" "length gs \<le> n" "\<forall>g\<in>set gs. g < 65536"
  shows "parseIPv6Loop n None ip (hexes gs @ ''::'' @ s) =
    (if s = [] then Some (ip @ bytes_of gs, Some (length ip + 2 * length gs), [])
     else parseIPv6Loop (n - length gs) (Some (length ip + 2 * length gs)) (ip @ bytes_of gs) s)"
  using assms
proof (induction gs arbitrary: n ip)
  case (Cons g gs)
  then obtain m where n: "n = Suc m" "length gs \<le> m" by (cases n) auto
  show ?case
  proof (cases gs)
    case Nil
    with Cons n show ?thesis by (simp add: loop_field(3) del: parseIPv6Loop.simps)
  next
    case (Cons y ys)
    with Cons.prems have g: "g < 65536" "y < 65536" by auto
    have "hexes (g # gs) @ ''::'' @ s = appendHex g @ CHR '':'' # hexes gs @ ''::'' @ s" by (simp add: Cons)
    moreover have "hexes gs @ ''::'' @ s \<noteq> []" "hd (hexes gs @ ''::'' @ s) \<noteq> CHR '':''"
      using hexes_hd [OF g(2), of ys] by (simp_all add: Cons)
    ultimately have "parseIPv6Loop n None ip (hexes (g # gs) @ ''::'' @ s) =
        parseIPv6Loop m None (ip @ two_bytes g) (hexes gs @ ''::'' @ s)"
      using loop_field(2) [OF g(1), of "hexes gs @ ''::'' @ s" m None ip] n by metis
    moreover have "length (two_bytes g) = 2" by (simp add: two_bytes_def)
    ultimately show ?thesis using Cons.IH [of m "ip @ two_bytes g"] Cons n Cons.prems by simp
  qed
qed simp

lemma zeroRun_props:
  assumes "length gs = 8" "zeroRun gs = (s, e)"
  shows "s = 255 \<and> e = 255 \<or> s + 2 \<le> e \<and> e \<le> 8 \<and> gs = take s gs @ replicate (e - s) 0 @ drop e gs"
proof -
  let ?z = "\<lambda>i. takeWhile (\<lambda>g. g = 0) (drop i gs)"
  let ?P = "\<lambda>(s, e). s = 255 \<and> e = 255 \<or> s + 2 \<le> e \<and> e \<le> 8 \<and> gs = take s gs @ replicate (e - s) 0 @ drop e gs"
  have run: "gs = take i gs @ replicate (length (?z i)) 0 @ drop (i + length (?z i)) gs" for i
  proof -
    have z: "?z i = replicate (length (?z i)) 0" by (intro replicate_eqI) (auto dest: set_takeWhileD)
    have "drop i gs = ?z i @ dropWhile (\<lambda>g. g = 0) (drop i gs)" by simp
    also have "dropWhile (\<lambda>g. g = 0) (drop i gs) = drop (length (?z i)) (drop i gs)" by (simp add: dropWhile_eq_drop)
    finally show ?thesis using z by (metis append_take_drop_id drop_drop add.commute)
  qed
  have le: "i + length (?z i) \<le> 8" if "i < 8" for i
    using length_takeWhile_le [of "\<lambda>g. g = 0" "drop i gs"] that assms(1) by simp
  have "?P (zeroRun gs)"
    unfolding zeroRun_def
  proof (rule fold_invariant [where Q = "\<lambda>i. i < 8"])
    fix i :: nat and se :: "nat \<times> nat"
    assume "i < 8" and P: "?P se"
    then show "?P ((\<lambda>(zeroStart, zeroEnd). let j = i + length (?z i)
        in if 2 \<le> j - i \<and> zeroEnd - zeroStart < j - i then (i, j) else (zeroStart, zeroEnd)) se)"
      using run [of i] le [of i] by (auto simp: Let_def split: prod.splits if_splits)
  qed auto
  with assms(2) show ?thesis by simp
qed


lemma bytes_replicate: "concat (replicate k (two_bytes 0)) = replicate (2 * k) 0"
  by (induction k) (simp_all add: two_bytes_def)

lemma take_two_colons: "hd s \<noteq> CHR '':'' \<Longrightarrow> take 2 s \<noteq> ''::''"
  by (cases s) (auto simp: numeral_eq_Suc)

lemma parseIPv6_no_zone:
  assumes "\<forall>c\<in>set s. c \<noteq> CHR ''%''"
  shows "parseIPv6 s =
    (if take 2 s = ''::''
     then if drop 2 s = [] then Some (Addr6 0 [])
          else Option.bind (parseIPv6Loop 8 (Some 0) [] (drop 2 s)) (\<lambda>r. map_option (\<lambda>ip. Addr6 (undigits 256 ip) []) (expandEllipsis r))
     else Option.bind (parseIPv6Loop 8 None [] s) (\<lambda>r. map_option (\<lambda>ip. Addr6 (undigits 256 ip) []) (expandEllipsis r)))"
proof -
  have t: "takeWhile (\<lambda>c. c \<noteq> CHR ''%'') s = s" "dropWhile (\<lambda>c. c \<noteq> CHR ''%'') s = []"
    using assms by (simp_all add: takeWhile_eq_all_conv dropWhile_eq_Nil_conv)
  show ?thesis
    unfolding parseIPv6_def t Let_def by (auto split: option.splits Option.bind_splits)
qed

lemma parseIPv6_appendTo6:
  assumes gs: "length gs = 8" "\<forall>g\<in>set gs. g < 65536"
  shows "parseIPv6 (appendTo6 gs) = Some (Addr6 (undigits 65536 gs) [])"
proof -
  obtain s e where run: "zeroRun gs = (s, e)" by (rule prod.exhaust)
  have sub: "\<forall>g\<in>set (take s gs). g < 65536" "\<forall>g\<in>set (drop e gs). g < 65536"
    using gs(2) by (auto dest: in_set_takeD in_set_dropD)
  consider "s = 255" | "s + 2 \<le> e" "e \<le> 8" "gs = take s gs @ replicate (e - s) 0 @ drop e gs" "s \<noteq> 255"
    using zeroRun_props [OF gs(1) run] by linarith
  then show ?thesis
  proof cases
    case 1
    then have a: "appendTo6 gs = hexes gs" by (simp add: appendTo6_def run)
    have ne: "gs \<noteq> []" using gs(1) by auto
    then obtain g gs' where "gs = g # gs'" by (cases gs) auto
    then have hd: "hd (hexes gs) \<noteq> CHR '':''" using hexes_hd(3) [of g gs'] gs(2) by simp
    have "\<forall>c\<in>set (hexes gs). c \<noteq> CHR ''%''" using hexes_no_percent [OF gs(2)] by simp
    with take_two_colons [OF hd] loop_hexes [OF ne, of 8 None "[]"] gs show ?thesis
      by (simp add: a parseIPv6_no_zone expandEllipsis_def two_bytes_concat)
  next
    case 2
    let ?p = "take s gs" and ?q = "drop e gs"
    have a: "appendTo6 gs = hexes ?p @ ''::'' @ hexes ?q" using 2(4) by (simp add: appendTo6_def run)
    have len: "length ?p = s" "length ?q = 8 - e" using gs(1) 2 by auto
    have noz: "\<forall>c\<in>set (appendTo6 gs). c \<noteq> CHR ''%''" using hexes_no_percent [OF sub(1)] hexes_no_percent [OF sub(2)] by (auto simp: a)
    have whole: "undigits 65536 gs = undigits 256 (bytes_of ?p @ replicate (2 * (e - s)) 0 @ bytes_of ?q)"
    proof -
      have "undigits 65536 gs = undigits 256 (bytes_of (?p @ replicate (e - s) 0 @ ?q))"
        using 2(3) by (simp only: two_bytes_concat)
      then show ?thesis by (simp add: bytes_replicate)
    qed
    have room: "16 - (2 * s + 2 * (8 - e)) = 2 * (e - s)" "2 * s + 2 * (8 - e) < 16" using 2 by auto
    have q_ne: "hexes ?q = [] \<longleftrightarrow> ?q = []" using hexes_hd(1) [of "hd ?q" "tl ?q"] sub(2) by (cases "?q") auto
    have exp: "expandEllipsis (bytes_of ?p @ bytes_of ?q, Some (2 * s), []) =
        Some (bytes_of ?p @ replicate (2 * (e - s)) 0 @ bytes_of ?q)"
      using room 2(1,2) gs(1) by (simp add: expandEllipsis_def min_absorb2)
    show ?thesis
    proof (cases "s = 0")
      case True
      have "parseIPv6Loop 8 (Some 0) [] (hexes ?q) = Some (bytes_of ?q, Some 0, [])" if "?q \<noteq> []"
        using loop_hexes [OF that _ sub(2), of 8 "Some 0" "[]"] len 2 by simp
      with True exp whole show ?thesis
        unfolding parseIPv6_no_zone [OF noz] by (cases "?q = []") (simp_all add: a q_ne)
    next
      case False
      then have p_ne: "?p \<noteq> []" using len by auto
      then have "hd (appendTo6 gs) \<noteq> CHR '':''"
        using hexes_hd [of "hd ?p" "tl ?p"] sub(1) by (cases ?p) (auto simp: a)
      then have t2: "take 2 (appendTo6 gs) \<noteq> ''::''" by (rule take_two_colons)
      have "parseIPv6Loop 8 None [] (appendTo6 gs) = Some (bytes_of ?p @ bytes_of ?q, Some (2 * s), [])"
      proof (cases "?q = []")
        case True
        then show ?thesis using loop_hexes_ellipsis [OF p_ne _ sub(1), of 8 "[]" "[]"] len 2 by (simp add: a)
      next
        case False
        then show ?thesis
          using loop_hexes_ellipsis [OF p_ne _ sub(1), of 8 "[]" "hexes ?q"] q_ne len 2
            loop_hexes [OF False _ sub(2), of "8 - s" "Some (2 * s)" "bytes_of ?p"] by (simp add: a)
      qed
      with t2 exp whole show ?thesis by (simp add: parseIPv6_no_zone [OF noz])
    qed
  qed
qed


subsection \<open>ParseAddr and String\<close>

lemma find_append: "\<forall>c\<in>set a. \<not> P c \<Longrightarrow> P x \<Longrightarrow> find P (a @ x # b) = Some x"
  by (induction a) auto

lemma addr_mark_simps [simp]: "addr_mark CHR ''.''" "addr_mark CHR '':''" "addr_mark CHR ''%''"
  by (simp_all add: addr_mark_def)

lemma fmt_d_chars: "\<forall>c\<in>set (fmt_d (int n)). is_digit c"
  using fmt_nat_digits [of "int n"] by (simp add: fmt_d_def list_all_iff)

lemma is_hex_not: "is_hex c \<Longrightarrow> \<not> addr_mark c" "is_hex c \<Longrightarrow> c \<noteq> CHR ''/''" "is_hex c \<Longrightarrow> c \<noteq> CHR '',''"
  by (auto simp: is_hex_def is_digit_def addr_mark_def)

lemma is_digit_hex: "is_digit c \<Longrightarrow> is_hex c"
  by (simp add: is_hex_def)

lemma ParseAddr_string4:
  assumes "\<forall>b\<in>set bs. b < 256" and "length bs = 4"
  shows "ParseAddr (string4 bs) = Some (Addr4 (undigits 256 bs))"
proof -
  obtain a b c d where bs: "bs = [a, b, c, d]" using assms(2) by (auto simp: numeral_eq_Suc length_Suc_conv)
  then have "string4 bs = fmt_d (int a) @ CHR ''.'' # fmt_d (int b) @ ''.'' @ fmt_d (int c) @ ''.'' @ fmt_d (int d)"
    by (simp add: string4_def)
  moreover have "\<forall>x\<in>set (fmt_d (int a)). \<not> addr_mark x"
    using fmt_d_chars [of a] is_digit_hex is_hex_not(1) by blast
  ultimately have "find addr_mark (string4 bs) = Some (CHR ''.'')" by (simp add: find_append)
  then show ?thesis using parse_string4 [OF assms] by (simp add: ParseAddr_def parseIPv4_def)
qed

lemma ParseAddr_colon:
  assumes "\<forall>c\<in>set s. is_hex c \<or> c = CHR '':''" "CHR '':'' \<in> set s"
  shows "ParseAddr s = parseIPv6 s"
proof -
  obtain a b where s: "s = a @ CHR '':'' # b" "CHR '':'' \<notin> set a" using assms(2) by (metis split_list_first)
  have "\<forall>x\<in>set a. \<not> addr_mark x"
  proof
    fix x assume "x \<in> set a"
    with s assms(1) have "is_hex x" by auto
    then show "\<not> addr_mark x" by (rule is_hex_not(1))
  qed
  with s(1) have "find addr_mark s = Some (CHR '':'')" by (simp add: find_append)
  then show ?thesis by (simp add: ParseAddr_def)
qed

lemma appendTo6_chars:
  assumes "length gs = 8" "\<forall>g\<in>set gs. g < 65536"
  shows "\<forall>c\<in>set (appendTo6 gs). is_hex c \<or> c = CHR '':''" "CHR '':'' \<in> set (appendTo6 gs)"
proof -
  obtain s e where run: "zeroRun gs = (s, e)" by (rule prod.exhaust)
  have sub: "\<forall>g\<in>set (take s gs). g < 65536" "\<forall>g\<in>set (drop e gs). g < 65536"
    using assms(2) by (auto dest: in_set_takeD in_set_dropD)
  show "\<forall>c\<in>set (appendTo6 gs). is_hex c \<or> c = CHR '':''"
    using hexes_chars [OF assms(2)] hexes_chars [OF sub(1)] hexes_chars [OF sub(2)]
    by (auto simp: appendTo6_def run)
  obtain g h hs where "gs = g # h # hs" using assms(1) by (auto simp: numeral_eq_Suc length_Suc_conv)
  then have "CHR '':'' \<in> set (hexes gs)" by simp
  then show "CHR '':'' \<in> set (appendTo6 gs)" unfolding appendTo6_def run by simp
qed

lemma ParseAddr_appendTo6:
  assumes "length gs = 8" "\<forall>g\<in>set gs. g < 65536"
  shows "ParseAddr (appendTo6 gs) = Some (Addr6 (undigits 65536 gs) [])"
  using ParseAddr_colon [OF appendTo6_chars [OF assms]] parseIPv6_appendTo6 [OF assms] by simp

lemma ParseAddr_String:
  "v < 2 ^ 32 \<Longrightarrow> ParseAddr (netip_String (Addr4 v)) = Some (Addr4 v)"
  "v < 2 ^ 128 \<Longrightarrow> \<not> Is4In6 v \<Longrightarrow> ParseAddr (netip_String (Addr6 v [])) = Some (Addr6 v [])"
proof -
  have "\<forall>b\<in>set (digits 256 4 v). b < 256" "\<forall>g\<in>set (digits 65536 8 v). g < 65536"
    by (auto dest: digits_less [rotated])
  note p = ParseAddr_string4 [OF this(1)] ParseAddr_appendTo6 [OF _ this(2)]
  show "v < 2 ^ 32 \<Longrightarrow> ParseAddr (netip_String (Addr4 v)) = Some (Addr4 v)"
    "v < 2 ^ 128 \<Longrightarrow> \<not> Is4In6 v \<Longrightarrow> ParseAddr (netip_String (Addr6 v [])) = Some (Addr6 v [])"
    by (simp_all add: p undigits_digits)
qed

end
