(* ===== verification/Net_IP.thy ===== *)
theory Net_IP
  imports Net_Addr
begin

text \<open>
  Networks: \<^verbatim>\<open>net.IP\<close>, \<^verbatim>\<open>net.IPMask\<close>, \<^verbatim>\<open>net.IPNet\<close> and \<^verbatim>\<open>net.ParseCIDR\<close> as the controller uses
  them. The lemmas give the meaning of a mask as a number of leading bits: masking clears the bits
  below the prefix, and a network contains the addresses that agree with it on the prefix.
\<close>

section \<open>Definitions\<close>

type_synonym ip = "8 word list"

definition bytes_nat :: "ip \<Rightarrow> nat" where
  "bytes_nat ip = undigits 256 (map unat ip)"

definition nat_bytes :: "nat \<Rightarrow> nat \<Rightarrow> ip" where
  "nat_bytes k v = map of_nat (digits 256 k v)"

definition v4InV6Prefix :: ip where
  "v4InV6Prefix = replicate 10 0 @ [0xff, 0xff]"

definition To4 :: "ip \<Rightarrow> ip option" where
  "To4 ip = (if length ip = 4 then Some ip
     else if length ip = 16 \<and> take 12 ip = v4InV6Prefix then Some (drop 12 ip) else None)"

fun As16 :: "netip_addr \<Rightarrow> ip" where
  "As16 (Addr4 v) = v4InV6Prefix @ nat_bytes 4 v"
| "As16 (Addr6 v z) = nat_bytes 16 v"

definition ParseIP :: "string \<Rightarrow> ip option" where
  "ParseIP s = (case ParseAddr s of None \<Rightarrow> None | Some a \<Rightarrow> if Zone a \<noteq> [] then None else Some (As16 a))"

definition IP_String :: "ip \<Rightarrow> string" where
  "IP_String ip =
     (if ip = [] then ''<nil>''
      else if length ip \<noteq> 4 \<and> length ip \<noteq> 16
      then ''?'' @ concat (map (\<lambda>b. [hex_digit (unat b div 16), hex_digit (unat b mod 16)]) ip)
      else case To4 ip of
             Some p4 \<Rightarrow> netip_String (Addr4 (bytes_nat p4))
           | None \<Rightarrow> netip_String (Addr6 (bytes_nat ip) []))"

fun cidr_bytes :: "nat \<Rightarrow> nat \<Rightarrow> ip" where
  "cidr_bytes 0 n = []"
| "cidr_bytes (Suc l) n =
     (if 8 \<le> n then 0xff # cidr_bytes l (n - 8) else NOT (drop_bit n 0xff) # cidr_bytes l 0)"

definition CIDRMask :: "nat \<Rightarrow> nat \<Rightarrow> ip" where
  "CIDRMask ones bits = (if (bits = 32 \<or> bits = 128) \<and> ones \<le> bits then cidr_bytes (bits div 8) ones else [])"

text \<open>The loop that counts the leading ones of a byte shifts them out, so it ends within eight rounds.\<close>

fun leadOnes :: "nat \<Rightarrow> 8 word \<Rightarrow> nat \<times> 8 word" where
  "leadOnes 0 v = (0, v)"
| "leadOnes (Suc k) v =
     (if v AND 0x80 \<noteq> 0 then (case leadOnes k (push_bit 1 v) of (n, w) \<Rightarrow> (n + 1, w)) else (0, v))"

fun simpleMaskLength :: "ip \<Rightarrow> nat option" where
  "simpleMaskLength [] = Some 0"
| "simpleMaskLength (v # vs) =
     (if v = 0xff then map_option (\<lambda>n. 8 + n) (simpleMaskLength vs)
      else case leadOnes 8 v of (n, w) \<Rightarrow> if w = 0 \<and> list_all (\<lambda>b. b = 0) vs then Some n else None)"

definition Mask_Size :: "ip \<Rightarrow> nat \<times> nat" where
  "Mask_Size m = (case simpleMaskLength m of None \<Rightarrow> (0, 0) | Some n \<Rightarrow> (n, 8 * length m))"

definition IP_Mask :: "ip \<Rightarrow> ip \<Rightarrow> ip" where
  "IP_Mask ip0 mask0 =
     (let mask = (if length mask0 = 16 \<and> length ip0 = 4 \<and> list_all (\<lambda>b. b = 0xff) (take 12 mask0) then drop 12 mask0 else mask0);
          ip = (if length mask = 4 \<and> length ip0 = 16 \<and> take 12 ip0 = v4InV6Prefix then drop 12 ip0 else ip0)
      in if length ip \<noteq> length mask then [] else map2 (AND) ip mask)"

record ipnet =
  n_IP :: ip
  n_Mask :: ip

definition networkNumberAndMask :: "ipnet \<Rightarrow> ip \<times> ip" where
  "networkNumberAndMask n =
     (case (case To4 (n_IP n) of Some x \<Rightarrow> Some x | None \<Rightarrow> if length (n_IP n) \<noteq> 16 then None else Some (n_IP n)) of
        None \<Rightarrow> ([], [])
      | Some ip \<Rightarrow>
          if length (n_Mask n) = 4 then (if length ip \<noteq> 4 then ([], []) else (ip, n_Mask n))
          else if length (n_Mask n) = 16 then (if length ip = 4 then (ip, drop 12 (n_Mask n)) else (ip, n_Mask n))
          else ([], []))"

definition IPNet_Contains :: "ipnet \<Rightarrow> ip \<Rightarrow> bool" where
  "IPNet_Contains n ip0 =
     (let (nn, m) = networkNumberAndMask n; ip = (case To4 ip0 of Some x \<Rightarrow> x | None \<Rightarrow> ip0)
      in length ip = length nn \<and> map2 (AND) nn m = map2 (AND) ip m)"

definition IPNet_String :: "ipnet \<Rightarrow> string" where
  "IPNet_String n =
     (let (nn, m) = networkNumberAndMask n
      in if nn = [] \<or> m = [] then ''<nil>''
         else case simpleMaskLength m of
                None \<Rightarrow> IP_String nn @ ''/'' @ concat (map (\<lambda>b. [hex_digit (unat b div 16), hex_digit (unat b mod 16)]) m)
              | Some l \<Rightarrow> IP_String nn @ ''/'' @ fmt_d (int l))"

text \<open>\<^verbatim>\<open>dtoi\<close> stops with an error at \<^verbatim>\<open>0xFFFFFF\<close>, far above the largest prefix length.\<close>

definition ParseCIDR :: "string \<Rightarrow> (ip \<times> ipnet) option" where
  "ParseCIDR s =
     (let addr = takeWhile (\<lambda>c. c \<noteq> CHR ''/'') s; rest = dropWhile (\<lambda>c. c \<noteq> CHR ''/'') s
      in if rest = [] then None
         else case ParseAddr addr of
                None \<Rightarrow> None
              | Some ipAddr \<Rightarrow>
                  if Zone ipAddr \<noteq> [] then None
                  else (case read_nat (tl rest) of
                          None \<Rightarrow> None
                        | Some n \<Rightarrow>
                            if 0xFFFFFF \<le> n \<or> int (BitLen ipAddr) < n then None
                            else let m = CIDRMask (nat n) (BitLen ipAddr)
                                 in Some (As16 ipAddr, \<lparr>n_IP = IP_Mask (As16 ipAddr) m, n_Mask = m\<rparr>)))"


section \<open>Bytes and numbers\<close>

lemma bytes_less: "\<forall>d\<in>set (map unat (bs :: ip)). d < 256"
  by (auto intro: order_less_le_trans [OF unsigned_less])

lemma bytes_nat_less: "bytes_nat ip < 256 ^ length ip"
  using undigits_less [OF bytes_less, of ip] by (simp add: bytes_nat_def)

lemma length_nat_bytes [simp]: "length (nat_bytes k v) = k"
  by (simp add: nat_bytes_def)

lemma unat_of_byte: "d < 256 \<Longrightarrow> unat (of_nat d :: 8 word) = d"
  by (simp add: unat_of_nat)

lemma bytes_nat_nat_bytes: "bytes_nat (nat_bytes k v) = v mod 256 ^ k"
proof -
  have "map (\<lambda>d. unat (of_nat d :: 8 word)) (digits 256 k v) = digits 256 k v"
    by (intro map_idI unat_of_byte) (auto dest: digits_less [rotated])
  then show ?thesis by (simp add: bytes_nat_def nat_bytes_def undigits_digits comp_def)
qed

lemma nat_bytes_bytes_nat: "length ip = k \<Longrightarrow> nat_bytes k (bytes_nat ip) = ip"
  by (simp add: nat_bytes_def bytes_nat_def digits_undigits bytes_less comp_def)

lemma bytes_nat_inject: "length a = length b \<Longrightarrow> bytes_nat a = bytes_nat b \<longleftrightarrow> a = b"
  by (metis nat_bytes_bytes_nat)

lemma bytes_nat_Cons: "bytes_nat (b # bs) = unat b * 256 ^ length bs + bytes_nat bs"
  by (simp add: bytes_nat_def undigits_Cons)

lemma bytes_nat_append: "bytes_nat (a @ b) = bytes_nat a * 256 ^ length b + bytes_nat b"
  by (simp add: bytes_nat_def undigits_append)

lemma bytes_nat_Nil [simp]: "bytes_nat [] = 0"
  by (simp add: bytes_nat_def)


section \<open>Masks\<close>

lemma length_cidr_bytes [simp]: "length (cidr_bytes l n) = l"
  by (induction l n rule: cidr_bytes.induct) simp_all

lemma byte_mask:
  fixes a :: "8 word"
  assumes "n \<le> 8"
  shows "a AND NOT (drop_bit n 0xff) = push_bit (8 - n) (drop_bit (8 - n) a)"
proof -
  have "(0xff :: 8 word) = mask 8" by (simp add: mask_numeral)
  moreover have "drop_bit n (mask 8 :: 8 word) = mask (8 - n)"
    by (rule bit_word_eqI) (auto simp: bit_simps)
  ultimately have "drop_bit n (0xff :: 8 word) = mask (8 - n)" by (simp only:)
  moreover have "a AND NOT (mask (8 - n)) = push_bit (8 - n) (drop_bit (8 - n) a)"
    by (rule bit_word_eqI) (auto simp: bit_simps)
  ultimately show ?thesis by (simp only:)
qed

lemma unat_byte_mask:
  fixes a :: "8 word"
  assumes "n \<le> 8"
  shows "unat (a AND NOT (drop_bit n 0xff)) = unat a div 2 ^ (8 - n) * 2 ^ (8 - n)"
proof -
  have a: "unat a < 256" using unsigned_less [of a] by simp
  have "unat a div 2 ^ (8 - n) * 2 ^ (8 - n) \<le> unat a" by (rule div_times_less_eq_dividend)
  with a have "unat a div 2 ^ (8 - n) * 2 ^ (8 - n) < 256" by linarith
  with a show ?thesis
    unfolding byte_mask [OF assms]
    by (simp only: unsigned_push_bit_eq unsigned_drop_bit_eq)
      (simp add: push_bit_eq_mult drop_bit_eq_div take_bit_eq_mod)
qed

lemma div_split_top:
  fixes a x :: nat
  assumes "x < 256 ^ k" "h \<le> 8 * k"
  shows "(a * 256 ^ k + x) div 2 ^ h * 2 ^ h = a * 256 ^ k + x div 2 ^ h * 2 ^ h"
proof -
  have "(256 :: nat) ^ k = 2 ^ (8 * k)" by (simp add: power_mult)
  then have p: "(256 :: nat) ^ k = 2 ^ (8 * k - h) * 2 ^ h" using assms(2) by (simp flip: power_add)
  have "a * 256 ^ k + x = x + (a * 2 ^ (8 * k - h)) * 2 ^ h" by (simp add: p)
  then have "(a * 256 ^ k + x) div 2 ^ h = a * 2 ^ (8 * k - h) + x div 2 ^ h"
    by (simp only: div_mult_self1) simp
  then show ?thesis by (simp add: p algebra_simps)
qed

text \<open>Masking clears the bits below the prefix.\<close>

lemma mask_nat:
  assumes "length ip = l" "n \<le> 8 * l"
  shows "bytes_nat (map2 (AND) ip (cidr_bytes l n)) = bytes_nat ip div 2 ^ (8 * l - n) * 2 ^ (8 * l - n)"
  using assms
proof (induction l n arbitrary: ip rule: cidr_bytes.induct)
  case (2 l n)
  then obtain b bs where ip: "ip = b # bs" "length bs = l" by (cases ip) auto
  have less: "bytes_nat bs < 256 ^ l" using bytes_nat_less [of bs] ip by simp
  have ff: "(0xff :: 8 word) = mask 8" by (simp add: mask_numeral)
  have bb: "b AND 0xff = b" unfolding ff by (rule bit_word_eqI) (simp add: bit_simps)
  show ?case
  proof (cases "8 \<le> n")
    case True
    with 2 ip have "bytes_nat (map2 (AND) bs (cidr_bytes l (n - 8))) = bytes_nat bs div 2 ^ (8 * l - (n - 8)) * 2 ^ (8 * l - (n - 8))"
      by simp
    moreover have "8 * Suc l - n = 8 * l - (n - 8)" using True by simp
    ultimately show ?thesis
      using True ip less div_split_top [of "bytes_nat bs" l "8 * l - (n - 8)" "unat b"] by (simp add: bytes_nat_Cons bb)
  next
    case False
    with 2 ip have "bytes_nat (map2 (AND) bs (cidr_bytes l 0)) = 0"
      using less by (simp add: power_mult)
    moreover have pw: "(2 :: nat) ^ (8 * Suc l - n) = 256 ^ l * 2 ^ (8 - n)"
    proof -
      have "8 * Suc l - n = 8 * l + (8 - n)" using False by simp
      then show ?thesis by (simp add: power_add power_mult)
    qed
    moreover have "(unat b * 256 ^ l + bytes_nat bs) div (256 ^ l * 2 ^ (8 - n)) = unat b div 2 ^ (8 - n)"
      using less by (simp add: div_mult2_eq)
    ultimately show ?thesis
      using False ip(2) unat_byte_mask [of n b] unfolding pw ip(1) by (simp add: bytes_nat_Cons)
  qed
qed simp

text \<open>The length of a prefix mask is the length of the prefix, and longer prefixes have larger masks.\<close>

lemma cidr_bytes_0: "cidr_bytes l 0 = replicate l 0"
proof -
  have "NOT (0xff :: 8 word) = 0" by simp
  then show ?thesis by (induction l) simp_all
qed

lemma first_byte:
  assumes "n < 8"
  shows "NOT (drop_bit n 0xff) \<noteq> (0xff :: 8 word)" "leadOnes 8 (NOT (drop_bit n 0xff)) = (n, 0)"
proof -
  have "n \<in> {0, 1, 2, 3, 4, 5, 6, 7}" using assms by auto
  then show "NOT (drop_bit n 0xff) \<noteq> (0xff :: 8 word)" "leadOnes 8 (NOT (drop_bit n 0xff)) = (n, 0)"
    by (elim insertE; simp; code_simp)+
qed

lemma simpleMaskLength_cidr: "n \<le> 8 * l \<Longrightarrow> simpleMaskLength (cidr_bytes l n) = Some n"
proof (induction l n rule: cidr_bytes.induct)
  case (2 l n)
  then show ?case
    by (cases "8 \<le> n") (simp_all add: first_byte cidr_bytes_0 list_all_iff)
qed simp


lemma cidr_bytes_drop: "8 * j \<le> n \<Longrightarrow> drop j (cidr_bytes (j + l) n) = cidr_bytes l (n - 8 * j)"
proof (induction j arbitrary: n)
  case (Suc j)
  then have "8 \<le> n" "8 * j \<le> n - 8" by auto
  with Suc.IH [of "n - 8"] show ?case by simp
qed simp

lemma mask_nat_id:
  assumes "length ip = l" "n \<le> 8 * l" "bytes_nat ip mod 2 ^ (8 * l - n) = 0"
  shows "map2 (AND) ip (cidr_bytes l n) = ip"
proof -
  have "bytes_nat (map2 (AND) ip (cidr_bytes l n)) = bytes_nat ip"
    using mask_nat [OF assms(1,2)] assms(3) by (metis add.right_neutral div_mult_mod_eq)
  then show ?thesis using assms(1) by (simp add: bytes_nat_inject)
qed

lemma mask_eq_iff:
  assumes "length a = l" "length b = l" "n \<le> 8 * l"
  shows "map2 (AND) a (cidr_bytes l n) = map2 (AND) b (cidr_bytes l n) \<longleftrightarrow>
    bytes_nat a div 2 ^ (8 * l - n) = bytes_nat b div 2 ^ (8 * l - n)"
proof -
  have "map2 (AND) a (cidr_bytes l n) = map2 (AND) b (cidr_bytes l n) \<longleftrightarrow>
      bytes_nat (map2 (AND) a (cidr_bytes l n)) = bytes_nat (map2 (AND) b (cidr_bytes l n))"
    using assms by (simp add: bytes_nat_inject)
  then show ?thesis using mask_nat [OF assms(1,3)] mask_nat [OF assms(2,3)] by simp
qed


section \<open>Networks that are parsed\<close>

text \<open>What \<^verbatim>\<open>ParseCIDR\<close> returns: \<open>k\<close> bytes, a prefix of \<open>q\<close> bits, and no bit set below the prefix.\<close>

definition parsed_net :: "ipnet \<Rightarrow> nat \<Rightarrow> nat \<Rightarrow> bool" where
  "parsed_net n k q \<longleftrightarrow> (k = 4 \<or> k = 16) \<and> q \<le> 8 * k \<and> length (n_IP n) = k \<and> n_Mask n = cidr_bytes k q \<and>
     bytes_nat (n_IP n) mod 2 ^ (8 * k - q) = 0"

definition norm_ip :: "ip \<Rightarrow> ip" where
  "norm_ip ip = (case To4 ip of Some x \<Rightarrow> x | None \<Rightarrow> ip)"

definition To16 :: "ip \<Rightarrow> ip" where
  "To16 ip = (if length ip = 4 then v4InV6Prefix @ ip else ip)"

lemma length_v4InV6Prefix [simp]: "length v4InV6Prefix = 12"
  by (simp add: v4InV6Prefix_def)

lemma bytes_nat_prefix: "bytes_nat v4InV6Prefix = 0xffff"
proof -
  have "bytes_nat (replicate 10 0) = 0" by (simp add: bytes_nat_def)
  then show ?thesis by (simp add: v4InV6Prefix_def bytes_nat_append bytes_nat_Cons)
qed

lemma bytes_nat_div:
  assumes "length a = k" "j \<le> k"
  shows "bytes_nat a div 256 ^ j = bytes_nat (take (k - j) a)"
proof -
  have len: "length (drop (k - j) a) = j" using assms by simp
  have "bytes_nat a = bytes_nat (take (k - j) a) * 256 ^ j + bytes_nat (drop (k - j) a)"
    using bytes_nat_append [of "take (k - j) a" "drop (k - j) a"] unfolding len by simp
  moreover have "bytes_nat (drop (k - j) a) div 256 ^ j = 0"
    using bytes_nat_less [of "drop (k - j) a"] unfolding len by (rule div_less)
  ultimately show ?thesis by (simp only: div_mult_self3 power_eq_0_iff) simp
qed

lemma To4_iff:
  assumes "length ip = 16"
  shows "To4 ip \<noteq> None \<longleftrightarrow> Is4In6 (bytes_nat ip)"
proof -
  have "bytes_nat ip div 2 ^ 32 = bytes_nat (take 12 ip)" using bytes_nat_div [OF assms, of 4] by simp
  then have "Is4In6 (bytes_nat ip) \<longleftrightarrow> bytes_nat (take 12 ip) = bytes_nat v4InV6Prefix"
    by (simp add: Is4In6_def bytes_nat_prefix)
  also have "\<dots> \<longleftrightarrow> take 12 ip = v4InV6Prefix" using assms by (intro bytes_nat_inject) simp
  finally show ?thesis using assms by (simp add: To4_def)
qed

lemma norm_ip_simps [simp]: "length ip = 4 \<Longrightarrow> norm_ip ip = ip" "length ip = 4 \<Longrightarrow> norm_ip (v4InV6Prefix @ ip) = ip"
  by (simp_all add: norm_ip_def To4_def)

lemma mapped_prefix:
  assumes "parsed_net n 16 q" "To4 (n_IP n) \<noteq> None"
  shows "96 \<le> q"
proof (rule ccontr)
  assume q: "\<not> 96 \<le> q"
  have "Is4In6 (bytes_nat (n_IP n))" using To4_iff assms by (simp add: parsed_net_def)
  then have v: "bytes_nat (n_IP n) div 2 ^ 32 = 0xffff" by (simp add: Is4In6_def)
  have "2 ^ (128 - q) dvd bytes_nat (n_IP n)" using assms(1) by (simp add: parsed_net_def mod_eq_0_iff_dvd)
  moreover have "(2 :: nat) ^ 33 dvd 2 ^ (128 - q)" using q by (intro le_imp_power_dvd) simp
  ultimately have "2 ^ 33 dvd bytes_nat (n_IP n)" by (rule dvd_trans [rotated])
  then obtain m where "bytes_nat (n_IP n) = 2 ^ 33 * m" by (rule dvdE)
  with v show False by simp presburger
qed


lemma network_number:
  assumes "parsed_net n k q"
  shows "networkNumberAndMask n = (norm_ip (n_IP n), cidr_bytes (length (norm_ip (n_IP n))) (q - (8 * k - 8 * length (norm_ip (n_IP n)))))"
    and "8 * length (norm_ip (n_IP n)) - (q - (8 * k - 8 * length (norm_ip (n_IP n)))) = 8 * k - q"
    and "q - (8 * k - 8 * length (norm_ip (n_IP n))) \<le> 8 * length (norm_ip (n_IP n))"
    and "length (norm_ip (n_IP n)) = 4 \<or> length (norm_ip (n_IP n)) = 16"
proof -
  from assms have p: "k = 4 \<or> k = 16" "q \<le> 8 * k" "length (n_IP n) = k" "n_Mask n = cidr_bytes k q"
    by (simp_all add: parsed_net_def)
  consider "k = 4" | "k = 16" "To4 (n_IP n) = None" | "k = 16" "To4 (n_IP n) = Some (drop 12 (n_IP n))" "96 \<le> q"
    using p(1,3) mapped_prefix [of n q] assms by (cases "take 12 (n_IP n) = v4InV6Prefix") (auto simp: To4_def)
  then have "networkNumberAndMask n = (norm_ip (n_IP n), cidr_bytes (length (norm_ip (n_IP n))) (q - (8 * k - 8 * length (norm_ip (n_IP n)))))
    \<and> 8 * length (norm_ip (n_IP n)) - (q - (8 * k - 8 * length (norm_ip (n_IP n)))) = 8 * k - q
    \<and> q - (8 * k - 8 * length (norm_ip (n_IP n))) \<le> 8 * length (norm_ip (n_IP n))
    \<and> (length (norm_ip (n_IP n)) = 4 \<or> length (norm_ip (n_IP n)) = 16)"
  proof cases
    case 1
    with p show ?thesis by (simp add: networkNumberAndMask_def To4_def norm_ip_def)
  next
    case 2
    with p show ?thesis by (simp add: networkNumberAndMask_def norm_ip_def)
  next
    case 3
    with p cidr_bytes_drop [of 12 q 4] show ?thesis by (simp add: networkNumberAndMask_def norm_ip_def)
  qed
  then show "networkNumberAndMask n = (norm_ip (n_IP n), cidr_bytes (length (norm_ip (n_IP n))) (q - (8 * k - 8 * length (norm_ip (n_IP n)))))"
    "8 * length (norm_ip (n_IP n)) - (q - (8 * k - 8 * length (norm_ip (n_IP n)))) = 8 * k - q"
    "q - (8 * k - 8 * length (norm_ip (n_IP n))) \<le> 8 * length (norm_ip (n_IP n))"
    "length (norm_ip (n_IP n)) = 4 \<or> length (norm_ip (n_IP n)) = 16" by blast+
qed

text \<open>A network contains the addresses of its family that agree with it above the host bits.\<close>

lemma Contains_iff:
  assumes "parsed_net n k q"
  shows "IPNet_Contains n ip \<longleftrightarrow> length (norm_ip ip) = length (norm_ip (n_IP n)) \<and>
    bytes_nat (norm_ip ip) div 2 ^ (8 * k - q) = bytes_nat (norm_ip (n_IP n)) div 2 ^ (8 * k - q)"
proof -
  let ?nn = "norm_ip (n_IP n)"
  let ?p = "q - (8 * k - 8 * length ?nn)"
  note m = mask_eq_iff [of ?nn "length ?nn" "norm_ip ip" ?p, OF refl _ network_number(3) [OF assms], unfolded network_number(2) [OF assms]]
  show ?thesis
    using m by (auto simp: IPNet_Contains_def Let_def network_number(1) [OF assms] norm_ip_def [of ip, symmetric])
qed

lemma parsed_host_bits: "parsed_net n k q \<Longrightarrow> bytes_nat (norm_ip (n_IP n)) mod 2 ^ (8 * k - q) = 0"
proof -
  assume a: "parsed_net n k q"
  then have p: "k = 4 \<or> k = 16" "length (n_IP n) = k" "bytes_nat (n_IP n) mod 2 ^ (8 * k - q) = 0"
    by (simp_all add: parsed_net_def)
  show ?thesis
  proof (cases "k = 16 \<and> To4 (n_IP n) \<noteq> None")
    case True
    then have q: "96 \<le> q" using mapped_prefix a by blast
    then have d: "(2 :: nat) ^ (8 * k - q) dvd 2 ^ 32" using True by (intro le_imp_power_dvd) auto
    have n: "norm_ip (n_IP n) = drop 12 (n_IP n)" using True p(2) by (auto simp: norm_ip_def To4_def split: if_splits)
    have "bytes_nat (n_IP n) = bytes_nat (take 12 (n_IP n)) * 2 ^ 32 + bytes_nat (drop 12 (n_IP n))"
      using bytes_nat_append [of "take 12 (n_IP n)" "drop 12 (n_IP n)"] p(2) True by simp
    with p(3) d n show ?thesis
      by (metis dvd_add_right_iff dvd_mult mod_eq_0_iff_dvd)
  next
    case False
    then have "norm_ip (n_IP n) = n_IP n" using p by (auto simp: norm_ip_def To4_def)
    with p(3) show ?thesis by simp
  qed
qed

lemma IP_Mask_parsed:
  assumes "q \<le> BitLen a" "netip_valid a"
  defines "m \<equiv> CIDRMask q (BitLen a)"
  shows "parsed_net \<lparr>n_IP = IP_Mask (As16 a) m, n_Mask = m\<rparr> (BitLen a div 8) q"
    and "n_IP \<lparr>n_IP = IP_Mask (As16 a) m, n_Mask = m\<rparr> =
      (case a of Addr4 v \<Rightarrow> map2 (AND) (nat_bytes 4 v) m | Addr6 v z \<Rightarrow> map2 (AND) (nat_bytes 16 v) m)"
proof -
  have m: "m = cidr_bytes (BitLen a div 8) q" using assms(1) by (cases a) (simp_all add: m_def CIDRMask_def)
  have i: "IP_Mask (As16 a) m = (case a of Addr4 v \<Rightarrow> map2 (AND) (nat_bytes 4 v) m | Addr6 v z \<Rightarrow> map2 (AND) (nat_bytes 16 v) m)"
    by (cases a) (simp_all add: IP_Mask_def m Let_def)
  then show "n_IP \<lparr>n_IP = IP_Mask (As16 a) m, n_Mask = m\<rparr> =
      (case a of Addr4 v \<Rightarrow> map2 (AND) (nat_bytes 4 v) m | Addr6 v z \<Rightarrow> map2 (AND) (nat_bytes 16 v) m)" by simp
  show "parsed_net \<lparr>n_IP = IP_Mask (As16 a) m, n_Mask = m\<rparr> (BitLen a div 8) q"
    using assms(1) unfolding i by (cases a) (simp_all add: parsed_net_def m mask_nat)
qed


lemma parsed_bytes: "parseIPv4Fields d v l fs s = Some bs \<Longrightarrow> v < 256 \<Longrightarrow> \<forall>b\<in>set fs. b < 256 \<Longrightarrow> length fs \<le> 3 \<Longrightarrow>
    length bs = 4 \<and> (\<forall>b\<in>set bs. b < 256)"
  by (induction d v l fs s rule: parseIPv4Fields.induct) (auto split: if_splits)

lemma hex_val_less: "is_hex c \<Longrightarrow> hex_val c < 16"
  by (auto simp: is_hex_def hex_val_def is_digit_def digit_val_def)

lemma hex_field_less:
  assumes "length (takeWhile is_hex s) \<le> 4"
  shows "undigits 16 (map hex_val (takeWhile is_hex s)) < 65536"
proof -
  have "undigits 16 (map hex_val (takeWhile is_hex s)) < 16 ^ length (map hex_val (takeWhile is_hex s))"
    by (intro undigits_less) (auto dest: set_takeWhileD intro: hex_val_less)
  also have "\<dots> \<le> 16 ^ 4" using assms by (intro power_increasing) auto
  finally show ?thesis by simp
qed

lemma parsed_fields:
  "parseIPv6Loop n e ip s = Some (bs, e', r) \<Longrightarrow> \<forall>b\<in>set ip. b < 256 \<Longrightarrow> length ip + 2 * n \<le> 16 \<Longrightarrow>
    length bs \<le> 16 \<and> (\<forall>b\<in>set bs. b < 256)"
proof (induction n arbitrary: e ip s)
  case (Suc n)
  let ?f = "takeWhile is_hex s" and ?v = "undigits 16 (map hex_val (takeWhile is_hex s))"
  let ?ip = "ip @ [?v div 256, ?v mod 256]"
  have f: "length ?f \<le> 4" "?f \<noteq> []" using Suc.prems(1) by (auto simp: Let_def split: if_splits)
  have v: "?v div 256 < 256" "?v mod 256 < 256" using hex_field_less [OF f(1)] by auto
  consider fs where "parseIPv4Fields True 0 0 [] s = Some fs" "bs = ip @ fs" "length ip + 4 \<le> 16"
    | "bs = ?ip" | e2 s2 where "parseIPv6Loop n e2 ?ip s2 = Some (bs, e', r)"
    using Suc.prems(1) by (simp only: parseIPv6Loop.simps Let_def split: if_splits option.splits) auto
  then show ?case
  proof cases
    case 1
    with parsed_bytes [of True 0 0 "[]" s fs] Suc.prems(2) show ?thesis by auto
  next
    case 2
    with v Suc.prems show ?thesis by auto
  next
    case 3
    with Suc.IH [OF 3] v Suc.prems show ?thesis by auto
  qed
qed simp

lemma ParseAddr_valid: "ParseAddr s = Some a \<Longrightarrow> netip_valid a"
proof -
  assume p: "ParseAddr s = Some a"
  have four: "netip_valid x" if "parseIPv4 s = Some x" for x
  proof -
    from that obtain fs where "parseIPv4Fields True 0 0 [] s = Some fs" "x = Addr4 (undigits 256 fs)"
      by (auto simp: parseIPv4_def)
    with parsed_bytes [of True 0 0 "[]" s fs] undigits_less [of fs 256] show ?thesis by simp
  qed
  have ell: "length ip = 16 \<and> (\<forall>b\<in>set ip. b < 256)"
    if "expandEllipsis (bs, e, r) = Some ip" "length bs \<le> 16" "\<forall>b\<in>set bs. b < 256" for bs e r ip
    using that by (auto simp: expandEllipsis_def split: if_splits option.splits dest!: in_set_takeD in_set_dropD)
  have six: "netip_valid x" if x: "parseIPv6 s = Some x" for x
  proof -
    from x consider z where "x = Addr6 0 z"
      | e t bs e' r ip z where "parseIPv6Loop 8 e [] t = Some (bs, e', r)" "expandEllipsis (bs, e', r) = Some ip"
          "x = Addr6 (undigits 256 ip) z"
      by (auto simp: parseIPv6_def Let_def split: if_splits option.splits)
    then show ?thesis
    proof cases
      case (2 e t bs e' r ip z)
      have "length ip = 16 \<and> (\<forall>b\<in>set ip. b < 256)"
        using ell [OF 2(2)] parsed_fields [OF 2(1)] by simp
      with undigits_less [of ip 256] 2(3) show ?thesis by simp
    qed simp
  qed
  show ?thesis using p four six by (auto simp: ParseAddr_def split: option.splits if_splits)
qed


lemma read_nat_nonneg: "read_nat s = Some n \<Longrightarrow> 0 \<le> n"
proof -
  have "0 \<le> foldl (\<lambda>a c. a * 10 + int (digit_val c)) a s" if "0 \<le> a" for a
    using that by (induction s arbitrary: a) auto
  then show "read_nat s = Some n \<Longrightarrow> 0 \<le> n" by (auto simp: read_nat_def dec_val_def split: if_splits)
qed

lemma ParseCIDR_parsed:
  assumes "ParseCIDR s = Some (ip, n)"
  shows "\<exists>k q. parsed_net n k q"
proof -
  from assms obtain a q where a: "ParseAddr (takeWhile (\<lambda>c. c \<noteq> CHR ''/'') s) = Some a" "int (BitLen a) \<ge> q" "0 \<le> q"
    "n = \<lparr>n_IP = IP_Mask (As16 a) (CIDRMask (nat q) (BitLen a)), n_Mask = CIDRMask (nat q) (BitLen a)\<rparr>"
    by (auto simp: ParseCIDR_def Let_def not_less read_nat_nonneg split: if_splits option.splits)
  then have "nat q \<le> BitLen a" by simp
  from IP_Mask_parsed(1) [OF this ParseAddr_valid [OF a(1)]] a(4) show ?thesis by blast
qed

definition addr_of_ip :: "ip \<Rightarrow> netip_addr" where
  "addr_of_ip ip = (case To4 ip of Some x \<Rightarrow> Addr4 (bytes_nat x) | None \<Rightarrow> Addr6 (bytes_nat ip) [])"

lemma To4_length: "To4 ip = Some x \<Longrightarrow> length x = 4"
  by (auto simp: To4_def split: if_splits)

lemma addr_of_ip_valid:
  assumes "length ip = 4 \<or> length ip = 16"
  shows "ParseAddr (IP_String ip) = Some (addr_of_ip ip)" "netip_valid (addr_of_ip ip)" "Zone (addr_of_ip ip) = []"
    "As16 (addr_of_ip ip) = To16 ip" "IP_String ip = netip_String (addr_of_ip ip)"
    "BitLen (addr_of_ip ip) = 8 * length (norm_ip ip)"
proof -
  have ne: "ip \<noteq> []" using assms by auto
  have "ParseAddr (IP_String ip) = Some (addr_of_ip ip) \<and> netip_valid (addr_of_ip ip) \<and> Zone (addr_of_ip ip) = [] \<and>
    As16 (addr_of_ip ip) = To16 ip \<and> IP_String ip = netip_String (addr_of_ip ip) \<and>
    BitLen (addr_of_ip ip) = 8 * length (norm_ip ip)"
  proof (cases "To4 ip")
    case None
    then have l: "length ip = 16" using assms by (auto simp: To4_def)
    then have b: "bytes_nat ip < 2 ^ 128" "\<not> Is4In6 (bytes_nat ip)"
      using bytes_nat_less [of ip] To4_iff [OF l] None by auto
    with None l ne ParseAddr_String(2) [OF b] nat_bytes_bytes_nat [OF l] show ?thesis
      by (simp add: IP_String_def addr_of_ip_def To16_def norm_ip_def del: netip_String.simps)
  next
    case (Some x)
    then have l: "length x = 4" by (rule To4_length)
    then have b: "bytes_nat x < 2 ^ 32" using bytes_nat_less [of x] by simp
    have "To16 ip = v4InV6Prefix @ x" using Some by (auto simp: To4_def To16_def split: if_splits) (metis append_take_drop_id)
    with Some l b ne assms ParseAddr_String(1) [OF b] nat_bytes_bytes_nat [OF l] show ?thesis
      by (auto simp: IP_String_def addr_of_ip_def norm_ip_def simp del: netip_String.simps)
  qed
  then show "ParseAddr (IP_String ip) = Some (addr_of_ip ip)" "netip_valid (addr_of_ip ip)" "Zone (addr_of_ip ip) = []"
    "As16 (addr_of_ip ip) = To16 ip" "IP_String ip = netip_String (addr_of_ip ip)"
    "BitLen (addr_of_ip ip) = 8 * length (norm_ip ip)" by blast+
qed

lemma ParseIP_IP_String: "length ip = 4 \<or> length ip = 16 \<Longrightarrow> ParseIP (IP_String ip) = Some (To16 ip)"
  by (simp add: ParseIP_def addr_of_ip_valid(1,3,4))

lemma string4_chars: "c \<in> set (string4 bs) \<Longrightarrow> is_digit c \<or> c = CHR ''.''"
  unfolding string4_def by (induction bs) (use fmt_d_chars in \<open>auto simp: join_with_Cons split: if_splits\<close>)

lemma IP_String_chars:
  assumes "length ip = 4 \<or> length ip = 16" "c \<in> set (IP_String ip)"
  shows "c \<noteq> CHR ''/'' \<and> c \<noteq> CHR '',''"
proof -
  have "is_hex c \<or> c = CHR ''.'' \<or> c = CHR '':''"
  proof (cases "addr_of_ip ip")
    case (Addr4 v)
    then show ?thesis
      using assms(2) string4_chars is_digit_hex by (auto simp: addr_of_ip_valid(5) [OF assms(1)])
  next
    case (Addr6 v z)
    then have "To4 ip = None" "v = bytes_nat ip" "z = []" by (auto simp: addr_of_ip_def split: option.splits)
    then have "\<not> Is4In6 v" using assms(1) To4_iff [of ip] by (auto simp: To4_def)
    moreover have "\<forall>g\<in>set (digits 65536 8 v). g < 65536" by (auto dest: digits_less [rotated])
    ultimately show ?thesis
      using assms(2) appendTo6_chars(1) [of "digits 65536 8 v"] Addr6 \<open>z = []\<close>
      by (auto simp: addr_of_ip_valid(5) [OF assms(1)])
  qed
  then show ?thesis using is_hex_not by auto
qed

lemma ParseCIDR_text:
  assumes "length ip = 4 \<or> length ip = 16" "q \<le> 8 * length (norm_ip ip)"
  defines "m \<equiv> cidr_bytes (length (norm_ip ip)) q"
  shows "ParseCIDR (IP_String ip @ ''/'' @ fmt_d (int q)) = Some (To16 ip, \<lparr>n_IP = map2 (AND) (norm_ip ip) m, n_Mask = m\<rparr>)"
proof -
  note a = addr_of_ip_valid [OF assms(1)]
  have t: "takeWhile (\<lambda>c. c \<noteq> CHR ''/'') (IP_String ip @ ''/'' @ fmt_d (int q)) = IP_String ip"
    "dropWhile (\<lambda>c. c \<noteq> CHR ''/'') (IP_String ip @ ''/'' @ fmt_d (int q)) = ''/'' @ fmt_d (int q)"
    using IP_String_chars [OF assms(1)] by (simp_all add: takeWhile_append dropWhile_append)
  have n: "length (norm_ip ip) = 4 \<or> length (norm_ip ip) = 16" using assms(1) To4_length
    by (auto simp: norm_ip_def split: option.splits)
  then have m: "CIDRMask q (BitLen (addr_of_ip ip)) = m" using assms(2) by (auto simp: CIDRMask_def a(6) m_def)
  have lm: "length m = length (norm_ip ip)" by (simp add: m_def)
  have i: "IP_Mask (To16 ip) m = map2 (AND) (norm_ip ip) m"
  proof (cases "To4 ip")
    case None
    then have "length ip = 16" "norm_ip ip = ip" using assms(1) by (auto simp: norm_ip_def To4_def)
    with lm show ?thesis by (simp add: IP_Mask_def To16_def)
  next
    case (Some x)
    then have "norm_ip ip = x" "length x = 4" using To4_length by (auto simp: norm_ip_def)
    moreover have "To16 ip = v4InV6Prefix @ x"
      using Some by (auto simp: To4_def To16_def split: if_splits) (metis append_take_drop_id)
    ultimately show ?thesis using lm by (simp add: IP_Mask_def)
  qed
  have "read_nat (fmt_d (int q)) = Some (int q)" by (simp add: fmt_d_def)
  moreover have "\<not> (0xFFFFFF \<le> int q \<or> int (BitLen (addr_of_ip ip)) < int q)" using n assms(2) by (auto simp: a(6))
  ultimately show ?thesis
    unfolding ParseCIDR_def t Let_def by (simp add: a(1,3,4) m i)
qed

lemma IPNet_String_parsed:
  assumes "parsed_net n k q" "k = 16 \<Longrightarrow> To4 (n_IP n) = None"
  shows "norm_ip (n_IP n) = n_IP n" "IPNet_String n = IP_String (n_IP n) @ ''/'' @ fmt_d (int q)"
proof -
  from assms(1) have p: "k = 4 \<or> k = 16" "q \<le> 8 * k" "length (n_IP n) = k" by (simp_all add: parsed_net_def)
  show n: "norm_ip (n_IP n) = n_IP n" using assms(2) p by (auto simp: norm_ip_def To4_def)
  have nn: "networkNumberAndMask n = (n_IP n, cidr_bytes k q)"
    using network_number(1) [OF assms(1)] p(3) unfolding n by simp
  have "n_IP n \<noteq> []" "cidr_bytes k q \<noteq> []" using p(1,3) length_cidr_bytes [of k q] by (auto simp del: length_cidr_bytes)
  then show "IPNet_String n = IP_String (n_IP n) @ ''/'' @ fmt_d (int q)"
    by (simp add: IPNet_String_def nn simpleMaskLength_cidr [OF p(2)])
qed

lemma IPNet_String_chars:
  assumes "parsed_net n k q" "k = 16 \<Longrightarrow> To4 (n_IP n) = None"
  shows "CHR '','' \<notin> set (IPNet_String n)"
  using IPNet_String_parsed(2) [OF assms] assms(1) IP_String_chars [of "n_IP n"] fmt_d_chars
  by (fastforce simp: parsed_net_def)

lemma ParseCIDR_String:
  assumes "parsed_net n k q" "k = 16 \<Longrightarrow> To4 (n_IP n) = None"
  shows "ParseCIDR (IPNet_String n) = Some (To16 (n_IP n), n)"
proof -
  from assms(1) have p: "k = 4 \<or> k = 16" "q \<le> 8 * k" "length (n_IP n) = k" "n_Mask n = cidr_bytes k q"
    "bytes_nat (n_IP n) mod 2 ^ (8 * k - q) = 0" by (simp_all add: parsed_net_def)
  have "\<lparr>n_IP = map2 (AND) (n_IP n) (cidr_bytes k q), n_Mask = cidr_bytes k q\<rparr> = n"
    using mask_nat_id [OF p(3,2,5)] p(4) by (cases n) simp
  then show ?thesis using ParseCIDR_text [of "n_IP n" q] p by (simp add: IPNet_String_parsed [OF assms])
qed

end
