(* ===== verification/Net_Range.thy ===== *)
theory Net_Range
  imports Net_IP Op_Types
begin

text \<open>
  \<^verbatim>\<open>internal/utils/ip.go\<close> of the controller: the range of a network, its usable addresses, containment of
  networks and of addresses in a list of networks.

  A \<^verbatim>\<open>big.Int\<close> is a natural number; \<^verbatim>\<open>nil\<close> of \<^verbatim>\<open>ipToInt\<close> is \<open>None\<close> and a \<^verbatim>\<open>nil\<close> address of
  \<^verbatim>\<open>AddressRange\<close> the empty list. The zero \<^verbatim>\<open>netip.Addr\<close> prints as \<^verbatim>\<open>invalid IP\<close>.
\<close>

section \<open>Definitions\<close>

definition LoadBalancerVIPCIDR :: string where
  "LoadBalancerVIPCIDR = ''198.18.0.0/16''"

fun bytes_Compare :: "ip \<Rightarrow> ip \<Rightarrow> int" where
  "bytes_Compare [] [] = 0"
| "bytes_Compare [] (b # bs) = -1"
| "bytes_Compare (a # as) [] = 1"
| "bytes_Compare (a # as) (b # bs) = (if a < b then -1 else if b < a then 1 else bytes_Compare as bs)"

fun strings_Split :: "char \<Rightarrow> string \<Rightarrow> string list" where
  "strings_Split sep [] = [[]]"
| "strings_Split sep (c # cs) =
     (if c = sep then [] # strings_Split sep cs
      else case strings_Split sep cs of [] \<Rightarrow> [[c]] | p # ps \<Rightarrow> (c # p) # ps)"

definition ipToInt :: "ip \<Rightarrow> (nat \<times> nat) option" where
  "ipToInt ip = (if length ip = 4 then Some (bytes_nat ip, 32)
     else if length ip = 16 then Some (bytes_nat ip, 128) else None)"

text \<open>\<^verbatim>\<open>big.Int.Bytes\<close> has no leading zeros. More bytes than fit are an index out of range, \<open>None\<close>.\<close>

fun big_Bytes :: "nat \<Rightarrow> ip" where
  "big_Bytes v = (if v = 0 then [] else big_Bytes (v div 256) @ [of_nat (v mod 256)])"

declare big_Bytes.simps [simp del]

definition intToIP :: "nat \<Rightarrow> nat \<Rightarrow> ip option" where
  "intToIP ipInt bits =
     (let ipBytes = big_Bytes ipInt
      in if bits div 8 < length ipBytes then None else Some (replicate (bits div 8 - length ipBytes) 0 @ ipBytes))"

definition AddressRange :: "ipnet \<Rightarrow> (ip \<times> ip) option" where
  "AddressRange network =
     (let firstIP = n_IP network; (prefixLen, bits) = Mask_Size (n_Mask network)
      in if prefixLen = bits then Some (firstIP, firstIP)
         else case ipToInt firstIP of
                None \<Rightarrow> Some ([], [])
              | Some (firstIPInt, bits') \<Rightarrow>
                  let hostLen = nat ((int bits' - int prefixLen) mod 2 ^ 64)
                  in map_option (\<lambda>lastIP. (firstIP, lastIP)) (intToIP ((2 ^ hostLen - 1) OR firstIPInt) bits'))"

definition addr_String :: "netip_addr option \<Rightarrow> string" where
  "addr_String a = (case a of None \<Rightarrow> ''invalid IP'' | Some x \<Rightarrow> netip_String x)"

definition FirstAndLastAvailable :: "ipnet \<Rightarrow> ip option \<times> ip option" where
  "FirstAndLastAvailable network =
     (let (mask, maxMask) = Mask_Size (n_Mask network)
      in if int maxMask - 1 \<le> int mask then (None, None)
         else case AddressRange network of
                None \<Rightarrow> (None, None)
              | Some (first, lastIP) \<Rightarrow>
                  (case ParseAddr (IP_String first) of
                     None \<Rightarrow> (None, None)
                   | Some firstAddr \<Rightarrow>
                       (case ParseAddr (IP_String lastIP) of
                          None \<Rightarrow> (None, None)
                        | Some lastAddr \<Rightarrow>
                            (ParseIP (addr_String (Next firstAddr)), ParseIP (addr_String (Prev lastAddr))))))"

definition ContainsNet :: "ipnet \<Rightarrow> ipnet \<Rightarrow> bool" where
  "ContainsNet net1 net2 =
     (if length (n_IP net1) \<noteq> length (n_IP net2) then False
      else if \<not> IPNet_Contains net1 (n_IP net2) then False
      else bytes_Compare (n_Mask net1) (n_Mask net2) \<le> 0)"

fun ipInBlocks :: "string list \<Rightarrow> ip \<Rightarrow> go_error + bool" where
  "ipInBlocks [] ipAddr = Inr False"
| "ipInBlocks (c0 # cidrs) ipAddr =
     (let c = TrimSpace c0
      in if c = [] then ipInBlocks cidrs ipAddr
         else case ParseCIDR c of
                None \<Rightarrow> Inl (Errorf (''invalid CIDR address: '' @ c))
              | Some (_, ipnet) \<Rightarrow> if IPNet_Contains ipnet ipAddr then Inr True else ipInBlocks cidrs ipAddr)"

definition IsIPInCIDR :: "string \<Rightarrow> string \<Rightarrow> go_error + bool" where
  "IsIPInCIDR cidr ip =
     (case ParseIP ip of
        None \<Rightarrow> Inl (Errorf (''invalid IP address: '' @ ip))
      | Some ipAddr \<Rightarrow> ipInBlocks (strings_Split CHR '','' cidr) ipAddr)"


section \<open>The range of a network\<close>

lemma big_Bytes_length: "v < 256 ^ k \<Longrightarrow> length (big_Bytes v) \<le> k"
proof (induction k arbitrary: v)
  case 0
  then show ?case by (simp add: big_Bytes.simps)
next
  case (Suc k)
  then have "v div 256 < 256 ^ k" by (simp add: less_mult_imp_div_less mult.commute)
  then show ?case using Suc.IH [of "v div 256"] by (subst big_Bytes.simps) simp
qed

lemma bytes_nat_big_Bytes: "bytes_nat (big_Bytes v) = v"
proof (induction v rule: big_Bytes.induct)
  case (1 v)
  then show ?case
    by (subst big_Bytes.simps) (simp add: bytes_nat_append bytes_nat_Cons unat_of_nat div_mult_mod_eq)
qed

lemma intToIP_eq:
  assumes "v < 256 ^ k" "bits = 8 * k"
  shows "intToIP v bits = Some (nat_bytes k v)"
proof -
  let ?r = "replicate (k - length (big_Bytes v)) 0 @ big_Bytes v"
  have "length ?r = k" using big_Bytes_length [OF assms(1)] by simp
  moreover have "bytes_nat ?r = v" by (simp add: bytes_nat_append bytes_nat_big_Bytes) (simp add: bytes_nat_def)
  ultimately have "?r = nat_bytes k v" using nat_bytes_bytes_nat by metis
  then show ?thesis using big_Bytes_length [OF assms(1)] assms(2) by (simp add: intToIP_def)
qed

lemma or_host_bits:
  fixes v :: nat
  assumes "v mod 2 ^ h = 0"
  shows "(2 ^ h - 1) OR v = v + (2 ^ h - 1)"
proof -
  have "v = push_bit h (v div 2 ^ h)" using assms by (simp add: push_bit_eq_mult) (metis add.right_neutral div_mult_mod_eq)
  then have "\<not> bit (2 ^ h - 1 :: nat) i \<or> \<not> bit v i" for i
    by (metis bit_mask_iff bit_push_bit_iff mask_eq_exp_minus_1 not_le)
  then show ?thesis by (simp add: disjunctive_add add.commute [of v])
qed

lemma parsed_Size: "parsed_net n k q \<Longrightarrow> Mask_Size (n_Mask n) = (q, 8 * k)"
  by (simp add: parsed_net_def Mask_Size_def simpleMaskLength_cidr)

lemma AddressRange_eq:
  assumes "parsed_net n k q"
  shows "AddressRange n = Some (n_IP n, nat_bytes k (bytes_nat (n_IP n) + (2 ^ (8 * k - q) - 1)))"
    and "bytes_nat (n_IP n) + (2 ^ (8 * k - q) - 1) < 256 ^ k"
proof -
  from assms have p: "k = 4 \<or> k = 16" "q \<le> 8 * k" "length (n_IP n) = k" "bytes_nat (n_IP n) mod 2 ^ (8 * k - q) = 0"
    by (simp_all add: parsed_net_def)
  let ?h = "8 * k - q" and ?v = "bytes_nat (n_IP n)"
  have "(256 :: nat) ^ k = 2 ^ (8 * k)" by (simp add: power_mult)
  then have "(256 :: nat) ^ k = 2 ^ q * 2 ^ ?h" using p(2) by (simp flip: power_add)
  moreover obtain m where m: "?v = m * 2 ^ ?h" using p(4) by (metis dvdE mod_eq_0_iff_dvd mult.commute)
  moreover have "?v < 256 ^ k" using bytes_nat_less [of "n_IP n"] p(3) by simp
  ultimately have "Suc m \<le> 2 ^ q" by (simp add: Suc_leI)
  then have "Suc m * 2 ^ ?h \<le> 2 ^ q * 2 ^ ?h" by (rule mult_right_mono) simp
  then show less: "?v + (2 ^ ?h - 1) < 256 ^ k" using m \<open>256 ^ k = 2 ^ q * 2 ^ ?h\<close> by (simp add: algebra_simps less_diff_conv2 Suc_le_eq)
  show "AddressRange n = Some (n_IP n, nat_bytes k (?v + (2 ^ ?h - 1)))"
  proof (cases "q = 8 * k")
    case True
    then show ?thesis using p(3) nat_bytes_bytes_nat [OF p(3)] by (simp add: AddressRange_def Let_def parsed_Size [OF assms])
  next
    case False
    have i: "ipToInt (n_IP n) = Some (?v, 8 * k)" using p(1,3) by (auto simp: ipToInt_def)
    have "nat ((int (8 * k) - int q) mod 2 ^ 64) = ?h" using p(1,2) by auto
    moreover have "intToIP ((2 ^ ?h - 1) OR ?v) (8 * k) = Some (nat_bytes k (?v + (2 ^ ?h - 1)))"
      unfolding or_host_bits [OF p(4)] using less by (rule intToIP_eq) (rule refl)
    ultimately show ?thesis
      using False unfolding AddressRange_def Let_def parsed_Size [OF assms] i by simp
  qed
qed


lemma bytes_nat_To16: "bytes_nat (To16 ip) = (if length ip = 4 then 0xffff * 2 ^ 32 + bytes_nat ip else bytes_nat ip)"
  by (simp add: To16_def bytes_nat_append bytes_nat_prefix)

lemma To4_bytes:
  assumes "To4 ip = Some x"
  shows "length x = 4" "bytes_nat x < 2 ^ 32" "bytes_nat (To16 ip) = 0xffff * 2 ^ 32 + bytes_nat x" "length (To16 ip) = 16"
    "bytes_nat x mod 4 = bytes_nat ip mod 4"
proof -
  show l: "length x = 4" using assms by (rule To4_length)
  show "bytes_nat x < 2 ^ 32" using bytes_nat_less [of x] l by simp
  have t: "To16 ip = v4InV6Prefix @ x"
    using assms by (auto simp: To4_def To16_def split: if_splits) (metis append_take_drop_id)
  then show b: "bytes_nat (To16 ip) = 0xffff * 2 ^ 32 + bytes_nat x" using l by (simp add: bytes_nat_append bytes_nat_prefix)
  show "length (To16 ip) = 16" using t l by simp
  show "bytes_nat x mod 4 = bytes_nat ip mod 4"
    using b l assms by (auto simp: bytes_nat_To16 To4_def split: if_splits) presburger
qed

lemma last_bits_up:
  fixes v m :: nat
  assumes "v mod 4 = 0"
  shows "v < 4 * m \<Longrightarrow> v + 1 < 4 * m" "(v + 1) div (4 * m) = v div (4 * m)"
proof -
  obtain c where v: "v = 4 * c" using assms by (metis dvdE mod_eq_0_iff_dvd)
  have "(4 * c + 1) div 4 = c" by simp
  then show "(v + 1) div (4 * m) = v div (4 * m)" by (simp add: v div_mult2_eq)
  show "v < 4 * m \<Longrightarrow> v + 1 < 4 * m" by (simp add: v)
qed

lemma last_bits_down:
  fixes v m :: nat
  assumes "v mod 4 = 3"
  shows "0 < v" "(v - 1) div (4 * m) = v div (4 * m)"
proof -
  have v: "v = 4 * (v div 4) + 3" using assms by (metis mult_div_mod_eq)
  then obtain c where c: "v = 4 * c + 3" by blast
  have "(4 * c + 2) div 4 = c" "(4 * c + 3) div 4 = c" by simp_all
  then show "(v - 1) div (4 * m) = v div (4 * m)" by (simp add: c div_mult2_eq)
  show "0 < v" by (simp add: c)
qed

text \<open>The text of the next and the previous address, where the last two bits are 00 and 11.\<close>

lemma next_address:
  assumes "length ip = 4 \<or> length ip = 16" "bytes_nat ip mod 4 = 0"
  obtains f where "ParseIP (addr_String (Next (addr_of_ip ip))) = Some f" "length f = 16" "bytes_nat f = bytes_nat (To16 ip) + 1"
proof (cases "To4 ip")
  case None
  then have l: "length ip = 16" using assms(1) by (auto simp: To4_def)
  let ?v = "bytes_nat ip"
  have b: "?v < 2 ^ 128" "\<not> Is4In6 ?v" using bytes_nat_less [of ip] l To4_iff [OF l] None by auto
  have "?v + 1 < 2 ^ 128" using last_bits_up(1) [OF assms(2), of "2 ^ 126"] b(1) by simp
  moreover have "(?v + 1) div 2 ^ 32 = ?v div 2 ^ 32" using last_bits_up(2) [OF assms(2), of "2 ^ 30"] by simp
  then have "\<not> Is4In6 (?v + 1)" using b(2) unfolding Is4In6_def by metis
  ultimately have "ParseAddr (netip_String (Addr6 (?v + 1) [])) = Some (Addr6 (?v + 1) [])" by (rule ParseAddr_String(2))
  then have "ParseIP (addr_String (Next (addr_of_ip ip))) = Some (nat_bytes 16 (?v + 1))"
    using None \<open>?v + 1 < 2 ^ 128\<close> by (simp add: ParseIP_def addr_String_def addr_of_ip_def del: netip_String.simps)
  with that \<open>?v + 1 < 2 ^ 128\<close> l show thesis by (simp add: bytes_nat_nat_bytes bytes_nat_To16)
next
  case (Some x)
  note x = To4_bytes [OF Some]
  have less: "bytes_nat x + 1 < 2 ^ 32" using last_bits_up(1) [of "bytes_nat x" "2 ^ 30"] x(2,5) assms(2) by simp
  then have "ParseAddr (netip_String (Addr4 (bytes_nat x + 1))) = Some (Addr4 (bytes_nat x + 1))" by (rule ParseAddr_String(1))
  then have "ParseIP (addr_String (Next (addr_of_ip ip))) = Some (v4InV6Prefix @ nat_bytes 4 (bytes_nat x + 1))"
    using Some less by (simp add: ParseIP_def addr_String_def addr_of_ip_def del: netip_String.simps)
  with that less x(3) show thesis by (simp add: bytes_nat_append bytes_nat_prefix bytes_nat_nat_bytes)
qed

lemma previous_address:
  assumes "length ip = 4 \<or> length ip = 16" "bytes_nat ip mod 4 = 3"
  obtains f where "ParseIP (addr_String (Prev (addr_of_ip ip))) = Some f" "length f = 16" "bytes_nat f + 1 = bytes_nat (To16 ip)"
proof (cases "To4 ip")
  case None
  then have l: "length ip = 16" using assms(1) by (auto simp: To4_def)
  let ?v = "bytes_nat ip"
  have b: "?v < 2 ^ 128" "\<not> Is4In6 ?v" using bytes_nat_less [of ip] l To4_iff [OF l] None by auto
  have pos: "0 < ?v" using last_bits_down(1) [OF assms(2)] .
  have "(?v - 1) div 2 ^ 32 = ?v div 2 ^ 32" using last_bits_down(2) [OF assms(2), of "2 ^ 30"] by simp
  then have "\<not> Is4In6 (?v - 1)" using b(2) unfolding Is4In6_def by metis
  moreover have less: "?v - 1 < 2 ^ 128" using b(1) by linarith
  ultimately have "ParseAddr (netip_String (Addr6 (?v - 1) [])) = Some (Addr6 (?v - 1) [])" by (intro ParseAddr_String(2))
  then have "ParseIP (addr_String (Prev (addr_of_ip ip))) = Some (nat_bytes 16 (?v - 1))"
    using None pos by (simp add: ParseIP_def addr_String_def addr_of_ip_def del: netip_String.simps)
  with that less pos l show thesis by (simp add: bytes_nat_nat_bytes bytes_nat_To16)
next
  case (Some x)
  note x = To4_bytes [OF Some]
  have pos: "0 < bytes_nat x" using last_bits_down(1) [of "bytes_nat x"] x(5) assms(2) by simp
  have less: "bytes_nat x - 1 < 2 ^ 32" using x(2) by linarith
  then have "ParseAddr (netip_String (Addr4 (bytes_nat x - 1))) = Some (Addr4 (bytes_nat x - 1))" by (rule ParseAddr_String(1))
  then have "ParseIP (addr_String (Prev (addr_of_ip ip))) = Some (v4InV6Prefix @ nat_bytes 4 (bytes_nat x - 1))"
    using Some pos by (simp add: ParseIP_def addr_String_def addr_of_ip_def del: netip_String.simps)
  with that less pos x(3) show thesis by (simp add: bytes_nat_append bytes_nat_prefix bytes_nat_nat_bytes)
qed

text \<open>The usable addresses of a network with at least two host bits: all but the first and the last.\<close>

lemma FirstAndLastAvailable_eq:
  assumes "parsed_net n k q" "q + 2 \<le> 8 * k"
  obtains f l where "FirstAndLastAvailable n = (Some f, Some l)" "length f = 16" "length l = 16"
    "bytes_nat f = bytes_nat (To16 (n_IP n)) + 1"
    "bytes_nat l + 2 = bytes_nat (To16 (n_IP n)) + 2 ^ (8 * k - q)"
proof -
  from assms(1) have p: "k = 4 \<or> k = 16" "length (n_IP n) = k" "bytes_nat (n_IP n) mod 2 ^ (8 * k - q) = 0"
    by (simp_all add: parsed_net_def)
  let ?h = "8 * k - q" and ?v = "bytes_nat (n_IP n)"
  let ?L = "nat_bytes k (?v + (2 ^ ?h - 1))"
  have four: "(4 :: nat) dvd 2 ^ ?h" using assms(2) le_imp_power_dvd [of 2 ?h "2 :: nat"] by simp
  have v4: "?v mod 4 = 0" using p(3) four by (metis dvd_trans mod_eq_0_iff_dvd)
  have pos: "(4 :: nat) \<le> 2 ^ ?h" using four by (simp add: dvd_imp_le)
  note range = AddressRange_eq [OF assms(1)]
  have L: "length ?L = 4 \<or> length ?L = 16" "bytes_nat ?L = ?v + (2 ^ ?h - 1)"
    using p(1) range(2) by (auto simp: bytes_nat_nat_bytes)
  obtain m where "(2 :: nat) ^ ?h = 4 * m" using four by (rule dvdE)
  moreover obtain c where "?v = 4 * c" using v4 by (metis dvdE mod_eq_0_iff_dvd)
  ultimately have "bytes_nat ?L + 1 = 4 * (c + m)" using L(2) pos by simp
  then have L4: "bytes_nat ?L mod 4 = 3" by presburger
  obtain f where f: "ParseIP (addr_String (Next (addr_of_ip (n_IP n)))) = Some f" "length f = 16" "bytes_nat f = bytes_nat (To16 (n_IP n)) + 1"
    using next_address [of "n_IP n"] p(1,2) v4 by auto
  obtain l where l: "ParseIP (addr_String (Prev (addr_of_ip ?L))) = Some l" "length l = 16" "bytes_nat l + 1 = bytes_nat (To16 ?L)"
    using previous_address [OF L(1) L4] by auto
  have "FirstAndLastAvailable n = (Some f, Some l)"
    using p(1,2) assms(2) f(1) l(1) addr_of_ip_valid(1) [of "n_IP n"] addr_of_ip_valid(1) [OF L(1)]
    by (auto simp: FirstAndLastAvailable_def parsed_Size [OF assms(1)] range(1))
  moreover have "bytes_nat l + 2 = bytes_nat (To16 (n_IP n)) + 2 ^ ?h"
    using l(3) p(1,2) L(2) pos by (auto simp: bytes_nat_To16)
  ultimately show thesis using that f l by blast
qed


section \<open>Containment\<close>

lemma bytes_Compare_iff: "length a = length b \<Longrightarrow> bytes_Compare a b \<le> 0 \<longleftrightarrow> bytes_nat a \<le> bytes_nat b"
proof (induction a b rule: bytes_Compare.induct)
  case (4 a as b bs)
  have less: "bytes_nat as < 256 ^ length as" "bytes_nat bs < 256 ^ length as"
    using bytes_nat_less [of as] bytes_nat_less [of bs] 4 by simp_all
  consider "unat a < unat b" | "unat b < unat a" | "a = b" by (metis linorder_neqE_nat unsigned_word_eqI)
  then show ?case
  proof cases
    case 1
    then have "(unat a + 1) * 256 ^ length as \<le> unat b * 256 ^ length as" by (intro mult_right_mono) auto
    with 1 4 less show ?thesis by (simp add: bytes_nat_Cons word_less_nat_alt)
  next
    case 2
    then have "(unat b + 1) * 256 ^ length as \<le> unat a * 256 ^ length as" by (intro mult_right_mono) auto
    with 2 4 less show ?thesis by (simp add: bytes_nat_Cons word_less_nat_alt)
  next
    case 3
    with 4 show ?thesis by (simp add: bytes_nat_Cons)
  qed
qed simp_all

lemma mask_value:
  assumes "n \<le> 8 * l"
  shows "bytes_nat (cidr_bytes l n) + 2 ^ (8 * l - n) = 256 ^ l"
proof -
  let ?h = "8 * l - n"
  have "(256 :: nat) ^ l = 2 ^ (8 * l)" by (simp add: power_mult)
  then have e: "(256 :: nat) ^ l = 2 ^ n * 2 ^ ?h" using assms by (simp flip: power_add)
  have all: "map2 (AND) (replicate l (-1)) (cidr_bytes l n) = cidr_bytes l n"
    by (rule nth_equalityI) simp_all
  have ff: "bytes_nat (replicate l (-1)) + 1 = 256 ^ l"
    by (induction l) (simp_all add: bytes_nat_Cons unsigned_minus_1_eq_mask mask_eq_exp_minus_1)
  have "bytes_nat (replicate l (-1)) = (2 ^ n - 1) * 2 ^ ?h + (2 ^ ?h - 1)"
    using ff e by (simp add: algebra_simps)
  then have "bytes_nat (replicate l (-1)) div 2 ^ ?h = 2 ^ n - 1"
    by (intro div_nat_eqI) (simp_all add: algebra_simps diff_le_mono2 Suc_leI)
  with mask_nat [of "replicate l (-1)" l n] assms all have "bytes_nat (cidr_bytes l n) = (2 ^ n - 1) * 2 ^ ?h" by simp
  with e show ?thesis by (simp add: algebra_simps)
qed

lemma mask_compare:
  assumes "n \<le> 8 * l" "m \<le> 8 * l"
  shows "bytes_Compare (cidr_bytes l n) (cidr_bytes l m) \<le> 0 \<longleftrightarrow> n \<le> m"
proof -
  have "bytes_nat (cidr_bytes l n) \<le> bytes_nat (cidr_bytes l m) \<longleftrightarrow> (2 :: nat) ^ (8 * l - m) \<le> 2 ^ (8 * l - n)"
    using mask_value [OF assms(1)] mask_value [OF assms(2)] by linarith
  also have "\<dots> \<longleftrightarrow> n \<le> m" using assms by (auto simp: power_increasing_iff)
  finally show ?thesis by (simp add: bytes_Compare_iff)
qed

text \<open>The addresses of a network, as numbers of its family.\<close>

definition net_addresses :: "ipnet \<Rightarrow> nat set" where
  "net_addresses n =
     (let (ones, bits) = Mask_Size (n_Mask n); base = bytes_nat (norm_ip (n_IP n)) in {base ..< base + 2 ^ (bits - ones)})"

lemma net_addresses_eq:
  assumes "parsed_net n k q"
  shows "net_addresses n = {bytes_nat (norm_ip (n_IP n)) ..< bytes_nat (norm_ip (n_IP n)) + 2 ^ (8 * k - q)}"
  by (simp add: net_addresses_def parsed_Size [OF assms] Let_def)

lemma same_block_iff:
  fixes v w h :: nat
  assumes "w mod 2 ^ h = 0"
  shows "v div 2 ^ h = w div 2 ^ h \<longleftrightarrow> w \<le> v \<and> v < w + 2 ^ h"
proof -
  obtain c where w: "w = 2 ^ h * c" using assms by (metis dvdE mod_eq_0_iff_dvd)
  have "v div 2 ^ h = c \<longleftrightarrow> 2 ^ h * c \<le> v \<and> v < 2 ^ h * c + 2 ^ h"
    by (metis (no_types, opaque_lifting) add.commute div_nat_eqI dividend_less_times_div mult.commute mult_Suc_right times_div_less_eq_dividend zero_less_numeral zero_less_power)
  then show ?thesis by (simp add: w)
qed

lemma Contains_addresses:
  assumes "parsed_net n k q"
  shows "IPNet_Contains n ip \<longleftrightarrow> length (norm_ip ip) = length (norm_ip (n_IP n)) \<and> bytes_nat (norm_ip ip) \<in> net_addresses n"
  using Contains_iff [OF assms] same_block_iff [OF parsed_host_bits [OF assms]] by (auto simp: net_addresses_eq [OF assms])

lemma ContainsNet_iff:
  assumes "parsed_net n1 k1 q1" "parsed_net n2 k2 q2"
  shows "ContainsNet n1 n2 \<longleftrightarrow> length (n_IP n1) = length (n_IP n2) \<and>
    length (norm_ip (n_IP n1)) = length (norm_ip (n_IP n2)) \<and> net_addresses n2 \<subseteq> net_addresses n1"
proof -
  from assms have p: "length (n_IP n1) = k1" "length (n_IP n2) = k2" "q1 \<le> 8 * k1" "q2 \<le> 8 * k2"
    "n_Mask n1 = cidr_bytes k1 q1" "n_Mask n2 = cidr_bytes k2 q2" by (simp_all add: parsed_net_def)
  show ?thesis
  proof (cases "k1 = k2 \<and> length (norm_ip (n_IP n1)) = length (norm_ip (n_IP n2))")
    case False
    then show ?thesis using p(1,2) Contains_addresses [OF assms(1), of "n_IP n2"] by (auto simp: ContainsNet_def)
  next
    case True
    let ?a = "bytes_nat (norm_ip (n_IP n1))" and ?b = "bytes_nat (norm_ip (n_IP n2))"
    let ?h = "8 * k1 - q1" and ?g = "8 * k1 - q2"
    have hb: "?a mod 2 ^ ?h = 0" "?b mod 2 ^ ?g = 0"
      using parsed_host_bits [OF assms(1)] parsed_host_bits [OF assms(2)] True by simp_all
    have "ContainsNet n1 n2 \<longleftrightarrow> ?b \<in> net_addresses n1 \<and> q1 \<le> q2"
      using True p mask_compare [of q1 k1 q2] Contains_addresses [OF assms(1), of "n_IP n2"] by (auto simp: ContainsNet_def)
    also have "\<dots> \<longleftrightarrow> net_addresses n2 \<subseteq> net_addresses n1"
    proof
      assume c: "?b \<in> net_addresses n1 \<and> q1 \<le> q2"
      then have e: "?b div 2 ^ ?h = ?a div 2 ^ ?h" using same_block_iff [OF hb(1)] by (simp add: net_addresses_eq [OF assms(1)])
      have "?h = ?g + (q2 - q1)" using c True p by simp
      then have pw: "(2 :: nat) ^ ?h = 2 ^ ?g * 2 ^ (q2 - q1)" by (simp add: power_add)
      show "net_addresses n2 \<subseteq> net_addresses n1"
      proof
        fix v assume "v \<in> net_addresses n2"
        then have "v div 2 ^ ?g = ?b div 2 ^ ?g" using same_block_iff [OF hb(2)] True by (simp add: net_addresses_eq [OF assms(2)])
        then have "v div 2 ^ ?h = ?a div 2 ^ ?h" using e by (simp add: pw div_mult2_eq)
        then show "v \<in> net_addresses n1" using same_block_iff [OF hb(1)] by (simp add: net_addresses_eq [OF assms(1)])
      qed
    next
      assume sub: "net_addresses n2 \<subseteq> net_addresses n1"
      then have "{?b ..< ?b + 2 ^ ?g} \<subseteq> {?a ..< ?a + 2 ^ ?h}" using True net_addresses_eq [OF assms(1)] net_addresses_eq [OF assms(2)] by simp
      then have i: "?a \<le> ?b" "?b + 2 ^ ?g \<le> ?a + 2 ^ ?h" by (simp_all add: ivl_subset)
      then have "(2 :: nat) ^ ?g \<le> 2 ^ ?h" by linarith
      then have "?g \<le> ?h" by (simp add: power_increasing_iff)
      moreover have "?b \<in> net_addresses n1" using sub by (auto simp: net_addresses_eq [OF assms(2)])
      ultimately show "?b \<in> net_addresses n1 \<and> q1 \<le> q2" using True p by auto
    qed
    finally show ?thesis using True p(1,2) by simp
  qed
qed

lemma ContainsNet_sound:
  assumes "ParseCIDR s1 = Some (i1, n1)" "ParseCIDR s2 = Some (i2, n2)" "ContainsNet n1 n2" "IPNet_Contains n2 ip"
  shows "IPNet_Contains n1 ip"
proof -
  obtain k1 q1 k2 q2 where n: "parsed_net n1 k1 q1" "parsed_net n2 k2 q2" using assms(1,2) ParseCIDR_parsed by metis
  with assms(3,4) show ?thesis using ContainsNet_iff [OF n] Contains_addresses [OF n(1)] Contains_addresses [OF n(2)] by auto
qed

text \<open>What \<^verbatim>\<open>IsIPInCIDR\<close> reports: some block before the first invalid one contains the address.\<close>

lemma ipInBlocks_True:
  "ipInBlocks cs ip = Inr True \<Longrightarrow> \<exists>c\<in>set cs. \<exists>i n. ParseCIDR (TrimSpace c) = Some (i, n) \<and> IPNet_Contains n ip"
  by (induction cs ip rule: ipInBlocks.induct) (auto simp: Let_def split: if_splits option.splits prod.splits)

lemma IsIPInCIDR_True:
  assumes "IsIPInCIDR cidr s = Inr True"
  obtains ip c i n where "ParseIP s = Some ip" "c \<in> set (strings_Split CHR '','' cidr)"
    "ParseCIDR (TrimSpace c) = Some (i, n)" "IPNet_Contains n ip"
  using assms by (auto simp: IsIPInCIDR_def split: option.splits dest: ipInBlocks_True)

section \<open>Evaluation\<close>

text \<open>The facts that evaluate the parsers and printers on concrete texts by simplification.\<close>

lemma numeral_steps:
  "digits B (numeral k) v = digits B (pred_numeral k) (v div B) @ [v mod B]"
  "replicate (numeral k) x = x # replicate (pred_numeral k) x"
  by (simp_all add: numeral_eq_Suc)

lemmas loop_steps = parseIPv6Loop.simps(2) [of "pred_numeral k" for k, folded numeral_eq_Suc]
  cidr_bytes.simps(2) [of "pred_numeral k" for k, folded numeral_eq_Suc]
  leadOnes.simps(2) [of "pred_numeral k" for k, folded numeral_eq_Suc]

lemmas parse_evals = ParseAddr_def addr_mark_def parseIPv4_def parseIPv6_def expandEllipsis_def is_digit_def is_hex_def
  hex_val_def digit_val_def of_char_def undigits_Cons nat_bytes_def numeral_steps loop_steps ParseCIDR_def ParseIP_def
  read_nat_def dec_val_def CIDRMask_def IP_Mask_def v4InV6Prefix_def Let_def

end
