(* ===== verification/Net_Objects.thy ===== *)
theory Net_Objects
  imports Net_Range Spx_Id
begin

text \<open>
  The network objects of a zone and what the controller relies on when it changes them: the API
  server, the labels that tell which project owns an object (\<^verbatim>\<open>internal/utils/labels.go\<close>) and the filters of
  \<^verbatim>\<open>filter.go\<close>.

  \<^item> \<open>net_world\<close> holds the objects of the cluster, by name, with the fields the controller reads or
    writes. Kube-OVN objects are cluster-scoped: a name belongs to all projects.
  \<^item> \<open>net_env\<close> is the API server and the caches: any call may fail (\<open>ne_fails\<close>, by call site, verb and
    name), and a list from an informer (\<open>ne_subnets\<close>, \<open>ne_rules\<close>, \<open>ne_eips\<close> and so on) is whatever the cache
    holds. A conflicting update is a call that fails, and so is one with an empty name.
  \<^item> \<open>net_cfg\<close> is the configuration of the controller.
\<close>

section \<open>Objects\<close>

record static_route =
  sr_policy :: string
  sr_cidr :: string
  sr_nextHop :: string
  sr_table :: string

record vpc_obj =
  vp_labels :: "(string, string) fmap"
  vp_namespaces :: "string list"
  vp_routes :: "static_route list"
  vp_subnets :: "string list"

record subnet_obj =
  sn_labels :: "(string, string) fmap"
  sn_annotations :: "(string, string) fmap"
  sn_vpc :: string
  sn_protocol :: string
  sn_table :: string
  sn_namespaces :: "string list"
  sn_cidr :: string
  sn_gateway :: string
  sn_provider :: string
  sn_dhcpV4 :: string
  sn_dhcpV6 :: string
  sn_private :: bool
  sn_exclude :: "string list"
  sn_mtu :: "nat option"

record gateway_obj =
  gw_labels :: "(string, string) fmap"
  gw_vpc :: string
  gw_subnet :: string
  gw_lanIP :: string
  gw_external :: "string list"
  gw_routes :: "(string \<times> string) list"

record rule_port =
  rp_name :: string
  rp_port :: int
  rp_target :: int
  rp_protocol :: string

record rule_obj =
  ru_labels :: "(string, string) fmap"
  ru_annotations :: "(string, string) fmap"
  ru_vip :: string
  ru_namespace :: string
  ru_selector :: "string list"
  ru_endpoints :: "string list"
  ru_ports :: "rule_port list"

record eip_obj =
  ei_labels :: "(string, string) fmap"
  ei_annotations :: "(string, string) fmap"
  ei_gateway :: string
  ei_external :: string

record fip_obj =
  fi_labels :: "(string, string) fmap"
  fi_eip :: string
  fi_internal :: string

record snat_obj =
  sa_labels :: "(string, string) fmap"
  sa_eip :: string
  sa_internal :: string

record dnat_obj =
  da_labels :: "(string, string) fmap"
  da_eip :: string
  da_external :: string
  da_protocol :: string
  da_internalIP :: string
  da_internalPort :: string

text \<open>Of the CNI configuration of a network attachment the provider varies, the rest is constant.\<close>

record nad_obj =
  nd_labels :: "(string, string) fmap"
  nd_provider :: string

record net_world =
  nw_vpcs :: "(string, vpc_obj) fmap"
  nw_subnets :: "(string, subnet_obj) fmap"
  nw_gateways :: "(string, gateway_obj) fmap"
  nw_nads :: "(string \<times> string, nad_obj) fmap"
  nw_rules :: "(string, rule_obj) fmap"
  nw_eips :: "(string, eip_obj) fmap"
  nw_fips :: "(string, fip_obj) fmap"
  nw_snats :: "(string, snat_obj) fmap"
  nw_dnats :: "(string, dnat_obj) fmap"

datatype net_verb = NGet | NList | NCreate | NUpdate | NDelete

type_synonym net_call = "string \<times> net_verb \<times> string"

record net_env =
  ne_fails :: "net_call \<Rightarrow> go_error option"
  ne_subnets :: "net_world \<Rightarrow> (string \<times> subnet_obj) list"
  ne_rules :: "net_world \<Rightarrow> (string \<times> rule_obj) list"
  ne_eips :: "net_world \<Rightarrow> (string \<times> eip_obj) list"
  ne_snats :: "net_world \<Rightarrow> (string \<times> snat_obj) list"
  ne_dnats :: "net_world \<Rightarrow> (string \<times> dnat_obj) list"
  ne_services :: "string \<Rightarrow> string \<Rightarrow> (string, string) fmap option"

record net_cfg =
  nc_prefix :: string
  nc_uuid :: uuid_lib
  nc_disabled :: "(string \<times> string) list"
  nc_mtu :: "nat option"
  nc_externalSubnet :: string
  nc_gwExternal :: "string list"
  nc_gwRoutes :: "(string \<times> string) list"


section \<open>The API server\<close>

definition NewNotFound :: "string \<Rightarrow> go_error" where
  "NewNotFound name = \<lparr>err_msg = fmt_q name @ '' not found'', err_kind = KNotFound\<rparr>"

definition NewBadRequest :: "string \<Rightarrow> go_error" where
  "NewBadRequest msg = \<lparr>err_msg = msg, err_kind = KBadRequest\<rparr>"

definition NewExists :: "string \<Rightarrow> go_error" where
  "NewExists name = \<lparr>err_msg = fmt_q name @ '' already exists'', err_kind = KExists\<rparr>"

definition k_get :: "net_env \<Rightarrow> string \<Rightarrow> string \<Rightarrow> ('k, 'v) fmap \<Rightarrow> 'k \<Rightarrow> go_error + 'v" where
  "k_get E site name m k =
     (if name = [] then Inl (Errorf ''resource name may not be empty'')
      else case ne_fails E (site, NGet, name) of
        Some e \<Rightarrow> Inl e
      | None \<Rightarrow> (case fmlookup m k of None \<Rightarrow> Inl (NewNotFound name) | Some v \<Rightarrow> Inr v))"

definition k_create :: "net_env \<Rightarrow> string \<Rightarrow> string \<Rightarrow> ('k, 'v) fmap \<Rightarrow> 'k \<Rightarrow> 'v \<Rightarrow> go_error + ('k, 'v) fmap" where
  "k_create E site name m k v =
     (if name = [] then Inl (Errorf ''name or generateName is required'')
      else case ne_fails E (site, NCreate, name) of
        Some e \<Rightarrow> Inl e
      | None \<Rightarrow> (case fmlookup m k of Some _ \<Rightarrow> Inl (NewExists name) | None \<Rightarrow> Inr (fmupd k v m)))"

definition k_update :: "net_env \<Rightarrow> string \<Rightarrow> string \<Rightarrow> ('k, 'v) fmap \<Rightarrow> 'k \<Rightarrow> 'v \<Rightarrow> go_error + ('k, 'v) fmap" where
  "k_update E site name m k v =
     (if name = [] then Inl (Errorf ''resource name may not be empty'')
      else case ne_fails E (site, NUpdate, name) of
        Some e \<Rightarrow> Inl e
      | None \<Rightarrow> (case fmlookup m k of None \<Rightarrow> Inl (NewNotFound name) | Some _ \<Rightarrow> Inr (fmupd k v m)))"

definition k_delete :: "net_env \<Rightarrow> string \<Rightarrow> string \<Rightarrow> ('k, 'v) fmap \<Rightarrow> 'k \<Rightarrow> go_error + ('k, 'v) fmap" where
  "k_delete E site name m k =
     (if name = [] then Inl (Errorf ''resource name may not be empty'')
      else case ne_fails E (site, NDelete, name) of
        Some e \<Rightarrow> Inl e
      | None \<Rightarrow> (case fmlookup m k of None \<Rightarrow> Inl (NewNotFound name) | Some _ \<Rightarrow> Inr (fmdrop k m)))"

lemmas k_defs = k_get_def k_create_def k_update_def k_delete_def

lemma k_get_Inr: "k_get E site name m k = Inr v \<Longrightarrow> fmlookup m k = Some v"
  by (auto simp: k_get_def split: option.splits if_splits)

lemma k_create_Inr: "k_create E site name m k v = Inr m' \<Longrightarrow> m' = fmupd k v m \<and> fmlookup m k = None"
  by (auto simp: k_create_def split: option.splits if_splits)

lemma k_update_Inr: "k_update E site name m k v = Inr m' \<Longrightarrow> m' = fmupd k v m \<and> fmlookup m k \<noteq> None"
  by (auto simp: k_update_def split: option.splits if_splits)

lemma k_delete_Inr: "k_delete E site name m k = Inr m' \<Longrightarrow> m' = fmdrop k m \<and> fmlookup m k \<noteq> None"
  by (auto simp: k_delete_def split: option.splits if_splits)


section \<open>Labels\<close>

definition str_get :: "(string, string) fmap \<Rightarrow> string \<Rightarrow> string" where
  "str_get m k = (case fmlookup m k of None \<Rightarrow> [] | Some v \<Rightarrow> v)"

text \<open>The label selector \<^verbatim>\<open>key=value\<close> of a list call: the label is there with that value.\<close>

definition selected :: "string \<Rightarrow> string \<Rightarrow> (string, string) fmap \<Rightarrow> bool" where
  "selected key val labels \<longleftrightarrow> fmlookup labels key = Some val"

definition SpxAnnotationAllowedProjects :: string where
  "SpxAnnotationAllowedProjects = ''superphenix.net/allowedProjects''"

definition CheckProjectLabel :: "(string, string) fmap \<Rightarrow> string \<Rightarrow> string \<Rightarrow> go_error option" where
  "CheckProjectLabel labels name namespace =
     (if str_get labels SpxLabelProjectID \<noteq> namespace then Some (NewNotFound name) else None)"

definition IsSharedWithProject :: "(string, string) fmap \<Rightarrow> string \<Rightarrow> bool" where
  "IsSharedWithProject annotations projectID =
     (case fmlookup annotations SpxAnnotationAllowedProjects of
        None \<Rightarrow> False
      | Some allowedProjects \<Rightarrow> list_ex (\<lambda>i. TrimSpace i = projectID) (strings_Split CHR '','' allowedProjects))"

definition isEditAllowed :: "net_cfg \<Rightarrow> (string, string) fmap \<Rightarrow> bool \<Rightarrow> go_error option" where
  "isEditAllowed C labels forceGitops =
     (if \<not> forceGitops \<and> str_get labels SpxLabelGitops = ''true''
      then Some (Errorf ''cannot update/delete gitops resources'')
      else if str_get labels ''superphenix.net/generated'' = ''true''
      then Some (Errorf ''cannot update/delete generated resources'')
      else if list_ex (\<lambda>(k, v). str_get labels k = v) (nc_disabled C)
      then Some (Errorf ''cannot update/delete this resource'')
      else None)"

definition IsEditAllowed :: "net_cfg \<Rightarrow> (string, string) fmap \<Rightarrow> go_error option" where
  "IsEditAllowed C labels = isEditAllowed C labels False"

definition IsEditAllowedForceGitops :: "net_cfg \<Rightarrow> (string, string) fmap \<Rightarrow> go_error option" where
  "IsEditAllowedForceGitops C labels = isEditAllowed C labels True"

text \<open>
  \<^verbatim>\<open>labelPattern\<close>: an optional prefix and a slash, a name, a colon, an optional value. The characters of
  the parts are neither slash nor colon, so a text matches when its pieces do.
\<close>

definition is_alnum :: "char \<Rightarrow> bool" where
  "is_alnum c \<longleftrightarrow> is_digit c \<or> 97 \<le> (of_char c :: nat) \<and> (of_char c :: nat) \<le> 122
     \<or> 65 \<le> (of_char c :: nat) \<and> (of_char c :: nat) \<le> 90"

definition label_char :: "char \<Rightarrow> bool" where
  "label_char c \<longleftrightarrow> is_alnum c \<or> c = CHR ''-'' \<or> c = CHR ''.'' \<or> c = CHR ''_''"

definition label_word :: "string \<Rightarrow> bool" where
  "label_word s \<longleftrightarrow> s \<noteq> [] \<and> is_alnum (hd s) \<and> is_alnum (last s) \<and> list_all label_char s"

definition label_key :: "string \<Rightarrow> bool" where
  "label_key key =
     (case strings_Split CHR ''/'' key of
        [name] \<Rightarrow> label_word name \<and> length name \<le> 63
      | [prefix, name] \<Rightarrow> label_word prefix \<and> label_word name \<and> length name \<le> 63
      | _ \<Rightarrow> False)"

definition labelPatternRegex :: "string \<Rightarrow> bool" where
  "labelPatternRegex label =
     (case strings_Split CHR '':'' label of
        [key, value] \<Rightarrow> label_key key \<and> (value = [] \<or> label_word value \<and> length value \<le> 63)
      | _ \<Rightarrow> False)"

definition ParseLabel :: "string \<Rightarrow> go_error + (string \<times> string)" where
  "ParseLabel label =
     (if 253 < length label then Inl (Errorf ''label too long'')
      else if \<not> labelPatternRegex label then Inl (Errorf ''invalid label format'')
      else case strings_Split CHR '':'' label of
             [key, value] \<Rightarrow> Inr (key, value)
           | _ \<Rightarrow> Inl (Errorf ''invalid label format''))"

definition ParseLabels :: "string list \<Rightarrow> string \<Rightarrow> go_error + (string, string) fmap" where
  "ParseLabels labels prefix =
     foldR (\<lambda>label labelMap.
        bindR (ParseLabel label) (\<lambda>(key, val).
          if prefix \<noteq> [] \<and> \<not> has_prefix prefix key then Inl (Errorf (label @ '' has invalid label prefix''))
          else Inr (fmupd key val labelMap))) labels fmempty"

definition CustomLabelPrefix :: string where "CustomLabelPrefix = ''user.superphenix.net/''"
definition SpxLabelPrefix :: string where "SpxLabelPrefix = ''superphenix.net/''"

definition FilterLabels :: "(string, string) fmap \<Rightarrow> (string, string) fmap" where
  "FilterLabels labels = fmfilter (\<lambda>k.
     (has_prefix SpxLabelPrefix k \<or> has_prefix CustomLabelPrefix k \<or>
      k \<in> {''velero.io/backup-name'', ''velero.io/restore-name'', ''app.kubernetes.io/name''}) \<and>
     k \<noteq> ''superphenix.net/ignoreNetworkPolicies'') labels"

definition FilterAnnotations :: "(string, string) fmap \<Rightarrow> (string, string) fmap" where
  "FilterAnnotations annotations = fmfilter (\<lambda>k.
     (has_prefix SpxLabelPrefix k \<or> k = ''replication.storage.openshift.io/volume-replication-name'') \<and>
     k \<noteq> ''superphenix.net/allowedProjects'') annotations"


section \<open>Identifiers\<close>

definition spx_msg :: "spx_error \<Rightarrow> string" where
  "spx_msg e =
     (case e of
        OrgIDEmpty \<Rightarrow> ''organization ID cannot be empty''
      | InvalidOrgID \<Rightarrow> ''organization ID is not a valid UUID''
      | ProjectIDEmpty \<Rightarrow> ''project ID cannot be empty if there's a resource local ID''
      | InvalidProjectID \<Rightarrow> ''project ID is not a valid UUID''
      | InvalidResourceLocalID \<Rightarrow> ''resource local ID must match regex ^[a-z0-9]+(-[a-z0-9]+)*$''
      | InvalidProjectOrResourceLocalID \<Rightarrow> ''project ID and resource local ID cannot be empty'')"

definition GetProjectID :: "net_cfg \<Rightarrow> spx_metadata \<Rightarrow> string" where
  "GetProjectID C m = ToSPXID (nc_prefix C) (ProjectId m)"

definition GetResourceEffectiveID :: "net_cfg \<Rightarrow> spx_metadata \<Rightarrow> string" where
  "GetResourceEffectiveID C m = ToSPXID (nc_prefix C) (ResourceEffectiveId m)"

definition convert :: "net_cfg \<Rightarrow> spx_metadata \<Rightarrow> spx_metadata \<Rightarrow> go_error + spx_metadata" where
  "convert C m info =
     (case ConvertToSpxMetadata (nc_uuid C) m info of
        (m', Some e) \<Rightarrow> Inl (Errorf (spx_msg e))
      | (m', None) \<Rightarrow> Inr m')"

lemma edit_or_label:
  "CheckProjectLabel l name ns = None \<longleftrightarrow> str_get l SpxLabelProjectID = ns"
  by (simp add: CheckProjectLabel_def)

lemma project_label: "ProjectId m \<noteq> [] \<Longrightarrow> str_get (GetLabels (nc_prefix C) m) SpxLabelProjectID = GetProjectID C m"
  by (auto simp: str_get_def GetLabels_def GetProjectID_def ToSPXID_def Let_def label_names)

end
