(* ===== verification/Net_Vpc.thy ===== *)
theory Net_Vpc
  imports Net_Objects
begin

text \<open>
  VPCs and NAT gateways of the controller: \<^verbatim>\<open>internal/kubeovn/vpc\<close> (\<^verbatim>\<open>utils.go\<close>, \<^verbatim>\<open>create.go\<close>,
  \<^verbatim>\<open>update.go\<close>, \<^verbatim>\<open>delete.go\<close>, \<^verbatim>\<open>get.go\<close>) and \<^verbatim>\<open>internal/kubeovn/nat_gateway\<close>.

  When the read of a VPC fails, \<^verbatim>\<open>AddNatGateway\<close> and \<^verbatim>\<open>RemoveNatGateway\<close> log the error and go on with
  the empty object the client returns, \<open>empty_vpc\<close>, whose name is empty too.
\<close>

section \<open>Static routes\<close>

definition ParsePrefix :: "string \<Rightarrow> (netip_addr \<times> nat) option" where
  "ParsePrefix s =
     (let bitsStr = rev (takeWhile (\<lambda>c. c \<noteq> CHR ''/'') (rev s)); front = dropWhile (\<lambda>c. c \<noteq> CHR ''/'') (rev s)
      in if front = [] then None
         else case ParseAddr (rev (tl front)) of
                None \<Rightarrow> None
              | Some ip \<Rightarrow>
                  if Zone ip \<noteq> [] then None
                  else if 1 < length bitsStr \<and> \<not> (is_digit (hd bitsStr) \<and> hd bitsStr \<noteq> CHR ''0'') then None
                  else (case read_nat bitsStr of
                          None \<Rightarrow> None
                        | Some bits \<Rightarrow> if int (BitLen ip) < bits then None else Some (ip, nat bits)))"

definition normalizeCIDR :: "string \<Rightarrow> go_error + string" where
  "normalizeCIDR cidr =
     (case ParsePrefix cidr of
        None \<Rightarrow> Inl (Errorf (''netip.ParsePrefix('' @ fmt_q cidr @ '')''))
      | Some (ip, bits) \<Rightarrow> Inr (netip_String ip @ ''/'' @ fmt_d (int bits)))"

definition route_key :: "static_route \<Rightarrow> string" where
  "route_key r = sr_policy r @ ''-'' @ sr_cidr r @ ''-'' @ sr_table r"

definition full_key :: "static_route \<Rightarrow> string" where
  "full_key r = sr_policy r @ ''-'' @ sr_cidr r @ ''-'' @ sr_nextHop r @ ''-'' @ sr_table r"

definition PolicyDst :: string where "PolicyDst = ''policyDst''"
definition DefaultIPv4LanIP :: string where "DefaultIPv4LanIP = ''0.0.0.0/0''"
definition DefaultIPv6LanIP :: string where "DefaultIPv6LanIP = ''::/0''"

definition gateway_route :: "gateway_obj \<Rightarrow> string \<Rightarrow> static_route" where
  "gateway_route gw cidr = \<lparr>sr_policy = PolicyDst, sr_cidr = cidr, sr_nextHop = gw_lanIP gw, sr_table = gw_subnet gw\<rparr>"

text \<open>The routes of the NAT gateways of a VPC by policy, network and table, none overridden yet.\<close>

definition fetchNatGwStaticRoutes ::
  "net_env \<Rightarrow> net_world \<Rightarrow> string \<Rightarrow> string \<Rightarrow> go_error + (string, static_route \<times> bool) fmap" where
  "fetchNatGwStaticRoutes E W namespace vpcEid =
     (case ne_fails E (''natgw-routes'', NList, vpcEid) of
        Some err \<Rightarrow> Inl (ErrorfW ''failed to list VpcNatGateways: '' err)
      | None \<Rightarrow>
          foldR (\<lambda>(_, natGw) result.
             let v4Route = gateway_route natGw DefaultIPv4LanIP; v6Route = gateway_route natGw DefaultIPv6LanIP
             in case (normalizeCIDR (sr_cidr v4Route), normalizeCIDR (sr_cidr v6Route)) of
                  (Inl err, _) \<Rightarrow> Inl (ErrorfW ''failed to normalize CIDR: '' err)
                | (Inr _, Inl err) \<Rightarrow> Inl (ErrorfW ''failed to normalize CIDR: '' err)
                | (Inr normV4, Inr normV6) \<Rightarrow>
                    Inr (fmupd (route_key (v6Route\<lparr>sr_cidr := normV6\<rparr>)) (v6Route, False)
                          (fmupd (route_key (v4Route\<lparr>sr_cidr := normV4\<rparr>)) (v4Route, False) result)))
            (filter (\<lambda>(_, gw). selected ''ovn.kubernetes.io/vpc'' vpcEid (gw_labels gw) \<and>
                               selected SpxLabelProjectID namespace (gw_labels gw)) (gentries (nw_gateways W)))
            fmempty)"

definition inSubnets :: "(string, string) fmap \<Rightarrow> string \<Rightarrow> bool" where
  "inSubnets mapSubnets nextHopIP = list_ex (\<lambda>(_, cidrBlock). IsIPInCIDR cidrBlock nextHopIP = Inr True) (gentries mapSubnets)"

definition parseRoute ::
  "(string, string) fmap \<Rightarrow> static_route \<Rightarrow> (string, static_route \<times> bool) fmap \<times> (string, static_route) fmap
     \<Rightarrow> go_error + ((string, static_route \<times> bool) fmap \<times> (string, static_route) fmap)" where
  "parseRoute mapSubnets sr st =
     (case normalizeCIDR (sr_cidr sr) of
        Inl err \<Rightarrow> Inl (ErrorfW ''failed to normalize CIDR: '' err)
      | Inr normCIDR \<Rightarrow>
          if sr_nextHop sr \<noteq> [] \<and> ParseIP (sr_nextHop sr) = None
          then Inl (Errorf (sr_nextHop sr @ '' is not a valid IP address''))
          else if sr_table sr = [] \<or> fmlookup mapSubnets (sr_table sr) = None
          then Inl (Errorf (''subnet '' @ sr_table sr @ '' not found for this VPC''))
          else if \<not> inSubnets mapSubnets (sr_nextHop sr)
          then Inl (Errorf (sr_nextHop sr @ '' is not in any VPC subnets CIDR Range''))
          else (let r = sr\<lparr>sr_cidr := normCIDR\<rparr>; (natGwSR, newSrMap) = st
                in case fmlookup natGwSR (route_key r) of
                     Some (v, overridden) \<Rightarrow>
                       if sr_nextHop v \<noteq> sr_nextHop r
                       then Inr (fmupd (route_key r) (v, True) natGwSR, fmupd (full_key r) r newSrMap)
                       else Inr (natGwSR, newSrMap)
                   | None \<Rightarrow> Inr (natGwSR, fmupd (full_key r) r newSrMap)))"

definition parseStaticRoutes ::
  "(string \<times> string) list \<Rightarrow> static_route list \<Rightarrow> (string, static_route \<times> bool) fmap \<Rightarrow> go_error + static_route list" where
  "parseStaticRoutes vpcSubnets newSRList natGwSR =
     bindR (foldR (parseRoute (fmap_of_list (rev vpcSubnets))) newSRList (natGwSR, fmempty)) (\<lambda>(gws, new).
       Inr (map (fst \<circ> snd) (filter (\<lambda>(_, (_, overridden)). \<not> overridden) (gentries gws)) @ map snd (gentries new)))"

definition listBatchSubnet :: "net_env \<Rightarrow> net_world \<Rightarrow> string \<Rightarrow> string \<Rightarrow> (string \<times> string) list" where
  "listBatchSubnet E W namespace vpcEID =
     map (\<lambda>(name, s). (name, sn_cidr s))
       (filter (\<lambda>(_, s). sn_vpc s \<noteq> [] \<and> sn_vpc s = vpcEID \<and> str_get (sn_labels s) SpxLabelProjectID = namespace) (ne_subnets E W))"


section \<open>VPCs\<close>

definition CreateVPC :: "net_cfg \<Rightarrow> net_env \<Rightarrow> net_world \<Rightarrow> spx_metadata \<Rightarrow> net_world \<times> go_error option" where
  "CreateVPC C E W v =
     (case convert C v v of
        Inl err \<Rightarrow> (W, Some err)
      | Inr m \<Rightarrow>
          let name = GetResourceEffectiveID C m
          in case k_create E ''vpc'' name (nw_vpcs W) name
                    \<lparr>vp_labels = GetLabels (nc_prefix C) m, vp_namespaces = [GetProjectID C v], vp_routes = [], vp_subnets = []\<rparr> of
               Inl err \<Rightarrow> (W, Some err)
             | Inr vpcs \<Rightarrow> (W\<lparr>nw_vpcs := vpcs\<rparr>, None))"

definition updateVPC ::
  "net_env \<Rightarrow> net_world \<Rightarrow> string \<Rightarrow> vpc_obj \<Rightarrow> string \<Rightarrow> string \<Rightarrow> static_route list \<Rightarrow> net_world \<times> go_error option" where
  "updateVPC E W vpcName vpc namespace name staticRoutes =
     (case fetchNatGwStaticRoutes E W namespace name of
        Inl err \<Rightarrow> (W, Some err)
      | Inr natGwSR \<Rightarrow>
          (case parseStaticRoutes (listBatchSubnet E W namespace name) staticRoutes natGwSR of
             Inl err \<Rightarrow> (W, Some err)
           | Inr srList \<Rightarrow>
               (case k_update E ''vpc'' vpcName (nw_vpcs W) vpcName (vpc\<lparr>vp_routes := srList\<rparr>) of
                  Inl err \<Rightarrow> (W, Some err)
                | Inr vpcs \<Rightarrow> (W\<lparr>nw_vpcs := vpcs\<rparr>, None))))"

definition UpdateVPC ::
  "net_cfg \<Rightarrow> net_env \<Rightarrow> net_world \<Rightarrow> static_route list \<Rightarrow> string \<Rightarrow> string \<Rightarrow> net_world \<times> go_error option" where
  "UpdateVPC C E W staticRoutes namespace name =
     (case k_get E ''update-vpc'' name (nw_vpcs W) name of
        Inl err \<Rightarrow> (W, Some err)
      | Inr vpc \<Rightarrow>
          (case CheckProjectLabel (vp_labels vpc) name namespace of
             Some err \<Rightarrow> (W, Some err)
           | None \<Rightarrow>
               (case IsEditAllowed C (vp_labels vpc) of
                  Some err \<Rightarrow> (W, Some err)
                | None \<Rightarrow> updateVPC E W name vpc namespace name staticRoutes)))"

definition empty_vpc :: vpc_obj where
  "empty_vpc = \<lparr>vp_labels = fmempty, vp_namespaces = [], vp_routes = [], vp_subnets = []\<rparr>"

definition AddNatGateway ::
  "net_env \<Rightarrow> net_world \<Rightarrow> string \<Rightarrow> string \<Rightarrow> string \<Rightarrow> string \<Rightarrow> net_world \<times> go_error option" where
  "AddNatGateway E W namespace vpcEID lanIP subnetEID =
     (let (vpcName, vpc) = (case k_get E ''add-natgw'' vpcEID (nw_vpcs W) vpcEID of Inl _ \<Rightarrow> ([], empty_vpc) | Inr v \<Rightarrow> (vpcEID, v));
          new = (\<lambda>cidr. \<lparr>sr_policy = PolicyDst, sr_cidr = cidr, sr_nextHop = lanIP, sr_table = subnetEID\<rparr>)
      in updateVPC E W vpcName vpc namespace vpcEID (vp_routes vpc @ [new DefaultIPv4LanIP, new DefaultIPv6LanIP]))"

definition RemoveNatGateway ::
  "net_env \<Rightarrow> net_world \<Rightarrow> string \<Rightarrow> string \<Rightarrow> string \<Rightarrow> net_world \<times> go_error option" where
  "RemoveNatGateway E W vpcEID subnetEID lanIP =
     (let (vpcName, vpc) = (case k_get E ''remove-natgw'' vpcEID (nw_vpcs W) vpcEID of Inl _ \<Rightarrow> ([], empty_vpc) | Inr v \<Rightarrow> (vpcEID, v));
          kept = filter (\<lambda>rs. \<not> (sr_policy rs = PolicyDst \<and> (sr_cidr rs = DefaultIPv6LanIP \<or> sr_cidr rs = DefaultIPv4LanIP) \<and>
                                 sr_nextHop rs = lanIP \<and> sr_table rs = subnetEID)) (vp_routes vpc)
      in case k_update E ''remove-natgw'' vpcName (nw_vpcs W) vpcName (vpc\<lparr>vp_routes := kept\<rparr>) of
           Inl err \<Rightarrow> (W, Some err)
         | Inr vpcs \<Rightarrow> (W\<lparr>nw_vpcs := vpcs\<rparr>, None))"

definition GetVPC :: "net_env \<Rightarrow> net_world \<Rightarrow> string \<Rightarrow> string \<Rightarrow> go_error + vpc_obj" where
  "GetVPC E W namespace name =
     bindR (k_get E ''get-vpc'' name (nw_vpcs W) name) (\<lambda>vpc.
       if str_get (vp_labels vpc) SpxLabelProjectID \<noteq> namespace then Inl (NewNotFound name)
       else bindR (fetchNatGwStaticRoutes E W namespace name) (\<lambda>_. Inr vpc))"

definition DeleteVPC :: "net_env \<Rightarrow> net_world \<Rightarrow> string \<Rightarrow> string \<Rightarrow> net_world \<times> go_error option" where
  "DeleteVPC E W namespace name =
     (case GetVPC E W namespace name of
        Inl err \<Rightarrow> (W, Some err)
      | Inr vpc \<Rightarrow>
          if vp_subnets vpc \<noteq> [] then (W, Some (Errorf ''non empty VPC, cannot delete''))
          else (case k_delete E ''vpc'' name (nw_vpcs W) name of
                  Inl err \<Rightarrow> (W, Some err)
                | Inr vpcs \<Rightarrow> (W\<lparr>nw_vpcs := vpcs\<rparr>, None)))"


section \<open>NAT gateways\<close>

definition CreateNatGateway ::
  "net_cfg \<Rightarrow> net_env \<Rightarrow> net_world \<Rightarrow> spx_metadata \<Rightarrow> string \<Rightarrow> string \<Rightarrow> net_world \<times> go_error option" where
  "CreateNatGateway C E W m lanIP vpcEID =
     (let name = GetResourceEffectiveID C m
      in case k_create E ''natgw'' name (nw_gateways W) name
                \<lparr>gw_labels = GetLabels (nc_prefix C) m, gw_vpc = vpcEID, gw_subnet = name, gw_lanIP = lanIP,
                 gw_external = nc_gwExternal C, gw_routes = nc_gwRoutes C\<rparr> of
           Inl err \<Rightarrow> (W, Some err)
         | Inr gws \<Rightarrow> AddNatGateway E (W\<lparr>nw_gateways := gws\<rparr>) (GetProjectID C m) vpcEID lanIP name)"

definition GetNatGw :: "net_env \<Rightarrow> net_world \<Rightarrow> string \<Rightarrow> string \<Rightarrow> go_error + gateway_obj option" where
  "GetNatGw E W namespace name =
     (case k_get E ''get-natgw'' name (nw_gateways W) name of
        Inl err \<Rightarrow> if IsNotFound err then Inr None else Inl err
      | Inr gw \<Rightarrow> if CheckProjectLabel (gw_labels gw) name namespace \<noteq> None then Inr None else Inr (Some gw))"

definition DeleteNatGateway ::
  "net_cfg \<Rightarrow> net_env \<Rightarrow> net_world \<Rightarrow> string \<Rightarrow> string \<Rightarrow> string \<Rightarrow> net_world \<times> go_error option" where
  "DeleteNatGateway C E W namespace vpcEID name =
     (case k_get E ''delete-natgw'' name (nw_gateways W) name of
        Inl err \<Rightarrow> if IsNotFound err then (W, None) else (W, Some err)
      | Inr gw \<Rightarrow>
          (case CheckProjectLabel (gw_labels gw) name namespace of
             Some err \<Rightarrow> (W, Some err)
           | None \<Rightarrow>
               (case IsEditAllowed C (gw_labels gw) of
                  Some err \<Rightarrow> (W, Some err)
                | None \<Rightarrow>
                    (case RemoveNatGateway E W vpcEID name (gw_lanIP gw) of
                       (W1, Some err) \<Rightarrow> (W1, Some err)
                     | (W1, None) \<Rightarrow>
                         (case k_delete E ''natgw'' name (nw_gateways W1) name of
                            Inl err \<Rightarrow> (W1, Some err)
                          | Inr gws \<Rightarrow> (W1\<lparr>nw_gateways := gws\<rparr>, None))))))"

definition UpdateNatGateway ::
  "net_cfg \<Rightarrow> net_env \<Rightarrow> net_world \<Rightarrow> string \<Rightarrow> string \<Rightarrow> string \<Rightarrow> net_world \<times> go_error option" where
  "UpdateNatGateway C E W lanIP namespace name =
     (case k_get E ''update-natgw'' name (nw_gateways W) name of
        Inl err \<Rightarrow> (W, Some err)
      | Inr gw \<Rightarrow>
          (case CheckProjectLabel (gw_labels gw) name namespace of
             Some err \<Rightarrow> (W, Some err)
           | None \<Rightarrow>
               (case IsEditAllowed C (gw_labels gw) of
                  Some err \<Rightarrow> (W, Some err)
                | None \<Rightarrow>
                    (case k_update E ''natgw'' name (nw_gateways W) name (gw\<lparr>gw_lanIP := lanIP\<rparr>) of
                       Inl err \<Rightarrow> (W, Some err)
                     | Inr gws \<Rightarrow> (W\<lparr>nw_gateways := gws\<rparr>, None)))))"

end
