(* ===== verification/Net_Subnet.thy ===== *)
theory Net_Subnet
  imports Net_Vpc
begin

text \<open>
  Subnets of the controller: \<^verbatim>\<open>internal/kubeovn/subnet\<close> (\<^verbatim>\<open>consts.go\<close>, \<^verbatim>\<open>utils.go\<close>, \<^verbatim>\<open>create.go\<close>,
  \<^verbatim>\<open>update.go\<close>, \<^verbatim>\<open>delete.go\<close>, \<^verbatim>\<open>get.go\<close>, \<^verbatim>\<open>list.go\<close>), with the network attachments of
  \<^verbatim>\<open>internal/kubevirt/nad\<close> and the check \<^verbatim>\<open>IsEIPInSubnet\<close> of \<^verbatim>\<open>internal/kubeovn/eip/eip.go\<close>.

  A subnet keeps its networks as text; the gateway and the address of the NAT gateway (\<^verbatim>\<open>lanIP\<close>) are
  computed from it at creation by \<^verbatim>\<open>parseNetworkInfo\<close> and again at each update by \<^verbatim>\<open>parseSubnetCIDR\<close>;
  the lemmas below compare the two.
\<close>

section \<open>Networks of a subnet\<close>

definition allowedCIDRStrs :: "string list" where
  "allowedCIDRStrs = [''10.0.0.0/8'', ''172.16.0.0/12'', ''192.168.0.0/16'', ''224.0.0.0/4'', ''240.0.0.0/4'',
     ''fc00::/7'', ''64:ff9b:1::/48'']"

text \<open>The start-up parses all of them or panics; they all parse (\<open>allowedCIDRs_all\<close>).\<close>

definition allowedCIDRs :: "ipnet list" where
  "allowedCIDRs = List.map_filter (\<lambda>s. map_option snd (ParseCIDR s)) allowedCIDRStrs"

definition isCIDRAllowed :: "ipnet \<Rightarrow> bool" where
  "isCIDRAllowed network = list_ex (\<lambda>allowedCIDR. ContainsNet allowedCIDR network) allowedCIDRs"

definition opt_String :: "ip option \<Rightarrow> string" where
  "opt_String o' = IP_String (case o' of None \<Rightarrow> [] | Some ip \<Rightarrow> ip)"

definition parseNet :: "string \<Rightarrow> go_error + ipnet" where
  "parseNet s = (case ParseCIDR s of None \<Rightarrow> Inl (Errorf (''invalid CIDR address: '' @ s)) | Some (_, n) \<Rightarrow> Inr n)"

definition available :: "string \<Rightarrow> ipnet \<Rightarrow> go_error + (string \<times> string)" where
  "available version n =
     (case FirstAndLastAvailable n of
        (None, _) \<Rightarrow> Inl (Errorf (''failed to find gateway '' @ version))
      | (Some f, l) \<Rightarrow> Inr (IP_String f, opt_String l))"

definition allowed :: "ipnet \<Rightarrow> go_error + unit" where
  "allowed n = guardR (Errorf ''cidr is not in allowed CIDRs'') (isCIDRAllowed n)"

definition parseNetworkInfo :: "string \<Rightarrow> string \<Rightarrow> string \<Rightarrow> go_error + (string \<times> string \<times> string)" where
  "parseNetworkInfo protocol ipv4 ipv6 =
     (if protocol = ''Dual''
      then bindR (parseNet ipv4) (\<lambda>cidrV4. bindR (parseNet ipv6) (\<lambda>cidrV6.
           bindR (available ''IPv4'' cidrV4) (\<lambda>(firstv4, lastv4). bindR (available ''IPv6'' cidrV6) (\<lambda>(firstv6, _).
           bindR (allowed cidrV4) (\<lambda>_. bindR (allowed cidrV6) (\<lambda>_.
             Inr (IPNet_String cidrV4 @ '','' @ IPNet_String cidrV6, firstv4 @ '','' @ firstv6, lastv4)))))))
      else if protocol = ''IPv6''
      then bindR (parseNet ipv6) (\<lambda>cidrV6. bindR (available ''IPv6'' cidrV6) (\<lambda>(firstv6, lastv6).
           bindR (allowed cidrV6) (\<lambda>_. Inr (IPNet_String cidrV6, firstv6, lastv6))))
      else bindR (parseNet ipv4) (\<lambda>cidrV4. bindR (available ''IPv4'' cidrV4) (\<lambda>(firstv4, lastv4).
           bindR (allowed cidrV4) (\<lambda>_. Inr (IPNet_String cidrV4, firstv4, lastv4)))))"

definition parseSubnetCIDR :: "string \<Rightarrow> string \<Rightarrow> go_error + (string \<times> string)" where
  "parseSubnetCIDR protocol cidr =
     (if protocol = ''Dual''
      then (case strings_Split CHR '','' cidr of
              ipv4 # ipv6 # _ \<Rightarrow>
                bindR (parseNet ipv4) (\<lambda>cidrV4. bindR (parseNet ipv6) (\<lambda>cidrV6.
                bindR (available ''IPv4'' cidrV4) (\<lambda>(firstv4, lastv4). bindR (available ''IPv6'' cidrV6) (\<lambda>(firstv6, _).
                  Inr (firstv4 @ '','' @ firstv6, lastv4)))))
            | _ \<Rightarrow> Inl (Errorf (''invalid Dual stack CIDR: '' @ cidr)))
      else if protocol = ''IPv6''
      then bindR (parseNet cidr) (\<lambda>cidrV6. bindR (available ''IPv6'' cidrV6) (\<lambda>(firstv6, _). Inr (firstv6, [])))
      else bindR (parseNet cidr) (\<lambda>cidrV4. bindR (available ''IPv4'' cidrV4) (\<lambda>(firstv4, lastv4). Inr (firstv4, lastv4))))"

definition isAllowedSharedSubnet :: "(string, string) fmap \<Rightarrow> string \<Rightarrow> bool" where
  "isAllowedSharedSubnet annotations projectID = IsSharedWithProject annotations projectID"

definition checkDnsIP :: "string \<Rightarrow> string \<Rightarrow> go_error option" where
  "checkDnsIP dnsV4 dnsV6 =
     (if dnsV4 \<noteq> [] \<and> ParseIP dnsV4 = None then Some (Errorf (dnsV4 @ '' is not a valid IP address''))
      else if dnsV6 \<noteq> [] \<and> ParseIP dnsV6 = None then Some (Errorf (dnsV6 @ '' is not a valid IP address''))
      else None)"


section \<open>Operations\<close>

definition checkVpcOwnership :: "net_env \<Rightarrow> net_world \<Rightarrow> string \<Rightarrow> string \<Rightarrow> go_error option" where
  "checkVpcOwnership E W vpcName projectID =
     (if vpcName = [] then Some (NewNotFound vpcName)
      else case k_get E ''subnet-vpc'' vpcName (nw_vpcs W) vpcName of
             Inl err \<Rightarrow> Some err
           | Inr vpc \<Rightarrow> CheckProjectLabel (vp_labels vpc) vpcName projectID)"

definition CreateNAD ::
  "net_env \<Rightarrow> net_world \<Rightarrow> string \<Rightarrow> string \<Rightarrow> (string, string) fmap \<Rightarrow> go_error + net_world" where
  "CreateNAD E W namespace subnetEID labels =
     bindR (k_create E ''nad'' subnetEID (nw_nads W) (namespace, subnetEID)
              \<lparr>nd_labels = labels, nd_provider = subnetEID @ ''.'' @ namespace @ ''.ovn''\<rparr>) (\<lambda>nads. Inr (W\<lparr>nw_nads := nads\<rparr>))"

definition DeleteNAD :: "net_env \<Rightarrow> net_world \<Rightarrow> string \<Rightarrow> string \<Rightarrow> net_world \<times> go_error option" where
  "DeleteNAD E W namespace name =
     (case k_delete E ''nad'' name (nw_nads W) (namespace, name) of
        Inl err \<Rightarrow> if IsNotFound err then (W, None) else (W, Some err)
      | Inr nads \<Rightarrow> (W\<lparr>nw_nads := nads\<rparr>, None))"

definition IsEIPInSubnet :: "net_env \<Rightarrow> net_world \<Rightarrow> string \<Rightarrow> string \<Rightarrow> go_error + bool" where
  "IsEIPInSubnet E W namespace subnetName =
     (case ne_fails E (''eip-in-subnet'', NList, subnetName) of
        Some err \<Rightarrow> Inl err
      | None \<Rightarrow> Inr (list_ex (\<lambda>(_, eip). selected SpxLabelProjectID namespace (ei_labels eip) \<and> ei_gateway eip = subnetName)
                       (gentries (nw_eips W))))"

record CreateSubnetInfo =
  cs_meta :: spx_metadata
  cs_vpcEId :: string
  cs_private :: bool
  cs_protocol :: string
  cs_ipv4 :: string
  cs_ipv6 :: string
  cs_dnsV4 :: string
  cs_dnsV6 :: string
  cs_natGateway :: bool

definition dhcpOption :: "string \<Rightarrow> string" where
  "dhcpOption dns = ''dns_server='' @ dns"

definition newSubnet ::
  "net_cfg \<Rightarrow> CreateSubnetInfo \<Rightarrow> spx_metadata \<Rightarrow> string \<Rightarrow> string \<Rightarrow> string \<Rightarrow> subnet_obj" where
  "newSubnet C s m cidr gateway lanIP =
     \<lparr>sn_labels = GetLabels (nc_prefix C) m, sn_annotations = fmempty, sn_vpc = cs_vpcEId s, sn_protocol = cs_protocol s,
      sn_table = GetResourceEffectiveID C m, sn_namespaces = [GetProjectID C m], sn_cidr = cidr, sn_gateway = gateway,
      sn_provider = GetResourceEffectiveID C m @ ''.'' @ GetProjectID C m @ ''.ovn'',
      sn_dhcpV4 = dhcpOption (cs_dnsV4 s), sn_dhcpV6 = dhcpOption (cs_dnsV6 s), sn_private = cs_private s,
      sn_exclude = (if cs_natGateway s then [lanIP] else []), sn_mtu = nc_mtu C\<rparr>"

definition CreateSubnet :: "net_cfg \<Rightarrow> net_env \<Rightarrow> net_world \<Rightarrow> CreateSubnetInfo \<Rightarrow> net_world \<times> go_error option" where
  "CreateSubnet C E W s =
     (case convert C (cs_meta s) (cs_meta s) of
        Inl err \<Rightarrow> (W, Some err)
      | Inr m \<Rightarrow>
     (case checkVpcOwnership E W (cs_vpcEId s) (GetProjectID C m) of
        Some err \<Rightarrow> (W, Some err)
      | None \<Rightarrow>
     (case parseNetworkInfo (cs_protocol s) (cs_ipv4 s) (cs_ipv6 s) of
        Inl err \<Rightarrow> (W, Some err)
      | Inr (cidr, gateway, lanIP) \<Rightarrow>
     (case checkDnsIP (cs_dnsV4 s) (cs_dnsV6 s) of
        Some err \<Rightarrow> (W, Some err)
      | None \<Rightarrow>
     (let eid = GetResourceEffectiveID C m
      in case k_create E ''subnet'' eid (nw_subnets W) eid (newSubnet C s m cidr gateway lanIP) of
           Inl err \<Rightarrow> (W, Some err)
         | Inr subnets \<Rightarrow>
     (let W1 = W\<lparr>nw_subnets := subnets\<rparr>
      in case CreateNAD E W1 (GetProjectID C m) eid (GetLabels (nc_prefix C) m) of
           Inl err \<Rightarrow>
             (case k_delete E ''undo-subnet'' eid (nw_subnets W1) eid of
                Inl err2 \<Rightarrow> (W1, Some err2)
              | Inr subnets' \<Rightarrow> (W1\<lparr>nw_subnets := subnets'\<rparr>, Some err))
         | Inr W2 \<Rightarrow>
             if cs_natGateway s then (fst (CreateNatGateway C E W2 m lanIP (cs_vpcEId s)), None) else (W2, None)))))))"

record UpdateSubnetInfo =
  us_meta :: spx_metadata
  us_private :: bool
  us_dnsV4 :: string
  us_dnsV6 :: string
  us_natGateway :: bool

datatype natGwStatus = NatGwStatusIdle | NatGwStatusDelete | NatGwStatusCreate | NatGwStatusUpdate

text \<open>What an update does with the NAT gateway of the subnet, and the addresses it excludes.\<close>

definition natGwPlan ::
  "net_env \<Rightarrow> net_world \<Rightarrow> string \<Rightarrow> string \<Rightarrow> bool \<Rightarrow> string \<Rightarrow> gateway_obj option \<Rightarrow> string list
     \<Rightarrow> go_error + (natGwStatus \<times> string list)" where
  "natGwPlan E W namespace name enable lanIP gw excludeIps =
     (if gw \<noteq> None \<and> \<not> enable
      then bindR (IsEIPInSubnet E W namespace name) (\<lambda>hasEip.
             if hasEip then Inl (Errorf ''can't disable NatGateway, some EIP are still associated to it'')
             else Inr (NatGwStatusDelete, []))
      else if enable then Inr (if gw = None then NatGwStatusCreate else NatGwStatusUpdate, [lanIP])
      else Inr (NatGwStatusIdle, excludeIps))"

definition UpdateSubnet ::
  "net_cfg \<Rightarrow> net_env \<Rightarrow> net_world \<Rightarrow> UpdateSubnetInfo \<Rightarrow> string \<Rightarrow> string \<Rightarrow> net_world \<times> go_error option" where
  "UpdateSubnet C E W s namespace name =
     (case checkDnsIP (us_dnsV4 s) (us_dnsV6 s) of
        Some err \<Rightarrow> (W, Some err)
      | None \<Rightarrow>
     (case k_get E ''update-subnet'' name (nw_subnets W) name of
        Inl err \<Rightarrow> (W, Some err)
      | Inr subnet \<Rightarrow>
     (case CheckProjectLabel (sn_labels subnet) name namespace of
        Some err \<Rightarrow> (W, Some err)
      | None \<Rightarrow>
     (case IsEditAllowed C (sn_labels subnet) of
        Some err \<Rightarrow> (W, Some err)
      | None \<Rightarrow>
     (case parseSubnetCIDR (sn_protocol subnet) (sn_cidr subnet) of
        Inl err \<Rightarrow> (W, Some err)
      | Inr (_, lanIP) \<Rightarrow>
     (case GetNatGw E W namespace name of
        Inl err \<Rightarrow> (W, Some err)
      | Inr gw \<Rightarrow>
     (case natGwPlan E W namespace name (us_natGateway s) lanIP gw (sn_exclude subnet) of
        Inl err \<Rightarrow> (W, Some err)
      | Inr (status, excludeIps) \<Rightarrow>
     (case k_update E ''subnet'' name (nw_subnets W) name
             (subnet\<lparr>sn_private := us_private s, sn_exclude := excludeIps,
                     sn_dhcpV4 := dhcpOption (us_dnsV4 s), sn_dhcpV6 := dhcpOption (us_dnsV6 s)\<rparr>) of
        Inl err \<Rightarrow> (W, Some err)
      | Inr subnets \<Rightarrow>
     (let W1 = W\<lparr>nw_subnets := subnets\<rparr>
      in case status of
           NatGwStatusDelete \<Rightarrow> (fst (DeleteNatGateway C E W1 namespace (sn_vpc subnet) name), None)
         | NatGwStatusCreate \<Rightarrow>
             (case convert C \<lparr>OrgId = [], ProjectId = [], ResourceEffectiveId = [], ResourceLocalId = []\<rparr> (us_meta s) of
                Inl err \<Rightarrow> (W1, None)
              | Inr m \<Rightarrow> (fst (CreateNatGateway C E W1 m lanIP (sn_vpc subnet)), None))
         | NatGwStatusUpdate \<Rightarrow> (fst (UpdateNatGateway C E W1 lanIP namespace name), None)
         | NatGwStatusIdle \<Rightarrow> (W1, None))))))))))"

definition DeleteSubnet :: "net_cfg \<Rightarrow> net_env \<Rightarrow> net_world \<Rightarrow> string \<Rightarrow> string \<Rightarrow> net_world \<times> go_error option" where
  "DeleteSubnet C E W namespace name =
     (case k_get E ''delete-subnet'' name (nw_subnets W) name of
        Inl err \<Rightarrow> (W, Some err)
      | Inr subnet \<Rightarrow>
     (case CheckProjectLabel (sn_labels subnet) name namespace of
        Some err \<Rightarrow> (W, Some err)
      | None \<Rightarrow>
     (case IsEditAllowed C (sn_labels subnet) of
        Some err \<Rightarrow> (W, Some err)
      | None \<Rightarrow>
     (case DeleteNAD E W namespace name of
        (W1, Some err) \<Rightarrow> (W1, Some err)
      | (W1, None) \<Rightarrow>
     (case GetNatGw E W1 namespace name of
        Inl err \<Rightarrow> (W1, Some err)
      | Inr gw \<Rightarrow>
     (case (case gw of None \<Rightarrow> (W1, None) | Some g \<Rightarrow> DeleteNatGateway C E W1 namespace (gw_vpc g) name) of
        (W2, Some err) \<Rightarrow> (W2, Some err)
      | (W2, None) \<Rightarrow>
     (case k_delete E ''subnet'' name (nw_subnets W2) name of
        Inl err \<Rightarrow> (W2, Some err)
      | Inr subnets \<Rightarrow> (W2\<lparr>nw_subnets := subnets\<rparr>, None))))))))"

definition GetSubnet :: "net_env \<Rightarrow> net_world \<Rightarrow> string \<Rightarrow> string \<Rightarrow> go_error + (subnet_obj \<times> bool)" where
  "GetSubnet E W name projectID =
     bindR (k_get E ''get-subnet'' name (nw_subnets W) name) (\<lambda>subnet.
       let isAllowedShared = isAllowedSharedSubnet (sn_annotations subnet) projectID
       in if str_get (sn_labels subnet) SpxLabelProjectID \<noteq> projectID \<and> \<not> isAllowedShared then Inl (NewNotFound name)
          else Inr (subnet, isAllowedShared))"

definition ListSubnet :: "net_env \<Rightarrow> net_world \<Rightarrow> string \<Rightarrow> (string \<times> subnet_obj \<times> bool) list" where
  "ListSubnet E W namespace =
     map (\<lambda>(name, subnet). (name, subnet, isAllowedSharedSubnet (sn_annotations subnet) namespace))
       (filter (\<lambda>(_, subnet). str_get (sn_labels subnet) SpxLabelProjectID = namespace \<or>
                              isAllowedSharedSubnet (sn_annotations subnet) namespace) (ne_subnets E W))"

section \<open>Creation and update agree on the network\<close>

lemma allowedCIDRs_all:
  "map (\<lambda>n. (length (n_IP n), length (norm_ip (n_IP n)))) allowedCIDRs = [(4, 4), (4, 4), (4, 4), (4, 4), (4, 4), (16, 16), (16, 16)]"
  by (simp add: allowedCIDRs_def allowedCIDRStrs_def map_filter_simps parse_evals norm_ip_def To4_def)

lemma allowedCIDRs_parsed:
  assumes "a \<in> set allowedCIDRs"
  shows "\<exists>k q. parsed_net a k q" "length (norm_ip (n_IP a)) = length (n_IP a)"
proof -
  have "a \<in> the ` (\<lambda>s. map_option snd (ParseCIDR s)) ` {s \<in> set allowedCIDRStrs. map_option snd (ParseCIDR s) \<noteq> None}"
    using assms by (simp add: allowedCIDRs_def List.map_filter_def image_image)
  then obtain s where "map_option snd (ParseCIDR s) = Some a" by (elim imageE CollectE conjE) (metis option.exhaust_sel)
  then obtain p where p: "ParseCIDR s = Some p" "snd p = a" by (cases "ParseCIDR s") simp_all
  have "ParseCIDR s = Some (fst p, a)" using p by (metis prod.collapse)
  then show "\<exists>k q. parsed_net a k q" by (rule ParseCIDR_parsed)
  have "(length (n_IP a), length (norm_ip (n_IP a))) \<in> set [(4, 4), (4, 4), (4, 4), (4, 4), (4, 4), (16, 16), (16, 16)]"
    using assms unfolding allowedCIDRs_all [symmetric] set_map by (rule imageI)
  then show "length (norm_ip (n_IP a)) = length (n_IP a)" by auto
qed

text \<open>An allowed network of 16 bytes is not an IPv4 network in disguise.\<close>

lemma allowed_v6:
  assumes "isCIDRAllowed n" "parsed_net n k q"
  shows "k = 16 \<Longrightarrow> To4 (n_IP n) = None"
proof -
  from assms(1) obtain a where a: "a \<in> set allowedCIDRs" "ContainsNet a n" by (auto simp: isCIDRAllowed_def list_ex_iff)
  obtain k' q' where p: "parsed_net a k' q'" using allowedCIDRs_parsed(1) [OF a(1)] by blast
  have "length (norm_ip (n_IP a)) = length (n_IP a)" by (rule allowedCIDRs_parsed(2) [OF a(1)])
  moreover assume "k = 16"
  ultimately have "length (norm_ip (n_IP n)) = 16" using ContainsNet_iff [OF p assms(2)] a(2) assms(2) by (simp add: parsed_net_def)
  then show ?thesis by (auto simp: norm_ip_def To4_def split: if_splits)
qed

lemma parseNet_String:
  assumes "parseNet s = Inr n" "allowed n = Inr u"
  shows "parseNet (IPNet_String n) = Inr n" "CHR '','' \<notin> set (IPNet_String n)"
proof -
  obtain i where "ParseCIDR s = Some (i, n)" using assms(1) by (auto simp: parseNet_def split: option.splits)
  then obtain k q where p: "parsed_net n k q" using ParseCIDR_parsed by blast
  have "isCIDRAllowed n" using assms(2) by (auto simp: allowed_def guardR_def split: if_splits)
  note v6 = allowed_v6 [OF this p]
  show "parseNet (IPNet_String n) = Inr n" using ParseCIDR_String [OF p v6] by (simp add: parseNet_def)
  show "CHR '','' \<notin> set (IPNet_String n)" by (rule IPNet_String_chars [OF p v6])
qed

lemma Split_two: "CHR '','' \<notin> set a \<Longrightarrow> CHR '','' \<notin> set b \<Longrightarrow> strings_Split CHR '','' (a @ '','' @ b) = [a, b]"
proof -
  have "CHR '','' \<notin> set b \<Longrightarrow> strings_Split CHR '','' b = [b]" for b by (induction b) auto
  then show "CHR '','' \<notin> set a \<Longrightarrow> CHR '','' \<notin> set b \<Longrightarrow> strings_Split CHR '','' (a @ '','' @ b) = [a, b]"
    by (induction a) auto
qed

lemma parseSubnetCIDR_created:
  assumes "parseNetworkInfo protocol ipv4 ipv6 = Inr (cidr, gateway, lanIP)"
  shows "parseSubnetCIDR protocol cidr = Inr (gateway, if protocol = ''IPv6'' then [] else lanIP)"
  using assms parseNet_String Split_two
  by (auto simp: parseNetworkInfo_def parseSubnetCIDR_def result_simps split: if_splits prod.splits)

end
