(* ===== verification/Net_LB.thy ===== *)
theory Net_LB
  imports Net_Subnet
begin

text \<open>
  Load balancers of the controller, \<^verbatim>\<open>internal/kubeovn/load_balancer\<close> (\<^verbatim>\<open>spec.go\<close>, \<^verbatim>\<open>subnet.go\<close>,
  \<^verbatim>\<open>backends.go\<close>, \<^verbatim>\<open>vip.go\<close>, \<^verbatim>\<open>create.go\<close>, \<^verbatim>\<open>update.go\<close>, \<^verbatim>\<open>delete.go\<close>, \<^verbatim>\<open>get.go\<close>, \<^verbatim>\<open>list.go\<close>) and the
  index of rules by VPC and virtual IP of \<^verbatim>\<open>internal/informers/indexers.go\<close>.

  A rule is pinned to the VPC of its subnet by an annotation. Two rules of a VPC must not share a
  virtual IP: \<^verbatim>\<open>vipInUse\<close> looks the address up in the informer's cache (\<open>ne_rules\<close>). A rule without
  the annotation belongs to the VPC that its service names (\<open>ne_services\<close>), or to any VPC.
\<close>

section \<open>The rule of a request\<close>

definition logicalRouterAnnotation :: string where "logicalRouterAnnotation = ''ovn.kubernetes.io/logical_router''"
definition logicalSwitchAnnotation :: string where "logicalSwitchAnnotation = ''ovn.kubernetes.io/logical_switch''"
definition serviceVPCAnnotation :: string where "serviceVPCAnnotation = ''ovn.kubernetes.io/vpc''"
definition defaultVPC :: string where "defaultVPC = ''ovn-cluster''"
definition ruleServicePrefix :: string where "ruleServicePrefix = ''slr-''"
definition UnpinnedVPC :: string where "UnpinnedVPC = ''*''"

record lb_port =
  po_port :: int
  po_target :: int
  po_protocol :: string

record lb_spec =
  sp_vip :: string
  sp_namespace :: string
  sp_selector :: "string list"
  sp_endpoints :: "string list"
  sp_ports :: "rule_port list"

definition ToUpper :: "string \<Rightarrow> string" where
  "ToUpper s = map (\<lambda>c. if 97 \<le> (of_char c :: nat) \<and> (of_char c :: nat) \<le> 122 then char_of ((of_char c :: nat) - 32) else c) s"

definition ToLower :: "string \<Rightarrow> string" where
  "ToLower s = map (\<lambda>c. if 65 \<le> (of_char c :: nat) \<and> (of_char c :: nat) \<le> 90 then char_of ((of_char c :: nat) + 32) else c) s"

definition checkVIP :: "string \<Rightarrow> go_error option" where
  "checkVIP vip =
     (case IsIPInCIDR LoadBalancerVIPCIDR vip of
        Inl _ \<Rightarrow> Some (NewBadRequest ''provided vip is not a valid IP address'')
      | Inr ok \<Rightarrow> if \<not> ok then Some (NewBadRequest ''provided vip is not in allowed CIDR'') else None)"

definition isIPv4 :: "string \<Rightarrow> bool" where
  "isIPv4 s = (case ParseIP s of None \<Rightarrow> False | Some ip \<Rightarrow> To4 ip \<noteq> None)"

definition spec_selector :: "string list \<Rightarrow> go_error + string list" where
  "spec_selector selectors =
     (case ParseLabels selectors [] of
        Inl err \<Rightarrow> Inl (NewBadRequest (''invalid selectors: '' @ err_msg err))
      | Inr selector \<Rightarrow> Inr (map (\<lambda>(key, val). key @ '':'' @ val) (gentries selector)))"

definition spec_endpoints :: "string list \<Rightarrow> go_error + string list" where
  "spec_endpoints endpoints =
     foldR (\<lambda>endpoint acc.
        if \<not> isIPv4 endpoint then Inl (NewBadRequest (''endpoint '' @ fmt_q endpoint @ '' is not a valid IPv4 address''))
        else Inr (acc @ [endpoint])) endpoints []"

definition spec_port :: "lb_port \<Rightarrow> rule_port" where
  "spec_port port =
     (let protocol = ToUpper (po_protocol port)
      in \<lparr>rp_name = fmt_d (po_port port) @ ''-'' @ fmt_d (po_target port) @ ''-'' @ ToLower protocol,
          rp_port = po_port port, rp_target = po_target port, rp_protocol = protocol\<rparr>)"

definition buildSpec ::
  "string \<Rightarrow> string \<Rightarrow> string list \<Rightarrow> string list \<Rightarrow> lb_port list \<Rightarrow> go_error + lb_spec" where
  "buildSpec vip namespace selectors endpoints ports =
     (case checkVIP vip of
        Some err \<Rightarrow> Inl err
      | None \<Rightarrow>
          let spec = \<lparr>sp_vip = vip, sp_namespace = namespace, sp_selector = [], sp_endpoints = [],
                      sp_ports = map spec_port ports\<rparr>
          in if selectors \<noteq> [] then bindR (spec_selector selectors) (\<lambda>s. Inr (spec\<lparr>sp_selector := s\<rparr>))
             else bindR (spec_endpoints endpoints) (\<lambda>e. Inr (spec\<lparr>sp_endpoints := e\<rparr>)))"

definition getRuleSubnet :: "net_env \<Rightarrow> net_world \<Rightarrow> string \<Rightarrow> string \<Rightarrow> go_error + subnet_obj" where
  "getRuleSubnet E W name projectID =
     (if name = [] then Inl (NewBadRequest ''subnetEId is required'')
      else case k_get E ''rule-subnet'' name (nw_subnets W) name of
             Inl err \<Rightarrow> if IsNotFound err then Inl (NewBadRequest (''subnet '' @ fmt_q name @ '' not found'')) else Inl err
           | Inr subnet \<Rightarrow>
               if str_get (sn_labels subnet) SpxLabelProjectID \<noteq> projectID \<and> \<not> IsSharedWithProject (sn_annotations subnet) projectID
               then Inl (NewBadRequest (''subnet '' @ fmt_q name @ '' not found''))
               else if sn_vpc subnet = [] \<or> sn_vpc subnet = defaultVPC
               then Inl (NewBadRequest (''subnet '' @ fmt_q name @ '' is not in a project VPC''))
               else Inr subnet)"

fun checkEndpointsInSubnet :: "string \<Rightarrow> subnet_obj \<Rightarrow> string list \<Rightarrow> go_error option" where
  "checkEndpointsInSubnet name subnet [] = None"
| "checkEndpointsInSubnet name subnet (endpoint # endpoints) =
     (if IsIPInCIDR (sn_cidr subnet) endpoint \<noteq> Inr True
      then Some (NewBadRequest (''endpoint '' @ fmt_q endpoint @ '' is not in subnet '' @ fmt_q name))
      else checkEndpointsInSubnet name subnet endpoints)"


section \<open>Virtual IPs in use\<close>

definition SwitchLBRuleVPCVIPKey :: "string \<Rightarrow> string \<Rightarrow> string" where
  "SwitchLBRuleVPCVIPKey vpc vip = vpc @ ''|'' @ vip"

definition switchLBRuleVPCVIP :: "rule_obj \<Rightarrow> string list" where
  "switchLBRuleVPCVIP rule =
     (let vpc = str_get (ru_annotations rule) logicalRouterAnnotation
      in [SwitchLBRuleVPCVIPKey (if vpc = [] then UnpinnedVPC else vpc) (ru_vip rule)])"

definition ByIndex :: "net_env \<Rightarrow> net_world \<Rightarrow> string \<Rightarrow> (string \<times> rule_obj) list" where
  "ByIndex E W key = filter (\<lambda>(_, rule). key \<in> set (switchLBRuleVPCVIP rule)) (ne_rules E W)"

definition rule_vpc :: "net_env \<Rightarrow> string \<Rightarrow> rule_obj \<Rightarrow> go_error + string" where
  "rule_vpc E name rule =
     (let other = str_get (ru_annotations rule) logicalRouterAnnotation
      in if other \<noteq> [] then Inr other
         else case ne_fails E (''rule-service'', NGet, ruleServicePrefix @ name) of
                Some err \<Rightarrow> if IsNotFound err then Inr [] else Inl err
              | None \<Rightarrow> (case ne_services E (ru_namespace rule) (ruleServicePrefix @ name) of
                           None \<Rightarrow> Inr []
                         | Some annotations \<Rightarrow> Inr (str_get annotations serviceVPCAnnotation)))"

fun vipConflict :: "net_env \<Rightarrow> string \<Rightarrow> string \<Rightarrow> (string \<times> rule_obj) list \<Rightarrow> go_error + bool" where
  "vipConflict E vpc selfName [] = Inr False"
| "vipConflict E vpc selfName ((name, rule) # candidates) =
     (if name = selfName then vipConflict E vpc selfName candidates
      else bindR (rule_vpc E name rule) (\<lambda>other.
             if other = [] \<or> other = vpc then Inr True else vipConflict E vpc selfName candidates))"

definition vipInUse :: "net_env \<Rightarrow> net_world \<Rightarrow> string \<Rightarrow> string \<Rightarrow> string \<Rightarrow> go_error + bool" where
  "vipInUse E W vip vpc selfName =
     vipConflict E vpc selfName
       (ByIndex E W (SwitchLBRuleVPCVIPKey vpc vip) @ ByIndex E W (SwitchLBRuleVPCVIPKey UnpinnedVPC vip))"

definition checkVIPAvailable :: "net_env \<Rightarrow> net_world \<Rightarrow> string \<Rightarrow> string \<Rightarrow> string \<Rightarrow> go_error option" where
  "checkVIPAvailable E W vip vpc selfName =
     (case vipInUse E W vip vpc selfName of
        Inl err \<Rightarrow> Some err
      | Inr inUse \<Rightarrow> if inUse then Some (NewBadRequest (''vip '' @ fmt_q vip @ '' is already used in this VPC'')) else None)"


section \<open>Operations\<close>

record CreateLoadBalancerInfo =
  cl_meta :: spx_metadata
  cl_vip :: string
  cl_subnetEId :: string
  cl_selectors :: "string list"
  cl_endpoints :: "string list"
  cl_ports :: "lb_port list"

definition newRule :: "net_cfg \<Rightarrow> CreateLoadBalancerInfo \<Rightarrow> subnet_obj \<Rightarrow> lb_spec \<Rightarrow> rule_obj" where
  "newRule C info subnet spec =
     \<lparr>ru_labels = GetLabels (nc_prefix C) (cl_meta info),
      ru_annotations = fmap_of_list [(logicalRouterAnnotation, sn_vpc subnet), (logicalSwitchAnnotation, cl_subnetEId info)],
      ru_vip = sp_vip spec, ru_namespace = sp_namespace spec, ru_selector = sp_selector spec,
      ru_endpoints = sp_endpoints spec, ru_ports = sp_ports spec\<rparr>"

definition CreateLoadBalancer ::
  "net_cfg \<Rightarrow> net_env \<Rightarrow> net_world \<Rightarrow> CreateLoadBalancerInfo \<Rightarrow> net_world \<times> go_error option" where
  "CreateLoadBalancer C E W info =
     (let projectID = GetProjectID C (cl_meta info); eid = GetResourceEffectiveID C (cl_meta info)
      in case buildSpec (cl_vip info) projectID (cl_selectors info) (cl_endpoints info) (cl_ports info) of
           Inl err \<Rightarrow> (W, Some err)
         | Inr spec \<Rightarrow>
        (case getRuleSubnet E W (cl_subnetEId info) projectID of
           Inl err \<Rightarrow> (W, Some err)
         | Inr subnet \<Rightarrow>
        (case checkEndpointsInSubnet (cl_subnetEId info) subnet (sp_endpoints spec) of
           Some err \<Rightarrow> (W, Some err)
         | None \<Rightarrow>
        (case checkVIPAvailable E W (cl_vip info) (sn_vpc subnet) eid of
           Some err \<Rightarrow> (W, Some err)
         | None \<Rightarrow>
        (case k_create E ''rule'' eid (nw_rules W) eid (newRule C info subnet spec) of
           Inl err \<Rightarrow> (W, Some err)
         | Inr rules \<Rightarrow> (W\<lparr>nw_rules := rules\<rparr>, None))))))"

record UpdateLoadBalancerInfo =
  ul_vip :: string
  ul_subnetEId :: string
  ul_selectors :: "string list"
  ul_endpoints :: "string list"
  ul_ports :: "lb_port list"

definition UpdateLoadBalancer ::
  "net_cfg \<Rightarrow> net_env \<Rightarrow> net_world \<Rightarrow> UpdateLoadBalancerInfo \<Rightarrow> string \<Rightarrow> string \<Rightarrow> net_world \<times> go_error option" where
  "UpdateLoadBalancer C E W info namespace name =
     (case k_get E ''update-rule'' name (nw_rules W) name of
        Inl err \<Rightarrow> (W, Some err)
      | Inr lb \<Rightarrow>
     (case CheckProjectLabel (ru_labels lb) name namespace of
        Some err \<Rightarrow> (W, Some err)
      | None \<Rightarrow>
     (case IsEditAllowed C (ru_labels lb) of
        Some err \<Rightarrow> (W, Some err)
      | None \<Rightarrow>
     (let pinned = str_get (ru_annotations lb) logicalSwitchAnnotation
      in if pinned = []
         then (W, Some (NewBadRequest (''load balancer '' @ fmt_q name @ '' is not attached to a subnet, delete and recreate it'')))
         else
     (case buildSpec (ul_vip info) namespace (ul_selectors info) (ul_endpoints info) (ul_ports info) of
        Inl err \<Rightarrow> (W, Some err)
      | Inr spec \<Rightarrow>
     (case getRuleSubnet E W (ul_subnetEId info) namespace of
        Inl err \<Rightarrow> (W, Some err)
      | Inr subnet \<Rightarrow>
      if pinned \<noteq> ul_subnetEId info
      then (W, Some (NewBadRequest (''subnet of load balancer '' @ fmt_q name @ '' can't be changed'')))
      else
     (case checkEndpointsInSubnet (ul_subnetEId info) subnet (sp_endpoints spec) of
        Some err \<Rightarrow> (W, Some err)
      | None \<Rightarrow>
     (case checkVIPAvailable E W (ul_vip info) (sn_vpc subnet) name of
        Some err \<Rightarrow> (W, Some err)
      | None \<Rightarrow>
     (case k_update E ''rule'' name (nw_rules W) name
             (lb\<lparr>ru_vip := sp_vip spec, ru_selector := sp_selector spec, ru_endpoints := sp_endpoints spec, ru_ports := sp_ports spec\<rparr>) of
        Inl err \<Rightarrow> (W, Some err)
      | Inr rules \<Rightarrow> (W\<lparr>nw_rules := rules\<rparr>, None))))))))))"

definition DeleteLoadBalancer :: "net_cfg \<Rightarrow> net_env \<Rightarrow> net_world \<Rightarrow> string \<Rightarrow> string \<Rightarrow> net_world \<times> go_error option" where
  "DeleteLoadBalancer C E W namespace name =
     (case k_get E ''delete-rule'' name (nw_rules W) name of
        Inl err \<Rightarrow> (W, Some err)
      | Inr lb \<Rightarrow>
     (case CheckProjectLabel (ru_labels lb) name namespace of
        Some err \<Rightarrow> (W, Some err)
      | None \<Rightarrow>
     (case IsEditAllowed C (ru_labels lb) of
        Some err \<Rightarrow> (W, Some err)
      | None \<Rightarrow>
     (case k_delete E ''rule'' name (nw_rules W) name of
        Inl err \<Rightarrow> (W, Some err)
      | Inr rules \<Rightarrow> (W\<lparr>nw_rules := rules\<rparr>, None)))))"

definition GetLoadBalancer :: "net_env \<Rightarrow> net_world \<Rightarrow> string \<Rightarrow> string \<Rightarrow> go_error + rule_obj" where
  "GetLoadBalancer E W namespace name =
     bindR (k_get E ''get-rule'' name (nw_rules W) name) (\<lambda>lb.
       case CheckProjectLabel (ru_labels lb) name namespace of Some err \<Rightarrow> Inl err | None \<Rightarrow> Inr lb)"

definition ListLoadBalancer :: "net_env \<Rightarrow> net_world \<Rightarrow> string \<Rightarrow> (string \<times> rule_obj) list" where
  "ListLoadBalancer E W namespace =
     filter (\<lambda>(_, lb). str_get (ru_labels lb) SpxLabelProjectID = namespace) (ne_rules E W)"

end
