(* ===== verification/Net_Eip.thy ===== *)
theory Net_Eip
  imports Net_Vpc
begin

text \<open>
  External IPs of the controller, \<^verbatim>\<open>internal/kubeovn/eip\<close> (\<^verbatim>\<open>validate.go\<close>, \<^verbatim>\<open>create.go\<close>, \<^verbatim>\<open>update.go\<close>,
  \<^verbatim>\<open>delete.go\<close>, \<^verbatim>\<open>utils.go\<close>, \<^verbatim>\<open>get.go\<close>, \<^verbatim>\<open>list.go\<close>) with its packages \<^verbatim>\<open>fip\<close>, \<^verbatim>\<open>snat\<close> and \<^verbatim>\<open>dnat\<close>.

  An EIP is in one of two modes: a floating IP (one FIP rule of the same name), or source NAT rules,
  possibly with destination NAT rules, whose names are derived from the EIP and the contents of the
  rule. The waits between a deletion and a creation are not modelled. When the read of the FIP rule
  fails, \<^verbatim>\<open>UpdateEip\<close> goes on with the empty object the client returns, as if there were none.
\<close>

section \<open>Validation\<close>

record InfoDNAT =
  dn_externalPort :: string
  dn_internalIP :: string
  dn_internalPort :: string
  dn_protocol :: string

definition getAccessibleSubnet :: "net_env \<Rightarrow> net_world \<Rightarrow> string \<Rightarrow> string \<Rightarrow> go_error + subnet_obj" where
  "getAccessibleSubnet E W name projectID =
     (if name = [] then Inl (NewNotFound name)
      else bindR (k_get E ''eip-subnet'' name (nw_subnets W) name) (\<lambda>subnet.
             if str_get (sn_labels subnet) SpxLabelProjectID \<noteq> projectID \<and> \<not> IsSharedWithProject (sn_annotations subnet) projectID
             then Inl (NewNotFound name) else Inr subnet))"

definition checkIPInSubnet :: "string \<Rightarrow> string \<Rightarrow> go_error option" where
  "checkIPInSubnet subnetCIDR ip0 =
     (let ip = TrimSpace ip0
      in if IsIPInCIDR subnetCIDR ip = Inr True then None
         else Some (NewBadRequest (''internal IP '' @ fmt_q ip @ '' is not in the subnet'')))"

definition checkInternalIP :: "string \<Rightarrow> string \<Rightarrow> go_error option" where
  "checkInternalIP subnetCIDR ip =
     (if IsIPInCIDR LoadBalancerVIPCIDR (TrimSpace ip) = Inr True then None else checkIPInSubnet subnetCIDR ip)"

definition blockContains :: "ipnet \<Rightarrow> string \<Rightarrow> bool" where
  "blockContains target block =
     (case ParseCIDR (TrimSpace block) of None \<Rightarrow> False | Some (_, subnetNet) \<Rightarrow> ContainsNet subnetNet target)"

definition checkCIDRInSubnet :: "string \<Rightarrow> string \<Rightarrow> go_error option" where
  "checkCIDRInSubnet subnetCIDR cidr0 =
     (let cidr = TrimSpace cidr0
      in if CHR ''/'' \<notin> set cidr then checkIPInSubnet subnetCIDR cidr
         else case ParseCIDR cidr of
                None \<Rightarrow> Some (NewBadRequest (''SNAT CIDR '' @ fmt_q cidr @ '' is invalid''))
              | Some (_, target) \<Rightarrow>
                  if list_ex (blockContains target) (strings_Split CHR '','' subnetCIDR) then None
                  else Some (NewBadRequest (''SNAT CIDR '' @ fmt_q cidr @ '' is not in the subnet'')))"

fun first_error :: "('a \<Rightarrow> go_error option) \<Rightarrow> 'a list \<Rightarrow> go_error option" where
  "first_error f [] = None"
| "first_error f (x # xs) = (case f x of Some err \<Rightarrow> Some err | None \<Rightarrow> first_error f xs)"

definition validateInternalTargets ::
  "string \<Rightarrow> string \<Rightarrow> string list \<Rightarrow> InfoDNAT list \<Rightarrow> go_error option" where
  "validateInternalTargets subnetCIDR internalIP snatCIDRs dnatRules =
     (case (if internalIP \<noteq> [] then checkInternalIP subnetCIDR internalIP else None) of
        Some err \<Rightarrow> Some err
      | None \<Rightarrow>
     (case first_error (checkCIDRInSubnet subnetCIDR) snatCIDRs of
        Some err \<Rightarrow> Some err
      | None \<Rightarrow> first_error (\<lambda>rule. checkInternalIP subnetCIDR (dn_internalIP rule)) dnatRules))"

definition validateMode :: "string \<Rightarrow> string \<Rightarrow> string list \<Rightarrow> InfoDNAT list \<Rightarrow> go_error option" where
  "validateMode subnetCIDR internalIP snat dnat =
     (if internalIP \<noteq> [] then validateInternalTargets subnetCIDR internalIP [] []
      else validateInternalTargets subnetCIDR [] snat dnat)"


section \<open>Rules\<close>

text \<open>A loop of calls that change the cluster stops at the first error and keeps what was done.\<close>

fun loopW :: "('x \<Rightarrow> net_world \<Rightarrow> net_world \<times> go_error option) \<Rightarrow> 'x list \<Rightarrow> net_world \<Rightarrow> net_world \<times> go_error option" where
  "loopW f [] W = (W, None)"
| "loopW f (x # xs) W = (case f x W of (W1, Some err) \<Rightarrow> (W1, Some err) | (W1, None) \<Rightarrow> loopW f xs W1)"

definition thenW :: "net_world \<times> go_error option \<Rightarrow> (net_world \<Rightarrow> net_world \<times> go_error option) \<Rightarrow> net_world \<times> go_error option" where
  "thenW r f = (case r of (W, Some err) \<Rightarrow> (W, Some err) | (W, None) \<Rightarrow> f W)"

definition empty_meta :: spx_metadata where
  "empty_meta = \<lparr>OrgId = [], ProjectId = [], ResourceEffectiveId = [], ResourceLocalId = []\<rparr>"

text \<open>The metadata of a rule of an EIP: its local identifier is the UUID of its contents below the EIP.\<close>

definition rule_meta :: "net_cfg \<Rightarrow> spx_metadata \<Rightarrow> string \<Rightarrow> go_error + spx_metadata" where
  "rule_meta C eipMetadata contents =
     (case uuid_Parse (nc_uuid C) (ResourceEffectiveId eipMetadata) of
        None \<Rightarrow> Inl (Errorf ''invalid UUID'')
      | Some eipEidUUID \<Rightarrow>
          (case GenerateMetadata (nc_uuid C) empty_meta (ProjectId eipMetadata) (OrgId eipMetadata)
                  (NewSHA1 (nc_uuid C) eipEidUUID contents) of
             (_, Some err) \<Rightarrow> Inl (Errorf (spx_msg err))
           | (m, None) \<Rightarrow> Inr m))"

definition CreateFip :: "net_cfg \<Rightarrow> net_env \<Rightarrow> string \<Rightarrow> spx_metadata \<Rightarrow> net_world \<Rightarrow> net_world \<times> go_error option" where
  "CreateFip C E internalIp eipMetadata W =
     (let name = GetResourceEffectiveID C eipMetadata
      in case k_create E ''fip'' name (nw_fips W) name
                \<lparr>fi_labels = GetLabels (nc_prefix C) eipMetadata, fi_eip = name, fi_internal = TrimSpace internalIp\<rparr> of
           Inl err \<Rightarrow> (W, Some err)
         | Inr fips \<Rightarrow> (W\<lparr>nw_fips := fips\<rparr>, None))"

definition CreateSNAT :: "net_cfg \<Rightarrow> net_env \<Rightarrow> spx_metadata \<Rightarrow> string \<Rightarrow> net_world \<Rightarrow> net_world \<times> go_error option" where
  "CreateSNAT C E eipMetadata internalCIDR0 W =
     (let internalCIDR = TrimSpace internalCIDR0
      in case rule_meta C eipMetadata internalCIDR of
           Inl err \<Rightarrow> (W, Some err)
         | Inr m \<Rightarrow>
             let name = GetResourceEffectiveID C m
             in case k_create E ''snat'' name (nw_snats W) name
                       \<lparr>sa_labels = GetLabels (nc_prefix C) m, sa_eip = GetResourceEffectiveID C eipMetadata, sa_internal = internalCIDR\<rparr> of
                  Inl err \<Rightarrow> (W, Some err)
                | Inr snats \<Rightarrow> (W\<lparr>nw_snats := snats\<rparr>, None))"

definition dnat_contents :: "string \<Rightarrow> string \<Rightarrow> string \<Rightarrow> string \<Rightarrow> string" where
  "dnat_contents externalPort internalIP internalPort protocol =
     externalPort @ ''-'' @ internalIP @ ''-'' @ internalPort @ ''-'' @ protocol"

definition CreateDNAT :: "net_cfg \<Rightarrow> net_env \<Rightarrow> spx_metadata \<Rightarrow> InfoDNAT \<Rightarrow> net_world \<Rightarrow> net_world \<times> go_error option" where
  "CreateDNAT C E eipMetadata item W =
     (let externalPort = TrimSpace (dn_externalPort item); internalIP = TrimSpace (dn_internalIP item);
          internalPort = TrimSpace (dn_internalPort item)
      in case rule_meta C eipMetadata (dnat_contents externalPort internalIP internalPort (dn_protocol item)) of
           Inl err \<Rightarrow> (W, Some err)
         | Inr m \<Rightarrow>
             let name = GetResourceEffectiveID C m
             in case k_create E ''dnat'' name (nw_dnats W) name
                       \<lparr>da_labels = GetLabels (nc_prefix C) m, da_eip = GetResourceEffectiveID C eipMetadata,
                        da_external = externalPort, da_protocol = dn_protocol item, da_internalIP = internalIP,
                        da_internalPort = internalPort\<rparr> of
                  Inl err \<Rightarrow> (W, Some err)
                | Inr dnats \<Rightarrow> (W\<lparr>nw_dnats := dnats\<rparr>, None))"

definition snat_ListResources :: "net_env \<Rightarrow> net_world \<Rightarrow> string \<Rightarrow> string \<Rightarrow> go_error + (string \<times> snat_obj) list" where
  "snat_ListResources E W namespace eip =
     (case k_get E ''legacy-snat'' eip (nw_snats W) eip of
        Inr oldSnat \<Rightarrow> Inr [(eip, oldSnat)]
      | Inl err \<Rightarrow>
          if \<not> IsNotFound err then Inl err
          else (case ne_fails E (''snats'', NList, eip) of
                  Some e \<Rightarrow> if IsNotFound e then Inr [] else Inl e
                | None \<Rightarrow> Inr (filter (\<lambda>(_, s). selected SpxLabelProjectID namespace (sa_labels s) \<and> sa_eip s = eip) (gentries (nw_snats W)))))"

definition snat_List :: "net_env \<Rightarrow> net_world \<Rightarrow> string \<Rightarrow> string \<Rightarrow> go_error + (bool \<times> string \<times> snat_obj) list" where
  "snat_List E W namespace eip =
     (case k_get E ''legacy-snat'' eip (nw_snats W) eip of
        Inr oldSnat \<Rightarrow> Inr [(True, eip, oldSnat)]
      | Inl err \<Rightarrow>
          if \<not> IsNotFound err then Inl err
          else Inr (map (Pair False) (filter (\<lambda>(_, s). str_get (sa_labels s) SpxLabelProjectID = namespace \<and> sa_eip s = eip) (ne_snats E W))))"

definition dnat_ListResources :: "net_env \<Rightarrow> net_world \<Rightarrow> string \<Rightarrow> string \<Rightarrow> go_error + (string \<times> dnat_obj) list" where
  "dnat_ListResources E W namespace eip =
     (case ne_fails E (''dnats'', NList, eip) of
        Some e \<Rightarrow> if IsNotFound e then Inr [] else Inl e
      | None \<Rightarrow> Inr (filter (\<lambda>(_, d). selected SpxLabelProjectID namespace (da_labels d) \<and> da_eip d = eip) (gentries (nw_dnats W))))"

definition dnat_List :: "net_env \<Rightarrow> net_world \<Rightarrow> string \<Rightarrow> string \<Rightarrow> (string \<times> dnat_obj) list" where
  "dnat_List E W namespace eip =
     filter (\<lambda>(_, d). str_get (da_labels d) SpxLabelProjectID = namespace \<and> da_eip d = eip) (ne_dnats E W)"

definition delete_fip :: "net_env \<Rightarrow> string \<Rightarrow> net_world \<Rightarrow> net_world \<times> go_error option" where
  "delete_fip E name W =
     (case k_delete E ''fip'' name (nw_fips W) name of
        Inl err \<Rightarrow> if IsNotFound err then (W, None) else (W, Some err)
      | Inr fips \<Rightarrow> (W\<lparr>nw_fips := fips\<rparr>, None))"

definition delete_snat :: "net_env \<Rightarrow> string \<Rightarrow> net_world \<Rightarrow> net_world \<times> go_error option" where
  "delete_snat E name W =
     (case k_delete E ''snat'' name (nw_snats W) name of
        Inl err \<Rightarrow> if IsNotFound err then (W, None) else (W, Some err)
      | Inr snats \<Rightarrow> (W\<lparr>nw_snats := snats\<rparr>, None))"

definition delete_dnat :: "net_env \<Rightarrow> string \<Rightarrow> net_world \<Rightarrow> net_world \<times> go_error option" where
  "delete_dnat E name W =
     (case k_delete E ''dnat'' name (nw_dnats W) name of
        Inl err \<Rightarrow> (W, Some err)
      | Inr dnats \<Rightarrow> (W\<lparr>nw_dnats := dnats\<rparr>, None))"

text \<open>The rules to have, by name, against the rules there are: the others go, the missing ones come.\<close>

definition UpdateSnat ::
  "net_cfg \<Rightarrow> net_env \<Rightarrow> spx_metadata \<Rightarrow> string list \<Rightarrow> (string \<times> snat_obj) list \<Rightarrow> net_world \<Rightarrow> net_world \<times> go_error option" where
  "UpdateSnat C E eipMetadata newSNATs existingSnats W =
     (if uuid_Parse (nc_uuid C) (ResourceEffectiveId eipMetadata) = None then (W, Some (Errorf ''invalid UUID''))
      else
     (case foldR (\<lambda>cidr acc. bindR (rule_meta C eipMetadata (TrimSpace cidr)) (\<lambda>m.
                     Inr (fmupd (GetResourceEffectiveID C m) (TrimSpace cidr) acc))) newSNATs fmempty of
        Inl err \<Rightarrow> (W, Some err)
      | Inr newSnatsMap \<Rightarrow>
          thenW (loopW (\<lambda>name. delete_snat E name) (filter (\<lambda>name. fmlookup newSnatsMap name = None) (map fst existingSnats)) W)
            (loopW (\<lambda>(snatName, cidr) W1.
                let labels = (case rule_meta C eipMetadata cidr of Inr m \<Rightarrow> GetLabels (nc_prefix C) m | Inl _ \<Rightarrow> fmempty)
                in case k_create E ''snat'' snatName (nw_snats W1) snatName
                          \<lparr>sa_labels = labels, sa_eip = GetResourceEffectiveID C eipMetadata, sa_internal = cidr\<rparr> of
                     Inl err \<Rightarrow> (W1, Some err)
                   | Inr snats \<Rightarrow> (W1\<lparr>nw_snats := snats\<rparr>, None))
              (filter (\<lambda>(snatName, _). snatName \<notin> set (map fst existingSnats)) (gentries newSnatsMap)))))"

record dnat_change =
  dc_old :: bool
  dc_new :: bool
  dc_eid :: string
  dc_info :: InfoDNAT

definition empty_dnat :: InfoDNAT where
  "empty_dnat = \<lparr>dn_externalPort = [], dn_internalIP = [], dn_internalPort = [], dn_protocol = []\<rparr>"

definition dnat_changes :: "InfoDNAT list \<Rightarrow> (string \<times> dnat_obj) list \<Rightarrow> (string, dnat_change) fmap" where
  "dnat_changes newDNATS oldDNATs =
     fold (\<lambda>s2 m.
         let val = dnat_contents (dn_externalPort s2) (dn_internalIP s2) (dn_internalPort s2) (dn_protocol s2)
         in fmupd val (case fmlookup m val of
                         Some c \<Rightarrow> \<lparr>dc_old = dc_old c, dc_new = True, dc_eid = dc_eid c, dc_info = s2\<rparr>
                       | None \<Rightarrow> \<lparr>dc_old = False, dc_new = True, dc_eid = [], dc_info = s2\<rparr>) m) newDNATS
       (fold (\<lambda>(name, s1) m.
          fmupd (dnat_contents (da_external s1) (da_internalIP s1) (da_internalPort s1) (da_protocol s1))
            \<lparr>dc_old = True, dc_new = False, dc_eid = name, dc_info = empty_dnat\<rparr> m) oldDNATs fmempty)"

definition UpdateDnat ::
  "net_cfg \<Rightarrow> net_env \<Rightarrow> spx_metadata \<Rightarrow> InfoDNAT list \<Rightarrow> (string \<times> dnat_obj) list \<Rightarrow> net_world \<Rightarrow> net_world \<times> go_error option" where
  "UpdateDnat C E eipMetadata newDNATS oldDNATs W =
     (let m = map snd (gentries (dnat_changes newDNATS oldDNATs))
      in thenW (loopW (\<lambda>c. CreateDNAT C E eipMetadata (dc_info c)) (filter (\<lambda>c. \<not> dc_old c \<and> dc_new c) m) W)
           (loopW (delete_dnat E) (map dc_eid (filter (\<lambda>c. dc_old c \<and> \<not> dc_new c) m))))"


section \<open>Operations\<close>

definition DeleteEip :: "net_cfg \<Rightarrow> net_env \<Rightarrow> net_world \<Rightarrow> string \<Rightarrow> string \<Rightarrow> net_world \<times> go_error option" where
  "DeleteEip C E W namespace name =
     (case k_get E ''delete-eip'' name (nw_eips W) name of
        Inl err \<Rightarrow> (W, Some err)
      | Inr eip \<Rightarrow>
     (case CheckProjectLabel (ei_labels eip) name namespace of
        Some err \<Rightarrow> (W, Some err)
      | None \<Rightarrow>
     (case IsEditAllowed C (ei_labels eip) of
        Some err \<Rightarrow> (W, Some err)
      | None \<Rightarrow>
          thenW (delete_fip E name W) (\<lambda>W1.
          case snat_ListResources E W1 namespace name of
            Inl err \<Rightarrow> (W1, Some err)
          | Inr snatList \<Rightarrow>
          thenW (loopW (delete_snat E) (map fst snatList) W1) (\<lambda>W2.
          case dnat_ListResources E W2 namespace name of
            Inl err \<Rightarrow> (W2, Some err)
          | Inr dnatList \<Rightarrow>
          thenW (loopW (delete_dnat E) (map fst dnatList) W2) (\<lambda>W3.
          case k_delete E ''eip'' name (nw_eips W3) name of
            Inl err \<Rightarrow> (W3, Some err)
          | Inr eips \<Rightarrow> (W3\<lparr>nw_eips := eips\<rparr>, None)))))))"

definition cleanEip :: "net_cfg \<Rightarrow> net_env \<Rightarrow> net_world \<Rightarrow> string \<Rightarrow> string \<Rightarrow> net_world" where
  "cleanEip C E W namespace eipEID = fst (DeleteEip C E W namespace eipEID)"

text \<open>The rules of a new mode, and the removal of the EIP when one cannot be created.\<close>

definition createRules ::
  "net_cfg \<Rightarrow> net_env \<Rightarrow> spx_metadata \<Rightarrow> string \<Rightarrow> string list \<Rightarrow> InfoDNAT list \<Rightarrow> net_world \<Rightarrow> net_world \<times> go_error option" where
  "createRules C E m internalIP snat dnat W =
     (case (if internalIP \<noteq> [] then CreateFip C E internalIP m W
            else thenW (loopW (CreateSNAT C E m) snat W) (loopW (CreateDNAT C E m) dnat)) of
        (W1, Some err) \<Rightarrow> (cleanEip C E W1 (GetProjectID C m) (GetResourceEffectiveID C m), Some err)
      | (W1, None) \<Rightarrow> (W1, None))"

record CreateEIPInfo =
  ce_meta :: spx_metadata
  ce_subnetEId :: string
  ce_internalIP :: string
  ce_snat :: "string list"
  ce_dnat :: "InfoDNAT list"

definition CreateEip :: "net_cfg \<Rightarrow> net_env \<Rightarrow> net_world \<Rightarrow> CreateEIPInfo \<Rightarrow> net_world \<times> go_error option" where
  "CreateEip C E W s =
     (case convert C (ce_meta s) (ce_meta s) of
        Inl err \<Rightarrow> (W, Some err)
      | Inr m \<Rightarrow>
      if ce_internalIP s = [] \<and> ce_snat s = [] then (W, Some (Errorf ''no internalIP or SNAT specified''))
      else
     (case getAccessibleSubnet E W (ce_subnetEId s) (GetProjectID C m) of
        Inl err \<Rightarrow> (W, Some err)
      | Inr subnet \<Rightarrow>
     (case validateMode (sn_cidr subnet) (ce_internalIP s) (ce_snat s) (ce_dnat s) of
        Some err \<Rightarrow> (W, Some err)
      | None \<Rightarrow>
     (let name = GetResourceEffectiveID C m
      in case k_create E ''eip'' name (nw_eips W) name
                \<lparr>ei_labels = GetLabels (nc_prefix C) m, ei_annotations = fmap_of_list [(''ovn.kubernetes.io/bgp'', ''true'')],
                 ei_gateway = ce_subnetEId s, ei_external = nc_externalSubnet C\<rparr> of
           Inl err \<Rightarrow> (W, Some err)
         | Inr eips \<Rightarrow> createRules C E m (ce_internalIP s) (ce_snat s) (ce_dnat s) (W\<lparr>nw_eips := eips\<rparr>)))))"

record UpdateEIPInfo =
  ue_meta :: spx_metadata
  ue_internalIP :: string
  ue_snat :: "string list"
  ue_dnat :: "InfoDNAT list"

definition clearOldMode :: "net_env \<Rightarrow> string \<Rightarrow> string \<Rightarrow> bool \<Rightarrow> net_world \<Rightarrow> net_world \<times> go_error option" where
  "clearOldMode E namespace name isOldModeFip W =
     (if isOldModeFip then delete_fip E name W
      else case snat_ListResources E W namespace name of
             Inl err \<Rightarrow> (W, Some err)
           | Inr snatList \<Rightarrow>
               thenW (loopW (delete_snat E) (map fst snatList) W) (\<lambda>W1.
                 loopW (delete_dnat E) (map fst (dnat_List E W1 namespace name)) W1))"

definition replaceFip :: "net_env \<Rightarrow> string \<Rightarrow> fip_obj \<Rightarrow> string \<Rightarrow> net_world \<Rightarrow> net_world \<times> go_error option" where
  "replaceFip E name oldFip internalIP W =
     (case k_delete E ''replace-fip'' name (nw_fips W) name of
        Inl err \<Rightarrow> (W, Some err)
      | Inr fips \<Rightarrow>
          (case k_create E ''replace-fip'' name fips name
                  \<lparr>fi_labels = fi_labels oldFip, fi_eip = fi_eip oldFip, fi_internal = TrimSpace internalIP\<rparr> of
             Inl err \<Rightarrow> (W\<lparr>nw_fips := fips\<rparr>, Some err)
           | Inr fips' \<Rightarrow> (W\<lparr>nw_fips := fips'\<rparr>, None)))"

definition updateNatRules ::
  "net_cfg \<Rightarrow> net_env \<Rightarrow> spx_metadata \<Rightarrow> string \<Rightarrow> string \<Rightarrow> string list \<Rightarrow> InfoDNAT list \<Rightarrow> net_world \<Rightarrow> net_world \<times> go_error option" where
  "updateNatRules C E m namespace name snat dnat W =
     (case snat_ListResources E W namespace name of
        Inl err \<Rightarrow> (W, Some err)
      | Inr existingSnats \<Rightarrow>
          thenW (UpdateSnat C E m snat existingSnats W) (\<lambda>W1.
          case dnat_ListResources E W1 namespace name of
            Inl err \<Rightarrow> (W1, Some err)
          | Inr dnatList \<Rightarrow> UpdateDnat C E m dnat dnatList W1))"

definition UpdateEip ::
  "net_cfg \<Rightarrow> net_env \<Rightarrow> net_world \<Rightarrow> UpdateEIPInfo \<Rightarrow> string \<Rightarrow> string \<Rightarrow> net_world \<times> go_error option" where
  "UpdateEip C E W s namespace name =
     (case convert C (ue_meta s) (ue_meta s) of
        Inl err \<Rightarrow> (W, Some err)
      | Inr m \<Rightarrow>
     (case k_get E ''update-eip'' name (nw_eips W) name of
        Inl err \<Rightarrow> (W, Some err)
      | Inr eip \<Rightarrow>
     (case CheckProjectLabel (ei_labels eip) name namespace of
        Some err \<Rightarrow> (W, Some err)
      | None \<Rightarrow>
     (case IsEditAllowed C (ei_labels eip) of
        Some err \<Rightarrow> (W, Some err)
      | None \<Rightarrow>
     (case getAccessibleSubnet E W (ei_gateway eip) namespace of
        Inl err \<Rightarrow> (W, Some err)
      | Inr subnet \<Rightarrow>
     (case validateMode (sn_cidr subnet) (ue_internalIP s) (ue_snat s) (ue_dnat s) of
        Some err \<Rightarrow> (W, Some err)
      | None \<Rightarrow>
     (case k_get E ''old-fip'' name (nw_fips W) name of
        Inr oldFip \<Rightarrow>
          if ue_internalIP s = []
          then thenW (createRules C E m [] (ue_snat s) (ue_dnat s) W) (clearOldMode E namespace name True)
          else replaceFip E name oldFip (ue_internalIP s) W
      | Inl _ \<Rightarrow>
          if ue_internalIP s \<noteq> []
          then thenW (createRules C E m (ue_internalIP s) [] [] W) (clearOldMode E namespace name False)
          else updateNatRules C E m namespace name (ue_snat s) (ue_dnat s) W)))))))"

definition GetEip :: "net_env \<Rightarrow> net_world \<Rightarrow> string \<Rightarrow> string \<Rightarrow> go_error + eip_obj" where
  "GetEip E W namespace name =
     bindR (k_get E ''get-eip'' name (nw_eips W) name) (\<lambda>eip.
       case CheckProjectLabel (ei_labels eip) name namespace of Some err \<Rightarrow> Inl err | None \<Rightarrow> Inr eip)"

definition ListEips :: "net_env \<Rightarrow> net_world \<Rightarrow> string \<Rightarrow> (string \<times> eip_obj) list" where
  "ListEips E W namespace = filter (\<lambda>(_, eip). str_get (ei_labels eip) SpxLabelProjectID = namespace) (ne_eips E W)"

definition fip_Get :: "net_env \<Rightarrow> net_world \<Rightarrow> string \<Rightarrow> go_error + fip_obj option" where
  "fip_Get E W name =
     (case k_get E ''get-fip'' name (nw_fips W) name of
        Inl err \<Rightarrow> if IsNotFound err then Inr None else Inl err
      | Inr fip \<Rightarrow> Inr (Some fip))"

end
