(* ===== verification/Net_Invariant.thy ===== *)
theory Net_Invariant
  imports Net_LB Net_Eip
begin

text \<open>
  Lemmas on the operations of the network: what each of them leaves alone, the refusal of requests on
  objects of other projects (locale \<open>project_guarded\<close>, interpreted on all updates and deletions), and
  the virtual IPs of load balancers in every state that requests reach (\<open>net_step\<close>, \<open>net_reachable\<close>).
\<close>

section \<open>What an operation leaves alone\<close>

definition same_rules :: "net_world \<Rightarrow> net_world \<Rightarrow> bool" where
  "same_rules W W' \<longleftrightarrow> nw_rules W' = nw_rules W \<and> nw_subnets W' = nw_subnets W"

lemma same_rules_refl [simp]: "same_rules W W"
  by (simp add: same_rules_def)

lemma same_rules_trans: "same_rules W W1 \<Longrightarrow> same_rules W1 W2 \<Longrightarrow> same_rules W W2"
  by (simp add: same_rules_def)

lemma same_rules_updates [simp]:
  "same_rules W (W\<lparr>nw_vpcs := a\<rparr>)" "same_rules W (W\<lparr>nw_gateways := b\<rparr>)" "same_rules W (W\<lparr>nw_nads := c\<rparr>)"
  "same_rules W (W\<lparr>nw_eips := d\<rparr>)" "same_rules W (W\<lparr>nw_fips := e\<rparr>)" "same_rules W (W\<lparr>nw_snats := f\<rparr>)" "same_rules W (W\<lparr>nw_dnats := g\<rparr>)"
  by (simp_all add: same_rules_def)

lemmas op_splits = option.splits sum.splits prod.splits if_splits

subsection \<open>VPCs and NAT gateways\<close>

lemma updateVPC_frame: "same_rules W (fst (updateVPC E W n v ns m r))"
  by (simp add: updateVPC_def split: op_splits)

lemma AddNatGateway_frame: "same_rules W (fst (AddNatGateway E W ns v l s))"
  by (simp add: AddNatGateway_def updateVPC_frame split: op_splits)

lemma RemoveNatGateway_frame: "same_rules W (fst (RemoveNatGateway E W v s l))"
  by (simp add: RemoveNatGateway_def Let_def split: op_splits)

lemma vpc_frames:
  "same_rules W (fst (CreateVPC C E W v))" "same_rules W (fst (UpdateVPC C E W r ns n))" "same_rules W (fst (DeleteVPC E W ns n))"
  by (simp_all add: CreateVPC_def UpdateVPC_def DeleteVPC_def Let_def updateVPC_frame split: op_splits)

lemma CreateNatGateway_frame: "same_rules W (fst (CreateNatGateway C E W m l v))"
proof -
  have "same_rules W (fst (AddNatGateway E (W\<lparr>nw_gateways := g\<rparr>) ns v l s))" for g ns s
    by (rule same_rules_trans [OF same_rules_updates(2) AddNatGateway_frame])
  then show ?thesis by (simp add: CreateNatGateway_def Let_def split: op_splits)
qed

lemma DeleteNatGateway_frame: "same_rules W (fst (DeleteNatGateway C E W ns v n))"
proof -
  have "same_rules W W1" if "RemoveNatGateway E W v n l = (W1, e)" for l W1 e
    using RemoveNatGateway_frame [of W E v n l] that by simp
  then show ?thesis by (auto simp: DeleteNatGateway_def same_rules_def split: op_splits)
qed

lemma UpdateNatGateway_frame: "same_rules W (fst (UpdateNatGateway C E W l ns n))"
  by (simp add: UpdateNatGateway_def split: op_splits)

subsection \<open>External IPs\<close>

lemma thenW_frame: "same_rules W (fst r) \<Longrightarrow> (\<And>W1. same_rules W1 (fst (f W1))) \<Longrightarrow> same_rules W (fst (thenW r f))"
  using same_rules_trans by (fastforce simp: thenW_def split: op_splits)

lemma loopW_frame: "(\<And>x W1. same_rules W1 (fst (f x W1))) \<Longrightarrow> same_rules W (fst (loopW f xs W))"
proof (induction xs arbitrary: W)
  case (Cons x xs)
  show ?case
  proof (cases "f x W")
    case (Pair W1 e)
    have "same_rules W W1" using Cons.prems [of W x] Pair by simp
    then show ?thesis using Cons Pair same_rules_trans by (auto split: option.splits)
  qed
qed simp

lemma rule_frames:
  "same_rules W (fst (CreateFip C E i m W))" "same_rules W (fst (CreateSNAT C E m c W))" "same_rules W (fst (CreateDNAT C E m d W))"
  "same_rules W (fst (delete_fip E n W))" "same_rules W (fst (delete_snat E n W))" "same_rules W (fst (delete_dnat E n W))"
  by (simp_all add: CreateFip_def CreateSNAT_def CreateDNAT_def delete_fip_def delete_snat_def delete_dnat_def Let_def split: op_splits)

lemma UpdateSnat_frame: "same_rules W (fst (UpdateSnat C E m new old W))"
  by (auto simp: UpdateSnat_def Let_def split: op_splits intro!: thenW_frame loopW_frame rule_frames)

lemma UpdateDnat_frame: "same_rules W (fst (UpdateDnat C E m new old W))"
  by (auto simp: UpdateDnat_def Let_def intro!: thenW_frame loopW_frame rule_frames)

lemma DeleteEip_frame: "same_rules W (fst (DeleteEip C E W ns n))"
  by (auto simp: DeleteEip_def split: op_splits intro!: thenW_frame loopW_frame rule_frames)

lemma createRules_frame: "same_rules W (fst (createRules C E m i s d W))"
proof -
  let ?r = "if i \<noteq> [] then CreateFip C E i m W else thenW (loopW (CreateSNAT C E m) s W) (loopW (CreateDNAT C E m) d)"
  have "same_rules W (fst ?r)" by (auto intro!: thenW_frame loopW_frame rule_frames)
  then show ?thesis using DeleteEip_frame same_rules_trans
    by (cases ?r) (fastforce simp: createRules_def cleanEip_def split: option.splits)
qed

lemma eip_frames:
  "same_rules W (fst (CreateEip C E W ci))" "same_rules W (fst (UpdateEip C E W ui ns n))" "same_rules W (fst (DeleteEip C E W ns n))"
proof -
  have "same_rules W (fst (createRules C E m i s d (W\<lparr>nw_eips := x\<rparr>)))" for m i s d x
    by (rule same_rules_trans [OF same_rules_updates(4) createRules_frame])
  then show "same_rules W (fst (CreateEip C E W ci))" by (simp add: CreateEip_def Let_def split: op_splits)
  have "same_rules W (fst (clearOldMode E ns n b W))" for b W
    by (auto simp: clearOldMode_def split: op_splits intro!: thenW_frame loopW_frame rule_frames)
  moreover have "same_rules W (fst (replaceFip E n old i W))" for old i W
    by (simp add: replaceFip_def split: op_splits)
  moreover have "same_rules W (fst (updateNatRules C E m ns n s d W))" for m s d W
    by (auto simp: updateNatRules_def split: op_splits intro!: thenW_frame UpdateSnat_frame UpdateDnat_frame)
  ultimately show "same_rules W (fst (UpdateEip C E W ui ns n))"
    by (auto simp: UpdateEip_def split: op_splits intro!: thenW_frame createRules_frame)
qed (rule DeleteEip_frame)


section \<open>Requests on objects of other projects\<close>

text \<open>
  The updates and deletions of the controller and the project of the object a request names:
  \<open>None\<close> when there is no such object.
\<close>

datatype net_change =
    Change_UpdateVPC "static_route list"
  | Change_DeleteVPC
  | Change_UpdateSubnet UpdateSubnetInfo
  | Change_DeleteSubnet
  | Change_UpdateLoadBalancer UpdateLoadBalancerInfo
  | Change_DeleteLoadBalancer
  | Change_UpdateEip UpdateEIPInfo
  | Change_DeleteEip

fun net_change_apply ::
  "net_cfg \<Rightarrow> net_env \<Rightarrow> net_change \<Rightarrow> net_world \<Rightarrow> string \<Rightarrow> string \<Rightarrow> net_world \<times> go_error option" where
  "net_change_apply C E (Change_UpdateVPC r) W ns name = UpdateVPC C E W r ns name"
| "net_change_apply C E Change_DeleteVPC W ns name = DeleteVPC E W ns name"
| "net_change_apply C E (Change_UpdateSubnet s) W ns name = UpdateSubnet C E W s ns name"
| "net_change_apply C E Change_DeleteSubnet W ns name = DeleteSubnet C E W ns name"
| "net_change_apply C E (Change_UpdateLoadBalancer l) W ns name = UpdateLoadBalancer C E W l ns name"
| "net_change_apply C E Change_DeleteLoadBalancer W ns name = DeleteLoadBalancer C E W ns name"
| "net_change_apply C E (Change_UpdateEip e) W ns name = UpdateEip C E W e ns name"
| "net_change_apply C E Change_DeleteEip W ns name = DeleteEip C E W ns name"

definition project_of :: "('o \<Rightarrow> (string, string) fmap) \<Rightarrow> (string, 'o) fmap \<Rightarrow> string \<Rightarrow> string option" where
  "project_of labels m name = map_option (\<lambda>x. str_get (labels x) SpxLabelProjectID) (fmlookup m name)"

fun net_owner :: "net_change \<Rightarrow> net_world \<Rightarrow> string \<Rightarrow> string option" where
  "net_owner (Change_UpdateVPC r) W name = project_of vp_labels (nw_vpcs W) name"
| "net_owner Change_DeleteVPC W name = project_of vp_labels (nw_vpcs W) name"
| "net_owner (Change_UpdateSubnet s) W name = project_of sn_labels (nw_subnets W) name"
| "net_owner Change_DeleteSubnet W name = project_of sn_labels (nw_subnets W) name"
| "net_owner (Change_UpdateLoadBalancer l) W name = project_of ru_labels (nw_rules W) name"
| "net_owner Change_DeleteLoadBalancer W name = project_of ru_labels (nw_rules W) name"
| "net_owner (Change_UpdateEip e) W name = project_of ei_labels (nw_eips W) name"
| "net_owner Change_DeleteEip W name = project_of ei_labels (nw_eips W) name"

text \<open>What a store of objects promises of requests on objects of other projects, and what follows for
  any sequence of them.\<close>

locale project_guarded =
  fixes apply_change :: "'e \<Rightarrow> 'c \<Rightarrow> 'w \<Rightarrow> string \<Rightarrow> string \<Rightarrow> 'w \<times> go_error option"
    and owner :: "'c \<Rightarrow> 'w \<Rightarrow> string \<Rightarrow> string option"
  assumes refused: "owner c W name \<noteq> Some ns \<Longrightarrow> fst (apply_change E c W ns name) = W"
    and reported: "owner c W name \<noteq> Some ns \<Longrightarrow> snd (apply_change E c W ns name) \<noteq> None"
begin

lemma foreign_requests:
  "list_all (\<lambda>(E, c, name). owner c W name \<noteq> Some ns) reqs \<Longrightarrow>
     fold (\<lambda>(E, c, name) V. fst (apply_change E c V ns name)) reqs W = W"
  by (induction reqs) (auto simp: refused)

end

lemma k_get_foreign:
  assumes "project_of labels m name \<noteq> Some ns" "k_get E site name m name = Inr x"
  shows "CheckProjectLabel (labels x) name ns = Some (NewNotFound name)" "str_get (labels x) SpxLabelProjectID \<noteq> ns"
  using assms k_get_Inr [OF assms(2)] by (auto simp: project_of_def CheckProjectLabel_def)

lemma foreign_refused:
  assumes "net_owner c W name \<noteq> Some ns"
  shows "\<exists>err. net_change_apply C E c W ns name = (W, Some err)"
proof (cases c)
  case Change_DeleteVPC
  then show ?thesis using assms k_get_foreign(2) [of vp_labels "nw_vpcs W"]
    by (auto simp: DeleteVPC_def GetVPC_def bindR_def split: op_splits)
qed (use assms in \<open>auto simp: UpdateVPC_def UpdateSubnet_def DeleteSubnet_def UpdateLoadBalancer_def DeleteLoadBalancer_def
    UpdateEip_def DeleteEip_def k_get_foreign split: sum.splits option.splits\<close>)

interpretation net_guard: project_guarded "net_change_apply C" net_owner for C
  using foreign_refused by unfold_locales (metis fst_conv, metis snd_conv option.distinct(1))

definition net_requests :: "net_cfg \<Rightarrow> string \<Rightarrow> (net_env \<times> net_change \<times> string) list \<Rightarrow> net_world \<Rightarrow> net_world" where
  "net_requests C ns reqs W = fold (\<lambda>(E, c, name) V. fst (net_change_apply C E c V ns name)) reqs W"


section \<open>Virtual IPs of load balancers\<close>

definition rule_router :: "rule_obj \<Rightarrow> string" where
  "rule_router r = str_get (ru_annotations r) logicalRouterAnnotation"

definition rule_switch :: "rule_obj \<Rightarrow> string" where
  "rule_switch r = str_get (ru_annotations r) logicalSwitchAnnotation"

definition vips_unique :: "net_world \<Rightarrow> bool" where
  "vips_unique W \<longleftrightarrow> (\<forall>n1 r1 n2 r2. fmlookup (nw_rules W) n1 = Some r1 \<longrightarrow> fmlookup (nw_rules W) n2 = Some r2 \<longrightarrow>
     rule_router r1 \<noteq> [] \<longrightarrow> rule_router r2 = rule_router r1 \<longrightarrow> ru_vip r2 = ru_vip r1 \<longrightarrow> n1 = n2)"

definition rules_pinned :: "net_world \<Rightarrow> bool" where
  "rules_pinned W \<longleftrightarrow> (\<forall>n r. fmlookup (nw_rules W) n = Some r \<longrightarrow> rule_switch r \<noteq> [] \<longrightarrow>
     (\<exists>s. fmlookup (nw_subnets W) (rule_switch r) = Some s \<and> sn_vpc s = rule_router r))"

definition vip_inv :: "net_world \<Rightarrow> bool" where
  "vip_inv W \<longleftrightarrow> vips_unique W \<and> rules_pinned W"

text \<open>
  Requests, by whichever project, against an API server that may fail any call. Two premises: the
  cache of rules a load balancer request reads is up to date, and a subnet is deleted only when no
  load balancer is attached to it, which \<^verbatim>\<open>DeleteSubnet\<close> does not check.
\<close>

definition cached :: "net_env \<Rightarrow> net_world \<Rightarrow> bool" where
  "cached E W \<longleftrightarrow> ne_rules E W = gentries (nw_rules W)"

definition attached :: "net_world \<Rightarrow> string \<Rightarrow> bool" where
  "attached W name \<longleftrightarrow> (\<exists>n r. fmlookup (nw_rules W) n = Some r \<and> rule_switch r = name)"

inductive net_step :: "net_cfg \<Rightarrow> net_world \<Rightarrow> net_world \<Rightarrow> bool" for C where
  create_lb: "cached E W \<Longrightarrow> net_step C W (fst (CreateLoadBalancer C E W info))"
| create_subnet: "net_step C W (fst (CreateSubnet C E W s))"
| create_vpc: "net_step C W (fst (CreateVPC C E W m))"
| create_eip: "net_step C W (fst (CreateEip C E W e))"
| change: "cached E W \<Longrightarrow> c = Change_DeleteSubnet \<longrightarrow> \<not> attached W name \<Longrightarrow> net_step C W (fst (net_change_apply C E c W ns name))"

inductive net_reachable :: "net_cfg \<Rightarrow> net_world \<Rightarrow> bool" for C where
  start: "nw_rules W = fmempty \<Longrightarrow> net_reachable C W"
| step: "net_reachable C W \<Longrightarrow> net_step C W W' \<Longrightarrow> net_reachable C W'"

lemma vip_inv_same: "same_rules W W' \<Longrightarrow> vip_inv W \<Longrightarrow> vip_inv W'"
  by (simp add: vip_inv_def vips_unique_def rules_pinned_def same_rules_def)

lemma vip_inv_same_rules:
  assumes "vip_inv W" "nw_rules W' = nw_rules W"
    and "\<And>n s. fmlookup (nw_subnets W) n = Some s \<Longrightarrow> attached W n \<Longrightarrow> \<exists>s'. fmlookup (nw_subnets W') n = Some s' \<and> sn_vpc s' = sn_vpc s"
  shows "vip_inv W'"
proof -
  have "vips_unique W'" using assms(1,2) by (simp add: vip_inv_def vips_unique_def)
  moreover have "rules_pinned W'"
    unfolding rules_pinned_def assms(2)
  proof (intro allI impI)
    fix n r assume r: "fmlookup (nw_rules W) n = Some r" "rule_switch r \<noteq> []"
    then obtain s where s: "fmlookup (nw_subnets W) (rule_switch r) = Some s" "sn_vpc s = rule_router r"
      using assms(1) by (auto simp: vip_inv_def rules_pinned_def)
    have "attached W (rule_switch r)" using r(1) by (auto simp: attached_def)
    from assms(3) [OF s(1) this] s(2) show "\<exists>s. fmlookup (nw_subnets W') (rule_switch r) = Some s \<and> sn_vpc s = rule_router r" by auto
  qed
  ultimately show ?thesis by (simp add: vip_inv_def)
qed

subsection \<open>The check of the address\<close>

lemma vipConflict_False:
  "vipConflict E vpc self cs = Inr False \<Longrightarrow> (n, r) \<in> set cs \<Longrightarrow> n \<noteq> self \<Longrightarrow> rule_vpc E n r \<noteq> Inr vpc"
  by (induction cs) (auto simp: result_simps split: if_splits)

lemma checkVIPAvailable_None:
  assumes "checkVIPAvailable E W vip vpc self = None" "cached E W"
    "fmlookup (nw_rules W) n = Some r" "n \<noteq> self" "rule_router r = vpc" "vpc \<noteq> []"
  shows "ru_vip r \<noteq> vip"
proof
  assume "ru_vip r = vip"
  then have "(n, r) \<in> set (ByIndex E W (SwitchLBRuleVPCVIPKey vpc vip))"
    using assms(2,3,5,6) by (auto simp: ByIndex_def cached_def set_gentries switchLBRuleVPCVIP_def rule_router_def)
  moreover have "vipInUse E W vip vpc self = Inr False"
    using assms(1) by (auto simp: checkVIPAvailable_def split: sum.splits if_splits)
  ultimately have "rule_vpc E n r \<noteq> Inr vpc" using assms(4) unfolding vipInUse_def by (auto dest!: vipConflict_False)
  with assms(5,6) show False by (simp add: rule_vpc_def rule_router_def)
qed

text \<open>Storing a rule under a name, new or not, whose address no other rule of its VPC has.\<close>

lemma vip_inv_upd:
  assumes "vip_inv W" "rule_router r \<noteq> []"
    and "\<And>n q. fmlookup (nw_rules W) n = Some q \<Longrightarrow> n \<noteq> name \<Longrightarrow> rule_router q = rule_router r \<Longrightarrow> ru_vip q \<noteq> ru_vip r"
    and "fmlookup (nw_subnets W) (rule_switch r) = Some s" "sn_vpc s = rule_router r"
  shows "vip_inv (W\<lparr>nw_rules := fmupd name r (nw_rules W)\<rparr>)"
  using assms unfolding vip_inv_def vips_unique_def rules_pinned_def by (auto split: if_splits) metis+

lemma getRuleSubnet_Inr:
  assumes "getRuleSubnet E W name ns = Inr s"
  shows "fmlookup (nw_subnets W) name = Some s" "sn_vpc s \<noteq> []"
  using assms by (auto simp: getRuleSubnet_def dest: k_get_Inr split: sum.splits if_splits)

lemma buildSpec_vip: "buildSpec vip ns sel eps ports = Inr spec \<Longrightarrow> sp_vip spec = vip"
  by (auto simp: buildSpec_def Let_def result_simps split: option.splits if_splits)

lemma CreateLoadBalancer_Some: "CreateLoadBalancer C E W info = (W', Some e) \<Longrightarrow> W' = W"
  by (auto simp: CreateLoadBalancer_def Let_def split: op_splits)

lemma CreateLoadBalancer_None:
  assumes "CreateLoadBalancer C E W info = (W', None)"
  shows "\<exists>spec s. buildSpec (cl_vip info) (GetProjectID C (cl_meta info)) (cl_selectors info) (cl_endpoints info) (cl_ports info) = Inr spec \<and>
    getRuleSubnet E W (cl_subnetEId info) (GetProjectID C (cl_meta info)) = Inr s \<and>
    checkEndpointsInSubnet (cl_subnetEId info) s (sp_endpoints spec) = None \<and>
    checkVIPAvailable E W (cl_vip info) (sn_vpc s) (GetResourceEffectiveID C (cl_meta info)) = None \<and>
    W' = W\<lparr>nw_rules := fmupd (GetResourceEffectiveID C (cl_meta info)) (newRule C info s spec) (nw_rules W)\<rparr>"
  using assms by (auto simp: CreateLoadBalancer_def Let_def dest: k_create_Inr split: op_splits)

lemma CreateLoadBalancer_inv:
  assumes "vip_inv W" "cached E W"
  shows "vip_inv (fst (CreateLoadBalancer C E W info))"
proof (cases "CreateLoadBalancer C E W info")
  case (Pair W' e)
  show ?thesis
  proof (cases e)
    case None
    let ?ns = "GetProjectID C (cl_meta info)" and ?eid = "GetResourceEffectiveID C (cl_meta info)"
    obtain spec s where o: "buildSpec (cl_vip info) ?ns (cl_selectors info) (cl_endpoints info) (cl_ports info) = Inr spec"
      "getRuleSubnet E W (cl_subnetEId info) ?ns = Inr s" "checkVIPAvailable E W (cl_vip info) (sn_vpc s) ?eid = None"
      "W' = W\<lparr>nw_rules := fmupd ?eid (newRule C info s spec) (nw_rules W)\<rparr>"
      using CreateLoadBalancer_None Pair None by blast
    let ?r = "newRule C info s spec"
    have r: "rule_router ?r = sn_vpc s" "rule_switch ?r = cl_subnetEId info" "ru_vip ?r = cl_vip info"
      using buildSpec_vip [OF o(1)]
      by (simp_all add: newRule_def rule_router_def rule_switch_def str_get_def logicalRouterAnnotation_def logicalSwitchAnnotation_def)
    note s = getRuleSubnet_Inr [OF o(2)]
    show ?thesis unfolding Pair fst_conv o(4)
      by (rule vip_inv_upd [OF assms(1)]) (use r s checkVIPAvailable_None [OF o(3) assms(2)] in auto)
  next
    case (Some a)
    then show ?thesis using Pair assms(1) CreateLoadBalancer_Some by (metis fst_conv)
  qed
qed

lemma UpdateLoadBalancer_Some: "UpdateLoadBalancer C E W info ns name = (W', Some e) \<Longrightarrow> W' = W"
  by (auto simp: UpdateLoadBalancer_def Let_def split: op_splits)

lemma UpdateLoadBalancer_None:
  assumes "UpdateLoadBalancer C E W info ns name = (W', None)"
  shows "\<exists>lb spec s. fmlookup (nw_rules W) name = Some lb \<and> rule_switch lb \<noteq> [] \<and> rule_switch lb = ul_subnetEId info \<and>
    buildSpec (ul_vip info) ns (ul_selectors info) (ul_endpoints info) (ul_ports info) = Inr spec \<and>
    getRuleSubnet E W (ul_subnetEId info) ns = Inr s \<and> checkVIPAvailable E W (ul_vip info) (sn_vpc s) name = None \<and>
    W' = W\<lparr>nw_rules := fmupd name (lb\<lparr>ru_vip := sp_vip spec, ru_selector := sp_selector spec,
       ru_endpoints := sp_endpoints spec, ru_ports := sp_ports spec\<rparr>) (nw_rules W)\<rparr>"
  using assms unfolding UpdateLoadBalancer_def Let_def rule_switch_def
  by (auto dest!: k_get_Inr k_update_Inr split: sum.splits option.splits if_splits)

lemma UpdateLoadBalancer_inv:
  assumes "vip_inv W" "cached E W"
  shows "vip_inv (fst (UpdateLoadBalancer C E W info ns name))"
proof (cases "UpdateLoadBalancer C E W info ns name")
  case (Pair W' e)
  show ?thesis
  proof (cases e)
    case None
    obtain lb spec s where o: "fmlookup (nw_rules W) name = Some lb" "rule_switch lb \<noteq> []" "rule_switch lb = ul_subnetEId info"
      "buildSpec (ul_vip info) ns (ul_selectors info) (ul_endpoints info) (ul_ports info) = Inr spec"
      "getRuleSubnet E W (ul_subnetEId info) ns = Inr s" "checkVIPAvailable E W (ul_vip info) (sn_vpc s) name = None"
      "W' = W\<lparr>nw_rules := fmupd name (lb\<lparr>ru_vip := sp_vip spec, ru_selector := sp_selector spec,
         ru_endpoints := sp_endpoints spec, ru_ports := sp_ports spec\<rparr>) (nw_rules W)\<rparr>"
      using UpdateLoadBalancer_None Pair None by blast
    let ?r = "lb\<lparr>ru_vip := sp_vip spec, ru_selector := sp_selector spec, ru_endpoints := sp_endpoints spec, ru_ports := sp_ports spec\<rparr>"
    have r: "rule_router ?r = rule_router lb" "rule_switch ?r = ul_subnetEId info" "ru_vip ?r = ul_vip info"
      using buildSpec_vip [OF o(4)] o(3) by (simp_all add: rule_router_def rule_switch_def)
    note s = getRuleSubnet_Inr [OF o(5)]
    have "sn_vpc s = rule_router lb" using assms(1) o(1,2,3) s(1) unfolding vip_inv_def rules_pinned_def by (metis option.inject)
    then show ?thesis unfolding Pair fst_conv o(7)
      by (intro vip_inv_upd [OF assms(1)]) (use r s checkVIPAvailable_None [OF o(6) assms(2)] in auto)
  next
    case (Some a)
    then show ?thesis using Pair assms(1) UpdateLoadBalancer_Some by (metis fst_conv)
  qed
qed

lemma DeleteLoadBalancer_inv: "vip_inv W \<Longrightarrow> vip_inv (fst (DeleteLoadBalancer C E W ns name))"
  by (auto simp: DeleteLoadBalancer_def vip_inv_def vips_unique_def rules_pinned_def dest!: k_delete_Inr split: op_splits)

subsection \<open>Subnets\<close>

lemma CreateSubnet_rules:
  "nw_rules (fst (CreateSubnet C E W s)) = nw_rules W"
  "fmlookup (nw_subnets W) n = Some x \<Longrightarrow> fmlookup (nw_subnets (fst (CreateSubnet C E W s))) n = Some x"
proof -
  have gw: "nw_rules (fst (CreateNatGateway C E V m l v)) = nw_rules V" "nw_subnets (fst (CreateNatGateway C E V m l v)) = nw_subnets V" for V m l v
    using CreateNatGateway_frame [of V C E m l v] by (simp_all add: same_rules_def)
  have nad: "CreateNAD E V ns i l = Inr V2 \<Longrightarrow> nw_rules V2 = nw_rules V \<and> nw_subnets V2 = nw_subnets V" for V ns i l V2
    by (auto simp: CreateNAD_def result_simps)
  show "nw_rules (fst (CreateSubnet C E W s)) = nw_rules W"
    unfolding CreateSubnet_def Let_def by (auto simp: gw dest!: nad split: sum.splits option.splits if_splits)
  assume "fmlookup (nw_subnets W) n = Some x"
  then show "fmlookup (nw_subnets (fst (CreateSubnet C E W s))) n = Some x"
    unfolding CreateSubnet_def Let_def by (auto simp: gw dest!: nad k_create_Inr k_delete_Inr split: sum.splits option.splits if_splits)
qed

lemmas gateway_frames = CreateNatGateway_frame DeleteNatGateway_frame UpdateNatGateway_frame

lemma UpdateSubnet_rules:
  "nw_rules (fst (UpdateSubnet C E W s ns name)) = nw_rules W"
  "fmlookup (nw_subnets W) n = Some x \<Longrightarrow> \<exists>y. fmlookup (nw_subnets (fst (UpdateSubnet C E W s ns name))) n = Some y \<and> sn_vpc y = sn_vpc x"
proof -
  note gw = gateway_frames [unfolded same_rules_def, THEN conjunct1] gateway_frames [unfolded same_rules_def, THEN conjunct2]
  show "nw_rules (fst (UpdateSubnet C E W s ns name)) = nw_rules W"
    unfolding UpdateSubnet_def Let_def by (auto simp: gw split: sum.splits option.splits natGwStatus.splits)
  assume "fmlookup (nw_subnets W) n = Some x"
  then show "\<exists>y. fmlookup (nw_subnets (fst (UpdateSubnet C E W s ns name))) n = Some y \<and> sn_vpc y = sn_vpc x"
    unfolding UpdateSubnet_def Let_def
    by (auto simp: gw dest!: k_get_Inr k_update_Inr split: sum.splits option.splits natGwStatus.splits)
qed

lemma DeleteSubnet_rules:
  "nw_rules (fst (DeleteSubnet C E W ns name)) = nw_rules W"
  "n \<noteq> name \<Longrightarrow> fmlookup (nw_subnets (fst (DeleteSubnet C E W ns name))) n = fmlookup (nw_subnets W) n"
proof -
  have nad: "DeleteNAD E W ns name = (V, e) \<Longrightarrow> nw_rules V = nw_rules W \<and> nw_subnets V = nw_subnets W" for V e
    by (auto simp: DeleteNAD_def split: op_splits)
  have gw: "DeleteNatGateway C E V ns v name = (V2, e) \<Longrightarrow> nw_rules V2 = nw_rules V \<and> nw_subnets V2 = nw_subnets V" for V v V2 e
    using DeleteNatGateway_frame [of V C E ns v name] by (simp add: same_rules_def)
  show "nw_rules (fst (DeleteSubnet C E W ns name)) = nw_rules W"
    unfolding DeleteSubnet_def by (auto dest!: nad gw split: op_splits)
  assume "n \<noteq> name"
  then show "fmlookup (nw_subnets (fst (DeleteSubnet C E W ns name))) n = fmlookup (nw_subnets W) n"
    unfolding DeleteSubnet_def by (auto dest!: nad gw k_delete_Inr split: op_splits)
qed

lemma net_step_inv: "net_step C W W' \<Longrightarrow> vip_inv W \<Longrightarrow> vip_inv W'"
proof (induction rule: net_step.induct)
  case (change E W c name ns)
  show ?case
  proof (cases c)
    case Change_DeleteSubnet
    then have "\<not> attached W name" using change by simp
    then have "fmlookup (nw_subnets (fst (DeleteSubnet C E W ns name))) n = fmlookup (nw_subnets W) n" if "attached W n" for n
      using that by (intro DeleteSubnet_rules) auto
    then show ?thesis using Change_DeleteSubnet DeleteSubnet_rules(1) by (auto intro!: vip_inv_same_rules [OF change.prems])
  qed (use change in \<open>auto intro: vip_inv_same vpc_frames eip_frames UpdateLoadBalancer_inv DeleteLoadBalancer_inv
        vip_inv_same_rules UpdateSubnet_rules\<close>)
qed (auto intro: CreateLoadBalancer_inv vip_inv_same vpc_frames eip_frames vip_inv_same_rules CreateSubnet_rules)

lemma net_reachable_inv: "net_reachable C W \<Longrightarrow> vip_inv W"
  by (induction rule: net_reachable.induct) (auto simp: net_step_inv, simp add: vip_inv_def vips_unique_def rules_pinned_def)

end
