(* ===== verification/Net_Targets.thy ===== *)
theory Net_Targets
  imports Net_Eip
begin

text \<open>
  Lemmas on external IPs: the addresses that a validated EIP can reach lie in its subnet, or among the
  virtual IPs of load balancers where that is allowed; and an EIP whose rules cannot be created is
  removed again.
\<close>

section \<open>Targets\<close>

definition in_blocks :: "string \<Rightarrow> ip \<Rightarrow> bool" where
  "in_blocks cidr ip \<longleftrightarrow>
     list_ex (\<lambda>c. case ParseCIDR (TrimSpace c) of None \<Rightarrow> False | Some (_, n) \<Rightarrow> IPNet_Contains n ip) (strings_Split CHR '','' cidr)"

definition target_ok :: "string \<Rightarrow> string \<Rightarrow> bool" where
  "target_ok cidr s \<longleftrightarrow> (\<exists>ip. ParseIP (TrimSpace s) = Some ip \<and> (in_blocks cidr ip \<or> in_blocks LoadBalancerVIPCIDR ip))"

definition source_ok :: "string \<Rightarrow> string \<Rightarrow> bool" where
  "source_ok cidr s \<longleftrightarrow>
     (if CHR ''/'' \<in> set (TrimSpace s)
      then \<exists>i n. ParseCIDR (TrimSpace s) = Some (i, n) \<and> (\<forall>ip. IPNet_Contains n ip \<longrightarrow> in_blocks cidr ip)
      else \<exists>ip. ParseIP (TrimSpace s) = Some ip \<and> in_blocks cidr ip)"

lemma dropWhile_idem [simp]: "dropWhile P (dropWhile P xs) = dropWhile P xs"
  by (induction xs) auto

lemma dropWhile_prefix: "dropWhile P (t @ u) = t @ u \<Longrightarrow> dropWhile P t = t"
proof (cases t)
  case (Cons a t')
  assume "dropWhile P (t @ u) = t @ u"
  then have "\<not> P a" using Cons by (metis append_Cons dropWhile_eq_Cons_conv)
  with Cons show ?thesis by simp
qed simp

lemma TrimSpace_idem [simp]: "TrimSpace (TrimSpace s) = TrimSpace s"
proof -
  let ?x = "dropWhile is_space s"
  have "?x = TrimSpace s @ rev (takeWhile is_space (rev ?x))"
    unfolding TrimSpace_def by (metis rev_append rev_rev_ident takeWhile_dropWhile_id)
  then have "dropWhile is_space (TrimSpace s) = TrimSpace s" by (metis dropWhile_prefix dropWhile_idem)
  then show ?thesis unfolding TrimSpace_def by simp
qed

lemma in_blocksI: "c \<in> set (strings_Split CHR '','' cidr) \<Longrightarrow> ParseCIDR (TrimSpace c) = Some (i, n) \<Longrightarrow> IPNet_Contains n ip \<Longrightarrow> in_blocks cidr ip"
  unfolding in_blocks_def list_ex_iff by (rule bexI [of _ c]) simp_all

lemma IsIPInCIDR_blocks: "IsIPInCIDR cidr s = Inr True \<Longrightarrow> \<exists>ip. ParseIP s = Some ip \<and> in_blocks cidr ip"
  by (erule IsIPInCIDR_True) (simp add: in_blocksI)

lemma checkInternalIP_None: "checkInternalIP cidr s = None \<Longrightarrow> target_ok cidr s"
  by (auto simp: checkInternalIP_def checkIPInSubnet_def Let_def target_ok_def dest!: IsIPInCIDR_blocks split: if_splits)

lemma checkCIDRInSubnet_None:
  assumes "checkCIDRInSubnet cidr s = None"
  shows "source_ok cidr s"
proof (cases "CHR ''/'' \<in> set (TrimSpace s)")
  case False
  then show ?thesis using assms
    by (auto simp: checkCIDRInSubnet_def checkIPInSubnet_def source_ok_def Let_def dest!: IsIPInCIDR_blocks split: if_splits)
next
  case True
  with assms obtain i n b where n: "ParseCIDR (TrimSpace s) = Some (i, n)" "b \<in> set (strings_Split CHR '','' cidr)" "blockContains n b"
    unfolding checkCIDRInSubnet_def Let_def list_ex_iff by (auto split: option.splits if_splits)
  then obtain j m where m: "ParseCIDR (TrimSpace b) = Some (j, m)" "ContainsNet m n"
    unfolding blockContains_def by (auto split: option.splits)
  have "in_blocks cidr ip" if "IPNet_Contains n ip" for ip
    using in_blocksI [OF n(2) m(1)] ContainsNet_sound [OF m(1) n(1) m(2) that] by blast
  with True n(1) show ?thesis unfolding source_ok_def by auto
qed

lemma first_error_None: "first_error f xs = None \<Longrightarrow> x \<in> set xs \<Longrightarrow> f x = None"
  by (induction xs) (auto split: option.splits)

lemma validateMode_None:
  assumes "validateMode cidr internalIP snat dnat = None"
  shows "internalIP \<noteq> [] \<Longrightarrow> target_ok cidr internalIP"
    "internalIP = [] \<Longrightarrow> c \<in> set snat \<Longrightarrow> source_ok cidr c"
    "internalIP = [] \<Longrightarrow> d \<in> set dnat \<Longrightarrow> target_ok cidr (dn_internalIP d)"
  using assms unfolding validateMode_def validateInternalTargets_def
  by (auto dest!: checkInternalIP_None first_error_None intro!: checkCIDRInSubnet_None split: option.splits if_splits)


definition eip_allowed :: "subnet_obj \<Rightarrow> string \<Rightarrow> string \<Rightarrow> string list \<Rightarrow> InfoDNAT list \<Rightarrow> bool" where
  "eip_allowed subnet projectID internalIP snat dnat \<longleftrightarrow>
     (str_get (sn_labels subnet) SpxLabelProjectID = projectID \<or> IsSharedWithProject (sn_annotations subnet) projectID) \<and>
     (if internalIP \<noteq> [] then target_ok (sn_cidr subnet) internalIP
      else (\<forall>c\<in>set snat. source_ok (sn_cidr subnet) c) \<and> (\<forall>d\<in>set dnat. target_ok (sn_cidr subnet) (dn_internalIP d)))"

lemma eip_allowedI:
  assumes "getAccessibleSubnet E W name projectID = Inr subnet" "validateMode (sn_cidr subnet) internalIP snat dnat = None"
  shows "fmlookup (nw_subnets W) name = Some subnet \<and> eip_allowed subnet projectID internalIP snat dnat"
  using assms(1) validateMode_None [OF assms(2)] unfolding eip_allowed_def
  by (auto simp: getAccessibleSubnet_def result_simps dest!: k_get_Inr split: if_splits)

lemma convert_keeps_project: "convert C v v = Inr m \<Longrightarrow> GetProjectID C m = GetProjectID C v"
  by (auto simp: convert_def ConvertToSpxMetadata_def checkAndCompute_def computeEffectiveID_def GetProjectID_def split: option.splits if_splits prod.splits)

lemma CreateEip_allowed:
  assumes "CreateEip C E W s = (W', None)"
  shows "\<exists>subnet. fmlookup (nw_subnets W) (ce_subnetEId s) = Some subnet \<and>
    eip_allowed subnet (GetProjectID C (ce_meta s)) (ce_internalIP s) (ce_snat s) (ce_dnat s)"
proof -
  obtain m subnet where o: "convert C (ce_meta s) (ce_meta s) = Inr m" "getAccessibleSubnet E W (ce_subnetEId s) (GetProjectID C m) = Inr subnet"
    "validateMode (sn_cidr subnet) (ce_internalIP s) (ce_snat s) (ce_dnat s) = None"
    using assms unfolding CreateEip_def Let_def by (auto split: sum.splits option.splits if_splits)
  show ?thesis using eip_allowedI [OF o(2,3)] convert_keeps_project [OF o(1)] by auto
qed

text \<open>With an internal IP the rules of the request are ignored.\<close>

lemma CreateEip_floating:
  assumes "CreateEip C E W s = (W', None)" "ce_internalIP s \<noteq> []"
  shows "nw_snats W' = nw_snats W \<and> nw_dnats W' = nw_dnats W"
  using assms unfolding CreateEip_def createRules_def CreateFip_def Let_def
  by (auto split: sum.splits option.splits if_splits prod.splits)

lemma UpdateEip_allowed:
  assumes "UpdateEip C E W u ns name = (W', None)"
  shows "\<exists>eip subnet. fmlookup (nw_eips W) name = Some eip \<and> fmlookup (nw_subnets W) (ei_gateway eip) = Some subnet \<and>
    eip_allowed subnet ns (ue_internalIP u) (ue_snat u) (ue_dnat u)"
proof -
  obtain eip subnet where o: "k_get E ''update-eip'' name (nw_eips W) name = Inr eip" "getAccessibleSubnet E W (ei_gateway eip) ns = Inr subnet"
    "validateMode (sn_cidr subnet) (ue_internalIP u) (ue_snat u) (ue_dnat u) = None"
    using assms unfolding UpdateEip_def by (auto split: sum.splits option.splits)
  show ?thesis using eip_allowedI [OF o(2,3)] k_get_Inr [OF o(1)] by auto
qed


section \<open>Removal after a failure\<close>

text \<open>An API server that may refuse to create objects but answers every other call.\<close>

definition only_creates_fail :: "net_env \<Rightarrow> bool" where
  "only_creates_fail E \<longleftrightarrow> (\<forall>site v name. v \<noteq> NCreate \<longrightarrow> ne_fails E (site, v, name) = None)"

text \<open>No rule has an empty name, which the API server refuses.\<close>

definition named_rules :: "net_world \<Rightarrow> bool" where
  "named_rules W \<longleftrightarrow> fmlookup (nw_snats W) [] = None \<and> fmlookup (nw_dnats W) [] = None"

lemma only_creates_failD:
  assumes "only_creates_fail E"
  shows "ne_fails E (site, NGet, name) = None" "ne_fails E (site, NDelete, name) = None" "ne_fails E (site, NList, name) = None"
  using assms by (simp_all add: only_creates_fail_def)

lemma delete_fip_ok:
  assumes "only_creates_fail E" "name \<noteq> []"
  shows "\<exists>f. delete_fip E name W = (W\<lparr>nw_fips := f\<rparr>, None)"
proof (cases "fmlookup (nw_fips W) name")
  case None
  then have "delete_fip E name W = (W\<lparr>nw_fips := nw_fips W\<rparr>, None)"
    using assms by (simp add: delete_fip_def k_delete_def only_creates_failD IsNotFound_def NewNotFound_def)
  then show ?thesis by blast
qed (use assms in \<open>auto simp: delete_fip_def k_delete_def only_creates_failD\<close>)

lemma delete_snats_ok:
  assumes "only_creates_fail E" "[] \<notin> set names"
  shows "\<exists>f. loopW (delete_snat E) names W = (W\<lparr>nw_snats := f\<rparr>, None)"
  using assms(2)
proof (induction names arbitrary: W)
  case Nil
  show ?case by (rule exI [of _ "nw_snats W"]) simp
next
  case (Cons n names)
  have "\<exists>f. delete_snat E n W = (W\<lparr>nw_snats := f\<rparr>, None)"
  proof (cases "fmlookup (nw_snats W) n")
    case None
    then have "delete_snat E n W = (W\<lparr>nw_snats := nw_snats W\<rparr>, None)"
      using assms(1) Cons.prems by (auto simp: delete_snat_def k_delete_def only_creates_failD IsNotFound_def NewNotFound_def)
    then show ?thesis by blast
  qed (use assms(1) Cons.prems in \<open>auto simp: delete_snat_def k_delete_def only_creates_failD\<close>)
  then obtain f where f: "delete_snat E n W = (W\<lparr>nw_snats := f\<rparr>, None)" by blast
  obtain g where "loopW (delete_snat E) names (W\<lparr>nw_snats := f\<rparr>) = (W\<lparr>nw_snats := f\<rparr>\<lparr>nw_snats := g\<rparr>, None)" using Cons by fastforce
  then show ?case using f by auto
qed

lemma delete_dnats_ok:
  assumes "only_creates_fail E" "[] \<notin> set names" "distinct names" "\<And>n. n \<in> set names \<Longrightarrow> fmlookup (nw_dnats W) n \<noteq> None"
  shows "\<exists>f. loopW (delete_dnat E) names W = (W\<lparr>nw_dnats := f\<rparr>, None)"
  using assms(2-)
proof (induction names arbitrary: W)
  case Nil
  show ?case by (rule exI [of _ "nw_dnats W"]) simp
next
  case (Cons n names)
  let ?W = "W\<lparr>nw_dnats := fmdrop n (nw_dnats W)\<rparr>"
  have d: "delete_dnat E n W = (?W, None)"
    using Cons.prems(1) Cons.prems(3) [of n] assms(1) by (auto simp: delete_dnat_def k_delete_def only_creates_failD split: option.splits)
  have "\<exists>f. loopW (delete_dnat E) names ?W = (?W\<lparr>nw_dnats := f\<rparr>, None)"
    using Cons.prems by (intro Cons.IH) auto
  then show ?case using d by auto
qed

lemma lists_named:
  assumes "only_creates_fail E" "named_rules W" "eip \<noteq> []"
  shows "\<exists>l. snat_ListResources E W ns eip = Inr l \<and> [] \<notin> set (map fst l)"
    "\<exists>l. dnat_ListResources E W ns eip = Inr l \<and> [] \<notin> set (map fst l) \<and> distinct (map fst l) \<and> (\<forall>n\<in>set (map fst l). fmlookup (nw_dnats W) n \<noteq> None)"
proof -
  have d: "distinct (map fst (filter P (gentries m)))" for P and m :: "(string, 'v) fmap"
    by (metis distinct_gkeys distinct_map_filter map_fst_gentries)
  show "\<exists>l. snat_ListResources E W ns eip = Inr l \<and> [] \<notin> set (map fst l)"
    using assms by (auto simp: snat_ListResources_def k_get_def only_creates_failD IsNotFound_def NewNotFound_def named_rules_def set_gentries split: option.splits)
  show "\<exists>l. dnat_ListResources E W ns eip = Inr l \<and> [] \<notin> set (map fst l) \<and> distinct (map fst l) \<and> (\<forall>n\<in>set (map fst l). fmlookup (nw_dnats W) n \<noteq> None)"
    using assms d by (auto simp: dnat_ListResources_def only_creates_failD named_rules_def set_gentries)
qed

lemma DeleteEip_ok:
  assumes "only_creates_fail E" "named_rules W" "name \<noteq> []" "fmlookup (nw_eips W) name = Some e"
    "CheckProjectLabel (ei_labels e) name ns = None" "IsEditAllowed C (ei_labels e) = None"
  shows "nw_eips (fst (DeleteEip C E W ns name)) = fmdrop name (nw_eips W)"
proof -
  obtain f where f: "delete_fip E name W = (W\<lparr>nw_fips := f\<rparr>, None)" using delete_fip_ok assms(1,3) by blast
  let ?W1 = "W\<lparr>nw_fips := f\<rparr>"
  obtain ls where ls: "snat_ListResources E ?W1 ns name = Inr ls" "[] \<notin> set (map fst ls)"
    using lists_named(1) [OF assms(1) _ assms(3), of ?W1] assms(2) by (auto simp: named_rules_def)
  obtain g where g: "loopW (delete_snat E) (map fst ls) ?W1 = (?W1\<lparr>nw_snats := g\<rparr>, None)" using delete_snats_ok [OF assms(1) ls(2)] by blast
  let ?W2 = "?W1\<lparr>nw_snats := g\<rparr>"
  have "\<exists>ld. dnat_ListResources E ?W2 ns name = Inr ld \<and> [] \<notin> set (map fst ld) \<and> distinct (map fst ld) \<and>
      (\<forall>n\<in>set (map fst ld). fmlookup (nw_dnats ?W2) n \<noteq> None)"
    using lists_named(2) [OF assms(1,2,3), of ns] by (simp add: dnat_ListResources_def only_creates_failD [OF assms(1)])
  then obtain ld where ld: "dnat_ListResources E ?W2 ns name = Inr ld" "[] \<notin> set (map fst ld)" "distinct (map fst ld)"
    "\<And>n. n \<in> set (map fst ld) \<Longrightarrow> fmlookup (nw_dnats ?W2) n \<noteq> None" by blast
  obtain h where h: "loopW (delete_dnat E) (map fst ld) ?W2 = (?W2\<lparr>nw_dnats := h\<rparr>, None)" using delete_dnats_ok [OF assms(1) ld(2,3,4)] by blast
  show ?thesis using assms(1,3-6) f ls(1) g ld(1) h
    by (simp add: DeleteEip_def k_get_def k_delete_def only_creates_failD thenW_def)
qed

definition keeps_eips :: "net_world \<Rightarrow> net_world \<Rightarrow> bool" where
  "keeps_eips W W' \<longleftrightarrow> nw_eips W' = nw_eips W \<and> (named_rules W \<longrightarrow> named_rules W')"

lemma keeps_rules:
  "keeps_eips W (fst (CreateFip C E i m W))" "keeps_eips W (fst (CreateSNAT C E m c W))" "keeps_eips W (fst (CreateDNAT C E m d W))"
  by (auto simp: keeps_eips_def named_rules_def CreateFip_def CreateSNAT_def CreateDNAT_def Let_def k_create_def
      split: sum.splits option.splits if_splits)

lemma keeps_loop: "(\<And>x V. keeps_eips V (fst (f x V))) \<Longrightarrow> keeps_eips W (fst (loopW f xs W))"
proof (induction xs arbitrary: W)
  case (Cons x xs)
  have "keeps_eips W (fst (f x W))" "keeps_eips (fst (f x W)) (fst (loopW f xs (fst (f x W))))" using Cons by blast+
  then show ?case by (cases "f x W") (auto simp: keeps_eips_def split: option.splits)
qed (simp add: keeps_eips_def)

lemma keeps_then: "keeps_eips W (fst r) \<Longrightarrow> (\<And>V. keeps_eips V (fst (f V))) \<Longrightarrow> keeps_eips W (fst (thenW r f))"
  by (cases r) (auto simp: thenW_def keeps_eips_def split: option.splits)

lemma createRules_failed:
  assumes "createRules C E m i s d W = (W', Some err)" "only_creates_fail E" "named_rules W" "ProjectId m \<noteq> []"
    "GetResourceEffectiveID C m \<noteq> []" "fmlookup (nw_eips W) (GetResourceEffectiveID C m) = Some e"
    "ei_labels e = GetLabels (nc_prefix C) m" "IsEditAllowed C (ei_labels e) = None"
  shows "nw_eips W' = fmdrop (GetResourceEffectiveID C m) (nw_eips W)"
proof -
  let ?r = "if i \<noteq> [] then CreateFip C E i m W else thenW (loopW (CreateSNAT C E m) s W) (loopW (CreateDNAT C E m) d)"
  have k: "keeps_eips W (fst ?r)" by (auto intro!: keeps_rules keeps_loop keeps_then)
  obtain W1 e1 where r: "?r = (W1, e1)" by (cases ?r)
  with assms(1) have "W' = cleanEip C E W1 (GetProjectID C m) (GetResourceEffectiveID C m)"
    by (auto simp: createRules_def split: option.splits)
  moreover have "CheckProjectLabel (ei_labels e) (GetResourceEffectiveID C m) (GetProjectID C m) = None"
    using project_label [OF assms(4), of C] assms(7) by (simp add: edit_or_label)
  moreover have "nw_eips W1 = nw_eips W" "named_rules W1" using k r assms(3) by (simp_all add: keeps_eips_def)
  ultimately show ?thesis using DeleteEip_ok [of E W1 "GetResourceEffectiveID C m" e "GetProjectID C m" C] assms by (simp add: cleanEip_def)
qed

text \<open>The labels the framework gives to an object are not among those that protect objects from edits.\<close>

definition labels_editable :: "net_cfg \<Rightarrow> bool" where
  "labels_editable C \<longleftrightarrow> list_all (\<lambda>(k, v). k \<notin> {SpxLabelOrganizationID, SpxLabelProjectID, SpxLabelResourceLocalID, SpxLabelResourceEffectiveID} \<and> v \<noteq> [])
     (nc_disabled C)"

lemma own_labels_editable: "labels_editable C \<Longrightarrow> IsEditAllowed C (GetLabels (nc_prefix C) m) = None"
  by (auto simp: IsEditAllowed_def isEditAllowed_def labels_editable_def list_all_iff list_ex_iff GetLabels_def str_get_def label_names Let_def
      split: option.splits if_splits)

lemma convert_project: "convert C v v = Inr m \<Longrightarrow> ProjectId m \<noteq> []"
  by (auto simp: convert_def ConvertToSpxMetadata_def checkAndCompute_def computeEffectiveID_def split: option.splits if_splits prod.splits)

lemma CreateEip_failed:
  assumes "CreateEip C E W s = (W', Some err)" "only_creates_fail E" "named_rules W" "labels_editable C"
  shows "nw_eips W' = nw_eips W"
proof (cases "W' = W")
  case False
  with assms(1) obtain m eips e where c: "convert C (ce_meta s) (ce_meta s) = Inr m"
    "k_create E ''eip'' (GetResourceEffectiveID C m) (nw_eips W) (GetResourceEffectiveID C m) e = Inr eips" "ei_labels e = GetLabels (nc_prefix C) m"
    "createRules C E m (ce_internalIP s) (ce_snat s) (ce_dnat s) (W\<lparr>nw_eips := eips\<rparr>) = (W', Some err)"
    unfolding CreateEip_def Let_def by (auto split: sum.splits option.splits if_splits)
  have name: "GetResourceEffectiveID C m \<noteq> []" using c(2) by (auto simp: k_create_def)
  note eips = k_create_Inr [OF c(2)]
  have "nw_eips W' = fmdrop (GetResourceEffectiveID C m) eips"
    using createRules_failed [OF c(4) assms(2) _ convert_project [OF c(1)] name, of e] assms(3) eips c(3) own_labels_editable [OF assms(4)]
    by (simp add: named_rules_def)
  also have "\<dots> = nw_eips W" using eips by (auto intro!: fmap_ext)
  finally show ?thesis .
qed simp

end
