(* ===== verification/Net_Examples.thy ===== *)
theory Net_Examples
  imports Net_Invariant Net_Targets
begin

text \<open>
  A concrete zone for the witnesses: a project \<open>p\<close> with a VPC and a subnet, an API server that answers
  every call from up-to-date caches, and a UUID library that accepts every text.
\<close>

definition demo_uuid :: uuid_lib where
  "demo_uuid = \<lparr>uuid_Parse = Some, NewSHA1 = (\<lambda>ns n. n)\<rparr>"

definition demo_cfg :: net_cfg where
  "demo_cfg = \<lparr>nc_prefix = ''spx'', nc_uuid = demo_uuid, nc_disabled = [], nc_mtu = None, nc_externalSubnet = ''external'',
     nc_gwExternal = [''external''], nc_gwRoutes = []\<rparr>"

definition demo_env :: net_env where
  "demo_env = \<lparr>ne_fails = (\<lambda>_. None), ne_subnets = (\<lambda>W. gentries (nw_subnets W)), ne_rules = (\<lambda>W. gentries (nw_rules W)),
     ne_eips = (\<lambda>W. gentries (nw_eips W)), ne_snats = (\<lambda>W. gentries (nw_snats W)), ne_dnats = (\<lambda>W. gentries (nw_dnats W)),
     ne_services = (\<lambda>_ _. None)\<rparr>"

text \<open>The same API server, except that it refuses to create FIP rules.\<close>

definition demo_env_no_fip :: net_env where
  "demo_env_no_fip = demo_env\<lparr>ne_fails := (\<lambda>(site, v, name). if site = ''fip'' \<and> v = NCreate then Some (Errorf ''refused'') else None)\<rparr>"

definition demo_labels :: "(string, string) fmap" where
  "demo_labels = fmap_of_list [(SpxLabelProjectID, ''spx-p'')]"

definition demo_subnet :: subnet_obj where
  "demo_subnet = \<lparr>sn_labels = demo_labels, sn_annotations = fmempty, sn_vpc = ''spx-v'', sn_protocol = ''IPv4'', sn_table = ''spx-s'',
     sn_namespaces = [''spx-p''], sn_cidr = ''10.0.0.0/24'', sn_gateway = ''10.0.0.1'', sn_provider = ''spx-s.spx-p.ovn'',
     sn_dhcpV4 = ''dns_server='', sn_dhcpV6 = ''dns_server='', sn_private = False, sn_exclude = [], sn_mtu = None\<rparr>"

definition demo_world :: net_world where
  "demo_world = \<lparr>nw_vpcs = fmap_of_list [(''spx-v'', \<lparr>vp_labels = demo_labels, vp_namespaces = [''spx-p''], vp_routes = [], vp_subnets = [''spx-s'']\<rparr>)],
     nw_subnets = fmap_of_list [(''spx-s'', demo_subnet)], nw_gateways = fmempty, nw_nads = fmempty, nw_rules = fmempty,
     nw_eips = fmempty, nw_fips = fmempty, nw_snats = fmempty, nw_dnats = fmempty\<rparr>"

definition demo_meta :: "string \<Rightarrow> spx_metadata" where
  "demo_meta i = \<lparr>OrgId = ''o'', ProjectId = ''p'', ResourceEffectiveId = i, ResourceLocalId = i\<rparr>"

definition demo_lb :: "string \<Rightarrow> string \<Rightarrow> CreateLoadBalancerInfo" where
  "demo_lb i vip = \<lparr>cl_meta = demo_meta i, cl_vip = vip, cl_subnetEId = ''spx-s'', cl_selectors = [], cl_endpoints = [''10.0.0.7''], cl_ports = []\<rparr>"

definition demo_world1 :: net_world where
  "demo_world1 = fst (CreateLoadBalancer demo_cfg demo_env demo_world (demo_lb ''a'' ''198.18.0.1''))"

definition demo_world2 :: net_world where
  "demo_world2 = fst (CreateLoadBalancer demo_cfg demo_env demo_world1 (demo_lb ''b'' ''198.18.0.2''))"

lemma demo_cached: "cached demo_env W"
  by (simp add: cached_def demo_env_def)

lemma demo_net_reachable: "net_reachable demo_cfg demo_world2"
proof -
  have "net_reachable demo_cfg demo_world" by (rule net_reachable.start) (simp add: demo_world_def)
  then have "net_reachable demo_cfg demo_world1"
    unfolding demo_world1_def by (rule net_reachable.step) (rule net_step.create_lb [OF demo_cached])
  then show ?thesis unfolding demo_world2_def by (rule net_reachable.step) (rule net_step.create_lb [OF demo_cached])
qed

lemmas demo_defs = demo_cfg_def demo_env_def demo_env_no_fip_def demo_labels_def demo_subnet_def demo_world_def demo_meta_def demo_lb_def demo_uuid_def

lemma demo_addresses:
  "IsIPInCIDR LoadBalancerVIPCIDR ''198.18.0.1'' = Inr True" "IsIPInCIDR LoadBalancerVIPCIDR ''198.18.0.2'' = Inr True"
  "IsIPInCIDR ''10.0.0.0/24'' ''10.0.0.7'' = Inr True" "isIPv4 ''10.0.0.7''"
  by (simp_all add: IsIPInCIDR_def LoadBalancerVIPCIDR_def isIPv4_def TrimSpace_def is_space_def parse_evals
      IPNet_Contains_def networkNumberAndMask_def To4_def)

lemmas demo_lb_evals = CreateLoadBalancer_def buildSpec_def checkVIP_def spec_endpoints_def getRuleSubnet_def checkVIPAvailable_def
  vipInUse_def ByIndex_def k_get_def k_create_def GetProjectID_def GetResourceEffectiveID_def ToSPXID_def str_get_def
  label_names defaultVPC_def newRule_def switchLBRuleVPCVIP_def SwitchLBRuleVPCVIPKey_def UnpinnedVPC_def
  logicalRouterAnnotation_def logicalSwitchAnnotation_def GetLabels_def demo_addresses

lemma gentries_single: "gentries (fmupd k v fmempty) = [(k, v)]"
  by (simp add: gentries_def gkeys_def sorted_list_of_fset.rep_eq)

lemma demo_rules1: "nw_rules demo_world1 = fmupd ''spx-a'' (newRule demo_cfg (demo_lb ''a'' ''198.18.0.1'') demo_subnet
    \<lparr>sp_vip = ''198.18.0.1'', sp_namespace = ''spx-p'', sp_selector = [], sp_endpoints = [''10.0.0.7''], sp_ports = []\<rparr>) fmempty"
  "nw_subnets demo_world1 = nw_subnets demo_world"
  unfolding demo_world1_def by (simp_all add: demo_lb_evals demo_defs Let_def)

lemma demo_rules2: "fmlookup (nw_rules demo_world2) ''spx-a'' = Some (newRule demo_cfg (demo_lb ''a'' ''198.18.0.1'') demo_subnet
    \<lparr>sp_vip = ''198.18.0.1'', sp_namespace = ''spx-p'', sp_selector = [], sp_endpoints = [''10.0.0.7''], sp_ports = []\<rparr>)"
  "fmlookup (nw_rules demo_world2) ''spx-b'' = Some (newRule demo_cfg (demo_lb ''b'' ''198.18.0.2'') demo_subnet
    \<lparr>sp_vip = ''198.18.0.2'', sp_namespace = ''spx-p'', sp_selector = [], sp_endpoints = [''10.0.0.7''], sp_ports = []\<rparr>)"
  unfolding demo_world2_def by (simp_all add: demo_lb_evals demo_rules1 gentries_single demo_defs Let_def)

lemmas demo_eip_evals = CreateEip_def convert_def ConvertToSpxMetadata_def checkAndCompute_def metadata_check_def checkUUIDs_def isValidUUID_def
  isValidName_def nameMaxLength_def name_char_def computeEffectiveID_def getAccessibleSubnet_def validateMode_def validateInternalTargets_def
  checkInternalIP_def checkIPInSubnet_def createRules_def CreateFip_def bindR_def is_digit_def TrimSpace_def is_space_def

lemma demo_eip: "\<exists>W'. CreateEip demo_cfg demo_env demo_world
    \<lparr>ce_meta = demo_meta ''e'', ce_subnetEId = ''spx-s'', ce_internalIP = ''10.0.0.7'', ce_snat = [], ce_dnat = []\<rparr> = (W', None)"
  by (simp add: demo_eip_evals demo_lb_evals demo_defs Let_def split: if_splits)

lemma demo_eip_refused: "\<exists>W' err. CreateEip demo_cfg demo_env_no_fip demo_world
    \<lparr>ce_meta = demo_meta ''e'', ce_subnetEId = ''spx-s'', ce_internalIP = ''10.0.0.7'', ce_snat = [], ce_dnat = []\<rparr> = (W', Some err)"
  by (simp add: demo_eip_evals demo_lb_evals demo_defs Let_def)

end
