(* ===== verification/Net_Properties.thy ===== *)
theory Net_Properties
  imports Net_Examples
begin

text \<open>
  The properties of the controller's network: addresses of a subnet, isolation of the projects,
  virtual IPs of load balancers and targets of external IPs.
\<close>

section \<open>Networks\<close>

text \<open>
  The usable addresses of a network run from the one after its first address to the one before
  its last: for a network with at least two host bits \<^verbatim>\<open>FirstAndLastAvailable\<close> finds both (as 16-byte
  addresses), never beyond the network; for a smaller one it reports that there are none.
\<close>

theorem usable_range_of_network:
  assumes "ParseCIDR s = Some (i, n)" "Mask_Size (n_Mask n) = (q, b)"
  shows "if q + 2 \<le> b
    then \<exists>f l. FirstAndLastAvailable n = (Some f, Some l) \<and> length f = 16 \<and> length l = 16 \<and>
      bytes_nat f = bytes_nat (To16 (n_IP n)) + 1 \<and> bytes_nat l + 2 = bytes_nat (To16 (n_IP n)) + 2 ^ (b - q)
    else FirstAndLastAvailable n = (None, None)"
proof -
  obtain k p where n: "parsed_net n k p" using ParseCIDR_parsed [OF assms(1)] by blast
  then have qb: "q = p" "b = 8 * k" using assms(2) parsed_Size [OF n] by simp_all
  show ?thesis
  proof (cases "q + 2 \<le> b")
    case True
    then show ?thesis using FirstAndLastAvailable_eq [OF n] qb by metis
  next
    case False
    then show ?thesis using assms(2) by (simp add: FirstAndLastAvailable_def)
  qed
qed

theorem usable_range_of_network_witness:
  "FirstAndLastAvailable \<lparr>n_IP = [10, 0, 0, 0], n_Mask = cidr_bytes 4 24\<rparr> \<noteq> (None, None)"
proof -
  have "ParseCIDR ''10.0.0.0/24'' = Some (To16 [10, 0, 0, 0], \<lparr>n_IP = [10, 0, 0, 0], n_Mask = cidr_bytes 4 24\<rparr>)"
    by (simp add: parse_evals To16_def)
  moreover have "Mask_Size (n_Mask \<lparr>n_IP = [10, 0, 0, 0], n_Mask = cidr_bytes 4 24\<rparr>) = (24, 32)"
    by (simp add: Mask_Size_def simpleMaskLength_cidr)
  ultimately show ?thesis using usable_range_of_network [of "''10.0.0.0/24''" _ _ 24 32] by fastforce
qed

text \<open>
  C37. \<^verbatim>\<open>ContainsNet\<close>, which compares masks byte by byte, decides inclusion: for parsed networks it
  holds exactly when they are of the same IP version and every address of the second is one of the
  first.
\<close>

theorem ContainsNet_is_inclusion:
  assumes "ParseCIDR s1 = Some (i1, n1)" "ParseCIDR s2 = Some (i2, n2)"
  shows "ContainsNet n1 n2 \<longleftrightarrow> length (n_IP n1) = length (n_IP n2) \<and>
    length (norm_ip (n_IP n1)) = length (norm_ip (n_IP n2)) \<and> net_addresses n2 \<subseteq> net_addresses n1"
proof -
  obtain k1 q1 k2 q2 where "parsed_net n1 k1 q1" "parsed_net n2 k2 q2"
    using ParseCIDR_parsed [OF assms(1)] ParseCIDR_parsed [OF assms(2)] by blast
  then show ?thesis by (rule ContainsNet_iff)
qed

theorem ContainsNet_is_inclusion_witness:
  "net_addresses \<lparr>n_IP = [10, 1, 0, 0], n_Mask = [0xff, 0xff, 0, 0]\<rparr> \<subseteq> net_addresses \<lparr>n_IP = [10, 0, 0, 0], n_Mask = [0xff, 0, 0, 0]\<rparr>"
proof -
  have "ParseCIDR ''10.0.0.0/8'' = Some (To16 [10, 0, 0, 0], \<lparr>n_IP = [10, 0, 0, 0], n_Mask = [0xff, 0, 0, 0]\<rparr>)"
    "ParseCIDR ''10.1.0.0/16'' = Some (To16 [10, 1, 0, 0], \<lparr>n_IP = [10, 1, 0, 0], n_Mask = [0xff, 0xff, 0, 0]\<rparr>)"
    by (simp_all add: parse_evals To16_def)
  moreover have "ContainsNet \<lparr>n_IP = [10, 0, 0, 0], n_Mask = [0xff, 0, 0, 0]\<rparr> \<lparr>n_IP = [10, 1, 0, 0], n_Mask = [0xff, 0xff, 0, 0]\<rparr>"
    by (simp add: ContainsNet_def IPNet_Contains_def networkNumberAndMask_def To4_def)
  ultimately show ?thesis using ContainsNet_is_inclusion by blast
qed

text \<open>
  C38. The networks of a subnet survive being stored as text: an update computes from the stored text
  the gateway that was found at creation, and the address of the NAT gateway too, except for an IPv6
  subnet, for which creation uses the last address and an update the empty text.
\<close>

theorem subnet_network_read_back:
  assumes "parseNetworkInfo protocol ipv4 ipv6 = Inr (cidr, gateway, lanIP)"
  shows "parseSubnetCIDR protocol cidr = Inr (gateway, if protocol = ''IPv6'' then [] else lanIP)"
  using assms by (rule parseSubnetCIDR_created)

theorem subnet_network_read_back_witness:
  "\<exists>cidr gateway lanIP. parseNetworkInfo ''IPv4'' ''10.0.0.9/24'' [] = Inr (cidr, gateway, lanIP) \<and>
     parseSubnetCIDR ''IPv4'' cidr = Inr (gateway, lanIP)"
proof -
  have n: "parseNet ''10.0.0.9/24'' = Inr \<lparr>n_IP = [10, 0, 0, 0], n_Mask = cidr_bytes 4 24\<rparr>" (is "_ = Inr ?n")
    by (simp add: parseNet_def parse_evals)
  have "isCIDRAllowed ?n"
    by (simp add: isCIDRAllowed_def allowedCIDRs_def allowedCIDRStrs_def map_filter_simps ContainsNet_def IPNet_Contains_def networkNumberAndMask_def To4_def parse_evals)
  then have "allowed ?n = Inr ()" by (simp add: allowed_def guardR_def)
  moreover have "parsed_net ?n 4 24" by (simp add: parsed_net_def bytes_nat_def undigits_Cons)
  then obtain f l where "FirstAndLastAvailable ?n = (Some f, Some l)" by (rule FirstAndLastAvailable_eq) simp_all
  ultimately have "\<exists>cidr gateway lanIP. parseNetworkInfo ''IPv4'' ''10.0.0.9/24'' [] = Inr (cidr, gateway, lanIP)"
    using n by (simp add: parseNetworkInfo_def available_def)
  then show ?thesis using subnet_network_read_back by fastforce
qed


section \<open>Load balancers\<close>

text \<open>
  C39. Whatever requests do to VPCs, subnets, load balancers and external IPs, in any order and with any
  call of the API server failing, two load balancers of a VPC never have the same text as their virtual IP. Two
  things are excluded: a cache of rules that lags behind the API server, and the deletion of a subnet that a load
  balancer is attached to, which the code permits and which can break this. And it is the texts that differ:
  \<^verbatim>\<open>198.18.0.1\<close> and \<^verbatim>\<open>::ffff:198.18.0.1\<close> are one address and count as two virtual IPs.
\<close>

theorem load_balancer_vips_unique:
  assumes "net_reachable C W" "fmlookup (nw_rules W) n1 = Some r1" "fmlookup (nw_rules W) n2 = Some r2" "n1 \<noteq> n2"
    "rule_router r1 \<noteq> []" "rule_router r2 = rule_router r1"
  shows "ru_vip r2 \<noteq> ru_vip r1"
  using net_reachable_inv [OF assms(1)] assms(2-) by (auto simp: vip_inv_def vips_unique_def)

theorem load_balancer_vips_unique_witness:
  "\<exists>r1 r2. fmlookup (nw_rules demo_world2) ''spx-a'' = Some r1 \<and> fmlookup (nw_rules demo_world2) ''spx-b'' = Some r2 \<and>
     rule_router r1 = ''spx-v'' \<and> rule_router r2 = ''spx-v'' \<and> ru_vip r2 \<noteq> ru_vip r1"
proof -
  obtain r1 r2 where r: "fmlookup (nw_rules demo_world2) ''spx-a'' = Some r1" "fmlookup (nw_rules demo_world2) ''spx-b'' = Some r2"
    "rule_router r1 = ''spx-v''" "rule_router r2 = ''spx-v''"
    using demo_rules2 by (simp add: rule_router_def newRule_def str_get_def logicalRouterAnnotation_def demo_subnet_def)
  with load_balancer_vips_unique [OF demo_net_reachable r(1,2)] show ?thesis by simp
qed


section \<open>Isolation of projects\<close>

text \<open>
  C40. Objects of the network are cluster-wide, and the project label is what keeps projects apart: no
  sequence of updates and deletions that a project requests, whatever the API server does, changes
  anything when none of the requests names an object of that project, and each of them reports an error.
\<close>

theorem foreign_requests_change_nothing:
  assumes "list_all (\<lambda>(E, c, name). net_owner c W name \<noteq> Some ns) reqs"
  shows "net_requests C ns reqs W = W \<and> list_all (\<lambda>(E, c, name). snd (net_change_apply C E c W ns name) \<noteq> None) reqs"
  using net_guard.foreign_requests [OF assms, of C] net_guard.reported assms by (auto simp: net_requests_def list_all_iff)

theorem foreign_requests_change_nothing_witness:
  "net_requests demo_cfg ''spx-q'' [(demo_env, Change_DeleteVPC, ''spx-v''), (demo_env, Change_DeleteSubnet, ''spx-s'')] demo_world = demo_world"
  using foreign_requests_change_nothing [of demo_world "''spx-q''" "[(demo_env, Change_DeleteVPC, ''spx-v''), (demo_env, Change_DeleteSubnet, ''spx-s'')]" demo_cfg]
  by (simp add: project_of_def demo_world_def demo_subnet_def demo_labels_def str_get_def)


section \<open>External IPs\<close>

text \<open>
  C28. An external IP reaches into its subnet only: when \<^verbatim>\<open>CreateEip\<close> or \<^verbatim>\<open>UpdateEip\<close> succeeds, the
  project owns the subnet or it is shared with the project. If the request gives an internal IP (a floating IP),
  that address lies in a network of the subnet or among the virtual IPs of the load balancers; the source and
  destination rules of the request are then not checked, and a creation ignores them. Otherwise every source network
  of the request lies as a whole in a network of the subnet, and every destination address in one or among
  those virtual IPs.
\<close>

theorem eip_reaches_into_subnet:
  "(CreateEip C E W s = (W', None) \<longrightarrow>
      (\<exists>subnet. fmlookup (nw_subnets W) (ce_subnetEId s) = Some subnet \<and>
        eip_allowed subnet (GetProjectID C (ce_meta s)) (ce_internalIP s) (ce_snat s) (ce_dnat s)) \<and>
      (ce_internalIP s \<noteq> [] \<longrightarrow> nw_snats W' = nw_snats W \<and> nw_dnats W' = nw_dnats W)) \<and>
   (UpdateEip C E W u ns name = (W', None) \<longrightarrow>
      (\<exists>eip subnet. fmlookup (nw_eips W) name = Some eip \<and> fmlookup (nw_subnets W) (ei_gateway eip) = Some subnet \<and>
        eip_allowed subnet ns (ue_internalIP u) (ue_snat u) (ue_dnat u)))"
  using CreateEip_allowed CreateEip_floating UpdateEip_allowed by blast

theorem eip_reaches_into_subnet_witness:
  "\<exists>subnet. fmlookup (nw_subnets demo_world) ''spx-s'' = Some subnet \<and> eip_allowed subnet ''spx-p'' ''10.0.0.7'' [] []"
proof -
  let ?s = "\<lparr>ce_meta = demo_meta ''e'', ce_subnetEId = ''spx-s'', ce_internalIP = ''10.0.0.7'', ce_snat = [], ce_dnat = []\<rparr>"
  obtain W' where "CreateEip demo_cfg demo_env demo_world ?s = (W', None)" using demo_eip by blast
  with eip_reaches_into_subnet [of demo_cfg demo_env demo_world ?s W'] show ?thesis
    by (simp add: GetProjectID_def ToSPXID_def demo_meta_def demo_cfg_def)
qed

text \<open>
  C30. An external IP whose rules cannot be created does not stay behind: when the API server refuses
  some creation and answers every other call, a creation that reports an error leaves the external IPs
  as they were. This needs a configuration whose protecting labels (\<^verbatim>\<open>DisableEditionForResourcesByLabels\<close>) are
  none of the labels the framework gives to the new external IP itself, which would refuse the cleanup, and a cluster
  with no rule of an empty name, which Kubernetes does not accept.
\<close>

theorem failed_eip_is_removed:
  assumes "CreateEip C E W s = (W', Some err)" "only_creates_fail E" "named_rules W" "labels_editable C"
  shows "nw_eips W' = nw_eips W"
  using assms by (rule CreateEip_failed)

theorem failed_eip_is_removed_witness:
  "\<exists>W' err. CreateEip demo_cfg demo_env_no_fip demo_world
     \<lparr>ce_meta = demo_meta ''e'', ce_subnetEId = ''spx-s'', ce_internalIP = ''10.0.0.7'', ce_snat = [], ce_dnat = []\<rparr> = (W', Some err) \<and>
     nw_eips W' = nw_eips demo_world"
proof -
  obtain W' err where e: "CreateEip demo_cfg demo_env_no_fip demo_world
     \<lparr>ce_meta = demo_meta ''e'', ce_subnetEId = ''spx-s'', ce_internalIP = ''10.0.0.7'', ce_snat = [], ce_dnat = []\<rparr> = (W', Some err)"
    using demo_eip_refused by blast
  have "nw_eips W' = nw_eips demo_world"
    by (rule failed_eip_is_removed [OF e]) (auto simp: only_creates_fail_def named_rules_def labels_editable_def demo_defs)
  with e show ?thesis by blast
qed

end
