(* ===== verification/Gc_Time.thy ===== *)
theory Gc_Time
  imports Op_Types
begin

text \<open>
  The deletion timestamps of the garbage collector: \<^verbatim>\<open>time.Format\<close> and \<^verbatim>\<open>time.Parse\<close> of Go for the layout
  \<^verbatim>\<open>2006-01-02T15-04-05Z0700\<close> (\<^verbatim>\<open>internal/gc/utils/consts.go\<close>).

  An instant is a number of nanoseconds since the start of the year 0 in UTC, in the proleptic Gregorian
  calendar; a zone is its offset in seconds. The parser accepts what Go's does for this layout: an hour
  of one digit, a fraction after the seconds, offsets up to 24 hours and 60 minutes. The main result is
  that parsing a formatted instant gives the instant less its fraction of a second.
\<close>

section \<open>The calendar\<close>

definition leap :: "nat \<Rightarrow> bool" where
  "leap y \<longleftrightarrow> y mod 4 = 0 \<and> (y mod 100 \<noteq> 0 \<or> y mod 400 = 0)"

definition year_len :: "nat \<Rightarrow> nat" where
  "year_len y = (if leap y then 366 else 365)"

definition daysIn :: "nat \<Rightarrow> nat \<Rightarrow> nat" where
  "daysIn m y = (if m = 2 then (if leap y then 29 else 28) else if m \<in> {4, 6, 9, 11} then 30 else 31)"

primrec days_before_year :: "nat \<Rightarrow> nat" where
  "days_before_year 0 = 0"
| "days_before_year (Suc y) = days_before_year y + year_len y"

definition days_before_month :: "nat \<Rightarrow> nat \<Rightarrow> nat" where
  "days_before_month m y = sum_list (map (\<lambda>k. daysIn k y) [1..<m])"

definition seconds :: "nat \<Rightarrow> nat \<Rightarrow> nat \<Rightarrow> nat \<Rightarrow> nat \<Rightarrow> nat \<Rightarrow> int" where
  "seconds year month day hour mi sec =
     int (days_before_year year + days_before_month month year + (day - 1)) * 86400 + int (hour * 3600 + mi * 60 + sec)"

text \<open>The year and the day in it; the month and the day in it.\<close>

function year_from :: "nat \<Rightarrow> nat \<Rightarrow> nat \<times> nat" where
  "year_from y day = (if day < year_len y then (y, day) else year_from (y + 1) (day - year_len y))"
  by pat_completeness auto
termination by (relation "measure snd") (auto simp: year_len_def)

function month_from :: "nat \<Rightarrow> nat \<Rightarrow> nat \<Rightarrow> nat \<times> nat" where
  "month_from y m day = (if day < daysIn m y then (m, day + 1) else month_from y (m + 1) (day - daysIn m y))"
  by pat_completeness auto
termination by (relation "measure (\<lambda>(y, m, day). day)") (auto simp: daysIn_def)

declare year_from.simps [simp del] month_from.simps [simp del]

lemma year_from_spec:
  assumes "year_from y day = (y', d')"
  shows "days_before_year y' + d' = days_before_year y + day" "d' < year_len y'" "y \<le> y'"
  using assms
proof (induction y day arbitrary: y' d' rule: year_from.induct)
  case (1 y day)
  { case 1 with "1.IH"(1) show ?case by (subst (asm) year_from.simps) (auto split: if_splits) }
  { case 2 with "1.IH"(2) show ?case by (subst (asm) year_from.simps) (auto split: if_splits) }
  { case 3 with "1.IH"(3) show ?case by (subst (asm) year_from.simps) (fastforce split: if_splits) }
qed

lemma days_before_month_Suc: "1 \<le> m \<Longrightarrow> days_before_month (m + 1) y = days_before_month m y + daysIn m y"
  by (simp add: days_before_month_def)

lemma month_from_spec:
  assumes "month_from y m day = (m', d')" "1 \<le> m"
  shows "days_before_month m' y + d' = days_before_month m y + day + 1 \<and> 1 \<le> d' \<and> d' \<le> daysIn m' y \<and> m \<le> m'"
  using assms
proof (induction y m day arbitrary: m' d' rule: month_from.induct)
  case (1 y m day)
  have "(if day < daysIn m y then (m, day + 1) else month_from y (m + 1) (day - daysIn m y)) = (m', d')"
    using "1.prems"(1) by (subst (asm) month_from.simps)
  then show ?case using "1.IH" "1.prems"(2) days_before_month_Suc [of m y] by (cases "day < daysIn m y") fastforce+
qed

lemma year_months: "days_before_month 13 y = year_len y"
  by (simp add: days_before_month_def daysIn_def year_len_def upt_rec)


section \<open>Formatting and parsing\<close>

definition two :: "nat \<Rightarrow> string" where
  "two n = [digit_char (n div 10), digit_char (n mod 10)]"

definition four :: "nat \<Rightarrow> string" where
  "four n = two (n div 100) @ two (n mod 100)"

definition zone_String :: "int \<Rightarrow> string" where
  "zone_String offset =
     (if offset = 0 then ''Z''
      else let zone = nat (\<bar>offset\<bar> div 60)
           in (if offset \<le> -60 then CHR ''-'' else CHR ''+'') # two (zone div 60) @ two (zone mod 60))"

text \<open>Years of more than four digits are printed with all of them, by \<open>fmt_d\<close>.\<close>

definition time_Format :: "int \<Rightarrow> int \<Rightarrow> string" where
  "time_Format offset t =
     (let local = t div 1000000000 + offset; day = nat (local div 86400); sod = nat (local mod 86400);
          (year, yday) = year_from 0 day; (month, mday) = month_from year 1 yday
      in (if year < 10000 then four year else fmt_d (int year)) @ ''-'' @ two month @ ''-'' @ two mday @ ''T'' @
         two (sod div 3600) @ ''-'' @ two (sod mod 3600 div 60) @ ''-'' @ two (sod mod 60) @ zone_String offset)"

fun get_two :: "string \<Rightarrow> (nat \<times> string) option" where
  "get_two (a # b # s) = (if is_digit a \<and> is_digit b then Some (digit_val a * 10 + digit_val b, s) else None)"
| "get_two _ = None"

definition get_year :: "string \<Rightarrow> (nat \<times> string) option" where
  "get_year s = Option.bind (get_two s) (\<lambda>(h, s1). map_option (\<lambda>(l, s2). (h * 100 + l, s2)) (get_two s1))"

text \<open>The hour may have one digit.\<close>

definition get_hour :: "string \<Rightarrow> (nat \<times> string) option" where
  "get_hour s =
     (case s of
        [] \<Rightarrow> None
      | a # r \<Rightarrow> if \<not> is_digit a then None
                 else if r \<noteq> [] \<and> is_digit (hd r) then Some (digit_val a * 10 + digit_val (hd r), tl r)
                 else Some (digit_val a, r))"

definition get_char :: "char \<Rightarrow> string \<Rightarrow> string option" where
  "get_char c s = (case s of [] \<Rightarrow> None | a # r \<Rightarrow> if a = c then Some r else None)"

definition get_fraction :: "string \<Rightarrow> int \<times> string" where
  "get_fraction s =
     (case s of
        c # d # r \<Rightarrow>
          if (c = CHR ''.'' \<or> c = CHR '','') \<and> is_digit d
          then (let ds = take 9 (takeWhile is_digit (d # r)) in (dec_val ds * 10 ^ (9 - length ds), dropWhile is_digit (d # r)))
          else (0, s)
      | _ \<Rightarrow> (0, s))"

definition get_zone :: "string \<Rightarrow> (int \<times> string) option" where
  "get_zone s =
     (case s of
        [] \<Rightarrow> None
      | c # r \<Rightarrow>
          if c = CHR ''Z'' then Some (0, r)
          else Option.bind (get_two r) (\<lambda>(hr, s1). Option.bind (get_two s1) (\<lambda>(mm, s2).
                 if 24 < hr \<or> 60 < mm then None
                 else if c = CHR ''+'' then Some (int ((hr * 60 + mm) * 60), s2)
                 else if c = CHR ''-'' then Some (- int ((hr * 60 + mm) * 60), s2)
                 else None)))"

definition time_Parse :: "string \<Rightarrow> int option" where
  "time_Parse s =
     Option.bind (get_year s) (\<lambda>(year, s1). Option.bind (get_char CHR ''-'' s1) (\<lambda>s2.
     Option.bind (get_two s2) (\<lambda>(month, s3). if month = 0 \<or> 12 < month then None else
     Option.bind (get_char CHR ''-'' s3) (\<lambda>s4. Option.bind (get_two s4) (\<lambda>(day, s5).
     Option.bind (get_char CHR ''T'' s5) (\<lambda>s6. Option.bind (get_hour s6) (\<lambda>(hour, s7). if 24 \<le> hour then None else
     Option.bind (get_char CHR ''-'' s7) (\<lambda>s8. Option.bind (get_two s8) (\<lambda>(mi, s9). if 60 \<le> mi then None else
     Option.bind (get_char CHR ''-'' s9) (\<lambda>s10. Option.bind (get_two s10) (\<lambda>(sec, s11). if 60 \<le> sec then None else
     (let (nsec, s12) = get_fraction s11
      in Option.bind (get_zone s12) (\<lambda>(offset, s13).
           if s13 \<noteq> [] then None
           else if day < 1 \<or> daysIn month year < day then None
           else Some ((seconds year month day hour mi sec - offset) * 1000000000 + nsec))))))))))))))"

lemma get_two_two [simp]: "n < 100 \<Longrightarrow> get_two (two n @ s) = Some (n, s)"
  by (simp add: two_def digit_char_props)

lemma get_year_four [simp]: "n < 10000 \<Longrightarrow> get_year (four n @ s) = Some (n, s)"
  by (simp add: get_year_def four_def)

lemma get_hour_two [simp]: "n < 100 \<Longrightarrow> get_hour (two n @ s) = Some (n, s)"
  by (simp add: two_def get_hour_def digit_char_props)

lemma get_char_simps [simp]: "get_char c (c # s) = Some s"
  by (simp add: get_char_def)

lemma zone_parse:
  assumes "offset mod 60 = 0" "\<bar>offset\<bar> \<le> 86400"
  shows "get_fraction (zone_String offset) = (0, zone_String offset)" "get_zone (zone_String offset) = Some (offset, [])"
proof -
  let ?z = "nat (\<bar>offset\<bar> div 60)"
  show "get_fraction (zone_String offset) = (0, zone_String offset)"
    by (simp add: get_fraction_def zone_String_def Let_def two_def)
  have z: "\<bar>offset\<bar> = int ?z * 60" using assms(1) by (auto simp: abs_if mod_0_imp_dvd dvd_div_mult_self)
  then have "?z \<le> 1440" using assms(2) by linarith
  then have d: "?z div 60 \<le> 24" "?z mod 60 < 60" "(?z div 60 * 60 + ?z mod 60) * 60 = ?z * 60" by auto
  have "offset = 0 \<or> offset \<le> - 60 \<or> 0 < offset" using assms(1) by presburger
  then consider "offset = 0" | "offset \<le> - 60" "offset = - int (?z * 60)" | "0 < offset" "offset = int (?z * 60)"
    using z by fastforce
  then show "get_zone (zone_String offset) = Some (offset, [])"
  proof cases
    case 2
    then show ?thesis using d get_two_two [of "?z mod 60" "[]"] by (simp add: get_zone_def zone_String_def Let_def)
  next
    case 3
    then show ?thesis using d get_two_two [of "?z mod 60" "[]"] by (simp add: get_zone_def zone_String_def Let_def)
  qed (simp add: get_zone_def zone_String_def)
qed

lemma days_before_month_mono: "1 \<le> m \<Longrightarrow> m \<le> m' \<Longrightarrow> days_before_month m y \<le> days_before_month m' y"
proof (induction m')
  case (Suc k)
  then show ?case using days_before_month_Suc [of k y] by (cases "m \<le> k") (auto simp: le_Suc_eq)
qed simp

lemma civil:
  assumes "year_from 0 day = (year, yday)" "month_from year 1 yday = (month, mday)"
  shows "days_before_year year + days_before_month month year + (mday - 1) = day"
    "1 \<le> month" "month \<le> 12" "1 \<le> mday" "mday \<le> daysIn month year" "mday < 100"
proof -
  note y = year_from_spec [OF assms(1)]
  have b: "days_before_month 1 year = 0" by (simp add: days_before_month_def)
  have m: "days_before_month month year + mday = yday + 1 \<and> 1 \<le> mday \<and> mday \<le> daysIn month year \<and> 1 \<le> month"
    using month_from_spec [OF assms(2)] b by simp
  show "days_before_year year + days_before_month month year + (mday - 1) = day" using y(1) m by auto
  show "1 \<le> month" "1 \<le> mday" "mday \<le> daysIn month year" using m by simp_all
  then show "mday < 100" by (auto simp: daysIn_def split: if_splits)
  show "month \<le> 12"
  proof (rule ccontr)
    assume "\<not> month \<le> 12"
    then have "year_len year \<le> days_before_month month year" using days_before_month_mono [of 13 month year] by (simp add: year_months)
    with m y(2) show False by simp
  qed
qed

text \<open>The parts of the day.\<close>

lemma seconds_of_day:
  fixes n :: nat
  assumes "n < 86400"
  shows "n div 3600 < 24" "n mod 3600 div 60 < 60" "n div 3600 * 3600 + n mod 3600 div 60 * 60 + n mod 60 = n"
proof -
  show "n div 3600 < 24" using assms by (simp add: less_mult_imp_div_less)
  show "n mod 3600 div 60 < 60" by (simp add: less_mult_imp_div_less)
  have "n mod 3600 mod 60 = n mod 60" by (simp add: mod_mod_cancel)
  then have "n mod 3600 div 60 * 60 + n mod 60 = n mod 3600" by (metis div_mult_mod_eq)
  then show "n div 3600 * 3600 + n mod 3600 div 60 * 60 + n mod 60 = n" by (metis add.assoc div_mult_mod_eq)
qed

lemma time_Parse_Format:
  assumes "offset mod 60 = 0" "\<bar>offset\<bar> \<le> 86400" "0 \<le> t div 1000000000 + offset"
    "fst (year_from 0 (nat ((t div 1000000000 + offset) div 86400))) < 10000"
  shows "time_Parse (time_Format offset t) = Some (t - t mod 1000000000)"
proof -
  define local where "local = t div 1000000000 + offset"
  define sod where "sod = nat (local mod 86400)"
  obtain year yday where y: "year_from 0 (nat (local div 86400)) = (year, yday)" by fastforce
  obtain month mday where m: "month_from year 1 yday = (month, mday)" by fastforce
  note c = civil [OF y m]
  have "sod < 86400" by (simp add: sod_def nat_less_iff)
  note s = seconds_of_day [OF this]
  have l: "int (nat (local div 86400)) * 86400 + int sod = local"
    using assms(3) by (simp add: local_def [symmetric] sod_def pos_imp_zdiv_nonneg_iff)
  have sec: "seconds year month mday (sod div 3600) (sod mod 3600 div 60) (sod mod 60) = local"
    unfolding seconds_def c(1) s(3) by (rule l)
  have "year < 10000" using assms(4) y by (simp add: local_def)
  then have "time_Format offset t = four year @ ''-'' @ two month @ ''-'' @ two mday @ ''T'' @
     two (sod div 3600) @ ''-'' @ two (sod mod 3600 div 60) @ ''-'' @ two (sod mod 60) @ zone_String offset"
    by (simp add: time_Format_def Let_def local_def [symmetric] sod_def [symmetric] y m [simplified])
  moreover have "get_two (two (sod mod 60) @ zone_String offset) = Some (sod mod 60, zone_String offset)"
    by (rule get_two_two) (rule less_trans [of _ 60], simp_all)
  moreover have "\<not> 60 \<le> sod mod 60" by (simp add: not_le)
  ultimately have "time_Parse (time_Format offset t) = Some ((local - offset) * 1000000000)"
    using c s(1,2) zone_parse [OF assms(1,2)] sec \<open>year < 10000\<close> by (simp add: time_Parse_def not_less)
  also have "(local - offset) * 1000000000 = t - t mod 1000000000" by (simp add: local_def minus_mod_eq_div_mult)
  finally show ?thesis .
qed

end
