(* ===== verification/Gc_Model.thy ===== *)
theory Gc_Model
  imports Gc_Time Spx_Id "HOL-Library.Product_Lexorder"
begin

text \<open>
  Garbage collection of the controller: \<^verbatim>\<open>pkg/gc/gc.go\<close>, the request that marks a project for deletion
  (\<^verbatim>\<open>pkg/api/gc/gc.go\<close>), the cleaners \<^verbatim>\<open>internal/gc/resources\<close> and the lists of marked and of project
  objects of \<^verbatim>\<open>internal/informers/informers.go\<close>.

  \<^item> \<open>gc_world\<close> holds the objects of the API server and those of the informers' caches, by resource, namespace
    and name (no namespace for cluster-wide ones). Marking changes the labels of the cached object itself and
    sends it to the server, so the cache is part of the state there.
  \<^item> A pass of the collector reads the caches while watch events come in: \<open>ge_cache\<close> gives what the cleaners of a
    level list, \<open>ge_dnats\<close> the rules listed while an external IP is deleted. Any call may fail (\<open>ge_fails\<close>), a pass
    may time out between two levels, and the clock is read for each object (\<open>ge_now\<close>, which also depends on the
    object that is being cleaned).
  \<^item> The type \<^verbatim>\<open>Cleaner\<close> is the record \<open>gc_cleaner\<close> of its two operations; each package under
    \<^verbatim>\<open>internal/gc/resources\<close> is one value of it. The loops that the packages repeat are \<open>clean_marked\<close> and
    \<open>mark_items\<close>.
  \<^item> Cleaners of one level run concurrently in the code. They work on different resources, so the order of the
    sequential run is not visible. Alerts and log lines are not modelled, nor are the nil label maps of a
    namespace: Kubernetes labels every namespace with its name.
\<close>

section \<open>State\<close>

type_synonym gc_key = "string \<times> string \<times> string"

record gc_obj =
  go_labels :: "(string, string) fmap"
  go_template :: "(string, string) fmap"
  go_halted :: bool

type_synonym gc_objs = "(gc_key, gc_obj) fmap"

record gc_world =
  gs_server :: gc_objs
  gs_cache :: gc_objs

record gc_cfg =
  gc_markKey :: string
  gc_delay :: int
  gc_debug :: bool
  gc_offset :: int

datatype gc_verb = GcGet | GcTransform | GcUpdate | GcDelete

record gc_env =
  ge_fails :: "gc_verb \<Rightarrow> gc_key \<Rightarrow> go_error option"
  ge_now :: "gc_key \<Rightarrow> gc_key \<Rightarrow> int"
  ge_cache :: "nat \<Rightarrow> gc_objs"
  ge_dnats :: "gc_key \<Rightarrow> gc_objs"
  ge_timeout :: "nat \<Rightarrow> bool"

definition VirtualMachine :: string where "VirtualMachine = ''virtualmachines''"
definition VirtualMachineSnapshot :: string where "VirtualMachineSnapshot = ''virtualmachinesnapshots''"
definition DataVolume :: string where "DataVolume = ''datavolumes''"
definition VolumeSnapshot :: string where "VolumeSnapshot = ''volumesnapshots''"
definition EIP :: string where "EIP = ''iptables-eips''"
definition FIP :: string where "FIP = ''iptables-fip-rules''"
definition SNAT :: string where "SNAT = ''iptables-snat-rules''"
definition DNAT :: string where "DNAT = ''iptables-dnat-rules''"
definition VPC :: string where "VPC = ''vpcs''"
definition NatGw :: string where "NatGw = ''vpc-nat-gateways''"
definition Subnet :: string where "Subnet = ''subnets''"
definition NAD :: string where "NAD = ''network-attachment-definitions''"
definition SwitchLBRules :: string where "SwitchLBRules = ''switch-lb-rules''"
definition SSH :: string where "SSH = ''secrets''"
definition Namespace :: string where "Namespace = ''namespaces''"
definition PersistentVolumeClaims :: string where "PersistentVolumeClaims = ''persistentvolumeclaims''"
definition NetworkPolicy :: string where "NetworkPolicy = ''networkpolicies''"
definition ObjectBucketClaim :: string where "ObjectBucketClaim = ''objectbucketclaims''"

lemmas gc_kinds = VirtualMachine_def VirtualMachineSnapshot_def DataVolume_def VolumeSnapshot_def EIP_def FIP_def SNAT_def DNAT_def
  VPC_def NatGw_def Subnet_def NAD_def SwitchLBRules_def SSH_def Namespace_def PersistentVolumeClaims_def NetworkPolicy_def ObjectBucketClaim_def

definition label :: "(string, string) fmap \<Rightarrow> string \<Rightarrow> string" where
  "label m k = (case fmlookup m k of None \<Rightarrow> [] | Some v \<Rightarrow> v)"


section \<open>Cleaning\<close>

definition ParseTimestamp :: "gc_cfg \<Rightarrow> int \<Rightarrow> (string, string) fmap \<Rightarrow> go_error + bool" where
  "ParseTimestamp C now labels =
     (let deletionTimestamp = label labels (gc_markKey C)
      in if deletionTimestamp \<noteq> []
         then (case time_Parse deletionTimestamp of
                 None \<Rightarrow> Inl (Errorf (''parsing time '' @ fmt_q deletionTimestamp))
               | Some t \<Rightarrow> Inr (t < now))
         else Inl (Errorf ''no timestamp found''))"

definition ListMarkedResource :: "gc_cfg \<Rightarrow> gc_objs \<Rightarrow> string \<Rightarrow> (gc_key \<times> gc_obj) list" where
  "ListMarkedResource C cache kind =
     filter (\<lambda>((k, _), obj). k = kind \<and> label (go_labels obj) (gc_markKey C) \<noteq> []) (gentries cache)"

definition expired :: "gc_cfg \<Rightarrow> gc_env \<Rightarrow> gc_key \<Rightarrow> gc_key \<times> gc_obj \<Rightarrow> bool" where
  "expired C E cleaned item = (ParseTimestamp C (ge_now E cleaned (fst item)) (go_labels (snd item)) = Inr True)"

text \<open>
  A deletion removes the object alone. What the cluster removes as a consequence (the contents of a namespace,
  objects that are owned by the deleted one) happens outside of the calls of the collector and is not part of the state here.
\<close>

definition gc_delete :: "gc_env \<Rightarrow> gc_key \<Rightarrow> gc_objs \<Rightarrow> gc_objs \<times> go_error option" where
  "gc_delete E key S =
     (case ge_fails E GcDelete key of
        Some e \<Rightarrow> (S, Some e)
      | None \<Rightarrow> (case fmlookup S key of
                   None \<Rightarrow> (S, Some \<lparr>err_msg = fmt_q (snd (snd key)) @ '' not found'', err_kind = KNotFound\<rparr>)
                 | Some _ \<Rightarrow> (fmdrop key S, None)))"

text \<open>A deletion that tolerates a missing object, and one that ends the caller when it fails.\<close>

definition try_delete :: "gc_env \<Rightarrow> gc_key \<Rightarrow> (gc_objs \<Rightarrow> gc_objs) \<Rightarrow> gc_objs \<Rightarrow> gc_objs" where
  "try_delete E key rest S =
     (case gc_delete E key S of
        (S1, Some e) \<Rightarrow> if IsNotFound e then rest S1 else S1
      | (S1, None) \<Rightarrow> rest S1)"

definition need_delete :: "gc_env \<Rightarrow> gc_key \<Rightarrow> (gc_objs \<Rightarrow> gc_objs) \<Rightarrow> gc_objs \<Rightarrow> gc_objs" where
  "need_delete E key rest S = (case gc_delete E key S of (S1, Some e) \<Rightarrow> S1 | (S1, None) \<Rightarrow> rest S1)"

text \<open>The loop of every \<^verbatim>\<open>Clean\<close>: the expired marked objects of a kind are deleted unless in debug mode.\<close>

definition clean_marked ::
  "gc_cfg \<Rightarrow> gc_env \<Rightarrow> gc_objs \<Rightarrow> string \<Rightarrow> (gc_key \<Rightarrow> gc_objs \<Rightarrow> gc_objs) \<Rightarrow> gc_objs \<Rightarrow> gc_objs" where
  "clean_marked C E cache kind delete S =
     fold (\<lambda>item S1. if expired C E (fst item) item \<and> \<not> gc_debug C then delete (fst item) S1 else S1)
       (ListMarkedResource C cache kind) S"

definition vm_Clean :: "gc_cfg \<Rightarrow> gc_env \<Rightarrow> gc_objs \<Rightarrow> gc_objs \<Rightarrow> gc_objs" where
  "vm_Clean C E cache = clean_marked C E cache VirtualMachine (\<lambda>key S. fst (gc_delete E key S))"

definition vmSnapshot_Clean :: "gc_cfg \<Rightarrow> gc_env \<Rightarrow> gc_objs \<Rightarrow> gc_objs \<Rightarrow> gc_objs" where
  "vmSnapshot_Clean C E cache = clean_marked C E cache VirtualMachineSnapshot (\<lambda>key S. fst (gc_delete E key S))"

definition ssh_Clean :: "gc_cfg \<Rightarrow> gc_env \<Rightarrow> gc_objs \<Rightarrow> gc_objs \<Rightarrow> gc_objs" where
  "ssh_Clean C E cache = clean_marked C E cache SSH (\<lambda>key S. fst (gc_delete E key S))"

definition loadbalancer_Clean :: "gc_cfg \<Rightarrow> gc_env \<Rightarrow> gc_objs \<Rightarrow> gc_objs \<Rightarrow> gc_objs" where
  "loadbalancer_Clean C E cache = clean_marked C E cache SwitchLBRules (\<lambda>key S. fst (gc_delete E key S))"

definition netpol_Clean :: "gc_cfg \<Rightarrow> gc_env \<Rightarrow> gc_objs \<Rightarrow> gc_objs \<Rightarrow> gc_objs" where
  "netpol_Clean C E cache = clean_marked C E cache NetworkPolicy (\<lambda>key S. fst (gc_delete E key S))"

definition datavolume_Clean :: "gc_cfg \<Rightarrow> gc_env \<Rightarrow> gc_objs \<Rightarrow> gc_objs \<Rightarrow> gc_objs" where
  "datavolume_Clean C E cache = clean_marked C E cache DataVolume (\<lambda>key S. fst (gc_delete E key S))"

definition volumeSnapshot_Clean :: "gc_cfg \<Rightarrow> gc_env \<Rightarrow> gc_objs \<Rightarrow> gc_objs \<Rightarrow> gc_objs" where
  "volumeSnapshot_Clean C E cache = clean_marked C E cache VolumeSnapshot (\<lambda>key S. fst (gc_delete E key S))"

definition obc_Clean :: "gc_cfg \<Rightarrow> gc_env \<Rightarrow> gc_objs \<Rightarrow> gc_objs \<Rightarrow> gc_objs" where
  "obc_Clean C E cache = clean_marked C E cache ObjectBucketClaim (\<lambda>key S. fst (gc_delete E key S))"

definition pvc_Clean :: "gc_cfg \<Rightarrow> gc_env \<Rightarrow> gc_objs \<Rightarrow> gc_objs \<Rightarrow> gc_objs" where
  "pvc_Clean C E cache = clean_marked C E cache PersistentVolumeClaims (\<lambda>key S. fst (gc_delete E key S))"

definition vpc_Clean :: "gc_cfg \<Rightarrow> gc_env \<Rightarrow> gc_objs \<Rightarrow> gc_objs \<Rightarrow> gc_objs" where
  "vpc_Clean C E cache = clean_marked C E cache VPC (\<lambda>key S. fst (gc_delete E key S))"

definition namespace_Clean :: "gc_cfg \<Rightarrow> gc_env \<Rightarrow> gc_objs \<Rightarrow> gc_objs \<Rightarrow> gc_objs" where
  "namespace_Clean C E cache = clean_marked C E cache Namespace (\<lambda>key S. fst (gc_delete E key S))"

text \<open>The network attachment is deleted in the empty namespace \<^verbatim>\<open>v1.NamespaceAll\<close>.\<close>

definition deleteSubnet :: "gc_env \<Rightarrow> gc_key \<Rightarrow> gc_objs \<Rightarrow> gc_objs" where
  "deleteSubnet E key =
     (let name = snd (snd key)
      in try_delete E (NAD, [], name) (try_delete E (NatGw, [], name) (\<lambda>S. fst (gc_delete E key S))))"

definition subnet_Clean :: "gc_cfg \<Rightarrow> gc_env \<Rightarrow> gc_objs \<Rightarrow> gc_objs \<Rightarrow> gc_objs" where
  "subnet_Clean C E cache = clean_marked C E cache Subnet (deleteSubnet E)"

definition ListMarkedDnat :: "gc_cfg \<Rightarrow> gc_env \<Rightarrow> gc_key \<Rightarrow> (gc_key \<times> gc_obj) list" where
  "ListMarkedDnat C E eip = filter (expired C E eip) (ListMarkedResource C (ge_dnats E eip) DNAT)"

fun deleteDnats :: "gc_env \<Rightarrow> gc_key list \<Rightarrow> (gc_objs \<Rightarrow> gc_objs) \<Rightarrow> gc_objs \<Rightarrow> gc_objs" where
  "deleteDnats E [] rest S = rest S"
| "deleteDnats E (d # ds) rest S = need_delete E d (deleteDnats E ds rest) S"

definition deleteEIP :: "gc_cfg \<Rightarrow> gc_env \<Rightarrow> gc_key \<Rightarrow> gc_objs \<Rightarrow> gc_objs" where
  "deleteEIP C E key =
     (let name = snd (snd key)
      in try_delete E (FIP, [], name) (try_delete E (SNAT, [], name)
           (deleteDnats E (map fst (ListMarkedDnat C E key)) (\<lambda>S. fst (gc_delete E key S)))))"

definition eip_Clean :: "gc_cfg \<Rightarrow> gc_env \<Rightarrow> gc_objs \<Rightarrow> gc_objs \<Rightarrow> gc_objs" where
  "eip_Clean C E cache = clean_marked C E cache EIP (deleteEIP C E)"


section \<open>Marking\<close>

definition ListNamespaceResource :: "gc_objs \<Rightarrow> string \<Rightarrow> string \<Rightarrow> (gc_key \<times> gc_obj) list" where
  "ListNamespaceResource cache kind namespace =
     filter (\<lambda>((k, _), obj). k = kind \<and> label (go_labels obj) SpxLabelProjectID = namespace) (gentries cache)"

definition gc_update :: "gc_env \<Rightarrow> gc_key \<Rightarrow> gc_obj \<Rightarrow> gc_world \<Rightarrow> gc_world \<times> go_error option" where
  "gc_update E key obj W =
     (case ge_fails E GcUpdate key of
        Some e \<Rightarrow> (W, Some e)
      | None \<Rightarrow> (case fmlookup (gs_server W) key of
                   None \<Rightarrow> (W, Some \<lparr>err_msg = fmt_q (snd (snd key)) @ '' not found'', err_kind = KNotFound\<rparr>)
                 | Some _ \<Rightarrow> (W\<lparr>gs_server := fmupd key obj (gs_server W)\<rparr>, None)))"

text \<open>
  One object of the loop of \<^verbatim>\<open>Mark\<close>. \<open>shared\<close> says whether the labels are set on the cached object itself
  (every cleaner but the one of bucket claims, which copies it first); \<open>prepare\<close> is what the cleaner changes
  besides the labels in the object it sends.
\<close>

type_synonym gc_marker = "gc_cfg \<Rightarrow> gc_env \<Rightarrow> string \<Rightarrow> gc_key \<times> gc_obj \<Rightarrow> gc_world \<Rightarrow> gc_world \<times> go_error option"

definition item_marker :: "bool \<Rightarrow> ((string, string) fmap \<Rightarrow> gc_obj \<Rightarrow> gc_obj) \<Rightarrow> gc_marker" where
  "item_marker shared prepare C E timestamp item W =
     (let (key, obj) = item; labels = fmupd (gc_markKey C) timestamp (go_labels obj);
          W1 = (if shared then W\<lparr>gs_cache := fmupd key (obj\<lparr>go_labels := labels\<rparr>) (gs_cache W)\<rparr> else W)
      in if ge_fails E GcTransform key \<noteq> None then (W1, Some (Errorf ''failed to transform item''))
         else (case gc_update E key (prepare labels (obj\<lparr>go_labels := labels\<rparr>)) W1 of
                 (W2, Some e) \<Rightarrow> (W2, Some (Errorf ''failed to mark item''))
               | (W2, None) \<Rightarrow> (W2, None)))"

fun mark_items :: "gc_marker \<Rightarrow> gc_cfg \<Rightarrow> gc_env \<Rightarrow> string \<Rightarrow> (gc_key \<times> gc_obj) list \<Rightarrow> gc_world \<Rightarrow> gc_world \<times> go_error option" where
  "mark_items marker C E timestamp [] W = (W, None)"
| "mark_items marker C E timestamp (item # items) W =
     (case marker C E timestamp item W of
        (W1, Some e) \<Rightarrow> (W1, Some e)
      | (W1, None) \<Rightarrow> mark_items marker C E timestamp items W1)"

definition mark_kind :: "gc_marker \<Rightarrow> gc_cfg \<Rightarrow> gc_env \<Rightarrow> string \<Rightarrow> string \<Rightarrow> string \<Rightarrow> gc_world \<Rightarrow> gc_world \<times> go_error option" where
  "mark_kind marker C E kind namespace timestamp W =
     mark_items marker C E timestamp (ListNamespaceResource (gs_cache W) kind namespace) W"

fun mark_kinds :: "gc_cfg \<Rightarrow> gc_env \<Rightarrow> string \<Rightarrow> string \<Rightarrow> string list \<Rightarrow> gc_world \<Rightarrow> gc_world \<times> go_error option" where
  "mark_kinds C E namespace timestamp [] W = (W, None)"
| "mark_kinds C E namespace timestamp (kind # kinds) W =
     (case mark_kind (item_marker True (\<lambda>_ obj. obj)) C E kind namespace timestamp W of
        (W1, Some e) \<Rightarrow> (W1, Some e)
      | (W1, None) \<Rightarrow> mark_kinds C E namespace timestamp kinds W1)"

text \<open>A virtual machine is also stopped, and its template gets the labels.\<close>

definition stop_vm :: "(string, string) fmap \<Rightarrow> gc_obj \<Rightarrow> gc_obj" where
  "stop_vm labels obj = obj\<lparr>go_template := labels, go_halted := True\<rparr>"

definition vm_Mark :: "gc_cfg \<Rightarrow> gc_env \<Rightarrow> string \<Rightarrow> string \<Rightarrow> gc_world \<Rightarrow> gc_world \<times> go_error option" where
  "vm_Mark C E namespace timestamp = mark_kind (item_marker True stop_vm) C E VirtualMachine namespace timestamp"

definition vmSnapshot_Mark :: "gc_cfg \<Rightarrow> gc_env \<Rightarrow> string \<Rightarrow> string \<Rightarrow> gc_world \<Rightarrow> gc_world \<times> go_error option" where
  "vmSnapshot_Mark C E namespace timestamp = mark_kind (item_marker True (\<lambda>_ obj. obj)) C E VirtualMachineSnapshot namespace timestamp"

definition ssh_Mark :: "gc_cfg \<Rightarrow> gc_env \<Rightarrow> string \<Rightarrow> string \<Rightarrow> gc_world \<Rightarrow> gc_world \<times> go_error option" where
  "ssh_Mark C E namespace timestamp = mark_kind (item_marker True (\<lambda>_ obj. obj)) C E SSH namespace timestamp"

definition loadbalancer_Mark :: "gc_cfg \<Rightarrow> gc_env \<Rightarrow> string \<Rightarrow> string \<Rightarrow> gc_world \<Rightarrow> gc_world \<times> go_error option" where
  "loadbalancer_Mark C E namespace timestamp = mark_kind (item_marker True (\<lambda>_ obj. obj)) C E SwitchLBRules namespace timestamp"

definition netpol_Mark :: "gc_cfg \<Rightarrow> gc_env \<Rightarrow> string \<Rightarrow> string \<Rightarrow> gc_world \<Rightarrow> gc_world \<times> go_error option" where
  "netpol_Mark C E namespace timestamp = mark_kind (item_marker True (\<lambda>_ obj. obj)) C E NetworkPolicy namespace timestamp"

definition datavolume_Mark :: "gc_cfg \<Rightarrow> gc_env \<Rightarrow> string \<Rightarrow> string \<Rightarrow> gc_world \<Rightarrow> gc_world \<times> go_error option" where
  "datavolume_Mark C E namespace timestamp = mark_kind (item_marker True (\<lambda>_ obj. obj)) C E DataVolume namespace timestamp"

definition volumeSnapshot_Mark :: "gc_cfg \<Rightarrow> gc_env \<Rightarrow> string \<Rightarrow> string \<Rightarrow> gc_world \<Rightarrow> gc_world \<times> go_error option" where
  "volumeSnapshot_Mark C E namespace timestamp = mark_kind (item_marker True (\<lambda>_ obj. obj)) C E VolumeSnapshot namespace timestamp"

definition obc_Mark :: "gc_cfg \<Rightarrow> gc_env \<Rightarrow> string \<Rightarrow> string \<Rightarrow> gc_world \<Rightarrow> gc_world \<times> go_error option" where
  "obc_Mark C E namespace timestamp = mark_kind (item_marker False (\<lambda>_ obj. obj)) C E ObjectBucketClaim namespace timestamp"

definition pvc_Mark :: "gc_cfg \<Rightarrow> gc_env \<Rightarrow> string \<Rightarrow> string \<Rightarrow> gc_world \<Rightarrow> gc_world \<times> go_error option" where
  "pvc_Mark C E namespace timestamp = mark_kind (item_marker True (\<lambda>_ obj. obj)) C E PersistentVolumeClaims namespace timestamp"

definition vpc_Mark :: "gc_cfg \<Rightarrow> gc_env \<Rightarrow> string \<Rightarrow> string \<Rightarrow> gc_world \<Rightarrow> gc_world \<times> go_error option" where
  "vpc_Mark C E namespace timestamp = mark_kind (item_marker True (\<lambda>_ obj. obj)) C E VPC namespace timestamp"

definition eip_Mark :: "gc_cfg \<Rightarrow> gc_env \<Rightarrow> string \<Rightarrow> string \<Rightarrow> gc_world \<Rightarrow> gc_world \<times> go_error option" where
  "eip_Mark C E namespace timestamp = mark_kinds C E namespace timestamp [EIP, FIP, SNAT, DNAT]"

definition subnet_Mark :: "gc_cfg \<Rightarrow> gc_env \<Rightarrow> string \<Rightarrow> string \<Rightarrow> gc_world \<Rightarrow> gc_world \<times> go_error option" where
  "subnet_Mark C E namespace timestamp = mark_kinds C E namespace timestamp [NAD, NatGw, Subnet]"

text \<open>The namespace is read from the API server.\<close>

definition namespace_Mark :: "gc_cfg \<Rightarrow> gc_env \<Rightarrow> string \<Rightarrow> string \<Rightarrow> gc_world \<Rightarrow> gc_world \<times> go_error option" where
  "namespace_Mark C E namespace timestamp W =
     (let key = (Namespace, [], namespace)
      in case ge_fails E GcGet key of
           Some e \<Rightarrow> if IsNotFound e then (W, None) else (W, Some e)
         | None \<Rightarrow>
             (case fmlookup (gs_server W) key of
                None \<Rightarrow> (W, None)
              | Some obj \<Rightarrow>
                  (case gc_update E key (obj\<lparr>go_labels := fmupd (gc_markKey C) timestamp (go_labels obj)\<rparr>) W of
                     (W1, Some e) \<Rightarrow> (W1, Some (Errorf ''failed to mark item''))
                   | (W1, None) \<Rightarrow> (W1, None))))"


section \<open>The collector and the request that marks a project\<close>

record gc_cleaner =
  cl_Clean :: "gc_cfg \<Rightarrow> gc_env \<Rightarrow> gc_objs \<Rightarrow> gc_objs \<Rightarrow> gc_objs"
  cl_Mark :: "gc_cfg \<Rightarrow> gc_env \<Rightarrow> string \<Rightarrow> string \<Rightarrow> gc_world \<Rightarrow> gc_world \<times> go_error option"

definition vm_cleaner :: gc_cleaner where "vm_cleaner = \<lparr>cl_Clean = vm_Clean, cl_Mark = vm_Mark\<rparr>"
definition vmSnapshot_cleaner :: gc_cleaner where "vmSnapshot_cleaner = \<lparr>cl_Clean = vmSnapshot_Clean, cl_Mark = vmSnapshot_Mark\<rparr>"
definition eip_cleaner :: gc_cleaner where "eip_cleaner = \<lparr>cl_Clean = eip_Clean, cl_Mark = eip_Mark\<rparr>"
definition ssh_cleaner :: gc_cleaner where "ssh_cleaner = \<lparr>cl_Clean = ssh_Clean, cl_Mark = ssh_Mark\<rparr>"
definition loadbalancer_cleaner :: gc_cleaner where "loadbalancer_cleaner = \<lparr>cl_Clean = loadbalancer_Clean, cl_Mark = loadbalancer_Mark\<rparr>"
definition netpol_cleaner :: gc_cleaner where "netpol_cleaner = \<lparr>cl_Clean = netpol_Clean, cl_Mark = netpol_Mark\<rparr>"
definition subnet_cleaner :: gc_cleaner where "subnet_cleaner = \<lparr>cl_Clean = subnet_Clean, cl_Mark = subnet_Mark\<rparr>"
definition datavolume_cleaner :: gc_cleaner where "datavolume_cleaner = \<lparr>cl_Clean = datavolume_Clean, cl_Mark = datavolume_Mark\<rparr>"
definition volumeSnapshot_cleaner :: gc_cleaner where "volumeSnapshot_cleaner = \<lparr>cl_Clean = volumeSnapshot_Clean, cl_Mark = volumeSnapshot_Mark\<rparr>"
definition obc_cleaner :: gc_cleaner where "obc_cleaner = \<lparr>cl_Clean = obc_Clean, cl_Mark = obc_Mark\<rparr>"
definition pvc_cleaner :: gc_cleaner where "pvc_cleaner = \<lparr>cl_Clean = pvc_Clean, cl_Mark = pvc_Mark\<rparr>"
definition vpc_cleaner :: gc_cleaner where "vpc_cleaner = \<lparr>cl_Clean = vpc_Clean, cl_Mark = vpc_Mark\<rparr>"
definition namespace_cleaner :: gc_cleaner where "namespace_cleaner = \<lparr>cl_Clean = namespace_Clean, cl_Mark = namespace_Mark\<rparr>"

definition cleanersLvl1 :: "gc_cleaner list" where
  "cleanersLvl1 = [vm_cleaner, vmSnapshot_cleaner, eip_cleaner, ssh_cleaner, loadbalancer_cleaner, netpol_cleaner]"

definition cleanersLvl2 :: "gc_cleaner list" where
  "cleanersLvl2 = [subnet_cleaner, datavolume_cleaner, volumeSnapshot_cleaner, obc_cleaner]"

definition cleanersLvl3 :: "gc_cleaner list" where
  "cleanersLvl3 = [pvc_cleaner, vpc_cleaner, namespace_cleaner]"

definition clean_level :: "gc_cfg \<Rightarrow> gc_env \<Rightarrow> nat \<Rightarrow> gc_cleaner list \<Rightarrow> gc_objs \<Rightarrow> gc_objs" where
  "clean_level C E lvl cleaners S = fold (\<lambda>cleaner. cl_Clean cleaner C E (ge_cache E lvl)) cleaners S"

definition garbageCollection :: "gc_cfg \<Rightarrow> gc_env \<Rightarrow> gc_objs \<Rightarrow> gc_objs" where
  "garbageCollection C E S =
     (let S1 = clean_level C E 1 cleanersLvl1 S
      in if ge_timeout E 1 then S1
         else let S2 = clean_level C E 2 cleanersLvl2 S1
              in if ge_timeout E 2 then S2 else clean_level C E 3 cleanersLvl3 S2)"

text \<open>
  All cleaners mark at the same time; the first error cancels the calls of the others, which then fail. Here
  they run one after the other, whatever the earlier ones reported, and \<open>ge_fails\<close> says which calls fail.
\<close>

definition cleaners :: "gc_cleaner list" where
  "cleaners = [vm_cleaner, vmSnapshot_cleaner, eip_cleaner, ssh_cleaner, loadbalancer_cleaner, netpol_cleaner, subnet_cleaner,
     datavolume_cleaner, volumeSnapshot_cleaner, obc_cleaner, pvc_cleaner, vpc_cleaner, namespace_cleaner]"

fun mark_all :: "gc_cfg \<Rightarrow> gc_env \<Rightarrow> string \<Rightarrow> string \<Rightarrow> gc_cleaner list \<Rightarrow> gc_world \<Rightarrow> gc_world \<times> go_error option" where
  "mark_all C E namespace timestamp [] W = (W, None)"
| "mark_all C E namespace timestamp (cleaner # cls) W =
     (case cl_Mark cleaner C E namespace timestamp W of
        (W1, None) \<Rightarrow> mark_all C E namespace timestamp cls W1
      | (W1, Some _) \<Rightarrow> (fst (mark_all C E namespace timestamp cls W1), Some (Errorf ''failed to mark item'')))"

definition deletionLabeling :: "gc_cfg \<Rightarrow> gc_env \<Rightarrow> string \<Rightarrow> int \<Rightarrow> gc_world \<Rightarrow> gc_world \<times> go_error option" where
  "deletionLabeling C E namespace now W =
     mark_all C E namespace (time_Format (gc_offset C) (now + gc_delay C)) cleaners W"

definition MarkForDeletion :: "gc_cfg \<Rightarrow> gc_env \<Rightarrow> string \<Rightarrow> int \<Rightarrow> gc_world \<Rightarrow> gc_world \<times> nat" where
  "MarkForDeletion C E namespace now W =
     (case deletionLabeling C E namespace now W of (W1, Some _) \<Rightarrow> (W1, 500) | (W1, None) \<Rightarrow> (W1, 200))"

end
