(* ===== verification/Gc_Lemmas.thy ===== *)
theory Gc_Lemmas
  imports Gc_Model
begin

text \<open>
  Lemmas on garbage collection. The contract that every cleaner keeps is the locale \<open>cleaner\<close>: cleaning removes
  only objects that have a cause to be removed, marking stays in the project, never takes a mark away and, when it
  succeeds, has marked every object of the kinds of the cleaner. It is interpreted on the thirteen cleaners, and
  the collector and the request to mark a project are analysed from it.
\<close>

section \<open>What cleaning removes\<close>

definition shrinks :: "(gc_key \<Rightarrow> bool) \<Rightarrow> gc_objs \<Rightarrow> gc_objs \<Rightarrow> bool" where
  "shrinks P S S' \<longleftrightarrow> (\<forall>key. fmlookup S' key = fmlookup S key \<or> fmlookup S' key = None \<and> P key)"

lemma shrinks_refl [simp]: "shrinks P S S"
  by (simp add: shrinks_def)

lemma shrinks_trans: "shrinks P S S1 \<Longrightarrow> shrinks P S1 S2 \<Longrightarrow> shrinks P S S2"
  unfolding shrinks_def by metis

lemma gc_delete_shrinks: "P key \<Longrightarrow> shrinks P S (fst (gc_delete E key S))"
  by (auto simp: gc_delete_def shrinks_def split: option.splits)

lemma try_delete_shrinks:
  assumes "P key" "\<And>V. shrinks P V (rest V)"
  shows "shrinks P S (try_delete E key rest S)"
  using gc_delete_shrinks [of P key S E] assms
  by (auto simp: try_delete_def split: prod.splits option.splits intro: shrinks_trans)

lemma need_delete_shrinks:
  assumes "P key" "\<And>V. shrinks P V (rest V)"
  shows "shrinks P S (need_delete E key rest S)"
  using gc_delete_shrinks [of P key S E] assms
  by (auto simp: need_delete_def split: prod.splits option.splits intro: shrinks_trans)

lemma deleteDnats_shrinks:
  "(\<And>d. d \<in> set ds \<Longrightarrow> P d) \<Longrightarrow> (\<And>V. shrinks P V (rest V)) \<Longrightarrow> shrinks P S (deleteDnats E ds rest S)"
  by (induction ds arbitrary: S) (auto intro!: need_delete_shrinks)

lemma fold_shrinks: "(\<And>x V. x \<in> set xs \<Longrightarrow> shrinks P V (f x V)) \<Longrightarrow> shrinks P S (fold f xs S)"
proof (induction xs arbitrary: S)
  case (Cons x xs)
  then have "shrinks P S (f x S)" "shrinks P (f x S) (fold f xs (f x S))" by auto
  then show ?case using shrinks_trans by auto
qed simp

text \<open>
  Why an object is removed: outside debug mode a cleaner has seen it marked with a time that has passed, or has
  seen so the external IP or the subnet of its name. NAT rules and gateways are only removed in the latter way.
\<close>

definition seen :: "gc_env \<Rightarrow> gc_key \<Rightarrow> gc_obj \<Rightarrow> bool" where
  "seen E key obj \<longleftrightarrow> (\<exists>lvl. fmlookup (ge_cache E lvl) key = Some obj) \<or> (\<exists>eip. fmlookup (ge_dnats E eip) key = Some obj)"

definition due :: "gc_cfg \<Rightarrow> gc_env \<Rightarrow> gc_key \<Rightarrow> bool" where
  "due C E key \<longleftrightarrow> \<not> gc_debug C \<and> (\<exists>obj cleaned. seen E key obj \<and> expired C E cleaned (key, obj))"

definition gc_cause :: "gc_cfg \<Rightarrow> gc_env \<Rightarrow> gc_key \<Rightarrow> bool" where
  "gc_cause C E key \<longleftrightarrow>
     due C E key \<and> fst key \<notin> {FIP, SNAT, NAD, NatGw} \<or>
     (\<exists>ns name. due C E (EIP, ns, name) \<and> key \<in> {(FIP, [], name), (SNAT, [], name)}) \<or>
     (\<exists>ns name. due C E (Subnet, ns, name) \<and> key \<in> {(NAD, [], name), (NatGw, [], name)})"

lemma ListMarkedResource_iff:
  "item \<in> set (ListMarkedResource C cache kind) \<longleftrightarrow>
     fmlookup cache (fst item) = Some (snd item) \<and> fst (fst item) = kind \<and> label (go_labels (snd item)) (gc_markKey C) \<noteq> []"
  by (cases item) (auto simp: ListMarkedResource_def set_gentries)

lemma ListMarkedDnat_due:
  assumes "d \<in> set (ListMarkedDnat C E eip)" "\<not> gc_debug C"
  shows "due C E (fst d) \<and> fst (fst d) = DNAT"
proof -
  have "expired C E eip d" "fmlookup (ge_dnats E eip) (fst d) = Some (snd d)" "fst (fst d) = DNAT"
    using assms(1) unfolding ListMarkedDnat_def set_filter by (simp_all add: ListMarkedResource_iff)
  then show ?thesis using assms(2) unfolding due_def seen_def by (metis prod.collapse)
qed

lemma clean_marked_shrinks:
  assumes "\<And>key V. due C E key \<Longrightarrow> fst key = kind \<Longrightarrow> \<not> gc_debug C \<Longrightarrow> shrinks (gc_cause C E) V (delete key V)"
  shows "shrinks (gc_cause C E) S (clean_marked C E (ge_cache E lvl) kind delete S)"
  unfolding clean_marked_def
proof (intro fold_shrinks)
  fix item V assume "item \<in> set (ListMarkedResource C (ge_cache E lvl) kind)"
  then have i: "fmlookup (ge_cache E lvl) (fst item) = Some (snd item)" "fst (fst item) = kind"
    by (simp_all add: ListMarkedResource_iff)
  have "due C E (fst item)" if "expired C E (fst item) item" "\<not> gc_debug C"
    using i(1) that unfolding due_def seen_def by (metis prod.collapse)
  then show "shrinks (gc_cause C E) V (if expired C E (fst item) item \<and> \<not> gc_debug C then delete (fst item) V else V)"
    using assms i(2) by simp
qed

lemma plain_clean_shrinks:
  assumes "kind \<notin> {FIP, SNAT, NAD, NatGw}"
  shows "shrinks (gc_cause C E) S (clean_marked C E (ge_cache E lvl) kind (\<lambda>key S. fst (gc_delete E key S)) S)"
  using assms by (intro clean_marked_shrinks gc_delete_shrinks) (simp add: gc_cause_def)

lemma subnet_clean_shrinks: "shrinks (gc_cause C E) S (subnet_Clean C E (ge_cache E lvl) S)"
  unfolding subnet_Clean_def
proof (intro clean_marked_shrinks)
  fix key V assume k: "due C E key" "fst key = Subnet"
  then have o: "due C E (Subnet, fst (snd key), snd (snd key))" by (metis prod.collapse)
  have "gc_cause C E key" using k by (simp add: gc_cause_def gc_kinds)
  moreover have "gc_cause C E (NAD, [], snd (snd key))" "gc_cause C E (NatGw, [], snd (snd key))"
    using o unfolding gc_cause_def by blast+
  ultimately show "shrinks (gc_cause C E) V (deleteSubnet E key V)"
    unfolding deleteSubnet_def Let_def by (intro try_delete_shrinks gc_delete_shrinks)
qed

lemma eip_clean_shrinks: "shrinks (gc_cause C E) S (eip_Clean C E (ge_cache E lvl) S)"
  unfolding eip_Clean_def
proof (intro clean_marked_shrinks)
  fix key V assume k: "due C E key" "fst key = EIP" and d: "\<not> gc_debug C"
  then have o: "due C E (EIP, fst (snd key), snd (snd key))" by (metis prod.collapse)
  have "gc_cause C E key" using k by (simp add: gc_cause_def gc_kinds)
  moreover have "gc_cause C E (FIP, [], snd (snd key))" "gc_cause C E (SNAT, [], snd (snd key))"
    using o unfolding gc_cause_def by blast+
  moreover have "gc_cause C E e" if e: "e \<in> set (map fst (ListMarkedDnat C E key))" for e
  proof -
    obtain x where "x \<in> set (ListMarkedDnat C E key)" "e = fst x" using e by auto
    then have "due C E e" "fst e = DNAT" using ListMarkedDnat_due [OF _ d] by simp_all
    then show ?thesis by (simp add: gc_cause_def gc_kinds)
  qed
  ultimately show "shrinks (gc_cause C E) V (deleteEIP C E key V)"
    unfolding deleteEIP_def Let_def by (intro try_delete_shrinks deleteDnats_shrinks gc_delete_shrinks)
qed


text \<open>When the deletions its cleaner needs do not fail, an object whose time has come is gone after its cleaner has run.\<close>

definition gc_calls :: "gc_key \<Rightarrow> gc_key set" where
  "gc_calls key = insert key
     (if fst key = Subnet then {(NAD, [], snd (snd key)), (NatGw, [], snd (snd key))}
      else if fst key = EIP then {(FIP, [], snd (snd key)), (SNAT, [], snd (snd key))} else {})"

definition collectable :: "gc_cfg \<Rightarrow> gc_env \<Rightarrow> gc_objs \<Rightarrow> gc_key \<Rightarrow> bool" where
  "collectable C E cache key \<longleftrightarrow>
     \<not> gc_debug C \<and> (\<forall>k\<in>gc_calls key. ge_fails E GcDelete k = None) \<and> (fst key = EIP \<longrightarrow> ListMarkedDnat C E key = []) \<and>
     (case fmlookup cache key of None \<Rightarrow> False | Some obj \<Rightarrow> expired C E key (key, obj))"

lemma collectable_fails: "collectable C E cache key \<Longrightarrow> k \<in> gc_calls key \<Longrightarrow> ge_fails E GcDelete k = None"
  unfolding collectable_def by blast

lemma shrinks_None: "shrinks P S S' \<Longrightarrow> fmlookup S key = None \<Longrightarrow> fmlookup S' key = None"
  unfolding shrinks_def by metis

lemma shrinks_any: "shrinks P S S' \<Longrightarrow> shrinks (\<lambda>_. True) S S'"
  unfolding shrinks_def by blast

lemma fold_removes:
  assumes "x \<in> set xs" "\<And>V. fmlookup (f x V) key = None" "\<And>y V. shrinks P V (f y V)"
  shows "fmlookup (fold f xs S) key = None"
proof -
  obtain us vs where "xs = us @ x # vs" using assms(1) by (meson split_list)
  moreover have "fmlookup (fold f vs (f x V)) key = None" for V
    using assms(2,3) by (intro shrinks_None [of P "f x V" "fold f vs (f x V)"] fold_shrinks)
  ultimately show ?thesis by simp
qed

lemma gc_delete_removes: "ge_fails E GcDelete key = None \<Longrightarrow> fmlookup (fst (gc_delete E key S)) key = None"
  by (simp add: gc_delete_def split: option.splits)

lemma try_delete_removes:
  "ge_fails E GcDelete k = None \<Longrightarrow> (\<And>V. fmlookup (rest V) key = None) \<Longrightarrow> fmlookup (try_delete E k rest S) key = None"
  by (auto simp: try_delete_def gc_delete_def IsNotFound_def split: option.splits)

lemma clean_marked_removes:
  assumes "collectable C E cache key" "fst key = kind" "\<And>V. fmlookup (delete key V) key = None" "\<And>k V. shrinks (\<lambda>_. True) V (delete k V)"
  shows "fmlookup (clean_marked C E cache kind delete S) key = None"
proof -
  obtain obj where o: "fmlookup cache key = Some obj" "expired C E key (key, obj)" and d: "\<not> gc_debug C"
    using assms(1) by (auto simp: collectable_def split: option.splits)
  then have "(key, obj) \<in> set (ListMarkedResource C cache kind)"
    using assms(2) by (auto simp: ListMarkedResource_iff expired_def ParseTimestamp_def Let_def split: if_splits)
  then show ?thesis unfolding clean_marked_def
    by (rule fold_removes [where P = "\<lambda>_. True"]) (use assms(3,4) o d in auto)
qed

lemma subnet_clean_removes:
  assumes "collectable C E cache key" "fst key = Subnet"
  shows "fmlookup (subnet_Clean C E cache S) key = None"
  unfolding subnet_Clean_def
proof (rule clean_marked_removes [OF assms])
  have f: "ge_fails E GcDelete (NAD, [], snd (snd key)) = None" "ge_fails E GcDelete (NatGw, [], snd (snd key)) = None"
    "ge_fails E GcDelete key = None"
    using assms by (auto intro!: collectable_fails simp: gc_calls_def)
  show "fmlookup (deleteSubnet E key V) key = None" for V
    unfolding deleteSubnet_def Let_def by (intro try_delete_removes gc_delete_removes f)
  show "shrinks (\<lambda>_. True) V (deleteSubnet E k V)" for k V
    unfolding deleteSubnet_def Let_def by (intro try_delete_shrinks gc_delete_shrinks TrueI)
qed

text \<open>When the network attachment cannot be deleted, neither the gateway nor the subnet is.\<close>

lemma deleteSubnet_stuck:
  assumes "ge_fails E GcDelete (NAD, [], snd (snd key)) = Some e" "\<not> IsNotFound e"
  shows "deleteSubnet E key S = S"
  using assms by (simp add: deleteSubnet_def try_delete_def gc_delete_def Let_def)

lemma eip_clean_removes:
  assumes "collectable C E cache key" "fst key = EIP"
  shows "fmlookup (eip_Clean C E cache S) key = None"
  unfolding eip_Clean_def
proof (rule clean_marked_removes [OF assms])
  have f: "ge_fails E GcDelete (FIP, [], snd (snd key)) = None" "ge_fails E GcDelete (SNAT, [], snd (snd key)) = None"
    "ge_fails E GcDelete key = None"
    using assms by (auto intro!: collectable_fails simp: gc_calls_def gc_kinds)
  have d: "ListMarkedDnat C E key = []" using assms by (simp add: collectable_def)
  show "fmlookup (deleteEIP C E key V) key = None" for V
    unfolding deleteEIP_def Let_def d list.map deleteDnats.simps
    by (intro try_delete_removes gc_delete_removes f)
  show "shrinks (\<lambda>_. True) V (deleteEIP C E k V)" for k V
    unfolding deleteEIP_def Let_def by (intro try_delete_shrinks deleteDnats_shrinks gc_delete_shrinks TrueI)
qed

lemma plain_clean_removes:
  assumes "collectable C E cache key" "fst key = kind"
  shows "fmlookup (clean_marked C E cache kind (\<lambda>key S. fst (gc_delete E key S)) S) key = None"
proof (rule clean_marked_removes [OF assms])
  show "fmlookup (fst (gc_delete E key V)) key = None" for V by (rule gc_delete_removes [OF collectable_fails [OF assms(1)]]) (simp add: gc_calls_def)
qed (simp add: gc_delete_shrinks)


section \<open>What marking changes\<close>

definition proj :: "gc_world \<Rightarrow> gc_key \<Rightarrow> string option" where
  "proj W key = map_option (\<lambda>obj. label (go_labels obj) SpxLabelProjectID) (fmlookup (gs_cache W) key)"

definition marks_project :: "string \<Rightarrow> gc_world \<Rightarrow> gc_world \<Rightarrow> bool" where
  "marks_project namespace W W' \<longleftrightarrow>
     (\<forall>key. proj W' key = proj W key) \<and> fmdom (gs_server W') = fmdom (gs_server W) \<and>
     (\<forall>key. proj W key \<noteq> Some namespace \<longrightarrow> fmlookup (gs_cache W') key = fmlookup (gs_cache W) key) \<and>
     (\<forall>key. proj W key \<noteq> Some namespace \<and> key \<noteq> (Namespace, [], namespace) \<longrightarrow>
        fmlookup (gs_server W') key = fmlookup (gs_server W) key)"

definition marked :: "gc_cfg \<Rightarrow> string \<Rightarrow> gc_world \<Rightarrow> gc_key \<Rightarrow> bool" where
  "marked C timestamp W key \<longleftrightarrow>
     (case fmlookup (gs_server W) key of
        None \<Rightarrow> False
      | Some obj \<Rightarrow> label (go_labels obj) (gc_markKey C) = timestamp \<and> (fst key = VirtualMachine \<longrightarrow> go_halted obj))"

definition marker_ok :: "string \<Rightarrow> ((string, string) fmap \<Rightarrow> gc_obj \<Rightarrow> gc_obj) \<Rightarrow> bool" where
  "marker_ok kind prepare \<longleftrightarrow>
     (\<forall>labels obj. go_labels (prepare labels obj) = go_labels obj \<and> (kind = VirtualMachine \<longrightarrow> go_halted (prepare labels obj)))"

lemma label_fmupd [simp]: "label (fmupd k v m) k' = (if k = k' then v else label m k')"
  by (simp add: label_def)

lemma marks_project_refl [simp]: "marks_project namespace W W"
  by (simp add: marks_project_def)

lemma marks_project_trans: "marks_project namespace W W1 \<Longrightarrow> marks_project namespace W1 W2 \<Longrightarrow> marks_project namespace W W2"
  by (auto simp: marks_project_def)

lemma marks_project_proj: "marks_project namespace W W' \<Longrightarrow> proj W' key = proj W key"
  unfolding marks_project_def by blast

lemma item_marker_project:
  assumes "gc_markKey C \<noteq> SpxLabelProjectID" "proj W key = Some namespace" "label (go_labels obj) SpxLabelProjectID = namespace"
  shows "marks_project namespace W (fst (item_marker shared prepare C E timestamp (key, obj) W))"
  using assms
  by (auto simp: item_marker_def gc_update_def Let_def marks_project_def proj_def split: option.splits intro: fmdomI)

lemma item_marker_keeps:
  assumes "marker_ok (fst key) prepare" "marked C timestamp W k"
  shows "marked C timestamp (fst (item_marker shared prepare C E timestamp (key, obj) W)) k"
  using assms
  by (auto simp: item_marker_def gc_update_def Let_def marked_def marker_ok_def split: option.splits)

lemma item_marker_marks:
  assumes "marker_ok (fst key) prepare" "item_marker shared prepare C E timestamp (key, obj) W = (W', None)"
  shows "marked C timestamp W' key"
  using assms
  by (auto simp: item_marker_def gc_update_def Let_def marked_def marker_ok_def split: option.splits if_splits)

lemma mark_items_project:
  assumes "gc_markKey C \<noteq> SpxLabelProjectID" "\<And>key obj. (key, obj) \<in> set items \<Longrightarrow> proj W key = Some namespace \<and> label (go_labels obj) SpxLabelProjectID = namespace"
  shows "marks_project namespace W (fst (mark_items (item_marker shared prepare) C E timestamp items W))"
  using assms(2)
proof (induction items arbitrary: W)
  case (Cons item items)
  obtain key obj where i: "item = (key, obj)" by (cases item)
  obtain W1 r where w: "item_marker shared prepare C E timestamp item W = (W1, r)" by fastforce
  have 1: "marks_project namespace W W1"
    using item_marker_project [OF assms(1), of W key namespace obj shared prepare E timestamp] Cons.prems [of key obj] w i by simp
  have "marks_project namespace W1 (fst (mark_items (item_marker shared prepare) C E timestamp items W1))"
  proof (rule Cons.IH)
    show "proj W1 k = Some namespace \<and> label (go_labels b) SpxLabelProjectID = namespace" if "(k, b) \<in> set items" for k b
      using Cons.prems [of k b] that by (simp add: marks_project_proj [OF 1])
  qed
  then show ?case using 1 w by (auto split: option.splits intro: marks_project_trans)
qed simp

lemma mark_items_keeps:
  assumes "\<And>item. item \<in> set items \<Longrightarrow> marker_ok (fst (fst item)) prepare" "marked C timestamp W k"
  shows "marked C timestamp (fst (mark_items (item_marker shared prepare) C E timestamp items W)) k"
  using assms
proof (induction items arbitrary: W)
  case (Cons item items)
  obtain W1 r where w: "item_marker shared prepare C E timestamp item W = (W1, r)" by fastforce
  have "marked C timestamp W1 k"
    using item_marker_keeps [of "fst item" prepare C timestamp W k shared E "snd item"] Cons.prems w by simp
  then show ?case using Cons.IH [of W1] Cons.prems w by (auto split: option.splits)
qed simp

lemma mark_items_marks:
  assumes "\<And>item. item \<in> set items \<Longrightarrow> marker_ok (fst (fst item)) prepare"
    "mark_items (item_marker shared prepare) C E timestamp items W = (W', None)" "item \<in> set items"
  shows "marked C timestamp W' (fst item)"
  using assms
proof (induction items arbitrary: W)
  case (Cons i items)
  obtain W1 r where w: "item_marker shared prepare C E timestamp i W = (W1, r)" by fastforce
  with Cons.prems(2) have r: "r = None" and rest: "mark_items (item_marker shared prepare) C E timestamp items W1 = (W', None)"
    by (auto split: option.splits)
  show ?case
  proof (cases "item = i")
    case True
    have "marked C timestamp W1 (fst i)"
      using item_marker_marks [of "fst i" prepare shared C E timestamp "snd i" W W1] Cons.prems(1) w r by simp
    then show ?thesis using mark_items_keeps [of items prepare C timestamp W1 "fst i" shared E] Cons.prems(1) rest True by simp
  next
    case False
    then show ?thesis using Cons.IH [of W1] Cons.prems(1,3) rest by simp
  qed
qed simp

lemma ListNamespaceResource_iff:
  "item \<in> set (ListNamespaceResource cache kind namespace) \<longleftrightarrow>
     fmlookup cache (fst item) = Some (snd item) \<and> fst (fst item) = kind \<and> label (go_labels (snd item)) SpxLabelProjectID = namespace"
  by (cases item) (auto simp: ListNamespaceResource_def set_gentries)

lemma mark_kind_project:
  "gc_markKey C \<noteq> SpxLabelProjectID \<Longrightarrow>
   marks_project namespace W (fst (mark_kind (item_marker shared prepare) C E kind namespace timestamp W))"
  unfolding mark_kind_def by (rule mark_items_project) (auto simp: ListNamespaceResource_iff proj_def)

lemma mark_kind_keeps:
  "marker_ok kind prepare \<Longrightarrow> marked C timestamp W k \<Longrightarrow>
   marked C timestamp (fst (mark_kind (item_marker shared prepare) C E kind namespace timestamp W)) k"
  unfolding mark_kind_def by (rule mark_items_keeps) (auto simp: ListNamespaceResource_iff)

lemma mark_kind_marks:
  assumes "marker_ok kind prepare" "mark_kind (item_marker shared prepare) C E kind namespace timestamp W = (W', None)"
    "fst key = kind" "proj W key = Some namespace"
  shows "marked C timestamp W' key"
proof -
  obtain obj where "fmlookup (gs_cache W) key = Some obj" "label (go_labels obj) SpxLabelProjectID = namespace"
    using assms(4) by (auto simp: proj_def)
  then have "(key, obj) \<in> set (ListNamespaceResource (gs_cache W) kind namespace)"
    using assms(3) by (simp add: ListNamespaceResource_iff)
  then show ?thesis
    using mark_items_marks [of "ListNamespaceResource (gs_cache W) kind namespace" prepare shared C E timestamp W W' "(key, obj)"]
      assms(1,2) by (simp add: mark_kind_def ListNamespaceResource_iff)
qed


section \<open>The contract of a cleaner\<close>

locale cleaner =
  fixes cl :: gc_cleaner and kind :: string and kinds :: "string set"
  assumes clean_cause: "shrinks (gc_cause C E) S (cl_Clean cl C E (ge_cache E lvl) S)"
    and clean_removes: "collectable C E cache key \<Longrightarrow> fst key = kind \<Longrightarrow> fmlookup (cl_Clean cl C E cache S) key = None"
    and mark_project: "gc_markKey C \<noteq> SpxLabelProjectID \<Longrightarrow> marks_project namespace W (fst (cl_Mark cl C E namespace timestamp W))"
    and mark_keeps: "marked C timestamp W key \<Longrightarrow> marked C timestamp (fst (cl_Mark cl C E namespace timestamp W)) key"
    and mark_marks: "gc_markKey C \<noteq> SpxLabelProjectID \<Longrightarrow> cl_Mark cl C E namespace timestamp W = (W', None) \<Longrightarrow>
      fst key \<in> kinds \<Longrightarrow> proj W key = Some namespace \<Longrightarrow> marked C timestamp W' key"

lemma plain_cleaner:
  assumes "kind \<notin> {FIP, SNAT, NAD, NatGw}" "marker_ok kind prepare"
  shows "cleaner \<lparr>cl_Clean = \<lambda>C E cache. clean_marked C E cache kind (\<lambda>key S. fst (gc_delete E key S)),
    cl_Mark = \<lambda>C E namespace timestamp. mark_kind (item_marker shared prepare) C E kind namespace timestamp\<rparr> kind {kind}"
  using plain_clean_shrinks [OF assms(1)] plain_clean_removes mark_kind_project mark_kind_keeps [OF assms(2)] mark_kind_marks [OF assms(2)]
  by (simp add: cleaner_def)

interpretation vm: cleaner vm_cleaner VirtualMachine "{VirtualMachine}"
  unfolding vm_cleaner_def vm_Clean_def vm_Mark_def
  by (rule plain_cleaner) (simp_all add: gc_kinds marker_ok_def stop_vm_def)

interpretation vmSnapshot: cleaner vmSnapshot_cleaner VirtualMachineSnapshot "{VirtualMachineSnapshot}"
  unfolding vmSnapshot_cleaner_def vmSnapshot_Clean_def vmSnapshot_Mark_def
  by (rule plain_cleaner) (simp_all add: gc_kinds marker_ok_def)

interpretation ssh: cleaner ssh_cleaner SSH "{SSH}"
  unfolding ssh_cleaner_def ssh_Clean_def ssh_Mark_def
  by (rule plain_cleaner) (simp_all add: gc_kinds marker_ok_def)

interpretation loadbalancer: cleaner loadbalancer_cleaner SwitchLBRules "{SwitchLBRules}"
  unfolding loadbalancer_cleaner_def loadbalancer_Clean_def loadbalancer_Mark_def
  by (rule plain_cleaner) (simp_all add: gc_kinds marker_ok_def)

interpretation netpol: cleaner netpol_cleaner NetworkPolicy "{NetworkPolicy}"
  unfolding netpol_cleaner_def netpol_Clean_def netpol_Mark_def
  by (rule plain_cleaner) (simp_all add: gc_kinds marker_ok_def)

interpretation datavolume: cleaner datavolume_cleaner DataVolume "{DataVolume}"
  unfolding datavolume_cleaner_def datavolume_Clean_def datavolume_Mark_def
  by (rule plain_cleaner) (simp_all add: gc_kinds marker_ok_def)

interpretation volumeSnapshot: cleaner volumeSnapshot_cleaner VolumeSnapshot "{VolumeSnapshot}"
  unfolding volumeSnapshot_cleaner_def volumeSnapshot_Clean_def volumeSnapshot_Mark_def
  by (rule plain_cleaner) (simp_all add: gc_kinds marker_ok_def)

interpretation obc: cleaner obc_cleaner ObjectBucketClaim "{ObjectBucketClaim}"
  unfolding obc_cleaner_def obc_Clean_def obc_Mark_def
  by (rule plain_cleaner) (simp_all add: gc_kinds marker_ok_def)

interpretation pvc: cleaner pvc_cleaner PersistentVolumeClaims "{PersistentVolumeClaims}"
  unfolding pvc_cleaner_def pvc_Clean_def pvc_Mark_def
  by (rule plain_cleaner) (simp_all add: gc_kinds marker_ok_def)

interpretation vpc: cleaner vpc_cleaner VPC "{VPC}"
  unfolding vpc_cleaner_def vpc_Clean_def vpc_Mark_def
  by (rule plain_cleaner) (simp_all add: gc_kinds marker_ok_def)

lemma mark_kinds_project:
  "gc_markKey C \<noteq> SpxLabelProjectID \<Longrightarrow> marks_project namespace W (fst (mark_kinds C E namespace timestamp kinds W))"
proof (induction kinds arbitrary: W)
  case (Cons kind kinds)
  obtain W1 r where w: "mark_kind (item_marker True (\<lambda>_ obj. obj)) C E kind namespace timestamp W = (W1, r)" by fastforce
  have "marks_project namespace W W1" using mark_kind_project [OF Cons.prems, of namespace W True "\<lambda>_ obj. obj" E kind timestamp] w by simp
  then show ?case using Cons.IH [OF Cons.prems, of W1] w by (auto split: option.splits intro: marks_project_trans)
qed simp

lemma mark_kinds_keeps:
  "VirtualMachine \<notin> set kinds \<Longrightarrow> marked C timestamp W k \<Longrightarrow> marked C timestamp (fst (mark_kinds C E namespace timestamp kinds W)) k"
proof (induction kinds arbitrary: W)
  case (Cons kind kinds)
  obtain W1 r where w: "mark_kind (item_marker True (\<lambda>_ obj. obj)) C E kind namespace timestamp W = (W1, r)" by fastforce
  have "marked C timestamp W1 k"
    using mark_kind_keeps [of kind "\<lambda>_ obj. obj" C timestamp W k True E namespace] Cons.prems w by (auto simp: marker_ok_def)
  then show ?case using Cons.IH [of W1] Cons.prems w by (auto split: option.splits)
qed simp

lemma mark_kinds_marks:
  assumes "gc_markKey C \<noteq> SpxLabelProjectID" "VirtualMachine \<notin> set kinds" "mark_kinds C E namespace timestamp kinds W = (W', None)"
    "fst key \<in> set kinds" "proj W key = Some namespace"
  shows "marked C timestamp W' key"
  using assms(2-5)
proof (induction kinds arbitrary: W)
  case (Cons kind kinds)
  obtain W1 r where w: "mark_kind (item_marker True (\<lambda>_ obj. obj)) C E kind namespace timestamp W = (W1, r)" by fastforce
  with Cons.prems(2) have r: "r = None" and rest: "mark_kinds C E namespace timestamp kinds W1 = (W', None)"
    by (auto split: option.splits)
  show ?case
  proof (cases "fst key = kind")
    case True
    have "marker_ok kind (\<lambda>_ obj. obj)" using Cons.prems(1) by (auto simp: marker_ok_def)
    then have "marked C timestamp W1 key" using mark_kind_marks w r True Cons.prems(4) by blast
    then show ?thesis using mark_kinds_keeps [of kinds C timestamp W1 key E namespace] Cons.prems(1) rest by simp
  next
    case False
    have "proj W1 key = Some namespace"
      using marks_project_proj [of namespace W W1 key] mark_kind_project [OF assms(1), of namespace W True "\<lambda>_ obj. obj" E kind timestamp]
        w Cons.prems(4) by simp
    then show ?thesis using Cons.IH [of W1] Cons.prems(1,3) rest False by simp
  qed
qed simp

lemma kinds_cleaner:
  assumes "VirtualMachine \<notin> set ks" "\<And>C E S lvl. shrinks (gc_cause C E) S (clean C E (ge_cache E lvl) S)"
    "\<And>C E cache key S. collectable C E cache key \<Longrightarrow> fst key = kind \<Longrightarrow> fmlookup (clean C E cache S) key = None"
  shows "cleaner \<lparr>cl_Clean = clean, cl_Mark = \<lambda>C E namespace timestamp. mark_kinds C E namespace timestamp ks\<rparr> kind (set ks)"
  using assms(2,3) mark_kinds_project mark_kinds_keeps [OF assms(1)] mark_kinds_marks [OF _ assms(1)]
  by (simp add: cleaner_def)

interpretation eip: cleaner eip_cleaner EIP "set [EIP, FIP, SNAT, DNAT]"
  unfolding eip_cleaner_def eip_Mark_def by (rule kinds_cleaner) (simp_all add: VirtualMachine_def EIP_def FIP_def SNAT_def DNAT_def eip_clean_shrinks eip_clean_removes [unfolded EIP_def])

interpretation subnet: cleaner subnet_cleaner Subnet "set [NAD, NatGw, Subnet]"
  unfolding subnet_cleaner_def subnet_Mark_def by (rule kinds_cleaner) (simp_all add: VirtualMachine_def NAD_def NatGw_def Subnet_def subnet_clean_shrinks subnet_clean_removes [unfolded Subnet_def])

lemma namespace_Mark_project: "marks_project namespace W (fst (namespace_Mark C E namespace timestamp W))"
  by (auto simp: namespace_Mark_def gc_update_def Let_def marks_project_def proj_def split: option.splits intro: fmdomI)

lemma namespace_Mark_keeps: "marked C timestamp W k \<Longrightarrow> marked C timestamp (fst (namespace_Mark C E namespace timestamp W)) k"
  by (auto simp: namespace_Mark_def gc_update_def Let_def marked_def gc_kinds split: option.splits)

interpretation namespace: cleaner namespace_cleaner Namespace "{}"
  using namespace_Mark_project namespace_Mark_keeps plain_clean_shrinks [of Namespace] plain_clean_removes [where kind = Namespace]
  by unfold_locales (simp_all add: namespace_cleaner_def namespace_Clean_def gc_kinds)



section \<open>Levels and passes\<close>

text \<open>A list of cleaners and the kinds they collect and mark.\<close>

definition keep_contract :: "gc_cleaner list \<Rightarrow> (string \<times> string set) list \<Rightarrow> bool" where
  "keep_contract cls ks = list_all2 (\<lambda>cl (kind, kinds). cleaner cl kind kinds) cls ks"

lemma keep_contract_cleaners:
  "keep_contract cleanersLvl1 [(VirtualMachine, {VirtualMachine}), (VirtualMachineSnapshot, {VirtualMachineSnapshot}),
     (EIP, set [EIP, FIP, SNAT, DNAT]), (SSH, {SSH}), (SwitchLBRules, {SwitchLBRules}), (NetworkPolicy, {NetworkPolicy})]"
  "keep_contract cleanersLvl2 [(Subnet, set [NAD, NatGw, Subnet]), (DataVolume, {DataVolume}), (VolumeSnapshot, {VolumeSnapshot}),
     (ObjectBucketClaim, {ObjectBucketClaim})]"
  "keep_contract cleanersLvl3 [(PersistentVolumeClaims, {PersistentVolumeClaims}), (VPC, {VPC}), (Namespace, {})]"
  by (simp_all only: keep_contract_def cleanersLvl1_def cleanersLvl2_def cleanersLvl3_def list_all2_Cons list.rel_intros prod.case
    vm.cleaner_axioms vmSnapshot.cleaner_axioms eip.cleaner_axioms ssh.cleaner_axioms loadbalancer.cleaner_axioms netpol.cleaner_axioms
    subnet.cleaner_axioms datavolume.cleaner_axioms volumeSnapshot.cleaner_axioms obc.cleaner_axioms
    pvc.cleaner_axioms vpc.cleaner_axioms namespace.cleaner_axioms simp_thms)

lemma clean_level_shrinks:
  assumes "keep_contract cls ks"
  shows "shrinks (gc_cause C E) S (clean_level C E lvl cls S)"
  unfolding clean_level_def
proof (rule fold_shrinks)
  fix cl V assume "cl \<in> set cls"
  then obtain kind kinds where "cleaner cl kind kinds"
    using assms by (auto simp: keep_contract_def list_all2_conv_all_nth in_set_conv_nth)
  then show "shrinks (gc_cause C E) V (cl_Clean cl C E (ge_cache E lvl) V)" by (rule cleaner.clean_cause)
qed

lemma clean_level_removes:
  assumes "keep_contract cls ks" "fst key \<in> fst ` set ks" "collectable C E (ge_cache E lvl) key"
  shows "fmlookup (clean_level C E lvl cls S) key = None"
  using assms(1,2) unfolding clean_level_def keep_contract_def
proof (induction arbitrary: S)
  case (Cons cl cls k ks)
  obtain kind kinds where k: "k = (kind, kinds)" by (cases k)
  then have cl: "cleaner cl kind kinds" using Cons.hyps by simp
  show ?case
  proof (cases "fst key = kind")
    case True
    have "shrinks (gc_cause C E) V (clean_level C E lvl cls V)" for V
      using Cons.hyps by (intro clean_level_shrinks [of cls ks]) (simp add: keep_contract_def)
    then have "fmlookup (clean_level C E lvl cls (cl_Clean cl C E (ge_cache E lvl) S)) key = None"
      by (rule shrinks_None) (rule cleaner.clean_removes [OF cl assms(3) True])
    then show ?thesis by (simp add: clean_level_def)
  next
    case False
    then show ?thesis using Cons.IH Cons.prems k by simp
  qed
qed simp

lemma garbageCollection_shrinks: "shrinks (gc_cause C E) S (garbageCollection C E S)"
proof -
  note l = keep_contract_cleaners [THEN clean_level_shrinks, of C E]
  have 2: "shrinks (gc_cause C E) S (clean_level C E 2 cleanersLvl2 (clean_level C E 1 cleanersLvl1 S))"
    by (rule shrinks_trans [OF l(1) l(2)])
  then show ?thesis unfolding garbageCollection_def Let_def
    using l(1) shrinks_trans [OF 2 l(3)] by simp
qed

lemma mark_all_project:
  assumes "keep_contract cls ks" "gc_markKey C \<noteq> SpxLabelProjectID"
  shows "marks_project namespace W (fst (mark_all C E namespace timestamp cls W))"
  using assms(1) unfolding keep_contract_def
proof (induction arbitrary: W)
  case (Cons cl cls k ks)
  obtain W1 r where w: "cl_Mark cl C E namespace timestamp W = (W1, r)" by fastforce
  have "marks_project namespace W W1"
    using cleaner.mark_project [of cl "fst k" "snd k" C namespace W E timestamp] Cons.hyps assms(2) w by (simp add: case_prod_unfold)
  then show ?case using Cons.IH [of W1] w by (auto split: option.splits intro: marks_project_trans)
qed simp

lemma mark_all_keeps:
  assumes "keep_contract cls ks" "marked C timestamp W key"
  shows "marked C timestamp (fst (mark_all C E namespace timestamp cls W)) key"
  using assms unfolding keep_contract_def
proof (induction arbitrary: W)
  case (Cons cl cls k ks)
  obtain W1 r where w: "cl_Mark cl C E namespace timestamp W = (W1, r)" by fastforce
  have "marked C timestamp W1 key"
    using cleaner.mark_keeps [of cl "fst k" "snd k" C timestamp W key E namespace] Cons.hyps Cons.prems w by (simp add: case_prod_unfold)
  then show ?case using Cons.IH [of W1] w by (auto split: option.splits)
qed simp

lemma mark_all_marks:
  assumes "keep_contract cls ks" "gc_markKey C \<noteq> SpxLabelProjectID" "mark_all C E namespace timestamp cls W = (W', None)"
    "fst key \<in> \<Union> (snd ` set ks)" "proj W key = Some namespace"
  shows "marked C timestamp W' key"
  using assms(1,3-5) unfolding keep_contract_def
proof (induction arbitrary: W)
  case (Cons cl cls k ks)
  have cl: "cleaner cl (fst k) (snd k)" using Cons.hyps by (simp add: case_prod_unfold)
  obtain W1 r where w: "cl_Mark cl C E namespace timestamp W = (W1, r)" by fastforce
  with Cons.prems(1) have r: "r = None" and rest: "mark_all C E namespace timestamp cls W1 = (W', None)"
    by (auto split: option.splits)
  show ?case
  proof (cases "fst key \<in> snd k")
    case True
    have "marked C timestamp W1 key" using cleaner.mark_marks [OF cl assms(2) _ True Cons.prems(3)] w r by simp
    then show ?thesis using mark_all_keeps [of cls ks C timestamp W1 key E namespace] Cons.hyps rest by (simp add: keep_contract_def)
  next
    case False
    have "proj W1 key = Some namespace"
      using marks_project_proj [of namespace W W1 key] cleaner.mark_project [OF cl assms(2), of namespace W E timestamp] w Cons.prems(3)
      by simp
    then show ?thesis using Cons.IH [of W1] Cons.prems(2) rest False by simp
  qed
qed simp

end
