(* ===== verification/Gc_Properties.thy ===== *)
theory Gc_Properties
  imports Gc_Lemmas
begin

text \<open>
  Properties of garbage collection: what a pass removes, when a marked object goes, and what the request to mark a
  project changes.
\<close>

section \<open>The life of a marked object\<close>

text \<open>Times the layout of the marks can express: the zone is given in minutes and the year has four digits.\<close>

definition expressible :: "int \<Rightarrow> int \<Rightarrow> bool" where
  "expressible offset t \<longleftrightarrow> offset mod 60 = 0 \<and> \<bar>offset\<bar> \<le> 86400 \<and> 0 \<le> t div 1000000000 + offset \<and>
     fst (year_from 0 (nat ((t div 1000000000 + offset) div 86400))) < 10000"

text \<open>The kinds whose objects are marked and collected one by one, with the level that collects them.\<close>

definition collected_kinds :: "nat \<Rightarrow> string set" where
  "collected_kinds lvl =
     (if lvl = 1 then {VirtualMachine, VirtualMachineSnapshot, SSH, SwitchLBRules, NetworkPolicy}
      else if lvl = 2 then {DataVolume, VolumeSnapshot, ObjectBucketClaim}
      else if lvl = 3 then {PersistentVolumeClaims, VPC} else {})"

lemma expired_mark:
  assumes "expressible offset t" "label (go_labels obj) (gc_markKey C) = time_Format offset t"
  shows "expired C E cleaned (key, obj) \<longleftrightarrow> t - t mod 1000000000 < ge_now E cleaned key"
proof -
  have p: "time_Parse (time_Format offset t) = Some (t - t mod 1000000000)"
    using assms(1) by (intro time_Parse_Format) (simp_all add: expressible_def)
  moreover have "time_Parse [] = None" by (simp add: time_Parse_def get_year_def)
  ultimately have "time_Format offset t \<noteq> []" by auto
  then show ?thesis using p assms(2) by (simp add: expired_def ParseTimestamp_def)
qed

lemma garbageCollection_removes:
  assumes "fst key \<in> collected_kinds lvl" "collectable C E (ge_cache E lvl) key" "\<not> ge_timeout E 1" "\<not> ge_timeout E 2"
  shows "fmlookup (garbageCollection C E S) key = None"
proof -
  note l = keep_contract_cleaners
  consider "lvl = 1" | "lvl = 2" | "lvl = 3" using assms(1) by (auto simp: collected_kinds_def split: if_splits)
  then show ?thesis
  proof cases
    case 1
    have "fmlookup (clean_level C E 1 cleanersLvl1 S) key = None"
      using assms(1,2) 1 by (intro clean_level_removes [OF l(1)]) (auto simp: collected_kinds_def)
    then show ?thesis using assms(3,4) shrinks_None [OF clean_level_shrinks [OF l(2)]] shrinks_None [OF clean_level_shrinks [OF l(3)]]
      by (simp add: garbageCollection_def)
  next
    case 2
    have "fmlookup (clean_level C E 2 cleanersLvl2 V) key = None" for V
      using assms(1,2) 2 by (intro clean_level_removes [OF l(2)]) (auto simp: collected_kinds_def)
    then show ?thesis using assms(3,4) shrinks_None [OF clean_level_shrinks [OF l(3)]]
      by (simp add: garbageCollection_def)
  next
    case 3
    have "fmlookup (clean_level C E 3 cleanersLvl3 V) key = None" for V
      using assms(1,2) 3 by (intro clean_level_removes [OF l(3)]) (auto simp: collected_kinds_def)
    then show ?thesis using assms(3,4) by (simp add: garbageCollection_def)
  qed
qed

lemma cleaners_levels: "cleaners = cleanersLvl1 @ cleanersLvl2 @ cleanersLvl3"
  by (simp add: cleaners_def cleanersLvl1_def cleanersLvl2_def cleanersLvl3_def)

lemma keep_contract_append:
  "keep_contract as ks \<Longrightarrow> keep_contract bs ls \<Longrightarrow> keep_contract (as @ bs) (ks @ ls)"
  by (simp add: keep_contract_def list_all2_appendI)

lemmas keep_contract_all = keep_contract_append [OF keep_contract_cleaners(1) keep_contract_append [OF keep_contract_cleaners(2,3)],
  folded cleaners_levels]

definition marked_kinds :: "string set" where
  "marked_kinds = {VirtualMachine, VirtualMachineSnapshot, EIP, FIP, SNAT, DNAT, SSH, SwitchLBRules, NetworkPolicy, NAD, NatGw, Subnet,
     DataVolume, VolumeSnapshot, ObjectBucketClaim, PersistentVolumeClaims, VPC}"

lemma deletionLabeling_marks:
  assumes "deletionLabeling C E namespace t W = (W', None)" "gc_markKey C \<noteq> SpxLabelProjectID" "proj W key = Some namespace"
    "fst key \<in> marked_kinds"
  shows "marked C (time_Format (gc_offset C) (t + gc_delay C)) W' key"
  using assms unfolding deletionLabeling_def
  by (intro mark_all_marks [OF keep_contract_all]) (auto simp: marked_kinds_def)

lemma projI: "fmlookup (gs_cache W) key = Some obj \<Longrightarrow> label (go_labels obj) SpxLabelProjectID = namespace \<Longrightarrow> proj W key = Some namespace"
  by (simp add: proj_def)

lemma MarkForDeletion_200: "MarkForDeletion C E namespace t W = (W', 200) \<longleftrightarrow> deletionLabeling C E namespace t W = (W', None)"
  by (auto simp: MarkForDeletion_def split: option.splits prod.splits)

lemma collected_marked: "fst key \<in> collected_kinds lvl \<Longrightarrow> fst key \<in> marked_kinds \<and> fst key \<notin> {EIP, FIP, SNAT, NAD, NatGw, Subnet}"
  by (auto simp: collected_kinds_def marked_kinds_def gc_kinds split: if_splits)


section \<open>Properties\<close>

text \<open>
  C14. A pass of the garbage collector changes no object and removes only those with a cause: outside debug mode,
  the object was seen with a mark whose time has passed, or it is a NAT rule or gateway named like an external IP or
  a subnet that was. This holds whatever calls fail and wherever the pass stops.
\<close>

theorem collector_removes_only_due_objects:
  "fmlookup (garbageCollection C E S) key = fmlookup S key \<or>
   fmlookup (garbageCollection C E S) key = None \<and> gc_cause C E key"
  using garbageCollection_shrinks [of C E S] unfolding shrinks_def by blast

text \<open>
  C24. After a request to mark a project that answers 200, every object of the project in the caches, of the kinds the
  cleaners know, carries on the API server the time of the request plus the delay, and virtual machines are stopped.
\<close>

theorem successful_marking_is_complete:
  assumes "MarkForDeletion C E namespace now W = (W', 200)" "gc_markKey C \<noteq> SpxLabelProjectID"
    "fmlookup (gs_cache W) key = Some cached" "label (go_labels cached) SpxLabelProjectID = namespace" "fst key \<in> marked_kinds"
  shows "\<exists>obj. fmlookup (gs_server W') key = Some obj \<and>
    label (go_labels obj) (gc_markKey C) = time_Format (gc_offset C) (now + gc_delay C) \<and> (fst key = VirtualMachine \<longrightarrow> go_halted obj)"
proof -
  have "marked C (time_Format (gc_offset C) (now + gc_delay C)) W' key"
    using deletionLabeling_marks [OF _ assms(2) projI [OF assms(3,4)] assms(5)] assms(1) by (simp add: MarkForDeletion_200)
  then show ?thesis by (auto simp: marked_def split: option.splits)
qed

text \<open>
  C31. The request to mark a project changes, whatever it answers, nothing but the objects whose cached copy belongs
  to the project and the namespace of the project, and it neither creates nor removes objects.
\<close>

theorem marking_stays_in_project:
  assumes "gc_markKey C \<noteq> SpxLabelProjectID" "MarkForDeletion C E namespace now W = (W', status)"
  shows "fmdom (gs_server W') = fmdom (gs_server W) \<and>
    (\<forall>key. key \<noteq> (Namespace, [], namespace) \<longrightarrow>
      (\<forall>cached. fmlookup (gs_cache W) key = Some cached \<longrightarrow> label (go_labels cached) SpxLabelProjectID \<noteq> namespace) \<longrightarrow>
      fmlookup (gs_server W') key = fmlookup (gs_server W) key)"
proof -
  have "W' = fst (deletionLabeling C E namespace now W)" using assms(2) by (auto simp: MarkForDeletion_def split: option.splits prod.splits)
  then have m: "marks_project namespace W W'"
    using mark_all_project [OF keep_contract_all assms(1)] by (simp add: deletionLabeling_def)
  moreover have "fmlookup (gs_server W') key = fmlookup (gs_server W) key"
    if "key \<noteq> (Namespace, [], namespace)" "\<forall>cached. fmlookup (gs_cache W) key = Some cached \<longrightarrow> label (go_labels cached) SpxLabelProjectID \<noteq> namespace" for key
  proof -
    have "proj W key \<noteq> Some namespace" using that(2) by (auto simp: proj_def)
    then show ?thesis using m that(1) unfolding marks_project_def by blast
  qed
  ultimately show ?thesis unfolding marks_project_def by blast
qed

text \<open>
  C32. Consider a project marked at a time with the answer 200, and a later pass of the collector that completes,
  outside debug mode, on caches that hold the marked objects, and in which the deletion of the object is not refused.
  An object of a kind that is collected by itself (not an external IP, a subnet or a namespace) is then removed exactly when the clock has passed the time of the request plus the delay,
  rounded down to seconds: neither during the grace period nor left behind after it.
\<close>

theorem marked_object_collected_iff:
  assumes "MarkForDeletion C E namespace now W = (W', 200)" "gc_markKey C \<noteq> SpxLabelProjectID"
    "fmlookup (gs_cache W) key = Some cached" "label (go_labels cached) SpxLabelProjectID = namespace"
    "fst key \<in> collected_kinds lvl" "expressible (gc_offset C) (now + gc_delay C)"
    "\<forall>l. fmlookup (ge_cache P l) key = fmlookup (gs_server W') key" "\<forall>eip. fmlookup (ge_dnats P eip) key = fmlookup (gs_server W') key"
    "ge_fails P GcDelete key = None" "\<not> ge_timeout P 1" "\<not> ge_timeout P 2" "\<not> gc_debug C" "\<forall>cleaned. ge_now P cleaned key = later"
  shows "fmlookup (garbageCollection C P (gs_server W')) key = None \<longleftrightarrow>
    now + gc_delay C - (now + gc_delay C) mod 1000000000 < later"
proof -
  have "marked C (time_Format (gc_offset C) (now + gc_delay C)) W' key"
    using deletionLabeling_marks [OF _ assms(2) projI [OF assms(3,4)]] collected_marked [OF assms(5)] assms(1)
    by (simp add: MarkForDeletion_200)
  then obtain obj where o: "fmlookup (gs_server W') key = Some obj"
    "label (go_labels obj) (gc_markKey C) = time_Format (gc_offset C) (now + gc_delay C)"
    by (auto simp: marked_def split: option.splits)
  have e: "expired C P cleaned (key, obj) \<longleftrightarrow> now + gc_delay C - (now + gc_delay C) mod 1000000000 < later" for cleaned
    by (simp only: expired_mark [OF assms(6) o(2)] spec [OF assms(13)])
  note k = collected_marked [OF assms(5)]
  show ?thesis
  proof
    assume "fmlookup (garbageCollection C P (gs_server W')) key = None"
    then have "gc_cause C P key" using garbageCollection_shrinks [of C P "gs_server W'"] o(1) unfolding shrinks_def by (metis option.distinct(1))
    then have "due C P key" using k unfolding gc_cause_def by auto
    then obtain b cleaned where "seen P key b" "expired C P cleaned (key, b)" unfolding due_def by blast
    moreover from this(1) have "b = obj" using assms(7,8) o(1) unfolding seen_def by (metis option.inject)
    ultimately show "now + gc_delay C - (now + gc_delay C) mod 1000000000 < later" using e by simp
  next
    assume "now + gc_delay C - (now + gc_delay C) mod 1000000000 < later"
    then have "collectable C P (ge_cache P lvl) key"
      unfolding collectable_def using assms(7,9,12) o(1) k e by (auto simp: gc_calls_def)
    then show "fmlookup (garbageCollection C P (gs_server W')) key = None"
      using assms(5,10,11) by (intro garbageCollection_removes)
  qed
qed



text \<open>
  Two consequences for the NAT rules and the network attachments. A source NAT rule goes only with an external IP of
  the same name, so a rule of another name stays; and a network attachment of a project stays in every pass, because
  it is looked for in the empty namespace.
\<close>

theorem snat_rule_of_other_name_stays:
  assumes "\<forall>ns. \<not> due C E (EIP, ns, name)"
  shows "fmlookup (garbageCollection C E S) (SNAT, [], name) = fmlookup S (SNAT, [], name)"
proof -
  have "\<not> gc_cause C E (SNAT, [], name)" using assms by (auto simp: gc_cause_def gc_kinds)
  then show ?thesis using garbageCollection_shrinks [of C E S] unfolding shrinks_def by blast
qed

theorem network_attachment_stays:
  assumes "ns \<noteq> []"
  shows "fmlookup (garbageCollection C E S) (NAD, ns, name) = fmlookup S (NAD, ns, name)"
proof -
  have "\<not> gc_cause C E (NAD, ns, name)" using assms by (auto simp: gc_cause_def gc_kinds)
  then show ?thesis using garbageCollection_shrinks [of C E S] unfolding shrinks_def by blast
qed


section \<open>An example\<close>

definition demo_gc_cfg :: gc_cfg where
  "demo_gc_cfg = \<lparr>gc_markKey = ''marked'', gc_delay = 5000000000, gc_debug = False, gc_offset = 0\<rparr>"

definition demo_gc_key :: gc_key where "demo_gc_key = (SSH, ''p'', ''k'')"

definition demo_gc_obj :: gc_obj where
  "demo_gc_obj = \<lparr>go_labels = fmupd SpxLabelProjectID ''p'' fmempty, go_template = fmempty, go_halted = False\<rparr>"

definition demo_gc_world :: gc_world where
  "demo_gc_world = \<lparr>gs_server = fmupd demo_gc_key demo_gc_obj fmempty, gs_cache = fmupd demo_gc_key demo_gc_obj fmempty\<rparr>"

definition demo_gc_marked :: gc_obj where
  "demo_gc_marked = demo_gc_obj\<lparr>go_labels := fmupd ''marked'' (time_Format 0 5000000000) (fmupd SpxLabelProjectID ''p'' fmempty)\<rparr>"

definition demo_gc_env :: "int \<Rightarrow> gc_env" where
  "demo_gc_env later = \<lparr>ge_fails = \<lambda>_ _. None, ge_now = \<lambda>_ _. later, ge_cache = \<lambda>_. fmupd demo_gc_key demo_gc_marked fmempty,
     ge_dnats = \<lambda>_. fmupd demo_gc_key demo_gc_marked fmempty, ge_timeout = \<lambda>_. False\<rparr>"

definition demo_gc_after :: gc_world where
  "demo_gc_after = \<lparr>gs_server = fmupd demo_gc_key demo_gc_marked fmempty, gs_cache = fmupd demo_gc_key demo_gc_marked fmempty\<rparr>"

lemma gc_gentries_single: "gentries (fmupd k v fmempty) = [(k, v)]"
  by (simp add: gentries_def gkeys_def sorted_list_of_fset.rep_eq)

lemmas demo_gc_defs = demo_gc_cfg_def demo_gc_key_def demo_gc_obj_def demo_gc_marked_def demo_gc_env_def demo_gc_world_def demo_gc_after_def

lemma mark_kind_other: "gs_cache W = fmupd k b fmempty \<Longrightarrow> fst k \<noteq> kind \<Longrightarrow> mark_kind m C E kind namespace timestamp W = (W, None)"
  by (simp add: mark_kind_def ListNamespaceResource_def gc_gentries_single case_prod_unfold)

lemma mark_kinds_other: "gs_cache W = fmupd k b fmempty \<Longrightarrow> fst k \<notin> set kinds \<Longrightarrow> mark_kinds C E namespace timestamp kinds W = (W, None)"
  by (induction kinds) (simp_all add: mark_kind_other)

lemma demo_gc_ssh: "ssh_Mark demo_gc_cfg (demo_gc_env 0) ''p'' (time_Format 0 5000000000) demo_gc_world = (demo_gc_after, None)"
  by (simp add: ssh_Mark_def mark_kind_def item_marker_def gc_update_def ListNamespaceResource_def gc_gentries_single demo_gc_defs
    label_def SpxLabelProjectID_def Let_def)

lemma demo_gc_other:
  assumes "W \<in> {demo_gc_world, demo_gc_after}"
  shows "kind \<noteq> SSH \<Longrightarrow> mark_kind m C E kind namespace timestamp W = (W, None)"
    "SSH \<notin> set kinds \<Longrightarrow> mark_kinds C E namespace timestamp kinds W = (W, None)"
    "namespace_Mark C (demo_gc_env 0) ''p'' timestamp W = (W, None)"
proof -
  obtain b where c: "gs_cache W = fmupd demo_gc_key b fmempty" using assms by (auto simp: demo_gc_world_def demo_gc_after_def)
  show "kind \<noteq> SSH \<Longrightarrow> mark_kind m C E kind namespace timestamp W = (W, None)"
    by (rule mark_kind_other [OF c]) (simp add: demo_gc_key_def)
  show "SSH \<notin> set kinds \<Longrightarrow> mark_kinds C E namespace timestamp kinds W = (W, None)"
    by (rule mark_kinds_other [OF c]) (simp add: demo_gc_key_def)
  show "namespace_Mark C (demo_gc_env 0) ''p'' timestamp W = (W, None)"
    using assms by (auto simp: namespace_Mark_def demo_gc_defs gc_kinds)
qed

lemma mark_all_step: "cl_Mark cl C E namespace timestamp W = (W1, None) \<Longrightarrow>
    mark_all C E namespace timestamp (cl # cls) W = mark_all C E namespace timestamp cls W1"
  by simp

lemma demo_gc_skips:
  assumes "W \<in> {demo_gc_world, demo_gc_after}"
    "cl \<in> {vm_cleaner, vmSnapshot_cleaner, loadbalancer_cleaner, netpol_cleaner, datavolume_cleaner, volumeSnapshot_cleaner, obc_cleaner,
       pvc_cleaner, vpc_cleaner, eip_cleaner, subnet_cleaner, namespace_cleaner}"
  shows "cl_Mark cl C (demo_gc_env 0) ''p'' timestamp W = (W, None)"
proof -
  have n: "VirtualMachine \<noteq> SSH" "VirtualMachineSnapshot \<noteq> SSH" "SwitchLBRules \<noteq> SSH" "NetworkPolicy \<noteq> SSH" "DataVolume \<noteq> SSH"
    "VolumeSnapshot \<noteq> SSH" "ObjectBucketClaim \<noteq> SSH" "PersistentVolumeClaims \<noteq> SSH" "VPC \<noteq> SSH"
    "SSH \<notin> set [EIP, FIP, SNAT, DNAT]" "SSH \<notin> set [NAD, NatGw, Subnet]"
    by (simp_all add: gc_kinds)
  note d = n(1-9) [THEN demo_gc_other(1) [OF assms(1)]] n(10,11) [THEN demo_gc_other(2) [OF assms(1)]] demo_gc_other(3) [OF assms(1)]
  show ?thesis using assms(2) unfolding insert_iff empty_iff
    by (elim disjE) (simp_all only: vm_cleaner_def vmSnapshot_cleaner_def loadbalancer_cleaner_def netpol_cleaner_def datavolume_cleaner_def volumeSnapshot_cleaner_def obc_cleaner_def pvc_cleaner_def vpc_cleaner_def eip_cleaner_def subnet_cleaner_def namespace_cleaner_def gc_cleaner.select_convs vm_Mark_def vmSnapshot_Mark_def loadbalancer_Mark_def netpol_Mark_def datavolume_Mark_def volumeSnapshot_Mark_def obc_Mark_def pvc_Mark_def vpc_Mark_def eip_Mark_def subnet_Mark_def d)
qed

lemma demo_gc_marking: "MarkForDeletion demo_gc_cfg (demo_gc_env 0) ''p'' 0 demo_gc_world = (demo_gc_after, 200)"
proof -
  have t: "time_Format (gc_offset demo_gc_cfg) (0 + gc_delay demo_gc_cfg) = time_Format 0 5000000000" by (simp add: demo_gc_cfg_def)
  have ssh: "cl_Mark ssh_cleaner demo_gc_cfg (demo_gc_env 0) ''p'' (time_Format 0 5000000000) demo_gc_world = (demo_gc_after, None)"
    by (simp add: ssh_cleaner_def demo_gc_ssh)
  show ?thesis
    unfolding MarkForDeletion_200 deletionLabeling_def t cleaners_def
    by (simp only: mark_all_step [OF demo_gc_skips] mark_all_step [OF ssh] insert_iff simp_thms mark_all.simps(1))
qed


lemma demo_gc_cached: "fmlookup (gs_cache demo_gc_world) demo_gc_key = Some demo_gc_obj"
    "label (go_labels demo_gc_obj) SpxLabelProjectID = ''p''" "gc_markKey demo_gc_cfg \<noteq> SpxLabelProjectID"
  by (simp_all add: demo_gc_defs label_def SpxLabelProjectID_def)

lemma demo_gc_expressible: "expressible (gc_offset demo_gc_cfg) (0 + gc_delay demo_gc_cfg)"
proof -
  have "year_from 0 0 = (0, 0)" by (subst year_from.simps) (simp add: year_len_def)
  then show ?thesis by (simp add: expressible_def demo_gc_cfg_def)
qed

theorem successful_marking_is_complete_witness:
  "\<exists>obj. fmlookup (gs_server demo_gc_after) demo_gc_key = Some obj \<and>
    label (go_labels obj) ''marked'' = time_Format 0 5000000000 \<and> (fst demo_gc_key = VirtualMachine \<longrightarrow> go_halted obj)"
  using successful_marking_is_complete [OF demo_gc_marking demo_gc_cached(3,1,2)]
  by (simp add: demo_gc_key_def marked_kinds_def demo_gc_cfg_def)

theorem marking_stays_in_project_witness:
  "fmdom (gs_server demo_gc_after) = fmdom (gs_server demo_gc_world) \<and>
   fmlookup (gs_server demo_gc_after) (SSH, ''q'', ''k'') = fmlookup (gs_server demo_gc_world) (SSH, ''q'', ''k'')"
proof -
  note m = marking_stays_in_project [OF demo_gc_cached(3) demo_gc_marking]
  have "(SSH, ''q'', ''k'') \<noteq> (Namespace, [], ''p'')" "fmlookup (gs_cache demo_gc_world) (SSH, ''q'', ''k'') = None"
    by (simp_all add: demo_gc_defs)
  then show ?thesis using m by fastforce
qed

theorem marked_object_collected_iff_witness:
  "fmlookup (garbageCollection demo_gc_cfg (demo_gc_env 6000000000) (gs_server demo_gc_after)) demo_gc_key = None \<and>
   fmlookup (garbageCollection demo_gc_cfg (demo_gc_env 4000000000) (gs_server demo_gc_after)) demo_gc_key \<noteq> None"
proof -
  have k: "fst demo_gc_key \<in> collected_kinds 1" by (simp add: demo_gc_key_def collected_kinds_def)
  have "fmlookup (garbageCollection demo_gc_cfg (demo_gc_env later) (gs_server demo_gc_after)) demo_gc_key = None \<longleftrightarrow>
      0 + gc_delay demo_gc_cfg - (0 + gc_delay demo_gc_cfg) mod 1000000000 < later" for later
    by (rule marked_object_collected_iff [OF demo_gc_marking demo_gc_cached(3,1,2) k demo_gc_expressible])
      (simp_all add: demo_gc_env_def demo_gc_after_def demo_gc_cfg_def)
  then show ?thesis by (simp add: demo_gc_cfg_def)
qed

end
