(* ===== verification/Iam_Permify.thy ===== *)
theory Iam_Permify
  imports Spx_Id
begin

text \<open>
  Access rights: the package \<^verbatim>\<open>pkg/permify-wrapper\<close>, which keeps them as relation tuples in Permify.

  \<^item> The catalogue of permission sets, permissions and predefined groups (\<^verbatim>\<open>permissionSet.go\<close>,
    \<^verbatim>\<open>permission.go\<close>, \<^verbatim>\<open>schema_default.go\<close>) and the schema (\<^verbatim>\<open>schema_default.perm\<close>) as data.
  \<^item> Permify is a service outside the repository. Its tenants, each with a schema and a set of tuples, are part of
    the state; any call to it may fail (\<open>ie_fails\<close>), a call that fails has changed nothing. Its answer to a
    permission check is the parameter \<open>ie_check\<close>; the named law \<open>permify_laws\<close> states the documented meaning:
    a permission is a union of relations, of permissions, and of relations of the parent entity, and the assignees
    of a group have the relations of the group (\<open>allows\<close>).
  \<^item> The database of the API shares the state record, so that the services of the API can be modelled on top.
\<close>

section \<open>State\<close>

record tuple =
  t_etype :: string
  t_eid :: string
  t_rel :: string
  t_stype :: string
  t_sid :: string
  t_srel :: string

datatype perm_ref = Ref string | Parent string

record entity_def =
  ed_name :: string
  ed_relations :: "(string \<times> string \<times> string) list"
  ed_permissions :: "(string \<times> perm_ref list) list"

type_synonym perm_schema = "entity_def list"

record tenant =
  tn_schema :: "perm_schema option"
  tn_bundle :: bool
  tn_tuples :: "tuple set"

text \<open>A filter: an absent or empty component matches everything.\<close>

record tuple_filter =
  f_etype :: string
  f_eids :: "string list"
  f_stype :: string
  f_sids :: "string list"
  f_srel :: string

record group_row =
  gr_name :: string
  gr_orga :: uuid
  gr_allProjects :: bool
  gr_projectIds :: "uuid list"
  gr_sets :: "string list"
  gr_key :: "string option"
  gr_deleted :: bool

record org_row =
  or_name :: string
  or_owner :: uuid
  or_version :: int
  or_deleted :: bool

record proj_row =
  pj_orga :: uuid
  pj_name :: string
  pj_deleted :: bool

record user_row =
  us_invite :: uuid
  us_active :: bool

record product_row =
  pd_eid :: string
  pd_name :: string
  pd_az :: string
  pd_project :: uuid
  pd_type :: string

record iam_world =
  iw_tenants :: "(string, tenant) fmap"
  iw_orgs :: "(uuid, org_row) fmap"
  iw_projects :: "(uuid, proj_row) fmap"
  iw_groups :: "(uuid, group_row) fmap"
  iw_users :: "(uuid, user_row) fmap"
  iw_members :: "(uuid \<times> uuid \<times> uuid) set"
  iw_products :: "(uuid, product_row) fmap"
  iw_quotas :: "(string, string) fmap"
  iw_overrides :: "(string \<times> uuid \<times> string, string) fmap"

datatype iam_error = NotConnected | NoTuples | CallFailed | RecordNotFound | EmptySlice | BadValue | ProjectNotInOrga

datatype iam_call =
    PmTenantCreate string | PmTenantDelete string | PmSchemaWrite string | PmBundleWrite string | PmBundleRun string string
  | PmWrite string "tuple list" | PmDelete string tuple_filter | PmCheck string string string string
  | DbSave string | DbDelete string | DbFind string | DbCount string | MarkResources string

record iam_env =
  ie_uuids :: uuid_lib
  ie_connected :: bool
  ie_fails :: "iam_call \<Rightarrow> bool"
  ie_check :: "perm_schema \<Rightarrow> tuple set \<Rightarrow> nat \<Rightarrow> tuple \<Rightarrow> bool"
  ie_newId :: "iam_world \<Rightarrow> uuid"
  ie_superAdmins :: "string list"

type_synonym iam_result = "iam_world \<times> iam_error option"

definition thenI :: "iam_result \<Rightarrow> (iam_world \<Rightarrow> iam_result) \<Rightarrow> iam_result" where
  "thenI r f = (case r of (W, Some err) \<Rightarrow> (W, Some err) | (W, None) \<Rightarrow> f W)"

fun loopI :: "('x \<Rightarrow> iam_world \<Rightarrow> iam_result) \<Rightarrow> 'x list \<Rightarrow> iam_world \<Rightarrow> iam_result" where
  "loopI f [] W = (W, None)"
| "loopI f (x # xs) W = thenI (f x W) (loopI f xs)"


section \<open>Catalogue\<close>

definition entity_Organization :: string where "entity_Organization = ''organization''"
definition entity_Project :: string where "entity_Project = ''project''"
definition entity_Group :: string where "entity_Group = ''group''"
definition entity_User :: string where "entity_User = ''user''"

definition SpxOwner :: string where "SpxOwner = ''spx_owner''"
definition SpxMember :: string where "SpxMember = ''spx_member''"
definition InternalPrefix :: string where "InternalPrefix = ''spx_''"

definition organization_sets :: "string list" where
  "organization_sets =
    [''spx_owner'', ''spx_member'', ''IAMFullAccess'', ''IAMReadOnly'', ''SettingsEdition'',
     ''BillingFullAccess'', ''BillingReadOnly'', ''AuditLogFullAccess'', ''AuditLogReadOnly'', ''ProjectManagement'',
     ''ProjectQuotaFullAccess'', ''ProjectQuotaReadOnly'']"

definition project_sets :: "string list" where
  "project_sets =
    [''ProjectInstanceFullAccess'', ''ProjectInstanceTerminalAccess'', ''ProjectInstanceReadOnly'', ''ProjectDiskFullAccess'', ''ProjectDiskReadOnly'',
     ''ProjectSnapshotFullAccess'', ''ProjectSnapshotReadOnly'', ''ProjectVPCFullAccess'', ''ProjectVPCReadOnly'', ''ProjectSubnetFullAccess'',
     ''ProjectSubnetReadOnly'', ''ProjectEipFullAccess'', ''ProjectEipReadOnly'', ''ProjectLoadBalancerFullAccess'', ''ProjectLoadBalancerReadOnly'',
     ''ProjectSecurityGroupFullAccess'', ''ProjectSecurityGroupReadOnly'', ''ProjectSSHFullAccess'', ''ProjectSSHReadOnly'', ''ProjectKaaSFullAccess'',
     ''ProjectKaaSClusterAccess'', ''ProjectKaaSReadOnly'', ''ProjectBaaSFullAccess'', ''ProjectBaaSReadOnly'', ''ProjectBucketFullAccess'',
     ''ProjectBucketCredentialsAccess'', ''ProjectBucketReadOnly'', ''ProjectAZQuotaFullAccess'', ''ProjectAZQuotaReadOnly'', ''ProjectArgoCdAccess'']"

definition PermissionSetsEntityMap :: "string \<Rightarrow> string" where
  "PermissionSetsEntityMap ps =
     (if ps \<in> set organization_sets then entity_Organization else if ps \<in> set project_sets then entity_Project else [])"

definition EntityPermissionSetsMap :: "string \<Rightarrow> string list" where
  "EntityPermissionSetsMap entity =
     filter (\<lambda>ps. PermissionSetsEntityMap ps = entity \<and> take 4 ps \<noteq> InternalPrefix) (organization_sets @ project_sets)"

definition organization_permissions :: "string list" where
  "organization_permissions =
    [''OrganizationRead'', ''OrganizationWrite'', ''OrganizationIAMRead'', ''OrganizationIAMWrite'',
     ''OrganizationBillingRead'', ''OrganizationBillingWrite'', ''OrganizationAuditLogRead'', ''OrganizationAuditLogWrite'',
     ''OrganizationProjectManagement'', ''OrganizationProjectQuotaRead'', ''OrganizationProjectQuotaWrite'']"

definition project_permissions :: "string list" where
  "project_permissions =
    [''ProjectRead'', ''ProjectInstanceRead'', ''ProjectInstanceTerminal'', ''ProjectInstanceControl'',
     ''ProjectInstanceWrite'', ''ProjectDiskRead'', ''ProjectDiskWrite'', ''ProjectSnapshotRead'',
     ''ProjectSnapshotWrite'', ''ProjectVPCRead'', ''ProjectVPCWrite'', ''ProjectSubnetRead'',
     ''ProjectSubnetWrite'', ''ProjectEipRead'', ''ProjectEipWrite'', ''ProjectLoadBalancerRead'',
     ''ProjectLoadBalancerWrite'', ''ProjectSecurityGroupRead'', ''ProjectSecurityGroupWrite'', ''ProjectSSHRead'',
     ''ProjectSSHWrite'', ''ProjectKaaSRead'', ''ProjectKaaSKubeConfig'', ''ProjectKaaSWrite'',
     ''ProjectBaaSRead'', ''ProjectBaaSWrite'', ''ProjectBucketRead'', ''ProjectBucketCredentials'',
     ''ProjectBucketWrite'', ''ProjectAZQuotaRead'', ''ProjectAZQuotaWrite'', ''ProjectArgoCdRead'']"

definition PermissionsEntityMap :: "string \<Rightarrow> string" where
  "PermissionsEntityMap p =
     (if p \<in> set organization_permissions then entity_Organization else if p \<in> set project_permissions then entity_Project else [])"

definition DefaultSchema :: perm_schema where
  "DefaultSchema =
    [\<lparr>ed_name = ''user'',
      ed_relations = [],
      ed_permissions = []\<rparr>,
     \<lparr>ed_name = ''group'',
      ed_relations = [(''assignee'', ''user'', [])],
      ed_permissions = []\<rparr>,
     \<lparr>ed_name = ''organization'',
      ed_relations = [(''spx_owner'', ''group'', ''assignee''), (''spx_member'', ''group'', ''assignee''),
        (''BillingFullAccess'', ''group'', ''assignee''), (''BillingReadOnly'', ''group'', ''assignee''),
        (''AuditLogFullAccess'', ''group'', ''assignee''), (''AuditLogReadOnly'', ''group'', ''assignee''),
        (''IAMFullAccess'', ''group'', ''assignee''), (''IAMReadOnly'', ''group'', ''assignee''),
        (''ProjectManagement'', ''group'', ''assignee''), (''ProjectQuotaFullAccess'', ''group'', ''assignee''),
        (''ProjectQuotaReadOnly'', ''group'', ''assignee''), (''SettingsEdition'', ''group'', ''assignee'')],
      ed_permissions = [(''OrganizationRead'', [Ref ''spx_owner'', Ref ''spx_member'']),
        (''OrganizationWrite'', [Ref ''spx_owner'', Ref ''SettingsEdition'']),
        (''OrganizationIAMRead'', [Ref ''spx_owner'', Ref ''IAMReadOnly'', Ref ''IAMFullAccess'']),
        (''OrganizationIAMWrite'', [Ref ''spx_owner'', Ref ''IAMFullAccess'']),
        (''OrganizationBillingRead'', [Ref ''spx_owner'', Ref ''BillingFullAccess'', Ref ''BillingReadOnly'']),
        (''OrganizationBillingWrite'', [Ref ''spx_owner'', Ref ''BillingFullAccess'']),
        (''OrganizationAuditLogRead'', [Ref ''spx_owner'', Ref ''AuditLogFullAccess'', Ref ''AuditLogReadOnly'']),
        (''OrganizationAuditLogWrite'', [Ref ''spx_owner'', Ref ''AuditLogFullAccess'']),
        (''OrganizationProjectManagement'', [Ref ''spx_owner'', Ref ''ProjectManagement'']),
        (''OrganizationProjectQuotaRead'', [Ref ''spx_owner'', Ref ''ProjectQuotaReadOnly'', Ref ''ProjectQuotaFullAccess'']),
        (''OrganizationProjectQuotaWrite'', [Ref ''spx_owner'', Ref ''ProjectQuotaFullAccess''])]\<rparr>,
     \<lparr>ed_name = ''project'',
      ed_relations = [(''parent'', ''organization'', []), (''ProjectInstanceFullAccess'', ''group'', ''assignee''),
        (''ProjectInstanceTerminalAccess'', ''group'', ''assignee''), (''ProjectInstanceReadOnly'', ''group'', ''assignee''),
        (''ProjectDiskFullAccess'', ''group'', ''assignee''), (''ProjectDiskReadOnly'', ''group'', ''assignee''),
        (''ProjectSnapshotFullAccess'', ''group'', ''assignee''), (''ProjectSnapshotReadOnly'', ''group'', ''assignee''),
        (''ProjectVPCFullAccess'', ''group'', ''assignee''), (''ProjectVPCReadOnly'', ''group'', ''assignee''),
        (''ProjectSubnetFullAccess'', ''group'', ''assignee''), (''ProjectSubnetReadOnly'', ''group'', ''assignee''),
        (''ProjectEipFullAccess'', ''group'', ''assignee''), (''ProjectEipReadOnly'', ''group'', ''assignee''),
        (''ProjectLoadBalancerFullAccess'', ''group'', ''assignee''), (''ProjectLoadBalancerReadOnly'', ''group'', ''assignee''),
        (''ProjectSecurityGroupFullAccess'', ''group'', ''assignee''), (''ProjectSecurityGroupReadOnly'', ''group'', ''assignee''),
        (''ProjectSSHFullAccess'', ''group'', ''assignee''), (''ProjectSSHReadOnly'', ''group'', ''assignee''),
        (''ProjectKaaSFullAccess'', ''group'', ''assignee''), (''ProjectKaaSClusterAccess'', ''group'', ''assignee''),
        (''ProjectKaaSReadOnly'', ''group'', ''assignee''), (''ProjectBaaSFullAccess'', ''group'', ''assignee''),
        (''ProjectBaaSReadOnly'', ''group'', ''assignee''), (''ProjectBucketFullAccess'', ''group'', ''assignee''),
        (''ProjectBucketCredentialsAccess'', ''group'', ''assignee''), (''ProjectBucketReadOnly'', ''group'', ''assignee''),
        (''ProjectAZQuotaFullAccess'', ''group'', ''assignee''), (''ProjectAZQuotaReadOnly'', ''group'', ''assignee''),
        (''ProjectArgoCdAccess'', ''group'', ''assignee'')],
      ed_permissions = [(''ProjectRead'', [Ref ''ProjectInstanceRead'', Ref ''ProjectDiskRead'', Ref ''ProjectSnapshotRead'', Ref ''ProjectVPCRead'', Ref ''ProjectSubnetRead'', Ref ''ProjectEipRead'', Ref ''ProjectLoadBalancerRead'', Ref ''ProjectSecurityGroupRead'', Ref ''ProjectSSHRead'', Ref ''ProjectKaaSRead'', Ref ''ProjectBaaSRead'', Ref ''ProjectBucketRead'', Ref ''ProjectArgoCdRead'']),
        (''ProjectInstanceRead'', [Parent ''spx_owner'', Ref ''ProjectInstanceReadOnly'', Ref ''ProjectInstanceFullAccess'', Ref ''ProjectInstanceTerminalAccess'']),
        (''ProjectInstanceTerminal'', [Parent ''spx_owner'', Ref ''ProjectInstanceFullAccess'', Ref ''ProjectInstanceTerminalAccess'']),
        (''ProjectInstanceControl'', [Parent ''spx_owner'', Ref ''ProjectInstanceFullAccess'']),
        (''ProjectInstanceWrite'', [Parent ''spx_owner'', Ref ''ProjectInstanceFullAccess'']),
        (''ProjectDiskRead'', [Parent ''spx_owner'', Ref ''ProjectDiskReadOnly'', Ref ''ProjectDiskFullAccess'']),
        (''ProjectDiskWrite'', [Parent ''spx_owner'', Ref ''ProjectDiskFullAccess'']),
        (''ProjectSnapshotRead'', [Parent ''spx_owner'', Ref ''ProjectSnapshotReadOnly'', Ref ''ProjectSnapshotFullAccess'']),
        (''ProjectSnapshotWrite'', [Parent ''spx_owner'', Ref ''ProjectSnapshotFullAccess'']),
        (''ProjectVPCRead'', [Parent ''spx_owner'', Ref ''ProjectVPCReadOnly'', Ref ''ProjectVPCFullAccess'']),
        (''ProjectVPCWrite'', [Parent ''spx_owner'', Ref ''ProjectVPCFullAccess'']),
        (''ProjectSubnetRead'', [Parent ''spx_owner'', Ref ''ProjectSubnetReadOnly'', Ref ''ProjectSubnetFullAccess'']),
        (''ProjectSubnetWrite'', [Parent ''spx_owner'', Ref ''ProjectSubnetFullAccess'']),
        (''ProjectEipRead'', [Parent ''spx_owner'', Ref ''ProjectEipReadOnly'', Ref ''ProjectEipFullAccess'']),
        (''ProjectEipWrite'', [Parent ''spx_owner'', Ref ''ProjectEipFullAccess'']),
        (''ProjectLoadBalancerRead'', [Parent ''spx_owner'', Ref ''ProjectLoadBalancerReadOnly'', Ref ''ProjectLoadBalancerFullAccess'']),
        (''ProjectLoadBalancerWrite'', [Parent ''spx_owner'', Ref ''ProjectLoadBalancerFullAccess'']),
        (''ProjectSecurityGroupRead'', [Parent ''spx_owner'', Ref ''ProjectSecurityGroupReadOnly'', Ref ''ProjectSecurityGroupFullAccess'']),
        (''ProjectSecurityGroupWrite'', [Parent ''spx_owner'', Ref ''ProjectSecurityGroupFullAccess'']),
        (''ProjectSSHRead'', [Parent ''spx_owner'', Ref ''ProjectSSHReadOnly'', Ref ''ProjectSSHFullAccess'']),
        (''ProjectSSHWrite'', [Parent ''spx_owner'', Ref ''ProjectSSHFullAccess'']),
        (''ProjectKaaSRead'', [Parent ''spx_owner'', Ref ''ProjectKaaSReadOnly'', Ref ''ProjectKaaSFullAccess'', Ref ''ProjectKaaSClusterAccess'']),
        (''ProjectKaaSKubeConfig'', [Parent ''spx_owner'', Ref ''ProjectKaaSClusterAccess'', Ref ''ProjectKaaSFullAccess'']),
        (''ProjectKaaSWrite'', [Parent ''spx_owner'', Ref ''ProjectKaaSFullAccess'']),
        (''ProjectBaaSRead'', [Parent ''spx_owner'', Ref ''ProjectBaaSReadOnly'', Ref ''ProjectBaaSFullAccess'']),
        (''ProjectBaaSWrite'', [Parent ''spx_owner'', Ref ''ProjectBaaSFullAccess'']),
        (''ProjectBucketRead'', [Parent ''spx_owner'', Ref ''ProjectBucketReadOnly'', Ref ''ProjectBucketFullAccess'', Ref ''ProjectBucketCredentialsAccess'']),
        (''ProjectBucketCredentials'', [Parent ''spx_owner'', Ref ''ProjectBucketCredentialsAccess'', Ref ''ProjectBucketFullAccess'']),
        (''ProjectBucketWrite'', [Parent ''spx_owner'', Ref ''ProjectBucketFullAccess'']),
        (''ProjectAZQuotaRead'', [Parent ''spx_owner'', Parent ''ProjectQuotaReadOnly'', Parent ''ProjectQuotaFullAccess'', Ref ''ProjectAZQuotaReadOnly'', Ref ''ProjectAZQuotaFullAccess'']),
        (''ProjectAZQuotaWrite'', [Parent ''spx_owner'', Ref ''ProjectAZQuotaFullAccess'']),
        (''ProjectArgoCdRead'', [Parent ''spx_owner'', Ref ''ProjectArgoCdAccess''])]\<rparr>]"

definition DefaultOrganizationOwner :: "string list" where
  "DefaultOrganizationOwner = [''spx_owner'']"

definition DefaultProjectOwner :: "string list" where
  "DefaultProjectOwner = []"

definition DefaultOrganizationAdmin :: "string list" where
  "DefaultOrganizationAdmin = [''spx_member'', ''IAMFullAccess'', ''SettingsEdition'', ''BillingFullAccess'', ''AuditLogFullAccess'',
     ''ProjectManagement'', ''ProjectQuotaFullAccess'']"

definition DefaultProjectAdmin :: "string list" where
  "DefaultProjectAdmin = [''ProjectInstanceFullAccess'', ''ProjectDiskFullAccess'', ''ProjectSnapshotFullAccess'', ''ProjectVPCFullAccess'', ''ProjectSubnetFullAccess'',
     ''ProjectEipFullAccess'', ''ProjectLoadBalancerFullAccess'', ''ProjectSecurityGroupFullAccess'', ''ProjectSSHFullAccess'', ''ProjectKaaSFullAccess'',
     ''ProjectBaaSFullAccess'', ''ProjectBucketFullAccess'', ''ProjectAZQuotaFullAccess'', ''ProjectArgoCdAccess'']"

definition DefaultOrganizationBilling :: "string list" where
  "DefaultOrganizationBilling = [''spx_member'', ''BillingFullAccess'']"

definition DefaultProjectBilling :: "string list" where
  "DefaultProjectBilling = []"

definition DefaultOrganizationDeveloper :: "string list" where
  "DefaultOrganizationDeveloper = [''spx_member'', ''ProjectManagement'', ''ProjectQuotaReadOnly'']"

definition DefaultProjectDeveloper :: "string list" where
  "DefaultProjectDeveloper = [''ProjectInstanceFullAccess'', ''ProjectDiskFullAccess'', ''ProjectSnapshotFullAccess'', ''ProjectVPCFullAccess'', ''ProjectSubnetFullAccess'',
     ''ProjectEipFullAccess'', ''ProjectLoadBalancerFullAccess'', ''ProjectSecurityGroupFullAccess'', ''ProjectSSHFullAccess'', ''ProjectKaaSFullAccess'',
     ''ProjectBaaSFullAccess'', ''ProjectBucketFullAccess'', ''ProjectAZQuotaReadOnly'', ''ProjectArgoCdAccess'']"

record predefined_group =
  pg_key :: string
  pg_name :: string
  pg_sets :: "string list"

definition PredefinedCatalogVersion :: int where "PredefinedCatalogVersion = 3"

definition PredefinedGroupOwner :: string where "PredefinedGroupOwner = ''owner''"

definition PredefinedGroups :: "predefined_group list" where
  "PredefinedGroups =
    [\<lparr>pg_key = ''owner'', pg_name = ''Owner'', pg_sets = DefaultOrganizationOwner @ DefaultProjectOwner\<rparr>,
     \<lparr>pg_key = ''admin'', pg_name = ''Admin'', pg_sets = DefaultOrganizationAdmin @ DefaultProjectAdmin\<rparr>,
     \<lparr>pg_key = ''billing'', pg_name = ''Billing'', pg_sets = DefaultOrganizationBilling @ DefaultProjectBilling\<rparr>,
     \<lparr>pg_key = ''developer'', pg_name = ''Developer'', pg_sets = DefaultOrganizationDeveloper @ DefaultProjectDeveloper\<rparr>]"

definition IsPredefinedGroupName :: "string \<Rightarrow> bool" where
  "IsPredefinedGroupName name \<longleftrightarrow> (\<exists>g\<in>set PredefinedGroups. pg_name g = name)"


section \<open>Permission checks\<close>

text \<open>What a relation and a permission of the schema mean for a user, down to a depth.\<close>

definition has_rel :: "tuple set \<Rightarrow> string \<Rightarrow> string \<Rightarrow> string \<Rightarrow> string \<Rightarrow> bool" where
  "has_rel T etype eid rel user \<longleftrightarrow>
     (\<exists>x\<in>T. t_etype x = etype \<and> t_eid x = eid \<and> t_rel x = rel \<and> t_stype x = ''group'' \<and> t_srel x = ''assignee'' \<and>
          \<lparr>t_etype = ''group'', t_eid = t_sid x, t_rel = ''assignee'', t_stype = ''user'', t_sid = user, t_srel = []\<rparr> \<in> T) \<or>
     \<lparr>t_etype = etype, t_eid = eid, t_rel = rel, t_stype = ''user'', t_sid = user, t_srel = []\<rparr> \<in> T"

definition parents_of :: "tuple set \<Rightarrow> string \<Rightarrow> string \<Rightarrow> string set" where
  "parents_of T etype eid =
     t_sid ` {x \<in> T. t_etype x = etype \<and> t_eid x = eid \<and> t_rel x = ''parent'' \<and> t_stype x = ''organization'' \<and> t_srel x = []}"

definition permission_of :: "perm_schema \<Rightarrow> string \<Rightarrow> string \<Rightarrow> perm_ref list option" where
  "permission_of sch etype name =
     (case find (\<lambda>d. ed_name d = etype) sch of None \<Rightarrow> None | Some d \<Rightarrow> map_of (ed_permissions d) name)"

fun allows :: "perm_schema \<Rightarrow> tuple set \<Rightarrow> nat \<Rightarrow> string \<Rightarrow> string \<Rightarrow> string \<Rightarrow> string \<Rightarrow> bool" where
  "allows sch T 0 etype eid name user = False"
| "allows sch T (Suc n) etype eid name user =
     (case permission_of sch etype name of
        None \<Rightarrow> has_rel T etype eid name user
      | Some refs \<Rightarrow> list_ex (\<lambda>r. case r of
            Ref x \<Rightarrow> allows sch T n etype eid x user
          | Parent x \<Rightarrow> (\<exists>p\<in>parents_of T etype eid. allows sch T n ''organization'' p x user)) refs)"

definition permify_laws :: "iam_env \<Rightarrow> bool" where
  "permify_laws E \<longleftrightarrow> (\<forall>sch T n etype eid name user.
     ie_check E sch T n \<lparr>t_etype = etype, t_eid = eid, t_rel = name, t_stype = ''user'', t_sid = user, t_srel = []\<rparr> =
     allows sch T n etype eid name user)"

definition GetTuple :: "string \<Rightarrow> string \<Rightarrow> string \<Rightarrow> string \<Rightarrow> tuple" where
  "GetTuple permission entityId subjectType subjectId =
     \<lparr>t_etype = PermissionsEntityMap permission, t_eid = entityId, t_rel = permission, t_stype = subjectType, t_sid = subjectId, t_srel = []\<rparr>"

definition GetGroupTuple :: "string \<Rightarrow> string \<Rightarrow> string \<Rightarrow> tuple" where
  "GetGroupTuple permissionSet entityId groupId =
     \<lparr>t_etype = PermissionSetsEntityMap permissionSet, t_eid = entityId, t_rel = permissionSet, t_stype = entity_Group, t_sid = groupId,
      t_srel = ''assignee''\<rparr>"

definition CanAccess :: "iam_env \<Rightarrow> iam_world \<Rightarrow> string \<Rightarrow> string \<Rightarrow> string \<Rightarrow> string \<Rightarrow> bool" where
  "CanAccess E W tenantId permission entityId subjectId \<longleftrightarrow>
     ie_connected E \<and> \<not> ie_fails E (PmCheck tenantId permission entityId subjectId) \<and>
     (case fmlookup (iw_tenants W) tenantId of
        None \<Rightarrow> False
      | Some t \<Rightarrow> (case tn_schema t of
                     None \<Rightarrow> False
                   | Some sch \<Rightarrow> ie_check E sch (tn_tuples t) 20 (GetTuple permission entityId entity_User subjectId)))"


section \<open>Calls to Permify\<close>

definition pm_call :: "iam_env \<Rightarrow> iam_call \<Rightarrow> string \<Rightarrow> (tenant \<Rightarrow> tenant option) \<Rightarrow> iam_world \<Rightarrow> iam_result" where
  "pm_call E call tenantId f W =
     (if \<not> ie_connected E then (W, Some NotConnected)
      else if ie_fails E call then (W, Some CallFailed)
      else case fmlookup (iw_tenants W) tenantId of
             None \<Rightarrow> (W, Some CallFailed)
           | Some t \<Rightarrow> (case f t of
                          None \<Rightarrow> (W, Some CallFailed)
                        | Some t' \<Rightarrow> (W\<lparr>iw_tenants := fmupd tenantId t' (iw_tenants W)\<rparr>, None)))"

definition tenancy_Create :: "iam_env \<Rightarrow> string \<Rightarrow> string \<Rightarrow> iam_world \<Rightarrow> iam_result" where
  "tenancy_Create E tenantId tenantName W =
     (if \<not> ie_connected E then (W, Some NotConnected)
      else if ie_fails E (PmTenantCreate tenantId) \<or> fmlookup (iw_tenants W) tenantId \<noteq> None then (W, Some CallFailed)
      else (W\<lparr>iw_tenants := fmupd tenantId \<lparr>tn_schema = None, tn_bundle = False, tn_tuples = {}\<rparr> (iw_tenants W)\<rparr>, None))"

definition tenancy_Delete :: "iam_env \<Rightarrow> string \<Rightarrow> iam_world \<Rightarrow> iam_result" where
  "tenancy_Delete E tenantId W =
     (if \<not> ie_connected E then (W, Some NotConnected)
      else if ie_fails E (PmTenantDelete tenantId) \<or> fmlookup (iw_tenants W) tenantId = None then (W, Some CallFailed)
      else (W\<lparr>iw_tenants := fmdrop tenantId (iw_tenants W)\<rparr>, None))"

definition schema_Write :: "iam_env \<Rightarrow> string \<Rightarrow> perm_schema \<Rightarrow> iam_world \<Rightarrow> iam_result" where
  "schema_Write E tenantId sch = pm_call E (PmSchemaWrite tenantId) tenantId (\<lambda>t. Some (t\<lparr>tn_schema := Some sch\<rparr>))"

definition bundle_Write :: "iam_env \<Rightarrow> string \<Rightarrow> iam_world \<Rightarrow> iam_result" where
  "bundle_Write E tenantId = pm_call E (PmBundleWrite tenantId) tenantId (\<lambda>t. Some (t\<lparr>tn_bundle := True\<rparr>))"

text \<open>The bundle \<^verbatim>\<open>create_project\<close> writes the parent of a project.\<close>

definition parent_tuple :: "string \<Rightarrow> string \<Rightarrow> tuple" where
  "parent_tuple projectId orgaId =
     \<lparr>t_etype = entity_Project, t_eid = projectId, t_rel = ''parent'', t_stype = entity_Organization, t_sid = orgaId, t_srel = []\<rparr>"

definition bundle_Run :: "iam_env \<Rightarrow> string \<Rightarrow> string \<Rightarrow> iam_world \<Rightarrow> iam_result" where
  "bundle_Run E tenantId projectId =
     pm_call E (PmBundleRun tenantId projectId) tenantId
       (\<lambda>t. if tn_bundle t then Some (t\<lparr>tn_tuples := insert (parent_tuple projectId tenantId) (tn_tuples t)\<rparr>) else None)"

fun chunks :: "nat \<Rightarrow> 'a list \<Rightarrow> 'a list list" where
  "chunks n [] = []"
| "chunks n (x # xs) = take (Suc n) (x # xs) # chunks n (drop n xs)"

definition batchSize :: nat where "batchSize = 99"

text \<open>Every batch is sent; the error of the last one is returned.\<close>

fun write_batches :: "iam_env \<Rightarrow> string \<Rightarrow> tuple list list \<Rightarrow> iam_error option \<Rightarrow> iam_world \<Rightarrow> iam_result" where
  "write_batches E tenantId [] err W = (W, err)"
| "write_batches E tenantId (b # bs) err W =
     (case pm_call E (PmWrite tenantId b) tenantId (\<lambda>t. Some (t\<lparr>tn_tuples := tn_tuples t \<union> set b\<rparr>)) W of
        (W1, err1) \<Rightarrow> write_batches E tenantId bs err1 W1)"

definition data_Write :: "iam_env \<Rightarrow> string \<Rightarrow> tuple list \<Rightarrow> iam_world \<Rightarrow> iam_result" where
  "data_Write E tenantId tuples W =
     (if \<not> ie_connected E then (W, Some NotConnected)
      else if tuples = [] then (W, Some NoTuples)
      else write_batches E tenantId (chunks (batchSize - 1) tuples) None W)"

definition matches :: "tuple_filter \<Rightarrow> tuple \<Rightarrow> bool" where
  "matches f t \<longleftrightarrow>
     (f_etype f = [] \<or> t_etype t = f_etype f) \<and> (f_eids f = [] \<or> t_eid t \<in> set (f_eids f)) \<and>
     (f_stype f = [] \<or> t_stype t = f_stype f) \<and> (f_sids f = [] \<or> t_sid t \<in> set (f_sids f)) \<and>
     (f_srel f = [] \<or> t_srel t = f_srel f)"

definition data_Delete :: "iam_env \<Rightarrow> string \<Rightarrow> tuple_filter \<Rightarrow> iam_world \<Rightarrow> iam_result" where
  "data_Delete E tenantId f =
     pm_call E (PmDelete tenantId f) tenantId (\<lambda>t. Some (t\<lparr>tn_tuples := {x \<in> tn_tuples t. \<not> matches f x}\<rparr>))"


section \<open>The wrapper\<close>

record pw_group =
  pw_Id :: string
  pw_OrgaId :: string
  pw_ProjectIds :: "string list"
  pw_PermissionSets :: "string list"

definition UpdateRelationOrganizationGroup :: "iam_env \<Rightarrow> string \<Rightarrow> string \<Rightarrow> string list \<Rightarrow> iam_world \<Rightarrow> iam_result" where
  "UpdateRelationOrganizationGroup E orgaId groupId permissionSets W =
     thenI (data_Delete E orgaId \<lparr>f_etype = entity_Organization, f_eids = [orgaId], f_stype = entity_Group, f_sids = [groupId],
              f_srel = ''assignee''\<rparr> W)
       (data_Write E orgaId (map (\<lambda>ps. GetGroupTuple ps orgaId groupId)
          (filter (\<lambda>ps. PermissionSetsEntityMap ps = entity_Organization) permissionSets)))"

definition UpdateRelationProjectGroup :: "iam_env \<Rightarrow> string \<Rightarrow> string \<Rightarrow> string \<Rightarrow> string list \<Rightarrow> iam_world \<Rightarrow> iam_result" where
  "UpdateRelationProjectGroup E orgaId projectId groupId permissionSets W =
     thenI (data_Delete E orgaId \<lparr>f_etype = entity_Project, f_eids = [projectId], f_stype = entity_Group, f_sids = [groupId],
              f_srel = ''assignee''\<rparr> W)
       (\<lambda>W1. let tuples = map (\<lambda>ps. GetGroupTuple ps projectId groupId)
                            (filter (\<lambda>ps. PermissionSetsEntityMap ps = entity_Project) permissionSets)
             in if tuples \<noteq> [] then data_Write E orgaId tuples W1 else (W1, None))"

text \<open>Failures for single groups are logged and ignored in the next two.\<close>

definition CreateRelationOrganization :: "iam_env \<Rightarrow> string \<Rightarrow> string \<Rightarrow> (string, string list) fmap \<Rightarrow> iam_world \<Rightarrow> iam_result" where
  "CreateRelationOrganization E orgaId orgaName groups W =
     thenI (tenancy_Create E orgaId orgaName W) (\<lambda>W1.
     thenI (schema_Write E orgaId DefaultSchema W1) (\<lambda>W2.
     thenI (bundle_Write E orgaId W2) (\<lambda>W3.
       (fold (\<lambda>(i, sets) V. fst (UpdateRelationOrganizationGroup E orgaId i sets V)) (gentries groups) W3, None))))"

definition CreateRelationProject :: "iam_env \<Rightarrow> string \<Rightarrow> string \<Rightarrow> (string, string list) fmap \<Rightarrow> iam_world \<Rightarrow> iam_result" where
  "CreateRelationProject E orgaId projectId groups W =
     thenI (bundle_Run E orgaId projectId W) (\<lambda>W1.
       (fold (\<lambda>(i, sets) V. if sets \<noteq> [] then fst (UpdateRelationProjectGroup E orgaId projectId i sets V) else V) (gentries groups) W1, None))"

definition DeleteRelationUser :: "iam_env \<Rightarrow> string \<Rightarrow> string \<Rightarrow> iam_world \<Rightarrow> iam_result" where
  "DeleteRelationUser E orgaId userId =
     data_Delete E orgaId \<lparr>f_etype = [], f_eids = [], f_stype = entity_User, f_sids = [userId], f_srel = []\<rparr>"

definition assignee_tuple :: "string \<Rightarrow> string \<Rightarrow> tuple" where
  "assignee_tuple groupId userId =
     \<lparr>t_etype = entity_Group, t_eid = groupId, t_rel = ''assignee'', t_stype = entity_User, t_sid = userId, t_srel = []\<rparr>"

definition CreateOrUpdateRelationUserGroup :: "iam_env \<Rightarrow> string \<Rightarrow> string \<Rightarrow> string list \<Rightarrow> iam_world \<Rightarrow> iam_result" where
  "CreateOrUpdateRelationUserGroup E orgaId userId groupIds W =
     thenI (DeleteRelationUser E orgaId userId W)
       (loopI (\<lambda>gId. data_Write E orgaId [assignee_tuple gId userId]) groupIds)"

definition DeleteRelationOrganization :: "iam_env \<Rightarrow> string \<Rightarrow> iam_world \<Rightarrow> iam_result" where
  "DeleteRelationOrganization E orgaId = tenancy_Delete E orgaId"

definition DeleteRelationProject :: "iam_env \<Rightarrow> string \<Rightarrow> string \<Rightarrow> iam_world \<Rightarrow> iam_result" where
  "DeleteRelationProject E orgaId projectId =
     data_Delete E orgaId \<lparr>f_etype = entity_Project, f_eids = [projectId], f_stype = [], f_sids = [], f_srel = []\<rparr>"

definition group_tuples :: "pw_group \<Rightarrow> tuple list" where
  "group_tuples g = concat (map (\<lambda>ps.
     if PermissionSetsEntityMap ps = entity_Organization then [GetGroupTuple ps (pw_OrgaId g) (pw_Id g)]
     else if PermissionSetsEntityMap ps = entity_Project then map (\<lambda>i. GetGroupTuple ps i (pw_Id g)) (pw_ProjectIds g)
     else []) (pw_PermissionSets g))"

definition UpdateRelationGroupPermissions :: "iam_env \<Rightarrow> string \<Rightarrow> pw_group \<Rightarrow> iam_world \<Rightarrow> iam_result" where
  "UpdateRelationGroupPermissions E orgaId g W =
     thenI (data_Delete E orgaId \<lparr>f_etype = [], f_eids = [], f_stype = entity_Group, f_sids = [pw_Id g], f_srel = ''assignee''\<rparr> W)
       (data_Write E orgaId (group_tuples g))"

end
