(* ===== verification/Iam_Service.thy ===== *)
theory Iam_Service
  imports Iam_Permify
begin

text \<open>
  The services of the API that keep the access rights: groups (\<^verbatim>\<open>pkg/services/iam/group\<close>), members
  (\<^verbatim>\<open>iam/membership\<close>), organizations (\<^verbatim>\<open>iam/organization\<close>) and projects (\<^verbatim>\<open>project/project\<close>), with the queries they
  use (\<^verbatim>\<open>internal/db/crud\<close>).

  \<^item> A handler takes the parameters of the URL as texts and the decoded body, and returns the state and the status of
    its answer; a body the decoder refuses does not reach it.
  \<^item> The ORM leaves out the conditions on fields with the zero value, so a query with the nil UUID, which is what an
    invalid text parses to, has no condition on that field (\<open>cond\<close>). Queries written as SQL keep it.
  \<^item> Rows are deleted softly, membership rows for good. \<open>First\<close> orders by the key. The order of other lists is
    the one of the keys.
  \<^item> Not modelled: audit events, the quota of resources (modelled in \<open>Quota_Sync\<close>) and the default resources of a
    new project.
\<close>

section \<open>Queries\<close>

definition uuidNil :: uuid where "uuidNil = ''00000000-0000-0000-0000-000000000000''"

definition parse_id :: "iam_env \<Rightarrow> string \<Rightarrow> uuid" where
  "parse_id E s = (case uuid_Parse (ie_uuids E) s of None \<Rightarrow> uuidNil | Some u \<Rightarrow> u)"

definition cond :: "uuid \<Rightarrow> uuid \<Rightarrow> bool" where
  "cond wanted actual \<longleftrightarrow> wanted = uuidNil \<or> actual = wanted"

definition find_first :: "iam_env \<Rightarrow> string \<Rightarrow> ('k::linorder \<times> 'r \<Rightarrow> bool) \<Rightarrow> ('k, 'r) fmap \<Rightarrow> iam_error + 'k \<times> 'r" where
  "find_first E table P m =
     (if ie_fails E (DbFind table) then Inl CallFailed
      else case find P (gentries m) of None \<Rightarrow> Inl RecordNotFound | Some x \<Rightarrow> Inr x)"

definition find_all :: "iam_env \<Rightarrow> string \<Rightarrow> ('k::linorder \<times> 'r \<Rightarrow> bool) \<Rightarrow> ('k, 'r) fmap \<Rightarrow> iam_error + ('k \<times> 'r) list" where
  "find_all E table P m = (if ie_fails E (DbFind table) then Inl CallFailed else Inr (filter P (gentries m)))"

definition count_rows :: "iam_env \<Rightarrow> string \<Rightarrow> ('k::linorder \<times> 'r \<Rightarrow> bool) \<Rightarrow> ('k, 'r) fmap \<Rightarrow> iam_error + int" where
  "count_rows E table P m = (if ie_fails E (DbCount table) then Inl CallFailed else Inr (int (length (filter P (gentries m)))))"

definition group_Save :: "iam_env \<Rightarrow> uuid \<Rightarrow> group_row \<Rightarrow> iam_world \<Rightarrow> iam_world \<times> (iam_error + uuid)" where
  "group_Save E i row W =
     (if ie_fails E (DbSave ''group'') then (W, Inl CallFailed)
      else let gid = (if i = uuidNil then ie_newId E W else i)
           in (W\<lparr>iw_groups := fmupd gid row (iw_groups W)\<rparr>, Inr gid))"

definition group_DeleteById :: "iam_env \<Rightarrow> uuid \<Rightarrow> iam_world \<Rightarrow> iam_result" where
  "group_DeleteById E i W =
     (if ie_fails E (DbDelete ''group'') then (W, Some CallFailed)
      else (W\<lparr>iw_groups := fmmap_keys (\<lambda>g row. if g = i then row\<lparr>gr_deleted := True\<rparr> else row) (iw_groups W)\<rparr>, None))"

definition group_DeleteAllByOrgaId :: "iam_env \<Rightarrow> string \<Rightarrow> iam_world \<Rightarrow> iam_result" where
  "group_DeleteAllByOrgaId E orgaId W =
     (if ie_fails E (DbDelete ''groups'') then (W, Some CallFailed)
      else (W\<lparr>iw_groups := fmmap_keys (\<lambda>g row. if gr_orga row = parse_id E orgaId then row\<lparr>gr_deleted := True\<rparr> else row) (iw_groups W)\<rparr>, None))"

definition group_FindByIdAndOrgaId :: "iam_env \<Rightarrow> string \<Rightarrow> string \<Rightarrow> iam_world \<Rightarrow> iam_error + uuid \<times> group_row" where
  "group_FindByIdAndOrgaId E groupId orgaId W =
     find_first E ''group'' (\<lambda>(g, row). \<not> gr_deleted row \<and> cond (parse_id E groupId) g \<and> cond (parse_id E orgaId) (gr_orga row)) (iw_groups W)"

definition FindByPredefinedKey :: "iam_env \<Rightarrow> uuid \<Rightarrow> string \<Rightarrow> iam_world \<Rightarrow> iam_error + uuid \<times> group_row" where
  "FindByPredefinedKey E orgaId key W =
     find_first E ''group'' (\<lambda>(g, row). \<not> gr_deleted row \<and> gr_orga row = orgaId \<and> gr_key row = Some key) (iw_groups W)"

definition FindOwnerGroup :: "iam_env \<Rightarrow> string \<Rightarrow> iam_world \<Rightarrow> iam_error + uuid \<times> group_row" where
  "FindOwnerGroup E orgId = FindByPredefinedKey E (parse_id E orgId) PredefinedGroupOwner"

definition FindAllByOrgaIdExceptOwner :: "iam_env \<Rightarrow> string \<Rightarrow> iam_world \<Rightarrow> iam_error + (uuid \<times> group_row) list" where
  "FindAllByOrgaIdExceptOwner E orgaId W =
     find_all E ''group'' (\<lambda>(g, row). \<not> gr_deleted row \<and> cond (parse_id E orgaId) (gr_orga row) \<and> gr_key row \<noteq> Some PredefinedGroupOwner) (iw_groups W)"

definition FindAllByOrgaIdAndAllProjects :: "iam_env \<Rightarrow> string \<Rightarrow> iam_world \<Rightarrow> iam_error + (uuid \<times> group_row) list" where
  "FindAllByOrgaIdAndAllProjects E orgaId W =
     find_all E ''group'' (\<lambda>(g, row). \<not> gr_deleted row \<and> cond (parse_id E orgaId) (gr_orga row) \<and> gr_allProjects row) (iw_groups W)"

text \<open>An identifier that is no UUID is refused by the database.\<close>

definition FindAllByIdsAndOrgaId :: "iam_env \<Rightarrow> string list \<Rightarrow> string \<Rightarrow> iam_world \<Rightarrow> iam_error + (uuid \<times> group_row) list" where
  "FindAllByIdsAndOrgaId E groupIds orgaId W =
     (if list_ex (\<lambda>i. uuid_Parse (ie_uuids E) i = None) groupIds then Inl BadValue
      else find_all E ''group'' (\<lambda>(g, row). \<not> gr_deleted row \<and> cond (parse_id E orgaId) (gr_orga row) \<and> g \<in> parse_id E ` set groupIds) (iw_groups W))"

text \<open>Whether users are assigned to a group: the code compares the count with 0.\<close>

definition CountUserAssignedToGroup :: "iam_env \<Rightarrow> string \<Rightarrow> string \<Rightarrow> iam_world \<Rightarrow> iam_error + bool" where
  "CountUserAssignedToGroup E groupId orgaId W =
     (if ie_fails E (DbCount ''user_organizations'') then Inl CallFailed
      else Inr (\<exists>(u, or, g)\<in>iw_members W. cond (parse_id E orgaId) or \<and> cond (parse_id E groupId) g))"

definition GetDefaultQuota :: "iam_env \<Rightarrow> string \<Rightarrow> iam_world \<Rightarrow> iam_error + string" where
  "GetDefaultQuota E i W =
     (if ie_fails E (DbFind ''quota'') then Inl CallFailed
      else case fmlookup (iw_quotas W) i of None \<Rightarrow> Inl RecordNotFound | Some v \<Rightarrow> Inr v)"

definition GetQuotaValue :: "iam_env \<Rightarrow> string \<Rightarrow> uuid \<Rightarrow> string \<Rightarrow> iam_world \<Rightarrow> iam_error + string" where
  "GetQuotaValue E i entityId entityType W =
     (case find_first E ''quota_override'' (\<lambda>((q, e, t), _). q = i \<and> cond entityId e \<and> t = entityType) (iw_overrides W) of
        Inr (_, v) \<Rightarrow> Inr v
      | Inl err \<Rightarrow> if err = RecordNotFound then GetDefaultQuota E i W else Inl err)"

text \<open>A failed count is reported as \<^verbatim>\<open>err\<close>, which is nil at that point: the limit counts as not reached.\<close>

definition quota_reached :: "iam_error + string \<Rightarrow> iam_error + int \<Rightarrow> iam_error + bool" where
  "quota_reached limitQuota count =
     (case limitQuota of
        Inl err \<Rightarrow> Inl err
      | Inr v \<Rightarrow> (case count of
                    Inl _ \<Rightarrow> Inr False
                  | Inr n \<Rightarrow> (case ParseInt v of None \<Rightarrow> Inl BadValue | Some limit \<Rightarrow> Inr (limit \<le> n))))"

definition group_IsQuotaCreationReached :: "iam_env \<Rightarrow> uuid \<Rightarrow> iam_world \<Rightarrow> iam_error + bool" where
  "group_IsQuotaCreationReached E orgaId W =
     quota_reached (GetQuotaValue E ''Orga_Limit_IAMGroup'' orgaId ''Orga'' W)
       (count_rows E ''group'' (\<lambda>(g, row). \<not> gr_deleted row \<and> cond orgaId (gr_orga row) \<and> gr_key row = None) (iw_groups W))"

definition project_IsQuotaCreationReached :: "iam_env \<Rightarrow> uuid \<Rightarrow> iam_world \<Rightarrow> iam_error + bool" where
  "project_IsQuotaCreationReached E orgaId W =
     quota_reached (GetQuotaValue E ''Orga_Limit_Project'' orgaId ''Orga'' W)
       (count_rows E ''project'' (\<lambda>(p, row). \<not> pj_deleted row \<and> cond orgaId (pj_orga row)) (iw_projects W))"

definition CountOrgaByUser :: "iam_env \<Rightarrow> uuid \<Rightarrow> iam_world \<Rightarrow> iam_error + int" where
  "CountOrgaByUser E user W = count_rows E ''organization'' (\<lambda>(i, row). \<not> or_deleted row \<and> cond user (or_owner row)) (iw_orgs W)"

text \<open>For organizations a failed count is an error of its own.\<close>

definition organization_IsQuotaCreationReached :: "iam_env \<Rightarrow> uuid \<Rightarrow> iam_world \<Rightarrow> iam_error + bool" where
  "organization_IsQuotaCreationReached E user W =
     (case GetQuotaValue E ''User_Limit_Organization'' user ''User'' W of
        Inl err \<Rightarrow> Inl err
      | Inr v \<Rightarrow> (case CountOrgaByUser E user W of Inl err \<Rightarrow> Inl err | Inr n \<Rightarrow> quota_reached (Inr v) (Inr n)))"

definition project_FindAllByOrgaId :: "iam_env \<Rightarrow> string \<Rightarrow> iam_world \<Rightarrow> iam_error + (uuid \<times> proj_row) list" where
  "project_FindAllByOrgaId E orgaId W =
     find_all E ''project'' (\<lambda>(p, row). \<not> pj_deleted row \<and> cond (parse_id E orgaId) (pj_orga row)) (iw_projects W)"

definition project_FindById :: "iam_env \<Rightarrow> string \<Rightarrow> iam_world \<Rightarrow> iam_error + uuid \<times> proj_row" where
  "project_FindById E projectId W = find_first E ''project'' (\<lambda>(p, row). \<not> pj_deleted row \<and> cond (parse_id E projectId) p) (iw_projects W)"

definition project_FindByIdAndOrgaId :: "iam_env \<Rightarrow> uuid \<Rightarrow> uuid \<Rightarrow> iam_world \<Rightarrow> iam_error + uuid \<times> proj_row" where
  "project_FindByIdAndOrgaId E projectId orgaId W =
     find_first E ''project'' (\<lambda>(p, row). \<not> pj_deleted row \<and> p = projectId \<and> pj_orga row = orgaId) (iw_projects W)"

definition organization_FindById :: "iam_env \<Rightarrow> string \<Rightarrow> iam_world \<Rightarrow> iam_error + uuid \<times> org_row" where
  "organization_FindById E orgaId W = find_first E ''organization'' (\<lambda>(i, row). \<not> or_deleted row \<and> cond (parse_id E orgaId) i) (iw_orgs W)"

text \<open>On a failed count the code returns false with the error.\<close>

definition IsOwner :: "iam_env \<Rightarrow> string \<Rightarrow> string \<Rightarrow> iam_world \<Rightarrow> bool \<times> iam_error option" where
  "IsOwner E orgaId userId W =
     (case count_rows E ''organization'' (\<lambda>(i, row). \<not> or_deleted row \<and> cond (parse_id E orgaId) i \<and> cond (parse_id E userId) (or_owner row)) (iw_orgs W) of
        Inl err \<Rightarrow> (False, Some err)
      | Inr n \<Rightarrow> (0 < n, None))"

definition FindByInviteCode :: "iam_env \<Rightarrow> uuid \<Rightarrow> iam_world \<Rightarrow> iam_error + uuid \<times> user_row" where
  "FindByInviteCode E inviteCode W = find_first E ''user'' (\<lambda>(u, row). cond inviteCode (us_invite row)) (iw_users W)"

definition remove_members :: "uuid \<Rightarrow> uuid \<Rightarrow> iam_world \<Rightarrow> iam_world" where
  "remove_members orga user W = W\<lparr>iw_members := {(u, or, g) \<in> iw_members W. \<not> (cond user u \<and> cond orga or)}\<rparr>"

definition InviteUserToOrg :: "iam_env \<Rightarrow> string \<Rightarrow> string \<Rightarrow> uuid list \<Rightarrow> iam_world \<Rightarrow> iam_result" where
  "InviteUserToOrg E orgaId userToInvite groups W =
     (let user = parse_id E userToInvite; orga = parse_id E orgaId
      in if ie_fails E (DbDelete ''user_organizations'') then (W, Some CallFailed)
         else let W1 = remove_members orga user W
              in if groups = [] then (W1, Some EmptySlice)
                 else if ie_fails E (DbSave ''user_organizations'') then (W1, Some CallFailed)
                 else (W1\<lparr>iw_members := iw_members W1 \<union> (\<lambda>g. (user, orga, g)) ` set groups\<rparr>, None))"

definition RemoveUserFromOrg :: "iam_env \<Rightarrow> string \<Rightarrow> string \<Rightarrow> iam_world \<Rightarrow> iam_result" where
  "RemoveUserFromOrg E orgaId userToRemove W =
     (if ie_fails E (DbDelete ''user_organizations'') then (W, Some CallFailed)
      else (remove_members (parse_id E orgaId) (parse_id E userToRemove) W, None))"

definition SetPredefinedCatalogVersion :: "iam_env \<Rightarrow> uuid \<Rightarrow> int \<Rightarrow> iam_world \<Rightarrow> iam_result" where
  "SetPredefinedCatalogVersion E orga version W =
     (if ie_fails E (DbSave ''catalog_version'') then (W, Some CallFailed)
      else (W\<lparr>iw_orgs := fmmap_keys (\<lambda>i row. if i = orga \<and> \<not> or_deleted row then row\<lparr>or_version := version\<rparr> else row) (iw_orgs W)\<rparr>, None))"

definition FindStaleForPredefinedCatalog :: "iam_env \<Rightarrow> int \<Rightarrow> bool \<Rightarrow> iam_world \<Rightarrow> iam_error + (uuid \<times> org_row) list" where
  "FindStaleForPredefinedCatalog E version force W =
     find_all E ''organization'' (\<lambda>(i, row). \<not> or_deleted row \<and> (force \<or> or_version row < version)) (iw_orgs W)"

definition organization_Save :: "iam_env \<Rightarrow> uuid \<Rightarrow> org_row \<Rightarrow> iam_world \<Rightarrow> iam_world \<times> (iam_error + uuid)" where
  "organization_Save E i row W =
     (if ie_fails E (DbSave ''organization'') then (W, Inl CallFailed)
      else let oid = (if i = uuidNil then ie_newId E W else i)
           in (W\<lparr>iw_orgs := fmupd oid row (iw_orgs W)\<rparr>, Inr oid))"

definition iam_organization_Delete :: "iam_env \<Rightarrow> string \<Rightarrow> iam_world \<Rightarrow> iam_result" where
  "iam_organization_Delete E orgaId W =
     (if ie_fails E (DbDelete ''organization'') then (W, Some CallFailed)
      else let orga = parse_id E orgaId
           in group_DeleteAllByOrgaId E orgaId
             (W\<lparr>iw_orgs := fmmap_keys (\<lambda>i row. if i = orga then row\<lparr>or_deleted := True\<rparr> else row) (iw_orgs W),
                iw_projects := fmmap_keys (\<lambda>p row. if pj_orga row = orga then row\<lparr>pj_deleted := True\<rparr> else row) (iw_projects W),
                iw_members := {(u, or, g) \<in> iw_members W. or \<noteq> orga}\<rparr>))"


section \<open>Groups\<close>

text \<open>\<open>SaveGroup\<close> ignores a failed list of the projects: the group then has none.\<close>

definition SaveGroup :: "iam_env \<Rightarrow> uuid \<Rightarrow> group_row \<Rightarrow> iam_world \<Rightarrow> iam_world \<times> (iam_error + uuid)" where
  "SaveGroup E i row W =
     (case group_Save E i row W of
        (W1, Inl err) \<Rightarrow> (W1, Inl err)
      | (W1, Inr gid) \<Rightarrow>
          let projectIds = (if gr_allProjects row
                            then (case project_FindAllByOrgaId E (gr_orga row) W1 of Inl _ \<Rightarrow> [] | Inr ps \<Rightarrow> map fst ps)
                            else gr_projectIds row)
          in case UpdateRelationGroupPermissions E (gr_orga row)
                    \<lparr>pw_Id = gid, pw_OrgaId = gr_orga row, pw_ProjectIds = projectIds, pw_PermissionSets = gr_sets row\<rparr> W1 of
               (W2, Some err) \<Rightarrow> (W2, Inl err)
             | (W2, None) \<Rightarrow> (W2, Inr gid))"

record group_body =
  gb_id :: uuid
  gb_name :: string
  gb_allProjects :: bool
  gb_projectIds :: "uuid list"
  gb_sets :: "string list"

text \<open>The arguments of the query are the other way round than its parameters, as in the code.\<close>

definition GetOrganizationGroup :: "iam_env \<Rightarrow> string \<Rightarrow> string \<Rightarrow> iam_world \<Rightarrow> nat \<times> (uuid \<times> group_row) option" where
  "GetOrganizationGroup E orgaId groupId W =
     (case group_FindByIdAndOrgaId E orgaId groupId W of Inl _ \<Rightarrow> (500, None) | Inr g \<Rightarrow> (200, Some g))"

definition GetAllOrganizationGroups :: "iam_env \<Rightarrow> string \<Rightarrow> iam_world \<Rightarrow> nat \<times> (uuid \<times> group_row) list" where
  "GetAllOrganizationGroups E orgaId W =
     (case FindAllByOrgaIdExceptOwner E orgaId W of Inl _ \<Rightarrow> (500, []) | Inr gs \<Rightarrow> (200, gs))"

text \<open>The checks before a group is saved: \<open>Some\<close> the status of a refusal.\<close>

definition group_check :: "iam_env \<Rightarrow> string \<Rightarrow> group_body \<Rightarrow> iam_world \<Rightarrow> nat option" where
  "group_check E orgaId body W =
     (if gb_id body \<noteq> uuidNil
      then (case group_FindByIdAndOrgaId E (gb_id body) orgaId W of
              Inl _ \<Rightarrow> Some 400
            | Inr (_, row) \<Rightarrow> if gr_key row \<noteq> None then Some 403 else None)
      else if IsPredefinedGroupName (gb_name body) then Some 400
      else (case group_IsQuotaCreationReached E (parse_id E orgaId) W of
              Inl _ \<Rightarrow> Some 500
            | Inr reached \<Rightarrow> if reached then Some 400 else None))"

definition CreateOrUpdateOrganizationGroup :: "iam_env \<Rightarrow> string \<Rightarrow> group_body \<Rightarrow> iam_world \<Rightarrow> iam_world \<times> nat" where
  "CreateOrUpdateOrganizationGroup E orgaId body W =
     (case group_check E orgaId body W of
        Some status \<Rightarrow> (W, status)
      | None \<Rightarrow>
          (case SaveGroup E (gb_id body)
                  \<lparr>gr_name = gb_name body, gr_orga = parse_id E orgaId, gr_allProjects = gb_allProjects body, gr_projectIds = gb_projectIds body,
                   gr_sets = gb_sets body @ [SpxMember], gr_key = None, gr_deleted = False\<rparr> W of
             (W1, Inl _) \<Rightarrow> (W1, 500)
           | (W1, Inr _) \<Rightarrow> (W1, 200)))"

definition DeleteOrganizationGroup :: "iam_env \<Rightarrow> string \<Rightarrow> string \<Rightarrow> iam_world \<Rightarrow> iam_world \<times> nat" where
  "DeleteOrganizationGroup E orgaId groupId W =
     (case group_FindByIdAndOrgaId E groupId orgaId W of
        Inl _ \<Rightarrow> (W, 400)
      | Inr (gid, row) \<Rightarrow>
          if gr_key row \<noteq> None then (W, 403)
          else (case CountUserAssignedToGroup E groupId orgaId W of
                  Inl _ \<Rightarrow> (W, 500)
                | Inr assigned \<Rightarrow>
                    if assigned then (W, 400)
                    else (case group_DeleteById E gid W of (W1, Some _) \<Rightarrow> (W1, 500) | (W1, None) \<Rightarrow> (W1, 200))))"

definition DuplicateOrganizationGroup :: "iam_env \<Rightarrow> string \<Rightarrow> string \<Rightarrow> string \<Rightarrow> iam_world \<Rightarrow> iam_world \<times> nat" where
  "DuplicateOrganizationGroup E orgaId groupId name W =
     (if name = [] \<or> IsPredefinedGroupName name then (W, 400)
      else case group_FindByIdAndOrgaId E groupId orgaId W of
             Inl _ \<Rightarrow> (W, 400)
           | Inr (_, source) \<Rightarrow>
               (case group_IsQuotaCreationReached E (parse_id E orgaId) W of
                  Inl _ \<Rightarrow> (W, 500)
                | Inr True \<Rightarrow> (W, 400)
                | Inr False \<Rightarrow>
                    (case SaveGroup E uuidNil
                            \<lparr>gr_name = name, gr_orga = parse_id E orgaId, gr_allProjects = gr_allProjects source,
                             gr_projectIds = gr_projectIds source, gr_sets = gr_sets source, gr_key = None, gr_deleted = False\<rparr> W of
                       (W1, Inl _) \<Rightarrow> (W1, 500)
                     | (W1, Inr _) \<Rightarrow> (W1, 200))))"

definition predefined_row :: "uuid \<Rightarrow> predefined_group \<Rightarrow> group_row" where
  "predefined_row orga p = \<lparr>gr_name = pg_name p, gr_orga = orga, gr_allProjects = True, gr_projectIds = [], gr_sets = pg_sets p,
     gr_key = Some (pg_key p), gr_deleted = False\<rparr>"

text \<open>The second argument is the identifier of the owner group saved so far.\<close>

fun init_groups :: "iam_env \<Rightarrow> uuid \<Rightarrow> uuid \<Rightarrow> predefined_group list \<Rightarrow> iam_world \<Rightarrow> iam_world \<times> (iam_error + uuid)" where
  "init_groups E orga ownerGroup [] W = (W, Inr ownerGroup)"
| "init_groups E orga ownerGroup (p # ps) W =
     (case SaveGroup E uuidNil (predefined_row orga p) W of
        (W1, Inl err) \<Rightarrow> (W1, Inl err)
      | (W1, Inr gid) \<Rightarrow> init_groups E orga (if pg_key p = PredefinedGroupOwner then gid else ownerGroup) ps W1)"

definition InitializeDefaultGroups :: "iam_env \<Rightarrow> uuid \<Rightarrow> uuid \<Rightarrow> iam_world \<Rightarrow> iam_result" where
  "InitializeDefaultGroups E orga owner W =
     (case init_groups E orga uuidNil PredefinedGroups W of
        (W1, Inl err) \<Rightarrow> (W1, Some err)
      | (W1, Inr ownerGroup) \<Rightarrow>
          thenI (SetPredefinedCatalogVersion E orga PredefinedCatalogVersion W1)
            (CreateOrUpdateRelationUserGroup E orga owner [ownerGroup]))"

text \<open>Reconciliation of the predefined groups, with the numbers of groups created and updated.\<close>

fun reconcile_groups :: "iam_env \<Rightarrow> uuid \<Rightarrow> nat \<times> nat \<Rightarrow> predefined_group list \<Rightarrow> iam_world \<Rightarrow> iam_world \<times> (nat \<times> nat) \<times> iam_error option" where
  "reconcile_groups E orga n [] W = (W, n, None)"
| "reconcile_groups E orga (created, updated) (p # ps) W =
     (case FindByPredefinedKey E orga (pg_key p) W of
        Inr (gid, row) \<Rightarrow>
          (case SaveGroup E gid (row\<lparr>gr_name := pg_name p, gr_sets := pg_sets p\<rparr>) W of
             (W1, Inl err) \<Rightarrow> (W1, (created, updated), Some err)
           | (W1, Inr _) \<Rightarrow> reconcile_groups E orga (created, Suc updated) ps W1)
      | Inl err \<Rightarrow>
          if err = RecordNotFound
          then (case SaveGroup E uuidNil (predefined_row orga p) W of
                  (W1, Inl err1) \<Rightarrow> (W1, (created, updated), Some err1)
                | (W1, Inr _) \<Rightarrow> reconcile_groups E orga (Suc created, updated) ps W1)
          else (W, (created, updated), Some err))"

definition iam_reconcileOrganization :: "iam_env \<Rightarrow> uuid \<Rightarrow> iam_world \<Rightarrow> iam_world \<times> (nat \<times> nat) \<times> iam_error option" where
  "iam_reconcileOrganization E orga W =
     (case schema_Write E orga DefaultSchema W of
        (W1, Some err) \<Rightarrow> (W1, (0, 0), Some err)
      | (W1, None) \<Rightarrow> reconcile_groups E orga (0, 0) PredefinedGroups W1)"

record reconcile_report =
  rr_scanned :: nat
  rr_updated :: nat
  rr_groupsCreated :: nat
  rr_groupsUpdated :: nat
  rr_failedIds :: "uuid list"

fun reconcile_all :: "iam_env \<Rightarrow> reconcile_report \<Rightarrow> uuid list \<Rightarrow> iam_world \<Rightarrow> iam_world \<times> reconcile_report" where
  "reconcile_all E R [] W = (W, R)"
| "reconcile_all E R (orga # rest) W =
     (case iam_reconcileOrganization E orga W of
        (W1, (created, updated), err) \<Rightarrow>
          let R1 = R\<lparr>rr_groupsCreated := rr_groupsCreated R + created, rr_groupsUpdated := rr_groupsUpdated R + updated\<rparr>
          in if err \<noteq> None then reconcile_all E (R1\<lparr>rr_failedIds := rr_failedIds R1 @ [orga]\<rparr>) rest W1
             else (case SetPredefinedCatalogVersion E orga PredefinedCatalogVersion W1 of
                     (W2, Some _) \<Rightarrow> reconcile_all E (R1\<lparr>rr_failedIds := rr_failedIds R1 @ [orga]\<rparr>) rest W2
                   | (W2, None) \<Rightarrow> reconcile_all E (R1\<lparr>rr_updated := Suc (rr_updated R1)\<rparr>) rest W2))"

definition ReconcilePredefinedGroups :: "iam_env \<Rightarrow> bool \<Rightarrow> iam_world \<Rightarrow> iam_world \<times> reconcile_report \<times> iam_error option" where
  "ReconcilePredefinedGroups E force W =
     (let R = \<lparr>rr_scanned = 0, rr_updated = 0, rr_groupsCreated = 0, rr_groupsUpdated = 0, rr_failedIds = []\<rparr>
      in case FindStaleForPredefinedCatalog E PredefinedCatalogVersion force W of
           Inl err \<Rightarrow> (W, R, Some err)
         | Inr orgs \<Rightarrow> (case reconcile_all E (R\<lparr>rr_scanned := length orgs\<rparr>) (map fst orgs) W of (W1, R1) \<Rightarrow> (W1, R1, None)))"


section \<open>Members\<close>

definition InviteIntoOrganization :: "iam_env \<Rightarrow> string \<Rightarrow> uuid \<Rightarrow> string list \<Rightarrow> iam_world \<Rightarrow> iam_world \<times> nat" where
  "InviteIntoOrganization E orgaId inviteCode groupIds W =
     (if inviteCode = uuidNil then (W, 400)
      else case FindByInviteCode E inviteCode W of
        Inl _ \<Rightarrow> (W, 404)
      | Inr (user, _) \<Rightarrow>
          (case IsOwner E orgaId user W of (isOwner, err) \<Rightarrow>
             if isOwner then (W, 401)
             else if err \<noteq> None then (W, 500)
             else if groupIds = [] then (W, 400)
             else (case FindAllByIdsAndOrgaId E groupIds orgaId W of
                     Inl _ \<Rightarrow> (W, 400)
                   | Inr groups \<Rightarrow>
                       let ids = map fst (filter (\<lambda>(g, row). gr_key row \<noteq> Some PredefinedGroupOwner) groups)
                       in case InviteUserToOrg E orgaId user ids W of
                            (W1, Some _) \<Rightarrow> (W1, 500)
                          | (W1, None) \<Rightarrow>
                              (case CreateOrUpdateRelationUserGroup E orgaId user ids W1 of
                                 (W2, Some _) \<Rightarrow> (fst (RemoveUserFromOrg E orgaId user W2), 500)
                               | (W2, None) \<Rightarrow> (W2, 200)))))"

text \<open>The user is a parameter of the query of the URL, which may be missing.\<close>

definition RemoveFromOrganization :: "iam_env \<Rightarrow> string \<Rightarrow> string option \<Rightarrow> iam_world \<Rightarrow> iam_world \<times> nat" where
  "RemoveFromOrganization E orgaId query W =
     (case query of
        None \<Rightarrow> (W, 400)
      | Some userId \<Rightarrow>
          (case IsOwner E orgaId userId W of (isOwner, err) \<Rightarrow>
             if err \<noteq> None \<or> isOwner then (W, 403)
             else (case DeleteRelationUser E orgaId userId W of
                     (W1, Some _) \<Rightarrow> (W1, 500)
                   | (W1, None) \<Rightarrow> (case RemoveUserFromOrg E orgaId userId W1 of (W2, Some _) \<Rightarrow> (W2, 500) | (W2, None) \<Rightarrow> (W2, 200)))))"


section \<open>Projects\<close>

definition project_Create :: "iam_env \<Rightarrow> uuid \<Rightarrow> string \<Rightarrow> iam_world \<Rightarrow> iam_world \<times> (iam_error + uuid)" where
  "project_Create E orga name W =
     (if ie_fails E (DbSave ''project'') then (W, Inl CallFailed)
      else let p = ie_newId E W
           in (W\<lparr>iw_projects := fmupd p \<lparr>pj_orga = orga, pj_name = name, pj_deleted = False\<rparr> (iw_projects W)\<rparr>, Inr p))"

definition InitializeProject :: "iam_env \<Rightarrow> uuid \<Rightarrow> string \<Rightarrow> iam_world \<Rightarrow> iam_result" where
  "InitializeProject E orga name W =
     (case project_Create E orga name W of
        (W1, Inl err) \<Rightarrow> (W1, Some err)
      | (W1, Inr p) \<Rightarrow>
          (case FindAllByOrgaIdAndAllProjects E orga W1 of
             Inl err \<Rightarrow> (W1, Some err)
           | Inr groups \<Rightarrow> CreateRelationProject E orga p (fmap_of_list (map (\<lambda>(g, row). (g, gr_sets row)) groups)) W1))"

definition project_DeleteByProject :: "iam_env \<Rightarrow> uuid \<Rightarrow> uuid \<Rightarrow> iam_world \<Rightarrow> iam_result" where
  "project_DeleteByProject E projectId orgaId W =
     (if ie_fails E (DbDelete ''product'') then (W, Some CallFailed)
      else (W\<lparr>iw_products := fmfilter (\<lambda>e. case fmlookup (iw_products W) e of
               None \<Rightarrow> False
             | Some row \<Rightarrow> \<not> (pd_project row = projectId \<and>
                 (case fmlookup (iw_projects W) projectId of None \<Rightarrow> False | Some p \<Rightarrow> \<not> pj_deleted p \<and> pj_orga p = orgaId))) (iw_products W)\<rparr>, None))"

definition iam_project_DeleteById :: "iam_env \<Rightarrow> uuid \<Rightarrow> uuid \<Rightarrow> iam_world \<Rightarrow> iam_result" where
  "iam_project_DeleteById E projectId orgaId W =
     (if ie_fails E (DbDelete ''project'') then (W, Some CallFailed)
      else case fmlookup (iw_projects W) projectId of
             None \<Rightarrow> (W, Some RecordNotFound)
           | Some row \<Rightarrow>
               if pj_deleted row \<or> pj_orga row \<noteq> orgaId then (W, Some RecordNotFound)
               else (W\<lparr>iw_projects := fmupd projectId (row\<lparr>pj_deleted := True\<rparr>) (iw_projects W)\<rparr>, None))"

definition RemoveProject :: "iam_env \<Rightarrow> string \<Rightarrow> string \<Rightarrow> iam_world \<Rightarrow> iam_result" where
  "RemoveProject E orgaId projectId W =
     (case (uuid_Parse (ie_uuids E) orgaId, uuid_Parse (ie_uuids E) projectId) of
        (Some orga, Some p) \<Rightarrow>
          (case project_FindByIdAndOrgaId E p orga W of
             Inl err \<Rightarrow> (W, Some (if err = RecordNotFound then ProjectNotInOrga else err))
           | Inr _ \<Rightarrow>
               if ie_fails E (MarkResources projectId) then (W, Some CallFailed)
               else thenI (project_DeleteByProject E p orga W) (\<lambda>W1.
                    thenI (iam_project_DeleteById E p orga W1)
                      (DeleteRelationProject E orgaId projectId)))
      | _ \<Rightarrow> (W, Some BadValue))"

definition UpdateProject :: "iam_env \<Rightarrow> uuid \<Rightarrow> string \<Rightarrow> string \<Rightarrow> iam_world \<Rightarrow> iam_result" where
  "UpdateProject E orga projectId name W =
     (case uuid_Parse (ie_uuids E) projectId of
        None \<Rightarrow> (W, Some BadValue)
      | Some p \<Rightarrow>
          (case find_first E ''project'' (\<lambda>(q, row). \<not> pj_deleted row \<and> cond p q \<and> cond orga (pj_orga row)) (iw_projects W) of
             Inl err \<Rightarrow> (W, Some err)
           | Inr (q, row) \<Rightarrow>
               if ie_fails E (DbSave ''project'') then (W, Some CallFailed)
               else (W\<lparr>iw_projects := fmupd q (row\<lparr>pj_name := name\<rparr>) (iw_projects W)\<rparr>, None)))"

definition CreateOrUpdateProject :: "iam_env \<Rightarrow> string \<Rightarrow> string \<Rightarrow> string \<Rightarrow> iam_world \<Rightarrow> iam_world \<times> nat" where
  "CreateOrUpdateProject E orgaId bodyId name W =
     (if bodyId \<noteq> []
      then (case UpdateProject E (parse_id E orgaId) bodyId name W of (W1, Some _) \<Rightarrow> (W1, 500) | (W1, None) \<Rightarrow> (W1, 200))
      else case project_IsQuotaCreationReached E (parse_id E orgaId) W of
             Inl _ \<Rightarrow> (W, 500)
           | Inr True \<Rightarrow> (W, 400)
           | Inr False \<Rightarrow> (case InitializeProject E (parse_id E orgaId) name W of (W1, Some _) \<Rightarrow> (W1, 500) | (W1, None) \<Rightarrow> (W1, 200)))"

definition DeleteProject :: "iam_env \<Rightarrow> string \<Rightarrow> string \<Rightarrow> iam_world \<Rightarrow> iam_world \<times> nat" where
  "DeleteProject E orgaId projectId W =
     (case RemoveProject E orgaId projectId W of
        (W1, Some err) \<Rightarrow> (W1, if err = ProjectNotInOrga then 404 else 500)
      | (W1, None) \<Rightarrow> (W1, 200))"


section \<open>Organizations\<close>

definition InitOrganization :: "iam_env \<Rightarrow> uuid \<Rightarrow> string \<Rightarrow> uuid \<Rightarrow> iam_world \<Rightarrow> iam_result" where
  "InitOrganization E orga name user W =
     thenI (CreateRelationOrganization E orga name fmempty W) (InitializeDefaultGroups E orga user)"

definition iam_organization_Create :: "iam_env \<Rightarrow> uuid \<Rightarrow> string \<Rightarrow> iam_world \<Rightarrow> iam_world \<times> nat" where
  "iam_organization_Create E user name W =
     (case organization_IsQuotaCreationReached E user W of
        Inl _ \<Rightarrow> (W, 500)
      | Inr True \<Rightarrow> (W, 400)
      | Inr False \<Rightarrow>
          (case organization_Save E uuidNil \<lparr>or_name = name, or_owner = user, or_version = 0, or_deleted = False\<rparr> W of
             (W1, Inl _) \<Rightarrow> (W1, 500)
           | (W1, Inr orga) \<Rightarrow>
               (case thenI (InitOrganization E orga name user W1) (InitializeProject E orga ''default'') of
                  (W2, Some _) \<Rightarrow> (W2, 500)
                | (W2, None) \<Rightarrow> (W2, 200))))"

definition organization_Update :: "iam_env \<Rightarrow> string \<Rightarrow> string \<Rightarrow> iam_world \<Rightarrow> iam_world \<times> nat" where
  "organization_Update E orgaId name W =
     (case organization_FindById E orgaId W of
        Inl err \<Rightarrow> (W, if err = RecordNotFound then 404 else 500)
      | Inr (orga, row) \<Rightarrow> (case organization_Save E orga (row\<lparr>or_name := name\<rparr>) W of (W1, Inl _) \<Rightarrow> (W1, 500) | (W1, Inr _) \<Rightarrow> (W1, 200)))"

text \<open>The owner, and only when it is not the last organization of the owner.\<close>

definition owner_check :: "iam_env \<Rightarrow> string \<Rightarrow> uuid \<Rightarrow> iam_world \<Rightarrow> nat + uuid \<times> org_row" where
  "owner_check E orgaId user W =
     (case organization_FindById E orgaId W of
        Inl _ \<Rightarrow> Inl 500
      | Inr (orga, row) \<Rightarrow>
          if or_owner row \<noteq> user then Inl 403
          else (case CountOrgaByUser E user W of
                  Inl _ \<Rightarrow> Inl 500
                | Inr n \<Rightarrow> if n \<le> 1 then Inl 400 else Inr (orga, row)))"

definition organization_DeleteHandler :: "iam_env \<Rightarrow> string \<Rightarrow> uuid \<Rightarrow> iam_world \<Rightarrow> iam_world \<times> nat" where
  "organization_DeleteHandler E orgaId user W =
     (case owner_check E orgaId user W of
        Inl status \<Rightarrow> (W, status)
      | Inr _ \<Rightarrow>
          (case project_FindAllByOrgaId E orgaId W of
             Inl _ \<Rightarrow> (W, 500)
           | Inr projects \<Rightarrow>
               (case thenI (loopI (\<lambda>p. RemoveProject E orgaId p) (map fst projects) W) (\<lambda>W1.
                     thenI (DeleteRelationOrganization E orgaId W1) (iam_organization_Delete E orgaId)) of
                  (W2, Some _) \<Rightarrow> (W2, 500)
                | (W2, None) \<Rightarrow> (W2, 200))))"

text \<open>
  The transfer of an organization: after the checks the owner is changed in the table, the new owner gets the owner
  group as the only group and is no longer a guest, and the rights of the old owner are removed.
\<close>

definition Transfer :: "iam_env \<Rightarrow> string \<Rightarrow> uuid \<Rightarrow> uuid \<Rightarrow> iam_world \<Rightarrow> iam_world \<times> nat" where
  "Transfer E orgaId user inviteCode W =
     (case owner_check E orgaId user W of
        Inl status \<Rightarrow> (W, status)
      | Inr (orga, row) \<Rightarrow>
     (case FindOwnerGroup E orgaId W of
        Inl _ \<Rightarrow> (W, 500)
      | Inr (ownerGroup, _) \<Rightarrow>
     if inviteCode = uuidNil then (W, 400)
     else (case FindByInviteCode E inviteCode W of
        Inl _ \<Rightarrow> (W, 404)
      | Inr (newOwner, urow) \<Rightarrow>
     if \<not> us_active urow then (W, 404)
     else if newOwner = user then (W, 400)
     else (case organization_IsQuotaCreationReached E newOwner W of
        Inl _ \<Rightarrow> (W, 500)
      | Inr True \<Rightarrow> (W, 400)
      | Inr False \<Rightarrow>
     (case organization_Save E orga (row\<lparr>or_owner := newOwner\<rparr>) W of
        (W1, Inl _) \<Rightarrow> (W1, 500)
      | (W1, Inr _) \<Rightarrow>
          (case thenI (CreateOrUpdateRelationUserGroup E orga newOwner [ownerGroup] W1) (\<lambda>W2.
                thenI (RemoveUserFromOrg E orga newOwner W2)
                  (DeleteRelationUser E orgaId user)) of
             (W3, Some _) \<Rightarrow> (W3, 500)
           | (W3, None) \<Rightarrow> (W3, 200)))))))"

end
