(* ===== verification/Iam_Access.thy ===== *)
theory Iam_Access
  imports Iam_Service Quota_Lifecycle
begin

text \<open>
  What decides whether a request goes on: the permission middleware (\<^verbatim>\<open>internal/authorization/authorization.go\<close>,
  \<^verbatim>\<open>authorization/permify/http.go\<close>), the middlewares of the forwarding routes (\<^verbatim>\<open>pkg/services/controller/routes.go\<close>) and the
  checks the handlers share (\<^verbatim>\<open>pkg/services/controller/utils/utils.go\<close>).

  \<^item> A middleware either calls the next handler (\<open>Pass\<close>), answers with a status (\<open>Refuse\<close>) or panics: the permission
    middleware reads the user as a string in its refusal branch, also when there is none; the recoverer of the global
    chain answers 500 then.
  \<^item> A request has the parameters of its URL as texts, empty when the route does not have them.
\<close>

section \<open>Requests\<close>

record api_request =
  rq_orgaId :: string
  rq_projectId :: string
  rq_az :: string
  rq_effectiveId :: string
  rq_user :: "string option"

datatype verdict = Pass | Refuse nat | Panic


section \<open>Permissions\<close>

definition IsSuperAdminUser :: "iam_env \<Rightarrow> string \<Rightarrow> bool" where
  "IsSuperAdminUser E userId \<longleftrightarrow> ie_superAdmins E \<noteq> [] \<and> userId \<noteq> [] \<and> userId \<in> set (ie_superAdmins E)"

definition CheckPermissionForRequest :: "iam_env \<Rightarrow> iam_world \<Rightarrow> api_request \<Rightarrow> string \<Rightarrow> bool" where
  "CheckPermissionForRequest E W r permission =
     (case rq_user r of
        None \<Rightarrow> False
      | Some userId \<Rightarrow>
          if IsSuperAdminUser E userId then True
          else let entityId = (if PermissionsEntityMap permission = entity_Organization then rq_orgaId r
                               else if PermissionsEntityMap permission = entity_Project then rq_projectId r
                               else [])
               in CanAccess E W (rq_orgaId r) permission entityId userId)"

definition CheckPermission :: "iam_env \<Rightarrow> iam_world \<Rightarrow> string \<Rightarrow> api_request \<Rightarrow> verdict" where
  "CheckPermission E W permission r =
     (if CheckPermissionForRequest E W r permission then Pass
      else case rq_user r of None \<Rightarrow> Panic | Some _ \<Rightarrow> Refuse 403)"

text \<open>The permissions of a user on an entity, in the order of the schema; Permify is asked for the permissions only.\<close>

definition permission_names :: "perm_schema \<Rightarrow> string \<Rightarrow> string list" where
  "permission_names sch etype = (case find (\<lambda>d. ed_name d = etype) sch of None \<Rightarrow> [] | Some d \<Rightarrow> map fst (ed_permissions d))"

definition ListUserPermission :: "iam_env \<Rightarrow> iam_world \<Rightarrow> string \<Rightarrow> string \<Rightarrow> string \<Rightarrow> string \<Rightarrow> iam_error + string list" where
  "ListUserPermission E W tenantId entityType entityId subjectId =
     (if \<not> ie_connected E then Inl NotConnected
      else if ie_fails E (PmCheck tenantId [] entityId subjectId) then Inl CallFailed
      else case fmlookup (iw_tenants W) tenantId of
             None \<Rightarrow> Inl CallFailed
           | Some t \<Rightarrow> (case tn_schema t of
                          None \<Rightarrow> Inl CallFailed
                        | Some sch \<Rightarrow>
                            Inr (filter (\<lambda>p. ie_check E sch (tn_tuples t) 20
                                    \<lparr>t_etype = entityType, t_eid = entityId, t_rel = p, t_stype = entity_User, t_sid = subjectId, t_srel = []\<rparr>)
                                  (permission_names sch entityType))))"

definition ListPermissions :: "iam_env \<Rightarrow> iam_world \<Rightarrow> api_request \<Rightarrow> string \<Rightarrow> string \<Rightarrow> nat \<times> string list" where
  "ListPermissions E W r entityType entityId =
     (case rq_user r of
        None \<Rightarrow> (500, [])
      | Some userId \<Rightarrow>
          (case ListUserPermission E W (rq_orgaId r) entityType entityId userId of
             Inl _ \<Rightarrow> if IsSuperAdminUser E userId
                      then (200, filter (\<lambda>p. PermissionsEntityMap p = entityType) (organization_permissions @ project_permissions))
                      else (500, [])
           | Inr ps \<Rightarrow> if IsSuperAdminUser E userId
                       then (200, filter (\<lambda>p. PermissionsEntityMap p = entityType) (organization_permissions @ project_permissions))
                       else (200, ps)))"


section \<open>Middlewares of the forwarding routes\<close>

text \<open>Requests without a valid organization and project are left to the handler.\<close>

definition CheckProjectActive_request :: "iam_env \<Rightarrow> quota_db \<Rightarrow> api_request \<Rightarrow> verdict" where
  "CheckProjectActive_request E db r =
     (case (uuid_Parse (ie_uuids E) (rq_orgaId r), uuid_Parse (ie_uuids E) (rq_projectId r)) of
        (Some orga, Some p) \<Rightarrow>
          if ie_fails E (DbFind ''project_deactivations'') then Refuse 500
          else (case CheckProjectActive db orga p of None \<Rightarrow> Pass | Some status \<Rightarrow> Refuse (nat status))
      | _ \<Rightarrow> Pass)"

definition product_IsQuotaCreationReached :: "iam_env \<Rightarrow> uuid \<Rightarrow> iam_world \<Rightarrow> iam_error + bool" where
  "product_IsQuotaCreationReached E projectId W =
     quota_reached (GetQuotaValue E ''Project_Limit_Product'' projectId ''Project'' W)
       (count_rows E ''product'' (\<lambda>(i, row). cond projectId (pd_project row)) (iw_products W))"

definition CheckCreationQuota :: "iam_env \<Rightarrow> iam_world \<Rightarrow> api_request \<Rightarrow> verdict" where
  "CheckCreationQuota E W r =
     (case uuid_Parse (ie_uuids E) (rq_projectId r) of
        None \<Rightarrow> Refuse 400
      | Some p \<Rightarrow> (case product_IsQuotaCreationReached E p W of
                     Inl _ \<Rightarrow> Refuse 500
                   | Inr reached \<Rightarrow> if reached then Refuse 400 else Pass))"


section \<open>Checks of the handlers\<close>

definition CheckListPathParams :: "iam_env \<Rightarrow> iam_world \<Rightarrow> api_request \<Rightarrow> nat + (uuid \<times> org_row) \<times> uuid \<times> proj_row" where
  "CheckListPathParams E W r =
     (case organization_FindById E (rq_orgaId r) W of
        Inl _ \<Rightarrow> Inl 404
      | Inr (orga, row) \<Rightarrow>
          (case project_FindById E (rq_projectId r) W of
             Inl _ \<Rightarrow> Inl 404
           | Inr (p, prow) \<Rightarrow> if pj_orga prow \<noteq> orga then Inl 400 else Inr ((orga, row), p, prow)))"

definition CheckPathParams :: "iam_env \<Rightarrow> az_table \<Rightarrow> iam_world \<Rightarrow> api_request \<Rightarrow> nat + az_config \<times> (uuid \<times> org_row) \<times> uuid \<times> proj_row" where
  "CheckPathParams E azs W r =
     (case CheckListPathParams E W r of
        Inl status \<Rightarrow> Inl status
      | Inr (org, proj) \<Rightarrow> (case az_GetByCode azs (rq_az r) (fst org) of None \<Rightarrow> Inl 404 | Some az \<Rightarrow> Inr (az, org, proj)))"

definition FindByEId :: "iam_env \<Rightarrow> string \<Rightarrow> iam_world \<Rightarrow> iam_error + uuid \<times> product_row" where
  "FindByEId E eid W = find_first E ''product'' (\<lambda>(i, row). eid = [] \<or> pd_eid row = eid) (iw_products W)"

text \<open>\<open>None\<close> lets the request go on.\<close>

definition CheckProductBelongsToProject :: "iam_env \<Rightarrow> iam_world \<Rightarrow> api_request \<Rightarrow> uuid \<Rightarrow> nat option" where
  "CheckProductBelongsToProject E W r projectUuid =
     (case FindByEId E (rq_effectiveId r) W of
        Inl err \<Rightarrow> if err = RecordNotFound then None else Some 500
      | Inr (_, row) \<Rightarrow> if pd_project row \<noteq> projectUuid then Some 404 else None)"

text \<open>
  \<^verbatim>\<open>SimpleRedirect\<close>: \<open>Inr\<close> the zone the request is forwarded to. The parser of URLs is the argument \<open>url_ok\<close>, whether a
  URL parses with a scheme and a host.
\<close>

definition SimpleRedirect :: "(string \<Rightarrow> bool) \<Rightarrow> az_table \<Rightarrow> api_request \<Rightarrow> nat + az_config" where
  "SimpleRedirect url_ok azs r =
     (case az_GetByCode azs (rq_az r) (rq_orgaId r) of
        None \<Rightarrow> Inl 404
      | Some az \<Rightarrow> if ControllerUrl az = [] \<or> \<not> url_ok (ControllerUrl az) then Inl 404 else Inr az)"

end
