(* ===== verification/Iam_Lemmas.thy ===== *)
theory Iam_Lemmas
  imports Iam_Access
begin

text \<open>
  What the calls of the access services do when the database and Permify answer.
\<close>

section \<open>Calm environments\<close>

text \<open>The identifiers a world uses.\<close>

definition used_ids :: "iam_world \<Rightarrow> string set" where
  "used_ids W =
     fset (fmdom (iw_tenants W)) \<union> fset (fmdom (iw_orgs W)) \<union> fset (fmdom (iw_projects W)) \<union> fset (fmdom (iw_groups W)) \<union>
     fset (fmdom (iw_users W)) \<union> (\<Union>(u, or, g)\<in>iw_members W. {u, or, g}) \<union>
     (\<Union>t\<in>fset (fmran (iw_tenants W)). t_eid ` tn_tuples t \<union> t_sid ` tn_tuples t) \<union>
     (\<Union>row\<in>fset (fmran (iw_groups W)). set (gr_projectIds row))"

definition canonical :: "iam_env \<Rightarrow> string \<Rightarrow> bool" where
  "canonical E u \<longleftrightarrow> uuid_Parse (ie_uuids E) u = Some u \<and> u \<noteq> uuidNil"

text \<open>
  The database and Permify answer, a parsed identifier is canonical, and the database generates identifiers that occur
  nowhere.
\<close>

definition calm :: "iam_env \<Rightarrow> bool" where
  "calm E \<longleftrightarrow> ie_connected E \<and> (\<forall>c. \<not> ie_fails E c) \<and>
     (\<forall>s u. uuid_Parse (ie_uuids E) s = Some u \<longrightarrow> uuid_Parse (ie_uuids E) u = Some u) \<and>
     (\<forall>W. finite (used_ids W) \<longrightarrow> ie_newId E W \<notin> used_ids W \<and> canonical E (ie_newId E W))"

lemma calm_simps:
  "calm E \<Longrightarrow> ie_connected E" "calm E \<Longrightarrow> \<not> ie_fails E c"
  by (simp_all add: calm_def)

lemma calm_newId: "calm E \<Longrightarrow> finite (used_ids W) \<Longrightarrow> ie_newId E W \<notin> used_ids W \<and> canonical E (ie_newId E W)"
  by (simp add: calm_def)

lemma parse_canonical [simp]: "canonical E u \<Longrightarrow> parse_id E u = u"
  by (simp add: canonical_def parse_id_def)

lemma canonical_not_nil: "canonical E u \<Longrightarrow> u \<noteq> uuidNil"
  by (simp add: canonical_def)

lemma parse_id_nil_or_canonical: "calm E \<Longrightarrow> parse_id E s = uuidNil \<or> canonical E (parse_id E s)"
  by (auto simp: parse_id_def canonical_def calm_def split: option.splits)

lemma cond_iff [simp]: "canonical E u \<Longrightarrow> cond u v \<longleftrightarrow> v = u"
  by (auto simp: cond_def canonical_def)


section \<open>Permify\<close>

lemma tuple_search:
  "(\<exists>x\<in>T. t_etype x = a \<and> t_eid x = b \<and> t_rel x = c \<and> t_stype x = d \<and> t_srel x = f \<and> P (t_sid x)) \<longleftrightarrow>
   (\<exists>g. \<lparr>t_etype = a, t_eid = b, t_rel = c, t_stype = d, t_sid = g, t_srel = f\<rparr> \<in> T \<and> P g)" for T :: "tuple set"
proof
  assume "\<exists>x\<in>T. t_etype x = a \<and> t_eid x = b \<and> t_rel x = c \<and> t_stype x = d \<and> t_srel x = f \<and> P (t_sid x)"
  then obtain x where x: "x \<in> T" "t_etype x = a" "t_eid x = b" "t_rel x = c" "t_stype x = d" "t_srel x = f" "P (t_sid x)" by blast
  then have "x = \<lparr>t_etype = a, t_eid = b, t_rel = c, t_stype = d, t_sid = t_sid x, t_srel = f\<rparr>" by simp
  with x show "\<exists>g. \<lparr>t_etype = a, t_eid = b, t_rel = c, t_stype = d, t_sid = g, t_srel = f\<rparr> \<in> T \<and> P g" by metis
next
  assume "\<exists>g. \<lparr>t_etype = a, t_eid = b, t_rel = c, t_stype = d, t_sid = g, t_srel = f\<rparr> \<in> T \<and> P g"
  then obtain g where "\<lparr>t_etype = a, t_eid = b, t_rel = c, t_stype = d, t_sid = g, t_srel = f\<rparr> \<in> T" "P g" by blast
  then show "\<exists>x\<in>T. t_etype x = a \<and> t_eid x = b \<and> t_rel x = c \<and> t_stype x = d \<and> t_srel x = f \<and> P (t_sid x)" by (intro bexI) simp_all
qed

lemma has_rel_iff:
  "has_rel T etype eid rel user \<longleftrightarrow>
     (\<exists>g. \<lparr>t_etype = etype, t_eid = eid, t_rel = rel, t_stype = ''group'', t_sid = g, t_srel = ''assignee''\<rparr> \<in> T \<and>
          \<lparr>t_etype = ''group'', t_eid = g, t_rel = ''assignee'', t_stype = ''user'', t_sid = user, t_srel = []\<rparr> \<in> T) \<or>
     \<lparr>t_etype = etype, t_eid = eid, t_rel = rel, t_stype = ''user'', t_sid = user, t_srel = []\<rparr> \<in> T"
  unfolding has_rel_def
    tuple_search [of T etype eid rel "''group''" "''assignee''"
      "\<lambda>g. \<lparr>t_etype = ''group'', t_eid = g, t_rel = ''assignee'', t_stype = ''user'', t_sid = user, t_srel = []\<rparr> \<in> T"]
  by (rule refl)

lemma parents_of_iff:
  "p \<in> parents_of T etype eid \<longleftrightarrow> \<lparr>t_etype = etype, t_eid = eid, t_rel = ''parent'', t_stype = ''organization'', t_sid = p, t_srel = []\<rparr> \<in> T"
  using tuple_search [of T etype eid "''parent''" "''organization''" "[]" "\<lambda>g. g = p"]
  by (auto simp: parents_of_def)

definition tuples_of :: "iam_world \<Rightarrow> string \<Rightarrow> tuple set" where
  "tuples_of W A = (case fmlookup (iw_tenants W) A of None \<Rightarrow> {} | Some t \<Rightarrow> tn_tuples t)"

definition map_tuples :: "string \<Rightarrow> (tuple set \<Rightarrow> tuple set) \<Rightarrow> iam_world \<Rightarrow> iam_world" where
  "map_tuples A f W =
     (case fmlookup (iw_tenants W) A of
        None \<Rightarrow> W
      | Some t \<Rightarrow> W\<lparr>iw_tenants := fmupd A (t\<lparr>tn_tuples := f (tn_tuples t)\<rparr>) (iw_tenants W)\<rparr>)"

definition has_tenant :: "iam_world \<Rightarrow> string \<Rightarrow> bool" where
  "has_tenant W A \<longleftrightarrow> fmlookup (iw_tenants W) A \<noteq> None"

lemma map_tuples_tables [simp]:
  "iw_orgs (map_tuples A f W) = iw_orgs W" "iw_projects (map_tuples A f W) = iw_projects W"
  "iw_groups (map_tuples A f W) = iw_groups W" "iw_users (map_tuples A f W) = iw_users W"
  "iw_members (map_tuples A f W) = iw_members W" "iw_products (map_tuples A f W) = iw_products W"
  "iw_quotas (map_tuples A f W) = iw_quotas W" "iw_overrides (map_tuples A f W) = iw_overrides W"
  by (auto simp: map_tuples_def split: option.splits)

lemma map_tuples_tenant [simp]: "has_tenant (map_tuples A f W) B \<longleftrightarrow> has_tenant W B"
  by (auto simp: map_tuples_def has_tenant_def split: option.splits)

lemma tuples_of_map [simp]:
  "has_tenant W A \<Longrightarrow> tuples_of (map_tuples A f W) B = (if B = A then f (tuples_of W A) else tuples_of W B)"
  by (auto simp: map_tuples_def tuples_of_def has_tenant_def split: option.splits)

lemma map_tuples_lookup:
  "fmlookup (iw_tenants (map_tuples A f W)) B =
     (if B = A then map_option (tn_tuples_update f) (fmlookup (iw_tenants W) A) else fmlookup (iw_tenants W) B)"
  by (auto simp: map_tuples_def split: option.splits)

lemma map_tuples_comp: "map_tuples A g (map_tuples A f W) = map_tuples A (\<lambda>T. g (f T)) W"
  by (cases "fmlookup (iw_tenants W) A") (auto simp: map_tuples_def fmupd_idem)

lemma fmupd_same: "fmlookup m k = Some v \<Longrightarrow> fmupd k v m = m"
  by (rule fmap_ext) auto

lemma map_tuples_id [simp]: "map_tuples A (\<lambda>T. T) W = W"
  by (auto simp: map_tuples_def fmupd_same split: option.splits)

lemma pm_call_calm:
  "calm E \<Longrightarrow> pm_call E c A (\<lambda>t. Some (t\<lparr>tn_tuples := f (tn_tuples t)\<rparr>)) W =
     (if has_tenant W A then (map_tuples A f W, None) else (W, Some CallFailed))"
  by (auto simp: pm_call_def map_tuples_def has_tenant_def calm_simps split: option.splits)

lemma concat_chunks [simp]: "concat (chunks n xs) = xs"
  by (induction n xs rule: chunks.induct) auto

lemma chunks_Nil_iff [simp]: "chunks n xs = [] \<longleftrightarrow> xs = []"
  by (cases xs) auto

lemma write_batches_calm:
  assumes "calm E" "has_tenant W A"
  shows "write_batches E A bs e W = (map_tuples A (\<lambda>T. T \<union> set (concat bs)) W, if bs = [] then e else None)"
  using assms(2)
proof (induction bs arbitrary: W e)
  case Nil
  then show ?case by simp
next
  case (Cons b bs)
  from Cons.prems show ?case
    by (simp add: pm_call_calm [OF assms(1), of _ A "\<lambda>T. T \<union> set b"] Cons.IH map_tuples_comp Un_assoc)
qed

lemma data_Write_calm:
  assumes "calm E" "has_tenant W A"
  shows "data_Write E A xs W = (if xs = [] then (W, Some NoTuples) else (map_tuples A (\<lambda>T. T \<union> set xs) W, None))"
  using assms by (simp add: data_Write_def calm_simps write_batches_calm)

lemma write_batches_no_tenant:
  "calm E \<Longrightarrow> \<not> has_tenant W A \<Longrightarrow> write_batches E A bs e W = (W, if bs = [] then e else Some CallFailed)"
  by (induction bs arbitrary: e) (auto simp: pm_call_def has_tenant_def calm_simps)

lemma data_Write_no_tenant: "calm E \<Longrightarrow> \<not> has_tenant W A \<Longrightarrow> fst (data_Write E A xs W) = W \<and> snd (data_Write E A xs W) \<noteq> None"
  by (simp add: data_Write_def write_batches_no_tenant calm_simps)

lemma data_Delete_calm:
  "calm E \<Longrightarrow> data_Delete E A f W =
     (if has_tenant W A then (map_tuples A (\<lambda>T. {x \<in> T. \<not> matches f x}) W, None) else (W, Some CallFailed))"
  unfolding data_Delete_def by (rule pm_call_calm)

text \<open>The tuples of a group, and of a user, that an update removes first.\<close>

definition of_group :: "string \<Rightarrow> tuple \<Rightarrow> bool" where
  "of_group g x \<longleftrightarrow> t_stype x = entity_Group \<and> t_sid x = g \<and> t_srel x = ''assignee''"

definition of_user :: "string \<Rightarrow> tuple \<Rightarrow> bool" where
  "of_user u x \<longleftrightarrow> t_stype x = entity_User \<and> t_sid x = u"

lemma UpdateRelationGroupPermissions_calm:
  assumes "calm E"
  shows "UpdateRelationGroupPermissions E A g W =
    (if \<not> has_tenant W A then (W, Some CallFailed)
     else if group_tuples g = [] then (map_tuples A (\<lambda>T. {x \<in> T. \<not> of_group (pw_Id g) x}) W, Some NoTuples)
     else (map_tuples A (\<lambda>T. {x \<in> T. \<not> of_group (pw_Id g) x} \<union> set (group_tuples g)) W, None))"
proof -
  have m: "matches \<lparr>f_etype = [], f_eids = [], f_stype = entity_Group, f_sids = [pw_Id g], f_srel = ''assignee''\<rparr> x = of_group (pw_Id g) x" for x
    by (simp add: matches_def of_group_def entity_Group_def)
  show ?thesis
    unfolding UpdateRelationGroupPermissions_def data_Delete_calm [OF assms] m
    by (auto simp: thenI_def data_Write_calm [OF assms] map_tuples_comp)
qed

lemma DeleteRelationUser_calm:
  assumes "calm E"
  shows "DeleteRelationUser E A u W =
    (if has_tenant W A then (map_tuples A (\<lambda>T. {x \<in> T. \<not> of_user u x}) W, None) else (W, Some CallFailed))"
proof -
  have m: "matches \<lparr>f_etype = [], f_eids = [], f_stype = entity_User, f_sids = [u], f_srel = []\<rparr> x = of_user u x" for x
    by (simp add: matches_def of_user_def entity_User_def)
  show ?thesis unfolding DeleteRelationUser_def data_Delete_calm [OF assms] m ..
qed

lemma assign_loop_calm:
  assumes "calm E" "has_tenant W A"
  shows "loopI (\<lambda>g. data_Write E A [assignee_tuple g u]) gs W =
    (if gs = [] then W else map_tuples A (\<lambda>T. T \<union> (\<lambda>g. assignee_tuple g u) ` set gs) W, None)"
  using assms(2)
proof (induction gs arbitrary: W)
  case (Cons g gs)
  then show ?case by (auto simp: thenI_def data_Write_calm [OF assms(1)] map_tuples_comp intro!: arg_cong [where f = "\<lambda>f. map_tuples A f W"])
qed simp

lemma CreateOrUpdateRelationUserGroup_calm:
  assumes "calm E"
  shows "CreateOrUpdateRelationUserGroup E A u gs W =
    (if has_tenant W A then (map_tuples A (\<lambda>T. {x \<in> T. \<not> of_user u x} \<union> (\<lambda>g. assignee_tuple g u) ` set gs) W, None)
     else (W, Some CallFailed))"
  by (auto simp: CreateOrUpdateRelationUserGroup_def DeleteRelationUser_calm [OF assms] thenI_def assign_loop_calm [OF assms] map_tuples_comp)

lemma set_group_tuples:
  "set (group_tuples g) =
     {GetGroupTuple ps (pw_OrgaId g) (pw_Id g) | ps. ps \<in> set (pw_PermissionSets g) \<and> PermissionSetsEntityMap ps = entity_Organization} \<union>
     {GetGroupTuple ps p (pw_Id g) | ps p. ps \<in> set (pw_PermissionSets g) \<and> PermissionSetsEntityMap ps = entity_Project \<and> p \<in> set (pw_ProjectIds g)}"
  by (auto simp: group_tuples_def entity_Organization_def entity_Project_def split: if_splits)

lemma DeleteRelationProject_calm:
  assumes "calm E"
  shows "DeleteRelationProject E A p W =
    (if has_tenant W A then (map_tuples A (\<lambda>T. {x \<in> T. \<not> (t_etype x = entity_Project \<and> t_eid x = p)}) W, None) else (W, Some CallFailed))"
proof -
  have m: "matches \<lparr>f_etype = entity_Project, f_eids = [p], f_stype = [], f_sids = [], f_srel = []\<rparr> x = (t_etype x = entity_Project \<and> t_eid x = p)" for x
    by (simp add: matches_def entity_Project_def)
  show ?thesis unfolding DeleteRelationProject_def data_Delete_calm [OF assms] m ..
qed

end
