(* ===== verification/Iam_Invariant.thy ===== *)
theory Iam_Invariant
  imports Iam_Lemmas
begin

text \<open>
  The state of Permify against the tables of the database: what every organization's tenant has to hold, and that the
  calls of the services keep it.
\<close>

section \<open>Rows in force\<close>

definition live_org :: "iam_world \<Rightarrow> uuid \<Rightarrow> bool" where
  "live_org W A \<longleftrightarrow> (\<exists>row. fmlookup (iw_orgs W) A = Some row \<and> \<not> or_deleted row)"

definition live_project :: "iam_world \<Rightarrow> uuid \<Rightarrow> uuid \<Rightarrow> bool" where
  "live_project W A p \<longleftrightarrow> (\<exists>row. fmlookup (iw_projects W) p = Some row \<and> \<not> pj_deleted row \<and> pj_orga row = A)"

definition live_group :: "iam_world \<Rightarrow> uuid \<Rightarrow> uuid \<Rightarrow> group_row \<Rightarrow> bool" where
  "live_group W A g row \<longleftrightarrow> fmlookup (iw_groups W) g = Some row \<and> \<not> gr_deleted row \<and> gr_orga row = A"

definition owner_group :: "iam_world \<Rightarrow> uuid \<Rightarrow> uuid \<Rightarrow> bool" where
  "owner_group W A g \<longleftrightarrow> (\<exists>row. live_group W A g row \<and> gr_key row = Some PredefinedGroupOwner)"

definition owner_of :: "iam_world \<Rightarrow> uuid \<Rightarrow> uuid \<Rightarrow> bool" where
  "owner_of W A u \<longleftrightarrow> (\<exists>row. fmlookup (iw_orgs W) A = Some row \<and> \<not> or_deleted row \<and> or_owner row = u)"

definition belongs :: "iam_world \<Rightarrow> uuid \<Rightarrow> uuid \<Rightarrow> uuid \<Rightarrow> bool" where
  "belongs W A u g \<longleftrightarrow> (u, A, g) \<in> iw_members W \<or> owner_of W A u \<and> owner_group W A g"

definition covers :: "group_row \<Rightarrow> uuid \<Rightarrow> bool" where
  "covers row p \<longleftrightarrow> gr_allProjects row \<or> p \<in> set (gr_projectIds row)"

definition org_tuple :: "uuid \<Rightarrow> string \<Rightarrow> uuid \<Rightarrow> tuple" where
  "org_tuple A ps g = \<lparr>t_etype = entity_Organization, t_eid = A, t_rel = ps, t_stype = entity_Group, t_sid = g, t_srel = ''assignee''\<rparr>"

definition proj_tuple :: "uuid \<Rightarrow> string \<Rightarrow> uuid \<Rightarrow> tuple" where
  "proj_tuple p ps g = \<lparr>t_etype = entity_Project, t_eid = p, t_rel = ps, t_stype = entity_Group, t_sid = g, t_srel = ''assignee''\<rparr>"

lemmas entity_defs = entity_Organization_def entity_Project_def entity_Group_def entity_User_def
lemmas tuple_defs = org_tuple_def proj_tuple_def parent_tuple_def assignee_tuple_def

lemma set_kinds [simp]:
  "PermissionSetsEntityMap ps = entity_Organization \<longleftrightarrow> ps \<in> set organization_sets"
  "PermissionSetsEntityMap ps = entity_Project \<longleftrightarrow> ps \<in> set project_sets"
proof -
  have "list_all (\<lambda>ps. ps \<notin> set organization_sets) project_sets" by code_simp
  then show "PermissionSetsEntityMap ps = entity_Organization \<longleftrightarrow> ps \<in> set organization_sets"
    "PermissionSetsEntityMap ps = entity_Project \<longleftrightarrow> ps \<in> set project_sets"
    by (auto simp: PermissionSetsEntityMap_def entity_defs list_all_iff)
qed

lemma GetGroupTuple_simps:
  "ps \<in> set organization_sets \<Longrightarrow> GetGroupTuple ps e g = org_tuple e ps g"
  "ps \<in> set project_sets \<Longrightarrow> GetGroupTuple ps e g = proj_tuple e ps g"
  using set_kinds [of ps] by (simp_all add: GetGroupTuple_def org_tuple_def proj_tuple_def)

lemma tuple_kinds [simp]:
  "of_group h (org_tuple A ps g) \<longleftrightarrow> g = h" "of_group h (proj_tuple p ps g) \<longleftrightarrow> g = h"
  "\<not> of_group h (parent_tuple p A)" "\<not> of_group h (assignee_tuple g u)"
  "\<not> of_user v (org_tuple A ps g)" "\<not> of_user v (proj_tuple p ps g)"
  "\<not> of_user v (parent_tuple p A)" "of_user v (assignee_tuple g u) \<longleftrightarrow> u = v"
  by (auto simp: of_group_def of_user_def tuple_defs entity_defs)

lemma tuple_eq [simp]:
  "org_tuple A ps g = org_tuple A' ps' g' \<longleftrightarrow> A = A' \<and> ps = ps' \<and> g = g'"
  "proj_tuple p ps g = proj_tuple p' ps' g' \<longleftrightarrow> p = p' \<and> ps = ps' \<and> g = g'"
  "parent_tuple p A = parent_tuple p' A' \<longleftrightarrow> p = p' \<and> A = A'"
  "assignee_tuple g u = assignee_tuple g' u' \<longleftrightarrow> g = g' \<and> u = u'"
  "org_tuple A ps g \<noteq> proj_tuple p' ps' g'" "org_tuple A ps g \<noteq> parent_tuple p B" "org_tuple A ps g \<noteq> assignee_tuple h u"
  "proj_tuple p ps g \<noteq> org_tuple A ps' g'" "proj_tuple p ps g \<noteq> parent_tuple p' B" "proj_tuple p ps g \<noteq> assignee_tuple h u"
  "parent_tuple p A \<noteq> org_tuple B ps g" "parent_tuple p A \<noteq> proj_tuple p' ps g" "parent_tuple p A \<noteq> assignee_tuple h u"
  "assignee_tuple h u \<noteq> org_tuple B ps g" "assignee_tuple h u \<noteq> proj_tuple p' ps g" "assignee_tuple h u \<noteq> parent_tuple p A"
  by (auto simp: tuple_defs entity_defs)

lemma tuple_stype [simp]:
  "t_stype (org_tuple A ps g) = entity_Group" "t_stype (proj_tuple p ps g) = entity_Group"
  "t_stype (parent_tuple p A) = entity_Organization" "t_stype (assignee_tuple g u) = entity_User"
  "t_etype (org_tuple A ps g) = entity_Organization" "t_etype (proj_tuple p ps g) = entity_Project"
  "t_etype (parent_tuple p A) = entity_Project" "t_etype (assignee_tuple g u) = entity_Group"
  "t_eid (org_tuple A ps g) = A" "t_eid (proj_tuple p ps g) = p" "t_eid (parent_tuple p A) = p" "t_eid (assignee_tuple g u) = g"
  "t_sid (org_tuple A ps g) = g" "t_sid (proj_tuple p ps g) = g" "t_sid (parent_tuple p A) = A" "t_sid (assignee_tuple g u) = u"
  by (simp_all add: tuple_defs)


section \<open>Invariants\<close>

text \<open>The tuples the wrapper writes into the tenant of an organization.\<close>

definition shaped :: "uuid \<Rightarrow> tuple \<Rightarrow> bool" where
  "shaped A x \<longleftrightarrow> (\<exists>ps g. ps \<in> set organization_sets \<and> x = org_tuple A ps g) \<or> (\<exists>p ps g. ps \<in> set project_sets \<and> x = proj_tuple p ps g) \<or>
     (\<exists>p. x = parent_tuple p A) \<or> (\<exists>g u. x = assignee_tuple g u)"

lemma shaped_simps [simp]:
  "shaped A (org_tuple B ps g) \<longleftrightarrow> ps \<in> set organization_sets \<and> B = A" "shaped A (proj_tuple p ps g) \<longleftrightarrow> ps \<in> set project_sets"
  "shaped A (parent_tuple p B) \<longleftrightarrow> B = A" "shaped A (assignee_tuple g u)"
  by (auto simp: shaped_def)

definition rights_at :: "iam_world \<Rightarrow> uuid \<Rightarrow> bool" where
  "rights_at W A \<longleftrightarrow>
     (\<forall>g row ps. live_group W A g row \<longrightarrow>
        (org_tuple A ps g \<in> tuples_of W A \<longleftrightarrow> ps \<in> set (gr_sets row) \<and> ps \<in> set organization_sets)) \<and>
     (\<forall>g row p ps. live_group W A g row \<longrightarrow> live_project W A p \<longrightarrow>
        (proj_tuple p ps g \<in> tuples_of W A \<longleftrightarrow> ps \<in> set (gr_sets row) \<and> ps \<in> set project_sets \<and> covers row p)) \<and>
     (\<forall>p B. live_project W A p \<longrightarrow> (parent_tuple p B \<in> tuples_of W A \<longleftrightarrow> B = A)) \<and>
     (\<forall>x\<in>tuples_of W A. shaped A x)"

definition members_at :: "iam_world \<Rightarrow> uuid \<Rightarrow> bool" where
  "members_at W A \<longleftrightarrow>
     (\<forall>g u. assignee_tuple g u \<in> tuples_of W A \<longleftrightarrow> belongs W A u g) \<and>
     (\<forall>u g. (u, A, g) \<in> iw_members W \<longrightarrow> \<not> owner_of W A u \<and> (\<exists>row. live_group W A g row \<and> gr_key row \<noteq> Some PredefinedGroupOwner))"

definition owners_at :: "iam_world \<Rightarrow> uuid \<Rightarrow> bool" where
  "owners_at W A \<longleftrightarrow>
     (\<exists>g. owner_group W A g) \<and> (\<forall>g h. owner_group W A g \<longrightarrow> owner_group W A h \<longrightarrow> g = h) \<and>
     (\<forall>g row. live_group W A g row \<longrightarrow> gr_key row = Some PredefinedGroupOwner \<longrightarrow> SpxOwner \<in> set (gr_sets row))"

definition tenants_ok :: "iam_world \<Rightarrow> bool" where
  "tenants_ok W \<longleftrightarrow> (\<forall>A. has_tenant W A \<longleftrightarrow> live_org W A) \<and>
     (\<forall>A t. fmlookup (iw_tenants W) A = Some t \<longrightarrow> tn_schema t = Some DefaultSchema \<and> tn_bundle t)"

definition ids_ok :: "iam_env \<Rightarrow> iam_world \<Rightarrow> bool" where
  "ids_ok E W \<longleftrightarrow> finite (iw_members W) \<and> (\<forall>A. finite (tuples_of W A)) \<and>
     (\<forall>k \<in> fset (fmdom (iw_orgs W)) \<union> fset (fmdom (iw_projects W)) \<union> fset (fmdom (iw_groups W)) \<union> fset (fmdom (iw_users W)). canonical E k) \<and>
     (\<forall>p row. fmlookup (iw_projects W) p = Some row \<longrightarrow> pj_orga row \<in> fset (fmdom (iw_orgs W))) \<and>
     (\<forall>g row. fmlookup (iw_groups W) g = Some row \<longrightarrow> gr_orga row \<in> fset (fmdom (iw_orgs W))) \<and>
     (\<forall>u A g. (u, A, g) \<in> iw_members W \<longrightarrow> A \<in> fset (fmdom (iw_orgs W)))"

definition iam_inv :: "iam_env \<Rightarrow> iam_world \<Rightarrow> bool" where
  "iam_inv E W \<longleftrightarrow> ids_ok E W \<and> tenants_ok W \<and> (\<forall>A. live_org W A \<longrightarrow> rights_at W A \<and> members_at W A \<and> owners_at W A)"


lemma finite_used_ids: "ids_ok E W \<Longrightarrow> finite (used_ids W)"
proof -
  assume ok: "ids_ok E W"
  have "finite (tn_tuples t)" if "t \<in> fset (fmran (iw_tenants W))" for t
  proof -
    from that obtain A where "fmlookup (iw_tenants W) A = Some t" by (auto simp: fmlookup_ran_iff)
    then show ?thesis using ok by (auto simp: ids_ok_def tuples_of_def dest: spec [of _ A])
  qed
  then show ?thesis using ok by (auto simp: used_ids_def ids_ok_def)
qed

lemma fresh_id:
  assumes "calm E" "ids_ok E W"
  shows "ie_newId E W \<notin> used_ids W" "canonical E (ie_newId E W)"
  using calm_newId [OF assms(1) finite_used_ids [OF assms(2)]] by auto

lemma iam_invD:
  assumes "iam_inv E W"
  shows "ids_ok E W" "tenants_ok W" "\<And>A. has_tenant W A \<Longrightarrow> rights_at W A" "\<And>A. has_tenant W A \<Longrightarrow> members_at W A"
    "\<And>A. has_tenant W A \<Longrightarrow> owners_at W A"
  using assms by (auto simp: iam_inv_def tenants_ok_def)

lemma iam_invI:
  assumes "ids_ok E W" "tenants_ok W" "\<And>A. has_tenant W A \<Longrightarrow> rights_at W A" "\<And>A. has_tenant W A \<Longrightarrow> members_at W A"
    "\<And>A. has_tenant W A \<Longrightarrow> owners_at W A"
  shows "iam_inv E W"
  using assms by (auto simp: iam_inv_def tenants_ok_def)

lemma has_tenant_canonical: "ids_ok E W \<Longrightarrow> tenants_ok W \<Longrightarrow> has_tenant W A \<Longrightarrow> canonical E A"
  by (auto simp: ids_ok_def tenants_ok_def live_org_def fmdomI)


section \<open>Saving a group\<close>

text \<open>The tuples a saved group gets.\<close>

definition group_grants :: "iam_world \<Rightarrow> uuid \<Rightarrow> group_row \<Rightarrow> tuple set" where
  "group_grants W g row =
     {org_tuple (gr_orga row) ps g | ps. ps \<in> set (gr_sets row) \<inter> set organization_sets} \<union>
     {proj_tuple p ps g | ps p. ps \<in> set (gr_sets row) \<inter> set project_sets \<and>
        (if gr_allProjects row then live_project W (gr_orga row) p else p \<in> set (gr_projectIds row))}"

definition saved :: "uuid \<Rightarrow> group_row \<Rightarrow> iam_world \<Rightarrow> iam_world" where
  "saved g row W = map_tuples (gr_orga row) (\<lambda>T. {x \<in> T. \<not> of_group g x} \<union> group_grants W g row) (W\<lparr>iw_groups := fmupd g row (iw_groups W)\<rparr>)"

lemma find_all_calm: "calm E \<Longrightarrow> find_all E tab P m = Inr (filter P (gentries m))"
  by (simp add: find_all_def calm_simps)

lemma live_projects_set:
  "canonical E A \<Longrightarrow> p \<in> set (map fst (filter (\<lambda>(p, row). \<not> pj_deleted row \<and> cond A (pj_orga row)) (gentries (iw_projects W)))) \<longleftrightarrow> live_project W A p"
  by (auto simp: live_project_def set_gentries image_iff)

lemma set_group_tuples_kinds:
  "set (group_tuples g) =
     {org_tuple (pw_OrgaId g) ps (pw_Id g) | ps. ps \<in> set (pw_PermissionSets g) \<inter> set organization_sets} \<union>
     {proj_tuple p ps (pw_Id g) | ps p. ps \<in> set (pw_PermissionSets g) \<inter> set project_sets \<and> p \<in> set (pw_ProjectIds g)}"
proof -
  have "{GetGroupTuple ps (pw_OrgaId g) (pw_Id g) | ps. ps \<in> set (pw_PermissionSets g) \<and> ps \<in> set organization_sets} =
     {org_tuple (pw_OrgaId g) ps (pw_Id g) | ps. ps \<in> set (pw_PermissionSets g) \<inter> set organization_sets}"
    by (rule Collect_cong) (metis GetGroupTuple_simps(1) IntE IntI)
  moreover have "{GetGroupTuple ps p (pw_Id g) | ps p. ps \<in> set (pw_PermissionSets g) \<and> ps \<in> set project_sets \<and> p \<in> set (pw_ProjectIds g)} =
     {proj_tuple p ps (pw_Id g) | ps p. ps \<in> set (pw_PermissionSets g) \<inter> set project_sets \<and> p \<in> set (pw_ProjectIds g)}"
    by (rule Collect_cong) (metis GetGroupTuple_simps(2) IntE IntI)
  ultimately show ?thesis unfolding set_group_tuples set_kinds by simp
qed

definition saved_id :: "iam_env \<Rightarrow> uuid \<Rightarrow> iam_world \<Rightarrow> uuid" where
  "saved_id E i W = (if i = uuidNil then ie_newId E W else i)"

lemma SaveGroup_calm:
  fixes E i W
  assumes "calm E" "canonical E (gr_orga row)" "gid = saved_id E i W"
  shows "SaveGroup E i row W =
    (if \<not> has_tenant W (gr_orga row) then (W\<lparr>iw_groups := fmupd gid row (iw_groups W)\<rparr>, Inl CallFailed)
     else if group_grants W gid row = {} then (map_tuples (gr_orga row) (\<lambda>T. {x \<in> T. \<not> of_group gid x}) (W\<lparr>iw_groups := fmupd gid row (iw_groups W)\<rparr>), Inl NoTuples)
     else (saved gid row W, Inr gid))"
proof -
  let ?W1 = "W\<lparr>iw_groups := fmupd gid row (iw_groups W)\<rparr>"
  let ?ps = "if gr_allProjects row
     then map fst (filter (\<lambda>(p, row'). \<not> pj_deleted row' \<and> cond (gr_orga row) (pj_orga row')) (gentries (iw_projects W)))
     else gr_projectIds row"
  let ?G = "\<lparr>pw_Id = gid, pw_OrgaId = gr_orga row, pw_ProjectIds = ?ps, pw_PermissionSets = gr_sets row\<rparr>"
  have ps: "p \<in> set ?ps \<longleftrightarrow> (if gr_allProjects row then live_project W (gr_orga row) p else p \<in> set (gr_projectIds row))" for p
    using live_projects_set [OF assms(2)] by simp
  have tuples: "set (group_tuples ?G) = group_grants W gid row"
    unfolding set_group_tuples_kinds group_grants_def pw_group.simps ps ..
  have empty: "group_tuples ?G = [] \<longleftrightarrow> group_grants W gid row = {}" using tuples by force
  have save: "group_Save E i row W = (?W1, Inr gid)"
    using assms(1) by (simp add: group_Save_def calm_simps assms(3) saved_id_def Let_def)
  have list: "project_FindAllByOrgaId E (gr_orga row) ?W1 =
      Inr (filter (\<lambda>(p, row'). \<not> pj_deleted row' \<and> cond (gr_orga row) (pj_orga row')) (gentries (iw_projects W)))"
    using assms(1,2) by (simp add: project_FindAllByOrgaId_def find_all_calm)
  have tenant: "has_tenant ?W1 (gr_orga row) = has_tenant W (gr_orga row)" by (simp add: has_tenant_def)
  have "SaveGroup E i row W = (case UpdateRelationGroupPermissions E (gr_orga row) ?G ?W1 of
      (W2, Some err) \<Rightarrow> (W2, Inl err) | (W2, None) \<Rightarrow> (W2, Inr gid))"
    unfolding SaveGroup_def save by (simp add: list cong: if_cong)
  then show ?thesis
    unfolding UpdateRelationGroupPermissions_calm [OF assms(1)] tenant empty tuples saved_def by simp
qed

text \<open>The other groups keep their tuples, and the saved one has what its row says.\<close>

lemma saved_tables [simp]:
  "iw_orgs (saved g row W) = iw_orgs W" "iw_projects (saved g row W) = iw_projects W" "iw_users (saved g row W) = iw_users W"
  "iw_members (saved g row W) = iw_members W" "iw_groups (saved g row W) = fmupd g row (iw_groups W)"
  by (simp_all add: saved_def)

lemma has_tenant_groups [simp]: "has_tenant (W\<lparr>iw_groups := m\<rparr>) A \<longleftrightarrow> has_tenant W A"
  by (simp add: has_tenant_def)

lemma tuples_of_groups [simp]: "tuples_of (W\<lparr>iw_groups := m\<rparr>) A = tuples_of W A"
  by (simp add: tuples_of_def)

lemma saved_tenant [simp]: "has_tenant (saved g row W) A \<longleftrightarrow> has_tenant W A"
  by (simp add: saved_def)

lemma saved_tuples:
  "has_tenant W (gr_orga row) \<Longrightarrow> tuples_of (saved g row W) A =
     (if A = gr_orga row then {x \<in> tuples_of W A. \<not> of_group g x} \<union> group_grants W g row else tuples_of W A)"
  by (simp add: saved_def)

lemma saved_live [simp]:
  "live_org (saved g row W) A \<longleftrightarrow> live_org W A" "live_project (saved g row W) A p \<longleftrightarrow> live_project W A p"
  "live_group (saved g row W) A h r \<longleftrightarrow> (if h = g then r = row \<and> \<not> gr_deleted row \<and> gr_orga row = A else live_group W A h r)"
  "owner_of (saved g row W) A u \<longleftrightarrow> owner_of W A u"
  by (auto simp: live_org_def live_project_def live_group_def owner_of_def)

lemma group_grants_simps [simp]:
  "org_tuple A ps h \<in> group_grants W g row \<longleftrightarrow> h = g \<and> A = gr_orga row \<and> ps \<in> set (gr_sets row) \<and> ps \<in> set organization_sets"
  "proj_tuple p ps h \<in> group_grants W g row \<longleftrightarrow> h = g \<and> ps \<in> set (gr_sets row) \<and> ps \<in> set project_sets \<and>
     (if gr_allProjects row then live_project W (gr_orga row) p else p \<in> set (gr_projectIds row))"
  "parent_tuple p A \<notin> group_grants W g row" "assignee_tuple h u \<notin> group_grants W g row"
  by (auto simp: group_grants_def)

lemma group_grants_shaped: "x \<in> group_grants W g row \<Longrightarrow> shaped (gr_orga row) x"
  by (auto simp: group_grants_def)

text \<open>A group may be saved under a new identifier or under the one of a group of the same organization.\<close>

definition own_id :: "iam_world \<Rightarrow> uuid \<Rightarrow> group_row \<Rightarrow> bool" where
  "own_id W g row \<longleftrightarrow> (\<forall>r. fmlookup (iw_groups W) g = Some r \<longrightarrow> gr_orga r = gr_orga row)"

lemma saved_rights:
  assumes "has_tenant W (gr_orga row)" "own_id W g row" "rights_at W A"
  shows "rights_at (saved g row W) A"
proof -
  have mine: "of_group g x \<Longrightarrow> t_stype x = entity_Group" for x by (simp add: of_group_def)
  have other: "live_group W A g r \<Longrightarrow> A = gr_orga row" for r
    using assms(2) by (auto simp: own_id_def live_group_def)
  note T = saved_tuples [OF assms(1)]
  show ?thesis
    unfolding rights_at_def
  proof (intro conjI allI impI ballI)
    fix h r ps assume "live_group (saved g row W) A h r"
    then show "org_tuple A ps h \<in> tuples_of (saved g row W) A \<longleftrightarrow> ps \<in> set (gr_sets r) \<and> ps \<in> set organization_sets"
      using assms(3) unfolding rights_at_def by (auto simp: T split: if_splits)
  next
    fix h r p ps assume "live_group (saved g row W) A h r" "live_project (saved g row W) A p"
    then show "proj_tuple p ps h \<in> tuples_of (saved g row W) A \<longleftrightarrow> ps \<in> set (gr_sets r) \<and> ps \<in> set project_sets \<and> covers r p"
      using assms(3) unfolding rights_at_def by (auto simp: T covers_def split: if_splits)
  next
    fix p B assume "live_project (saved g row W) A p"
    then show "parent_tuple p B \<in> tuples_of (saved g row W) A \<longleftrightarrow> B = A"
      using assms(3) unfolding rights_at_def by (auto simp: T split: if_splits)
  next
    fix x assume "x \<in> tuples_of (saved g row W) A"
    then show "shaped A x"
      using assms(3) group_grants_shaped [of x W g row] unfolding rights_at_def by (auto simp: T split: if_splits)
  qed
qed

lemma saved_members:
  assumes "has_tenant W (gr_orga row)" "own_id W g row" "members_at W A" "\<not> gr_deleted row"
    and key: "\<And>r. live_group W A g r \<Longrightarrow> gr_key r = gr_key row"
    and new: "(\<And>r. \<not> live_group W A g r) \<Longrightarrow> A = gr_orga row \<Longrightarrow> gr_key row \<noteq> Some PredefinedGroupOwner \<or> (\<forall>u. \<not> owner_of W A u)"
  shows "members_at (saved g row W) A"
proof -
  have og: "owner_group (saved g row W) A h \<and> owner_of W A u \<longleftrightarrow> owner_group W A h \<and> owner_of W A u" for h u
  proof (cases "h = g")
    case True
    show ?thesis
    proof (cases "\<exists>r. live_group W A g r")
      case alive: True
      then obtain r where r: "live_group W A g r" ..
      then have "live_group W A g r' \<longleftrightarrow> r' = r" for r' by (auto simp: live_group_def)
      moreover have "gr_orga row = A" using r assms(2) by (auto simp: live_group_def own_id_def)
      ultimately show ?thesis using key [OF r] assms(4) True by (auto simp: owner_group_def)
    next
      case False
      then show ?thesis using new True by (auto simp: owner_group_def)
    qed
  qed (simp add: owner_group_def)
  then have "belongs (saved g row W) A u h \<longleftrightarrow> belongs W A u h" for u h by (auto simp: belongs_def)
  moreover have "assignee_tuple h u \<in> tuples_of (saved g row W) A \<longleftrightarrow> assignee_tuple h u \<in> tuples_of W A" for h u
    by (simp add: saved_tuples [OF assms(1)])
  moreover have "\<exists>r. live_group (saved g row W) A h r \<and> gr_key r \<noteq> Some PredefinedGroupOwner" if "(u, A, h) \<in> iw_members W" for u h
    using that assms(2-4) key unfolding members_at_def own_id_def by (fastforce simp: live_group_def)
  ultimately show ?thesis using assms(3) unfolding members_at_def by auto
qed

lemma tenants_ok_iff:
  "tenants_ok W \<longleftrightarrow> (\<forall>A. has_tenant W A \<longleftrightarrow> live_org W A) \<and>
     (\<forall>A. map_option (\<lambda>t. (tn_schema t, tn_bundle t)) (fmlookup (iw_tenants W) A) \<in> {None, Some (Some DefaultSchema, True)})"
proof -
  have "map_option (\<lambda>t. (tn_schema t, tn_bundle t)) o' \<in> {None, Some (Some DefaultSchema, True)} \<longleftrightarrow>
      (\<forall>t. o' = Some t \<longrightarrow> tn_schema t = Some DefaultSchema \<and> tn_bundle t)" for o' :: "tenant option"
    by (cases o') auto
  then show ?thesis unfolding tenants_ok_def by presburger
qed

lemma saved_tenants: "tenants_ok (saved g row W) \<longleftrightarrow> tenants_ok W"
proof -
  have "map_option (\<lambda>t. (tn_schema t, tn_bundle t)) (fmlookup (iw_tenants (saved g row W)) A) =
      map_option (\<lambda>t. (tn_schema t, tn_bundle t)) (fmlookup (iw_tenants W) A)" for A
    by (simp add: saved_def map_tuples_lookup option.map_comp comp_def)
  then show ?thesis unfolding tenants_ok_iff by simp
qed

lemma finite_group_grants: "finite (group_grants W g row)"
proof -
  let ?ps = "set (gr_projectIds row) \<union> fset (fmdom (iw_projects W))"
  have "group_grants W g row \<subseteq> (\<lambda>ps. org_tuple (gr_orga row) ps g) ` set (gr_sets row) \<union> (\<lambda>(ps, p). proj_tuple p ps g) ` (set (gr_sets row) \<times> ?ps)"
    by (auto simp: group_grants_def live_project_def fmdomI split: if_splits)
  then show ?thesis by (rule finite_subset) auto
qed

lemma saved_ids:
  assumes "ids_ok E W" "has_tenant W (gr_orga row)" "canonical E g" "gr_orga row \<in> fset (fmdom (iw_orgs W))"
  shows "ids_ok E (saved g row W)"
  using assms finite_group_grants unfolding ids_ok_def by (auto simp: saved_tuples)

lemma saved_owners:
  assumes "owners_at W A" "own_id W g row" "\<not> gr_deleted row"
    and key: "\<And>r. live_group W A g r \<Longrightarrow> gr_key r = gr_key row"
    and new: "(\<And>r. \<not> live_group W A g r) \<Longrightarrow> A = gr_orga row \<Longrightarrow> gr_key row \<noteq> Some PredefinedGroupOwner"
    and sets: "gr_key row = Some PredefinedGroupOwner \<Longrightarrow> SpxOwner \<in> set (gr_sets row)"
  shows "owners_at (saved g row W) A"
proof -
  have og: "owner_group (saved g row W) A h \<longleftrightarrow> owner_group W A h" for h
  proof (cases "h = g")
    case True
    show ?thesis
    proof (cases "\<exists>r. live_group W A g r")
      case alive: True
      then obtain r where r: "live_group W A g r" ..
      then have "live_group W A g r' \<longleftrightarrow> r' = r" for r' by (auto simp: live_group_def)
      moreover have "gr_orga row = A" using r assms(2) by (auto simp: live_group_def own_id_def)
      ultimately show ?thesis using key [OF r] assms(3) True by (auto simp: owner_group_def)
    next
      case False
      then show ?thesis using new True by (auto simp: owner_group_def)
    qed
  qed (simp add: owner_group_def)
  show ?thesis using assms(1) sets unfolding owners_at_def og by (auto split: if_splits)
qed

lemma saved_inv:
  assumes "iam_inv E W" "has_tenant W (gr_orga row)" "canonical E g" "own_id W g row" "\<not> gr_deleted row"
    and key: "\<And>A r. live_group W A g r \<Longrightarrow> gr_key r = gr_key row"
    and new: "(\<And>r. \<not> live_group W (gr_orga row) g r) \<Longrightarrow> gr_key row \<noteq> Some PredefinedGroupOwner"
    and sets: "gr_key row = Some PredefinedGroupOwner \<Longrightarrow> SpxOwner \<in> set (gr_sets row)"
  shows "iam_inv E (saved g row W)"
proof (rule iam_invI)
  note inv = iam_invD [OF assms(1)]
  have "gr_orga row \<in> fset (fmdom (iw_orgs W))"
    using assms(2) inv(2) by (auto simp: tenants_ok_def live_org_def fmdomI)
  then show "ids_ok E (saved g row W)" using inv(1) assms by (intro saved_ids)
  show "tenants_ok (saved g row W)" using inv(2) by (simp add: saved_tenants)
  fix A assume "has_tenant (saved g row W) A"
  then have A: "has_tenant W A" by simp
  show "rights_at (saved g row W) A" using inv(3) [OF A] assms by (intro saved_rights)
  show "members_at (saved g row W) A" using inv(4) [OF A] assms by (intro saved_members) auto
  show "owners_at (saved g row W) A" using inv(5) [OF A] assms by (intro saved_owners) auto
qed

end
