(* ===== verification/Iam_Steps.thy ===== *)
theory Iam_Steps
  imports Iam_Invariant
begin

text \<open>
  Every handler of the access services, when it answers 200 in a calm environment, keeps the tenants of Permify in step
  with the tables.
\<close>

section \<open>Groups\<close>

lemma find_first_calm:
  assumes "calm E" "find_first E tab P m = Inr (k, v)"
  shows "fmlookup m k = Some v" "P (k, v)"
proof -
  from assms have "find P (gentries m) = Some (k, v)"
    by (auto simp: find_first_def calm_simps split: option.splits)
  then show "fmlookup m k = Some v" "P (k, v)"
    by (auto simp: find_Some_iff set_gentries [symmetric] in_set_conv_nth)
qed

lemma find_first_none: "calm E \<Longrightarrow> find_first E tab P m = Inl e \<Longrightarrow> e = RecordNotFound \<and> (\<forall>k v. fmlookup m k = Some v \<longrightarrow> \<not> P (k, v))"
  by (auto simp: find_first_def calm_simps find_None_iff set_gentries split: option.splits)

lemma SaveGroup_ok:
  assumes "calm E" "ids_ok E W" "tenants_ok W" "SaveGroup E i row W = (W', Inr gid)"
  shows "has_tenant W (gr_orga row)" "gid = saved_id E i W" "W' = saved gid row W"
proof -
  let ?W1 = "W\<lparr>iw_groups := fmupd (saved_id E i W) row (iw_groups W)\<rparr>"
  have save: "group_Save E i row W = (?W1, Inr (saved_id E i W))"
    using assms(1) by (simp add: group_Save_def calm_simps saved_id_def Let_def)
  show tenant: "has_tenant W (gr_orga row)"
    using assms(4) unfolding SaveGroup_def save
    by (auto simp: UpdateRelationGroupPermissions_calm [OF assms(1)] Let_def split: prod.splits option.splits if_splits)
  note eq = SaveGroup_calm [OF assms(1) has_tenant_canonical [OF assms(2,3) tenant] refl, of i W]
  show "gid = saved_id E i W" "W' = saved gid row W"
    using assms(4) tenant unfolding eq by (auto split: if_splits)
qed

lemma fresh_group: "calm E \<Longrightarrow> ids_ok E W \<Longrightarrow> fmlookup (iw_groups W) (ie_newId E W) = None"
  using fresh_id(1) [of E W] by (auto simp: used_ids_def fmdom_notD)

lemma new_group_inv:
  assumes "calm E" "iam_inv E W" "SaveGroup E uuidNil row W = (W', Inr gid)" "\<not> gr_deleted row" "gr_key row \<noteq> Some PredefinedGroupOwner"
  shows "iam_inv E W'"
proof -
  note inv = iam_invD [OF assms(2)]
  note ok = SaveGroup_ok [OF assms(1) inv(1,2) assms(3)]
  have gid: "gid = ie_newId E W" using ok(2) by (simp add: saved_id_def)
  note fresh = fresh_id [OF assms(1) inv(1), folded gid] fresh_group [OF assms(1) inv(1), folded gid]
  show ?thesis
    unfolding ok(3)
    by (rule saved_inv [OF assms(2) ok(1) fresh(2) _ assms(4)])
       (use fresh(3) assms(5) in \<open>auto simp: own_id_def live_group_def\<close>)
qed

definition uuid_value :: "iam_env \<Rightarrow> uuid \<Rightarrow> bool" where
  "uuid_value E u \<longleftrightarrow> u = uuidNil \<or> canonical E u"

lemma old_group_inv:
  assumes "calm E" "iam_inv E W" "SaveGroup E i row W = (W', Inr gid)" "\<not> gr_deleted row" "i \<noteq> uuidNil"
    and old: "live_group W (gr_orga row) i r" "gr_key r = gr_key row"
    and sets: "gr_key row = Some PredefinedGroupOwner \<Longrightarrow> SpxOwner \<in> set (gr_sets row)"
  shows "iam_inv E W'"
proof -
  note inv = iam_invD [OF assms(2)]
  note ok = SaveGroup_ok [OF assms(1) inv(1,2) assms(3)]
  have gid: "gid = i" using ok(2) assms(5) by (simp add: saved_id_def)
  have "canonical E i" using old(1) inv(1) by (auto simp: ids_ok_def live_group_def fmdomI)
  then show ?thesis
    unfolding ok(3) gid
    by (rule saved_inv [OF assms(2) ok(1) _ _ assms(4)]) (use old sets in \<open>auto simp: own_id_def live_group_def\<close>)
qed

lemma CreateOrUpdateOrganizationGroup_inv:
  assumes "calm E" "iam_inv E W" "CreateOrUpdateOrganizationGroup E orgaId body W = (W', 200)" "uuid_value E (gb_id body)"
  shows "iam_inv E W'"
proof -
  let ?row = "\<lparr>gr_name = gb_name body, gr_orga = parse_id E orgaId, gr_allProjects = gb_allProjects body, gr_projectIds = gb_projectIds body,
    gr_sets = gb_sets body @ [SpxMember], gr_key = None, gr_deleted = False\<rparr>"
  from assms(3) obtain gid where check: "group_check E orgaId body W = None" and save: "SaveGroup E (gb_id body) ?row W = (W', Inr gid)"
    by (auto simp: CreateOrUpdateOrganizationGroup_def group_check_def split: option.splits prod.splits sum.splits if_splits)
  show ?thesis
  proof (cases "gb_id body = uuidNil")
    case True
    show ?thesis using new_group_inv [OF assms(1,2) save [unfolded True]] by simp
  next
    case False
    then have can: "canonical E (gb_id body)" using assms(4) by (simp add: uuid_value_def)
    from check False obtain g r where found: "group_FindByIdAndOrgaId E (gb_id body) orgaId W = Inr (g, r)" and key: "gr_key r = None"
      by (auto simp: group_check_def split: sum.splits if_splits)
    have ne: "parse_id E orgaId \<noteq> uuidNil"
      using SaveGroup_ok(1) [OF assms(1) iam_invD(1,2) [OF assms(2)] save] has_tenant_canonical [OF iam_invD(1,2) [OF assms(2)]]
      by (auto dest: canonical_not_nil)
    then have "live_group W (parse_id E orgaId) (gb_id body) r"
      using find_first_calm [OF assms(1) found [unfolded group_FindByIdAndOrgaId_def]] canonical_not_nil [OF can] can
      by (auto simp: live_group_def cond_def)
    then show ?thesis using old_group_inv [OF assms(1,2) save _ False, of r] key by simp
  qed
qed

lemma DuplicateOrganizationGroup_inv:
  assumes "calm E" "iam_inv E W" "DuplicateOrganizationGroup E orgaId groupId name W = (W', 200)"
  shows "iam_inv E W'"
proof -
  from assms(3) obtain row gid where "SaveGroup E uuidNil row W = (W', Inr gid)" "\<not> gr_deleted row" "gr_key row \<noteq> Some PredefinedGroupOwner"
    by (fastforce simp: DuplicateOrganizationGroup_def split: sum.splits prod.splits if_splits bool.splits)
  then show ?thesis by (rule new_group_inv [OF assms(1,2)])
qed

text \<open>A group nobody is assigned to can be deleted; its tuples stay, and have no effect.\<close>

definition drop_group :: "uuid \<Rightarrow> iam_world \<Rightarrow> iam_world" where
  "drop_group i W = W\<lparr>iw_groups := fmmap_keys (\<lambda>g row. if g = i then row\<lparr>gr_deleted := True\<rparr> else row) (iw_groups W)\<rparr>"

lemma drop_group_simps [simp]:
  "iw_orgs (drop_group i W) = iw_orgs W" "iw_projects (drop_group i W) = iw_projects W" "iw_users (drop_group i W) = iw_users W"
  "iw_members (drop_group i W) = iw_members W" "iw_tenants (drop_group i W) = iw_tenants W"
  "has_tenant (drop_group i W) A = has_tenant W A" "tuples_of (drop_group i W) A = tuples_of W A"
  "live_org (drop_group i W) A = live_org W A" "live_project (drop_group i W) A p = live_project W A p" "owner_of (drop_group i W) A u = owner_of W A u"
  "live_group (drop_group i W) A g row \<longleftrightarrow> live_group W A g row \<and> g \<noteq> i"
  by (auto simp: drop_group_def has_tenant_def tuples_of_def live_org_def live_project_def live_group_def owner_of_def
      dest: arg_cong [where f = gr_deleted])

lemma drop_group_inv:
  assumes "iam_inv E W" "live_group W A i row" "gr_key row = None" "\<And>u. (u, A, i) \<notin> iw_members W"
  shows "iam_inv E (drop_group i W)"
proof (rule iam_invI)
  note inv = iam_invD [OF assms(1)]
  have og: "owner_group (drop_group i W) B h = owner_group W B h" for B h
    using assms(2,3) unfolding owner_group_def drop_group_simps by (auto simp: live_group_def)
  have dom: "fmdom (iw_groups (drop_group i W)) = fmdom (iw_groups W)" by (simp add: drop_group_def)
  have rows: "fmlookup (iw_groups (drop_group i W)) g = Some r \<Longrightarrow> \<exists>r'. fmlookup (iw_groups W) g = Some r' \<and> gr_orga r' = gr_orga r" for g r
    by (auto simp: drop_group_def split: if_splits)
  show "ids_ok E (drop_group i W)" using inv(1) rows unfolding ids_ok_def dom by (auto, metis)
  show "tenants_ok (drop_group i W)" using inv(2) by (simp add: tenants_ok_def)
  fix B assume "has_tenant (drop_group i W) B"
  then have B: "has_tenant W B" by simp
  show "rights_at (drop_group i W) B" using inv(3) [OF B] by (auto simp: rights_at_def)
  show "owners_at (drop_group i W) B" using inv(5) [OF B] by (auto simp: owners_at_def og)
  have "(u, B, g) \<in> iw_members W \<Longrightarrow> g \<noteq> i" for u g
    using assms(2,4) inv(4) [OF B] unfolding members_at_def by (metis live_group_def option.inject)
  then show "members_at (drop_group i W) B"
    using inv(4) [OF B] by (auto simp: members_at_def og belongs_def)
qed

lemma DeleteOrganizationGroup_inv:
  assumes "calm E" "iam_inv E W" "DeleteOrganizationGroup E orgaId groupId W = (W', 200)"
  shows "iam_inv E W'"
proof -
  from assms(3) obtain g row where found: "group_FindByIdAndOrgaId E groupId orgaId W = Inr (g, row)" and key: "gr_key row = None"
    and none: "\<forall>u B h. (u, B, h) \<in> iw_members W \<longrightarrow> \<not> (cond (parse_id E orgaId) B \<and> cond (parse_id E groupId) h)" and W': "W' = drop_group g W"
    by (fastforce simp: DeleteOrganizationGroup_def CountUserAssignedToGroup_def group_DeleteById_def drop_group_def calm_simps [OF assms(1)]
        split: sum.splits prod.splits if_splits)
  note f = find_first_calm [OF assms(1) found [unfolded group_FindByIdAndOrgaId_def]]
  have "(u, gr_orga row, g) \<notin> iw_members W" for u using none f(2) by fastforce
  then show ?thesis unfolding W' using f key by (intro drop_group_inv [OF assms(2), of "gr_orga row" g row]) (auto simp: live_group_def)
qed


section \<open>Members\<close>

definition assign :: "uuid \<Rightarrow> uuid \<Rightarrow> uuid set \<Rightarrow> iam_world \<Rightarrow> iam_world" where
  "assign A u G W = map_tuples A (\<lambda>T. {x \<in> T. \<not> of_user u x} \<union> (\<lambda>g. assignee_tuple g u) ` G)
     (W\<lparr>iw_members := {(v, B, g) \<in> iw_members W. \<not> (v = u \<and> B = A)} \<union> (\<lambda>g. (u, A, g)) ` G\<rparr>)"

lemma map_tuples_members: "(map_tuples A f W)\<lparr>iw_members := m\<rparr> = map_tuples A f (W\<lparr>iw_members := m\<rparr>)"
  by (auto simp: map_tuples_def split: option.splits)

lemma members_simps [simp]:
  "has_tenant (W\<lparr>iw_members := m\<rparr>) A = has_tenant W A" "tuples_of (W\<lparr>iw_members := m\<rparr>) A = tuples_of W A"
  "live_org (W\<lparr>iw_members := m\<rparr>) A = live_org W A" "live_project (W\<lparr>iw_members := m\<rparr>) A p = live_project W A p"
  "owner_of (W\<lparr>iw_members := m\<rparr>) A u = owner_of W A u" "live_group (W\<lparr>iw_members := m\<rparr>) A g row = live_group W A g row"
  "owner_group (W\<lparr>iw_members := m\<rparr>) A g = owner_group W A g"
  by (auto simp: has_tenant_def tuples_of_def live_org_def live_project_def live_group_def owner_of_def owner_group_def)

lemma map_tuples_live [simp]:
  "live_org (map_tuples B f W) A = live_org W A" "live_project (map_tuples B f W) A p = live_project W A p"
  "owner_of (map_tuples B f W) A u = owner_of W A u" "live_group (map_tuples B f W) A g row = live_group W A g row"
  "owner_group (map_tuples B f W) A g = owner_group W A g"
  by (auto simp: live_org_def live_project_def live_group_def owner_of_def owner_group_def)

lemma map_tuples_tenants_ok: "tenants_ok (map_tuples A f W) \<longleftrightarrow> tenants_ok W"
proof -
  have "map_option (\<lambda>t. (tn_schema t, tn_bundle t)) (fmlookup (iw_tenants (map_tuples A f W)) B) =
      map_option (\<lambda>t. (tn_schema t, tn_bundle t)) (fmlookup (iw_tenants W) B)" for B
    by (simp add: map_tuples_lookup option.map_comp comp_def)
  then show ?thesis unfolding tenants_ok_iff by simp
qed

lemma assign_simps:
  assumes "has_tenant W A"
  shows "tuples_of (assign A u G W) B = (if B = A then {x \<in> tuples_of W A. \<not> of_user u x} \<union> (\<lambda>g. assignee_tuple g u) ` G else tuples_of W B)"
    "iw_members (assign A u G W) = {(v, B, g) \<in> iw_members W. \<not> (v = u \<and> B = A)} \<union> (\<lambda>g. (u, A, g)) ` G"
    "has_tenant (assign A u G W) B = has_tenant W B" "live_org (assign A u G W) B = live_org W B"
    "live_project (assign A u G W) B p = live_project W B p" "owner_of (assign A u G W) B v = owner_of W B v"
    "live_group (assign A u G W) B g row = live_group W B g row" "owner_group (assign A u G W) B g = owner_group W B g"
    "tenants_ok (assign A u G W) = tenants_ok W"
  using assms by (simp_all add: assign_def map_tuples_tenants_ok) (simp add: tenants_ok_def)

lemma assign_ids:
  assumes "ids_ok E W" "has_tenant W A" "tenants_ok W" "finite G"
  shows "ids_ok E (assign A u G W)"
proof -
  have "A \<in> fset (fmdom (iw_orgs W))" using assms(2,3) by (auto simp: tenants_ok_def live_org_def fmdomI)
  moreover have "iw_orgs (assign A u G W) = iw_orgs W" "iw_projects (assign A u G W) = iw_projects W"
    "iw_groups (assign A u G W) = iw_groups W" "iw_users (assign A u G W) = iw_users W" by (simp_all add: assign_def)
  moreover have "finite ({(v, B, g) \<in> iw_members W. \<not> (v = u \<and> B = A)} \<union> (\<lambda>g. (u, A, g)) ` G)"
    using assms(1,4) by (auto simp: ids_ok_def intro: rev_finite_subset [of "iw_members W"])
  moreover have "finite (tuples_of (assign A u G W) B)" for B
    using assms(1,4) by (simp add: assign_simps [OF assms(2)] ids_ok_def)
  ultimately show ?thesis using assms(1) unfolding ids_ok_def assign_simps(2) [OF assms(2)] by simp blast
qed

lemma assign_rights: "has_tenant W A \<Longrightarrow> rights_at W B \<Longrightarrow> rights_at (assign A u G W) B"
  unfolding rights_at_def by (intro conjI allI impI ballI) (auto simp: assign_simps split: if_splits)

lemma assign_inv:
  assumes "iam_inv E W" "has_tenant W A" "\<not> owner_of W A u" "finite G"
    and G: "\<And>g. g \<in> G \<Longrightarrow> \<exists>row. live_group W A g row \<and> gr_key row \<noteq> Some PredefinedGroupOwner"
  shows "iam_inv E (assign A u G W)"
proof (rule iam_invI)
  note inv = iam_invD [OF assms(1)]
  note S = assign_simps [OF assms(2)]
  show "ids_ok E (assign A u G W)" by (rule assign_ids [OF inv(1) assms(2) inv(2) assms(4)])
  show "tenants_ok (assign A u G W)" using inv(2) by (simp add: S)
  fix B assume "has_tenant (assign A u G W) B"
  then have B: "has_tenant W B" by (simp add: S)
  show "rights_at (assign A u G W) B" by (rule assign_rights [OF assms(2) inv(3) [OF B]])
  show "owners_at (assign A u G W) B" using inv(5) [OF B] by (simp add: owners_at_def S)
  have "assignee_tuple g v \<in> tuples_of (assign A u G W) B \<longleftrightarrow> belongs (assign A u G W) B v g" for g v
    using inv(4) [OF B] assms(3) by (auto simp: S members_at_def belongs_def)
  then show "members_at (assign A u G W) B"
    using inv(4) [OF B] assms(3) G by (auto simp: members_at_def S)
qed

lemma user_canonical: "ids_ok E W \<Longrightarrow> fmlookup (iw_users W) u = Some r \<Longrightarrow> canonical E u"
  by (auto simp: ids_ok_def fmdomI)

lemma IsOwner_calm:
  assumes "calm E" "canonical E A" "canonical E u"
  shows "IsOwner E A u W = (owner_of W A u, None)"
proof -
  have "0 < int (length (filter P xs)) \<longleftrightarrow> (\<exists>k v. (k, v) \<in> set xs \<and> P (k, v))" for P and xs :: "(uuid \<times> org_row) list"
    by (auto simp: filter_empty_conv)
  then show ?thesis
    using assms by (auto simp: IsOwner_def count_rows_def calm_simps owner_of_def set_gentries)
qed

lemma InviteIntoOrganization_inv:
  assumes "calm E" "iam_inv E W" "InviteIntoOrganization E A code groupIds W = (W', 200)"
  shows "iam_inv E W'"
proof -
  note inv = iam_invD [OF assms(2)]
  from assms(3) obtain u r groups where
    user: "FindByInviteCode E code W = Inr (u, r)" and owner: "IsOwner E A u W = (False, None)"
    and groups: "FindAllByIdsAndOrgaId E groupIds A W = Inr groups"
    and run: "(case InviteUserToOrg E A u (map fst (filter (\<lambda>(g, row). gr_key row \<noteq> Some PredefinedGroupOwner) groups)) W of
        (W1, Some _) \<Rightarrow> (W1, 500)
      | (W1, None) \<Rightarrow>
          (case CreateOrUpdateRelationUserGroup E A u (map fst (filter (\<lambda>(g, row). gr_key row \<noteq> Some PredefinedGroupOwner) groups)) W1 of
             (W2, Some _) \<Rightarrow> (fst (RemoveUserFromOrg E A u W2), 500)
           | (W2, None) \<Rightarrow> (W2, 200))) = (W', 200 :: nat)"
    by (auto simp: InviteIntoOrganization_def Let_def split: sum.splits prod.splits if_splits)
  define ids where "ids = map fst (filter (\<lambda>(g, row). gr_key row \<noteq> Some PredefinedGroupOwner) groups)"
  have u: "canonical E u"
    using find_first_calm(1) [OF assms(1) user [unfolded FindByInviteCode_def]] inv(1) by (rule user_canonical [rotated])
  have tenant: "has_tenant W A"
    using run unfolding ids_def [symmetric]
    by (auto simp: InviteUserToOrg_def Let_def CreateOrUpdateRelationUserGroup_calm [OF assms(1)] remove_members_def
        split: prod.splits option.splits if_splits)
  note A = has_tenant_canonical [OF inv(1,2) tenant]
  have "g \<in> set ids \<Longrightarrow> \<exists>row. live_group W A g row \<and> gr_key row \<noteq> Some PredefinedGroupOwner" for g
    using groups A by (auto simp: FindAllByIdsAndOrgaId_def find_all_calm [OF assms(1)] ids_def live_group_def set_gentries split: if_splits)
  moreover have "W' = assign A u (set ids) W"
    using run tenant u A unfolding ids_def [symmetric]
    by (auto simp: InviteUserToOrg_def Let_def CreateOrUpdateRelationUserGroup_calm [OF assms(1)] remove_members_def assign_def
        calm_simps [OF assms(1)] split: prod.splits option.splits if_splits)
  moreover have "\<not> owner_of W A u" using owner IsOwner_calm [OF assms(1) A u] by simp
  ultimately show ?thesis using assign_inv [OF assms(2) tenant] by simp
qed

lemma RemoveFromOrganization_ok:
  assumes "calm E" "iam_inv E W" "RemoveFromOrganization E A (Some u) W = (W', 200)" "canonical E u"
  shows "W' = assign A u {} W" "has_tenant W A" "\<not> owner_of W A u"
proof -
  show tenant: "has_tenant W A"
    using assms(3) by (auto simp: RemoveFromOrganization_def DeleteRelationUser_calm [OF assms(1)] split: prod.splits option.splits if_splits)
  note A = has_tenant_canonical [OF iam_invD(1,2) [OF assms(2)] tenant]
  show "\<not> owner_of W A u" using assms(3) IsOwner_calm [OF assms(1) A assms(4)] by (auto simp: RemoveFromOrganization_def)
  then show "W' = assign A u {} W"
    using assms(3,4) A tenant IsOwner_calm [OF assms(1) A assms(4)]
    by (auto simp: RemoveFromOrganization_def DeleteRelationUser_calm [OF assms(1)] RemoveUserFromOrg_def remove_members_def calm_simps [OF assms(1)]
        assign_def map_tuples_members)
qed

lemma RemoveFromOrganization_inv:
  assumes "calm E" "iam_inv E W" "RemoveFromOrganization E A (Some u) W = (W', 200)" "canonical E u"
  shows "iam_inv E W'"
  using assign_inv [OF assms(2) RemoveFromOrganization_ok(2,3) [OF assms] finite.emptyI] unfolding RemoveFromOrganization_ok(1) [OF assms] by simp

end
