(* ===== verification/Iam_Lifecycle.thy ===== *)
theory Iam_Lifecycle
  imports Iam_Steps
begin

text \<open>
  Projects and organizations: their creation, change, transfer and deletion keep the tenants of Permify in step with the
  tables, and so does the reconciliation of the predefined groups.
\<close>

section \<open>Rows that change their name only\<close>

lemma view_inv:
  assumes "iam_inv E W" "ids_ok E W'" "iw_tenants W' = iw_tenants W" "iw_members W' = iw_members W" "iw_groups W' = iw_groups W"
    and orgs: "\<And>A. live_org W' A = live_org W A" "\<And>A u. owner_of W' A u = owner_of W A u" and projs: "\<And>A p. live_project W' A p = live_project W A p"
  shows "iam_inv E W'"
proof (rule iam_invI)
  note inv = iam_invD [OF assms(1)]
  have eqs: "has_tenant W' = has_tenant W" "tuples_of W' = tuples_of W" "live_group W' = live_group W"
    using assms(3,5) by (auto simp: has_tenant_def tuples_of_def live_group_def fun_eq_iff)
  then have og: "owner_group W' = owner_group W" by (simp add: owner_group_def fun_eq_iff)
  show "ids_ok E W'" by (rule assms(2))
  show "tenants_ok W'" using inv(2) by (simp add: tenants_ok_def eqs orgs assms(3))
  fix A assume "has_tenant W' A"
  then have A: "has_tenant W A" by (simp add: eqs)
  show "rights_at W' A" using inv(3) [OF A] by (simp add: rights_at_def eqs projs)
  show "members_at W' A" using inv(4) [OF A] by (simp add: members_at_def belongs_def eqs orgs og assms(4))
  show "owners_at W' A" using inv(5) [OF A] by (simp add: owners_at_def eqs og)
qed

lemma UpdateProject_inv:
  assumes "calm E" "iam_inv E W" "UpdateProject E orga projectId name W = (W', None)"
  shows "iam_inv E W'"
proof -
  from assms(3) obtain p P q row where found: "find_first E ''project'' P (iw_projects W) = Inr (q, row)"
    and W': "W' = W\<lparr>iw_projects := fmupd q (row\<lparr>pj_name := name\<rparr>) (iw_projects W)\<rparr>"
    by (auto simp: UpdateProject_def calm_simps [OF assms(1)] split: option.splits sum.splits)
  note q = find_first_calm(1) [OF assms(1) found]
  have "ids_ok E W'"
    using iam_invD(1) [OF assms(2)] q fmdomI [OF q] unfolding W' ids_ok_def tuples_of_def by auto
  moreover have "live_project W' A r = live_project W A r" for A r using q by (auto simp: W' live_project_def)
  ultimately show ?thesis by (intro view_inv [OF assms(2)]) (auto simp: W' live_org_def owner_of_def)
qed

lemma organization_Save_calm:
  "calm E \<Longrightarrow> i \<noteq> uuidNil \<Longrightarrow> organization_Save E i row W = (W\<lparr>iw_orgs := fmupd i row (iw_orgs W)\<rparr>, Inr i)"
  by (simp add: organization_Save_def calm_simps)

lemma org_canonical: "ids_ok E W \<Longrightarrow> fmlookup (iw_orgs W) A = Some row \<Longrightarrow> canonical E A"
  by (auto simp: ids_ok_def fmdomI)

lemma ids_ok_orgs:
  assumes "ids_ok E W" "fmlookup (iw_orgs W) A = Some row"
  shows "ids_ok E (W\<lparr>iw_orgs := fmupd A row' (iw_orgs W)\<rparr>)"
  using assms(1) fmdomI [OF assms(2)] unfolding ids_ok_def tuples_of_def by auto

lemma organization_Update_inv:
  assumes "calm E" "iam_inv E W" "organization_Update E orgaId name W = (W', 200)"
  shows "iam_inv E W'"
proof -
  from assms(3) obtain A row where found: "organization_FindById E orgaId W = Inr (A, row)"
    and save: "(case organization_Save E A (row\<lparr>or_name := name\<rparr>) W of (W1, Inl _) \<Rightarrow> (W1, 500) | (W1, Inr _) \<Rightarrow> (W1, 200)) = (W', 200 :: nat)"
    by (auto simp: organization_Update_def split: sum.splits if_splits)
  note A = find_first_calm(1) [OF assms(1) found [unfolded organization_FindById_def]]
  have W': "W' = W\<lparr>iw_orgs := fmupd A (row\<lparr>or_name := name\<rparr>) (iw_orgs W)\<rparr>"
    using save canonical_not_nil [OF org_canonical [OF iam_invD(1) [OF assms(2)] A]] by (simp add: organization_Save_calm [OF assms(1)])
  show ?thesis
    by (rule view_inv [OF assms(2)]) (use A ids_ok_orgs [OF iam_invD(1) [OF assms(2)] A] in \<open>auto simp: W' live_org_def owner_of_def live_project_def\<close>)
qed


section \<open>Projects\<close>

definition project_grants :: "uuid \<Rightarrow> (uuid \<times> string list) list \<Rightarrow> tuple set" where
  "project_grants p L = {proj_tuple p ps g | ps g. \<exists>sets. (g, sets) \<in> set L \<and> ps \<in> set sets \<inter> set project_sets}"

lemma UpdateRelationProjectGroup_calm:
  assumes "calm E" "has_tenant W A"
  shows "fst (UpdateRelationProjectGroup E A p g sets W) =
    map_tuples A (\<lambda>T. {x \<in> T. \<not> (t_etype x = entity_Project \<and> t_eid x = p \<and> of_group g x)} \<union> project_grants p [(g, sets)]) W"
proof -
  have m: "matches \<lparr>f_etype = entity_Project, f_eids = [p], f_stype = entity_Group, f_sids = [g], f_srel = ''assignee''\<rparr> x =
      (t_etype x = entity_Project \<and> t_eid x = p \<and> of_group g x)" for x
    by (auto simp: matches_def of_group_def entity_defs)
  define ts where "ts = map (\<lambda>ps. GetGroupTuple ps p g) (filter (\<lambda>ps. PermissionSetsEntityMap ps = entity_Project) sets)"
  have s: "set ts = project_grants p [(g, sets)]"
    unfolding ts_def set_map set_filter set_kinds project_grants_def by (auto simp: GetGroupTuple_simps)
  then have "ts = [] \<longleftrightarrow> project_grants p [(g, sets)] = {}" by (metis set_empty)
  then show ?thesis
    using assms unfolding UpdateRelationProjectGroup_def data_Delete_calm [OF assms(1)] m ts_def [symmetric]
    by (simp add: thenI_def Let_def data_Write_calm [OF assms(1)] s map_tuples_comp)
qed

lemma project_grants_iff [simp]:
  "proj_tuple q ps g \<in> project_grants p L \<longleftrightarrow> q = p \<and> ps \<in> set project_sets \<and> (\<exists>sets. (g, sets) \<in> set L \<and> ps \<in> set sets)"
  "org_tuple A ps g \<notin> project_grants p L" "parent_tuple q A \<notin> project_grants p L" "assignee_tuple g u \<notin> project_grants p L"
  by (auto simp: project_grants_def)

lemma project_grants_Cons: "project_grants p ((g, sets) # L) = project_grants p [(g, sets)] \<union> project_grants p L"
  by (auto simp: project_grants_def)

text \<open>The groups of a new project are written one by one.\<close>

lemma create_loop_calm:
  assumes "calm E" "has_tenant W A" "distinct (map fst L)" "\<And>x. x \<in> tuples_of W A \<Longrightarrow> t_etype x = entity_Project \<Longrightarrow> t_eid x = p \<Longrightarrow> \<not> (\<exists>g\<in>fst ` set L. of_group g x)"
  shows "fold (\<lambda>(i, sets) V. if sets \<noteq> [] then fst (UpdateRelationProjectGroup E A p i sets V) else V) L W =
    map_tuples A (\<lambda>T. T \<union> project_grants p L) W"
  using assms(2-4)
proof (induction L arbitrary: W)
  case Nil
  then show ?case by (simp add: project_grants_def)
next
  case (Cons a L)
  obtain g sets where a: "a = (g, sets)" by (cases a)
  have step: "(if sets \<noteq> [] then fst (UpdateRelationProjectGroup E A p g sets W) else W) = map_tuples A (\<lambda>T. T \<union> project_grants p [(g, sets)]) W"
  proof (cases "sets = []")
    case False
    have "{x \<in> tuples_of W A. \<not> (t_etype x = entity_Project \<and> t_eid x = p \<and> of_group g x)} = tuples_of W A"
      using Cons.prems(3) a by auto
    then show ?thesis
      using False Cons.prems(1) unfolding UpdateRelationProjectGroup_calm [OF assms(1) Cons.prems(1)]
      by (auto simp: map_tuples_def tuples_of_def split: option.splits)
  qed (simp add: project_grants_def)
  let ?W1 = "map_tuples A (\<lambda>T. T \<union> project_grants p [(g, sets)]) W"
  have "fold (\<lambda>(i, sets) V. if sets \<noteq> [] then fst (UpdateRelationProjectGroup E A p i sets V) else V) L ?W1 = map_tuples A (\<lambda>T. T \<union> project_grants p L) ?W1"
  proof (rule Cons.IH)
    fix x assume x: "x \<in> tuples_of ?W1 A" "t_etype x = entity_Project" "t_eid x = p"
    have mine: "x \<in> project_grants p [(g, sets)] \<Longrightarrow> of_group h x \<Longrightarrow> h = g" for h by (auto simp: project_grants_def)
    show "\<not> (\<exists>g\<in>fst ` set L. of_group g x)"
    proof (cases "x \<in> tuples_of W A")
      case True
      then show ?thesis using Cons.prems(3) [OF True x(2,3)] by (simp add: a)
    next
      case False
      then have "x \<in> project_grants p [(g, sets)]" using x(1) Cons.prems(1) by simp
      then show ?thesis using mine Cons.prems(2) by (auto simp: a)
    qed
  qed (use Cons.prems a in auto)
  then show ?case
    by (simp add: a step map_tuples_comp project_grants_Cons [of p g sets L] Un_assoc)
qed

lemma bundle_Run_calm:
  assumes "calm E" "tenants_ok W"
  shows "bundle_Run E A p W = (if has_tenant W A then (map_tuples A (insert (parent_tuple p A)) W, None) else (W, Some CallFailed))"
proof (cases "fmlookup (iw_tenants W) A")
  case None
  then show ?thesis using assms(1) by (simp add: bundle_Run_def pm_call_def has_tenant_def calm_simps)
next
  case (Some t)
  then have "tn_bundle t" using assms(2) by (simp add: tenants_ok_def)
  then show ?thesis using assms(1) Some by (simp add: bundle_Run_def pm_call_def has_tenant_def map_tuples_def calm_simps)
qed

text \<open>A new project: its row, its parent and the rights of the groups for all projects.\<close>

definition new_project :: "uuid \<Rightarrow> uuid \<Rightarrow> string \<Rightarrow> iam_world \<Rightarrow> iam_world" where
  "new_project A p name W = map_tuples A (\<lambda>T. insert (parent_tuple p A) T \<union>
       {proj_tuple p ps g | ps g. \<exists>row. live_group W A g row \<and> gr_allProjects row \<and> ps \<in> set (gr_sets row) \<inter> set project_sets})
     (W\<lparr>iw_projects := fmupd p \<lparr>pj_orga = A, pj_name = name, pj_deleted = False\<rparr> (iw_projects W)\<rparr>)"

lemma projects_simps [simp]:
  "has_tenant (W\<lparr>iw_projects := m\<rparr>) A = has_tenant W A" "tuples_of (W\<lparr>iw_projects := m\<rparr>) A = tuples_of W A"
  "live_org (W\<lparr>iw_projects := m\<rparr>) A = live_org W A" "owner_of (W\<lparr>iw_projects := m\<rparr>) A u = owner_of W A u"
  "live_group (W\<lparr>iw_projects := m\<rparr>) A g row = live_group W A g row" "owner_group (W\<lparr>iw_projects := m\<rparr>) A g = owner_group W A g"
  "tenants_ok (W\<lparr>iw_projects := m\<rparr>) = tenants_ok W"
  by (auto simp: has_tenant_def tuples_of_def live_org_def live_group_def owner_of_def owner_group_def tenants_ok_def)

lemma all_projects_groups:
  fixes W :: iam_world
  assumes "canonical E A"
  defines "L \<equiv> gentries (fmap_of_list (map (\<lambda>(g, row). (g, gr_sets row))
     (filter (\<lambda>(g, row). \<not> gr_deleted row \<and> cond A (gr_orga row) \<and> gr_allProjects row) (gentries (iw_groups W)))))"
  shows "(g, sets) \<in> set L \<longleftrightarrow> (\<exists>row. live_group W A g row \<and> gr_allProjects row \<and> sets = gr_sets row)"
proof -
  let ?F = "filter (\<lambda>(g, row). \<not> gr_deleted row \<and> cond A (gr_orga row) \<and> gr_allProjects row) (gentries (iw_groups W))"
  have "distinct (map fst ?F)" by (rule distinct_map_filter) simp
  then have "distinct (map fst (map (\<lambda>(g, row). (g, gr_sets row)) ?F))" by (simp add: comp_def case_prod_beta)
  then have "fmlookup (fmap_of_list (map (\<lambda>(g, row). (g, gr_sets row)) ?F)) g = Some sets \<longleftrightarrow> (g, sets) \<in> set (map (\<lambda>(g, row). (g, gr_sets row)) ?F)"
    by (simp add: fmlookup_of_list)
  also have "\<dots> \<longleftrightarrow> (\<exists>row. (g, row) \<in> set ?F \<and> sets = gr_sets row)" by force
  also have "\<dots> \<longleftrightarrow> (\<exists>row. live_group W A g row \<and> gr_allProjects row \<and> sets = gr_sets row)"
    using assms(1) by (auto simp: set_gentries live_group_def)
  finally show ?thesis by (simp add: L_def set_gentries)
qed

lemma fresh_project:
  assumes "calm E" "ids_ok E W" "p = ie_newId E W"
  shows "fmlookup (iw_projects W) p = None" "x \<in> tuples_of W A \<Longrightarrow> t_eid x \<noteq> p"
    "fmlookup (iw_groups W) g = Some row \<Longrightarrow> p \<notin> set (gr_projectIds row)"
proof -
  note fresh = fresh_id(1) [OF assms(1,2), folded assms(3)]
  show "fmlookup (iw_projects W) p = None" using fresh by (auto simp: used_ids_def fmdom_notD)
  show "x \<in> tuples_of W A \<Longrightarrow> t_eid x \<noteq> p"
    using fresh by (auto simp: used_ids_def tuples_of_def dest: fmranI split: option.splits)
  show "fmlookup (iw_groups W) g = Some row \<Longrightarrow> p \<notin> set (gr_projectIds row)"
    using fresh by (auto simp: used_ids_def dest: fmranI)
qed

lemma InitializeProject_calm:
  assumes "calm E" "ids_ok E W" "tenants_ok W" "has_tenant W A"
  shows "InitializeProject E A name W = (new_project A (ie_newId E W) name W, None)"
proof -
  note A = has_tenant_canonical [OF assms(2-4)]
  let ?p = "ie_newId E W"
  let ?W1 = "W\<lparr>iw_projects := fmupd ?p \<lparr>pj_orga = A, pj_name = name, pj_deleted = False\<rparr> (iw_projects W)\<rparr>"
  let ?F = "filter (\<lambda>(g, row). \<not> gr_deleted row \<and> cond A (gr_orga row) \<and> gr_allProjects row) (gentries (iw_groups W))"
  let ?L = "gentries (fmap_of_list (map (\<lambda>(g, row). (g, gr_sets row)) ?F))"
  have "project_Create E A name W = (?W1, Inr ?p)" by (simp add: project_Create_def calm_simps [OF assms(1)] Let_def)
  moreover have "FindAllByOrgaIdAndAllProjects E A ?W1 = Inr ?F"
    using A by (simp add: FindAllByOrgaIdAndAllProjects_def find_all_calm [OF assms(1)])
  moreover have "CreateRelationProject E A ?p (fmap_of_list (map (\<lambda>(g, row). (g, gr_sets row)) ?F)) ?W1 =
      (fold (\<lambda>(i, sets) V. if sets \<noteq> [] then fst (UpdateRelationProjectGroup E A ?p i sets V) else V) ?L (map_tuples A (insert (parent_tuple ?p A)) ?W1), None)"
    using assms(3,4) by (simp add: CreateRelationProject_def bundle_Run_calm [OF assms(1)] thenI_def)
  moreover have "fold (\<lambda>(i, sets) V. if sets \<noteq> [] then fst (UpdateRelationProjectGroup E A ?p i sets V) else V) ?L (map_tuples A (insert (parent_tuple ?p A)) ?W1) =
      map_tuples A (\<lambda>T. T \<union> project_grants ?p ?L) (map_tuples A (insert (parent_tuple ?p A)) ?W1)"
    by (rule create_loop_calm [OF assms(1)]) (use assms(4) fresh_project(2) [OF assms(1,2) refl] in auto)
  moreover have "project_grants ?p ?L = {proj_tuple ?p ps g | ps g. \<exists>row. live_group W A g row \<and> gr_allProjects row \<and> ps \<in> set (gr_sets row) \<inter> set project_sets}"
    unfolding project_grants_def all_projects_groups [OF A] by blast
  ultimately show ?thesis
    by (simp add: InitializeProject_def new_project_def map_tuples_comp)
qed

lemma InitializeProject_ok:
  assumes "calm E" "tenants_ok W" "InitializeProject E A name W = (W', None)"
  shows "has_tenant W A"
  using assms(3)
  by (auto simp: InitializeProject_def project_Create_def CreateRelationProject_def bundle_Run_calm [OF assms(1)] assms(2) thenI_def Let_def
      split: sum.splits prod.splits if_splits)

lemma new_project_inv:
  assumes "calm E" "iam_inv E W" "has_tenant W A"
  shows "iam_inv E (new_project A (ie_newId E W) name W)"
proof (rule iam_invI)
  note inv = iam_invD [OF assms(2)]
  let ?p = "ie_newId E W"
  let ?W' = "new_project A ?p name W"
  note fresh = fresh_project [OF assms(1) inv(1) refl] fresh_id(2) [OF assms(1) inv(1)]
  let ?G = "{proj_tuple ?p ps g | ps g. \<exists>row. live_group W A g row \<and> gr_allProjects row \<and> ps \<in> set (gr_sets row) \<inter> set project_sets}"
  have S: "has_tenant ?W' B = has_tenant W B" "live_org ?W' B = live_org W B" "owner_of ?W' B u = owner_of W B u"
    "live_group ?W' B g row = live_group W B g row" "owner_group ?W' B g = owner_group W B g" "iw_members ?W' = iw_members W"
    "tuples_of ?W' B = (if B = A then insert (parent_tuple ?p A) (tuples_of W A) \<union> ?G else tuples_of W B)"
    "live_project ?W' B q \<longleftrightarrow> live_project W B q \<or> B = A \<and> q = ?p" for B g row u q
    using assms(3) fresh(1) by (auto simp: new_project_def live_project_def)
  have "A \<in> fset (fmdom (iw_orgs W))" using assms(3) inv(2) by (auto simp: tenants_ok_def live_org_def fmdomI)
  moreover have "finite ?G"
  proof (rule finite_subset)
    show "?G \<subseteq> (\<lambda>(ps, g). proj_tuple ?p ps g) ` (set project_sets \<times> fset (fmdom (iw_groups W)))" by (auto simp: live_group_def fmdomI)
  qed simp
  ultimately show "ids_ok E ?W'" using inv(1) fresh(4) unfolding ids_ok_def S(6,7) by (auto simp: new_project_def)
  show "tenants_ok ?W'" using inv(2) by (simp add: new_project_def map_tuples_tenants_ok)
  fix B assume "has_tenant ?W' B"
  then have B: "has_tenant W B" by (simp add: S)
  show "members_at ?W' B" using inv(4) [OF B] by (auto simp: members_at_def belongs_def S)
  show "owners_at ?W' B" using inv(5) [OF B] by (simp add: owners_at_def S)
  have no: "proj_tuple ?p ps g \<notin> tuples_of W B" "parent_tuple ?p C \<notin> tuples_of W B" for ps g C
    using fresh(2) [of _ B] by fastforce+
  have dead: "\<not> live_project W B ?p" using fresh(1) by (simp add: live_project_def)
  show "rights_at ?W' B"
    unfolding rights_at_def
  proof (intro conjI allI impI ballI)
    fix g row ps assume "live_group ?W' B g row"
    then show "org_tuple B ps g \<in> tuples_of ?W' B \<longleftrightarrow> ps \<in> set (gr_sets row) \<and> ps \<in> set organization_sets"
      using inv(3) [OF B] unfolding rights_at_def by (auto simp: S)
  next
    fix g row q ps assume *: "live_group ?W' B g row" "live_project ?W' B q"
    then have g: "live_group W B g row" by (simp add: S)
    show "proj_tuple q ps g \<in> tuples_of ?W' B \<longleftrightarrow> ps \<in> set (gr_sets row) \<and> ps \<in> set project_sets \<and> covers row q"
    proof (cases "q = ?p")
      case True
      have "B = A" using *(2) fresh(1) unfolding S True by (simp add: live_project_def)
      moreover have "?p \<notin> set (gr_projectIds row)" using g fresh(3) [of g row] by (simp add: live_group_def)
      moreover have "live_group W A g row' \<longleftrightarrow> row' = row" if "B = A" for row' using g that by (auto simp: live_group_def)
      ultimately show ?thesis using no(1) [of ps g] True g by (auto simp: S covers_def)
    next
      case False
      then show ?thesis using inv(3) [OF B] g *(2) unfolding rights_at_def by (auto simp: S)
    qed
  next
    fix q C assume "live_project ?W' B q"
    then show "parent_tuple q C \<in> tuples_of ?W' B \<longleftrightarrow> C = B"
      using inv(3) [OF B] no(2) dead unfolding rights_at_def by (cases "q = ?p") (auto simp: S)
  next
    fix x assume "x \<in> tuples_of ?W' B"
    then show "shaped B x"
      using inv(3) [OF B] unfolding rights_at_def by (auto simp: S split: if_splits)
  qed
qed

lemma CreateOrUpdateProject_inv:
  assumes "calm E" "iam_inv E W" "CreateOrUpdateProject E orgaId bodyId name W = (W', 200)"
  shows "iam_inv E W'"
proof (cases "bodyId = []")
  case False
  then show ?thesis using assms(3) UpdateProject_inv [OF assms(1,2)] by (auto simp: CreateOrUpdateProject_def split: prod.splits option.splits)
next
  case True
  let ?A = "parse_id E orgaId"
  from assms(3) True have run: "InitializeProject E ?A name W = (W', None)"
    by (auto simp: CreateOrUpdateProject_def split: prod.splits option.splits sum.splits bool.splits)
  note tenant = InitializeProject_ok [OF assms(1) iam_invD(2) [OF assms(2)] run]
  show ?thesis
    using run new_project_inv [OF assms(1,2) tenant, of name] by (simp add: InitializeProject_calm [OF assms(1) iam_invD(1,2) [OF assms(2)] tenant])
qed

text \<open>A deleted project loses all its tuples.\<close>

definition drop_project :: "uuid \<Rightarrow> uuid \<Rightarrow> (uuid, product_row) fmap \<Rightarrow> iam_world \<Rightarrow> iam_world" where
  "drop_project A p prods W = map_tuples A (\<lambda>T. {x \<in> T. \<not> (t_etype x = entity_Project \<and> t_eid x = p)})
     (W\<lparr>iw_products := prods, iw_projects := fmupd p ((the (fmlookup (iw_projects W) p))\<lparr>pj_deleted := True\<rparr>) (iw_projects W)\<rparr>)"

lemma products_simps [simp]:
  "has_tenant (W\<lparr>iw_products := m\<rparr>) A = has_tenant W A" "tuples_of (W\<lparr>iw_products := m\<rparr>) A = tuples_of W A"
  "live_org (W\<lparr>iw_products := m\<rparr>) A = live_org W A" "owner_of (W\<lparr>iw_products := m\<rparr>) A u = owner_of W A u"
  "live_group (W\<lparr>iw_products := m\<rparr>) A g row = live_group W A g row" "owner_group (W\<lparr>iw_products := m\<rparr>) A g = owner_group W A g"
  "live_project (W\<lparr>iw_products := m\<rparr>) A p = live_project W A p"
  "tenants_ok (W\<lparr>iw_products := m\<rparr>) = tenants_ok W"
  by (auto simp: has_tenant_def tuples_of_def live_org_def live_group_def owner_of_def owner_group_def live_project_def tenants_ok_def)

lemma drop_project_inv:
  assumes "iam_inv E W" "has_tenant W A" "live_project W A p"
  shows "iam_inv E (drop_project A p prods W)"
proof (rule iam_invI)
  note inv = iam_invD [OF assms(1)]
  let ?W' = "drop_project A p prods W"
  have S: "has_tenant ?W' B = has_tenant W B" "live_org ?W' B = live_org W B" "owner_of ?W' B u = owner_of W B u"
    "live_group ?W' B g row = live_group W B g row" "owner_group ?W' B g = owner_group W B g" "iw_members ?W' = iw_members W"
    "tuples_of ?W' B = (if B = A then {x \<in> tuples_of W A. \<not> (t_etype x = entity_Project \<and> t_eid x = p)} else tuples_of W B)"
    "live_project ?W' B q \<longleftrightarrow> live_project W B q \<and> q \<noteq> p" for B g row u q
    using assms(2,3) by (auto simp: drop_project_def live_project_def)
  have rows: "pj_orga r |\<in>| fmdom (iw_orgs W)" if "fmlookup (iw_projects ?W') q = Some r" for q r
    using that assms(3) inv(1) unfolding ids_ok_def by (auto simp: drop_project_def live_project_def split: if_splits)
  have "fmdom (iw_projects ?W') = fmdom (iw_projects W)"
    using assms(3) by (auto simp: drop_project_def live_project_def fmdomI finsert_absorb)
  moreover have "iw_orgs ?W' = iw_orgs W" "iw_groups ?W' = iw_groups W" "iw_users ?W' = iw_users W" by (simp_all add: drop_project_def)
  moreover have "finite (tuples_of ?W' B)" for B using inv(1) by (simp add: S ids_ok_def)
  ultimately show "ids_ok E ?W'" using inv(1) rows unfolding ids_ok_def S(6) by simp
  show "tenants_ok ?W'" using inv(2) by (simp add: drop_project_def map_tuples_tenants_ok)
  fix B assume "has_tenant ?W' B"
  then have B: "has_tenant W B" by (simp add: S)
  show "members_at ?W' B" using inv(4) [OF B] by (auto simp: members_at_def belongs_def S entity_defs)
  show "owners_at ?W' B" using inv(5) [OF B] by (simp add: owners_at_def S)
  show "rights_at ?W' B"
    using inv(3) [OF B] unfolding rights_at_def
    by (intro conjI allI impI ballI) (auto simp: S entity_Organization_def entity_Project_def split: if_splits)
qed

lemma RemoveProject_ok:
  assumes "calm E" "ids_ok E W" "tenants_ok W" "RemoveProject E A p W = (W', None)" "canonical E p"
  shows "has_tenant W A" "live_project W A p" "\<exists>prods. W' = drop_project A p prods W"
proof -
  from assms(4,5) obtain orga r where orga: "uuid_Parse (ie_uuids E) A = Some orga" and p: "uuid_Parse (ie_uuids E) p = Some p"
    and found: "project_FindByIdAndOrgaId E p orga W = Inr r"
    and run: "thenI (project_DeleteByProject E p orga W) (\<lambda>W1. thenI (iam_project_DeleteById E p orga W1) (DeleteRelationProject E A p)) = (W', None)"
    by (auto simp: RemoveProject_def canonical_def split: option.splits sum.splits if_splits)
  show tenant: "has_tenant W A"
    using run by (auto simp: thenI_def project_DeleteByProject_def iam_project_DeleteById_def DeleteRelationProject_calm [OF assms(1)]
        split: option.splits prod.splits if_splits)
  from has_tenant_canonical [OF assms(2,3) tenant] orga have "orga = A" by (simp add: canonical_def)
  moreover obtain q row where r: "r = (q, row)" by (cases r)
  ultimately have row: "fmlookup (iw_projects W) p = Some row" "\<not> pj_deleted row" "pj_orga row = A"
    using find_first_calm [OF assms(1) found [unfolded project_FindByIdAndOrgaId_def r]] by auto
  then show "live_project W A p" by (simp add: live_project_def)
  show "\<exists>prods. W' = drop_project A p prods W"
    using run tenant row \<open>orga = A\<close>
    by (auto simp: thenI_def project_DeleteByProject_def iam_project_DeleteById_def DeleteRelationProject_calm [OF assms(1)]
        calm_simps [OF assms(1)] drop_project_def)
qed

lemma RemoveProject_inv:
  assumes "calm E" "iam_inv E W" "RemoveProject E A p W = (W', None)" "canonical E p"
  shows "iam_inv E W'"
  using RemoveProject_ok [OF assms(1) iam_invD(1,2) [OF assms(2)] assms(3,4)] drop_project_inv [OF assms(2)] by blast

lemma DeleteProject_inv:
  assumes "calm E" "iam_inv E W" "DeleteProject E A p W = (W', 200)" "canonical E p"
  shows "iam_inv E W'"
  using RemoveProject_inv [OF assms(1,2) _ assms(4)] assms(3) by (auto simp: DeleteProject_def split: prod.splits option.splits if_splits)


section \<open>Transfer\<close>

definition transferred :: "uuid \<Rightarrow> org_row \<Rightarrow> uuid \<Rightarrow> uuid \<Rightarrow> uuid \<Rightarrow> iam_world \<Rightarrow> iam_world" where
  "transferred A row old new g W =
     map_tuples A (\<lambda>T. {x \<in> {x \<in> T. \<not> of_user new x} \<union> {assignee_tuple g new}. \<not> of_user old x})
       (W\<lparr>iw_orgs := fmupd A (row\<lparr>or_owner := new\<rparr>) (iw_orgs W),
          iw_members := {(v, B, g) \<in> iw_members W. \<not> (v = new \<and> B = A)}\<rparr>)"

lemma orgs_simps [simp]:
  "has_tenant (W\<lparr>iw_orgs := m\<rparr>) A = has_tenant W A" "tuples_of (W\<lparr>iw_orgs := m\<rparr>) A = tuples_of W A"
  "live_group (W\<lparr>iw_orgs := m\<rparr>) A g row = live_group W A g row" "owner_group (W\<lparr>iw_orgs := m\<rparr>) A g = owner_group W A g"
  "live_project (W\<lparr>iw_orgs := m\<rparr>) A p = live_project W A p"
  by (auto simp: has_tenant_def tuples_of_def live_group_def owner_group_def live_project_def)

lemma transferred_inv:
  assumes "iam_inv E W" "has_tenant W A" "fmlookup (iw_orgs W) A = Some row" "\<not> or_deleted row" "or_owner row = old" "new \<noteq> old" "owner_group W A g"
  shows "iam_inv E (transferred A row old new g W)"
proof (rule iam_invI)
  note inv = iam_invD [OF assms(1)]
  let ?W' = "transferred A row old new g W"
  have S: "has_tenant ?W' B = has_tenant W B" "live_org ?W' B = live_org W B" "owner_of ?W' B u \<longleftrightarrow> (if B = A then u = new else owner_of W B u)"
    "live_group ?W' B h r = live_group W B h r" "owner_group ?W' B h = owner_group W B h"
    "iw_members ?W' = {(v, B, h) \<in> iw_members W. \<not> (v = new \<and> B = A)}"
    "tuples_of ?W' B = (if B = A then {x \<in> {x \<in> tuples_of W A. \<not> of_user new x} \<union> {assignee_tuple g new}. \<not> of_user old x} else tuples_of W B)"
    "live_project ?W' B q = live_project W B q" for B h r u q
    using assms(2-4) by (auto simp: transferred_def live_org_def owner_of_def)
  have "fmdom (iw_orgs ?W') = fmdom (iw_orgs W)" using assms(3) by (simp add: transferred_def fmdomI finsert_absorb)
  moreover have "finite {(v, B, h) \<in> iw_members W. \<not> (v = new \<and> B = A)}" using inv(1) by (auto simp: ids_ok_def intro: rev_finite_subset [of "iw_members W"])
  moreover have "finite (tuples_of ?W' B)" for B using inv(1) by (simp add: S ids_ok_def)
  moreover have "iw_projects ?W' = iw_projects W" "iw_groups ?W' = iw_groups W" "iw_users ?W' = iw_users W" by (simp_all add: transferred_def)
  ultimately show "ids_ok E ?W'" using inv(1) unfolding ids_ok_def S(6) by simp blast
  have "live_org (W\<lparr>iw_orgs := fmupd A (row\<lparr>or_owner := new\<rparr>) (iw_orgs W)\<rparr>) B = live_org W B" for B
    using assms(3,4) by (auto simp: live_org_def)
  then have "tenants_ok (W\<lparr>iw_orgs := fmupd A (row\<lparr>or_owner := new\<rparr>) (iw_orgs W), iw_members := m\<rparr>)" for m
    using inv(2) by (simp add: tenants_ok_def)
  then show "tenants_ok ?W'" by (simp only: transferred_def map_tuples_tenants_ok)
  fix B assume "has_tenant ?W' B"
  then have B: "has_tenant W B" by (simp add: S)
  show "owners_at ?W' B" using inv(5) [OF B] by (simp add: owners_at_def S)
  show "rights_at ?W' B"
    using inv(3) [OF B] unfolding rights_at_def by (intro conjI allI impI ballI) (auto simp: S split: if_splits)
  have old: "owner_of W A u \<longleftrightarrow> u = old" for u using assms(3-5) by (auto simp: owner_of_def)
  have unique: "owner_group W A h \<longleftrightarrow> h = g" for h using inv(5) [OF assms(2)] assms(7) by (auto simp: owners_at_def)
  have "assignee_tuple h u \<in> tuples_of ?W' B \<longleftrightarrow> belongs ?W' B u h" for h u
    using inv(4) [OF B] old unique assms(6) by (cases "B = A") (auto simp: S members_at_def belongs_def)
  then show "members_at ?W' B"
    using inv(4) [OF B] by (auto simp: S members_at_def split: if_splits)
qed

end
