(* ===== verification/Iam_Orga.thy ===== *)
theory Iam_Orga
  imports Iam_Lifecycle
begin

text \<open>
  Organizations as a whole: transfer, creation with the predefined groups and a first project, reconciliation of the
  predefined groups, and deletion.
\<close>

section \<open>Transfer\<close>

lemma owner_check_ok:
  assumes "calm E" "owner_check E orgaId user W = Inr (A, row)"
  shows "fmlookup (iw_orgs W) A = Some row" "\<not> or_deleted row" "or_owner row = user" "cond (parse_id E orgaId) A"
proof -
  from assms(2) have found: "organization_FindById E orgaId W = Inr (A, row)" and o: "or_owner row = user"
    by (auto simp: owner_check_def split: sum.splits if_splits)
  show "or_owner row = user" by (rule o)
  show "fmlookup (iw_orgs W) A = Some row" "\<not> or_deleted row" "cond (parse_id E orgaId) A"
    using find_first_calm [OF assms(1) found [unfolded organization_FindById_def]] by auto
qed

lemma owner_check_status: "owner_check E orgaId user W \<noteq> Inl 200"
  by (auto simp: owner_check_def split: sum.splits)

lemma Transfer_ok:
  assumes "calm E" "iam_inv E W" "Transfer E orgaId user code W = (W', 200)"
  obtains row new g where "has_tenant W orgaId" "fmlookup (iw_orgs W) orgaId = Some row" "\<not> or_deleted row" "or_owner row = user" "new \<noteq> user"
    "owner_group W orgaId g" "W' = transferred orgaId row user new g W" "new \<in> fset (fmdom (iw_users W))"
proof -
  note inv = iam_invD [OF assms(2)]
  from assms(3) obtain A row g grow new urow where
    check: "owner_check E orgaId user W = Inr (A, row)" and og: "FindOwnerGroup E orgaId W = Inr (g, grow)"
    and user: "FindByInviteCode E code W = Inr (new, urow)" and ne: "new \<noteq> user"
    and run: "(case organization_Save E A (row\<lparr>or_owner := new\<rparr>) W of
        (W1, Inl _) \<Rightarrow> (W1, 500)
      | (W1, Inr _) \<Rightarrow>
          (case thenI (CreateOrUpdateRelationUserGroup E A new [g] W1) (\<lambda>W2. thenI (RemoveUserFromOrg E A new W2) (DeleteRelationUser E orgaId user)) of
             (W3, Some _) \<Rightarrow> (W3, 500)
           | (W3, None) \<Rightarrow> (W3, 200))) = (W', 200 :: nat)"
    unfolding Transfer_def by (auto simp: owner_check_status split: sum.splits if_splits bool.splits)
  note c = owner_check_ok [OF assms(1) check]
  note A = org_canonical [OF inv(1) c(1)]
  have new: "fmlookup (iw_users W) new = Some urow" by (rule find_first_calm(1) [OF assms(1) user [unfolded FindByInviteCode_def]])
  note n = user_canonical [OF inv(1) new]
  have run': "(case thenI (CreateOrUpdateRelationUserGroup E A new [g] (W\<lparr>iw_orgs := fmupd A (row\<lparr>or_owner := new\<rparr>) (iw_orgs W)\<rparr>))
        (\<lambda>W2. thenI (RemoveUserFromOrg E A new W2) (DeleteRelationUser E orgaId user)) of
      (W3, Some _) \<Rightarrow> (W3, 500) | (W3, None) \<Rightarrow> (W3, 200)) = (W', 200 :: nat)"
    using run canonical_not_nil [OF A] by (simp add: organization_Save_calm [OF assms(1)])
  have tenant: "has_tenant W orgaId" "has_tenant W A"
    using run' by (auto simp: thenI_def CreateOrUpdateRelationUserGroup_calm [OF assms(1)] RemoveUserFromOrg_def remove_members_def
        DeleteRelationUser_calm [OF assms(1)] split: if_splits)
  note O = has_tenant_canonical [OF inv(1,2) tenant(1)]
  have [simp]: "A = orgaId" using c(4) O by simp
  have "owner_group W orgaId g"
    using find_first_calm [OF assms(1) og [unfolded FindOwnerGroup_def FindByPredefinedKey_def]] O by (auto simp: owner_group_def live_group_def)
  moreover have "W' = transferred orgaId row user new g W"
    using run' tenant n O
    by (simp add: thenI_def CreateOrUpdateRelationUserGroup_calm [OF assms(1)] RemoveUserFromOrg_def remove_members_def
        DeleteRelationUser_calm [OF assms(1)] calm_simps [OF assms(1)] transferred_def map_tuples_members map_tuples_comp)
  ultimately show thesis using that [of row new g] tenant(1) c ne fmdomI [OF new] by simp
qed

lemma Transfer_inv:
  assumes "calm E" "iam_inv E W" "Transfer E orgaId user code W = (W', 200)"
  shows "iam_inv E W'"
  using Transfer_ok [OF assms] transferred_inv [OF assms(2)] by metis


section \<open>Creation\<close>

text \<open>The state while the groups of a new organization are created: no group of it has an assignee.\<close>

definition starting :: "iam_env \<Rightarrow> uuid \<Rightarrow> uuid \<Rightarrow> uuid \<Rightarrow> iam_world \<Rightarrow> bool" where
  "starting E A owner og W \<longleftrightarrow> ids_ok E W \<and> tenants_ok W \<and> has_tenant W A \<and> (\<forall>u. owner_of W A u \<longleftrightarrow> u = owner) \<and>
     (\<forall>B. has_tenant W B \<longrightarrow> rights_at W B) \<and> (\<forall>B. has_tenant W B \<longrightarrow> B \<noteq> A \<longrightarrow> members_at W B \<and> owners_at W B) \<and>
     (\<forall>u g. (u, A, g) \<notin> iw_members W) \<and> (\<forall>g u. assignee_tuple g u \<notin> tuples_of W A) \<and>
     (\<forall>g. owner_group W A g \<longleftrightarrow> og \<noteq> uuidNil \<and> g = og) \<and>
     (\<forall>g row. live_group W A g row \<longrightarrow> gr_key row = Some PredefinedGroupOwner \<longrightarrow> SpxOwner \<in> set (gr_sets row))"

lemma init_group_starting:
  assumes "calm E" "starting E A owner og W" "SaveGroup E uuidNil (predefined_row A p) W = (W', Inr gid)"
    and "pg_key p = PredefinedGroupOwner \<Longrightarrow> og = uuidNil \<and> SpxOwner \<in> set (pg_sets p)"
  shows "starting E A owner (if pg_key p = PredefinedGroupOwner then gid else og) W'"
proof -
  let ?row = "predefined_row A p"
  have st: "ids_ok E W" "tenants_ok W" "has_tenant W A" "\<And>B. has_tenant W B \<Longrightarrow> rights_at W B"
    "\<And>B. has_tenant W B \<Longrightarrow> B \<noteq> A \<Longrightarrow> members_at W B" "\<And>B. has_tenant W B \<Longrightarrow> B \<noteq> A \<Longrightarrow> owners_at W B"
    using assms(2) by (auto simp: starting_def)
  note ok = SaveGroup_ok [OF assms(1) st(1,2) assms(3)]
  have gid: "gid = ie_newId E W" using ok(2) by (simp add: saved_id_def)
  note fresh = fresh_id [OF assms(1) st(1), folded gid] fresh_group [OF assms(1) st(1), folded gid]
  have r: "gr_orga ?row = A" "\<not> gr_deleted ?row" "gr_key ?row = Some (pg_key p)" "gr_sets ?row = pg_sets p" by (simp_all add: predefined_row_def)
  have own: "own_id W gid ?row" using fresh(3) by (simp add: own_id_def)
  have dead: "\<not> live_group W B gid r" for B r using fresh(3) by (simp add: live_group_def)
  have dom: "A \<in> fset (fmdom (iw_orgs W))" using st(2,3) by (auto simp: tenants_ok_def live_org_def fmdomI)
  have og: "owner_group W' A g \<longleftrightarrow> (if pg_key p = PredefinedGroupOwner then g = gid \<or> owner_group W A g else owner_group W A g)" for g
    unfolding owner_group_def ok(3) saved_live using r dead by auto
  show ?thesis
    unfolding starting_def
  proof (intro conjI allI impI)
    show "ids_ok E W'" unfolding ok(3) using saved_ids [OF st(1) ok(1) fresh(2)] dom r by simp
    show "tenants_ok W'" unfolding ok(3) saved_tenants by (rule st(2))
    show "has_tenant W' A" using st(3) by (simp add: ok(3))
    fix u show "owner_of W' A u \<longleftrightarrow> u = owner" using assms(2) by (simp add: ok(3) starting_def)
    fix B assume B: "has_tenant W' B"
    then show "rights_at W' B" unfolding ok(3) using saved_rights [OF ok(1) own st(4)] by simp
    assume "B \<noteq> A"
    with B st(5,6) have "members_at W B" "owners_at W B" by (simp_all add: ok(3))
    then show "members_at W' B" "owners_at W' B"
      unfolding ok(3) using saved_members [OF ok(1) own _ r(2)] saved_owners [OF _ own r(2)] dead r \<open>B \<noteq> A\<close> assms(4) by auto
  next
    fix u g show "(u, A, g) \<notin> iw_members W'" using assms(2) by (simp add: ok(3) starting_def)
    show "assignee_tuple g u \<notin> tuples_of W' A" using assms(2) by (simp add: ok(3) starting_def saved_tuples [OF ok(1)])
  next
    fix g show "owner_group W' A g \<longleftrightarrow> (if pg_key p = PredefinedGroupOwner then gid else og) \<noteq> uuidNil \<and> g = (if pg_key p = PredefinedGroupOwner then gid else og)"
      using assms(2,4) canonical_not_nil [OF fresh(2)] by (auto simp: og starting_def)
  next
    fix g row assume "live_group W' A g row" "gr_key row = Some PredefinedGroupOwner"
    then show "SpxOwner \<in> set (gr_sets row)" using assms(2,4) r by (auto simp: ok(3) starting_def split: if_splits)
  qed
qed

lemma init_groups_starting:
  assumes "calm E" "starting E A owner og W" "init_groups E A og ps W = (W', Inr og')"
    and "distinct (map pg_key ps)" "og \<noteq> uuidNil \<Longrightarrow> PredefinedGroupOwner \<notin> pg_key ` set ps"
    and "\<And>p. p \<in> set ps \<Longrightarrow> pg_key p = PredefinedGroupOwner \<Longrightarrow> SpxOwner \<in> set (pg_sets p)"
  shows "starting E A owner og' W'" "PredefinedGroupOwner \<in> pg_key ` set ps \<Longrightarrow> og' \<noteq> uuidNil"
proof -
  have "starting E A owner og' W' \<and> (og \<noteq> uuidNil \<or> PredefinedGroupOwner \<in> pg_key ` set ps \<longrightarrow> og' \<noteq> uuidNil)"
    using assms(2-6)
  proof (induction ps arbitrary: og W)
    case (Cons p ps)
    from Cons.prems(2) obtain W1 gid where save: "SaveGroup E uuidNil (predefined_row A p) W = (W1, Inr gid)"
      and rest: "init_groups E A (if pg_key p = PredefinedGroupOwner then gid else og) ps W1 = (W', Inr og')"
      by (auto split: prod.splits sum.splits)
    have st: "starting E A owner (if pg_key p = PredefinedGroupOwner then gid else og) W1"
      using Cons.prems(4,5) by (intro init_group_starting [OF assms(1) Cons.prems(1) save]) auto
    have gid: "gid \<noteq> uuidNil"
    proof -
      have ids: "ids_ok E W" "tenants_ok W" using Cons.prems(1) by (auto simp: starting_def)
      show ?thesis using SaveGroup_ok(2) [OF assms(1) ids save] fresh_id(2) [OF assms(1) ids(1)] by (auto simp: saved_id_def dest: canonical_not_nil)
    qed
    have "starting E A owner og' W' \<and>
        ((if pg_key p = PredefinedGroupOwner then gid else og) \<noteq> uuidNil \<or> PredefinedGroupOwner \<in> pg_key ` set ps \<longrightarrow> og' \<noteq> uuidNil)"
      by (rule Cons.IH [OF st rest]) (use Cons.prems(3-5) in \<open>auto split: if_splits\<close>)
    then show ?case using gid by (auto split: if_splits)
  qed auto
  then show "starting E A owner og' W'" "PredefinedGroupOwner \<in> pg_key ` set ps \<Longrightarrow> og' \<noteq> uuidNil" by auto
qed

lemma PredefinedGroups_keys:
  "distinct (map pg_key PredefinedGroups)" "PredefinedGroupOwner \<in> pg_key ` set PredefinedGroups"
  "p \<in> set PredefinedGroups \<Longrightarrow> pg_key p = PredefinedGroupOwner \<Longrightarrow> SpxOwner \<in> set (pg_sets p)"
proof -
  show "distinct (map pg_key PredefinedGroups)" by code_simp
  show "PredefinedGroupOwner \<in> pg_key ` set PredefinedGroups" by code_simp
  have "list_all (\<lambda>p. pg_key p = PredefinedGroupOwner \<longrightarrow> SpxOwner \<in> set (pg_sets p)) PredefinedGroups" by code_simp
  then show "p \<in> set PredefinedGroups \<Longrightarrow> pg_key p = PredefinedGroupOwner \<Longrightarrow> SpxOwner \<in> set (pg_sets p)" by (simp add: list_all_iff)
qed

lemma predefined_grants:
  assumes "p \<in> set PredefinedGroups"
  shows "group_grants W g (row\<lparr>gr_sets := pg_sets p\<rparr>) \<noteq> {}"
proof -
  have "list_all (\<lambda>p. list_ex (\<lambda>s. s \<in> set organization_sets) (pg_sets p)) PredefinedGroups" by code_simp
  then obtain s where "s \<in> set (pg_sets p)" "s \<in> set organization_sets" using assms by (auto simp: list_all_iff list_ex_iff)
  then show ?thesis by (auto simp: group_grants_def)
qed

text \<open>The first steps leave a tenant with the schema and no tuples.\<close>

lemma CreateRelationOrganization_calm:
  assumes "calm E" "fmlookup (iw_tenants W) A = None"
  shows "CreateRelationOrganization E A name fmempty W =
    (W\<lparr>iw_tenants := fmupd A \<lparr>tn_schema = Some DefaultSchema, tn_bundle = True, tn_tuples = {}\<rparr> (iw_tenants W)\<rparr>, None)"
  using assms(2)
  by (simp add: CreateRelationOrganization_def tenancy_Create_def schema_Write_def bundle_Write_def pm_call_def thenI_def calm_simps [OF assms(1)] fmupd_idem)

lemma new_organization_starting:
  assumes "calm E" "iam_inv E W" "A = ie_newId E W" "\<not> or_deleted row"
  defines "W1 \<equiv> W\<lparr>iw_orgs := fmupd A row (iw_orgs W)\<rparr>"
  shows "starting E A (or_owner row) uuidNil
    (W1\<lparr>iw_tenants := fmupd A \<lparr>tn_schema = Some DefaultSchema, tn_bundle = True, tn_tuples = {}\<rparr> (iw_tenants W1)\<rparr>)"
    (is "starting _ _ _ _ ?W'")
proof -
  note inv = iam_invD [OF assms(2)]
  note fresh = fresh_id [OF assms(1) inv(1), folded assms(3)]
  have none: "fmlookup (iw_orgs W) A = None" "fmlookup (iw_tenants W) A = None" "\<And>u g. (u, A, g) \<notin> iw_members W"
    using fresh(1) by (auto simp: used_ids_def fmdom_notD)
  have nogroup: "\<not> live_group W A g r" "\<not> live_project W A p" for g r p
    using inv(1) fmdom_notI [OF none(1)] unfolding ids_ok_def live_group_def live_project_def by blast+
  have S: "live_group ?W' B g r = live_group W B g r" "owner_group ?W' B g = owner_group W B g" "live_project ?W' B p = live_project W B p"
    "has_tenant ?W' B \<longleftrightarrow> B = A \<or> has_tenant W B" "live_org ?W' B \<longleftrightarrow> B = A \<or> live_org W B"
    "owner_of ?W' B u \<longleftrightarrow> (if B = A then u = or_owner row else owner_of W B u)" "iw_members ?W' = iw_members W"
    "tuples_of ?W' B = (if B = A then {} else tuples_of W B)" for B g r p u
    using assms(4) by (auto simp: W1_def live_group_def owner_group_def live_project_def has_tenant_def live_org_def owner_of_def tuples_of_def)
  have "ids_ok E ?W'" using inv(1) fresh(2) unfolding ids_ok_def S(7,8) by (auto simp: W1_def)
  moreover have "tenants_ok ?W'"
  proof -
    have "\<forall>B t. fmlookup (iw_tenants ?W') B = Some t \<longrightarrow> tn_schema t = Some DefaultSchema \<and> tn_bundle t"
      using inv(2) by (auto simp: tenants_ok_def W1_def)
    then show ?thesis using inv(2) unfolding tenants_ok_def S by auto
  qed
  moreover have "rights_at ?W' B" if "has_tenant ?W' B" for B
    using that inv(3) [of B] nogroup by (cases "B = A") (auto simp: rights_at_def S)
  moreover have "members_at ?W' B" "owners_at ?W' B" if "has_tenant ?W' B" "B \<noteq> A" for B
    using that inv(4,5) [of B] by (auto simp: members_at_def owners_at_def belongs_def S)
  ultimately show ?thesis
    unfolding starting_def using none(3) nogroup by (simp add: S owner_group_def)
qed

lemma version_simps:
  assumes "W' = W\<lparr>iw_orgs := fmmap_keys (\<lambda>i row. if i = A \<and> \<not> or_deleted row then row\<lparr>or_version := v\<rparr> else row) (iw_orgs W)\<rparr>"
  shows "has_tenant W' = has_tenant W" "tuples_of W' = tuples_of W" "live_group W' = live_group W" "owner_group W' = owner_group W"
    "live_project W' = live_project W" "live_org W' = live_org W" "owner_of W' = owner_of W" "iw_members W' = iw_members W"
    "ids_ok E W' = ids_ok E W" "tenants_ok W' = tenants_ok W"
proof -
  have live: "live_org W' B = live_org W B" "owner_of W' B u = owner_of W B u" for B u
    by (cases "fmlookup (iw_orgs W) B"; simp add: assms live_org_def owner_of_def)+
  show "has_tenant W' = has_tenant W" "tuples_of W' = tuples_of W" "live_group W' = live_group W" "owner_group W' = owner_group W"
    "live_project W' = live_project W" "live_org W' = live_org W" "owner_of W' = owner_of W" "iw_members W' = iw_members W"
    using live by (auto simp: assms fun_eq_iff)
  then show "ids_ok E W' = ids_ok E W" "tenants_ok W' = tenants_ok W"
    by (simp_all add: ids_ok_def tenants_ok_def assms)
qed

lemma InitOrganization_inv:
  assumes "calm E" "iam_inv E W" "A = ie_newId E W" "\<not> or_deleted row"
    and "InitOrganization E A name (or_owner row) (W\<lparr>iw_orgs := fmupd A row (iw_orgs W)\<rparr>) = (W', None)"
  shows "iam_inv E W'"
proof -
  let ?W1 = "W\<lparr>iw_orgs := fmupd A row (iw_orgs W)\<rparr>"
  let ?W2 = "?W1\<lparr>iw_tenants := fmupd A \<lparr>tn_schema = Some DefaultSchema, tn_bundle = True, tn_tuples = {}\<rparr> (iw_tenants ?W1)\<rparr>"
  have "fmlookup (iw_tenants ?W1) A = None"
    using fresh_id(1) [OF assms(1) iam_invD(1) [OF assms(2)], folded assms(3)] by (auto simp: used_ids_def fmdom_notD)
  then have "InitializeDefaultGroups E A (or_owner row) ?W2 = (W', None)"
    using assms(5) CreateRelationOrganization_calm [OF assms(1), of ?W1 A name] by (simp add: InitOrganization_def thenI_def)
  then obtain W3 og where groups: "init_groups E A uuidNil PredefinedGroups ?W2 = (W3, Inr og)"
    and rest: "thenI (SetPredefinedCatalogVersion E A PredefinedCatalogVersion W3) (CreateOrUpdateRelationUserGroup E A (or_owner row) [og]) = (W', None)"
    by (auto simp: InitializeDefaultGroups_def split: prod.splits sum.splits)
  note st = init_groups_starting [OF assms(1) new_organization_starting [OF assms(1-4)] groups PredefinedGroups_keys(1)]
  have start: "starting E A (or_owner row) og W3" and og: "og \<noteq> uuidNil"
    using st PredefinedGroups_keys(2,3) by auto
  obtain W4 where W4: "W4 = W3\<lparr>iw_orgs := fmmap_keys (\<lambda>i row. if i = A \<and> \<not> or_deleted row then row\<lparr>or_version := PredefinedCatalogVersion\<rparr> else row) (iw_orgs W3)\<rparr>" by simp
  note v = version_simps [OF W4]
  have start4: "starting E A (or_owner row) og W4" using start by (simp add: starting_def rights_at_def members_at_def owners_at_def belongs_def v)
  then have tenant: "has_tenant W4 A" by (simp add: starting_def)
  have W': "W' = map_tuples A (\<lambda>T. {x \<in> T. \<not> of_user (or_owner row) x} \<union> {assignee_tuple og (or_owner row)}) W4"
    using rest tenant by (simp add: SetPredefinedCatalogVersion_def calm_simps [OF assms(1)] thenI_def W4 [symmetric] CreateOrUpdateRelationUserGroup_calm [OF assms(1)])
  show ?thesis
  proof (rule iam_invI)
    show "ids_ok E W'" using start4 tenant unfolding starting_def ids_ok_def W' by auto
    show "tenants_ok W'" using start4 by (simp add: W' starting_def map_tuples_tenants_ok)
    fix B assume "has_tenant W' B"
    then have B: "has_tenant W4 B" by (simp add: W')
    then have "rights_at W4 B" using start4 by (simp add: starting_def)
    then show "rights_at W' B"
      unfolding rights_at_def W' using tenant by (intro conjI allI impI ballI) (auto split: if_splits)
    show "members_at W' B"
      using start4 B tenant og by (cases "B = A") (auto simp: W' starting_def members_at_def belongs_def)
    show "owners_at W' B"
      using start4 B og by (cases "B = A") (auto simp: W' starting_def owners_at_def)
  qed
qed

lemma iam_organization_Create_inv:
  assumes "calm E" "iam_inv E W" "iam_organization_Create E user name W = (W', 200)"
  shows "iam_inv E W'"
proof -
  let ?A = "ie_newId E W"
  let ?row = "\<lparr>or_name = name, or_owner = user, or_version = 0, or_deleted = False\<rparr>"
  from assms(3) have "thenI (InitOrganization E ?A name user (W\<lparr>iw_orgs := fmupd ?A ?row (iw_orgs W)\<rparr>)) (InitializeProject E ?A ''default'') = (W', None)"
    by (auto simp: iam_organization_Create_def organization_Save_def Let_def calm_simps [OF assms(1)] split: sum.splits bool.splits prod.splits option.splits)
  then obtain W2 where init: "InitOrganization E ?A name user (W\<lparr>iw_orgs := fmupd ?A ?row (iw_orgs W)\<rparr>) = (W2, None)"
    and proj: "InitializeProject E ?A ''default'' W2 = (W', None)"
    by (auto simp: thenI_def split: prod.splits option.splits)
  have inv2: "iam_inv E W2" using InitOrganization_inv [OF assms(1,2) refl, of ?row] init by simp
  note tenant = InitializeProject_ok [OF assms(1) iam_invD(2) [OF inv2] proj]
  show ?thesis
    using proj new_project_inv [OF assms(1) inv2 tenant, of "''default''"] by (simp add: InitializeProject_calm [OF assms(1) iam_invD(1,2) [OF inv2] tenant])
qed


section \<open>Reconciliation of the predefined groups\<close>

lemma SaveGroup_tenants: "calm E \<Longrightarrow> iam_inv E W \<Longrightarrow> SaveGroup E i row W = (W', Inr gid) \<Longrightarrow> has_tenant W' A = has_tenant W A"
  using SaveGroup_ok(3) [of E W i row W' gid] by (simp add: iam_invD(1,2))

lemma reconcile_groups_inv:
  assumes "calm E" "has_tenant W A" "iam_inv E W" "reconcile_groups E A n ps W = (W', n', None)" "set ps \<subseteq> set PredefinedGroups"
  shows "iam_inv E W' \<and> (\<forall>B. has_tenant W' B = has_tenant W B)"
  using assms(2-5)
proof (induction ps arbitrary: n W)
  case (Cons p ps)
  obtain c u where n: "n = (c, u)" by (cases n)
  have A: "canonical E A" by (rule has_tenant_canonical [OF iam_invD(1,2) [OF Cons.prems(2)] Cons.prems(1)])
  show ?case
  proof (cases "FindByPredefinedKey E A (pg_key p) W")
    case (Inr found)
    obtain gid row where f: "found = (gid, row)" by (cases found)
    from Cons.prems(3) Inr obtain W1 h where save: "SaveGroup E gid (row\<lparr>gr_name := pg_name p, gr_sets := pg_sets p\<rparr>) W = (W1, Inr h)"
      and rest: "reconcile_groups E A (c, Suc u) ps W1 = (W', n', None)"
      by (auto simp: n f split: prod.splits sum.splits)
    have row: "live_group W A gid row" "gr_key row = Some (pg_key p)"
      using find_first_calm [OF assms(1) Inr [unfolded FindByPredefinedKey_def f]] by (auto simp: live_group_def)
    have "canonical E gid" using row(1) iam_invD(1) [OF Cons.prems(2)] by (auto simp: ids_ok_def live_group_def fmdomI)
    then have "gid \<noteq> uuidNil" by (rule canonical_not_nil)
    have inv1: "iam_inv E W1"
      by (rule old_group_inv [OF assms(1) Cons.prems(2) save _ \<open>gid \<noteq> uuidNil\<close>, of row])
         (use row Cons.prems(4) PredefinedGroups_keys(3) in \<open>auto simp: live_group_def\<close>)
    show ?thesis
      using Cons.IH [OF _ inv1 rest] Cons.prems SaveGroup_tenants [OF assms(1) Cons.prems(2) save] by auto
  next
    case (Inl err)
    note none = find_first_none [OF assms(1) Inl [unfolded FindByPredefinedKey_def]]
    from Cons.prems(3) Inl none obtain W1 h where save: "SaveGroup E uuidNil (predefined_row A p) W = (W1, Inr h)"
      and rest: "reconcile_groups E A (Suc c, u) ps W1 = (W', n', None)"
      by (auto simp: n split: prod.splits sum.splits)
    have "pg_key p \<noteq> PredefinedGroupOwner"
      using iam_invD(5) [OF Cons.prems(2,1)] none by (fastforce simp: owners_at_def owner_group_def live_group_def)
    then have inv1: "iam_inv E W1" by (intro new_group_inv [OF assms(1) Cons.prems(2) save]) (simp_all add: predefined_row_def)
    show ?thesis
      using Cons.IH [OF _ inv1 rest] Cons.prems SaveGroup_tenants [OF assms(1) Cons.prems(2) save] by auto
  qed
qed simp

lemma schema_Write_same:
  assumes "calm E" "tenants_ok W"
  shows "schema_Write E A DefaultSchema W = (W, if has_tenant W A then None else Some CallFailed)"
proof (cases "fmlookup (iw_tenants W) A")
  case None
  then show ?thesis by (simp add: schema_Write_def pm_call_def has_tenant_def calm_simps [OF assms(1)])
next
  case (Some t)
  then have "t\<lparr>tn_schema := Some DefaultSchema\<rparr> = t" using assms(2) by (simp add: tenants_ok_def)
  then show ?thesis using Some by (simp add: schema_Write_def pm_call_def has_tenant_def calm_simps [OF assms(1)] fmupd_same)
qed

lemma version_inv:
  assumes "calm E" "iam_inv E W" "SetPredefinedCatalogVersion E A v W = (W', None)"
  shows "iam_inv E W'"
proof -
  have "W' = W\<lparr>iw_orgs := fmmap_keys (\<lambda>i row. if i = A \<and> \<not> or_deleted row then row\<lparr>or_version := v\<rparr> else row) (iw_orgs W)\<rparr>"
    using assms(3) by (simp add: SetPredefinedCatalogVersion_def calm_simps [OF assms(1)])
  note v = version_simps [OF this]
  show ?thesis using assms(2) by (simp add: iam_inv_def rights_at_def members_at_def owners_at_def belongs_def v)
qed

lemma reconcile_all_failed: "reconcile_all E R As W = (W', R') \<Longrightarrow> \<exists>xs. rr_failedIds R' = rr_failedIds R @ xs"
proof (induction As arbitrary: R W)
  case (Cons A As)
  then show ?case
    by (auto simp: Let_def split: prod.splits option.splits if_splits dest!: Cons.IH)
qed simp

lemma reconcile_all_inv:
  assumes "calm E" "iam_inv E W" "reconcile_all E R As W = (W', R')" "rr_failedIds R' = []"
  shows "iam_inv E W'"
  using assms(2-4)
proof (induction As arbitrary: R W)
  case (Cons A As)
  obtain W1 c u err where rec: "iam_reconcileOrganization E A W = (W1, (c, u), err)" by (metis prod.exhaust)
  let ?R = "R\<lparr>rr_groupsCreated := rr_groupsCreated R + c, rr_groupsUpdated := rr_groupsUpdated R + u\<rparr>"
  show ?case
  proof (cases err)
    case (Some e)
    then have "reconcile_all E (?R\<lparr>rr_failedIds := rr_failedIds ?R @ [A]\<rparr>) As W1 = (W', R')" using Cons.prems(2) rec by simp
    then show ?thesis using reconcile_all_failed Cons.prems(3) by fastforce
  next
    case None
    obtain W2 err2 where ver: "SetPredefinedCatalogVersion E A PredefinedCatalogVersion W1 = (W2, err2)" by (cases "SetPredefinedCatalogVersion E A PredefinedCatalogVersion W1")
    have inv1: "iam_inv E W1"
      using rec None Cons.prems(1) reconcile_groups_inv [OF assms(1), of W A "(0, 0)" PredefinedGroups W1 "(c, u)"]
      by (auto simp: iam_reconcileOrganization_def schema_Write_same [OF assms(1) iam_invD(2) [OF Cons.prems(1)]] split: if_splits)
    show ?thesis
    proof (cases err2)
      case (Some e)
      then have "reconcile_all E (?R\<lparr>rr_failedIds := rr_failedIds ?R @ [A]\<rparr>) As W2 = (W', R')" using Cons.prems(2) rec None ver by simp
      then show ?thesis using reconcile_all_failed Cons.prems(3) by fastforce
    next
      case n2: None
      then have "reconcile_all E (?R\<lparr>rr_updated := Suc (rr_updated ?R)\<rparr>) As W2 = (W', R')" using Cons.prems(2) rec None ver by simp
      then show ?thesis using Cons.IH version_inv [OF assms(1) inv1] ver n2 Cons.prems(3) by blast
    qed
  qed
qed simp

lemma ReconcilePredefinedGroups_inv:
  assumes "calm E" "iam_inv E W" "ReconcilePredefinedGroups E force W = (W', R, None)" "rr_failedIds R = []"
  shows "iam_inv E W'"
  using assms(3,4) reconcile_all_inv [OF assms(1,2)]
  by (auto simp: ReconcilePredefinedGroups_def Let_def split: sum.splits prod.splits)


section \<open>Deletion\<close>

lemma remove_loop_inv:
  assumes "calm E" "iam_inv E W" "loopI (\<lambda>p. RemoveProject E A p) ps W = (W', None)" "\<And>p. p \<in> set ps \<Longrightarrow> canonical E p"
  shows "iam_inv E W'"
  using assms(2-4)
proof (induction ps arbitrary: W)
  case (Cons p ps)
  from Cons.prems(2) obtain W1 where one: "RemoveProject E A p W = (W1, None)" and rest: "loopI (\<lambda>p. RemoveProject E A p) ps W1 = (W', None)"
    by (auto simp: thenI_def split: prod.splits option.splits)
  show ?case
    by (rule Cons.IH [OF RemoveProject_inv [OF assms(1) Cons.prems(1) one] rest]) (simp_all add: Cons.prems(3))
qed simp

definition drop_org :: "uuid \<Rightarrow> iam_world \<Rightarrow> iam_world" where
  "drop_org A W = W\<lparr>iw_tenants := fmdrop A (iw_tenants W),
     iw_orgs := fmmap_keys (\<lambda>i row. if i = A then row\<lparr>or_deleted := True\<rparr> else row) (iw_orgs W),
     iw_projects := fmmap_keys (\<lambda>p row. if pj_orga row = A then row\<lparr>pj_deleted := True\<rparr> else row) (iw_projects W),
     iw_groups := fmmap_keys (\<lambda>g row. if gr_orga row = A then row\<lparr>gr_deleted := True\<rparr> else row) (iw_groups W),
     iw_members := {(u, or, g) \<in> iw_members W. or \<noteq> A}\<rparr>"

lemma drop_org_simps:
  shows "has_tenant (drop_org A W) B \<longleftrightarrow> has_tenant W B \<and> B \<noteq> A" "tuples_of (drop_org A W) B = (if B = A then {} else tuples_of W B)"
    "live_org (drop_org A W) B \<longleftrightarrow> live_org W B \<and> B \<noteq> A" "owner_of (drop_org A W) B u \<longleftrightarrow> owner_of W B u \<and> B \<noteq> A"
    "live_project (drop_org A W) B p \<longleftrightarrow> live_project W B p \<and> B \<noteq> A" "live_group (drop_org A W) B g row \<longleftrightarrow> live_group W B g row \<and> B \<noteq> A"
    "owner_group (drop_org A W) B g \<longleftrightarrow> owner_group W B g \<and> B \<noteq> A"
proof -
  show "has_tenant (drop_org A W) B \<longleftrightarrow> has_tenant W B \<and> B \<noteq> A" "tuples_of (drop_org A W) B = (if B = A then {} else tuples_of W B)"
    by (auto simp: drop_org_def has_tenant_def tuples_of_def)
  show "live_org (drop_org A W) B \<longleftrightarrow> live_org W B \<and> B \<noteq> A" "owner_of (drop_org A W) B u \<longleftrightarrow> owner_of W B u \<and> B \<noteq> A"
    by (cases "fmlookup (iw_orgs W) B"; simp add: drop_org_def live_org_def owner_of_def)+
  show "live_project (drop_org A W) B p \<longleftrightarrow> live_project W B p \<and> B \<noteq> A"
    by (cases "fmlookup (iw_projects W) p"; auto simp add: drop_org_def live_project_def)
  have g: "live_group (drop_org A W) B g row \<longleftrightarrow> live_group W B g row \<and> B \<noteq> A" for row
    by (cases "fmlookup (iw_groups W) g"; auto simp add: drop_org_def live_group_def)
  show "live_group (drop_org A W) B g row \<longleftrightarrow> live_group W B g row \<and> B \<noteq> A" by (rule g)
  show "owner_group (drop_org A W) B g \<longleftrightarrow> owner_group W B g \<and> B \<noteq> A" by (auto simp: owner_group_def g)
qed

lemma drop_org_inv:
  assumes "iam_inv E W"
  shows "iam_inv E (drop_org A W)"
proof (rule iam_invI)
  note inv = iam_invD [OF assms]
  have members: "iw_members (drop_org A W) = {(u, or, g) \<in> iw_members W. or \<noteq> A}" by (simp add: drop_org_def)
  have "finite {(u, or, g) \<in> iw_members W. or \<noteq> A}" using inv(1) by (auto simp: ids_ok_def intro: rev_finite_subset [of "iw_members W"])
  moreover have "fmdom (iw_orgs (drop_org A W)) = fmdom (iw_orgs W)" "fmdom (iw_projects (drop_org A W)) = fmdom (iw_projects W)"
    "fmdom (iw_groups (drop_org A W)) = fmdom (iw_groups W)" "iw_users (drop_org A W) = iw_users W" by (simp_all add: drop_org_def)
  moreover have "pj_orga r |\<in>| fmdom (iw_orgs W)" if "fmlookup (iw_projects (drop_org A W)) p = Some r" for p r
    using that inv(1) unfolding ids_ok_def by (auto simp: drop_org_def split: if_splits)
  moreover have "gr_orga r |\<in>| fmdom (iw_orgs W)" if "fmlookup (iw_groups (drop_org A W)) g = Some r" for g r
    using that inv(1) unfolding ids_ok_def by (auto simp: drop_org_def split: if_splits)
  moreover have "finite (tuples_of (drop_org A W) B)" for B using inv(1) by (simp add: drop_org_simps ids_ok_def)
  ultimately show "ids_ok E (drop_org A W)" using inv(1) unfolding ids_ok_def members by simp blast
  show "tenants_ok (drop_org A W)"
    using inv(2) unfolding tenants_ok_def drop_org_simps by (auto simp: drop_org_def split: if_splits)
  fix B assume "has_tenant (drop_org A W) B"
  then have B: "has_tenant W B" "B \<noteq> A" by (auto simp: drop_org_simps)
  show "rights_at (drop_org A W) B" using inv(3) [OF B(1)] B(2) by (simp add: rights_at_def drop_org_simps)
  show "owners_at (drop_org A W) B" using inv(5) [OF B(1)] B(2) by (simp add: owners_at_def drop_org_simps)
  show "members_at (drop_org A W) B" using inv(4) [OF B(1)] B(2) by (simp add: members_at_def belongs_def drop_org_simps members)
qed

lemma organization_DeleteHandler_inv:
  assumes "calm E" "iam_inv E W" "organization_DeleteHandler E A user W = (W', 200)"
  shows "iam_inv E W'"
proof -
  from assms(3) obtain projects W1 W2 where list: "project_FindAllByOrgaId E A W = Inr projects"
    and loop: "loopI (\<lambda>p. RemoveProject E A p) (map fst projects) W = (W1, None)"
    and rel: "DeleteRelationOrganization E A W1 = (W2, None)" and del: "iam_organization_Delete E A W2 = (W', None)"
    by (auto simp: organization_DeleteHandler_def thenI_def owner_check_status split: sum.splits prod.splits option.splits)
  have "canonical E p" if "p \<in> set (map fst projects)" for p
    using that list iam_invD(1) [OF assms(2)]
    by (auto simp: project_FindAllByOrgaId_def find_all_calm [OF assms(1)] set_gentries ids_ok_def fmdomI)
  then have inv1: "iam_inv E W1" by (rule remove_loop_inv [OF assms(1,2) loop])
  have "has_tenant W1 A" and W2: "W2 = W1\<lparr>iw_tenants := fmdrop A (iw_tenants W1)\<rparr>"
    using rel by (auto simp: DeleteRelationOrganization_def tenancy_Delete_def has_tenant_def split: if_splits)
  then have "canonical E A" using has_tenant_canonical [OF iam_invD(1,2) [OF inv1]] by simp
  then have "W' = drop_org A W1"
    using del by (auto simp: iam_organization_Delete_def group_DeleteAllByOrgaId_def calm_simps [OF assms(1)] Let_def W2 drop_org_def)
  then show ?thesis using drop_org_inv [OF inv1] by simp
qed

end
