(* ===== verification/Iam_Reach.thy ===== *)
theory Iam_Reach
  imports Iam_Orga
begin

text \<open>
  Sequences of requests. A step is a handler that answers 200, or a reconciliation that reports no failure, in an
  environment where the database and Permify answer; removals of users and deletions of projects name them by canonical
  texts. In every state reached the tenants of Permify and the tables agree, and what Permify answers is what the
  tables say.

  What is left out: a request that ends in a 500 after it has changed one of the two stores (an invitation with an unknown
  group, for example), and a removal by another text of the identifier (shown among the properties). Both
  leave the two stores apart, so no invariant of this kind holds with them.
\<close>

section \<open>Reachable states\<close>

definition iam_start :: "iam_env \<Rightarrow> iam_world \<Rightarrow> bool" where
  "iam_start E W \<longleftrightarrow> iw_tenants W = fmempty \<and> iw_orgs W = fmempty \<and> iw_projects W = fmempty \<and> iw_groups W = fmempty \<and> iw_members W = {} \<and>
     (\<forall>u\<in>fset (fmdom (iw_users W)). canonical E u)"

inductive iam_step :: "iam_env \<Rightarrow> iam_world \<Rightarrow> iam_world \<Rightarrow> bool" for E where
  group_saved: "CreateOrUpdateOrganizationGroup E orgaId body W = (W', 200) \<Longrightarrow> uuid_value E (gb_id body) \<Longrightarrow> iam_step E W W'"
| group_deleted: "DeleteOrganizationGroup E orgaId groupId W = (W', 200) \<Longrightarrow> iam_step E W W'"
| group_duplicated: "DuplicateOrganizationGroup E orgaId groupId name W = (W', 200) \<Longrightarrow> iam_step E W W'"
| user_invited: "InviteIntoOrganization E orgaId code groupIds W = (W', 200) \<Longrightarrow> iam_step E W W'"
| user_removed: "RemoveFromOrganization E orgaId (Some userId) W = (W', 200) \<Longrightarrow> canonical E userId \<Longrightarrow> iam_step E W W'"
| project_saved: "CreateOrUpdateProject E orgaId bodyId name W = (W', 200) \<Longrightarrow> iam_step E W W'"
| project_deleted: "DeleteProject E orgaId projectId W = (W', 200) \<Longrightarrow> canonical E projectId \<Longrightarrow> iam_step E W W'"
| orga_created: "iam_organization_Create E user name W = (W', 200) \<Longrightarrow> iam_step E W W'"
| orga_updated: "organization_Update E orgaId name W = (W', 200) \<Longrightarrow> iam_step E W W'"
| orga_transferred: "Transfer E orgaId user code W = (W', 200) \<Longrightarrow> iam_step E W W'"
| orga_deleted: "organization_DeleteHandler E orgaId user W = (W', 200) \<Longrightarrow> iam_step E W W'"
| groups_reconciled: "ReconcilePredefinedGroups E force W = (W', R, None) \<Longrightarrow> rr_failedIds R = [] \<Longrightarrow> iam_step E W W'"

inductive iam_reach :: "iam_env \<Rightarrow> iam_world \<Rightarrow> bool" for E where
  start: "iam_start E W \<Longrightarrow> iam_reach E W"
| step: "iam_reach E W \<Longrightarrow> iam_step E W W' \<Longrightarrow> iam_reach E W'"

lemma iam_start_inv: "iam_start E W \<Longrightarrow> iam_inv E W"
  by (auto simp: iam_start_def iam_inv_def ids_ok_def tenants_ok_def tuples_of_def live_org_def has_tenant_def)

lemma iam_step_inv: "iam_step E W W' \<Longrightarrow> calm E \<Longrightarrow> iam_inv E W \<Longrightarrow> iam_inv E W'"
  by (induction rule: iam_step.induct)
     (blast intro: CreateOrUpdateOrganizationGroup_inv DeleteOrganizationGroup_inv DuplicateOrganizationGroup_inv InviteIntoOrganization_inv
       RemoveFromOrganization_inv CreateOrUpdateProject_inv DeleteProject_inv iam_organization_Create_inv organization_Update_inv Transfer_inv
       organization_DeleteHandler_inv ReconcilePredefinedGroups_inv)+

lemma iam_reach_inv: "iam_reach E W \<Longrightarrow> calm E \<Longrightarrow> iam_inv E W"
  by (induction rule: iam_reach.induct) (auto intro: iam_start_inv iam_step_inv)


section \<open>What the tables say\<close>

definition db_tuples :: "iam_world \<Rightarrow> uuid \<Rightarrow> tuple set" where
  "db_tuples W A =
     {org_tuple A ps g | ps g. \<exists>row. live_group W A g row \<and> ps \<in> set (gr_sets row) \<inter> set organization_sets} \<union>
     {proj_tuple p ps g | p ps g. live_project W A p \<and> (\<exists>row. live_group W A g row \<and> ps \<in> set (gr_sets row) \<inter> set project_sets \<and> covers row p)} \<union>
     {parent_tuple p A | p. live_project W A p} \<union>
     {assignee_tuple g u | g u. belongs W A u g}"

lemma db_tuples_simps [simp]:
  "org_tuple B ps g \<in> db_tuples W A \<longleftrightarrow> B = A \<and> (\<exists>row. live_group W A g row \<and> ps \<in> set (gr_sets row) \<and> ps \<in> set organization_sets)"
  "proj_tuple p ps g \<in> db_tuples W A \<longleftrightarrow>
     live_project W A p \<and> (\<exists>row. live_group W A g row \<and> ps \<in> set (gr_sets row) \<and> ps \<in> set project_sets \<and> covers row p)"
  "parent_tuple p B \<in> db_tuples W A \<longleftrightarrow> B = A \<and> live_project W A p"
  "assignee_tuple g u \<in> db_tuples W A \<longleftrightarrow> belongs W A u g"
  by (auto simp: db_tuples_def)

lemma db_tuples_shaped: "x \<in> db_tuples W A \<Longrightarrow> shaped A x"
  by (auto simp: db_tuples_def)

lemma has_rel_organization:
  assumes "\<And>x. x \<in> T \<Longrightarrow> shaped A x"
  shows "has_rel T ''organization'' B rel u \<longleftrightarrow> (\<exists>g. org_tuple B rel g \<in> T \<and> assignee_tuple g u \<in> T)"
proof -
  have "\<lparr>t_etype = ''organization'', t_eid = B, t_rel = rel, t_stype = ''user'', t_sid = u, t_srel = []\<rparr> \<notin> T"
    using assms by (fastforce simp: shaped_def tuple_defs entity_defs)
  then show ?thesis by (simp add: has_rel_iff tuple_defs entity_defs)
qed

lemma has_rel_project:
  assumes "\<And>x. x \<in> T \<Longrightarrow> shaped A x"
  shows "has_rel T ''project'' p rel u \<longleftrightarrow> (\<exists>g. proj_tuple p rel g \<in> T \<and> assignee_tuple g u \<in> T)"
proof -
  have "\<lparr>t_etype = ''project'', t_eid = p, t_rel = rel, t_stype = ''user'', t_sid = u, t_srel = []\<rparr> \<notin> T"
    using assms by (fastforce simp: shaped_def tuple_defs entity_defs)
  then show ?thesis by (simp add: has_rel_iff tuple_defs entity_defs)
qed

text \<open>Permissions of an organization do not go through a parent, so only the relations matter.\<close>

lemma organization_refs:
  assumes "permission_of DefaultSchema ''organization'' name = Some refs"
  shows "Parent x \<notin> set refs"
proof -
  have "list_all (\<lambda>d. ed_name d = ''organization'' \<longrightarrow> list_all (\<lambda>(n, refs). list_all (\<lambda>r. case r of Ref _ \<Rightarrow> True | Parent _ \<Rightarrow> False) refs) (ed_permissions d)) DefaultSchema"
    by code_simp
  then show ?thesis
    using assms by (fastforce simp: permission_of_def list_all_iff find_Some_iff split: option.splits dest: map_of_SomeD)
qed

lemma allows_organization_cong:
  assumes "\<And>rel. has_rel T ''organization'' A rel u = has_rel T' ''organization'' A rel u"
  shows "allows DefaultSchema T n ''organization'' A name u = allows DefaultSchema T' n ''organization'' A name u"
proof (induction n arbitrary: name)
  case (Suc n)
  show ?case
  proof (cases "permission_of DefaultSchema ''organization'' name")
    case (Some refs)
    have "list_ex (\<lambda>r. case r of Ref x \<Rightarrow> allows DefaultSchema T n ''organization'' A x u | Parent x \<Rightarrow> P x) refs =
          list_ex (\<lambda>r. case r of Ref x \<Rightarrow> allows DefaultSchema T' n ''organization'' A x u | Parent x \<Rightarrow> Q x) refs" for P Q
      using organization_refs [OF Some] by (auto simp: list_ex_iff Suc.IH split: perm_ref.splits)
    then show ?thesis by (simp add: Some)
  qed (simp add: assms)
qed simp

lemma allows_project_cong:
  assumes org: "\<And>rel. has_rel T ''organization'' A rel u = has_rel T' ''organization'' A rel u"
    and rel: "\<And>rel. has_rel T ''project'' p rel u = has_rel T' ''project'' p rel u"
    and parents: "\<And>B. parent_tuple p B \<in> T \<longleftrightarrow> B = A" "\<And>B. parent_tuple p B \<in> T' \<longleftrightarrow> B = A"
  shows "allows DefaultSchema T n ''project'' p name u = allows DefaultSchema T' n ''project'' p name u"
proof (induction n arbitrary: name)
  case (Suc n)
  have par: "(\<exists>B\<in>parents_of T ''project'' p. allows DefaultSchema T n ''organization'' B x u) = (\<exists>B\<in>parents_of T' ''project'' p. allows DefaultSchema T' n ''organization'' B x u)" for x
    using parents allows_organization_cong [of T A u T', OF org] by (simp add: parents_of_iff Bex_def parent_tuple_def entity_defs)
  show ?case by (cases "permission_of DefaultSchema ''project'' name") (simp_all add: rel par Suc.IH)
qed simp


section \<open>Access in reachable states\<close>

lemma belongs_live: "members_at W A \<Longrightarrow> belongs W A u g \<Longrightarrow> \<exists>row. live_group W A g row"
  unfolding members_at_def belongs_def owner_group_def by blast

lemma inv_has_rel:
  assumes "iam_inv E W" "has_tenant W A"
  shows "has_rel (tuples_of W A) ''organization'' A rel u = has_rel (db_tuples W A) ''organization'' A rel u"
    "live_project W A p \<Longrightarrow> has_rel (tuples_of W A) ''project'' p rel u = has_rel (db_tuples W A) ''project'' p rel u"
proof -
  note R = iam_invD(3) [OF assms(1,2)] and M = iam_invD(4) [OF assms(1,2)]
  have shaped: "x \<in> tuples_of W A \<Longrightarrow> shaped A x" for x using R by (simp add: rights_at_def)
  have asg: "assignee_tuple g u \<in> tuples_of W A \<longleftrightarrow> belongs W A u g" for g u using M by (simp add: members_at_def)
  have live: "live_group W A g row \<Longrightarrow> live_group W A g row' \<Longrightarrow> row' = row" for g row row' by (simp add: live_group_def)
  have org: "belongs W A u g \<Longrightarrow> org_tuple A rel g \<in> tuples_of W A \<longleftrightarrow> org_tuple A rel g \<in> db_tuples W A" for g
    using belongs_live [OF M] R unfolding rights_at_def db_tuples_simps by (metis live)
  have proj: "live_project W A p \<Longrightarrow> belongs W A u g \<Longrightarrow> proj_tuple p rel g \<in> tuples_of W A \<longleftrightarrow> proj_tuple p rel g \<in> db_tuples W A" for g
    using belongs_live [OF M] R unfolding rights_at_def db_tuples_simps by (metis live)
  have t: "has_rel (tuples_of W A) ''organization'' A rel u \<longleftrightarrow> (\<exists>g. org_tuple A rel g \<in> tuples_of W A \<and> belongs W A u g)"
    "has_rel (tuples_of W A) ''project'' p rel u \<longleftrightarrow> (\<exists>g. proj_tuple p rel g \<in> tuples_of W A \<and> belongs W A u g)"
    by (simp_all add: has_rel_organization [of "tuples_of W A" A] has_rel_project [of "tuples_of W A" A] shaped asg)
  have d: "has_rel (db_tuples W A) ''organization'' A rel u \<longleftrightarrow> (\<exists>g. org_tuple A rel g \<in> db_tuples W A \<and> belongs W A u g)"
    "has_rel (db_tuples W A) ''project'' p rel u \<longleftrightarrow> (\<exists>g. proj_tuple p rel g \<in> db_tuples W A \<and> belongs W A u g)"
    by (simp_all add: has_rel_organization [of "db_tuples W A" A] has_rel_project [of "db_tuples W A" A] db_tuples_shaped del: db_tuples_simps(1,2))
  show "has_rel (tuples_of W A) ''organization'' A rel u = has_rel (db_tuples W A) ''organization'' A rel u"
    unfolding t d using org by blast
  show "live_project W A p \<Longrightarrow> has_rel (tuples_of W A) ''project'' p rel u = has_rel (db_tuples W A) ''project'' p rel u"
    unfolding t d using proj by blast
qed

lemma permission_kinds:
  "perm \<in> set organization_permissions \<Longrightarrow> PermissionsEntityMap perm = ''organization''"
  "perm \<in> set project_permissions \<Longrightarrow> PermissionsEntityMap perm = ''project''"
proof -
  have "list_all (\<lambda>p. p \<notin> set organization_permissions) project_permissions" by code_simp
  then show "perm \<in> set organization_permissions \<Longrightarrow> PermissionsEntityMap perm = ''organization''"
    "perm \<in> set project_permissions \<Longrightarrow> PermissionsEntityMap perm = ''project''"
    by (auto simp: PermissionsEntityMap_def entity_defs list_all_iff)
qed

lemma CanAccess_calm:
  assumes "calm E" "permify_laws E" "tenants_ok W" "has_tenant W A"
  shows "CanAccess E W A perm e u \<longleftrightarrow> allows DefaultSchema (tuples_of W A) 20 (PermissionsEntityMap perm) e perm u"
proof -
  obtain t where t: "fmlookup (iw_tenants W) A = Some t" using assms(4) by (auto simp: has_tenant_def)
  then have "tn_schema t = Some DefaultSchema" using assms(3) by (simp add: tenants_ok_def)
  then show ?thesis
    using assms(1,2) t unfolding permify_laws_def by (simp add: CanAccess_def calm_simps tuples_of_def GetTuple_def entity_User_def)
qed

lemma access_organization:
  assumes "calm E" "permify_laws E" "iam_inv E W" "live_org W A" "perm \<in> set organization_permissions"
  shows "CanAccess E W A perm A u \<longleftrightarrow> allows DefaultSchema (db_tuples W A) 20 ''organization'' A perm u"
proof -
  have A: "has_tenant W A" using assms(3,4) by (simp add: iam_inv_def tenants_ok_def)
  show ?thesis
    unfolding CanAccess_calm [OF assms(1,2) iam_invD(2) [OF assms(3)] A] permission_kinds(1) [OF assms(5)]
    by (rule allows_organization_cong) (rule inv_has_rel(1) [OF assms(3) A])
qed

lemma access_project:
  assumes "calm E" "permify_laws E" "iam_inv E W" "live_org W A" "live_project W A p" "perm \<in> set project_permissions"
  shows "CanAccess E W A perm p u \<longleftrightarrow> allows DefaultSchema (db_tuples W A) 20 ''project'' p perm u"
proof -
  have A: "has_tenant W A" using assms(3,4) by (simp add: iam_inv_def tenants_ok_def)
  show ?thesis
    unfolding CanAccess_calm [OF assms(1,2) iam_invD(2) [OF assms(3)] A] permission_kinds(2) [OF assms(6)]
    by (rule allows_project_cong [where A = A])
       (use inv_has_rel [OF assms(3) A] iam_invD(3) [OF assms(3) A] assms(5) in \<open>auto simp: rights_at_def\<close>)
qed

end
