(* ===== verification/Iam_Properties.thy ===== *)
theory Iam_Properties
  imports Iam_Reach
begin

text \<open>
  The properties of the access services, with a small environment in which their hypotheses hold.
\<close>

section \<open>Rights of owners and of others\<close>

lemma owner_refs:
  assumes "perm \<in> set organization_permissions"
  shows "\<exists>refs. permission_of DefaultSchema ''organization'' perm = Some refs \<and> Ref SpxOwner \<in> set refs"
proof -
  have "list_all (\<lambda>perm. case permission_of DefaultSchema ''organization'' perm of None \<Rightarrow> False | Some refs \<Rightarrow> list_ex (\<lambda>r. r = Ref SpxOwner) refs) organization_permissions"
    by code_simp
  then show ?thesis using assms by (auto simp: list_all_iff list_ex_iff split: option.splits)
qed

text \<open>Every permission of a project goes back to the owners of the parent, in at most two steps.\<close>

lemma owner_project_refs:
  assumes "perm \<in> set project_permissions"
  shows "\<exists>refs. permission_of DefaultSchema ''project'' perm = Some refs \<and>
    (Parent SpxOwner \<in> set refs \<or> (\<exists>q refs'. Ref q \<in> set refs \<and> permission_of DefaultSchema ''project'' q = Some refs' \<and> Parent SpxOwner \<in> set refs'))"
proof -
  have "list_all (\<lambda>perm. case permission_of DefaultSchema ''project'' perm of None \<Rightarrow> False | Some refs \<Rightarrow>
      list_ex (\<lambda>r. r = Parent SpxOwner) refs \<or>
      list_ex (\<lambda>r. case r of Ref q \<Rightarrow> (case permission_of DefaultSchema ''project'' q of None \<Rightarrow> False | Some refs' \<Rightarrow> list_ex (\<lambda>r. r = Parent SpxOwner) refs') | Parent _ \<Rightarrow> False) refs)
      project_permissions"
    by code_simp
  from bspec [OF this [unfolded list_all_iff] assms] obtain refs where refs: "permission_of DefaultSchema ''project'' perm = Some refs"
    and "list_ex (\<lambda>r. r = Parent SpxOwner) refs \<or>
      list_ex (\<lambda>r. case r of Ref q \<Rightarrow> (case permission_of DefaultSchema ''project'' q of None \<Rightarrow> False | Some refs' \<Rightarrow> list_ex (\<lambda>r. r = Parent SpxOwner) refs') | Parent _ \<Rightarrow> False) refs"
    by (cases "permission_of DefaultSchema ''project'' perm") simp_all
  then consider "Parent SpxOwner \<in> set refs"
    | r where "r \<in> set refs" "case r of Ref q \<Rightarrow> (case permission_of DefaultSchema ''project'' q of None \<Rightarrow> False | Some refs' \<Rightarrow> list_ex (\<lambda>r. r = Parent SpxOwner) refs') | Parent _ \<Rightarrow> False"
    by (auto simp: list_ex_iff)
  then show ?thesis
  proof cases
    case (2 r)
    from 2(2) obtain q refs' where "r = Ref q" "permission_of DefaultSchema ''project'' q = Some refs'" "Parent SpxOwner \<in> set refs'"
      by (auto simp: list_ex_iff split: option.splits perm_ref.splits)
    with 2 refs show ?thesis by blast
  qed (simp add: refs)
qed

lemma spx_owner_relation: "permission_of DefaultSchema ''organization'' SpxOwner = None"
  by code_simp

lemma allows_owner:
  assumes "has_rel T ''organization'' A SpxOwner u"
  shows "perm \<in> set organization_permissions \<Longrightarrow> allows DefaultSchema T (Suc (Suc n)) ''organization'' A perm u"
    "perm \<in> set project_permissions \<Longrightarrow> parent_tuple p A \<in> T \<Longrightarrow> allows DefaultSchema T (Suc (Suc (Suc n))) ''project'' p perm u"
proof -
  have own: "allows DefaultSchema T (Suc n) ''organization'' A SpxOwner u" for n using assms by (simp add: spx_owner_relation)
  show "perm \<in> set organization_permissions \<Longrightarrow> allows DefaultSchema T (Suc (Suc n)) ''organization'' A perm u"
    using owner_refs [of perm] own [of n] by (force simp: list_ex_iff simp del: allows.simps(2) simp: allows.simps(2) [of _ _ "Suc n"])
  have par: "allows DefaultSchema T (Suc (Suc n)) ''project'' p q u"
    if "permission_of DefaultSchema ''project'' q = Some refs" "Parent SpxOwner \<in> set refs" "parent_tuple p A \<in> T" for n q refs
    using that own [of n] by (force simp: list_ex_iff parents_of_iff parent_tuple_def entity_defs simp del: allows.simps(2) simp: allows.simps(2) [of _ _ "Suc n"])
  assume perm: "perm \<in> set project_permissions" and parent: "parent_tuple p A \<in> T"
  from owner_project_refs [OF perm] obtain refs where refs: "permission_of DefaultSchema ''project'' perm = Some refs"
    and "Parent SpxOwner \<in> set refs \<or> (\<exists>q refs'. Ref q \<in> set refs \<and> permission_of DefaultSchema ''project'' q = Some refs' \<and> Parent SpxOwner \<in> set refs')"
    by blast
  then consider "Parent SpxOwner \<in> set refs"
    | q refs' where "Ref q \<in> set refs" "permission_of DefaultSchema ''project'' q = Some refs'" "Parent SpxOwner \<in> set refs'" by blast
  then show "allows DefaultSchema T (Suc (Suc (Suc n))) ''project'' p perm u"
  proof cases
    case 1
    then show ?thesis using par [OF refs _ parent, of "Suc n"] by simp
  next
    case (2 q refs')
    then show ?thesis using par [of q refs' n] parent refs
      by (force simp: list_ex_iff simp del: allows.simps(2) simp: allows.simps(2) [of _ _ "Suc (Suc n)"])
  qed
qed

lemma allows_needs_user:
  assumes "\<And>x. x \<in> T \<Longrightarrow> \<not> of_user u x"
  shows "\<not> allows sch T n etype e name u"
proof (induction n arbitrary: etype e name)
  case (Suc n)
  have "\<not> has_rel T etype e name u" using assms by (fastforce simp: has_rel_iff of_user_def entity_defs)
  then show ?case using Suc.IH by (auto simp: list_ex_iff split: option.splits perm_ref.splits)
qed simp

lemma owner_has_rel:
  assumes "iam_inv E W" "owner_of W A u"
  shows "has_rel (db_tuples W A) ''organization'' A SpxOwner u"
proof -
  have "has_tenant W A" using assms by (auto simp: iam_inv_def tenants_ok_def live_org_def owner_of_def)
  then have "owners_at W A" by (rule iam_invD(5) [OF assms(1)])
  then obtain g row where "live_group W A g row" "gr_key row = Some PredefinedGroupOwner" "SpxOwner \<in> set (gr_sets row)"
    by (auto simp: owners_at_def owner_group_def)
  moreover have "SpxOwner \<in> set organization_sets" by code_simp
  ultimately have "org_tuple A SpxOwner g \<in> db_tuples W A" "assignee_tuple g u \<in> db_tuples W A"
    using assms(2) by (auto simp: belongs_def owner_group_def)
  then show ?thesis by (auto simp: has_rel_organization [of _ A] db_tuples_shaped simp del: db_tuples_simps)
qed

section \<open>Organizations can be created\<close>

lemma init_groups_succeeds:
  assumes "calm E" "starting E A owner og W" "set ps \<subseteq> set PredefinedGroups" "distinct (map pg_key ps)" "og \<noteq> uuidNil \<Longrightarrow> PredefinedGroupOwner \<notin> pg_key ` set ps"
  shows "\<exists>W' og'. init_groups E A og ps W = (W', Inr og')"
  using assms(2-5)
proof (induction ps arbitrary: og W)
  case (Cons p ps)
  have st: "ids_ok E W" "tenants_ok W" "has_tenant W A" using Cons.prems(1) by (auto simp: starting_def)
  have "predefined_row A p = \<lparr>gr_name = pg_name p, gr_orga = A, gr_allProjects = True, gr_projectIds = [], gr_sets = [], gr_key = Some (pg_key p), gr_deleted = False\<rparr>\<lparr>gr_sets := pg_sets p\<rparr>"
    by (simp add: predefined_row_def)
  then have "group_grants W g (predefined_row A p) \<noteq> {}" for g using predefined_grants [of p] Cons.prems(2) by (metis list.set_intros(1) subsetD)
  then have save: "SaveGroup E uuidNil (predefined_row A p) W = (saved (saved_id E uuidNil W) (predefined_row A p) W, Inr (saved_id E uuidNil W))"
    using SaveGroup_calm [OF assms(1) _ refl, of "predefined_row A p" uuidNil W] has_tenant_canonical [OF st] st(3) by (simp add: predefined_row_def)
  have "starting E A owner (if pg_key p = PredefinedGroupOwner then saved_id E uuidNil W else og) (saved (saved_id E uuidNil W) (predefined_row A p) W)"
    using Cons.prems PredefinedGroups_keys(3) [of p] by (intro init_group_starting [OF assms(1) Cons.prems(1) save]) auto
  then have "\<exists>W' og'. init_groups E A (if pg_key p = PredefinedGroupOwner then saved_id E uuidNil W else og) ps (saved (saved_id E uuidNil W) (predefined_row A p) W) = (W', Inr og')"
    by (rule Cons.IH) (use Cons.prems in \<open>auto split: if_splits\<close>)
  then show ?case by (simp add: save)
qed simp

lemma InitOrganization_succeeds:
  assumes "calm E" "iam_inv E W" "A = ie_newId E W" "\<not> or_deleted row"
  shows "\<exists>W'. InitOrganization E A name (or_owner row) (W\<lparr>iw_orgs := fmupd A row (iw_orgs W)\<rparr>) = (W', None) \<and> has_tenant W' A \<and> owner_of W' A (or_owner row)"
proof -
  let ?W1 = "W\<lparr>iw_orgs := fmupd A row (iw_orgs W)\<rparr>"
  let ?W2 = "?W1\<lparr>iw_tenants := fmupd A \<lparr>tn_schema = Some DefaultSchema, tn_bundle = True, tn_tuples = {}\<rparr> (iw_tenants ?W1)\<rparr>"
  have none: "fmlookup (iw_tenants ?W1) A = None"
    using fresh_id(1) [OF assms(1) iam_invD(1) [OF assms(2)], folded assms(3)] by (auto simp: used_ids_def fmdom_notD)
  note st = new_organization_starting [OF assms]
  obtain W3 og where groups: "init_groups E A uuidNil PredefinedGroups ?W2 = (W3, Inr og)"
    using init_groups_succeeds [OF assms(1) st subset_refl PredefinedGroups_keys(1)] by auto
  have "starting E A (or_owner row) og W3"
    using init_groups_starting(1) [OF assms(1) st groups PredefinedGroups_keys(1)] PredefinedGroups_keys(3) by auto
  then have st3: "has_tenant W3 A" "owner_of W3 A (or_owner row)" by (simp_all add: starting_def)
  obtain W4 where W4: "W4 = W3\<lparr>iw_orgs := fmmap_keys (\<lambda>i row. if i = A \<and> \<not> or_deleted row then row\<lparr>or_version := PredefinedCatalogVersion\<rparr> else row) (iw_orgs W3)\<rparr>" by simp
  note v = version_simps [OF W4]
  have "InitOrganization E A name (or_owner row) ?W1 = (map_tuples A (\<lambda>T. {x \<in> T. \<not> of_user (or_owner row) x} \<union> {assignee_tuple og (or_owner row)}) W4, None)"
    using CreateRelationOrganization_calm [OF assms(1) none, of name] groups st3(1)
    by (simp add: InitOrganization_def thenI_def InitializeDefaultGroups_def SetPredefinedCatalogVersion_def calm_simps [OF assms(1)] W4 [symmetric]
        CreateOrUpdateRelationUserGroup_calm [OF assms(1)] v)
  then show ?thesis using st3 by (auto simp: v)
qed

lemma iam_organization_Create_succeeds:
  assumes "calm E" "iam_inv E W" "organization_IsQuotaCreationReached E user W = Inr False"
  shows "\<exists>W' A p. iam_organization_Create E user name W = (W', 200) \<and> owner_of W' A user \<and> live_project W' A p"
proof -
  let ?A = "ie_newId E W"
  let ?row = "\<lparr>or_name = name, or_owner = user, or_version = 0, or_deleted = False\<rparr>"
  obtain W2 where init: "InitOrganization E ?A name user (W\<lparr>iw_orgs := fmupd ?A ?row (iw_orgs W)\<rparr>) = (W2, None)"
    and W2: "has_tenant W2 ?A" "owner_of W2 ?A user"
    using InitOrganization_succeeds [OF assms(1,2) refl, of ?row name] by auto
  have inv2: "iam_inv E W2" using InitOrganization_inv [OF assms(1,2) refl, of ?row] init by simp
  let ?p = "ie_newId E W2"
  have "iam_organization_Create E user name W = (new_project ?A ?p ''default'' W2, 200)"
    using init InitializeProject_calm [OF assms(1) iam_invD(1,2) [OF inv2] W2(1)]
    by (simp add: iam_organization_Create_def assms(3) organization_Save_def Let_def calm_simps [OF assms(1)] thenI_def)
  moreover have "owner_of (new_project ?A ?p ''default'' W2) ?A user" using W2 by (simp add: new_project_def)
  moreover have "live_project (new_project ?A ?p ''default'' W2) ?A ?p" by (simp add: new_project_def live_project_def)
  ultimately show ?thesis by blast
qed


section \<open>A small environment\<close>

definition demo_newId :: "iam_world \<Rightarrow> uuid" where
  "demo_newId W = replicate (Suc (Max (insert 40 (length ` used_ids W)))) (CHR ''n'')"

definition demo_env :: iam_env where
  "demo_env = \<lparr>ie_uuids = \<lparr>uuid_Parse = (\<lambda>s. Some (if s = ''B'' then ''b'' else s)), NewSHA1 = (\<lambda>_ s. s)\<rparr>,
     ie_connected = True, ie_fails = (\<lambda>_. False),
     ie_check = (\<lambda>sch T n x. allows sch T n (t_etype x) (t_eid x) (t_rel x) (t_sid x)),
     ie_newId = demo_newId, ie_superAdmins = []\<rparr>"

lemma demo_laws: "permify_laws demo_env"
  by (simp add: permify_laws_def demo_env_def)

lemma demo_canonical: "canonical demo_env u \<longleftrightarrow> u \<noteq> ''B'' \<and> u \<noteq> uuidNil"
  by (auto simp: canonical_def demo_env_def)

lemma demo_calm: "calm demo_env"
proof -
  have "demo_newId W \<notin> used_ids W \<and> canonical demo_env (demo_newId W)" if "finite (used_ids W)" for W
  proof -
    have bound: "n \<le> Max (insert 40 (length ` used_ids W))" if "n \<in> insert 40 (length ` used_ids W)" for n
      using that \<open>finite (used_ids W)\<close> by (intro Max_ge) auto
    have len: "length (demo_newId W) = Suc (Max (insert 40 (length ` used_ids W)))" by (simp add: demo_newId_def)
    have "demo_newId W \<notin> used_ids W"
    proof
      assume "demo_newId W \<in> used_ids W"
      then have "length (demo_newId W) \<in> insert 40 (length ` used_ids W)" by simp
      from bound [OF this] len show False by simp
    qed
    moreover have "40 < length (demo_newId W)" using bound [of 40] len by simp
    then have "demo_newId W \<noteq> ''B''" "demo_newId W \<noteq> uuidNil" by (auto simp: uuidNil_def)
    ultimately show ?thesis by (simp add: demo_canonical)
  qed
  then show ?thesis by (simp add: calm_def) (simp add: demo_env_def)
qed

definition demo_start :: iam_world where
  "demo_start = \<lparr>iw_tenants = fmempty, iw_orgs = fmempty, iw_projects = fmempty, iw_groups = fmempty,
     iw_users = fmap_of_list [(''a'', \<lparr>us_invite = ''ia'', us_active = True\<rparr>), (''b'', \<lparr>us_invite = ''ib'', us_active = True\<rparr>)],
     iw_members = {}, iw_products = fmempty, iw_quotas = fmap_of_list [(''User_Limit_Organization'', ''10'')], iw_overrides = fmempty\<rparr>"

lemma demo_start: "iam_start demo_env demo_start"
  by (simp add: iam_start_def demo_start_def demo_canonical uuidNil_def)

lemma demo_quota: "organization_IsQuotaCreationReached demo_env ''a'' demo_start = Inr False"
proof -
  have "(case organization_IsQuotaCreationReached demo_env ''a'' demo_start of Inl _ \<Rightarrow> False | Inr b \<Rightarrow> \<not> b)" by code_simp
  then show ?thesis by (simp split: sum.splits)
qed

lemma demo_reach: obtains W A p where "iam_reach demo_env W" "owner_of W A ''a''" "live_project W A p"
proof -
  obtain W A p where W: "iam_organization_Create demo_env ''a'' ''acme'' demo_start = (W, 200)" "owner_of W A ''a''" "live_project W A p"
    using iam_organization_Create_succeeds [OF demo_calm iam_start_inv [OF demo_start] demo_quota] by blast
  have "iam_reach demo_env W" by (rule iam_reach.step [OF iam_reach.start [OF demo_start] orga_created [OF W(1)]])
  then show thesis using that W(2,3) by blast
qed


section \<open>Properties\<close>

text \<open>
  C12. Take any sequence of requests that the services answered with 200, with no failing call to the database or to
  Permify, in which every removal of a user and every deletion of a project names the user or the project by the
  canonical text of the identifier (what another text does is shown below). Then what Permify answers for an organization and
  for its projects is what the tables say: the rights of a user are those of the groups the user belongs to, where the
  members of a group are the rows of \<^verbatim>\<open>user_organizations\<close>, the owner belongs to the owner group, and a group reaches the
  projects it lists or all of them.
\<close>

theorem access_follows_database:
  assumes "calm E" "permify_laws E" "iam_reach E W" "live_org W A"
    and "entity = A \<and> perm \<in> set organization_permissions \<or> live_project W A entity \<and> perm \<in> set project_permissions"
  shows "CanAccess E W A perm entity u \<longleftrightarrow> allows DefaultSchema (db_tuples W A) 20 (PermissionsEntityMap perm) entity perm u"
  using assms(5) access_organization [OF assms(1,2) iam_reach_inv [OF assms(3,1)] assms(4)]
    access_project [OF assms(1,2) iam_reach_inv [OF assms(3,1)] assms(4)] permission_kinds
  by metis

theorem access_follows_database_witness:
  "\<exists>W A p. live_project W A p \<and>
     (CanAccess demo_env W A ''ProjectInstanceTerminal'' p ''b'' \<longleftrightarrow> allows DefaultSchema (db_tuples W A) 20 (PermissionsEntityMap ''ProjectInstanceTerminal'') p ''ProjectInstanceTerminal'' ''b'')"
proof -
  obtain W A p where W: "iam_reach demo_env W" "owner_of W A ''a''" "live_project W A p" by (rule demo_reach)
  have "live_org W A" using W(2) by (auto simp: owner_of_def live_org_def)
  moreover have "''ProjectInstanceTerminal'' \<in> set project_permissions" by code_simp
  ultimately show ?thesis
    using access_follows_database [OF demo_calm demo_laws W(1), of A p "''ProjectInstanceTerminal''" "''b''"] W(3) by blast
qed

text \<open>
  C15. After the same sequences of requests (each answered with 200, no failing call, users and projects removed by the
  canonical texts of their identifiers) the owner of an organization has every permission on it and on its
  projects, and a user who is neither the owner nor a member has none. A request that ends in a 500 half way, and a
  removal by another text of the identifier (shown below), can leave a user who is not a member with permissions.
\<close>

theorem owner_all_outsider_nothing:
  assumes "calm E" "permify_laws E" "iam_reach E W" "owner_of W A u"
    and "entity = A \<and> perm \<in> set organization_permissions \<or> live_project W A entity \<and> perm \<in> set project_permissions"
  shows "CanAccess E W A perm entity u \<and> ((\<forall>g. (v, A, g) \<notin> iw_members W) \<and> v \<noteq> u \<longrightarrow> \<not> CanAccess E W A perm entity v)"
proof -
  note inv = iam_reach_inv [OF assms(3,1)]
  have live: "live_org W A" using assms(4) by (auto simp: owner_of_def live_org_def)
  note eq = access_organization [OF assms(1,2) inv live] access_project [OF assms(1,2) inv live]
  note own = allows_owner(1) [OF owner_has_rel [OF inv assms(4)], of perm "18"] allows_owner(2) [OF owner_has_rel [OF inv assms(4)], of perm _ "17"]
  have n: "Suc (Suc 18) = 20" "Suc (Suc (Suc 17)) = (20 :: nat)" by simp_all
  have yes: "CanAccess E W A perm entity u" using assms(5) eq own unfolding n by (auto simp: simp del: allows.simps)
  have "\<not> of_user v x" if "x \<in> db_tuples W A" "\<forall>g. (v, A, g) \<notin> iw_members W" "v \<noteq> u" for x
    using that assms(4) by (auto simp: db_tuples_def belongs_def owner_of_def)
  then show ?thesis using yes assms(5) eq allows_needs_user [of "db_tuples W A" v] by metis
qed

theorem owner_all_outsider_nothing_witness:
  "\<exists>W A. CanAccess demo_env W A ''OrganizationIAMWrite'' A ''a'' \<and> ((\<forall>g. (''b'', A, g) \<notin> iw_members W) \<and> ''b'' \<noteq> ''a'' \<longrightarrow> \<not> CanAccess demo_env W A ''OrganizationIAMWrite'' A ''b'')"
proof -
  obtain W A p where W: "iam_reach demo_env W" "owner_of W A ''a''" "live_project W A p" by (rule demo_reach)
  have "''OrganizationIAMWrite'' \<in> set organization_permissions" by code_simp
  then show ?thesis using owner_all_outsider_nothing [OF demo_calm demo_laws W(1,2), of A "''OrganizationIAMWrite''" "''b''"] by blast
qed

text \<open>
  C25. In every state reached by such requests the creation of an organization below the user's limit succeeds, and gives the creator an
  organization with a project, on which the creator has every permission.
\<close>

theorem organization_creation_succeeds:
  assumes "calm E" "permify_laws E" "iam_reach E W" "organization_IsQuotaCreationReached E user W = Inr False"
  shows "\<exists>W' A p. iam_organization_Create E user name W = (W', 200) \<and> owner_of W' A user \<and> live_project W' A p \<and>
    (\<forall>perm\<in>set organization_permissions. CanAccess E W' A perm A user) \<and> (\<forall>perm\<in>set project_permissions. CanAccess E W' A perm p user)"
proof -
  obtain W' A p where W': "iam_organization_Create E user name W = (W', 200)" "owner_of W' A user" "live_project W' A p"
    using iam_organization_Create_succeeds [OF assms(1) iam_reach_inv [OF assms(3,1)] assms(4)] by blast
  have inv: "iam_inv E W'" using W'(1) iam_organization_Create_inv [OF assms(1) iam_reach_inv [OF assms(3,1)]] by simp
  have live: "live_org W' A" using W'(2) by (auto simp: owner_of_def live_org_def)
  note own = allows_owner(1) [OF owner_has_rel [OF inv W'(2)], of _ "18"] allows_owner(2) [OF owner_has_rel [OF inv W'(2)], of _ _ "17"]
  have n: "Suc (Suc 18) = 20" "Suc (Suc (Suc 17)) = (20 :: nat)" by simp_all
  show ?thesis
    using W' access_organization [OF assms(1,2) inv live] access_project [OF assms(1,2) inv live W'(3)] own W'(3) unfolding n
    by (intro exI [of _ W'] exI [of _ A] exI [of _ p]) (simp del: allows.simps)
qed

theorem organization_creation_succeeds_witness:
  "\<exists>W' A p. iam_organization_Create demo_env ''a'' ''acme'' demo_start = (W', 200) \<and> owner_of W' A ''a'' \<and> live_project W' A p \<and>
    (\<forall>perm\<in>set organization_permissions. CanAccess demo_env W' A perm A ''a'') \<and> (\<forall>perm\<in>set project_permissions. CanAccess demo_env W' A perm p ''a'')"
  by (rule organization_creation_succeeds [OF demo_calm demo_laws iam_reach.start [OF demo_start] demo_quota])

text \<open>
  C26. When the removal of a user, named by the canonical text of the identifier, answers 200, the user is removed from the
  tables and from Permify, whatever calls fail meanwhile: the organization lists the user in no group, and the user has
  no permission left in the organization, on no entity and whatever tuples the tenant held.
\<close>

theorem removed_user_has_no_access:
  assumes "permify_laws E" "canonical E A" "canonical E u" "RemoveFromOrganization E A (Some u) W = (W', 200)"
  shows "(\<forall>g. (u, A, g) \<notin> iw_members W') \<and> \<not> CanAccess E W' A perm entity u"
proof -
  from assms(4) obtain W1 where del: "DeleteRelationUser E A u W = (W1, None)" and rem: "RemoveUserFromOrg E A u W1 = (W', None)"
    by (auto simp: RemoveFromOrganization_def split: prod.splits option.splits if_splits)
  from del obtain t where "fmlookup (iw_tenants W1) A = Some t" "\<And>x. x \<in> tn_tuples t \<Longrightarrow> \<not> of_user u x"
    by (auto simp: DeleteRelationUser_def data_Delete_def pm_call_def matches_def of_user_def entity_User_def split: if_splits option.splits)
  moreover have "iw_tenants W' = iw_tenants W1" using rem by (auto simp: RemoveUserFromOrg_def remove_members_def split: if_splits)
  moreover have "(u, A, g) \<notin> iw_members W'" for g
    using rem assms(2,3) by (auto simp: RemoveUserFromOrg_def remove_members_def parse_id_def canonical_def split: if_splits)
  ultimately show ?thesis
    using assms(1) allows_needs_user unfolding permify_laws_def
    by (auto simp: CanAccess_def GetTuple_def entity_User_def split: option.splits)
qed

definition demo_tenant :: tenant where
  "demo_tenant = \<lparr>tn_schema = Some DefaultSchema, tn_bundle = True, tn_tuples = {org_tuple ''o'' SpxMember ''g'', assignee_tuple ''g'' ''b''}\<rparr>"

definition demo_group :: group_row where
  "demo_group = \<lparr>gr_name = ''ops'', gr_orga = ''o'', gr_allProjects = False, gr_projectIds = [], gr_sets = [SpxMember], gr_key = None, gr_deleted = False\<rparr>"

definition demo_world :: iam_world where
  "demo_world = demo_start\<lparr>iw_tenants := fmap_of_list [(''o'', demo_tenant)],
     iw_orgs := fmap_of_list [(''o'', \<lparr>or_name = ''acme'', or_owner = ''a'', or_version = 3, or_deleted = False\<rparr>),
                              (''o2'', \<lparr>or_name = ''other'', or_owner = ''c'', or_version = 3, or_deleted = False\<rparr>)],
     iw_projects := fmap_of_list [(''q'', \<lparr>pj_orga = ''o2'', pj_name = ''theirs'', pj_deleted = False\<rparr>)],
     iw_groups := fmap_of_list [(''g'', demo_group)], iw_members := {(''b'', ''o'', ''g'')}\<rparr>"

theorem removed_user_has_no_access_witness:
  "CanAccess demo_env demo_world ''o'' ''OrganizationRead'' ''o'' ''b'' \<and>
   (\<forall>g. (''b'', ''o'', g) \<notin> iw_members (fst (RemoveFromOrganization demo_env ''o'' (Some ''b'') demo_world))) \<and>
   \<not> CanAccess demo_env (fst (RemoveFromOrganization demo_env ''o'' (Some ''b'') demo_world)) ''o'' ''OrganizationRead'' ''o'' ''b''"
proof -
  have "snd (RemoveFromOrganization demo_env ''o'' (Some ''b'') demo_world) = 200" by code_simp
  then have run: "RemoveFromOrganization demo_env ''o'' (Some ''b'') demo_world =
      (fst (RemoveFromOrganization demo_env ''o'' (Some ''b'') demo_world), 200)" by (metis prod.collapse)
  have "CanAccess demo_env demo_world ''o'' ''OrganizationRead'' ''o'' ''b''" by code_simp
  moreover have "canonical demo_env ''o''" "canonical demo_env ''b''" by (simp_all add: demo_canonical uuidNil_def)
  ultimately show ?thesis using removed_user_has_no_access [OF demo_laws _ _ run] by blast
qed

lemma allows_other_user:
  assumes "\<And>x. x \<in> T' \<longleftrightarrow> x \<in> T \<and> \<not> of_user s x" "s \<noteq> u"
  shows "allows sch T' n etype e name u = allows sch T n etype e name u"
proof (induction n arbitrary: etype e name)
  case (Suc n)
  have rel: "has_rel T' etype e name u = has_rel T etype e name u"
    using assms by (simp add: has_rel_iff of_user_def entity_User_def)
  have par: "parents_of T' etype e = parents_of T etype e"
    using assms by (auto simp: parents_of_iff of_user_def entity_User_def)
  show ?case by (simp add: rel par Suc.IH split: option.split)
qed simp

text \<open>
  C35. The handler deletes the rows of the parsed identifier and the tuples of the text: when the identifier of the user
  is another text of the same UUID (capital letters, braces, no hyphens), the removal answers 200, the tables list the
  user no more, and every permission of the user in the organization stays.
\<close>

theorem removal_by_other_text_keeps_access:
  assumes "calm E" "permify_laws E" "canonical E A" "uuid_Parse (ie_uuids E) s = Some u" "u \<noteq> uuidNil" "s \<noteq> u"
    and "RemoveFromOrganization E A (Some s) W = (W', 200)"
  shows "(\<forall>g. (u, A, g) \<notin> iw_members W') \<and> (CanAccess E W' A perm entity u \<longleftrightarrow> CanAccess E W A perm entity u)"
proof -
  have tenant: "has_tenant W A"
    using assms(7) by (auto simp: RemoveFromOrganization_def DeleteRelationUser_calm [OF assms(1)] split: prod.splits option.splits if_splits)
  have u: "parse_id E s = u" "canonical E u" using assms(1,4,5) by (auto simp: parse_id_def canonical_def calm_def)
  have W': "W' = map_tuples A (\<lambda>T. {x \<in> T. \<not> of_user s x}) (W\<lparr>iw_members := {(v, B, g) \<in> iw_members W. \<not> (v = u \<and> B = A)}\<rparr>)"
    using assms(3,7) u tenant
    by (auto simp: RemoveFromOrganization_def DeleteRelationUser_calm [OF assms(1)] RemoveUserFromOrg_def remove_members_def calm_simps [OF assms(1)]
        map_tuples_members split: prod.splits if_splits)
  obtain t where t: "fmlookup (iw_tenants W) A = Some t" using tenant by (auto simp: has_tenant_def)
  have "fmlookup (iw_tenants W') A = Some (t\<lparr>tn_tuples := {x \<in> tn_tuples t. \<not> of_user s x}\<rparr>)"
    unfolding W' map_tuples_lookup using t by simp
  moreover have "allows sch {x \<in> tn_tuples t. \<not> of_user s x} n etype e name u = allows sch (tn_tuples t) n etype e name u" for sch n etype e name
    by (rule allows_other_user) (auto simp: assms(6))
  moreover have "(u, A, g) \<notin> iw_members W'" for g by (simp add: W')
  ultimately show ?thesis
    using assms(1,2) t unfolding permify_laws_def by (simp add: CanAccess_def calm_simps GetTuple_def entity_User_def split: option.split)
qed

theorem removal_by_other_text_keeps_access_witness:
  "(\<forall>g. (''b'', ''o'', g) \<notin> iw_members (fst (RemoveFromOrganization demo_env ''o'' (Some ''B'') demo_world))) \<and>
   CanAccess demo_env (fst (RemoveFromOrganization demo_env ''o'' (Some ''B'') demo_world)) ''o'' ''OrganizationRead'' ''o'' ''b''"
proof -
  have parse: "uuid_Parse (ie_uuids demo_env) ''B'' = Some ''b''" "''b'' \<noteq> uuidNil" "canonical demo_env ''o''"
    by (simp_all add: demo_canonical uuidNil_def) (simp add: demo_env_def)
  have "snd (RemoveFromOrganization demo_env ''o'' (Some ''B'') demo_world) = 200" by code_simp
  then have run: "RemoveFromOrganization demo_env ''o'' (Some ''B'') demo_world = (fst (RemoveFromOrganization demo_env ''o'' (Some ''B'') demo_world), 200)"
    by (metis prod.collapse)
  have "CanAccess demo_env demo_world ''o'' ''OrganizationRead'' ''o'' ''b''" by code_simp
  then show ?thesis
    using removal_by_other_text_keeps_access [OF demo_calm demo_laws parse(3,1,2) _ run, of "''OrganizationRead''" "''o''"] by simp
qed

definition typed :: "perm_schema \<Rightarrow> tuple \<Rightarrow> bool" where
  "typed sch x \<longleftrightarrow> list_ex (\<lambda>d. ed_name d = t_etype x \<and> (t_rel x, t_stype x, t_srel x) \<in> set (ed_relations d)) sch"

lemma shaped_typed: "shaped A x \<Longrightarrow> typed DefaultSchema x"
proof -
  assume *: "shaped A x"
  have org: "list_all (\<lambda>ps. typed DefaultSchema (org_tuple [] ps [])) organization_sets" by code_simp
  have proj: "list_all (\<lambda>ps. typed DefaultSchema (proj_tuple [] ps [])) project_sets" by code_simp
  have rest: "typed DefaultSchema (parent_tuple [] [])" "typed DefaultSchema (assignee_tuple [] [])" by code_simp+
  have any: "typed DefaultSchema (org_tuple B ps g) = typed DefaultSchema (org_tuple [] ps [])" "typed DefaultSchema (proj_tuple p ps g) = typed DefaultSchema (proj_tuple [] ps [])"
    "typed DefaultSchema (parent_tuple p B) = typed DefaultSchema (parent_tuple [] [])" "typed DefaultSchema (assignee_tuple g u) = typed DefaultSchema (assignee_tuple [] [])" for B p ps g u
    by (simp_all add: typed_def tuple_defs)
  show "typed DefaultSchema x" using * org proj rest unfolding shaped_def list_all_iff by (metis any)
qed

text \<open>
  C33. In every reachable state all tuples in the tenant of an organization are well typed in the schema: the
  relation is one of the entity, and the subject has the type the relation asks for.
\<close>

theorem tuples_well_typed:
  assumes "calm E" "iam_reach E W" "fmlookup (iw_tenants W) A = Some t" "x \<in> tn_tuples t"
  shows "tn_schema t = Some DefaultSchema \<and> typed DefaultSchema x"
proof -
  note inv = iam_reach_inv [OF assms(2,1)]
  have "has_tenant W A" "x \<in> tuples_of W A" using assms(3,4) by (auto simp: has_tenant_def tuples_of_def)
  then have "shaped A x" using iam_invD(3) [OF inv] by (auto simp: rights_at_def)
  then show ?thesis using iam_invD(2) [OF inv] assms(3) shaped_typed by (auto simp: tenants_ok_def)
qed

theorem tuples_well_typed_witness:
  "\<exists>(W :: iam_world) A p t. fmlookup (iw_tenants W) A = Some t \<and> parent_tuple p A \<in> tn_tuples t \<and> tn_schema t = Some DefaultSchema \<and> typed DefaultSchema (parent_tuple p A)"
proof -
  obtain W A p where W: "iam_reach demo_env W" "owner_of W A ''a''" "live_project W A p" by (rule demo_reach)
  note inv = iam_reach_inv [OF W(1) demo_calm]
  have "live_org W A" using W(2) by (auto simp: owner_of_def live_org_def)
  then have tenant: "has_tenant W A" using iam_invD(2) [OF inv] by (simp add: tenants_ok_def)
  then obtain t where t: "fmlookup (iw_tenants W) A = Some t" by (auto simp: has_tenant_def)
  then have "parent_tuple p A \<in> tn_tuples t" using iam_invD(3) [OF inv tenant] W(3) by (simp add: rights_at_def tuples_of_def)
  with tuples_well_typed [OF demo_calm W(1) t this] t show ?thesis by (intro exI [of _ W] exI [of _ A] exI [of _ p] exI [of _ t]) simp
qed

definition body_row :: "uuid \<Rightarrow> group_body \<Rightarrow> group_row" where
  "body_row A body = \<lparr>gr_name = gb_name body, gr_orga = A, gr_allProjects = gb_allProjects body, gr_projectIds = gb_projectIds body,
    gr_sets = gb_sets body @ [SpxMember], gr_key = None, gr_deleted = False\<rparr>"

lemma saved_group_world:
  assumes "calm E" "canonical E A" "has_tenant W A" "CreateOrUpdateOrganizationGroup E A body W = (W', 200)" "gb_id body \<noteq> uuidNil"
  shows "W' = saved (gb_id body) (body_row A body) W"
proof -
  have row: "gr_orga (body_row A body) = A" by (simp add: body_row_def)
  note eq = SaveGroup_calm [OF assms(1) _ refl, of "body_row A body" "gb_id body" W, unfolded row, OF assms(2)]
  obtain gid where "SaveGroup E (gb_id body) (body_row A body) W = (W', Inr gid)"
    using assms(2,4) unfolding CreateOrUpdateOrganizationGroup_def parse_canonical [OF assms(2)] body_row_def [symmetric]
    by (auto simp: group_check_def split: option.splits prod.splits sum.splits if_splits)
  then show ?thesis using assms(3,5) unfolding eq by (auto simp: saved_id_def split: if_splits)
qed

lemma saved_group_tuples:
  fixes body :: group_body
  assumes "fmlookup (iw_tenants W) A = Some t" "assignee_tuple g u \<in> tn_tuples t"
  defines "T \<equiv> {x \<in> tn_tuples t. \<not> of_group g x} \<union> group_grants W g (body_row A body)"
  shows "fmlookup (iw_tenants (saved g (body_row A body) W)) A = Some (t\<lparr>tn_tuples := T\<rparr>)"
    "ps \<in> set organization_sets \<Longrightarrow> ps \<in> set (gb_sets body @ [SpxMember]) \<Longrightarrow> has_rel T ''organization'' A ps u"
    "ps \<in> set project_sets \<Longrightarrow> ps \<in> set (gb_sets body) \<Longrightarrow> \<not> gb_allProjects body \<Longrightarrow> q \<in> set (gb_projectIds body) \<Longrightarrow> has_rel T ''project'' q ps u"
proof -
  show "fmlookup (iw_tenants (saved g (body_row A body) W)) A = Some (t\<lparr>tn_tuples := T\<rparr>)"
    using assms(1) by (simp add: saved_def map_tuples_lookup T_def body_row_def)
  have asg: "assignee_tuple g u \<in> T" using assms(2) by (simp add: T_def)
  show "has_rel T ''organization'' A ps u" if "ps \<in> set organization_sets" "ps \<in> set (gb_sets body @ [SpxMember])"
  proof -
    have "org_tuple A ps g \<in> T" using that by (simp add: T_def body_row_def)
    with asg show ?thesis unfolding has_rel_iff tuple_defs entity_defs by blast
  qed
  show "has_rel T ''project'' q ps u"
    if "ps \<in> set project_sets" "ps \<in> set (gb_sets body)" "\<not> gb_allProjects body" "q \<in> set (gb_projectIds body)"
  proof -
    have "proj_tuple q ps g \<in> T" using that by (simp add: T_def body_row_def)
    with asg show ?thesis unfolding has_rel_iff tuple_defs entity_defs by blast
  qed
qed

text \<open>
  C19. The save of a group does not check the permission sets it is sent, and the internal set \<^verbatim>\<open>spx_owner\<close> is accepted like
  any other: it gives every member of the group all permissions of the owner on the organization. The routes ask for
  \<^verbatim>\<open>OrganizationIAMWrite\<close>, which the administrators have, and the user interface is not offered the internal sets.
\<close>

theorem saved_group_can_hold_ownership:
  assumes "calm E" "permify_laws E" "canonical E A" "fmlookup (iw_tenants W) A = Some t" "tn_schema t = Some DefaultSchema"
    and "CreateOrUpdateOrganizationGroup E A body W = (W', 200)" "gb_id body \<noteq> uuidNil" "SpxOwner \<in> set (gb_sets body)"
    and "assignee_tuple (gb_id body) u \<in> tn_tuples t" "perm \<in> set organization_permissions"
  shows "CanAccess E W' A perm A u"
proof -
  have tenant: "has_tenant W A" using assms(4) by (simp add: has_tenant_def)
  note W' = saved_group_world [OF assms(1,3) tenant assms(6,7)]
  note T = saved_group_tuples [OF assms(4,9), where body = body]
  have "SpxOwner \<in> set organization_sets" by code_simp
  from T(2) [OF this] assms(8) have "has_rel ({x \<in> tn_tuples t. \<not> of_group (gb_id body) x} \<union> group_grants W (gb_id body) (body_row A body)) ''organization'' A SpxOwner u" by simp
  from allows_owner(1) [OF this assms(10), of 18] show ?thesis
    using assms(1,2,5) permission_kinds(1) [OF assms(10)] T(1) unfolding permify_laws_def W'
    by (simp add: CanAccess_def calm_simps GetTuple_def entity_User_def del: allows.simps)
qed

definition demo_body :: group_body where
  "demo_body = \<lparr>gb_id = ''g'', gb_name = ''ops'', gb_allProjects = False, gb_projectIds = [''q''], gb_sets = [SpxOwner, ''ProjectInstanceTerminalAccess'']\<rparr>"

theorem saved_group_can_hold_ownership_witness:
  "\<not> CanAccess demo_env demo_world ''o'' ''OrganizationIAMWrite'' ''o'' ''b'' \<and>
   CanAccess demo_env (fst (CreateOrUpdateOrganizationGroup demo_env ''o'' demo_body demo_world)) ''o'' ''OrganizationIAMWrite'' ''o'' ''b''"
proof
  show "\<not> CanAccess demo_env demo_world ''o'' ''OrganizationIAMWrite'' ''o'' ''b''" by code_simp
  have "snd (CreateOrUpdateOrganizationGroup demo_env ''o'' demo_body demo_world) = 200" by code_simp
  then have run: "CreateOrUpdateOrganizationGroup demo_env ''o'' demo_body demo_world = (fst (CreateOrUpdateOrganizationGroup demo_env ''o'' demo_body demo_world), 200)"
    by (metis prod.collapse)
  show "CanAccess demo_env (fst (CreateOrUpdateOrganizationGroup demo_env ''o'' demo_body demo_world)) ''o'' ''OrganizationIAMWrite'' ''o'' ''b''"
  proof (rule saved_group_can_hold_ownership [OF demo_calm demo_laws _ _ _ run])
    show "canonical demo_env ''o''" by (simp add: demo_canonical uuidNil_def)
    show "fmlookup (iw_tenants demo_world) ''o'' = Some demo_tenant" by (simp add: demo_world_def)
    show "tn_schema demo_tenant = Some DefaultSchema" by (simp add: demo_tenant_def)
    show "gb_id demo_body \<noteq> uuidNil" "SpxOwner \<in> set (gb_sets demo_body)" by (simp_all add: demo_body_def uuidNil_def)
    show "assignee_tuple (gb_id demo_body) ''b'' \<in> tn_tuples demo_tenant" by (simp add: demo_body_def demo_tenant_def)
    show "''OrganizationIAMWrite'' \<in> set organization_permissions" by code_simp
  qed
qed

end
