(* ===== verification/Api_Router.thy ===== *)
theory Api_Router
  imports Prelude
begin

text \<open>
  The registry of HTTP routes (\<^verbatim>\<open>pkg/router/registry.go\<close>): modules of routes, nested in groups, and global middlewares, which
  can be added, replaced and removed by name before \<^verbatim>\<open>Build\<close> resolves them into a flat table of routes with their chains of
  middlewares.

  \<^item> Handlers and middlewares are the type parameters \<open>'h\<close> and \<open>'m\<close>: the registry only moves them.
  \<^item> \<^verbatim>\<open>Enabled\<close> is evaluated by \<^verbatim>\<open>Build\<close>: it is the value it returns then, \<open>None\<close> for a nil function.
  \<^item> \<open>Build\<close> returns the global chain and the routes in the order in which they are handed to the router. The sets of
    declared and consumed keys serve the log only and are left out.
\<close>

section \<open>Routes\<close>

record resource_name =
  rs_Name :: string
  rs_Label :: string

record audit_decl =
  au_Resource :: resource_name
  au_Action :: string
  au_ReportsOrganization :: bool
  au_ResourceParam :: string
  au_ResourceQuery :: string
  au_Skip :: bool
  au_SkipReason :: string

record ('h, 'm) api_route =
  rt_Method :: string
  rt_Pattern :: string
  rt_Handler :: 'h
  rt_Middlewares :: "'m list"
  rt_Audit :: "audit_decl option"

definition EventType :: "audit_decl \<Rightarrow> string" where
  "EventType a = rs_Name (au_Resource a) @ ''.'' @ au_Action a"

definition Audited :: "('h, 'm) api_route \<Rightarrow> resource_name \<Rightarrow> string \<Rightarrow> string \<Rightarrow> ('h, 'm) api_route" where
  "Audited rt resource action resourceParam =
     rt\<lparr>rt_Audit := Some \<lparr>au_Resource = resource, au_Action = action, au_ReportsOrganization = False, au_ResourceParam = resourceParam,
       au_ResourceQuery = [], au_Skip = False, au_SkipReason = []\<rparr>\<rparr>"

definition AuditedByQuery :: "('h, 'm) api_route \<Rightarrow> resource_name \<Rightarrow> string \<Rightarrow> string \<Rightarrow> ('h, 'm) api_route" where
  "AuditedByQuery rt resource action resourceQuery =
     rt\<lparr>rt_Audit := Some \<lparr>au_Resource = resource, au_Action = action, au_ReportsOrganization = False, au_ResourceParam = [],
       au_ResourceQuery = resourceQuery, au_Skip = False, au_SkipReason = []\<rparr>\<rparr>"

definition ReportingOrganization :: "('h, 'm) api_route \<Rightarrow> ('h, 'm) api_route" where
  "ReportingOrganization rt = rt\<lparr>rt_Audit := map_option (\<lambda>a. a\<lparr>au_ReportsOrganization := True\<rparr>) (rt_Audit rt)\<rparr>"

definition NotAudited :: "('h, 'm) api_route \<Rightarrow> string \<Rightarrow> ('h, 'm) api_route" where
  "NotAudited rt reason =
     rt\<lparr>rt_Audit := Some \<lparr>au_Resource = \<lparr>rs_Name = [], rs_Label = []\<rparr>, au_Action = [], au_ReportsOrganization = False, au_ResourceParam = [],
       au_ResourceQuery = [], au_Skip = True, au_SkipReason = reason\<rparr>\<rparr>"

definition Handle :: "string \<Rightarrow> string \<Rightarrow> 'h \<Rightarrow> 'm list \<Rightarrow> ('h, 'm) api_route" where
  "Handle method pattern h mw = \<lparr>rt_Method = method, rt_Pattern = pattern, rt_Handler = h, rt_Middlewares = mw, rt_Audit = None\<rparr>"

fun str_contains :: "string \<Rightarrow> string \<Rightarrow> bool" where
  "str_contains sub [] = (sub = [])"
| "str_contains sub (c # s) = (take (length sub) (c # s) = sub \<or> str_contains sub s)"

record route_info =
  ri_Method :: string
  ri_Pattern :: string
  ri_Audit :: "audit_decl option"

definition OrganizationScoped :: "route_info \<Rightarrow> bool" where
  "OrganizationScoped info \<longleftrightarrow>
     str_contains ''{orgaId}'' (ri_Pattern info) \<or> (case ri_Audit info of None \<Rightarrow> False | Some a \<Rightarrow> au_ReportsOrganization a)"


section \<open>Groups, modules and the registry\<close>

datatype ('h, 'm) route_group =
  Group (gp_Prefix: string) (gp_Middlewares: "'m list") (gp_Routes: "('h, 'm) api_route list") (gp_Groups: "('h, 'm) route_group list")

record ('h, 'm) route_module =
  md_Name :: string
  md_Mount :: string
  md_Middlewares :: "'m list"
  md_Routes :: "('h, 'm) api_route list"
  md_Groups :: "('h, 'm) route_group list"
  md_Enabled :: "bool option"

record ('h, 'm) registry =
  rg_globals :: "(string \<times> 'm) list"
  rg_modules :: "('h, 'm) route_module list"
  rg_routeOverrides :: "(string, ('h, 'm) api_route) fmap"
  rg_routeRemovals :: "string fset"
  rg_auditor :: "(audit_decl \<Rightarrow> 'm) option"

definition New :: "('h, 'm) registry" where
  "New = \<lparr>rg_globals = [], rg_modules = [], rg_routeOverrides = fmempty, rg_routeRemovals = {||}, rg_auditor = None\<rparr>"

definition Reset :: "('h, 'm) registry \<Rightarrow> ('h, 'm) registry" where
  "Reset r = r\<lparr>rg_globals := [], rg_modules := [], rg_routeOverrides := fmempty, rg_routeRemovals := {||}, rg_auditor := None\<rparr>"

definition SetAuditor :: "(audit_decl \<Rightarrow> 'm) \<Rightarrow> ('h, 'm) registry \<Rightarrow> ('h, 'm) registry" where
  "SetAuditor auditor r = r\<lparr>rg_auditor := Some auditor\<rparr>"

fun collectDeclared :: "string \<Rightarrow> ('h, 'm) api_route list \<Rightarrow> ('h, 'm) route_group list \<Rightarrow> route_info list"
  and collectDeclared_group :: "string \<Rightarrow> ('h, 'm) route_group \<Rightarrow> route_info list" where
  "collectDeclared prefix routes groups =
     map (\<lambda>rt. \<lparr>ri_Method = rt_Method rt, ri_Pattern = prefix @ rt_Pattern rt, ri_Audit = rt_Audit rt\<rparr>) routes @
     concat (map (collectDeclared_group prefix) groups)"
| "collectDeclared_group prefix (Group p mws routes groups) = collectDeclared (prefix @ p) routes groups"

definition Declared :: "('h, 'm) registry \<Rightarrow> route_info list" where
  "Declared r = concat (map (\<lambda>m. collectDeclared (md_Mount m) (md_Routes m) (md_Groups m)) (rg_modules r))"

definition withAudit :: "('h, 'm) registry \<Rightarrow> audit_decl option \<Rightarrow> 'm list \<Rightarrow> 'm list" where
  "withAudit r audit chain =
     (case (rg_auditor r, audit) of
        (Some f, Some a) \<Rightarrow> if au_Skip a then chain else f a # chain
      | _ \<Rightarrow> chain)"

definition routeKey :: "string \<Rightarrow> string \<Rightarrow> string" where
  "routeKey method fullPattern = method @ '' '' @ fullPattern"

definition Use :: "string \<Rightarrow> 'm \<Rightarrow> ('h, 'm) registry \<Rightarrow> ('h, 'm) registry" where
  "Use name mw r = r\<lparr>rg_globals := rg_globals r @ [(name, mw)]\<rparr>"

text \<open>The first element with the name is replaced; \<open>None\<close> when there is none.\<close>

fun replace_named :: "('a \<Rightarrow> string) \<Rightarrow> string \<Rightarrow> ('a \<Rightarrow> 'a) \<Rightarrow> 'a list \<Rightarrow> 'a list option" where
  "replace_named nm name f [] = None"
| "replace_named nm name f (x # xs) = (if nm x = name then Some (f x # xs) else map_option (Cons x) (replace_named nm name f xs))"

definition ReplaceGlobalMW :: "string \<Rightarrow> 'm \<Rightarrow> ('h, 'm) registry \<Rightarrow> ('h, 'm) registry" where
  "ReplaceGlobalMW name mw r =
     (case replace_named fst name (\<lambda>g. (fst g, mw)) (rg_globals r) of None \<Rightarrow> Use name mw r | Some gs \<Rightarrow> r\<lparr>rg_globals := gs\<rparr>)"

definition RemoveGlobalMW :: "string \<Rightarrow> ('h, 'm) registry \<Rightarrow> ('h, 'm) registry" where
  "RemoveGlobalMW name r = r\<lparr>rg_globals := filter (\<lambda>g. fst g \<noteq> name) (rg_globals r)\<rparr>"

definition Register :: "('h, 'm) route_module \<Rightarrow> ('h, 'm) registry \<Rightarrow> ('h, 'm) registry" where
  "Register m r = r\<lparr>rg_modules := rg_modules r @ [m]\<rparr>"

definition Override :: "string \<Rightarrow> ('h, 'm) route_module \<Rightarrow> ('h, 'm) registry \<Rightarrow> ('h, 'm) registry" where
  "Override name m r =
     (case replace_named md_Name name (\<lambda>_. m) (rg_modules r) of None \<Rightarrow> Register m r | Some ms \<Rightarrow> r\<lparr>rg_modules := ms\<rparr>)"

definition RemoveModule :: "string \<Rightarrow> ('h, 'm) registry \<Rightarrow> ('h, 'm) registry" where
  "RemoveModule name r = r\<lparr>rg_modules := filter (\<lambda>m. md_Name m \<noteq> name) (rg_modules r)\<rparr>"

definition extensionsModule :: string where "extensionsModule = ''extensions''"

definition AddRoute :: "('h, 'm) api_route \<Rightarrow> ('h, 'm) registry \<Rightarrow> ('h, 'm) registry" where
  "AddRoute rt r =
     (case replace_named md_Name extensionsModule (\<lambda>m. m\<lparr>md_Routes := md_Routes m @ [rt]\<rparr>) (rg_modules r) of
        None \<Rightarrow> Register \<lparr>md_Name = extensionsModule, md_Mount = [], md_Middlewares = [], md_Routes = [rt], md_Groups = [], md_Enabled = None\<rparr> r
      | Some ms \<Rightarrow> r\<lparr>rg_modules := ms\<rparr>)"

definition OverrideRoute :: "string \<Rightarrow> string \<Rightarrow> ('h, 'm) api_route \<Rightarrow> ('h, 'm) registry \<Rightarrow> ('h, 'm) registry" where
  "OverrideRoute method pattern rt r =
     r\<lparr>rg_routeOverrides := fmupd (routeKey method pattern) (rt\<lparr>rt_Method := method, rt_Pattern := pattern\<rparr>) (rg_routeOverrides r),
       rg_routeRemovals := rg_routeRemovals r |-| {|routeKey method pattern|}\<rparr>"

definition RemoveRoute :: "string \<Rightarrow> string \<Rightarrow> ('h, 'm) registry \<Rightarrow> ('h, 'm) registry" where
  "RemoveRoute method pattern r =
     r\<lparr>rg_routeRemovals := finsert (routeKey method pattern) (rg_routeRemovals r),
       rg_routeOverrides := fmdrop (routeKey method pattern) (rg_routeOverrides r)\<rparr>"


section \<open>Build\<close>

record ('h, 'm) resolved_route =
  rr_method :: string
  rr_pattern :: string
  rr_handler :: 'h
  rr_chain :: "'m list"

definition resolve :: "('h, 'm) registry \<Rightarrow> string \<Rightarrow> 'm list \<Rightarrow> ('h, 'm) api_route \<Rightarrow> ('h, 'm) resolved_route list" where
  "resolve r prefix shared rt =
     (let full = prefix @ rt_Pattern rt; key = routeKey (rt_Method rt) full
      in if key |\<in>| rg_routeRemovals r then []
         else case fmlookup (rg_routeOverrides r) key of
                Some ov \<Rightarrow>
                  [\<lparr>rr_method = rt_Method rt, rr_pattern = full, rr_handler = rt_Handler ov,
                    rr_chain = withAudit r (if rt_Audit ov = None then rt_Audit rt else rt_Audit ov) (rt_Middlewares ov)\<rparr>]
              | None \<Rightarrow>
                  [\<lparr>rr_method = rt_Method rt, rr_pattern = full, rr_handler = rt_Handler rt,
                    rr_chain = withAudit r (rt_Audit rt) (shared @ rt_Middlewares rt)\<rparr>])"

fun flatten :: "('h, 'm) registry \<Rightarrow> string \<Rightarrow> 'm list \<Rightarrow> ('h, 'm) api_route list \<Rightarrow> ('h, 'm) route_group list \<Rightarrow> ('h, 'm) resolved_route list"
  and flatten_group :: "('h, 'm) registry \<Rightarrow> string \<Rightarrow> 'm list \<Rightarrow> ('h, 'm) route_group \<Rightarrow> ('h, 'm) resolved_route list" where
  "flatten r prefix shared routes groups = concat (map (resolve r prefix shared) routes) @ concat (map (flatten_group r prefix shared) groups)"
| "flatten_group r prefix shared (Group p mws routes groups) = flatten r (prefix @ p) (shared @ mws) routes groups"

definition Build :: "('h, 'm) registry \<Rightarrow> 'm list \<times> ('h, 'm) resolved_route list" where
  "Build r =
     (map snd (rg_globals r),
      concat (map (\<lambda>m. if md_Enabled m = Some False then [] else flatten r (md_Mount m) (md_Middlewares m) (md_Routes m) (md_Groups m)) (rg_modules r)))"


section \<open>Where the routes come from\<close>

text \<open>The declared routes of a level, each with its prefix and the middlewares it shares with its groups and its module.\<close>

fun expanded :: "string \<Rightarrow> 'm list \<Rightarrow> ('h, 'm) api_route list \<Rightarrow> ('h, 'm) route_group list \<Rightarrow> (string \<times> 'm list \<times> ('h, 'm) api_route) list"
  and expanded_group :: "string \<Rightarrow> 'm list \<Rightarrow> ('h, 'm) route_group \<Rightarrow> (string \<times> 'm list \<times> ('h, 'm) api_route) list" where
  "expanded prefix shared routes groups = map (\<lambda>rt. (prefix, shared, rt)) routes @ concat (map (expanded_group prefix shared) groups)"
| "expanded_group prefix shared (Group p mws routes groups) = expanded (prefix @ p) (shared @ mws) routes groups"

lemma flatten_expanded:
  "flatten r prefix shared routes groups = concat (map (\<lambda>(p, s, rt). resolve r p s rt) (expanded prefix shared routes groups))"
  "flatten_group r prefix shared g = concat (map (\<lambda>(p, s, rt). resolve r p s rt) (expanded_group prefix shared g))"
proof (induction prefix shared routes groups and prefix shared g rule: expanded_expanded_group.induct)
  case (1 prefix shared routes groups)
  have "concat (map (flatten_group r prefix shared) groups) = concat (map (\<lambda>(p, s, rt). resolve r p s rt) (concat (map (expanded_group prefix shared) groups)))"
    using 1 by (induction groups) auto
  then show ?case by (simp add: comp_def)
qed simp

text \<open>
  A route of a module by where it is declared: a path of groups, each nested in the one before it, and a route
  of the innermost one, or of the module itself when the path is empty.
\<close>

primrec nested_path :: "('h, 'm) route_group list \<Rightarrow> ('h, 'm) route_group list \<Rightarrow> bool" where
  "nested_path groups [] = True"
| "nested_path groups (g # gs) = (g \<in> set groups \<and> nested_path (gp_Groups g) gs)"

definition level_routes :: "('h, 'm) api_route list \<Rightarrow> ('h, 'm) route_group list \<Rightarrow> ('h, 'm) api_route list" where
  "level_routes routes path = (if path = [] then routes else gp_Routes (last path))"

text \<open>The audit middleware that comes first in the chain of an audited route.\<close>

definition audit_front :: "('h, 'm) registry \<Rightarrow> audit_decl option \<Rightarrow> 'm list" where
  "audit_front r audit =
     (case rg_auditor r of
        None \<Rightarrow> []
      | Some auditor \<Rightarrow> (case audit of None \<Rightarrow> [] | Some a \<Rightarrow> if au_Skip a then [] else [auditor a]))"

lemma withAudit_front: "withAudit r a chain = audit_front r a @ chain"
  by (simp add: withAudit_def audit_front_def split: option.split)

lemma level_routes_simps [simp]:
  "level_routes routes [] = routes"
  "level_routes routes (g # gs) = level_routes (gp_Routes g) gs"
  by (simp_all add: level_routes_def)

lemma ex_list: "(\<exists>xs. P xs) \<longleftrightarrow> P [] \<or> (\<exists>x xs. P (x # xs))"
  by (metis list.exhaust)

lemma expanded_nested:
  "(p, s, rt) \<in> set (expanded prefix shared routes groups) \<longleftrightarrow>
    (\<exists>path. nested_path groups path \<and> rt \<in> set (level_routes routes path) \<and>
       p = prefix @ concat (map gp_Prefix path) \<and> s = shared @ concat (map gp_Middlewares path))"
  "(p, s, rt) \<in> set (expanded_group prefix shared g) \<longleftrightarrow>
    (\<exists>path. nested_path (gp_Groups g) path \<and> rt \<in> set (level_routes (gp_Routes g) path) \<and>
       p = prefix @ gp_Prefix g @ concat (map gp_Prefix path) \<and> s = shared @ gp_Middlewares g @ concat (map gp_Middlewares path))"
proof (induction prefix shared routes groups and prefix shared g arbitrary: p s rt and p s rt rule: expanded_expanded_group.induct)
  case (1 prefix shared routes groups)
  let ?at = "\<lambda>path. nested_path groups path \<and> rt \<in> set (level_routes routes path) \<and>
    p = prefix @ concat (map gp_Prefix path) \<and> s = shared @ concat (map gp_Middlewares path)"
  have "(\<exists>path. ?at path) \<longleftrightarrow> ?at [] \<or> (\<exists>g path. ?at (g # path))" by (rule ex_list)
  also have "\<dots> \<longleftrightarrow> (p, s, rt) \<in> set (map (\<lambda>rt. (prefix, shared, rt)) routes) \<or>
      (\<exists>g\<in>set groups. (p, s, rt) \<in> set (expanded_group prefix shared g))"
    using 1 by (auto simp del: expanded_group.simps)
  finally show ?case by auto
next
  case (2 prefix shared q mws routes groups)
  then show ?case by simp
qed

lemma resolve_iff:
  "x \<in> set (resolve r prefix shared rt) \<longleftrightarrow>
    (\<exists>pattern. pattern = prefix @ rt_Pattern rt \<and> routeKey (rt_Method rt) pattern |\<notin>| rg_routeRemovals r \<and>
       rr_method x = rt_Method rt \<and> rr_pattern x = pattern \<and>
       (case fmlookup (rg_routeOverrides r) (routeKey (rt_Method rt) pattern) of
          None \<Rightarrow> rr_handler x = rt_Handler rt \<and> rr_chain x = audit_front r (rt_Audit rt) @ shared @ rt_Middlewares rt
        | Some ov \<Rightarrow> rr_handler x = rt_Handler ov \<and>
            rr_chain x = audit_front r (if rt_Audit ov = None then rt_Audit rt else rt_Audit ov) @ rt_Middlewares ov))"
  by (cases x) (auto simp: resolve_def Let_def withAudit_front split: option.splits)

lemma Build_origin:
  assumes "x \<in> set (snd (Build r))"
  obtains m p s rt where "m \<in> set (rg_modules r)" "md_Enabled m \<noteq> Some False"
    "(p, s, rt) \<in> set (expanded (md_Mount m) (md_Middlewares m) (md_Routes m) (md_Groups m))" "x \<in> set (resolve r p s rt)"
proof -
  from assms obtain m where m: "m \<in> set (rg_modules r)" "md_Enabled m \<noteq> Some False"
    and "x \<in> set (flatten r (md_Mount m) (md_Middlewares m) (md_Routes m) (md_Groups m))"
    by (auto simp: Build_def simp del: flatten.simps split: if_splits)
  then obtain p s rt where "(p, s, rt) \<in> set (expanded (md_Mount m) (md_Middlewares m) (md_Routes m) (md_Groups m))" "x \<in> set (resolve r p s rt)"
    unfolding flatten_expanded(1) by (auto simp del: expanded.simps)
  then show thesis using m that by blast
qed

lemma Build_member:
  assumes "m \<in> set (rg_modules r)" "md_Enabled m \<noteq> Some False" "(p, s, rt) \<in> set (expanded (md_Mount m) (md_Middlewares m) (md_Routes m) (md_Groups m))"
    and "x \<in> set (resolve r p s rt)"
  shows "x \<in> set (snd (Build r))"
proof -
  have "x \<in> set (flatten r (md_Mount m) (md_Middlewares m) (md_Routes m) (md_Groups m))"
    unfolding flatten_expanded(1) using assms(3,4) by (auto simp del: expanded.simps)
  then show ?thesis using assms(1,2) by (auto simp: Build_def simp del: flatten.simps)
qed

text \<open>The built table is exactly the declared routes of the enabled modules that were not removed.\<close>

lemma Build_iff:
  "x \<in> set (snd (Build r)) \<longleftrightarrow>
    (\<exists>m path rt. m \<in> set (rg_modules r) \<and> md_Enabled m \<noteq> Some False \<and> nested_path (md_Groups m) path \<and>
       rt \<in> set (level_routes (md_Routes m) path) \<and>
       x \<in> set (resolve r (md_Mount m @ concat (map gp_Prefix path)) (md_Middlewares m @ concat (map gp_Middlewares path)) rt))"
proof
  assume "x \<in> set (snd (Build r))"
  from Build_origin [OF this] show "\<exists>m path rt. m \<in> set (rg_modules r) \<and> md_Enabled m \<noteq> Some False \<and> nested_path (md_Groups m) path \<and>
       rt \<in> set (level_routes (md_Routes m) path) \<and>
       x \<in> set (resolve r (md_Mount m @ concat (map gp_Prefix path)) (md_Middlewares m @ concat (map gp_Middlewares path)) rt)"
    unfolding expanded_nested(1) by blast
next
  assume "\<exists>m path rt. m \<in> set (rg_modules r) \<and> md_Enabled m \<noteq> Some False \<and> nested_path (md_Groups m) path \<and>
       rt \<in> set (level_routes (md_Routes m) path) \<and>
       x \<in> set (resolve r (md_Mount m @ concat (map gp_Prefix path)) (md_Middlewares m @ concat (map gp_Middlewares path)) rt)"
  then show "x \<in> set (snd (Build r))" using Build_member [where r = r] unfolding expanded_nested(1) by blast
qed

end
