(* ===== verification/Api_Routes.thy ===== *)
theory Api_Routes
  imports Api_Router
begin

text \<open>
  The routes of the API: the module of every service (\<^verbatim>\<open>pkg/services/.../service.go\<close>), the modules of the forwarding services
  with their shared middlewares (\<^verbatim>\<open>pkg/services/controller/routes.go\<close>), and the registries of the public and of the
  administration server (\<^verbatim>\<open>pkg/server/providers.go\<close>, \<^verbatim>\<open>pkg/api/publicHttp/router.go\<close>, \<^verbatim>\<open>pkg/api/adminHttp/router.go\<close>).

  Handlers are named by their method, middlewares are constructors. \<^verbatim>\<open>Authenticate\<close> carries the names of the ways to
  authenticate that it tries.
\<close>

datatype api_middleware =
    Authenticate "string list" | KratosAuth | SecretAuth | AddUserId | Perm string | ProjectActive | CreationQuota | SuperAdminList
  | AuditEvent audit_decl | GlobalMW string

type_synonym api_module = "(string, api_middleware) route_module"

abbreviation jwtOrToken :: api_middleware where
  "jwtOrToken \<equiv> Authenticate [''JwtBearerAuth'', ''ApiTokenAuth'']"

definition ApiPrefix :: string where "ApiPrefix = ''/api/spx-ctrl''"

definition SharedMiddlewares :: "api_middleware list" where
  "SharedMiddlewares = [jwtOrToken, AddUserId, Perm ''OrganizationRead'', ProjectActive]"

definition NewControllerModule :: "string \<Rightarrow> (string, api_middleware) api_route list \<Rightarrow> (string, api_middleware) route_group list \<Rightarrow> api_module" where
  "NewControllerModule name routes groups =
     \<lparr>md_Name = name, md_Mount = ''/{orgaId}'' @ ApiPrefix, md_Middlewares = SharedMiddlewares, md_Routes = routes, md_Groups = groups, md_Enabled = Some True\<rparr>"


section \<open>Modules\<close>

definition organization_Module :: "api_module" where
  "organization_Module =
    \<lparr>md_Name = ''organization'', md_Mount = ''/v1'', md_Middlewares = [],
     md_Routes =
      [ReportingOrganization (Audited (Handle ''POST'' ''/organization'' ''Create'' [jwtOrToken])
         \<lparr>rs_Name = ''organization'', rs_Label = ''Organization''\<rparr> ''create'' []),
       Handle ''GET'' ''/organization/{orgaId}'' ''Get'' [jwtOrToken, Perm ''OrganizationRead''],
       Audited (Handle ''POST'' ''/organization/{orgaId}'' ''Update'' [jwtOrToken, Perm ''OrganizationRead'', Perm ''OrganizationWrite''])
         \<lparr>rs_Name = ''organization'', rs_Label = ''Organization''\<rparr> ''update'' ''orgaId'',
       Audited (Handle ''DELETE'' ''/organization/{orgaId}'' ''Delete'' [jwtOrToken, Perm ''OrganizationRead'', Perm ''OrganizationWrite''])
         \<lparr>rs_Name = ''organization'', rs_Label = ''Organization''\<rparr> ''delete'' ''orgaId'',
       Audited (Handle ''POST'' ''/organization/{orgaId}/transfer'' ''Transfer'' [jwtOrToken, Perm ''OrganizationRead'', Perm ''OrganizationWrite''])
         \<lparr>rs_Name = ''organization'', rs_Label = ''Organization''\<rparr> ''transfer'' ''orgaId''],
     md_Groups = [], md_Enabled = None\<rparr>"

definition session_Module :: "api_module" where
  "session_Module =
    \<lparr>md_Name = ''session'', md_Mount = ''/v1'', md_Middlewares = [],
     md_Routes =
      [Handle ''GET'' ''/session'' ''RetrieveAccessToken'' [Authenticate [''RefreshAuth'']],
       Handle ''GET'' ''/logout'' ''Logout'' [],
       Handle ''GET'' ''/whoami'' ''WhoAmI'' [jwtOrToken],
       Audited (Handle ''GET'' ''/session/token'' ''GenerateTokens'' [KratosAuth])
         \<lparr>rs_Name = ''session'', rs_Label = ''Session''\<rparr> ''login'' []],
     md_Groups = [], md_Enabled = None\<rparr>"

definition apiToken_Module :: "api_module" where
  "apiToken_Module =
    \<lparr>md_Name = ''api-token'', md_Mount = ''/v1'', md_Middlewares = [],
     md_Routes =
      [Audited (Handle ''POST'' ''/api-token'' ''CreateAPIToken'' [Authenticate [''JwtBearerAuth'']])
         \<lparr>rs_Name = ''api-token'', rs_Label = ''API Token''\<rparr> ''create'' [],
       Handle ''GET'' ''/api-token'' ''ListAPIToken'' [Authenticate [''JwtBearerAuth'']],
       Audited (Handle ''DELETE'' ''/api-token/{tokenId}'' ''RevokeAPIToken'' [Authenticate [''JwtBearerAuth'']])
         \<lparr>rs_Name = ''api-token'', rs_Label = ''API Token''\<rparr> ''delete'' ''tokenId''],
     md_Groups = [], md_Enabled = None\<rparr>"

definition az_Module :: "api_module" where
  "az_Module =
    \<lparr>md_Name = ''az'', md_Mount = ''/v1'', md_Middlewares = [],
     md_Routes =
      [Handle ''GET'' ''/organization/{orgaId}/az-list'' ''ListAZs'' [jwtOrToken, Perm ''OrganizationRead''],
       Handle ''GET'' ''/organization/{orgaId}/az-status'' ''StatusCheck'' [jwtOrToken, Perm ''OrganizationRead'']],
     md_Groups = [], md_Enabled = None\<rparr>"

definition user_Module :: "api_module" where
  "user_Module =
    \<lparr>md_Name = ''user'', md_Mount = ''/v1'', md_Middlewares = [],
     md_Routes =
      [Audited (Handle ''POST'' ''/invite-code'' ''RegenerateInviteCode'' [Authenticate [''JwtBearerAuth'']])
         \<lparr>rs_Name = ''user.invite-code'', rs_Label = ''Invite code''\<rparr> ''regenerate'' []],
     md_Groups = [], md_Enabled = None\<rparr>"

definition group_Module :: "api_module" where
  "group_Module =
    \<lparr>md_Name = ''group'', md_Mount = ''/v1'', md_Middlewares = [],
     md_Routes =
      [Handle ''GET'' ''/organization/{orgaId}/iam/permissionSets'' ''ListPermissionSets'' [jwtOrToken, Perm ''OrganizationRead'', Perm ''OrganizationIAMRead''],
       Handle ''GET'' ''/organization/{orgaId}/iam/group'' ''GetAllOrganizationGroups'' [jwtOrToken, Perm ''OrganizationRead'', Perm ''OrganizationIAMRead''],
       Handle ''GET'' ''/organization/{orgaId}/iam/group/{groupId}'' ''GetOrganizationGroup'' [jwtOrToken, Perm ''OrganizationRead'', Perm ''OrganizationIAMRead''],
       Audited (Handle ''POST'' ''/organization/{orgaId}/iam/group'' ''CreateOrUpdateOrganizationGroup'' [jwtOrToken, Perm ''OrganizationRead'', Perm ''OrganizationIAMWrite''])
         \<lparr>rs_Name = ''iam.group'', rs_Label = ''IAM Group''\<rparr> ''save'' [],
       Audited (Handle ''POST'' ''/organization/{orgaId}/iam/group/{groupId}/duplicate'' ''DuplicateOrganizationGroup'' [jwtOrToken, Perm ''OrganizationRead'', Perm ''OrganizationIAMWrite''])
         \<lparr>rs_Name = ''iam.group'', rs_Label = ''IAM Group''\<rparr> ''duplicate'' ''groupId'',
       AuditedByQuery (Handle ''DELETE'' ''/organization/{orgaId}/iam/group'' ''DeleteOrganizationGroup'' [jwtOrToken, Perm ''OrganizationRead'', Perm ''OrganizationIAMWrite''])
         \<lparr>rs_Name = ''iam.group'', rs_Label = ''IAM Group''\<rparr> ''delete'' ''groupId''],
     md_Groups = [], md_Enabled = None\<rparr>"

definition membership_Module :: "api_module" where
  "membership_Module =
    \<lparr>md_Name = ''iam'', md_Mount = ''/v1'', md_Middlewares = [],
     md_Routes =
      [Audited (Handle ''POST'' ''/organization/{orgaId}/iam/invite'' ''InviteIntoOrganization'' [jwtOrToken, Perm ''OrganizationRead'', Perm ''OrganizationIAMWrite''])
         \<lparr>rs_Name = ''iam.member'', rs_Label = ''IAM Member''\<rparr> ''invite'' [],
       AuditedByQuery (Handle ''DELETE'' ''/organization/{orgaId}/iam/invite'' ''RemoveFromOrganization'' [jwtOrToken, Perm ''OrganizationRead'', Perm ''OrganizationIAMWrite''])
         \<lparr>rs_Name = ''iam.member'', rs_Label = ''IAM Member''\<rparr> ''remove'' ''userId''],
     md_Groups = [], md_Enabled = None\<rparr>"

definition permission_Module :: "api_module" where
  "permission_Module =
    \<lparr>md_Name = ''permission'', md_Mount = ''/v1'', md_Middlewares = [],
     md_Routes =
      [NotAudited (Handle ''POST'' ''/organization/{orgaId}/iam/permissions'' ''ListPermissions'' [jwtOrToken, Perm ''OrganizationRead'']) ''read-only list''],
     md_Groups = [], md_Enabled = None\<rparr>"

definition project_Module :: "api_module" where
  "project_Module =
    \<lparr>md_Name = ''project'', md_Mount = ''/v1'', md_Middlewares = [],
     md_Routes =
      [Audited (Handle ''POST'' ''/organization/{orgaId}/project'' ''CreateOrUpdateProject'' [jwtOrToken, Perm ''OrganizationRead'', Perm ''OrganizationProjectManagement''])
         \<lparr>rs_Name = ''project'', rs_Label = ''Project''\<rparr> ''save'' [],
       AuditedByQuery (Handle ''DELETE'' ''/organization/{orgaId}/project'' ''DeleteProject'' [jwtOrToken, Perm ''OrganizationRead'', Perm ''OrganizationProjectManagement''])
         \<lparr>rs_Name = ''project'', rs_Label = ''Project''\<rparr> ''delete'' ''projectId''],
     md_Groups = [], md_Enabled = None\<rparr>"

definition manager_Module :: "string list \<Rightarrow> api_module" where
  "manager_Module superAdmins =
    \<lparr>md_Name = ''project-manager'', md_Mount = ''/v1/project-manager'', md_Middlewares = [Authenticate [''JwtBearerAuth''], AddUserId, SuperAdminList],
     md_Routes =
      [Handle ''GET'' ''/users'' ''ListUsers'' [],
       Handle ''GET'' ''/organizations'' ''ListOrganizations'' [],
       Handle ''GET'' ''/projects'' ''ListProjects'' [],
       Handle ''GET'' ''/products'' ''ListProducts'' []],
     md_Groups = [], md_Enabled = Some (superAdmins \<noteq> [])\<rparr>"

definition auditlog_Module :: "api_module" where
  "auditlog_Module =
    \<lparr>md_Name = ''audit-log'', md_Mount = ''/v1'', md_Middlewares = [],
     md_Routes =
      [Handle ''GET'' ''/organization/{orgaId}/audit-log'' ''ListOrganizationEvents'' [jwtOrToken, Perm ''OrganizationRead'', Perm ''OrganizationAuditLogRead''],
       Handle ''GET'' ''/organization/{orgaId}/audit-log/event-types'' ''ListOrganizationEventTypes'' [jwtOrToken, Perm ''OrganizationRead'', Perm ''OrganizationAuditLogRead''],
       Handle ''GET'' ''/organization/{orgaId}/audit-log/retention'' ''GetRetention'' [jwtOrToken, Perm ''OrganizationRead'', Perm ''OrganizationAuditLogRead''],
       Audited (Handle ''POST'' ''/organization/{orgaId}/audit-log/retention'' ''UpdateRetention'' [jwtOrToken, Perm ''OrganizationRead'', Perm ''OrganizationAuditLogWrite''])
         \<lparr>rs_Name = ''audit-log.retention'', rs_Label = ''Audit log retention''\<rparr> ''update'' ''orgaId'',
       Handle ''GET'' ''/user/audit-log'' ''ListUserEvents'' [jwtOrToken],
       Handle ''GET'' ''/user/audit-log/event-types'' ''ListUserEventTypes'' [jwtOrToken],
       Handle ''GET'' ''/user/audit-log/retention'' ''GetUserRetention'' [jwtOrToken]],
     md_Groups = [], md_Enabled = None\<rparr>"

definition instance_Module :: "api_module" where
  "instance_Module =
    NewControllerModule ''spx-controller-instance''
    [Handle ''GET'' ''/{az}/{projectId}/container-disks'' ''ContainerDisks'' [Perm ''ProjectDiskRead'']]
    [Group [] [Perm ''ProjectInstanceRead'']
       [Handle ''GET'' ''/{projectId}/instance'' ''ListInstances'' [],
        Handle ''GET'' ''/{az}/{projectId}/instance'' ''ListAZInstances'' [],
        Handle ''GET'' ''/{az}/{projectId}/instance/{effectiveId}'' ''GetInstance'' [],
        Handle ''GET'' ''/{az}/{projectId}/instance/{effectiveId}/advanced-options'' ''AdvancedOptions'' [],
        Handle ''GET'' ''/{az}/{projectId}/instance/{effectiveId}/serial'' ''Serial'' [Perm ''ProjectInstanceTerminal''],
        Handle ''GET'' ''/{az}/{projectId}/instance/{effectiveId}/vnc'' ''Vnc'' [Perm ''ProjectInstanceTerminal''],
        Audited (Handle ''GET'' ''/{az}/{projectId}/instance/{effectiveId}/start'' ''Start'' [Perm ''ProjectInstanceControl''])
         \<lparr>rs_Name = ''instance'', rs_Label = ''Instance''\<rparr> ''start'' ''effectiveId'',
        Audited (Handle ''GET'' ''/{az}/{projectId}/instance/{effectiveId}/stop'' ''Stop'' [Perm ''ProjectInstanceControl''])
         \<lparr>rs_Name = ''instance'', rs_Label = ''Instance''\<rparr> ''stop'' ''effectiveId'',
        Audited (Handle ''GET'' ''/{az}/{projectId}/instance/{effectiveId}/stop-force'' ''StopForce'' [Perm ''ProjectInstanceControl''])
         \<lparr>rs_Name = ''instance'', rs_Label = ''Instance''\<rparr> ''stop-force'' ''effectiveId'',
        Audited (Handle ''GET'' ''/{az}/{projectId}/instance/{effectiveId}/restart'' ''Restart'' [Perm ''ProjectInstanceControl''])
         \<lparr>rs_Name = ''instance'', rs_Label = ''Instance''\<rparr> ''restart'' ''effectiveId'']
       [Group [] [Perm ''ProjectInstanceWrite'']
         [Audited (Handle ''POST'' ''/{az}/{projectId}/instance'' ''CreateInstance'' [CreationQuota])
         \<lparr>rs_Name = ''instance'', rs_Label = ''Instance''\<rparr> ''create'' [],
          Audited (Handle ''POST'' ''/{az}/{projectId}/instance/{effectiveId}'' ''UpdateInstance'' [])
         \<lparr>rs_Name = ''instance'', rs_Label = ''Instance''\<rparr> ''update'' ''effectiveId'',
          Audited (Handle ''DELETE'' ''/{az}/{projectId}/instance/{effectiveId}'' ''DeleteInstance'' [])
         \<lparr>rs_Name = ''instance'', rs_Label = ''Instance''\<rparr> ''delete'' ''effectiveId'',
          Audited (Handle ''POST'' ''/{az}/{projectId}/instance/{effectiveId}/container-disk/mount'' ''ContainerDiskMount'' [Perm ''ProjectDiskRead'', Perm ''ProjectDiskWrite''])
         \<lparr>rs_Name = ''instance'', rs_Label = ''Instance''\<rparr> ''container-disk.mount'' ''effectiveId'',
          Audited (Handle ''POST'' ''/{az}/{projectId}/instance/{effectiveId}/container-disk/unmount'' ''ContainerDiskUnmount'' [Perm ''ProjectDiskRead'', Perm ''ProjectDiskWrite''])
         \<lparr>rs_Name = ''instance'', rs_Label = ''Instance''\<rparr> ''container-disk.unmount'' ''effectiveId'']
         []]]"

definition vmsnapshot_Module :: "api_module" where
  "vmsnapshot_Module =
    NewControllerModule ''spx-controller-vm-snapshot''
    []
    [Group [] [Perm ''ProjectSnapshotRead'']
       [Handle ''GET'' ''/{projectId}/instance-snapshot'' ''ListVmSnapshots'' [],
        Handle ''GET'' ''/{az}/{projectId}/instance-snapshot'' ''ListAZVmSnapshots'' [],
        Handle ''GET'' ''/{az}/{projectId}/instance-snapshot/{effectiveId}'' ''GetVmSnapshot'' []]
       [Group [] [Perm ''ProjectSnapshotWrite'']
         [Audited (Handle ''POST'' ''/{az}/{projectId}/instance-snapshot'' ''CreateVmSnapshot'' [CreationQuota])
         \<lparr>rs_Name = ''vmSnapshot'', rs_Label = ''Instance Snapshot''\<rparr> ''create'' [],
          Audited (Handle ''DELETE'' ''/{az}/{projectId}/instance-snapshot/{effectiveId}'' ''DeleteVmSnapshot'' [])
         \<lparr>rs_Name = ''vmSnapshot'', rs_Label = ''Instance Snapshot''\<rparr> ''delete'' ''effectiveId'',
          Audited (Handle ''POST'' ''/{az}/{projectId}/instance-snapshot/{effectiveId}/restore'' ''RestoreVmSnapshot'' [Perm ''ProjectInstanceWrite''])
         \<lparr>rs_Name = ''vmSnapshot'', rs_Label = ''Instance Snapshot''\<rparr> ''restore'' ''effectiveId'',
          Audited (Handle ''POST'' ''/{az}/{projectId}/instance-snapshot/{effectiveId}/clone'' ''CloneVmSnapshot'' [Perm ''ProjectInstanceWrite''])
         \<lparr>rs_Name = ''vmSnapshot'', rs_Label = ''Instance Snapshot''\<rparr> ''clone'' ''effectiveId'']
         []]]"

definition disk_Module :: "api_module" where
  "disk_Module =
    NewControllerModule ''spx-controller-disk''
    [Audited (Handle ''GET'' ''/{az}/{projectId}/disk/{effectiveId}/unmount'' ''Unmount'' [Perm ''ProjectInstanceRead'', Perm ''ProjectDiskRead'', Perm ''ProjectInstanceWrite''])
         \<lparr>rs_Name = ''disk'', rs_Label = ''Disk''\<rparr> ''unmount'' ''effectiveId'']
    [Group [] [Perm ''ProjectDiskRead'']
       [Handle ''GET'' ''/{projectId}/disk'' ''ListDisks'' [],
        Handle ''GET'' ''/{az}/{projectId}/disk'' ''ListAZDisks'' [],
        Handle ''GET'' ''/{az}/{projectId}/disk/{effectiveId}'' ''GetDisk'' []]
       [Group [] [Perm ''ProjectDiskWrite'']
         [Audited (Handle ''POST'' ''/{az}/{projectId}/disk'' ''CreateDisk'' [CreationQuota])
         \<lparr>rs_Name = ''disk'', rs_Label = ''Disk''\<rparr> ''create'' [],
          Audited (Handle ''POST'' ''/{az}/{projectId}/disk/{effectiveId}'' ''UpdateDisk'' [])
         \<lparr>rs_Name = ''disk'', rs_Label = ''Disk''\<rparr> ''update'' ''effectiveId'',
          Audited (Handle ''DELETE'' ''/{az}/{projectId}/disk/{effectiveId}'' ''DeleteDisk'' [])
         \<lparr>rs_Name = ''disk'', rs_Label = ''Disk''\<rparr> ''delete'' ''effectiveId'']
         []]]"

definition bucket_Module :: "api_module" where
  "bucket_Module =
    NewControllerModule ''spx-controller-bucket''
    []
    [Group [] [Perm ''ProjectBucketRead'']
       [Handle ''GET'' ''/{projectId}/bucket'' ''ListBuckets'' [],
        Handle ''GET'' ''/{az}/{projectId}/bucket'' ''ListAZBuckets'' [],
        Handle ''GET'' ''/{az}/{projectId}/bucket/{effectiveId}'' ''GetBucket'' [],
        Handle ''GET'' ''/{az}/{projectId}/s3-config'' ''GetS3Config'' [],
        Handle ''GET'' ''/{az}/{projectId}/bucket/{effectiveId}/credentials'' ''GetBucketCredentials'' [Perm ''ProjectBucketCredentials'']]
       [Group [] [Perm ''ProjectBucketWrite'']
         [Audited (Handle ''POST'' ''/{az}/{projectId}/bucket'' ''CreateBucket'' [CreationQuota])
         \<lparr>rs_Name = ''bucket'', rs_Label = ''Object Storage''\<rparr> ''create'' [],
          Audited (Handle ''POST'' ''/{az}/{projectId}/bucket/{effectiveId}'' ''UpdateBucket'' [])
         \<lparr>rs_Name = ''bucket'', rs_Label = ''Object Storage''\<rparr> ''update'' ''effectiveId'',
          Audited (Handle ''DELETE'' ''/{az}/{projectId}/bucket/{effectiveId}'' ''DeleteBucket'' [])
         \<lparr>rs_Name = ''bucket'', rs_Label = ''Object Storage''\<rparr> ''delete'' ''effectiveId'']
         []]]"

definition snapshot_Module :: "api_module" where
  "snapshot_Module =
    NewControllerModule ''spx-controller-snapshot''
    []
    [Group [] [Perm ''ProjectSnapshotRead'']
       [Handle ''GET'' ''/{projectId}/snapshot'' ''ListSnapshots'' [],
        Handle ''GET'' ''/{az}/{projectId}/snapshot'' ''ListAZSnapshots'' [],
        Handle ''GET'' ''/{az}/{projectId}/snapshot/{effectiveId}'' ''GetSnapshot'' []]
       [Group [] [Perm ''ProjectSnapshotWrite'']
         [Audited (Handle ''POST'' ''/{az}/{projectId}/snapshot'' ''CreateSnapshot'' [CreationQuota])
         \<lparr>rs_Name = ''snapshot'', rs_Label = ''Snapshot''\<rparr> ''create'' [],
          Audited (Handle ''POST'' ''/{az}/{projectId}/snapshot/{effectiveId}'' ''UpdateSnapshot'' [])
         \<lparr>rs_Name = ''snapshot'', rs_Label = ''Snapshot''\<rparr> ''update'' ''effectiveId'',
          Audited (Handle ''DELETE'' ''/{az}/{projectId}/snapshot/{effectiveId}'' ''DeleteSnapshot'' [])
         \<lparr>rs_Name = ''snapshot'', rs_Label = ''Snapshot''\<rparr> ''delete'' ''effectiveId'']
         []]]"

definition baas_Module :: "api_module" where
  "baas_Module =
    NewControllerModule ''spx-controller-baas''
    []
    [Group [] [Perm ''ProjectBaaSRead'']
       [Handle ''GET'' ''/{projectId}/baas'' ''ListBaaS'' [],
        Handle ''GET'' ''/{az}/{projectId}/baas/{effectiveId}'' ''GetBaaS'' []]
       [Group [] [Perm ''ProjectBaaSWrite'']
         [Audited (Handle ''POST'' ''/{az}/{projectId}/baas'' ''CreateBaaS'' [CreationQuota])
         \<lparr>rs_Name = ''baas'', rs_Label = ''Backup''\<rparr> ''create'' [],
          Handle ''GET'' ''/{az}/{projectId}/baas/{effectiveId}/app'' ''GetForUpdateBaaS'' [],
          Audited (Handle ''POST'' ''/{az}/{projectId}/baas/{effectiveId}'' ''UpdateBaaS'' [])
         \<lparr>rs_Name = ''baas'', rs_Label = ''Backup''\<rparr> ''update'' ''effectiveId'',
          Audited (Handle ''DELETE'' ''/{az}/{projectId}/baas/{effectiveId}'' ''DeleteBaaS'' [])
         \<lparr>rs_Name = ''baas'', rs_Label = ''Backup''\<rparr> ''delete'' ''effectiveId'']
         []]]"

definition vpc_Module :: "api_module" where
  "vpc_Module =
    NewControllerModule ''spx-controller-vpc''
    []
    [Group [] [Perm ''ProjectVPCRead'']
       [Handle ''GET'' ''/{projectId}/vpc'' ''ListVPCs'' [],
        Handle ''GET'' ''/{az}/{projectId}/vpc'' ''ListAZVPCs'' [],
        Handle ''GET'' ''/{az}/{projectId}/vpc/{effectiveId}'' ''GetVPC'' []]
       [Group [] [Perm ''ProjectVPCWrite'']
         [Audited (Handle ''POST'' ''/{az}/{projectId}/vpc'' ''CreateVPC'' [CreationQuota])
         \<lparr>rs_Name = ''vpc'', rs_Label = ''VPC''\<rparr> ''create'' [],
          Audited (Handle ''POST'' ''/{az}/{projectId}/vpc/{effectiveId}'' ''UpdateVPC'' [])
         \<lparr>rs_Name = ''vpc'', rs_Label = ''VPC''\<rparr> ''update'' ''effectiveId'',
          Audited (Handle ''DELETE'' ''/{az}/{projectId}/vpc/{effectiveId}'' ''DeleteVPC'' [])
         \<lparr>rs_Name = ''vpc'', rs_Label = ''VPC''\<rparr> ''delete'' ''effectiveId'']
         []]]"

definition subnet_Module :: "api_module" where
  "subnet_Module =
    NewControllerModule ''spx-controller-subnet''
    []
    [Group [] [Perm ''ProjectSubnetRead'']
       [Handle ''GET'' ''/{projectId}/subnet'' ''ListSubnets'' [],
        Handle ''GET'' ''/{az}/{projectId}/subnet'' ''ListAZSubnets'' [],
        Handle ''GET'' ''/{az}/{projectId}/subnet/{effectiveId}'' ''GetSubnet'' [],
        Handle ''GET'' ''/{az}/{projectId}/subnet/{effectiveId}/has-eip'' ''HasEip'' [Perm ''ProjectEipRead'']]
       [Group [] [Perm ''ProjectSubnetWrite'']
         [Audited (Handle ''POST'' ''/{az}/{projectId}/subnet'' ''CreateSubnet'' [CreationQuota])
         \<lparr>rs_Name = ''subnet'', rs_Label = ''Subnet''\<rparr> ''create'' [],
          Audited (Handle ''POST'' ''/{az}/{projectId}/subnet/{effectiveId}'' ''UpdateSubnet'' [])
         \<lparr>rs_Name = ''subnet'', rs_Label = ''Subnet''\<rparr> ''update'' ''effectiveId'',
          Audited (Handle ''DELETE'' ''/{az}/{projectId}/subnet/{effectiveId}'' ''DeleteSubnet'' [])
         \<lparr>rs_Name = ''subnet'', rs_Label = ''Subnet''\<rparr> ''delete'' ''effectiveId'']
         []]]"

definition eip_Module :: "api_module" where
  "eip_Module =
    NewControllerModule ''spx-controller-eip''
    []
    [Group [] [Perm ''ProjectEipRead'']
       [Handle ''GET'' ''/{projectId}/eip'' ''ListEips'' [],
        Handle ''GET'' ''/{az}/{projectId}/eip'' ''ListAZEips'' [],
        Handle ''GET'' ''/{az}/{projectId}/eip/{effectiveId}'' ''GetEip'' []]
       [Group [] [Perm ''ProjectEipWrite'']
         [Audited (Handle ''POST'' ''/{az}/{projectId}/eip'' ''CreateEip'' [CreationQuota])
         \<lparr>rs_Name = ''eip'', rs_Label = ''Elastic IP''\<rparr> ''create'' [],
          Audited (Handle ''POST'' ''/{az}/{projectId}/eip/{effectiveId}'' ''UpdateEip'' [])
         \<lparr>rs_Name = ''eip'', rs_Label = ''Elastic IP''\<rparr> ''update'' ''effectiveId'',
          Audited (Handle ''DELETE'' ''/{az}/{projectId}/eip/{effectiveId}'' ''DeleteEip'' [])
         \<lparr>rs_Name = ''eip'', rs_Label = ''Elastic IP''\<rparr> ''delete'' ''effectiveId'']
         []]]"

definition loadbalancer_Module :: "api_module" where
  "loadbalancer_Module =
    NewControllerModule ''spx-controller-load-balancer''
    []
    [Group [] [Perm ''ProjectLoadBalancerRead'']
       [Handle ''GET'' ''/{projectId}/load-balancer'' ''ListLoadBalancers'' [],
        Handle ''GET'' ''/{az}/{projectId}/load-balancer'' ''ListAZLoadBalancers'' [],
        Handle ''GET'' ''/{az}/{projectId}/load-balancer/{effectiveId}'' ''GetLoadBalancer'' []]
       [Group [] [Perm ''ProjectLoadBalancerWrite'']
         [Audited (Handle ''POST'' ''/{az}/{projectId}/load-balancer'' ''CreateLoadBalancer'' [CreationQuota])
         \<lparr>rs_Name = ''loadBalancer'', rs_Label = ''Load Balancer''\<rparr> ''create'' [],
          Audited (Handle ''POST'' ''/{az}/{projectId}/load-balancer/{effectiveId}'' ''UpdateLoadBalancer'' [])
         \<lparr>rs_Name = ''loadBalancer'', rs_Label = ''Load Balancer''\<rparr> ''update'' ''effectiveId'',
          Audited (Handle ''DELETE'' ''/{az}/{projectId}/load-balancer/{effectiveId}'' ''DeleteLoadBalancer'' [])
         \<lparr>rs_Name = ''loadBalancer'', rs_Label = ''Load Balancer''\<rparr> ''delete'' ''effectiveId'']
         []]]"

definition securitygroup_Module :: "api_module" where
  "securitygroup_Module =
    NewControllerModule ''spx-controller-security-group''
    []
    [Group [] [Perm ''ProjectSecurityGroupRead'']
       [Handle ''GET'' ''/{projectId}/security-group'' ''ListSecurityGroups'' [],
        Handle ''GET'' ''/{az}/{projectId}/security-group'' ''ListAZSecurityGroups'' [],
        Handle ''GET'' ''/{az}/{projectId}/security-group/{effectiveId}'' ''GetSecurityGroup'' []]
       [Group [] [Perm ''ProjectSecurityGroupWrite'']
         [Audited (Handle ''POST'' ''/{az}/{projectId}/security-group'' ''CreateSecurityGroup'' [CreationQuota])
         \<lparr>rs_Name = ''securityGroup'', rs_Label = ''Security Group''\<rparr> ''create'' [],
          Audited (Handle ''POST'' ''/{az}/{projectId}/security-group/{effectiveId}'' ''UpdateSecurityGroup'' [])
         \<lparr>rs_Name = ''securityGroup'', rs_Label = ''Security Group''\<rparr> ''update'' ''effectiveId'',
          Audited (Handle ''DELETE'' ''/{az}/{projectId}/security-group/{effectiveId}'' ''DeleteSecurityGroup'' [])
         \<lparr>rs_Name = ''securityGroup'', rs_Label = ''Security Group''\<rparr> ''delete'' ''effectiveId'']
         []]]"

definition ssh_Module :: "api_module" where
  "ssh_Module =
    NewControllerModule ''spx-controller-ssh''
    []
    [Group [] [Perm ''ProjectSSHRead'']
       [Handle ''GET'' ''/{projectId}/ssh'' ''ListSSHs'' [],
        Handle ''GET'' ''/{az}/{projectId}/ssh'' ''ListAZSSHs'' [],
        Handle ''GET'' ''/{az}/{projectId}/ssh/{effectiveId}'' ''GetSSH'' []]
       [Group [] [Perm ''ProjectSSHWrite'']
         [Audited (Handle ''POST'' ''/{az}/{projectId}/ssh'' ''CreateSSH'' [CreationQuota])
         \<lparr>rs_Name = ''ssh'', rs_Label = ''SSH Keys''\<rparr> ''create'' [],
          Audited (Handle ''DELETE'' ''/{az}/{projectId}/ssh/{effectiveId}'' ''DeleteSSH'' [])
         \<lparr>rs_Name = ''ssh'', rs_Label = ''SSH Keys''\<rparr> ''delete'' ''effectiveId'']
         []]]"

definition kaas_Module :: "api_module" where
  "kaas_Module =
    NewControllerModule ''spx-controller-kaas''
    []
    [Group [] [Perm ''ProjectKaaSRead'']
       [Handle ''GET'' ''/{projectId}/kaas'' ''ListKaaS'' [],
        Handle ''GET'' ''/{projectId}/kaas/kube-versions'' ''GetKubeVersion'' [],
        Handle ''GET'' ''/{az}/{projectId}/kaas/{effectiveId}'' ''GetKaaS'' [],
        Handle ''GET'' ''/{az}/{projectId}/kaas/{effectiveId}/instances'' ''Instances'' [Perm ''ProjectInstanceRead''],
        Handle ''GET'' ''/{az}/{projectId}/kaas/{effectiveId}/netpols'' ''Netpols'' [Perm ''ProjectSecurityGroupRead''],
        Handle ''GET'' ''/{az}/{projectId}/kaas/{effectiveId}/kubeconfig'' ''GetKaaSKubeConfig'' [Perm ''ProjectKaaSKubeConfig'']]
       [Group [] [Perm ''ProjectKaaSWrite'']
         [Audited (Handle ''POST'' ''/{az}/{projectId}/kaas'' ''CreateKaaS'' [CreationQuota])
         \<lparr>rs_Name = ''kaas'', rs_Label = ''Kubernetes''\<rparr> ''create'' [],
          Audited (Handle ''POST'' ''/{az}/{projectId}/kaas/{effectiveId}'' ''UpdateKaaS'' [])
         \<lparr>rs_Name = ''kaas'', rs_Label = ''Kubernetes''\<rparr> ''update'' ''effectiveId'',
          Audited (Handle ''DELETE'' ''/{az}/{projectId}/kaas/{effectiveId}'' ''DeleteKaaS'' [])
         \<lparr>rs_Name = ''kaas'', rs_Label = ''Kubernetes''\<rparr> ''delete'' ''effectiveId'',
          Handle ''GET'' ''/{az}/{projectId}/kaas/{effectiveId}/app'' ''GetForUpdateKaaS'' [],
          Audited (Handle ''GET'' ''/{az}/{projectId}/kaas/{effectiveId}/reinstall-essentials'' ''ReinstallKaaSEssentials'' [])
         \<lparr>rs_Name = ''kaas'', rs_Label = ''Kubernetes''\<rparr> ''reinstall-essentials'' ''effectiveId'',
          Audited (Handle ''POST'' ''/{az}/{projectId}/kaas/{effectiveId}/upgrade'' ''UpgradeKaaS'' [])
         \<lparr>rs_Name = ''kaas'', rs_Label = ''Kubernetes''\<rparr> ''upgrade'' ''effectiveId'']
         []]]"

definition metadata_Module :: "api_module" where
  "metadata_Module =
    NewControllerModule ''spx-controller-metadata''
    [Handle ''GET'' ''/{az}/{projectId}/storage-class'' ''StorageClass'' [],
     Handle ''GET'' ''/{az}/{projectId}/gpu-class'' ''GpuClass'' [],
     Handle ''GET'' ''/{az}/{projectId}/vm-type'' ''VMType'' [],
     Handle ''GET'' ''/{az}/{projectId}/vm-type/{name}'' ''VMTypeByName'' [],
     Handle ''GET'' ''/{az}/{projectId}/vm-type/{name}/advanced-options'' ''VMTypeAdvancedOptions'' []]
    []"

definition summary_Module :: "api_module" where
  "summary_Module =
    NewControllerModule ''spx-controller-summary''
    []
    [Group [] [Perm ''ProjectRead'']
       [Handle ''GET'' ''/{projectId}/summary'' ''GetProjectSummary'' []]
       []]"

definition quota_Module :: "api_module" where
  "quota_Module =
    \<lparr>md_Name = ''quota'', md_Mount = ''/v1'', md_Middlewares = [],
     md_Routes =
      [Handle ''GET'' ''/organization/{orgaId}/quota'' ''GetOrganizationQuota'' [jwtOrToken, Perm ''OrganizationRead'', Perm ''OrganizationProjectQuotaRead''],
       Handle ''GET'' ''/organization/{orgaId}/project/{projectId}/quota'' ''GetProjectQuota'' [jwtOrToken, Perm ''OrganizationRead'', Perm ''ProjectAZQuotaRead''],
       Audited (Handle ''PUT'' ''/organization/{orgaId}/project/{projectId}/quota'' ''SetProjectQuota'' [jwtOrToken, Perm ''OrganizationRead'', Perm ''OrganizationProjectQuotaWrite''])
         \<lparr>rs_Name = ''quota'', rs_Label = ''Quota''\<rparr> ''update'' ''projectId'',
       Audited (Handle ''PUT'' ''/organization/{orgaId}/project/{projectId}/quota/az/{codeAZ}'' ''SetProjectAZQuota'' [jwtOrToken, Perm ''OrganizationRead'', Perm ''ProjectAZQuotaWrite''])
         \<lparr>rs_Name = ''quota'', rs_Label = ''Quota''\<rparr> ''update'' ''projectId'',
       Audited (Handle ''DELETE'' ''/organization/{orgaId}/project/{projectId}/quota'' ''DeleteProjectQuota'' [jwtOrToken, Perm ''OrganizationRead'', Perm ''OrganizationProjectQuotaWrite''])
         \<lparr>rs_Name = ''quota'', rs_Label = ''Quota''\<rparr> ''delete'' ''projectId''],
     md_Groups = [], md_Enabled = None\<rparr>"

definition argo_Module :: "api_module" where
  "argo_Module =
    NewControllerModule ''spx-controller-argo''
    [Handle ''GET'' ''/{az}/{projectId}/argo-link/{kind}/{effectiveId}'' ''GetArgoCdLink'' [Perm ''ProjectRead'', Perm ''ProjectArgoCdRead'']]
    []"

definition adminQuota_Module :: "api_module" where
  "adminQuota_Module =
    \<lparr>md_Name = ''admin_quota'', md_Mount = ''/quota'', md_Middlewares = [SecretAuth],
     md_Routes =
      [Handle ''GET'' ''/organization/{orgaId}'' ''GetOrganizationQuota'' [],
       Handle ''PUT'' ''/organization/{orgaId}'' ''SetOrganizationQuota'' [],
       Handle ''DELETE'' ''/organization/{orgaId}'' ''DeleteOrganizationQuota'' []],
     md_Groups = [], md_Enabled = None\<rparr>"

definition adminBilling_Module :: "api_module" where
  "adminBilling_Module =
    \<lparr>md_Name = ''billing'', md_Mount = ''/billing'', md_Middlewares = [SecretAuth],
     md_Routes =
      [Handle ''GET'' ''/project/{projectId}'' ''GetProjectName'' [],
       Handle ''GET'' ''/organization/{orgaId}'' ''GetOrgaName'' [],
       Handle ''GET'' ''/resource/{resourceId}'' ''GetResourceName'' []],
     md_Groups = [], md_Enabled = None\<rparr>"

definition adminPermission_Module :: "api_module" where
  "adminPermission_Module =
    \<lparr>md_Name = ''admin-permission'', md_Mount = ''/admin'', md_Middlewares = [SecretAuth],
     md_Routes =
      [Handle ''POST'' ''/permission/update-schema'' ''UpdateDefaultSchema'' []],
     md_Groups = [], md_Enabled = None\<rparr>"

definition swaggerModule :: api_module where
  "swaggerModule = \<lparr>md_Name = ''swagger'', md_Mount = [], md_Middlewares = [], md_Routes = [Handle ''GET'' ''/swagger/*'' ''swagger'' []], md_Groups = [], md_Enabled = None\<rparr>"


section \<open>Registries\<close>

text \<open>What the configuration decides: whether events are audited, and the list of super administrators.\<close>

definition publicHttp_RegisterModules :: "bool \<Rightarrow> (string, api_middleware) registry \<Rightarrow> (string, api_middleware) registry" where
  "publicHttp_RegisterModules auditLog r =
     (let r1 = fold (\<lambda>n. Use n (GlobalMW n)) [''request-id'', ''logger'', ''recoverer'', ''peer-addr'', ''real-ip'', ''clean-path'',
                 ''reject-path-traversal'', ''tracing'', ''metrics'', ''cors'', ''heartbeat''] r;
          r2 = (if auditLog then SetAuditor AuditEvent r1 else r1)
      in Register swaggerModule r2)"

definition registerPublic :: "string list \<Rightarrow> (string, api_middleware) registry \<Rightarrow> (string, api_middleware) registry" where
  "registerPublic superAdmins = fold Register
     [organization_Module, session_Module, apiToken_Module, az_Module, user_Module, group_Module, membership_Module,
      permission_Module, project_Module, manager_Module superAdmins, auditlog_Module,
      instance_Module, vmsnapshot_Module, disk_Module, bucket_Module, snapshot_Module, baas_Module, vpc_Module, subnet_Module,
      eip_Module, loadbalancer_Module, securitygroup_Module, ssh_Module, kaas_Module, metadata_Module, summary_Module, quota_Module, argo_Module]"

definition InitializeServer :: "bool \<Rightarrow> string list \<Rightarrow> api_middleware list \<times> (string, api_middleware) resolved_route list" where
  "InitializeServer auditLog superAdmins = Build (registerPublic superAdmins (publicHttp_RegisterModules auditLog New))"

definition InitializeAdminServer :: "api_middleware list \<times> (string, api_middleware) resolved_route list" where
  "InitializeAdminServer = Build (fold Register [adminPermission_Module, adminBilling_Module, adminQuota_Module]
     (fold (\<lambda>n. Use n (GlobalMW n)) [''request-id'', ''logger'', ''recoverer'', ''real-ip'', ''clean-path'', ''tracing'', ''metrics''] New))"

end
