(* ===== verification/Api_Guard.thy ===== *)
theory Api_Guard
  imports Api_Routes Iam_Properties
begin

text \<open>
  What the chain of a route does with a request: \<^verbatim>\<open>pkg/api/publicHttp/authentication/middleware.go\<close>,
  \<^verbatim>\<open>AddUserIdToRequestHeader\<close> (\<^verbatim>\<open>publicHttp/proxy/proxy.go\<close>), \<^verbatim>\<open>checkSuperAdminList\<close> (\<^verbatim>\<open>project/manager/projectManager.go\<close>),
  \<^verbatim>\<open>SecretAuth\<close> (\<^verbatim>\<open>adminHttp/authentication\<close>) and \<^verbatim>\<open>rejectPathTraversal\<close> (\<^verbatim>\<open>publicHttp/router.go\<close>), with the permission and project
  middlewares of \<open>Iam_Access\<close>.

  The ways to authenticate (tokens, sessions) are the arguments \<open>ah_detect\<close> and \<open>ah_validate\<close>: whether the request carries a
  credential of a kind, and the request with the user of the credential, \<open>None\<close> when it is refused. The audit and global
  middlewares pass every request on.
\<close>

record auth_types =
  ah_detect :: "string \<Rightarrow> api_request \<Rightarrow> bool"
  ah_validate :: "string \<Rightarrow> api_request \<Rightarrow> api_request option"
  ah_kratos :: "api_request \<Rightarrow> api_request option"
  ah_secret :: "api_request \<Rightarrow> string"

record api_state =
  as_iam :: iam_world
  as_quota :: quota_db

type_synonym outcome = "(nat + unit) + api_request"

text \<open>\<open>Inr\<close> the request the next handler sees, \<open>Inl (Inl n)\<close> the status of a refusal, \<open>Inl (Inr ())\<close> a panic.\<close>

definition of_verdict :: "verdict \<Rightarrow> api_request \<Rightarrow> outcome" where
  "of_verdict v r = (case v of Pass \<Rightarrow> Inr r | Refuse n \<Rightarrow> Inl (Inl n) | Panic \<Rightarrow> Inl (Inr ()))"

fun run_Authenticate :: "auth_types \<Rightarrow> string list \<Rightarrow> api_request \<Rightarrow> outcome" where
  "run_Authenticate H [] r = Inl (Inl 401)"
| "run_Authenticate H (t # ts) r =
     (if ah_detect H t r then (case ah_validate H t r of None \<Rightarrow> Inl (Inl 401) | Some r' \<Rightarrow> Inr r') else run_Authenticate H ts r)"

definition checkSuperAdminList :: "iam_env \<Rightarrow> api_request \<Rightarrow> verdict" where
  "checkSuperAdminList E r =
     (if IsSuperAdminUser E (case rq_user r of None \<Rightarrow> [] | Some u \<Rightarrow> u) then Pass else Refuse 404)"

definition run_SecretAuth :: "auth_types \<Rightarrow> string \<Rightarrow> api_request \<Rightarrow> verdict" where
  "run_SecretAuth H authSecret r = (if ah_secret H r = [] \<or> ah_secret H r \<noteq> authSecret then Refuse 401 else Pass)"

fun run_mw :: "iam_env \<Rightarrow> auth_types \<Rightarrow> string \<Rightarrow> api_state \<Rightarrow> api_middleware \<Rightarrow> api_request \<Rightarrow> outcome" where
  "run_mw E H secret S (Authenticate ts) r = run_Authenticate H ts r"
| "run_mw E H secret S KratosAuth r = (case ah_kratos H r of None \<Rightarrow> Inl (Inl 401) | Some r' \<Rightarrow> Inr r')"
| "run_mw E H secret S SecretAuth r = of_verdict (run_SecretAuth H secret r) r"
| "run_mw E H secret S AddUserId r = Inr r"
| "run_mw E H secret S (Perm p) r = of_verdict (CheckPermission E (as_iam S) p r) r"
| "run_mw E H secret S ProjectActive r = of_verdict (CheckProjectActive_request E (as_quota S) r) r"
| "run_mw E H secret S CreationQuota r = of_verdict (CheckCreationQuota E (as_iam S) r) r"
| "run_mw E H secret S SuperAdminList r = of_verdict (checkSuperAdminList E r) r"
| "run_mw E H secret S (AuditEvent a) r = Inr r"
| "run_mw E H secret S (GlobalMW n) r = Inr r"

fun run_chain :: "iam_env \<Rightarrow> auth_types \<Rightarrow> string \<Rightarrow> api_state \<Rightarrow> api_middleware list \<Rightarrow> api_request \<Rightarrow> outcome" where
  "run_chain E H secret S [] r = Inr r"
| "run_chain E H secret S (m # ms) r = (case run_mw E H secret S m r of Inl x \<Rightarrow> Inl x | Inr r' \<Rightarrow> run_chain E H secret S ms r')"


section \<open>Path traversal\<close>

definition hex_digit :: "char \<Rightarrow> nat option" where
  "hex_digit c = (let n = of_char c :: nat in
     if 48 \<le> n \<and> n \<le> 57 then Some (n - 48) else if 65 \<le> n \<and> n \<le> 70 then Some (n - 55) else if 97 \<le> n \<and> n \<le> 102 then Some (n - 87) else None)"

text \<open>\<^verbatim>\<open>url.PathUnescape\<close>: a percent sign needs two hexadecimal digits.\<close>

fun PathUnescape :: "string \<Rightarrow> string option" where
  "PathUnescape [] = Some []"
| "PathUnescape (c # s) =
     (if c = CHR ''%''
      then (case s of
              a # b # s' \<Rightarrow> (case (hex_digit a, hex_digit b) of
                              (Some x, Some y) \<Rightarrow> map_option (Cons (char_of (16 * x + y))) (PathUnescape s')
                            | _ \<Rightarrow> None)
            | _ \<Rightarrow> None)
      else map_option (Cons c) (PathUnescape s))"

fun split_path :: "string \<Rightarrow> string list" where
  "split_path [] = [[]]"
| "split_path (c # s) = (if c = CHR ''/'' then [] # split_path s else (case split_path s of [] \<Rightarrow> [[c]] | x # xs \<Rightarrow> (c # x) # xs))"

definition segment_ok :: "string \<Rightarrow> bool" where
  "segment_ok segment =
     (case PathUnescape segment of
        None \<Rightarrow> False
      | Some d \<Rightarrow> d \<noteq> ''.'' \<and> d \<noteq> ''..'' \<and> list_all (\<lambda>c. c \<notin> {CHR ''/'', CHR 0x5C, CHR ''%''}) d)"

definition rejectPathTraversal :: "string \<Rightarrow> verdict" where
  "rejectPathTraversal escapedPath = (if list_all segment_ok (split_path escapedPath) then Pass else Refuse 400)"


section \<open>Lemmas\<close>

lemma of_verdict_Inr [simp]: "of_verdict v r = Inr r' \<longleftrightarrow> v = Pass \<and> r' = r"
  by (auto simp: of_verdict_def split: verdict.splits)

lemma run_chain_append:
  "run_chain E H secret S (xs @ ys) r = Inr r' \<longleftrightarrow> (\<exists>r1. run_chain E H secret S xs r = Inr r1 \<and> run_chain E H secret S ys r1 = Inr r')"
  by (induction xs arbitrary: r) (auto split: sum.splits)

text \<open>Only authentication changes the request.\<close>

definition authenticates :: "api_middleware \<Rightarrow> bool" where
  "authenticates m \<longleftrightarrow> m = KratosAuth \<or> (\<exists>ts. m = Authenticate ts)"

lemma run_mw_same: "\<not> authenticates m \<Longrightarrow> run_mw E H secret S m r = Inr r' \<Longrightarrow> r' = r"
  by (cases m) (auto simp: authenticates_def)

lemma run_chain_same: "\<forall>m\<in>set ms. \<not> authenticates m \<Longrightarrow> run_chain E H secret S ms r = Inr r' \<Longrightarrow> r' = r"
  by (induction ms arbitrary: r) (auto split: sum.splits dest: run_mw_same)

lemma run_chain_member:
  assumes "run_chain E H secret S ms r = Inr r'" "\<forall>m\<in>set ms. \<not> authenticates m" "m \<in> set ms"
  shows "run_mw E H secret S m r' = Inr r'"
  using assms
proof (induction ms arbitrary: r)
  case (Cons a ms)
  from Cons.prems(1) obtain r1 where 1: "run_mw E H secret S a r = Inr r1" "run_chain E H secret S ms r1 = Inr r'" by (auto split: sum.splits)
  have "r1 = r" using run_mw_same [OF _ 1(1)] Cons.prems(2) by simp
  moreover have "r' = r1" using run_chain_same [OF _ 1(2)] Cons.prems(2) by simp
  ultimately show ?case using 1 Cons by (cases "m = a") auto
qed simp


text \<open>A path is the join of its segments, and decoding a path segment by segment decodes the whole path.\<close>

fun join_path :: "string list \<Rightarrow> string" where
  "join_path [] = []"
| "join_path [x] = x"
| "join_path (x # y # xs) = x @ CHR ''/'' # join_path (y # xs)"

lemma split_path_nonempty [simp]: "split_path p \<noteq> []"
  by (cases p) (auto split: list.splits)

lemma join_split_path: "join_path (split_path p) = p"
proof (induction p)
  case (Cons c p)
  then show ?case using split_path_nonempty [of p] by (cases "split_path p" rule: join_path.cases) auto
qed simp

lemma split_path_segment: "CHR ''/'' \<notin> set x \<Longrightarrow> split_path x = [x]"
  by (induction x) auto

lemma split_path_append: "CHR ''/'' \<notin> set x \<Longrightarrow> split_path (x @ CHR ''/'' # p) = x # split_path p"
  by (induction x) auto

lemma split_join_path: "xs \<noteq> [] \<Longrightarrow> \<forall>x\<in>set xs. CHR ''/'' \<notin> set x \<Longrightarrow> split_path (join_path xs) = xs"
  by (induction xs rule: join_path.induct) (auto simp: split_path_segment split_path_append)

lemma PathUnescape_append: "PathUnescape a = Some d \<Longrightarrow> PathUnescape (a @ b) = map_option ((@) d) (PathUnescape b)"
proof (induction a arbitrary: d rule: PathUnescape.induct)
  case 1
  then have "d = []" by simp
  then have "(@) d = (\<lambda>x. x)" by auto
  then show ?case by (simp add: option.map_ident)
next
  case (2 c s)
  show ?case
  proof (cases "c = CHR ''%''")
    case True
    then obtain a1 b1 s' x y d' where "s = a1 # b1 # s'" "hex_digit a1 = Some x" "hex_digit b1 = Some y" "PathUnescape s' = Some d'"
      "d = char_of (16 * x + y) # d'"
      using 2(3) by (auto split: list.splits option.splits)
    then show ?thesis using True 2(1) by (simp add: option.map_comp comp_def)
  next
    case False
    then obtain d' where "PathUnescape s = Some d'" "d = c # d'" using 2(3) by auto
    then show ?thesis using False 2(2) by (simp add: option.map_comp comp_def)
  qed
qed

lemma PathUnescape_join: "list_all2 (\<lambda>x d. PathUnescape x = Some d) xs ds \<Longrightarrow> PathUnescape (join_path xs) = Some (join_path ds)"
proof (induction xs arbitrary: ds rule: join_path.induct)
  case (3 x y xs)
  then show ?case by (auto simp: list_all2_Cons1 PathUnescape_append)
qed (auto simp: list_all2_Cons1)

lemma PathUnescape_plain: "CHR ''%'' \<notin> set d \<Longrightarrow> PathUnescape d = Some d"
  by (induction d) auto

lemma join_path_chars: "set (join_path ds) \<subseteq> insert (CHR ''/'') (\<Union> (set ` set ds))"
  by (induction ds rule: join_path.induct) auto

end
