(* ===== verification/Api_Properties.thy ===== *)
theory Api_Properties
  imports Api_Guard
begin

text \<open>
  Properties of the routing of the API: what \<^verbatim>\<open>Build\<close> keeps of the declared chains, and that every route of the public server
  is behind the checks it needs.
\<close>

section \<open>Building the table\<close>

text \<open>
  C29. The built table is exactly this: for every enabled module, every path of nested groups in it and every route of
  the innermost group (or of the module) that was not removed, one route. Its pattern is the mount of the module, the
  prefixes of the groups and the pattern of the route. Its chain is the audit middleware if the route is audited, then the
  middlewares of the module, of each group from the outside to the inside, and of the route; for an overridden route
  the handler and the chain are those of the override. So an override never brings back a route of a disabled module.
\<close>

theorem built_routes_keep_module_chain:
  "x \<in> set (snd (Build r)) \<longleftrightarrow>
    (\<exists>m path rt pattern. m \<in> set (rg_modules r) \<and> md_Enabled m \<noteq> Some False \<and> nested_path (md_Groups m) path \<and>
       rt \<in> set (if path = [] then md_Routes m else gp_Routes (last path)) \<and>
       pattern = md_Mount m @ concat (map gp_Prefix path) @ rt_Pattern rt \<and>
       routeKey (rt_Method rt) pattern |\<notin>| rg_routeRemovals r \<and>
       rr_method x = rt_Method rt \<and> rr_pattern x = pattern \<and>
       (case fmlookup (rg_routeOverrides r) (routeKey (rt_Method rt) pattern) of
          None \<Rightarrow> rr_handler x = rt_Handler rt \<and>
            rr_chain x = audit_front r (rt_Audit rt) @ md_Middlewares m @ concat (map gp_Middlewares path) @ rt_Middlewares rt
        | Some ov \<Rightarrow> rr_handler x = rt_Handler ov \<and>
            rr_chain x = audit_front r (if rt_Audit ov = None then rt_Audit rt else rt_Audit ov) @ rt_Middlewares ov))"
  unfolding Build_iff resolve_iff level_routes_def append_assoc by (simp add: conj_ac)

definition demo_registry :: "(string, api_middleware) registry" where
  "demo_registry = SetAuditor AuditEvent (Register (NewControllerModule ''vpc'' [Audited (Handle ''POST'' ''/vpc'' ''CreateVPC'' [Perm ''ProjectVPCWrite'']) \<lparr>rs_Name = ''vpc'', rs_Label = ''VPC''\<rparr> ''create'' []] []) New)"

theorem built_routes_keep_module_chain_witness:
  "\<exists>x\<in>set (snd (Build demo_registry)). rr_handler x = ''CreateVPC'' \<and> rr_pattern x = ''/{orgaId}'' @ ApiPrefix @ ''/vpc'' \<and>
    (\<exists>a. rr_chain x = AuditEvent a # SharedMiddlewares @ [Perm ''ProjectVPCWrite''])"
proof -
  let ?m = "hd (rg_modules demo_registry)" and ?rt = "hd (md_Routes (hd (rg_modules demo_registry)))"
  let ?a = "the (rt_Audit ?rt)"
  let ?x = "\<lparr>rr_method = ''POST'', rr_pattern = ''/{orgaId}'' @ ApiPrefix @ ''/vpc'', rr_handler = ''CreateVPC'',
    rr_chain = AuditEvent ?a # SharedMiddlewares @ [Perm ''ProjectVPCWrite'']\<rparr>"
  have m: "?m \<in> set (rg_modules demo_registry)" "md_Enabled ?m \<noteq> Some False" "?rt \<in> set (md_Routes ?m)"
    "rg_routeOverrides demo_registry = fmempty" "rg_routeRemovals demo_registry = {||}"
    "audit_front demo_registry (rt_Audit ?rt) = [AuditEvent ?a]" "md_Middlewares ?m = SharedMiddlewares" "md_Mount ?m = ''/{orgaId}'' @ ApiPrefix"
    "rt_Method ?rt = ''POST''" "rt_Pattern ?rt = ''/vpc''" "rt_Handler ?rt = ''CreateVPC''" "rt_Middlewares ?rt = [Perm ''ProjectVPCWrite'']"
    by (simp_all add: demo_registry_def SetAuditor_def Register_def New_def NewControllerModule_def Audited_def Handle_def audit_front_def)
  have "?x \<in> set (snd (Build demo_registry))"
    unfolding built_routes_keep_module_chain
    by (rule exI [of _ ?m], rule exI [of _ "[]"], rule exI [of _ ?rt], rule exI [of _ "''/{orgaId}'' @ ApiPrefix @ ''/vpc''"]) (use m in simp)
  then show ?thesis by (intro bexI [of _ ?x]) auto
qed


section \<open>The routes of the public server\<close>























definition demo_auth :: auth_types where
  "demo_auth = \<lparr>ah_detect = (\<lambda>t r. t = ''JwtBearerAuth''), ah_validate = (\<lambda>t r. Some (r\<lparr>rq_user := Some ''b''\<rparr>)), ah_kratos = (\<lambda>r. None), ah_secret = (\<lambda>r. [])\<rparr>"

definition demo_request :: api_request where
  "demo_request = \<lparr>rq_orgaId = ''o'', rq_projectId = ''q'', rq_az = ''az1'', rq_effectiveId = ''vm'', rq_user = None\<rparr>"

definition demo_state :: api_state where
  "demo_state = \<lparr>as_iam = fst (CreateOrUpdateOrganizationGroup demo_env ''o'' demo_body demo_world),
     as_quota = \<lparr>organizations = fmempty, projects = fmempty, organization_quotas = fmempty, project_quotas = fmempty, project_az_quotas = fmempty,
       quota_revisions_seq = 0, project_deactivations = fmempty\<rparr>\<rparr>"

text \<open>The route of the serial console.\<close>

definition serial_route :: "(string, api_middleware) resolved_route" where
  "serial_route = \<lparr>rr_method = ''GET'', rr_pattern = ''/{orgaId}'' @ ApiPrefix @ ''/{az}/{projectId}/instance/{effectiveId}/serial'', rr_handler = ''Serial'',
     rr_chain = SharedMiddlewares @ [Perm ''ProjectInstanceRead'', Perm ''ProjectInstanceTerminal'']\<rparr>"




lemma allows_ref:
  assumes "permission_of sch etype perm = Some refs" "Ref rel \<in> set refs" "permission_of sch etype rel = None" "has_rel T etype e rel u"
  shows "allows sch T (Suc (Suc n)) etype e perm u"
  using assms by (force simp: list_ex_iff)

lemma terminal_refs:
  "\<exists>refs. permission_of DefaultSchema ''organization'' ''OrganizationRead'' = Some refs \<and> Ref SpxMember \<in> set refs"
  "\<exists>refs. permission_of DefaultSchema ''project'' ''ProjectInstanceRead'' = Some refs \<and> Ref ''ProjectInstanceTerminalAccess'' \<in> set refs"
  "\<exists>refs. permission_of DefaultSchema ''project'' ''ProjectInstanceTerminal'' = Some refs \<and> Ref ''ProjectInstanceTerminalAccess'' \<in> set refs"
  "permission_of DefaultSchema ''organization'' SpxMember = None" "permission_of DefaultSchema ''project'' ''ProjectInstanceTerminalAccess'' = None"
  by (simp_all add: permission_of_def DefaultSchema_def SpxMember_def)

lemma terminal_kinds:
  "PermissionsEntityMap ''OrganizationRead'' = ''organization''" "PermissionsEntityMap ''ProjectInstanceRead'' = ''project''"
  "PermissionsEntityMap ''ProjectInstanceTerminal'' = ''project''"
  by code_simp+

lemma find_first_by_key:
  assumes "calm E" "canonical E k" "fmlookup m k = Some v" "P v"
  shows "find_first E tab (\<lambda>(i, row). P row \<and> cond (parse_id E k) i) m = Inr (k, v)"
proof (cases "find_first E tab (\<lambda>(i, row). P row \<and> cond (parse_id E k) i) m")
  case (Inl e)
  then show ?thesis using find_first_none [OF assms(1) Inl] assms by auto
next
  case (Inr x)
  then obtain i row where x: "x = (i, row)" by (cases x)
  then show ?thesis using find_first_calm [OF assms(1) Inr [unfolded x]] assms Inr by auto
qed

text \<open>
  C23. The save of a group does not check that the projects it lists are of its organization, and the routes that only
  redirect (consoles, start and stop of instances, ...) do not check it either: when a group of organization \<open>A\<close> that a user
  belongs to is saved with the project \<open>q\<close> of another organization and the set \<^verbatim>\<open>ProjectInstanceTerminalAccess\<close>, the request of the
  user for the serial console of an instance of \<open>q\<close>, under \<open>A\<close>, passes every middleware of the route, although the check that
  the other routes make refuses it.
\<close>

theorem foreign_project_console_reached:
  assumes "calm E" "permify_laws E" "canonical E A" "fmlookup (iw_tenants W) A = Some t" "tn_schema t = Some DefaultSchema" "live_org W A"
    and "CreateOrUpdateOrganizationGroup E A body W = (W', 200)" "gb_id body \<noteq> uuidNil" "assignee_tuple (gb_id body) u \<in> tn_tuples t"
    and "\<not> gb_allProjects body" "q \<in> set (gb_projectIds body)" "''ProjectInstanceTerminalAccess'' \<in> set (gb_sets body)"
    and "canonical E q" "live_project W B q" "B \<noteq> A" "\<not> liveProject db A q"
    and "run_Authenticate H [''JwtBearerAuth'', ''ApiTokenAuth''] r = Inr r'" "rq_user r' = Some u" "rq_orgaId r' = A" "rq_projectId r' = q"
  shows "run_chain E H secret \<lparr>as_iam = W', as_quota = db\<rparr> (rr_chain serial_route) r = Inr r' \<and> CheckPathParams E azs W' r' = Inl 400"
proof
  have tenant: "has_tenant W A" using assms(4) by (simp add: has_tenant_def)
  note W' = saved_group_world [OF assms(1,3) tenant assms(7,8)]
  let ?T = "{x \<in> tn_tuples t. \<not> of_group (gb_id body) x} \<union> group_grants W (gb_id body) (body_row A body)"
  note T = saved_group_tuples [OF assms(4,9), where body = body]
  have can: "CanAccess E W' A perm e u \<longleftrightarrow> allows DefaultSchema ?T 20 (PermissionsEntityMap perm) e perm u" for perm e
    using assms(1,2,5) T(1) unfolding permify_laws_def W' by (simp add: CanAccess_def calm_simps GetTuple_def entity_User_def del: allows.simps)
  have "SpxMember \<in> set organization_sets" "''ProjectInstanceTerminalAccess'' \<in> set project_sets" by code_simp+
  then have rel: "has_rel ?T ''organization'' A SpxMember u" "has_rel ?T ''project'' q ''ProjectInstanceTerminalAccess'' u"
    using T(2,3) assms(10-12) by auto
  have perms: "CanAccess E W' A ''OrganizationRead'' A u" "CanAccess E W' A ''ProjectInstanceRead'' q u" "CanAccess E W' A ''ProjectInstanceTerminal'' q u"
    unfolding can using rel terminal_refs allows_ref [of DefaultSchema _ _ _ _ ?T _ u 18] by (simp_all del: allows.simps add: terminal_kinds) blast+
  have kinds: "PermissionsEntityMap ''OrganizationRead'' = entity_Organization" "PermissionsEntityMap ''ProjectInstanceRead'' = entity_Project"
    "PermissionsEntityMap ''ProjectInstanceTerminal'' = entity_Project" by (simp_all add: terminal_kinds entity_defs)
  have "CheckPermission E W' p r' = Pass" if "p \<in> {''OrganizationRead'', ''ProjectInstanceRead'', ''ProjectInstanceTerminal''}" for p
    using that perms assms(18-20) kinds by (auto simp: CheckPermission_def CheckPermissionForRequest_def Let_def entity_defs)
  moreover have "CheckProjectActive_request E db r' = Pass"
    using assms(1,3,13,16,19,20) by (simp add: CheckProjectActive_request_def canonical_def CheckProjectActive_def ListDeactivations_def calm_simps)
  ultimately show "run_chain E H secret \<lparr>as_iam = W', as_quota = db\<rparr> (rr_chain serial_route) r = Inr r'"
    using assms(17) by (simp add: serial_route_def SharedMiddlewares_def of_verdict_def del: run_Authenticate.simps)
  obtain orow prow where rows: "fmlookup (iw_orgs W') A = Some orow" "\<not> or_deleted orow" "fmlookup (iw_projects W') q = Some prow" "\<not> pj_deleted prow" "pj_orga prow = B"
    using assms(6,14) by (auto simp: W' live_org_def live_project_def)
  have "organization_FindById E A W' = Inr (A, orow)" "project_FindById E q W' = Inr (q, prow)"
    unfolding organization_FindById_def project_FindById_def
    using find_first_by_key [OF assms(1,3) rows(1), of "\<lambda>row. \<not> or_deleted row"] find_first_by_key [OF assms(1,13) rows(3), of "\<lambda>row. \<not> pj_deleted row"] assms(3,13) rows by simp_all
  then show "CheckPathParams E azs W' r' = Inl 400"
    using rows assms(15,19,20) by (simp add: CheckPathParams_def CheckListPathParams_def)
qed

theorem foreign_project_console_reached_witness:
  "run_chain demo_env demo_auth [] demo_state (rr_chain serial_route) demo_request = Inr (demo_request\<lparr>rq_user := Some ''b''\<rparr>) \<and>
   CheckPathParams demo_env fmempty (as_iam demo_state) (demo_request\<lparr>rq_user := Some ''b''\<rparr>) = Inl 400"
proof -
  have "snd (CreateOrUpdateOrganizationGroup demo_env ''o'' demo_body demo_world) = 200" by code_simp
  then have run: "CreateOrUpdateOrganizationGroup demo_env ''o'' demo_body demo_world = (as_iam demo_state, 200)"
    by (simp add: demo_state_def prod_eq_iff)
  have auth: "run_Authenticate demo_auth [''JwtBearerAuth'', ''ApiTokenAuth''] demo_request = Inr (demo_request\<lparr>rq_user := Some ''b''\<rparr>)"
    by (simp add: demo_auth_def)
  have "run_chain demo_env demo_auth [] \<lparr>as_iam = as_iam demo_state, as_quota = as_quota demo_state\<rparr> (rr_chain serial_route) demo_request = Inr (demo_request\<lparr>rq_user := Some ''b''\<rparr>) \<and>
      CheckPathParams demo_env fmempty (as_iam demo_state) (demo_request\<lparr>rq_user := Some ''b''\<rparr>) = Inl 400"
    by (rule foreign_project_console_reached [where B = "''o2''" and t = demo_tenant, OF demo_calm demo_laws _ _ _ _ run _ _ _ _ _ _ _ _ _ auth])
       (simp_all add: demo_canonical uuidNil_def demo_world_def demo_tenant_def demo_body_def live_org_def live_project_def liveProject_def demo_state_def demo_request_def)
  moreover have "\<lparr>as_iam = as_iam demo_state, as_quota = as_quota demo_state\<rparr> = demo_state" by (simp add: demo_state_def)
  ultimately show ?thesis by (simp only:)
qed

text \<open>
  C36. A request path that passes \<^verbatim>\<open>rejectPathTraversal\<close> decodes, its decoded form has exactly the segments of the escaped
  path, each decoded, decoding it once more changes nothing, and none of its segments is a dot segment or holds a backslash: the
  segments a route is matched on are the segments the controller receives.
\<close>

theorem accepted_path_keeps_segments:
  assumes "rejectPathTraversal p = Pass"
  shows "\<exists>d. PathUnescape p = Some d \<and> map Some (split_path d) = map PathUnescape (split_path p) \<and> PathUnescape d = Some d \<and>
    set (split_path d) \<inter> {''.'', ''..''} = {} \<and> CHR 0x5C \<notin> set d"
proof -
  have ok: "\<forall>x\<in>set (split_path p). segment_ok x" using assms by (auto simp: rejectPathTraversal_def list_all_iff split: if_splits)
  define ds where "ds = map (\<lambda>x. the (PathUnescape x)) (split_path p)"
  have seg: "PathUnescape x = Some (the (PathUnescape x))" "the (PathUnescape x) \<notin> {''.'', ''..''}"
    "set (the (PathUnescape x)) \<inter> {CHR ''/'', CHR 0x5C, CHR ''%''} = {}" if "x \<in> set (split_path p)" for x
    using bspec [OF ok that] by (auto simp: segment_ok_def list_all_iff split: option.splits)
  have dec: "PathUnescape p = Some (join_path ds)"
    using PathUnescape_join [of "split_path p" ds] seg(1) by (simp add: ds_def join_split_path list.rel_map list.rel_refl_strong)
  have split: "split_path (join_path ds) = ds" by (rule split_join_path) (use seg(3) in \<open>auto simp: ds_def\<close>)
  have chars: "CHR ''%'' \<notin> set (join_path ds)" "CHR 0x5C \<notin> set (join_path ds)"
    using join_path_chars [of ds] seg(3) by (auto simp: ds_def)
  have "map Some ds = map PathUnescape (split_path p)" "set ds \<inter> {''.'', ''..''} = {}" using seg(1,2) by (simp add: ds_def, fastforce simp: ds_def)
  then show ?thesis using dec split chars PathUnescape_plain by auto
qed

theorem accepted_path_keeps_segments_witness:
  "rejectPathTraversal ''/o/inst%61nce'' = Pass \<and> (\<exists>d. PathUnescape ''/o/inst%61nce'' = Some d \<and> PathUnescape d = Some d)"
proof -
  have "rejectPathTraversal ''/o/inst%61nce'' = Pass" by code_simp
  then show ?thesis using accepted_path_keeps_segments by blast
qed

end
