(* ===== verification/Spec2Isabelle.thy ===== *)
theory Spec2Isabelle
  imports Quota_Properties Quota_Rules Op_Properties Net_Properties Gc_Properties Iam_Properties Api_Properties
begin

text \<open>
  \<^bold>\<open>Superphenix\<close> is a cloud platform on Kubernetes. Its own code is in Go, in four parts:

  \<^item> the \<^emph>\<open>API\<close> (\<^verbatim>\<open>internal/superphenix-api\<close>), which users talk to. It keeps organizations,
    projects and their quotas in a database and forwards requests to the controllers;
  \<^item> one \<^emph>\<open>controller\<close> per availability zone (\<^verbatim>\<open>internal/superphenix-controller\<close>), which turns
    requests into objects of the Kubernetes cluster of its zone;
  \<^item> the \<^emph>\<open>operator\<close> (\<^verbatim>\<open>internal/superphenix-operator\<close>), which deploys and watches the clusters by
    reconciling \<^verbatim>\<open>Cluster\<close> resources with ArgoCD Applications;
  \<^item> shared packages (\<^verbatim>\<open>pkg\<close>), of which the identifier framework \<^verbatim>\<open>pkg/superphenix-id\<close> matters
    here: it names every resource and labels it with its organization and project.

  The development models the quota system end to end (API tables, pushes, controllers), the
  operator's reconciliation of clusters, the networks of a zone as the controller manages them,
  the controller's garbage collection of deleted projects, and who may do what: identity and access
  in the API, and the routes and middlewares every request passes.

  \<^bold>\<open>Conventions\<close> (\<open>Prelude\<close>). A fallible Go function returns \<open>'e + 'a\<close>, with \<open>bindR\<close> and \<open>foldR\<close> for
  the early returns; a Go map is an \<open>fmap\<close>, a loop over one visits the keys in the sorted order
  \<open>gkeys\<close>; an \<^verbatim>\<open>int64\<close> is an \<open>int\<close> whose wrap-around \<open>i64\<close> is written out. State is passed
  explicitly. Code that is not in the repository is an argument: Kubernetes' \<^verbatim>\<open>resource.Quantity\<close>
  (\<open>quantity_lib\<close>, with the laws \<open>quantity_laws\<close>), \<^verbatim>\<open>google/uuid\<close> (\<open>uuid_lib\<close>), the semantic-version
  library (\<open>semver_lib\<close>, \<open>semver_laws\<close>), the permission service Permify (\<open>iam_env\<close>, with the documented
  meaning of a check in \<open>permify_laws\<close>), the validation of tokens (\<open>auth_types\<close>), the Kubernetes API servers, which may fail any call
  (\<open>k8s_env\<close>, \<open>op_env\<close>, \<open>argo_env\<close>, \<open>net_env\<close>, \<open>gc_env\<close>), the network between the API and the controllers, and the Redfish
  controllers of the machines. Every hypothesis on them is met by a concrete instance in
  \<open>Quota_Examples\<close>, \<open>Op_Examples\<close>, \<open>Net_Examples\<close>, \<open>Gc_Properties\<close> and \<open>Iam_Properties\<close>. Of Go's standard library what the code uses is
  modelled, notably the parsers and printers of \<^verbatim>\<open>net\<close> and \<^verbatim>\<open>net/netip\<close>, and those of \<^verbatim>\<open>time\<close> for the layout of the deletion marks.

  \<^bold>\<open>The quota system.\<close>

  \<^item> \<open>Quota_Resources\<close>: \<^verbatim>\<open>pkg/quota/resources.go\<close> of the API, the arithmetic on quantities, which
    saturates at the largest \<^verbatim>\<open>int64\<close>, their parser and printer, and the translation to Kubernetes names.
  \<^item> \<open>Quota_Store\<close>: the tables (\<^verbatim>\<open>internal/db/model\<close>) with soft deletion and the revision sequence,
    and the locale \<open>quota_store\<close> of what the checks rely on, interpreted on the tables.
  \<^item> \<open>Quota_Hierarchy\<close>, \<open>Quota_Writes\<close>, \<open>Quota_Organization\<close>, \<open>Quota_Lifecycle\<close>:
    \<^verbatim>\<open>internal/db/crud/quota/hierarchical.go\<close> and the creation and deletion of projects and
    organizations. \<open>quota_step\<close> is any operation on the tables, \<open>quota_reachable\<close> what they reach;
    \<open>Quota_Invariant\<close>, \<open>Quota_Exact\<close> and \<open>Quota_Revision\<close> hold the invariant that children fit in
    their parent, the exact acceptance conditions, and the order of revisions.
  \<^item> \<open>Spx_Id\<close>: \<^verbatim>\<open>pkg/superphenix-id\<close>.
  \<^item> \<open>Controller_Quota\<close>: \<^verbatim>\<open>internal/k8s/quota\<close> of the controller: pushes with revisions, optimistic
    updates with retries (the client library tries 5 times, the field \<open>c_steps\<close>), and the locale
    \<open>revisioned_store\<close>: in whatever order pushes arrive, the newest revision stays.
  \<^item> \<open>Quota_Sync\<close>: \<^verbatim>\<open>internal/quotasync\<close> and the handlers \<^verbatim>\<open>pkg/services/quota\<close> of the API, which push
    quotas to the zones and answer requests.
  \<^item> \<open>Quota_Properties\<close> (C1 to C3, C5 to C10) and \<open>Quota_Rules\<close> (C4, C17, C27, and rules on texts and answers).

  The reachable states of the quotas are those of requests none of whose values rounds up to the largest
  \<^verbatim>\<open>int64\<close> (\<open>strict_request\<close>): the parser accepts a quantity less than one unit below the limit and rounds it up to the
  limit, from where the sums saturate.

  \<^bold>\<open>The operator\<close> (\<^verbatim>\<open>internal/superphenix-operator/cluster\<close>, \<^verbatim>\<open>version\<close>).

  \<^item> \<open>Op_Types\<close>: the \<^verbatim>\<open>Cluster\<close> resource, ArgoCD objects and Go errors; \<open>Op_Version\<close>: validation and
    compatibility of versions; \<open>Op_Status\<close>: conditions, phases and the status of a pass;
    \<open>Op_Sync\<close>: the periodic sync of the Applications of a cluster against a cache that may lag.
  \<^item> \<open>Op_Connection\<close>: credentials, health, Ceph and the toolbox kubeconfig; \<open>Op_Deploy\<close>: AppProject,
    Application, ConfigMap and cleanup; \<open>Op_Talos\<close>: Talos nodes and their PXE setup.
  \<^item> \<open>Op_Reconcile\<close>: the reconciliation that composes them; \<open>Op_Safety\<close> and \<open>Op_Invariant\<close> the lemmas
    on it, with \<open>op_step\<close> and \<open>op_reachable\<close> for users and reconciliations that interleave.
  \<^item> \<open>Op_Properties\<close> (C11, C13, C16, C18, C21, C22, C34).

  \<^bold>\<open>The network of a zone\<close> (\<^verbatim>\<open>internal/kubeovn\<close>, \<^verbatim>\<open>internal/utils\<close> of the controller).

  \<^item> \<open>Net_Addr\<close>, \<open>Net_IP\<close>: addresses, masks and networks of Go's library, with the round trips between
    them and their texts; \<open>Net_Range\<close>: \<^verbatim>\<open>ip.go\<close>, the address range of a network, containment.
  \<^item> \<open>Net_Objects\<close>: the Kube-OVN objects, the API server and its caches, the labels of a project
    (\<^verbatim>\<open>labels.go\<close>, \<^verbatim>\<open>filter.go\<close>).
  \<^item> \<open>Net_Vpc\<close>: VPCs with their static routes, and NAT gateways; \<open>Net_Subnet\<close>: subnets;
    \<open>Net_LB\<close>: load balancers and the index of their virtual IPs; \<open>Net_Eip\<close>: external IPs with their
    FIP, SNAT and DNAT rules. Each operation is a function from the cluster to the cluster and the
    error it returns.
  \<^item> \<open>Net_Invariant\<close>: what the operations leave alone, the locale \<open>project_guarded\<close> of requests on
    objects of other projects, interpreted on the updates and deletions, and \<open>net_reachable\<close>, the states
    that requests reach; \<open>Net_Targets\<close>: the addresses of an external IP and its removal after a failure.
  \<^item> \<open>Net_Properties\<close> (C28, C30, C37 to C40).

  \<^bold>\<open>Garbage collection\<close> (\<^verbatim>\<open>pkg/gc\<close>, \<^verbatim>\<open>pkg/api/gc\<close>, \<^verbatim>\<open>internal/gc\<close> of the controller). When a project is
  deleted its objects are marked with a time, and a periodic pass removes the marked ones whose time has come.

  \<^item> \<open>Gc_Time\<close>: instants, the calendar, and the printer and parser of the marks with their round trip.
  \<^item> \<open>Gc_Model\<close>: the thirteen cleaners with their two operations, the collector with its three levels, and
    the request that marks a project. The informers' caches are arguments of a pass, and part of the
    state of marking, which writes to them.
  \<^item> \<open>Gc_Lemmas\<close>: the locale \<open>cleaner\<close>, the contract of a cleaner, interpreted on the thirteen, and what follows
    for passes and for marking.
  \<^item> \<open>Gc_Properties\<close> (C14, C24, C31, C32): only due objects are removed, a successful marking is complete and
    stays in its project, and a marked object goes exactly when its time has come.

  \<^bold>\<open>Identity and access\<close> (\<^verbatim>\<open>pkg/permify-wrapper\<close>, \<^verbatim>\<open>pkg/services/iam\<close>, \<^verbatim>\<open>pkg/services/project\<close>, \<^verbatim>\<open>internal/db/crud\<close> and
  \<^verbatim>\<open>internal/authorization\<close> of the API). Groups and members are rows of the database; what users may do is decided by
  Permify, which holds a tenant with relation tuples per organization. Every handler writes to both.

  \<^item> \<open>Iam_Permify\<close>: the catalogue of permissions, the schema, the meaning of a check, and the calls of the wrapper.
  \<^item> \<open>Iam_Service\<close>: queries and handlers of groups, members, projects and organizations; \<open>Iam_Access\<close>: the checks
    of a request. \<open>iam_world\<close> is the state, the record of tables and tenants.
  \<^item> \<open>Iam_Lemmas\<close>: what the operations do when no call fails (\<open>calm\<close>); \<open>Iam_Invariant\<close>: the agreement of tables and
    tenants (\<open>iam_inv\<close>); \<open>Iam_Steps\<close>, \<open>Iam_Lifecycle\<close>, \<open>Iam_Orga\<close>: every handler keeps it; \<open>Iam_Reach\<close>: the states
    that sequences of requests reach, and the access the tables stand for (\<open>db_tuples\<close>). These are requests answered with
    200 where no call fails, with removals by canonical identifiers: other requests can leave the two stores apart.
  \<^item> \<open>Iam_Properties\<close> (C12, C15, C19, C25, C26, C33, C35).

  \<^bold>\<open>Routes\<close> (\<^verbatim>\<open>pkg/router\<close>, \<^verbatim>\<open>pkg/server\<close>, \<^verbatim>\<open>pkg/api\<close>, the \<^verbatim>\<open>service.go\<close> of every service of the API).

  \<^item> \<open>Api_Router\<close>: the registry of modules, overrides and removals, and the routes it builds; \<open>Api_Routes\<close>: the modules of
    all services as data and the two servers; \<open>Api_Guard\<close>: what each middleware does to a request. \<open>route_rights\<close> (in \<open>Api_Properties\<close>) is the policy the table is
    checked against: the permissions a request needs by its method and pattern.
  \<^item> \<open>Api_Properties\<close> (C20, C23, C29, C36).

  \<^bold>\<open>Bounds.\<close> Every function is total; the loops of the code run over finite lists and maps. The only
  retry loop is the one of the client library in \<open>Controller_Quota\<close>, with the number of tries of the
  library. A permission check of Permify is asked with the depth 20 of the code; the schema needs 3.

  \<^bold>\<open>Not modelled.\<close> Generated code (API documentation, deep copies), start-up of servers and clients,
  metrics, consoles and other streams; the handlers that only forward a request; sessions and tokens,
  which rest on the identity provider; the audit log; in the operator the reconcilers of
  organizations, projects and the management stack; in the controller virtual machines, network policies
  and buckets, and the start of the informers.
\<close>

end
